(* ===== verification/Prelude.thy ===== *)
theory Prelude
  imports Complex_Main "HOL-Library.Char_ord" "HOL-Library.List_Lexorder"
begin

text \<open>
  The shared vocabulary of the development: identifiers, clock, money, the error values of
  \<open>internal/pkg/apperr\<close>, the parameters that stand for third-party code, and the
  generic lemmas the component theories use.

  Identifiers. A \<open>uuid\<close> is its canonical 36-character text (what \<open>uuid.UUID.String\<close>
  prints); the code compares and orders UUIDs by that text only.

  Time is counted in milliseconds since the epoch. A WIB (Asia/Jakarta, UTC+7, no daylight
  saving) calendar date is the number of days since the epoch in that zone.

  Money is \<open>decimal.Decimal\<close>, an exact decimal: addition, subtraction and comparison are
  those of the rationals.
\<close>

type_synonym uuid = string
type_synonym time = nat
type_synonym decimal = rat
type_synonym date = nat

definition seconds :: "nat \<Rightarrow> time" where
  "seconds n = 1000 * n"

definition minutes :: "nat \<Rightarrow> time" where
  "minutes n = seconds (60 * n)"

definition hours :: "nat \<Rightarrow> time" where
  "hours n = minutes (60 * n)"

lemmas duration_defs = seconds_def minutes_def hours_def

definition wib_date :: "time \<Rightarrow> date" where
  "wib_date t = (t + hours 7) div hours 24"

definition wib_time :: "time \<Rightarrow> nat" where
  "wib_time t = (t + hours 7) mod hours 24 div 1000"

text \<open>\<open>uuid.Nil\<close>, the zero value of a UUID.\<close>

definition uuid_nil :: uuid where
  "uuid_nil = ''00000000-0000-0000-0000-000000000000''"

named_theorems row_simps \<open>effect of the table updates on the rows and columns a proof reads\<close>
named_theorems kv_laws \<open>effect of the key-value commands on the visible keys\<close>
named_theorems key_simps \<open>keys of different keyspaces are different\<close>

subsection \<open>Columns of type DECIMAL(18,2)\<close>

text \<open>
  PostgreSQL stores an exact decimal into a \<open>DECIMAL(18,2)\<close> column rounded to two places,
  ties away from zero. A value that already has two places is stored unchanged.
\<close>

definition num2 :: "decimal \<Rightarrow> decimal" where
  "num2 x = (if 0 \<le> x then of_int \<lfloor>x * 100 + 1/2\<rfloor> / 100 else - (of_int \<lfloor>- x * 100 + 1/2\<rfloor> / 100))"

definition sen :: "decimal \<Rightarrow> bool" where
  "sen x \<longleftrightarrow> of_int \<lfloor>x * 100\<rfloor> = x * 100"

lemma sen_iff: "sen x \<longleftrightarrow> (\<exists>k::int. x = of_int k / 100)"
proof
  assume "sen x"
  then have eq: "of_int \<lfloor>x * 100\<rfloor> = x * 100" by (simp only: sen_def)
  have "x = of_int \<lfloor>x * 100\<rfloor> / 100" unfolding eq by simp
  then show "\<exists>k::int. x = of_int k / 100" by blast
next
  assume "\<exists>k::int. x = of_int k / 100"
  then obtain k :: int where "x * 100 = of_int k" by auto
  then show "sen x" unfolding sen_def by (metis floor_of_int)
qed

lemma sen_add [intro]: "sen x \<Longrightarrow> sen y \<Longrightarrow> sen (x + y)"
  by (auto simp: sen_iff simp flip: add_divide_distrib of_int_add)

lemma sen_diff [intro]: "sen x \<Longrightarrow> sen y \<Longrightarrow> sen (x - y)"
  by (auto simp: sen_iff simp flip: diff_divide_distrib of_int_diff)

lemma sen_zero [simp, intro]: "sen 0"
  by (simp add: sen_def)

lemma sen_of_int [simp, intro]: "sen (of_int k)"
  unfolding sen_iff by (rule exI [of _ "k * 100"]) simp

lemma floor_half: "\<lfloor>of_int k + (1/2 :: rat)\<rfloor> = k"
  by (rule floor_unique) auto

lemma num2_sen [simp]: "sen x \<Longrightarrow> num2 x = x"
proof -
  assume "sen x"
  then obtain k where k: "x = of_int k / 100" by (auto simp: sen_iff)
  have pos: "\<lfloor>x * 100 + 1/2\<rfloor> = k" using k by (simp add: floor_half)
  have "- x * 100 + 1/2 = of_int (- k) + 1/2" using k by simp
  then have neg: "\<lfloor>- x * 100 + 1/2\<rfloor> = - k" by (simp only: floor_half)
  show ?thesis unfolding num2_def pos neg using k by simp
qed

lemma sen_num2 [simp, intro]: "sen (num2 x)"
proof (cases "0 \<le> x")
  case True
  then show ?thesis by (auto simp: num2_def sen_iff)
next
  case False
  then have "num2 x = of_int (- \<lfloor>- x * 100 + 1/2\<rfloor>) / 100" by (simp add: num2_def)
  then show ?thesis unfolding sen_iff by blast
qed

subsection \<open>JSON\<close>

text \<open>
  The tree of a JSON document; \<open>JDec d\<close> is the JSON string that holds the decimal numeral of \<open>d\<close> and \<open>JTime t\<close> the
  JSON string that holds the RFC 3339 instant \<open>t\<close>.
\<close>

datatype json =
    JNull
  | JBool bool
  | JInt int
  | JStr string
  | JDec decimal
  | JTime time
  | JArr "json list"
  | JObj "(string \<times> json) list"

subsection \<open>Errors\<close>

text \<open>
  The \<open>apperr.Error\<close> values that the modelled handlers return, under the names of their Go
  variables. Everything else a Go function returns as an error (a failed query, a failed Redis
  command, a wrapped driver error) reaches the client as \<open>InternalError\<close> through \<open>apperr.From\<close>.
  An error of the other services is \<open>Coded\<close> with its status, its code and its details, under an abbreviation named like the
  variable. \<open>LimitExceeded\<close> carries the details of the transfer executor: daily limit, used today, remaining.
\<close>

datatype app_err =
    ValidationError
  | VerificationTokenInvalid
  | SourceAccountForbidden
  | NotFound
  | TransferAccountNotFound
  | EWalletAccountNotFound
  | IdempotencyConflict
  | InquiryExpired
  | InquiryMismatch
  | InsufficientBalance
  | TransferLimitExceeded
  | LimitExceeded decimal decimal decimal
  | SelfTransfer
  | EWalletInsufficientBalance
  | AmountOutOfRange decimal decimal
  | QRISInvalidPayload
  | QRISInsufficientBalance
  | QRISLimitExceeded
  | EWalletProviderDown
  | InternalError
  | Coded nat string "(string \<times> json) list"

fun http_status :: "app_err \<Rightarrow> nat" where
  "http_status ValidationError = 400"
| "http_status QRISInvalidPayload = 400"
| "http_status VerificationTokenInvalid = 401"
| "http_status SourceAccountForbidden = 403"
| "http_status NotFound = 404"
| "http_status TransferAccountNotFound = 404"
| "http_status EWalletAccountNotFound = 404"
| "http_status IdempotencyConflict = 409"
| "http_status InquiryExpired = 422"
| "http_status InquiryMismatch = 422"
| "http_status InsufficientBalance = 422"
| "http_status TransferLimitExceeded = 422"
| "http_status (LimitExceeded _ _ _) = 422"
| "http_status SelfTransfer = 422"
| "http_status EWalletInsufficientBalance = 422"
| "http_status (AmountOutOfRange _ _) = 422"
| "http_status QRISInsufficientBalance = 422"
| "http_status QRISLimitExceeded = 422"
| "http_status EWalletProviderDown = 503"
| "http_status InternalError = 500"
| "http_status (Coded n c details) = n"

subsection \<open>Third-party code\<close>

text \<open>
  What the modelled code calls and the repository does not contain, as one record of functions:
  \<open>uuid.Parse\<close>, the SHA-256 hex digest, the decimal library's \<open>NewFromString\<close> and
  \<open>StringFixed(2)\<close>, the RFC 3339 rendering of an instant, PostgreSQL's
  \<open>abs(hashtext(key)) % 16\<close> and \<open>to_char(date, 'YYYYMMDD')\<close>. A property that relies on a law
  of one of them states it as a hypothesis.
\<close>

record lib =
  parse_uuid :: "string \<Rightarrow> uuid option"
  sha256_hex :: "string \<Rightarrow> string"
  parse_decimal :: "string \<Rightarrow> decimal option"
  string_fixed2 :: "decimal \<Rightarrow> string"
  rfc3339 :: "time \<Rightarrow> string"
  shard_hash :: "uuid \<Rightarrow> nat"
  yyyymmdd :: "date \<Rightarrow> string"

subsection \<open>Lists of rows\<close>

lemma find_Some_D: "find P xs = Some x \<Longrightarrow> x \<in> set xs \<and> P x"
  by (induction xs) (auto split: if_splits)

lemma find_None_D: "find P xs = None \<Longrightarrow> x \<in> set xs \<Longrightarrow> \<not> P x"
  by (simp add: find_None_iff)

lemma find_cong_rows:
  "(\<And>x. x \<in> set xs \<Longrightarrow> P x = Q x) \<Longrightarrow> find P xs = find Q xs"
  by (induction xs) auto

text \<open>A row is the only one with its key when the keys of the table are distinct.\<close>

lemma distinct_key_unique:
  "distinct (map k xs) \<Longrightarrow> x \<in> set xs \<Longrightarrow> y \<in> set xs \<Longrightarrow> k x = k y \<Longrightarrow> x = y"
  by (auto simp: distinct_map inj_on_def)

lemma find_by_key:
  "distinct (map k xs) \<Longrightarrow> x \<in> set xs \<Longrightarrow> find (\<lambda>y. k y = k x) xs = Some x"
  by (induction xs) (auto simp: image_iff)

end
