(* ===== verification/Redis.thy ===== *)
theory Redis
  imports Prelude
begin

text \<open>
  The Redis commands the repositories under \<open>internal/repository/redis\<close> and
  \<open>internal/pkg/idempotency\<close> send, as an interface. Redis itself is not part of the program:
  a \<open>redis_api\<close> is a parameter of every definition that talks to it, and the locale
  \<open>redis_contract\<close> states what its documentation promises of each command. Every command may
  answer \<open>Fault\<close> (a lost connection, a timeout); nothing is promised then but that no other
  key is touched and that the command was applied entirely or not at all.

  \<open>live s t k\<close> is the value a reader sees under key \<open>k\<close> at time \<open>t\<close> in server state \<open>s\<close>.
\<close>

subsection \<open>Stored values\<close>

text \<open>A value is a string, a counter, or the text of a JSON document, kept as its tree.\<close>

datatype rval = RText string | RNum int | RJson json

subsection \<open>Commands\<close>

datatype 'a reply = Reply 'a | Fault

record 's redis_api =
  api_get :: "time \<Rightarrow> string \<Rightarrow> 's \<Rightarrow> rval option reply \<times> 's"
  api_setnx :: "time \<Rightarrow> string \<Rightarrow> rval \<Rightarrow> time \<Rightarrow> 's \<Rightarrow> bool reply \<times> 's"
  api_set :: "time \<Rightarrow> string \<Rightarrow> rval \<Rightarrow> time \<Rightarrow> 's \<Rightarrow> unit reply \<times> 's"
  api_getdel :: "time \<Rightarrow> string \<Rightarrow> 's \<Rightarrow> rval option reply \<times> 's"
  api_del :: "time \<Rightarrow> string \<Rightarrow> 's \<Rightarrow> unit reply \<times> 's"
  api_incr :: "time \<Rightarrow> string \<Rightarrow> 's \<Rightarrow> int reply \<times> 's"

text \<open>What a key shows after a write with a time to live and after a deletion.\<close>

definition shows_put :: "rval \<Rightarrow> time \<Rightarrow> time \<Rightarrow> time \<Rightarrow> rval option" where
  "shows_put v t ttl t' = (if t' < t + ttl then Some v else None)"

lemma shows_put_simps [simp]:
  "t' < t + ttl \<Longrightarrow> shows_put v t ttl t' = Some v"
  "t + ttl \<le> t' \<Longrightarrow> shows_put v t ttl t' = None"
  by (simp_all add: shows_put_def)

locale redis_contract =
  fixes R :: "'s redis_api"
    and live :: "'s \<Rightarrow> time \<Rightarrow> string \<Rightarrow> rval option"
  assumes expired_stays: "live s t k = None \<Longrightarrow> t \<le> t' \<Longrightarrow> live s t' k = None"
    and get_reply: "api_get R t k s = (Reply w, s') \<Longrightarrow> w = live s t k"
    and get_frame: "api_get R t k s = (rg, s') \<Longrightarrow> t \<le> t' \<Longrightarrow> live s' t' k' = live s t' k'"
    and setnx_reply: "api_setnx R t k v ttl s = (Reply b, s') \<Longrightarrow> b \<longleftrightarrow> live s t k = None"
    and setnx_new: "api_setnx R t k v ttl s = (Reply True, s') \<Longrightarrow> t \<le> t' \<Longrightarrow>
          live s' t' k = shows_put v t ttl t'"
    and setnx_old: "api_setnx R t k v ttl s = (Reply False, s') \<Longrightarrow> t \<le> t' \<Longrightarrow>
          live s' t' k = live s t' k"
    and setnx_frame: "api_setnx R t k v ttl s = (rb, s') \<Longrightarrow> k' \<noteq> k \<Longrightarrow> t \<le> t' \<Longrightarrow>
          live s' t' k' = live s t' k'"
    and setnx_fault: "api_setnx R t k v ttl s = (Fault, s') \<Longrightarrow>
          (\<forall>t' \<ge> t. live s' t' k = live s t' k) \<or>
          live s t k = None \<and> (\<forall>t' \<ge> t. live s' t' k = shows_put v t ttl t')"
    and set_reply: "api_set R t k v ttl s = (Reply u, s') \<Longrightarrow> t \<le> t' \<Longrightarrow>
          live s' t' k = shows_put v t ttl t'"
    and set_frame: "api_set R t k v ttl s = (ru, s') \<Longrightarrow> k' \<noteq> k \<Longrightarrow> t \<le> t' \<Longrightarrow>
          live s' t' k' = live s t' k'"
    and set_fault: "api_set R t k v ttl s = (Fault, s') \<Longrightarrow>
          (\<forall>t' \<ge> t. live s' t' k = live s t' k) \<or>
          (\<forall>t' \<ge> t. live s' t' k = shows_put v t ttl t')"
    and getdel_reply: "api_getdel R t k s = (Reply w, s') \<Longrightarrow> w = live s t k"
    and getdel_gone: "api_getdel R t k s = (Reply w, s') \<Longrightarrow> t \<le> t' \<Longrightarrow> live s' t' k = None"
    and getdel_frame: "api_getdel R t k s = (rg, s') \<Longrightarrow> k' \<noteq> k \<Longrightarrow> t \<le> t' \<Longrightarrow>
          live s' t' k' = live s t' k'"
    and getdel_fault: "api_getdel R t k s = (Fault, s') \<Longrightarrow>
          (\<forall>t' \<ge> t. live s' t' k = live s t' k) \<or> (\<forall>t' \<ge> t. live s' t' k = None)"
    and del_gone: "api_del R t k s = (Reply u, s') \<Longrightarrow> t \<le> t' \<Longrightarrow> live s' t' k = None"
    and del_frame: "api_del R t k s = (ru, s') \<Longrightarrow> k' \<noteq> k \<Longrightarrow> t \<le> t' \<Longrightarrow>
          live s' t' k' = live s t' k'"
    and del_fault: "api_del R t k s = (Fault, s') \<Longrightarrow>
          (\<forall>t' \<ge> t. live s' t' k = live s t' k) \<or> (\<forall>t' \<ge> t. live s' t' k = None)"
    and incr_frame: "api_incr R t k s = (ri, s') \<Longrightarrow> k' \<noteq> k \<Longrightarrow> t \<le> t' \<Longrightarrow>
          live s' t' k' = live s t' k'"
    and incr_reply: "api_incr R t k s = (Reply n, s') \<Longrightarrow>
          live s' t k = Some (RNum n) \<and>
          (case live s t k of None \<Rightarrow> n = 1 | Some (RNum m) \<Rightarrow> n = m + 1 | Some _ \<Rightarrow> False)"
begin

lemmas frames [kv_laws] = get_frame setnx_frame set_frame getdel_frame del_frame incr_frame

text \<open>A deletion, successful or not, never makes a key appear.\<close>

lemma del_never_creates:
  assumes "api_del R t k s = (r, s')" "t \<le> t'" "live s' t' k = Some v"
  shows "live s t' k = Some v"
proof (cases r)
  case (Reply u)
  then show ?thesis using assms del_gone [of t k s u s' t'] by simp
next
  case Fault
  then show ?thesis using assms del_fault [of t k s s'] by auto
qed

end

subsection \<open>A reference server\<close>

text \<open>
  A server that implements the contract: a table of values with an expiry (none for a counter
  without one), whose commands on the keys selected by \<open>down\<close> fail at the times \<open>down\<close> says,
  without effect. It shows that the contract can be met, with and without faults.
\<close>

type_synonym mem = "string \<Rightarrow> (rval \<times> time option) option"

definition mem_live :: "mem \<Rightarrow> time \<Rightarrow> string \<Rightarrow> rval option" where
  "mem_live s t k = (case s k of
      None \<Rightarrow> None
    | Some (v, None) \<Rightarrow> Some v
    | Some (v, Some e) \<Rightarrow> if t < e then Some v else None)"

fun mem_expiry :: "mem \<Rightarrow> string \<Rightarrow> time option" where
  "mem_expiry s k = (case s k of None \<Rightarrow> None | Some (_, e) \<Rightarrow> e)"

definition mem_redis :: "(time \<Rightarrow> string \<Rightarrow> bool) \<Rightarrow> mem redis_api" where
  "mem_redis down = \<lparr>
     api_get = (\<lambda>t k s. if down t k then (Fault, s) else (Reply (mem_live s t k), s)),
     api_setnx = (\<lambda>t k v ttl s. if down t k then (Fault, s)
       else if mem_live s t k = None then (Reply True, s(k := Some (v, Some (t + ttl))))
       else (Reply False, s)),
     api_set = (\<lambda>t k v ttl s. if down t k then (Fault, s)
       else (Reply (), s(k := Some (v, Some (t + ttl))))),
     api_getdel = (\<lambda>t k s. if down t k then (Fault, s)
       else (Reply (mem_live s t k), s(k := None))),
     api_del = (\<lambda>t k s. if down t k then (Fault, s) else (Reply (), s(k := None))),
     api_incr = (\<lambda>t k s. if down t k then (Fault, s)
       else (case mem_live s t k of
           None \<Rightarrow> (Reply 1, s(k := Some (RNum 1, None)))
         | Some (RNum n) \<Rightarrow> (Reply (n + 1), s(k := Some (RNum (n + 1), mem_expiry s k)))
         | Some _ \<Rightarrow> (Fault, s))) \<rparr>"

lemmas mem_redis_simps = mem_redis_def mem_live_def shows_put_def

interpretation mem: redis_contract "mem_redis down" mem_live for down
  by unfold_locales
    (auto simp: mem_redis_simps split: option.splits if_splits prod.splits rval.splits)

definition mem_ok :: "mem redis_api" where
  "mem_ok = mem_redis (\<lambda>_ _. False)"

end
