(* ===== verification/Entities.thy ===== *)
theory Entities
  imports Redis "HOL-Library.Monad_Syntax"
begin

text \<open>
  The data of the money paths: the structs of \<open>internal/domain/transaction/entity.go\<close> and
  \<open>repository.go\<close>, one record per struct with the source's field order, the closed tables of
  purposes and transfer types, and the JSON documents the caches keep of them. A Go pointer field
  is an option.
\<close>

subsection \<open>Rows\<close>

record inquiry =
  iq_id :: uuid
  iq_user :: uuid
  iq_type :: string
  iq_dest :: string
  iq_dest_name :: "string option"
  iq_dest_bank :: "string option"
  iq_bank_code :: "string option"
  iq_provider :: "string option"
  iq_amount :: "decimal option"
  iq_fee :: "decimal option"
  iq_metadata :: "(string \<times> json) list option"
  iq_expires :: time
  iq_used :: "time option"
  iq_created :: time

record transaction =
  tx_id :: uuid
  tx_idem :: "string option"
  tx_user :: uuid
  tx_source :: "uuid option"
  tx_dest_id :: "uuid option"
  tx_type :: string
  tx_status :: string
  tx_amount :: decimal
  tx_fee :: decimal
  tx_total :: decimal
  tx_currency :: string
  tx_ref :: string
  tx_desc :: "string option"
  tx_notes :: "string option"
  tx_dest :: "string option"
  tx_dest_name :: "string option"
  tx_dest_bank :: "string option"
  tx_dest_bank_code :: "string option"
  tx_provider_id :: "string option"
  tx_provider_name :: "string option"
  tx_provider_ref :: "string option"
  tx_created :: time
  tx_processed :: "time option"
  tx_completed :: "time option"
  tx_expired :: "time option"

datatype mutation_type = DEBIT | CREDIT

record mutation =
  mu_id :: uuid
  mu_account :: uuid
  mu_txn :: "uuid option"
  mu_type :: mutation_type
  mu_amount :: decimal
  mu_before :: decimal
  mu_after :: decimal
  mu_desc :: string
  mu_detail :: "string option"
  mu_category :: "string option"
  mu_ref :: "string option"
  mu_date :: date
  mu_time :: nat
  mu_created :: time

record verification_token =
  vt_id :: uuid
  vt_user :: uuid
  vt_hash :: string
  vt_purpose :: string
  vt_txn :: "uuid option"
  vt_expires :: time
  vt_used :: "time option"
  vt_created :: time

record favorite_transfer =
  fv_user :: uuid
  fv_dest :: string
  fv_dest_name :: string
  fv_dest_bank :: string
  fv_bank_code :: string
  fv_type :: string
  fv_count :: nat
  fv_last :: "time option"

subsection \<open>Requests and responses\<close>

record inquiry_request =
  ir_dest :: string
  ir_dest_bank :: string
  ir_bank_code :: string
  ir_type :: string
  ir_amount :: int
  ir_notes :: string

record inquiry_response =
  is_id :: string
  is_dest :: string
  is_dest_name :: string
  is_dest_bank :: string
  is_bank_code :: string
  is_type :: string
  is_fee :: decimal
  is_expires_in :: nat

record execute_request =
  er_inquiry :: string
  er_source :: string
  er_dest :: string
  er_bank_code :: string
  er_type :: string
  er_amount :: int
  er_notes :: string
  er_vtoken :: string
  er_idem :: string

record transfer_response =
  tr_txn :: string
  tr_ref :: string
  tr_status :: string
  tr_amount :: string
  tr_fee :: string
  tr_total :: string
  tr_src_number :: string
  tr_src_name :: string
  tr_dst_number :: string
  tr_dst_name :: string
  tr_dst_bank :: string
  tr_notes :: string
  tr_created :: string

record pin_verify_response =
  pv_token :: string
  pv_expires_in :: nat

record execute_params =
  ep_idem :: string
  ep_user :: uuid
  ep_source :: uuid
  ep_inquiry :: inquiry
  ep_transfer_type :: string
  ep_txn_type :: string
  ep_limit_type :: string
  ep_amount :: decimal
  ep_fee :: decimal
  ep_total :: decimal
  ep_notes :: string
  ep_wib_date :: date
  ep_wib_time :: nat

record affected_party =
  af_user :: uuid
  af_account :: uuid

subsection \<open>Closed tables\<close>

definition valid_purposes :: "string list" where
  "valid_purposes = [''TRANSFER'', ''EWALLET_TOPUP'', ''QRIS_PAYMENT'', ''CHANGE_LIMIT'',
     ''CHANGE_PIN'', ''CHANGE_PROFILE'', ''BLOCK_CARD'', ''REPLACE_CARD'']"

definition valid_transfer_types :: "string list" where
  "valid_transfer_types = [''INTERNAL'', ''EXTERNAL'', ''VIRTUAL_ACCOUNT'']"

text \<open>Indexing a Go map with a missing key gives the zero value, the empty string.\<close>

definition transfer_type_limit :: "string \<Rightarrow> string" where
  "transfer_type_limit t = (case map_of [(''INTERNAL'', ''TRANSFER_INTERNAL''),
     (''EXTERNAL'', ''TRANSFER_EXTERNAL''), (''VIRTUAL_ACCOUNT'', ''TRANSFER_EXTERNAL'')] t of
       None \<Rightarrow> '''' | Some s \<Rightarrow> s)"

definition transfer_type_txn :: "string \<Rightarrow> string" where
  "transfer_type_txn t = (case map_of [(''INTERNAL'', ''TRANSFER_INTERNAL''),
     (''EXTERNAL'', ''TRANSFER_EXTERNAL''), (''VIRTUAL_ACCOUNT'', ''TRANSFER_EXTERNAL'')] t of
       None \<Rightarrow> '''' | Some s \<Rightarrow> s)"

definition inquiry_cache_ttl :: time where
  "inquiry_cache_ttl = minutes 5"

definition verification_token_ttl :: time where
  "verification_token_ttl = seconds 120"

definition recent_transfers_ttl :: time where
  "recent_transfers_ttl = minutes 5"

definition receipt_cache_ttl :: time where
  "receipt_cache_ttl = hours 24"

lemmas ttl_defs = inquiry_cache_ttl_def verification_token_ttl_def recent_transfers_ttl_def
  receipt_cache_ttl_def duration_defs

subsection \<open>Reading a JSON object into a struct\<close>

text \<open>
  \<open>encoding/json\<close> leaves a field that is absent or null at its zero value, fails when the value
  has another type than the field, and ignores members the struct does not have.
\<close>

definition get_str :: "(string \<times> json) list \<Rightarrow> string \<Rightarrow> string option" where
  "get_str ob k = (case map_of ob k of
      None \<Rightarrow> Some '''' | Some JNull \<Rightarrow> Some '''' | Some (JStr s) \<Rightarrow> Some s | Some _ \<Rightarrow> None)"

definition get_ostr :: "(string \<times> json) list \<Rightarrow> string \<Rightarrow> string option option" where
  "get_ostr ob k = (case map_of ob k of
      None \<Rightarrow> Some None | Some JNull \<Rightarrow> Some None | Some (JStr s) \<Rightarrow> Some (Some s) | Some _ \<Rightarrow> None)"

definition get_odec :: "(string \<times> json) list \<Rightarrow> string \<Rightarrow> decimal option option" where
  "get_odec ob k = (case map_of ob k of
      None \<Rightarrow> Some None | Some JNull \<Rightarrow> Some None | Some (JDec d) \<Rightarrow> Some (Some d) | Some _ \<Rightarrow> None)"

definition get_time :: "(string \<times> json) list \<Rightarrow> string \<Rightarrow> time option" where
  "get_time ob k = (case map_of ob k of Some (JTime t) \<Rightarrow> Some t | _ \<Rightarrow> None)"

definition get_obj :: "(string \<times> json) list \<Rightarrow> string \<Rightarrow> (string \<times> json) list option" where
  "get_obj ob k = (case map_of ob k of
      None \<Rightarrow> Some [] | Some JNull \<Rightarrow> Some [] | Some (JObj p) \<Rightarrow> Some p | Some _ \<Rightarrow> None)"

definition jopt :: "('a \<Rightarrow> json) \<Rightarrow> 'a option \<Rightarrow> json" where
  "jopt f x = (case x of None \<Rightarrow> JNull | Some y \<Rightarrow> f y)"

lemmas json_get_defs = get_str_def get_ostr_def get_odec_def get_time_def get_obj_def jopt_def

text \<open>The stored response of a transfer.\<close>

definition encode_transfer_response :: "transfer_response \<Rightarrow> json" where
  "encode_transfer_response r = JObj ([
     (''transaction_id'', JStr (tr_txn r)),
     (''reference_number'', JStr (tr_ref r)),
     (''status'', JStr (tr_status r)),
     (''amount'', JStr (tr_amount r)),
     (''admin_fee'', JStr (tr_fee r)),
     (''total'', JStr (tr_total r)),
     (''source'', JObj [(''account_number'', JStr (tr_src_number r)), (''name'', JStr (tr_src_name r))]),
     (''destination'', JObj [(''account_number'', JStr (tr_dst_number r)),
        (''name'', JStr (tr_dst_name r)), (''bank'', JStr (tr_dst_bank r))]),
     (''created_at'', JStr (tr_created r))]
     @ (if tr_notes r = '''' then [] else [(''notes'', JStr (tr_notes r))]))"

definition decode_transfer_response :: "json \<Rightarrow> transfer_response option" where
  "decode_transfer_response j = (case j of JObj p \<Rightarrow> do {
      txn \<leftarrow> get_str p ''transaction_id'';
      ref \<leftarrow> get_str p ''reference_number'';
      st \<leftarrow> get_str p ''status'';
      am \<leftarrow> get_str p ''amount'';
      fee \<leftarrow> get_str p ''admin_fee'';
      tot \<leftarrow> get_str p ''total'';
      src \<leftarrow> get_obj p ''source'';
      sn \<leftarrow> get_str src ''account_number'';
      snm \<leftarrow> get_str src ''name'';
      dst \<leftarrow> get_obj p ''destination'';
      dn \<leftarrow> get_str dst ''account_number'';
      dnm \<leftarrow> get_str dst ''name'';
      db \<leftarrow> get_str dst ''bank'';
      nt \<leftarrow> get_str p ''notes'';
      cr \<leftarrow> get_str p ''created_at'';
      Some \<lparr>tr_txn = txn, tr_ref = ref, tr_status = st, tr_amount = am, tr_fee = fee, tr_total = tot,
        tr_src_number = sn, tr_src_name = snm, tr_dst_number = dn, tr_dst_name = dnm,
        tr_dst_bank = db, tr_notes = nt, tr_created = cr\<rparr> }
    | _ \<Rightarrow> None)"

lemma decode_encode_transfer_response [simp]:
  "decode_transfer_response (encode_transfer_response r) = Some r"
  by (simp add: decode_transfer_response_def encode_transfer_response_def json_get_defs)

end
