(* ===== verification/Ledger.thy ===== *)
theory Ledger
  imports Entities
begin

text \<open>
  The PostgreSQL tables of the money paths (\<open>migrations/000002\<close>, \<open>000003\<close>, \<open>000004\<close> and
  \<open>000009\<close>) and the SQL statements the executors share, as a transaction monad over the
  database state: a statement may fail, a failed transaction is rolled back as a whole, and
  transactions are isolated from one another (\<open>SERIALIZABLE\<close>), so an attempt is one step.

  Each statement of an attempt may fail with the error \<open>at_fault\<close> gives for it: a serialization
  failure (SQLSTATE 40001), which the executors retry, or any other driver or database error.
\<close>

subsection \<open>Tables\<close>

datatype owner_type = CUSTOMER | INTERNAL

datatype account_status = ACTIVE | DORMANT | FROZEN | CLOSED

record account =
  ac_id :: uuid
  ac_user :: "uuid option"
  ac_number :: string
  ac_type :: string
  ac_label :: string
  ac_balance :: decimal
  ac_hold :: decimal
  ac_primary :: bool
  ac_status :: account_status
  ac_opened :: time
  ac_owner :: owner_type
  ac_rail :: "string option"
  ac_shard :: "nat option"

record usage =
  us_user :: uuid
  us_date :: date
  us_type :: string
  us_total :: decimal
  us_count :: nat

record limit_row =
  li_user :: uuid
  li_type :: string
  li_daily :: decimal
  li_monthly :: "decimal option"
  li_per_txn :: "decimal option"

record provider =
  pr_id :: string
  pr_name :: string
  pr_icon :: "string option"
  pr_active :: bool
  pr_min :: decimal
  pr_max :: decimal
  pr_fee :: decimal
  pr_presets :: "int list"
  pr_sort :: int

record db =
  accounts :: "account list"
  transactions :: "transaction list"
  mutations :: "mutation list"
  daily_usage :: "usage list"
  transaction_limits :: "limit_row list"
  transfer_inquiries :: "inquiry list"
  verification_tokens :: "verification_token list"
  favorite_transfers :: "favorite_transfer list"
  ewallet_providers :: "provider list"
  ref_seq :: nat

subsection \<open>Transactions\<close>

datatype pg_err = SerializationFailure | OtherPg

datatype exec_err = EPg pg_err | EUnique | ENoRows | EApp app_err

datatype stmt =
    SBegin
  | SResolveDest
  | SSettlement string
  | SLock uuid
  | SDailyUsage
  | SDailyLimit
  | SPerTxnLimit
  | SUpdateBalance uuid
  | SRefNumber
  | SInsertTxn
  | SInsertMutation uuid
  | SUpsertUsage
  | SFetchExisting

text \<open>
  The reply to COMMIT: committed, not committed with an error, or lost, where the database
  committed but the connection broke before the client heard of it.
\<close>

datatype commit_reply = Committed | NotCommitted pg_err | CommitLost

text \<open>
  What one attempt draws from its environment: the fresh transaction id, the clock, the id the
  database generates for the mutation of an account, the faults, the reply to COMMIT, and
  whether the wait before the next attempt ends with the request still alive.
\<close>

record attempt =
  at_txn_id :: uuid
  at_now :: time
  at_mut_id :: "uuid \<Rightarrow> uuid"
  at_fault :: "stmt \<Rightarrow> pg_err option"
  at_commit :: commit_reply
  at_alive :: bool

type_synonym 'a tx = "db \<Rightarrow> (exec_err + 'a) \<times> db"

definition tx_return :: "'a \<Rightarrow> 'a tx" where
  "tx_return x d = (Inr x, d)"

definition tx_throw :: "exec_err \<Rightarrow> 'a tx" where
  "tx_throw e d = (Inl e, d)"

definition tx_bind :: "'a tx \<Rightarrow> ('a \<Rightarrow> 'b tx) \<Rightarrow> 'b tx" where
  "tx_bind m f d = (case m d of (Inl e, d1) \<Rightarrow> (Inl e, d1) | (Inr x, d1) \<Rightarrow> f x d1)"

definition tx_seq :: "'a tx \<Rightarrow> 'b tx \<Rightarrow> 'b tx" where
  "tx_seq m n = tx_bind m (\<lambda>_. n)"

definition tx_read :: "(db \<Rightarrow> 'a) \<Rightarrow> 'a tx" where
  "tx_read f d = (Inr (f d), d)"

definition tx_write :: "(db \<Rightarrow> db) \<Rightarrow> unit tx" where
  "tx_write f d = (Inr (), f d)"

definition tx_when :: "bool \<Rightarrow> unit tx \<Rightarrow> unit tx" where
  "tx_when b m = (if b then m else tx_return ())"

text \<open>A statement is sent to the server: the fault chosen for it, or nothing.\<close>

definition tx_stmt :: "attempt \<Rightarrow> stmt \<Rightarrow> unit tx" where
  "tx_stmt A st d = (case at_fault A st of None \<Rightarrow> (Inr (), d) | Some e \<Rightarrow> (Inl (EPg e), d))"

lemmas tx_defs = tx_return_def tx_throw_def tx_bind_def tx_seq_def tx_read_def tx_write_def
  tx_when_def tx_stmt_def

lemma tx_bind_Inr [simp]:
  "tx_bind m f d = (Inr y, d') \<longleftrightarrow> (\<exists>x d1. m d = (Inr x, d1) \<and> f x d1 = (Inr y, d'))"
  by (auto simp: tx_bind_def split: prod.splits sum.splits)

lemma tx_seq_Inr [simp]:
  "tx_seq m n d = (Inr y, d') \<longleftrightarrow> (\<exists>x d1. m d = (Inr x, d1) \<and> n d1 = (Inr y, d'))"
  by (simp add: tx_seq_def)

lemma tx_simps [simp]:
  "tx_return x d = (Inr y, d') \<longleftrightarrow> y = x \<and> d' = d"
  "tx_throw e d = (Inr y, d') \<longleftrightarrow> False"
  "tx_read g d = (Inr z, d') \<longleftrightarrow> z = g d \<and> d' = d"
  "tx_write h d = (Inr u, d') \<longleftrightarrow> d' = h d"
  "tx_stmt A st d = (Inr u, d') \<longleftrightarrow> at_fault A st = None \<and> d' = d"
  by (auto simp: tx_defs split: option.splits)

text \<open>
  ROLLBACK restores every table; a sequence is not transactional, the numbers it gave out are
  gone.
\<close>

definition rollback :: "db \<Rightarrow> db \<Rightarrow> db" where
  "rollback d d1 = d\<lparr>ref_seq := ref_seq d1\<rparr>"

definition tx_finish :: "attempt \<Rightarrow> 'a tx \<Rightarrow> 'a tx" where
  "tx_finish A m d = (case m d of
      (Inl e, d1) \<Rightarrow> (Inl e, rollback d d1)
    | (Inr x, d1) \<Rightarrow> (case at_commit A of
          Committed \<Rightarrow> (Inr x, d1)
        | NotCommitted e \<Rightarrow> (Inl (EPg e), rollback d d1)
        | CommitLost \<Rightarrow> (Inl (EPg OtherPg), d1)))"

text \<open>Two states that agree on every table.\<close>

definition same_tables :: "db \<Rightarrow> db \<Rightarrow> bool" where
  "same_tables d d' \<longleftrightarrow> d'\<lparr>ref_seq := 0\<rparr> = d\<lparr>ref_seq := 0\<rparr>"

lemma same_tables_rollback [simp]: "same_tables d (rollback d d1)"
  by (simp add: same_tables_def rollback_def)

lemma same_tables_refl [simp]: "same_tables d d"
  by (simp add: same_tables_def)

lemma same_tables_trans: "same_tables a b \<Longrightarrow> same_tables b c \<Longrightarrow> same_tables a c"
  by (simp add: same_tables_def)

lemma same_tables_sel:
  assumes "same_tables d d'"
  shows "accounts d' = accounts d" "transactions d' = transactions d" "mutations d' = mutations d"
    "daily_usage d' = daily_usage d" "transaction_limits d' = transaction_limits d"
    "ewallet_providers d' = ewallet_providers d"
proof -
  have eq: "d'\<lparr>ref_seq := 0\<rparr> = d\<lparr>ref_seq := 0\<rparr>" using assms by (simp add: same_tables_def)
  show "accounts d' = accounts d" using arg_cong [OF eq, of accounts] by simp
  show "transactions d' = transactions d" using arg_cong [OF eq, of transactions] by simp
  show "mutations d' = mutations d" using arg_cong [OF eq, of mutations] by simp
  show "daily_usage d' = daily_usage d" using arg_cong [OF eq, of daily_usage] by simp
  show "transaction_limits d' = transaction_limits d"
    using arg_cong [OF eq, of transaction_limits] by simp
  show "ewallet_providers d' = ewallet_providers d"
    using arg_cong [OF eq, of ewallet_providers] by simp
qed

end
