(* ===== verification/Posting.thy ===== *)
theory Posting
  imports Ledger
begin

text \<open>
  The SQL statements the three executors of \<open>internal/repository/postgres\<close> send
  (\<open>transfer_executor.go\<close>, \<open>ewallet_repo.go\<close>, \<open>qris_repo.go\<close>) with the account queries of
  \<open>account_repo.go\<close>, and the abstract posting they implement: a list of signed legs applied to
  the balances. The double-entry invariants of \<open>docs/06-LEDGER-AND-DEVICE-BINDING.md\<close> are proved
  once, for the abstract posting.
\<close>

subsection \<open>Account queries\<close>

definition account_by_id :: "account list \<Rightarrow> uuid \<Rightarrow> account option" where
  "account_by_id as i = find (\<lambda>a. ac_id a = i) as"

definition find_owned_by_id :: "db \<Rightarrow> uuid \<Rightarrow> uuid \<Rightarrow> account option" where
  "find_owned_by_id d user i =
     find (\<lambda>a. ac_id a = i \<and> ac_user a = Some user \<and> ac_owner a = CUSTOMER \<and> ac_status a = ACTIVE)
       (accounts d)"

definition find_by_account_number :: "db \<Rightarrow> string \<Rightarrow> account option" where
  "find_by_account_number d n =
     find (\<lambda>a. ac_number a = n \<and> ac_owner a = CUSTOMER \<and> ac_status a = ACTIVE) (accounts d)"

text \<open>The SQL function \<open>settlement_account_id\<close>: the shard of a rail for a key, NULL when there is none.\<close>

definition settlement_account_id :: "lib \<Rightarrow> db \<Rightarrow> string \<Rightarrow> uuid \<Rightarrow> uuid option" where
  "settlement_account_id L d rail key =
     map_option ac_id (find (\<lambda>a. ac_owner a = INTERNAL \<and> ac_rail a = Some rail
       \<and> ac_shard a = Some (shard_hash L key)) (accounts d))"

definition sql_settlement :: "attempt \<Rightarrow> lib \<Rightarrow> string \<Rightarrow> uuid tx" where
  "sql_settlement A L rail =
     tx_seq (tx_stmt A (SSettlement rail))
       (tx_bind (tx_read (\<lambda>d. settlement_account_id L d rail (at_txn_id A)))
          (\<lambda>r. case r of None \<Rightarrow> tx_throw ENoRows | Some i \<Rightarrow> tx_return i))"

subsection \<open>Row locks\<close>

record locked_account =
  lk_balance :: decimal
  lk_hold :: decimal

text \<open>\<open>SELECT id, balance, hold_amount FROM accounts WHERE id = $1 FOR UPDATE\<close>, one id after the other.\<close>

fun lock_accounts :: "attempt \<Rightarrow> uuid list \<Rightarrow> (uuid \<times> locked_account) list tx" where
  "lock_accounts A [] = tx_return []"
| "lock_accounts A (i # is) =
     tx_seq (tx_stmt A (SLock i))
       (tx_bind (tx_read (\<lambda>d. account_by_id (accounts d) i))
          (\<lambda>r. case r of
             None \<Rightarrow> tx_throw ENoRows
           | Some a \<Rightarrow> tx_bind (lock_accounts A is)
               (\<lambda>ls. tx_return ((i, \<lparr>lk_balance = ac_balance a, lk_hold = ac_hold a\<rparr>) # ls))))"

text \<open>Indexing the Go map of locked accounts; a missing key gives the zero value.\<close>

definition locked_of :: "(uuid \<times> locked_account) list \<Rightarrow> uuid \<Rightarrow> locked_account" where
  "locked_of ls i = (case map_of ls i of None \<Rightarrow> \<lparr>lk_balance = 0, lk_hold = 0\<rparr> | Some l \<Rightarrow> l)"

subsection \<open>Limits and usage\<close>

definition daily_usage_of :: "db \<Rightarrow> uuid \<Rightarrow> date \<Rightarrow> string \<Rightarrow> decimal" where
  "daily_usage_of d user day ty =
     (case find (\<lambda>u. us_user u = user \<and> us_date u = day \<and> us_type u = ty) (daily_usage d) of
        None \<Rightarrow> 0 | Some u \<Rightarrow> us_total u)"

definition limit_of :: "db \<Rightarrow> uuid \<Rightarrow> string \<Rightarrow> limit_row option" where
  "limit_of d user ty = find (\<lambda>l. li_user l = user \<and> li_type l = ty) (transaction_limits d)"

text \<open>No row means a limit of zero.\<close>

definition daily_limit_of :: "db \<Rightarrow> uuid \<Rightarrow> string \<Rightarrow> decimal" where
  "daily_limit_of d user ty = (case limit_of d user ty of None \<Rightarrow> 0 | Some l \<Rightarrow> li_daily l)"

definition sql_daily_usage :: "attempt \<Rightarrow> uuid \<Rightarrow> date \<Rightarrow> string \<Rightarrow> decimal tx" where
  "sql_daily_usage A user day ty =
     tx_seq (tx_stmt A SDailyUsage) (tx_read (\<lambda>d. daily_usage_of d user day ty))"

definition sql_daily_limit :: "attempt \<Rightarrow> uuid \<Rightarrow> string \<Rightarrow> decimal tx" where
  "sql_daily_limit A user ty =
     tx_seq (tx_stmt A SDailyLimit) (tx_read (\<lambda>d. daily_limit_of d user ty))"

fun bump_usage :: "uuid \<Rightarrow> date \<Rightarrow> string \<Rightarrow> decimal \<Rightarrow> usage list \<Rightarrow> usage list" where
  "bump_usage user day ty x [] =
     [\<lparr>us_user = user, us_date = day, us_type = ty, us_total = num2 x, us_count = 1\<rparr>]"
| "bump_usage user day ty x (u # us) =
     (if us_user u = user \<and> us_date u = day \<and> us_type u = ty
      then u\<lparr>us_total := num2 (us_total u + x), us_count := us_count u + 1\<rparr> # us
      else u # bump_usage user day ty x us)"

definition sql_upsert_usage :: "attempt \<Rightarrow> uuid \<Rightarrow> date \<Rightarrow> string \<Rightarrow> decimal \<Rightarrow> unit tx" where
  "sql_upsert_usage A user day ty x =
     tx_seq (tx_stmt A SUpsertUsage)
       (tx_write (\<lambda>d. d\<lparr>daily_usage := bump_usage user day ty x (daily_usage d)\<rparr>))"

subsection \<open>Writes\<close>

definition set_balance :: "uuid \<Rightarrow> decimal \<Rightarrow> account list \<Rightarrow> account list" where
  "set_balance i b as = map (\<lambda>a. if ac_id a = i then a\<lparr>ac_balance := num2 b\<rparr> else a) as"

definition sql_update_balance :: "attempt \<Rightarrow> uuid \<Rightarrow> decimal \<Rightarrow> unit tx" where
  "sql_update_balance A i b =
     tx_seq (tx_stmt A (SUpdateBalance i)) (tx_write (\<lambda>d. d\<lparr>accounts := set_balance i b (accounts d)\<rparr>))"

text \<open>Eight decimal digits, as \<open>lpad(n::text, 8, '0')\<close> renders a number below \<open>10^8\<close>.\<close>

definition digit_char :: "nat \<Rightarrow> char" where
  "digit_char n = char_of (48 + n)"

fun fixed_digits :: "nat \<Rightarrow> nat \<Rightarrow> string" where
  "fixed_digits 0 n = []"
| "fixed_digits (Suc w) n = fixed_digits w (n div 10) @ [digit_char (n mod 10)]"

text \<open>The bijection of \<open>next_reference_number\<close> and the sequence behind it.\<close>

definition scramble :: "nat \<Rightarrow> nat" where
  "scramble raw = (raw * 1327144003) mod 100000000"

definition next_seq :: "nat \<Rightarrow> nat" where
  "next_seq n = (if n < 99999999 then n + 1 else 1)"

definition reference_number :: "lib \<Rightarrow> date \<Rightarrow> nat \<Rightarrow> string" where
  "reference_number L day raw = ''REF'' @ yyyymmdd L day @ fixed_digits 8 (scramble raw)"

definition sql_next_reference :: "attempt \<Rightarrow> lib \<Rightarrow> date \<Rightarrow> string tx" where
  "sql_next_reference A L day =
     tx_seq (tx_stmt A SRefNumber)
       (tx_seq (tx_write (\<lambda>d. d\<lparr>ref_seq := next_seq (ref_seq d)\<rparr>))
          (tx_read (\<lambda>d. reference_number L day (ref_seq d))))"

text \<open>
  \<open>INSERT INTO transactions\<close>: rejected by the primary key, by the unique reference number and by
  the unique pair of customer and idempotency key (NULL keys never collide).
\<close>

definition txn_collides :: "transaction \<Rightarrow> transaction \<Rightarrow> bool" where
  "txn_collides t r \<longleftrightarrow> tx_id r = tx_id t \<or> tx_ref r = tx_ref t
     \<or> (tx_user r = tx_user t \<and> tx_idem t \<noteq> None \<and> tx_idem r = tx_idem t)"

definition stored_txn :: "transaction \<Rightarrow> transaction" where
  "stored_txn t = t\<lparr>tx_amount := num2 (tx_amount t), tx_fee := num2 (tx_fee t),
     tx_total := num2 (tx_total t)\<rparr>"

definition sql_insert_transaction :: "attempt \<Rightarrow> transaction \<Rightarrow> unit tx" where
  "sql_insert_transaction A t =
     tx_seq (tx_stmt A SInsertTxn)
       (tx_bind (tx_read (\<lambda>d. list_ex (txn_collides t) (transactions d)))
          (\<lambda>dup. if dup then tx_throw EUnique
                 else tx_write (\<lambda>d. d\<lparr>transactions := transactions d @ [stored_txn t]\<rparr>)))"

definition stored_mutation :: "mutation \<Rightarrow> mutation" where
  "stored_mutation m = m\<lparr>mu_amount := num2 (mu_amount m), mu_before := num2 (mu_before m),
     mu_after := num2 (mu_after m)\<rparr>"

definition sql_insert_mutation :: "attempt \<Rightarrow> mutation \<Rightarrow> unit tx" where
  "sql_insert_mutation A m =
     tx_seq (tx_stmt A (SInsertMutation (mu_account m)))
       (tx_write (\<lambda>d. d\<lparr>mutations := mutations d @ [stored_mutation m]\<rparr>))"

text \<open>
  The replay query \<open>WHERE user_id = $1 AND idempotency_key = $2\<close>; \<open>cols\<close> keeps of the row the
  columns the rail selects.
\<close>

definition find_by_idem :: "db \<Rightarrow> uuid \<Rightarrow> string \<Rightarrow> transaction option" where
  "find_by_idem d user key = find (\<lambda>t. tx_user t = user \<and> tx_idem t = Some key) (transactions d)"

definition fetch_existing ::
    "attempt \<Rightarrow> (transaction \<Rightarrow> transaction) \<Rightarrow> uuid \<Rightarrow> string \<Rightarrow> transaction tx" where
  "fetch_existing A cols user key =
     tx_seq (tx_stmt A SFetchExisting)
       (tx_bind (tx_read (\<lambda>d. find_by_idem d user key))
          (\<lambda>r. case r of None \<Rightarrow> tx_throw ENoRows | Some t \<Rightarrow> tx_return (cols t)))"

text \<open>
  One attempt: the body in a transaction; when its INSERT hits a unique key, the transaction is
  abandoned and the existing row is read outside it.
\<close>

definition attempt_tx ::
    "attempt \<Rightarrow> (transaction \<Rightarrow> transaction) \<Rightarrow> uuid \<Rightarrow> string \<Rightarrow> transaction tx \<Rightarrow> transaction tx" where
  "attempt_tx A cols user key body d =
     (case tx_finish A (tx_seq (tx_stmt A SBegin) body) d of
        (Inl EUnique, d1) \<Rightarrow> fetch_existing A cols user key d1
      | r \<Rightarrow> r)"

subsection \<open>Retries\<close>

definition max_serialization_retries :: nat where
  "max_serialization_retries = 3"

text \<open>
  \<open>backoffSerialization\<close>: no further attempt after the last one, otherwise wait and go on unless
  the request has been cancelled meanwhile.
\<close>

definition backoff_serialization :: "attempt \<Rightarrow> nat \<Rightarrow> bool" where
  "backoff_serialization A n = (if n \<ge> max_serialization_retries - 1 then False else at_alive A)"

text \<open>\<open>for attempt := range maxSerializationRetries\<close>, from attempt \<open>n\<close> on.\<close>

function retry_from :: "(attempt \<Rightarrow> transaction tx) \<Rightarrow> (nat \<Rightarrow> attempt) \<Rightarrow> nat \<Rightarrow> transaction tx" where
  "retry_from try E n d =
     (case try (E n) d of
        (Inr t, d1) \<Rightarrow> (Inr t, d1)
      | (Inl e, d1) \<Rightarrow>
          if e = EPg SerializationFailure \<and> backoff_serialization (E n) n
          then retry_from try E (Suc n) d1
          else (Inl e, d1))"
  by pat_completeness auto
termination
  by (relation "measure (\<lambda>(_, _, n, _). max_serialization_retries - n)")
    (auto simp: backoff_serialization_def max_serialization_retries_def split: if_splits)

declare retry_from.simps [simp del]

end
