(* ===== verification/Double_Entry.thy ===== *)
theory Double_Entry
  imports Posting
begin

text \<open>
  The abstract ledger: a posting is a transaction row with a list of signed legs (negative: the
  account is debited). \<open>posts\<close> says what state a posting produces; the invariants of the two
  supervision views of migration 000009 are preserved by every balanced posting, and no posting
  changes the money in the system.
\<close>

subsection \<open>Balances\<close>

type_synonym leg = "uuid \<times> decimal"

definition apply_leg :: "leg \<Rightarrow> account list \<Rightarrow> account list" where
  "apply_leg l as = map (\<lambda>a. if ac_id a = fst l then a\<lparr>ac_balance := ac_balance a + snd l\<rparr> else a) as"

fun apply_legs :: "leg list \<Rightarrow> account list \<Rightarrow> account list" where
  "apply_legs [] as = as"
| "apply_legs (l # ls) as = apply_legs ls (apply_leg l as)"

definition total_money :: "account list \<Rightarrow> decimal" where
  "total_money as = sum_list (map ac_balance as)"

definition has_account :: "account list \<Rightarrow> uuid \<Rightarrow> bool" where
  "has_account as i \<longleftrightarrow> i \<in> ac_id ` set as"

lemma apply_leg_ids [row_simps]: "map ac_id (apply_leg l as) = map ac_id as"
  by (simp add: apply_leg_def comp_def if_distrib cong: if_cong)

lemma has_account_apply_leg [row_simps]: "has_account (apply_leg l as) i = has_account as i"
  using arg_cong [OF apply_leg_ids, of set] by (simp add: has_account_def)

lemma apply_legs_ids [row_simps]: "map ac_id (apply_legs ls as) = map ac_id as"
  by (induction ls arbitrary: as) (simp_all add: row_simps)

lemma account_by_id_apply_leg [row_simps]:
  "account_by_id (apply_leg l as) i =
     map_option (\<lambda>a. if i = fst l then a\<lparr>ac_balance := ac_balance a + snd l\<rparr> else a) (account_by_id as i)"
  by (induction as) (auto simp: account_by_id_def apply_leg_def)

lemma account_by_id_has: "account_by_id as i = Some a \<Longrightarrow> has_account as i"
  by (auto simp: account_by_id_def has_account_def dest: find_Some_D)

lemma account_by_id_id: "account_by_id as i = Some a \<Longrightarrow> ac_id a = i"
  by (auto simp: account_by_id_def dest: find_Some_D)

lemma total_apply_leg:
  assumes "distinct (map ac_id as)" "has_account as (fst l)"
  shows "total_money (apply_leg l as) = total_money as + snd l"
  using assms
proof (induction as)
  case Nil
  then show ?case by (simp add: has_account_def)
next
  case (Cons a as)
  show ?case
  proof (cases "ac_id a = fst l")
    case True
    with Cons.prems have "\<forall>b \<in> set as. ac_id b \<noteq> fst l" by (metis distinct.simps(2) image_eqI list.simps(9) list.set_map)
    then have "map (\<lambda>b. if ac_id b = fst l then b\<lparr>ac_balance := ac_balance b + snd l\<rparr> else b) as = as"
      by (simp add: map_idI)
    with True show ?thesis by (simp add: apply_leg_def total_money_def)
  next
    case False
    with Cons show ?thesis by (auto simp: apply_leg_def total_money_def has_account_def)
  qed
qed

theorem total_apply_legs:
  assumes "distinct (map ac_id as)" "\<forall>l \<in> set ls. has_account as (fst l)"
  shows "total_money (apply_legs ls as) = total_money as + sum_list (map snd ls)"
  using assms
proof (induction ls arbitrary: as)
  case Nil
  then show ?case by simp
next
  case (Cons l ls)
  then have "total_money (apply_legs ls (apply_leg l as)) =
      total_money (apply_leg l as) + sum_list (map snd ls)"
    by (simp add: row_simps)
  with Cons.prems show ?case by (simp add: total_apply_leg)
qed

text \<open>Writing the new balance computed from a locked snapshot is applying a leg.\<close>

lemma set_balance_apply_leg:
  assumes "distinct (map ac_id as)" "account_by_id as i = Some a" "sen (ac_balance a)" "sen x"
  shows "set_balance i (ac_balance a + x) as = apply_leg (i, x) as"
proof -
  have "a \<in> set as" "ac_id a = i"
    using assms(2) by (auto simp: account_by_id_def dest: find_Some_D)
  then have "b = a" if "b \<in> set as" "ac_id b = i" for b
    using that assms(1) by (auto intro: distinct_key_unique)
  then show ?thesis
    using assms(3,4) by (auto simp: set_balance_def apply_leg_def sen_add)
qed

lemma apply_legs_balance:
  assumes "account_by_id as i = Some a"
  shows "\<exists>b. account_by_id (apply_legs ls as) i = Some b
    \<and> b = a\<lparr>ac_balance := ac_balance a + sum_list (map snd (filter (\<lambda>l. fst l = i) ls))\<rparr>"
  using assms
proof (induction ls arbitrary: as a)
  case Nil
  then show ?case by simp
next
  case (Cons l ls)
  let ?a = "if i = fst l then a\<lparr>ac_balance := ac_balance a + snd l\<rparr> else a"
  have "account_by_id (apply_leg l as) i = Some ?a" using Cons.prems by (simp add: row_simps)
  from Cons.IH [OF this] show ?case by (auto simp: add.assoc)
qed

subsection \<open>Mutations\<close>

definition signed_amount :: "mutation \<Rightarrow> decimal" where
  "signed_amount m = (case mu_type m of DEBIT \<Rightarrow> - mu_amount m | CREDIT \<Rightarrow> mu_amount m)"

text \<open>The imbalance column of \<open>v_unbalanced_transactions\<close>, with credits positive.\<close>

definition imbalance :: "uuid \<Rightarrow> mutation list \<Rightarrow> decimal" where
  "imbalance i ms = sum_list (map signed_amount (filter (\<lambda>m. mu_txn m = Some i) ms))"

lemma imbalance_append [simp]: "imbalance i (ms @ ns) = imbalance i ms + imbalance i ns"
  by (simp add: imbalance_def)

text \<open>The balance the last mutation of an account left behind, as \<open>v_ledger_reconciliation\<close> reads it.\<close>

definition last_after :: "uuid \<Rightarrow> mutation list \<Rightarrow> decimal option" where
  "last_after i ms = map_option mu_after (find (\<lambda>m. mu_account m = i) (rev ms))"

lemma last_after_snoc [simp]:
  "last_after i (ms @ [m]) = (if mu_account m = i then Some (mu_after m) else last_after i ms)"
  by (simp add: last_after_def)

lemma last_after_append:
  "i \<notin> mu_account ` set ns \<Longrightarrow> last_after i (ms @ ns) = last_after i ms"
  by (induction ns rule: rev_induct) (auto simp add: append_assoc [symmetric] simp del: append_assoc)

subsection \<open>The invariant\<close>

text \<open>
  The keys of the accounts table are unique, every stored balance has two decimals, a mutation
  refers to a stored transaction, every transaction is balanced and every account with a history
  carries the balance its last mutation left.
\<close>

definition accounts_ok :: "account list \<Rightarrow> bool" where
  "accounts_ok as \<longleftrightarrow> distinct (map ac_id as)
     \<and> (\<forall>a \<in> set as. sen (ac_balance a))"

definition ledger_ok :: "db \<Rightarrow> bool" where
  "ledger_ok d \<longleftrightarrow> accounts_ok (accounts d)
     \<and> (\<forall>m \<in> set (mutations d). \<forall>i. mu_txn m = Some i \<longrightarrow> i \<in> tx_id ` set (transactions d))
     \<and> (\<forall>i. imbalance i (mutations d) = 0)
     \<and> (\<forall>a \<in> set (accounts d). \<forall>b. last_after (ac_id a) (mutations d) = Some b \<longrightarrow> ac_balance a = b)"

lemma ledger_ok_accounts [dest]: "ledger_ok d \<Longrightarrow> accounts_ok (accounts d)"
  by (simp add: ledger_ok_def)

lemma accounts_ok_distinct: "accounts_ok as \<Longrightarrow> distinct (map ac_id as)"
  by (simp add: accounts_ok_def)

lemma accounts_ok_sen: "accounts_ok as \<Longrightarrow> account_by_id as i = Some a \<Longrightarrow> sen (ac_balance a)"
  by (auto simp: accounts_ok_def account_by_id_def dest: find_Some_D)

lemma accounts_ok_apply_leg:
  assumes "accounts_ok as" "sen (snd l)"
  shows "accounts_ok (apply_leg l as)"
proof -
  have "distinct (map ac_id (apply_leg l as))" using assms by (simp add: row_simps accounts_ok_distinct)
  moreover have "\<forall>a \<in> set (apply_leg l as). sen (ac_balance a)"
    using assms sen_add by (auto simp: apply_leg_def accounts_ok_def)
  ultimately show ?thesis by (simp add: accounts_ok_def)
qed

lemma accounts_ok_apply_legs:
  "accounts_ok as \<Longrightarrow> \<forall>l \<in> set ls. sen (snd l) \<Longrightarrow> accounts_ok (apply_legs ls as)"
  by (induction ls arbitrary: as) (auto intro: accounts_ok_apply_leg)

subsection \<open>Postings\<close>

text \<open>A mutation records a leg: its account, its signed amount, and the balance before and after.\<close>

definition records_leg :: "account list \<Rightarrow> uuid \<Rightarrow> mutation \<Rightarrow> leg \<Rightarrow> bool" where
  "records_leg as i m l \<longleftrightarrow> mu_account m = fst l \<and> mu_txn m = Some i \<and> signed_amount m = snd l
     \<and> (\<exists>a. account_by_id as (fst l) = Some a \<and> mu_before m = ac_balance a
          \<and> mu_after m = ac_balance a + snd l)"

definition posts :: "transaction \<Rightarrow> leg list \<Rightarrow> db \<Rightarrow> db \<Rightarrow> bool" where
  "posts t ls d d' \<longleftrightarrow>
     accounts d' = apply_legs ls (accounts d)
   \<and> transactions d' = transactions d @ [stored_txn t]
   \<and> (\<exists>ms. mutations d' = mutations d @ ms \<and> list_all2 (records_leg (accounts d) (tx_id t)) ms ls)
   \<and> distinct (map fst ls)
   \<and> (\<forall>l \<in> set ls. sen (snd l))
   \<and> tx_id t \<notin> tx_id ` set (transactions d)"

lemma posts_has_account:
  assumes "posts t ls d d'" "l \<in> set ls"
  shows "has_account (accounts d) (fst l)"
proof -
  obtain ms where "list_all2 (records_leg (accounts d) (tx_id t)) ms ls"
    using assms(1) by (auto simp: posts_def)
  then obtain m where "records_leg (accounts d) (tx_id t) m l"
    using assms(2) by (metis in_set_conv_nth list_all2_conv_all_nth)
  then show ?thesis by (auto simp: records_leg_def dest: account_by_id_has)
qed

lemma posts_conserves:
  assumes "posts t ls d d'" "sum_list (map snd ls) = 0" "distinct (map ac_id (accounts d))"
  shows "total_money (accounts d') = total_money (accounts d)"
  using assms total_apply_legs [of "accounts d" ls] posts_has_account by (auto simp: posts_def)

lemma records_imbalance:
  assumes "list_all2 (records_leg as i) ms ls"
  shows "imbalance j ms = (if j = i then sum_list (map snd ls) else 0)"
  using assms
  by (induction ms ls rule: list_all2_induct) (auto simp: imbalance_def records_leg_def)

lemma records_last_after:
  assumes "list_all2 (records_leg as i) ms ls" "distinct (map fst ls)" "account_by_id as j = Some a"
  shows "last_after j (old @ ms) =
    (if j \<in> fst ` set ls then Some (ac_balance a + sum_list (map snd (filter (\<lambda>l. fst l = j) ls)))
     else last_after j old)"
  using assms
proof (induction ms ls arbitrary: old rule: list_all2_induct)
  case Nil
  then show ?case by simp
next
  case (Cons m ms l ls)
  have IH: "last_after j ((old @ [m]) @ ms) =
    (if j \<in> fst ` set ls then Some (ac_balance a + sum_list (map snd (filter (\<lambda>l. fst l = j) ls)))
     else last_after j (old @ [m]))"
    using Cons by (intro Cons.IH) auto
  show ?case
  proof (cases "fst l = j")
    case True
    then have "j \<notin> fst ` set ls" using Cons.prems by auto
    then have none: "filter (\<lambda>l. fst l = j) ls = []" by (auto simp: filter_empty_conv)
    have "mu_account m = j" "mu_after m = ac_balance a + snd l"
      using Cons True by (auto simp: records_leg_def)
    then show ?thesis using IH True \<open>j \<notin> fst ` set ls\<close> none by simp
  next
    case False
    then have "mu_account m \<noteq> j" using Cons by (auto simp: records_leg_def)
    then show ?thesis using IH False by (auto simp: image_iff)
  qed
qed

theorem posts_ledger_ok:
  assumes p: "posts t ls d d'" and ok: "ledger_ok d" and zero: "sum_list (map snd ls) = 0"
  shows "ledger_ok d'"
proof -
  obtain ms where ms: "mutations d' = mutations d @ ms"
    and rec: "list_all2 (records_leg (accounts d) (tx_id t)) ms ls"
    using p by (auto simp: posts_def)
  have acc: "accounts d' = apply_legs ls (accounts d)" and dist: "distinct (map fst ls)"
    and sens: "\<forall>l \<in> set ls. sen (snd l)" and fresh: "tx_id t \<notin> tx_id ` set (transactions d)"
    and txns: "transactions d' = transactions d @ [stored_txn t]"
    using p by (auto simp: posts_def)
  have "accounts_ok (accounts d')" using acc ok sens by (auto intro: accounts_ok_apply_legs)
  moreover have "\<forall>m \<in> set (mutations d'). \<forall>i. mu_txn m = Some i \<longrightarrow> i \<in> tx_id ` set (transactions d')"
  proof -
    have "\<forall>m \<in> set ms. mu_txn m = Some (tx_id t)"
      using rec by (induction ms ls rule: list_all2_induct) (auto simp: records_leg_def)
    then show ?thesis using ok ms txns by (auto simp: ledger_ok_def stored_txn_def)
  qed
  moreover have "\<forall>i. imbalance i (mutations d') = 0"
    using ok records_imbalance [OF rec] zero by (auto simp: ledger_ok_def ms)
  moreover have "ac_balance a' = b"
    if a': "a' \<in> set (accounts d')" and b: "last_after (ac_id a') (mutations d') = Some b" for a' b
  proof -
    let ?j = "ac_id a'"
    have ids: "map ac_id (accounts d') = map ac_id (accounts d)" using acc by (simp add: row_simps)
    have dd: "distinct (map ac_id (accounts d))" using ok by (auto intro: accounts_ok_distinct)
    obtain a where a: "a \<in> set (accounts d)" "ac_id a = ?j"
      using a' ids by (metis (no_types, lifting) image_iff image_set)
    then have fa: "account_by_id (accounts d) ?j = Some a"
      using find_by_key [OF dd a(1)] by (simp add: account_by_id_def)
    have fa': "account_by_id (accounts d') ?j = Some a'"
      using find_by_key [of ac_id "accounts d'" a'] a' ids dd by (simp add: account_by_id_def)
    have bal: "ac_balance a' = ac_balance a + sum_list (map snd (filter (\<lambda>l. fst l = ?j) ls))"
      using apply_legs_balance [OF fa, of ls] fa' acc by (metis account.select_convs(6) account.update_convs(6) account.surjective option.inject)
    show ?thesis
    proof (cases "?j \<in> fst ` set ls")
      case True
      then show ?thesis
        using b bal records_last_after [OF rec dist fa, of "mutations d"] ms by simp
    next
      case False
      then have "filter (\<lambda>l. fst l = ?j) ls = []" by (force simp: filter_empty_conv)
      moreover have "last_after ?j (mutations d) = Some b"
        using b records_last_after [OF rec dist fa, of "mutations d"] ms False by simp
      ultimately show ?thesis using bal ok a by (auto simp: ledger_ok_def)
    qed
  qed
  ultimately show ?thesis unfolding ledger_ok_def by blast
qed

end
