(* ===== verification/Lock_Order.thy ===== *)
theory Lock_Order
  imports Prelude "HOL-Library.Multiset"
begin

text \<open>
  The order in which the executors lock account rows: \<open>sort.Slice\<close> followed by the removal of
  duplicates in \<open>transfer_executor.go\<close>, and \<open>sortedUniqueUUIDs\<close> (removal of duplicates, then an
  exchange sort) in \<open>ewallet_repo.go\<close>, which the QRIS executor shares. Both keep one contract:
  the ids of the request, each once, strictly ascending. Under it no two requests can lock two
  accounts in opposite orders.
\<close>

subsection \<open>The contract\<close>

definition before :: "'a list \<Rightarrow> 'a \<Rightarrow> 'a \<Rightarrow> bool" where
  "before xs x y \<longleftrightarrow> (\<exists>i j. i < j \<and> j < length xs \<and> xs ! i = x \<and> xs ! j = y)"

lemma before_less: "sorted_wrt (<) xs \<Longrightarrow> before xs x y \<Longrightarrow> x < (y :: 'a :: order)"
  by (auto simp: before_def sorted_wrt_iff_nth_less)

locale lock_order =
  fixes order :: "uuid list \<Rightarrow> uuid list"
  assumes ascending: "sorted_wrt (<) (order ids)"
    and complete: "set (order ids) = set ids"
begin

lemma canonical: "order ids = sorted_list_of_set (set ids)"
  by (rule strict_sorted_equal) (simp_all add: ascending complete)

lemma each_once: "distinct (order ids)"
  by (simp add: canonical)

lemma no_cycle: "before (order ids) x y \<Longrightarrow> \<not> before (order ids') y x"
  using before_less [OF ascending] by (metis less_asym)

end

subsection \<open>Removal of duplicates\<close>

text \<open>The loop over \<open>seen\<close> keeps the first occurrence of each id.\<close>

fun dedup :: "uuid list \<Rightarrow> uuid list \<Rightarrow> uuid list" where
  "dedup seen [] = []"
| "dedup seen (i # is) = (if i \<in> set seen then dedup seen is else i # dedup (i # seen) is)"

lemma set_dedup: "set (dedup seen is) = set is - set seen"
  by (induction seen "is" rule: dedup.induct) auto

lemma distinct_dedup: "distinct (dedup seen is)"
  by (induction seen "is" rule: dedup.induct) (auto simp: set_dedup)

lemma sorted_dedup: "sorted is \<Longrightarrow> sorted (dedup seen is)"
  by (induction seen "is" rule: dedup.induct) (auto simp: set_dedup)

definition sorted_locks :: "uuid list \<Rightarrow> uuid list" where
  "sorted_locks ids = dedup [] (sort ids)"

interpretation sorted_locks: lock_order sorted_locks
proof
  fix ids
  show "sorted_wrt (<) (sorted_locks ids)"
    by (simp add: sorted_locks_def strict_sorted_iff sorted_dedup distinct_dedup)
  show "set (sorted_locks ids) = set ids"
    by (simp add: sorted_locks_def set_dedup)
qed

subsection \<open>The exchange sort\<close>

definition exchange_step :: "nat \<Rightarrow> nat \<Rightarrow> uuid list \<Rightarrow> uuid list" where
  "exchange_step i j xs = (if xs ! i > xs ! j then xs[i := xs ! j, j := xs ! i] else xs)"

definition exchange_row :: "nat \<Rightarrow> uuid list \<Rightarrow> uuid list" where
  "exchange_row i xs = fold (exchange_step i) [Suc i..<length xs] xs"

definition exchange_sort :: "uuid list \<Rightarrow> uuid list" where
  "exchange_sort xs = fold exchange_row [0..<length xs - 1] xs"

definition sorted_unique_uuids :: "uuid list \<Rightarrow> uuid list" where
  "sorted_unique_uuids ids = exchange_sort (dedup [] ids)"

lemma mset_exchange_step:
  "i < length xs \<Longrightarrow> j < length xs \<Longrightarrow> mset (exchange_step i j xs) = mset xs"
  by (simp add: exchange_step_def mset_swap)

lemma length_exchange_step [simp]: "length (exchange_step i j xs) = length xs"
  by (simp add: exchange_step_def)

text \<open>After a row, position \<open>i\<close> holds the least of the elements from \<open>i\<close> on; the prefix is as before.\<close>

lemma exchange_steps:
  assumes "i < m" "m \<le> length xs"
  defines "ys \<equiv> fold (exchange_step i) [Suc i..<m] xs"
  shows "length ys = length xs" "mset ys = mset xs" "take i ys = take i xs"
    "\<forall>k. i \<le> k \<and> k < m \<longrightarrow> ys ! i \<le> ys ! k"
    "\<forall>k. m \<le> k \<and> k < length xs \<longrightarrow> ys ! k = xs ! k"
proof -
  have "length ys = length xs \<and> mset ys = mset xs \<and> take i ys = take i xs
    \<and> (\<forall>k. i \<le> k \<and> k < m \<longrightarrow> ys ! i \<le> ys ! k) \<and> (\<forall>k. m \<le> k \<and> k < length xs \<longrightarrow> ys ! k = xs ! k)"
    unfolding ys_def using assms(1,2)
  proof (induction m)
    case 0
    then show ?case by simp
  next
    case (Suc m)
    show ?case
    proof (cases "i = m")
      case True
      then show ?thesis by (auto simp: le_less_Suc_eq)
    next
      case False
      then have lt: "i < m" and le: "m \<le> length xs" and m: "m < length xs" using Suc.prems by auto
      define zs where "zs = fold (exchange_step i) [Suc i..<m] xs"
      have IH: "length zs = length xs" "mset zs = mset xs" "take i zs = take i xs"
        "\<And>k. i \<le> k \<Longrightarrow> k < m \<Longrightarrow> zs ! i \<le> zs ! k" "\<And>k. m \<le> k \<Longrightarrow> k < length xs \<Longrightarrow> zs ! k = xs ! k"
        using Suc.IH [OF lt le] by (auto simp: zs_def)
      have step: "fold (exchange_step i) [Suc i..<Suc m] xs = exchange_step i m zs"
        using lt by (simp add: zs_def)
      have "exchange_step i m zs ! i \<le> exchange_step i m zs ! k" if "i \<le> k" "k < Suc m" for k
      proof (cases "k = m")
        case True
        then show ?thesis using IH(1) lt m by (auto simp: exchange_step_def)
      next
        case False
        then have "zs ! i \<le> zs ! k" using IH(4) that by simp
        then show ?thesis using IH(1) lt m that False
          by (cases "k = i") (auto simp: exchange_step_def)
      qed
      moreover have "mset (exchange_step i m zs) = mset xs"
        using mset_exchange_step [of i zs m] IH(1,2) lt m by simp
      ultimately show ?thesis
        unfolding step using IH lt m by (auto simp: exchange_step_def)
    qed
  qed
  then show "length ys = length xs" "mset ys = mset xs" "take i ys = take i xs"
    "\<forall>k. i \<le> k \<and> k < m \<longrightarrow> ys ! i \<le> ys ! k"
    "\<forall>k. m \<le> k \<and> k < length xs \<longrightarrow> ys ! k = xs ! k"
    by auto
qed

lemma exchange_row:
  assumes "i < length xs"
  shows "length (exchange_row i xs) = length xs" "mset (exchange_row i xs) = mset xs"
    "take i (exchange_row i xs) = take i xs"
    "\<forall>k. i \<le> k \<and> k < length xs \<longrightarrow> exchange_row i xs ! i \<le> exchange_row i xs ! k"
  using exchange_steps [of i "length xs" xs] assms by (simp_all add: exchange_row_def)

text \<open>After \<open>n\<close> rows the first \<open>n\<close> positions are sorted and not above the rest.\<close>

definition prefix_sorted :: "nat \<Rightarrow> uuid list \<Rightarrow> bool" where
  "prefix_sorted n xs \<longleftrightarrow> (\<forall>i j. i < n \<and> i < j \<and> j < length xs \<longrightarrow> xs ! i \<le> xs ! j)"

lemma prefix_sorted_row:
  assumes "prefix_sorted n xs" "n < length xs"
  shows "prefix_sorted (Suc n) (exchange_row n xs)"
proof -
  let ?ys = "exchange_row n xs"
  note row = exchange_row [OF assms(2)]
  have tk: "?ys ! i = xs ! i" if "i < n" for i
    using that row(3) by (metis nth_take)
  have dr: "set (drop n ?ys) = set (drop n xs)"
  proof -
    have "mset (take n ?ys) + mset (drop n ?ys) = mset (take n xs) + mset (drop n xs)"
      using row(2) by (metis append_take_drop_id mset_append)
    then have "mset (drop n ?ys) = mset (drop n xs)" by (simp add: row(3))
    then show ?thesis by (rule mset_eq_setD)
  qed
  have "?ys ! i \<le> ?ys ! j" if ij: "i < Suc n" "i < j" "j < length xs" for i j
  proof (cases "i = n")
    case True
    then show ?thesis using row(4) ij by simp
  next
    case False
    then have i: "i < n" using ij by simp
    show ?thesis
    proof (cases "j < n")
      case True
      then show ?thesis using assms(1) ij i tk by (simp add: prefix_sorted_def)
    next
      case False
      then have "?ys ! j \<in> set (drop n ?ys)"
        using ij row(1) by (auto simp: in_set_conv_nth intro!: exI [of _ "j - n"])
      then obtain k where k: "k < length xs - n" "?ys ! j = xs ! (n + k)"
        unfolding dr by (auto simp: in_set_conv_nth)
      then show ?thesis using assms i tk by (auto simp: prefix_sorted_def)
    qed
  qed
  then show ?thesis by (simp add: prefix_sorted_def row(1))
qed

lemma exchange_rows:
  "n < length xs \<Longrightarrow> length (fold exchange_row [0..<n] xs) = length xs
    \<and> mset (fold exchange_row [0..<n] xs) = mset xs \<and> prefix_sorted n (fold exchange_row [0..<n] xs)"
proof (induction n)
  case 0
  then show ?case by (simp add: prefix_sorted_def)
next
  case (Suc n)
  then show ?case using exchange_row(1,2) [of n] prefix_sorted_row [of n] by simp
qed

theorem exchange_sort_sort: "exchange_sort xs = sort xs"
proof (cases "xs = []")
  case True
  then show ?thesis by (simp add: exchange_sort_def)
next
  case False
  let ?ys = "exchange_sort xs"
  have *: "length ?ys = length xs" "mset ?ys = mset xs" "prefix_sorted (length xs - 1) ?ys"
    using exchange_rows [of "length xs - 1" xs] False by (simp_all add: exchange_sort_def)
  have "sorted ?ys"
    using *(1,3) unfolding sorted_iff_nth_mono_less prefix_sorted_def by auto
  then show ?thesis using *(2) by (simp add: properties_for_sort)
qed

interpretation unique_uuids: lock_order sorted_unique_uuids
proof
  fix ids
  show "sorted_wrt (<) (sorted_unique_uuids ids)"
    by (simp add: sorted_unique_uuids_def exchange_sort_sort strict_sorted_iff distinct_dedup)
  show "set (sorted_unique_uuids ids) = set ids"
    by (simp add: sorted_unique_uuids_def exchange_sort_sort set_dedup)
qed

end
