(* ===== verification/Rail.thy ===== *)
theory Rail
  imports Double_Entry Lock_Order
begin

text \<open>
  What the three executors have in common, as an interface: one attempt at a posting, wrapped in
  a serializable transaction (\<open>attempt_tx\<close>) and repeated on serialization failures
  (\<open>retry_from\<close>). The \<open>rail\<close> locale states what an attempt that reaches COMMIT guarantees;
  conservation, the ledger invariant, the funds and limit checks, atomicity of failures and
  at-most-one posting per idempotency key are derived from it once.
\<close>

subsection \<open>Locked rows\<close>

lemma lock_accounts_Inr:
  "lock_accounts A ids d = (Inr ls, d') \<Longrightarrow> d' = d \<and> map fst ls = ids
    \<and> (\<forall>(i, l) \<in> set ls. \<exists>a. account_by_id (accounts d) i = Some a
         \<and> l = \<lparr>lk_balance = ac_balance a, lk_hold = ac_hold a\<rparr>)"
  by (induction ids arbitrary: ls) (auto split: option.splits)

lemma lock_accounts_locked:
  assumes "lock_accounts A ids d = (Inr ls, d')" "i \<in> set ids"
  obtains a where "account_by_id (accounts d) i = Some a"
    "lk_balance (locked_of ls i) = ac_balance a" "lk_hold (locked_of ls i) = ac_hold a"
proof -
  note * = lock_accounts_Inr [OF assms(1)]
  then have "i \<in> fst ` set ls" using assms(2) by (metis list.set_map)
  then obtain l where l: "map_of ls i = Some l" by (metis not_None_eq map_of_eq_None_iff)
  then have "(i, l) \<in> set ls" by (rule map_of_SomeD)
  with * obtain a where "account_by_id (accounts d) i = Some a"
    "l = \<lparr>lk_balance = ac_balance a, lk_hold = ac_hold a\<rparr>" by blast
  then show ?thesis using l that by (simp add: locked_of_def)
qed

lemma account_by_id_apply_legs_other:
  "i \<notin> fst ` set ls \<Longrightarrow> account_by_id (apply_legs ls as) i = account_by_id as i"
  by (induction ls arbitrary: as) (auto simp: row_simps option.map_ident)

lemma apply_legs_append: "apply_legs (ls @ ks) as = apply_legs ks (apply_legs ls as)"
  by (induction ls arbitrary: as) simp_all

text \<open>Writing a balance computed from the locked row, after other accounts were written, is one more leg.\<close>

lemma set_balance_apply_legs:
  assumes "accounts_ok as" "\<forall>l \<in> set ls. sen (snd l)" "account_by_id as i = Some a" "sen x"
    "i \<notin> fst ` set ls"
  shows "set_balance i (ac_balance a + x) (apply_legs ls as) = apply_legs (ls @ [(i, x)]) as"
proof -
  have "accounts_ok (apply_legs ls as)" using assms by (simp add: accounts_ok_apply_legs)
  moreover have "account_by_id (apply_legs ls as) i = Some a"
    using assms by (simp add: account_by_id_apply_legs_other)
  ultimately show ?thesis
    using assms by (simp add: set_balance_apply_leg apply_legs_append accounts_ok_distinct accounts_ok_sen)
qed

lemma ledger_ok_same: "same_tables d d' \<Longrightarrow> ledger_ok d' = ledger_ok d"
  unfolding ledger_ok_def by (simp only: same_tables_sel)

lemma daily_usage_of_bump:
  "daily_usage d' = bump_usage v e y x (daily_usage d) \<Longrightarrow>
   daily_usage_of d' u c ty = (if u = v \<and> c = e \<and> ty = y then num2 (daily_usage_of d u c ty + x)
     else daily_usage_of d u c ty)"
proof -
  have "(case find (\<lambda>x. us_user x = u \<and> us_date x = c \<and> us_type x = ty) (bump_usage v e y x us) of
      None \<Rightarrow> 0 | Some w \<Rightarrow> us_total w)
    = (if u = v \<and> c = e \<and> ty = y then
        num2 ((case find (\<lambda>x. us_user x = u \<and> us_date x = c \<and> us_type x = ty) us of
          None \<Rightarrow> 0 | Some w \<Rightarrow> us_total w) + x)
       else (case find (\<lambda>x. us_user x = u \<and> us_date x = c \<and> us_type x = ty) us of
          None \<Rightarrow> 0 | Some w \<Rightarrow> us_total w))" for us
    by (induction us) auto
  then show "daily_usage d' = bump_usage v e y x (daily_usage d) \<Longrightarrow> ?thesis"
    by (simp add: daily_usage_of_def)
qed

lemma find_snoc: "find P xs = None \<Longrightarrow> find P (xs @ [x]) = (if P x then Some x else None)"
  by (induction xs) (auto split: if_splits)

subsection \<open>The interface\<close>

locale rail =
  fixes body :: "attempt \<Rightarrow> 'p \<Rightarrow> transaction tx"
    and user :: "'p \<Rightarrow> uuid" and key :: "'p \<Rightarrow> string" and source :: "'p \<Rightarrow> uuid"
    and total :: "'p \<Rightarrow> decimal" and limit_type :: "'p \<Rightarrow> string" and day :: "'p \<Rightarrow> date"
    and fits :: "'p \<Rightarrow> db \<Rightarrow> bool"
    and shown :: "transaction \<Rightarrow> transaction" and fetched :: "transaction \<Rightarrow> transaction"
  assumes fits_stable: "same_tables d d0 \<Longrightarrow> fits p d = fits p d0"
    and body_posts: "fits p d \<Longrightarrow> ledger_ok d \<Longrightarrow> body A p d = (Inr t, d') \<Longrightarrow>
      \<exists>row ls. t = shown row \<and> posts row ((source p, - total p) # ls) d d' \<and> sum_list (map snd ls) = total p
         \<and> (\<forall>l \<in> set ls. 0 \<le> snd l)"
    and body_funds: "body A p d = (Inr t, d') \<Longrightarrow>
      \<exists>a. account_by_id (accounts d) (source p) = Some a \<and> total p \<le> ac_balance a - ac_hold a"
    and body_limit: "body A p d = (Inr t, d') \<Longrightarrow>
      daily_usage_of d (user p) (day p) (limit_type p) + total p \<le> daily_limit_of d (user p) (limit_type p)"
    and body_usage: "body A p d = (Inr t, d') \<Longrightarrow>
      daily_usage d' = bump_usage (user p) (day p) (limit_type p) (total p) (daily_usage d)
      \<and> transaction_limits d' = transaction_limits d \<and> ewallet_providers d' = ewallet_providers d"
    and body_txn: "body A p d = (Inr t, d') \<Longrightarrow>
      tx_user t = user p \<and> tx_idem t = Some (key p) \<and> \<not> list_ex (txn_collides t) (transactions d)"
    and shown_key: "tx_user (shown row) = tx_user row \<and> tx_idem (shown row) = tx_idem row"
begin

definition run :: "(nat \<Rightarrow> attempt) \<Rightarrow> 'p \<Rightarrow> transaction tx" where
  "run E p = retry_from (\<lambda>A. attempt_tx A fetched (user p) (key p) (body A p)) E 0"

text \<open>How a run ends: without a posting, or with one that was committed.\<close>

definition unposted :: "'p \<Rightarrow> db \<Rightarrow> exec_err + transaction \<Rightarrow> db \<Rightarrow> bool" where
  "unposted p d r d' \<longleftrightarrow> same_tables d d' \<and> (\<forall>t. r = Inr t \<longrightarrow> map_option fetched (find_by_idem d (user p) (key p)) = Some t)"

definition posted :: "'p \<Rightarrow> db \<Rightarrow> exec_err + transaction \<Rightarrow> db \<Rightarrow> transaction \<Rightarrow> bool" where
  "posted p d r d' t \<longleftrightarrow> (\<exists>A d0. same_tables d d0 \<and> body A p d0 = (Inr t, d'))
     \<and> (r = Inr t \<or> r = Inl (EPg OtherPg))"

lemma find_by_idem_same: "same_tables d d0 \<Longrightarrow> find_by_idem d0 u k = find_by_idem d u k"
  by (simp add: find_by_idem_def same_tables_sel)

lemma unposted_same: "unposted p d r d' \<Longrightarrow> same_tables d d'"
  by (simp add: unposted_def)

lemma unposted_trans: "same_tables d d1 \<Longrightarrow> unposted p d1 r d' \<Longrightarrow> unposted p d r d'"
  by (auto simp: unposted_def find_by_idem_same intro: same_tables_trans)

lemma posted_trans: "same_tables d d1 \<Longrightarrow> posted p d1 r d' t \<Longrightarrow> posted p d r d' t"
  unfolding posted_def using same_tables_trans by blast

lemma attempt_cases:
  assumes "attempt_tx A fetched (user p) (key p) (body A p) d = (r, d')"
  shows "unposted p d r d' \<or> (\<exists>t. posted p d r d' t)"
proof -
  obtain r0 d0 where body: "tx_seq (tx_stmt A SBegin) (body A p) d = (r0, d0)" by fastforce
  show ?thesis
  proof (cases r0)
    case (Inl e)
    then have fin: "tx_finish A (tx_seq (tx_stmt A SBegin) (body A p)) d = (Inl e, rollback d d0)"
      using body by (simp add: tx_finish_def)
    have "unposted p d r d'"
    proof (cases "e = EUnique")
      case True
      with assms fin show ?thesis
        by (auto simp: attempt_tx_def fetch_existing_def tx_seq_def tx_bind_def tx_stmt_def tx_read_def
            tx_throw_def tx_return_def unposted_def find_by_idem_same [OF same_tables_rollback]
            split: option.splits)
    next
      case False
      with assms fin show ?thesis by (cases e) (auto simp: attempt_tx_def unposted_def)
    qed
    then show ?thesis ..
  next
    case (Inr t)
    then have b: "body A p d = (Inr t, d0)" using body by auto
    show ?thesis
    proof (cases "at_commit A")
      case Committed
      then have "r = Inr t" "d' = d0"
        using assms body Inr by (auto simp: attempt_tx_def tx_finish_def)
      then show ?thesis using b by (auto simp: posted_def intro: same_tables_refl)
    next
      case (NotCommitted e)
      then have "r = Inl (EPg e)" "d' = rollback d d0"
        using assms body Inr by (auto simp: attempt_tx_def tx_finish_def)
      then show ?thesis by (simp add: unposted_def)
    next
      case CommitLost
      then have "r = Inl (EPg OtherPg)" "d' = d0"
        using assms body Inr by (auto simp: attempt_tx_def tx_finish_def)
      then show ?thesis using b by (auto simp: posted_def intro: same_tables_refl)
    qed
  qed
qed

lemma retry_cases:
  assumes "retry_from (\<lambda>A. attempt_tx A fetched (user p) (key p) (body A p)) E n d = (r, d')"
  shows "unposted p d r d' \<or> (\<exists>t. posted p d r d' t)"
  using assms
proof (induction "\<lambda>A. attempt_tx A fetched (user p) (key p) (body A p)" E n d arbitrary: r d' rule: retry_from.induct)
  case (1 E n d)
  obtain r1 d1 where att: "attempt_tx (E n) fetched (user p) (key p) (body (E n) p) d = (r1, d1)" by fastforce
  note cases1 = attempt_cases [OF att]
  show ?case
  proof (cases "r1 = Inl (EPg SerializationFailure) \<and> backoff_serialization (E n) n")
    case True
    then have st: "same_tables d d1" using cases1 by (auto simp: unposted_def posted_def)
    have "retry_from (\<lambda>A. attempt_tx A fetched (user p) (key p) (body A p)) E (Suc n) d1 = (r, d')"
      using "1.prems" att True by (simp add: retry_from.simps [of _ _ n])
    then have "unposted p d1 r d' \<or> (\<exists>t. posted p d1 r d' t)"
      using "1.hyps" [OF att [symmetric], of "EPg SerializationFailure"] True by simp
    then show ?thesis using unposted_trans [OF st] posted_trans [OF st] by blast
  next
    case False
    then have "r = r1" "d' = d1"
      using "1.prems" att by (auto simp: retry_from.simps [of _ _ n] split: sum.splits if_splits)
    then show ?thesis using cases1 by simp
  qed
qed

lemma run_cases: "run E p d = (r, d') \<Longrightarrow> unposted p d r d' \<or> (\<exists>t. posted p d r d' t)"
  unfolding run_def by (rule retry_cases)

text \<open>
  A posting of a run: the state before COMMIT is reached has the tables of the initial state, so
  everything an attempt guarantees holds of the run.
\<close>

lemma posted_posts:
  assumes "posted p d r d' t" "fits p d" "ledger_ok d"
  obtains d0 row ls where "same_tables d d0" "ledger_ok d0" "t = shown row" "posts row ((source p, - total p) # ls) d0 d'"
    "sum_list (map snd ls) = total p" "\<forall>l \<in> set ls. 0 \<le> snd l"
proof -
  obtain A d0 where d0: "same_tables d d0" "body A p d0 = (Inr t, d')"
    using assms(1) by (auto simp: posted_def)
  have "ledger_ok d0" using ledger_ok_same [OF d0(1)] assms(3) by simp
  moreover have "fits p d0" using fits_stable [OF d0(1)] assms(2) by simp
  ultimately show ?thesis using body_posts d0 that by blast
qed

lemma conserves:
  assumes "run E p d = (r, d')" "fits p d" "ledger_ok d"
  shows "total_money (accounts d') = total_money (accounts d)"
  using run_cases [OF assms(1)]
proof
  assume "unposted p d r d'"
  then show ?thesis by (simp add: same_tables_sel(1) [OF unposted_same])
next
  assume "\<exists>t. posted p d r d' t"
  then obtain t d0 row ls where *: "same_tables d d0" "ledger_ok d0"
    "posts row ((source p, - total p) # ls) d0 d'" "sum_list (map snd ls) = total p"
    using assms by (auto elim: posted_posts)
  have "total_money (accounts d') = total_money (accounts d0)"
    using *(2,4) by (intro posts_conserves [OF *(3)]) (auto dest: accounts_ok_distinct)
  then show ?thesis using *(1) by (simp add: same_tables_sel)
qed

lemma keeps_ledger_ok:
  assumes "run E p d = (r, d')" "fits p d" "ledger_ok d"
  shows "ledger_ok d'"
  using run_cases [OF assms(1)]
proof
  assume "unposted p d r d'"
  then show ?thesis using assms(3) by (simp add: ledger_ok_same [OF unposted_same])
next
  assume "\<exists>t. posted p d r d' t"
  then obtain t d0 row ls where *: "ledger_ok d0" "posts row ((source p, - total p) # ls) d0 d'"
    "sum_list (map snd ls) = total p"
    using assms by (auto elim: posted_posts)
  then show ?thesis by (intro posts_ledger_ok [OF *(2,1)]) simp
qed

lemma keeps_providers: "run E p d = (r, d') \<Longrightarrow> ewallet_providers d' = ewallet_providers d"
  using body_usage same_tables_sel(6)
  by (fastforce dest!: run_cases simp: unposted_def posted_def)

text \<open>Only a lost COMMIT reply can hide a posting behind an error.\<close>

lemma failure_atomic:
  "run E p d = (Inl e, d') \<Longrightarrow> e \<noteq> EPg OtherPg \<Longrightarrow> same_tables d d'"
  by (auto dest!: run_cases simp: unposted_def posted_def)

text \<open>Money available before a posting covers it, and no other account loses any.\<close>

lemma posted_funds:
  assumes "posted p d r d' t"
  obtains a where "account_by_id (accounts d) (source p) = Some a" "total p \<le> ac_balance a - ac_hold a"
proof -
  obtain A d0 where d0: "same_tables d d0" "body A p d0 = (Inr t, d')"
    using assms by (auto simp: posted_def)
  show ?thesis using body_funds [OF d0(2)] that same_tables_sel(1) [OF d0(1)] by auto
qed

lemma no_overdraft:
  assumes run: "run E p d = (r, d')" and ok: "fits p d" "ledger_ok d"
    and a: "account_by_id (accounts d) i = Some a" "ac_hold a \<le> ac_balance a"
  obtains a' where "account_by_id (accounts d') i = Some a'" "ac_hold a' = ac_hold a"
    "ac_hold a' \<le> ac_balance a'" "i \<noteq> source p \<Longrightarrow> ac_balance a \<le> ac_balance a'"
  using run_cases [OF run]
proof
  assume "unposted p d r d'"
  then show ?thesis using that [of a] a by (simp add: same_tables_sel(1) [OF unposted_same])
next
  assume "\<exists>t. posted p d r d' t"
  then obtain t where t: "posted p d r d' t" ..
  from posted_posts [OF t ok] obtain d0 row ls where *: "same_tables d d0"
    "posts row ((source p, - total p) # ls) d0 d'" "\<forall>l \<in> set ls. 0 \<le> snd l" by metis
  have acc: "accounts d' = apply_legs ((source p, - total p) # ls) (accounts d)"
    and dist: "distinct (map fst ((source p, - total p) # ls))"
    using * by (auto simp: posts_def same_tables_sel)
  let ?x = "sum_list (map snd (filter (\<lambda>l. fst l = i) ((source p, - total p) # ls)))"
  have a': "account_by_id (accounts d') i = Some (a\<lparr>ac_balance := ac_balance a + ?x\<rparr>)"
    using apply_legs_balance [OF a(1)] unfolding acc by blast
  have pos: "0 \<le> sum_list (map snd (filter (\<lambda>l. fst l = i) ls))"
    using *(3) by (intro sum_list_nonneg) auto
  have src: "ac_hold a \<le> ac_balance a + ?x" if "i = source p"
  proof -
    have "total p \<le> ac_balance a - ac_hold a"
      using posted_funds [OF t] a(1) that by auto
    then show ?thesis using pos that by simp
  qed
  have other: "ac_balance a \<le> ac_balance a + ?x" if "i \<noteq> source p" using pos that by simp
  have "ac_hold a \<le> ac_balance a + ?x" using src other a(2) by linarith
  then show ?thesis using that [OF a'] other by simp
qed

text \<open>The limit of the day is still respected after a posting.\<close>

lemma within_limit:
  assumes "posted p d r d' t" "sen (total p)" "sen (daily_usage_of d (user p) (day p) (limit_type p))"
  shows "daily_usage_of d' (user p) (day p) (limit_type p)
       = daily_usage_of d (user p) (day p) (limit_type p) + total p"
    and "daily_usage_of d' (user p) (day p) (limit_type p) \<le> daily_limit_of d' (user p) (limit_type p)"
proof -
  obtain A d0 where d0: "same_tables d d0" "body A p d0 = (Inr t, d')"
    using assms(1) by (auto simp: posted_def)
  have same: "daily_usage_of d0 = daily_usage_of d" "daily_limit_of d0 = daily_limit_of d"
    using d0(1) by (auto simp: daily_usage_of_def daily_limit_of_def limit_of_def same_tables_sel fun_eq_iff)
  have use: "daily_usage d' = bump_usage (user p) (day p) (limit_type p) (total p) (daily_usage d0)"
    and lim: "daily_limit_of d' = daily_limit_of d0"
    using body_usage [OF d0(2)] by (auto simp: daily_limit_of_def limit_of_def fun_eq_iff)
  show eq: "daily_usage_of d' (user p) (day p) (limit_type p)
       = daily_usage_of d (user p) (day p) (limit_type p) + total p"
    using daily_usage_of_bump [OF use] assms(2,3) same by (simp add: sen_add)
  show "daily_usage_of d' (user p) (day p) (limit_type p) \<le> daily_limit_of d' (user p) (limit_type p)"
    using body_limit [OF d0(2)] unfolding eq lim same by simp
qed

subsection \<open>One posting per key\<close>

lemma posted_fresh: "posted p d r d' t \<Longrightarrow> find_by_idem d (user p) (key p) = None"
  using body_txn
  by (fastforce simp: posted_def find_by_idem_def find_None_iff list_ex_iff txn_collides_def
      same_tables_sel)

lemma keyed_once:
  assumes "run E p d = (r, d')" "find_by_idem d (user p) (key p) = Some row"
  shows "same_tables d d' \<and> (r = Inr (fetched row) \<or> (\<exists>e. r = Inl e))"
proof -
  have "unposted p d r d'"
    using run_cases [OF assms(1)] posted_fresh assms(2) by fastforce
  then show ?thesis using assms(2) by (cases r) (auto simp: unposted_def)
qed

lemma posted_found:
  assumes "posted p d r d' t" "fits p d" "ledger_ok d"
  obtains row where "t = shown row" "find_by_idem d' (user p) (key p) = Some (stored_txn row)"
proof -
  from posted_posts [OF assms] obtain d0 row ls where *: "same_tables d d0" "t = shown row"
    "posts row ((source p, - total p) # ls) d0 d'" by metis
  have "transactions d' = transactions d @ [stored_txn row]"
    using * by (simp add: posts_def same_tables_sel)
  moreover have "find (\<lambda>t. tx_user t = user p \<and> tx_idem t = Some (key p)) (transactions d) = None"
    using posted_fresh [OF assms(1)] by (simp add: find_by_idem_def)
  moreover have "tx_user row = user p" "tx_idem row = Some (key p)"
    using assms(1) body_txn shown_key [of row] *(2) by (auto simp: posted_def)
  ultimately have "find_by_idem d' (user p) (key p) = Some (stored_txn row)"
    by (simp add: find_by_idem_def stored_txn_def find_snoc)
  then show ?thesis using *(2) that by blast
qed

text \<open>
  Whatever happened to the first run, also when its client never heard of the COMMIT, a second
  run with the same key posts nothing more if the first one posted.
\<close>

lemma exactly_once:
  assumes "run E p d = (r, d1)" "run E' q d1 = (r', d2)" "fits p d" "ledger_ok d"
    "user q = user p" "key q = key p" "\<not> same_tables d d1"
  shows "same_tables d1 d2"
proof -
  from run_cases [OF assms(1)] assms(7) obtain t where "posted p d r d1 t"
    by (auto simp: unposted_def)
  then obtain row where "find_by_idem d1 (user q) (key q) = Some (stored_txn row)"
    using posted_found assms(3-6) by metis
  then show ?thesis using keyed_once [OF assms(2)] by blast
qed

end

subsection \<open>Bounded retries\<close>

text \<open>A run looks at three attempts of its environment and no more.\<close>

lemma retry_from_agree:
  assumes "n < max_serialization_retries" "\<forall>m < max_serialization_retries. E m = E' m"
  shows "retry_from body E n d = retry_from body E' n d"
  using assms
proof (induction body E n d rule: retry_from.induct)
  case (1 body E n d)
  have n: "E n = E' n" using "1.prems" by simp
  obtain r d1 where b: "body (E n) d = (r, d1)" by fastforce
  show ?case
  proof (cases "r = Inl (EPg SerializationFailure) \<and> backoff_serialization (E n) n")
    case True
    then have "Suc n < max_serialization_retries"
      by (auto simp: backoff_serialization_def split: if_splits)
    then have "retry_from body E (Suc n) d1 = retry_from body E' (Suc n) d1"
      using "1.IH" [OF b [symmetric], of "EPg SerializationFailure"] True "1.prems" by simp
    then show ?thesis using True b n by (simp add: retry_from.simps [of _ _ n])
  next
    case False
    then show ?thesis using b n
      by (auto simp: retry_from.simps [of _ _ n] split: sum.splits)
  qed
qed

end
