(* ===== verification/Rail_Legs.thy ===== *)
theory Rail_Legs
  imports Rail
begin

text \<open>
  The writes of the executors against the abstract posting: a balance written from its locked row is
  a leg, and the mutation inserted for it records that leg. Shared by the three rails.
\<close>

definition tx_opt :: "'x option \<Rightarrow> ('x \<Rightarrow> unit tx) \<Rightarrow> unit tx" where
  "tx_opt x f = (case x of None \<Rightarrow> tx_return () | Some i \<Rightarrow> f i)"

definition opt_list :: "'x option \<Rightarrow> 'x list" where
  "opt_list x = (case x of None \<Rightarrow> [] | Some i \<Rightarrow> [i])"

lemma tx_opt_simps [simp]: "tx_opt None f = tx_return ()" "tx_opt (Some i) f = f i"
  by (simp_all add: tx_opt_def)

lemma opt_list_simps [simp]: "opt_list None = []" "opt_list (Some i) = [i]"
  by (simp_all add: opt_list_def)

definition locked_ok :: "account list \<Rightarrow> (uuid \<times> locked_account) list \<Rightarrow> uuid \<Rightarrow> bool" where
  "locked_ok as lk i \<longleftrightarrow> (case account_by_id as i of None \<Rightarrow> False
     | Some a \<Rightarrow> locked_of lk i = \<lparr>lk_balance = ac_balance a, lk_hold = ac_hold a\<rparr>)"

lemma locked_okE:
  assumes "locked_ok as lk i"
  obtains a where "account_by_id as i = Some a" "locked_of lk i = \<lparr>lk_balance = ac_balance a, lk_hold = ac_hold a\<rparr>"
  using assms by (auto simp: locked_ok_def split: option.splits)

lemma lock_accounts_ok:
  assumes "lock_accounts A ids d = (Inr lk, d')"
  shows "d' = d" "\<forall>i \<in> set ids. locked_ok (accounts d) lk i"
proof -
  show "d' = d" using lock_accounts_Inr [OF assms] by simp
  show "\<forall>i \<in> set ids. locked_ok (accounts d) lk i"
  proof
    fix i assume "i \<in> set ids"
    then obtain a where "account_by_id (accounts d) i = Some a"
      "lk_balance (locked_of lk i) = ac_balance a" "lk_hold (locked_of lk i) = ac_hold a"
      by (rule lock_accounts_locked [OF assms])
    then show "locked_ok (accounts d) lk i" by (simp add: locked_ok_def locked_account.equality)
  qed
qed

lemma locked_sen: "locked_ok as lk i \<Longrightarrow> accounts_ok as \<Longrightarrow> sen (lk_balance (locked_of lk i))"
  by (auto elim!: locked_okE dest: accounts_ok_sen)

lemma leg_write:
  assumes "locked_ok as lk i" "accounts_ok as" "\<forall>l \<in> set ls. sen (snd l)" "sen x" "i \<notin> fst ` set ls"
  shows "set_balance i (lk_balance (locked_of lk i) + x) (apply_legs ls as) = apply_legs (ls @ [(i, x)]) as"
  using assms(1)
proof (rule locked_okE)
  fix a
  assume "account_by_id as i = Some a" "locked_of lk i = \<lparr>lk_balance = ac_balance a, lk_hold = ac_hold a\<rparr>"
  then show ?thesis using set_balance_apply_legs [OF assms(2,3) _ assms(4,5)] by simp
qed

text \<open>The first leg, with the subtraction the code writes.\<close>

lemma first_leg_write:
  assumes "locked_ok as lk i" "accounts_ok as" "sen x"
  shows "set_balance i (lk_balance (locked_of lk i) - x) as = apply_legs [(i, - x)] as"
  using leg_write [OF assms(1,2), of "[]" "- x"] assms(3) sen_diff [of 0 x] by simp

lemma sen_neg [simp, intro]: "sen x \<Longrightarrow> sen (- x)"
  using sen_diff [of 0 x] by simp

text \<open>The mutation rows of a posting.\<close>

definition leg_mutation :: "(uuid \<times> locked_account) list \<Rightarrow> uuid \<Rightarrow> leg \<Rightarrow> mutation \<Rightarrow> bool" where
  "leg_mutation lk i l m \<longleftrightarrow> mu_account m = fst l \<and> mu_txn m = Some i \<and> signed_amount m = snd l
     \<and> mu_before m = lk_balance (locked_of lk (fst l))
     \<and> mu_after m = lk_balance (locked_of lk (fst l)) + snd l"

lemma leg_mutation_records:
  assumes "leg_mutation lk i l m" "locked_ok as lk (fst l)" "accounts_ok as" "sen (snd l)"
  shows "records_leg as i (stored_mutation m) l"
proof -
  have b: "sen (mu_before m)" and a: "sen (mu_after m)"
    using assms locked_sen [OF assms(2,3)] by (auto simp: leg_mutation_def intro: sen_add)
  have x: "sen (mu_amount m)"
  proof (cases "mu_type m")
    case DEBIT
    then have "mu_amount m = - snd l" using assms(1) by (simp add: leg_mutation_def signed_amount_def)
    then show ?thesis using assms(4) by simp
  next
    case CREDIT
    then show ?thesis using assms(1,4) by (simp add: leg_mutation_def signed_amount_def)
  qed
  have "stored_mutation m = m" by (simp add: stored_mutation_def a b x)
  then show ?thesis
    using assms(1) locked_okE [OF assms(2)] by (force simp: leg_mutation_def records_leg_def)
qed

lemma legs_recorded:
  assumes "list_all2 (\<lambda>m l. leg_mutation lk i l m) ms ls" "accounts_ok as"
    "\<forall>l \<in> set ls. locked_ok as lk (fst l)" "\<forall>l \<in> set ls. sen (snd l)"
  shows "list_all2 (records_leg as i) (map stored_mutation ms) ls"
  using assms
  by (induction ms ls rule: list_all2_induct) (auto intro: leg_mutation_records)

text \<open>Accounts of different owners or rails are different rows.\<close>

lemma settlement_row:
  assumes "settlement_account_id L d r k = Some i"
  obtains a where "a \<in> set (accounts d)" "ac_id a = i" "ac_owner a = INTERNAL" "ac_rail a = Some r"
  using assms by (auto simp: settlement_account_id_def dest: find_Some_D)

lemma settlement_distinct:
  assumes "accounts_ok (accounts d)" "settlement_account_id L d r k = Some i"
    "settlement_account_id L d r' k' = Some j" "r \<noteq> r'"
  shows "i \<noteq> j"
  using assms(2,3)
proof (elim settlement_row)
  fix a b
  assume "a \<in> set (accounts d)" "ac_id a = i" "ac_rail a = Some r"
    "b \<in> set (accounts d)" "ac_id b = j" "ac_rail b = Some r'"
  then show ?thesis
    using distinct_key_unique [OF accounts_ok_distinct [OF assms(1)], of a b] assms(4) by auto
qed

lemma settlement_not_customer:
  assumes "accounts_ok (accounts d)" "settlement_account_id L d r k = Some i"
    "a \<in> set (accounts d)" "ac_owner a = CUSTOMER"
  shows "i \<noteq> ac_id a"
  using assms(2)
proof (elim settlement_row)
  fix b
  assume b: "b \<in> set (accounts d)" "ac_id b = i" "ac_owner b = INTERNAL"
  then have "b \<noteq> a" using assms(4) by auto
  then show ?thesis
    using distinct_key_unique [OF accounts_ok_distinct [OF assms(1)] b(1) assms(3)] b(2) by blast
qed

text \<open>The debited account is a customer's.\<close>

definition customer_source :: "db \<Rightarrow> uuid \<Rightarrow> bool" where
  "customer_source d i \<longleftrightarrow> list_ex (\<lambda>a. ac_id a = i \<and> ac_owner a = CUSTOMER) (accounts d)"

lemma customer_source_same: "same_tables d d0 \<Longrightarrow> customer_source d i = customer_source d0 i"
  by (simp add: customer_source_def same_tables_sel)

lemma customer_not_settlement:
  assumes "customer_source d s" "accounts_ok (accounts d)" "settlement_account_id L d r k = Some i"
  shows "i \<noteq> s"
proof -
  obtain a where "a \<in> set (accounts d)" "ac_id a = s" "ac_owner a = CUSTOMER"
    using assms(1) by (auto simp: customer_source_def list_ex_iff)
  then show ?thesis using settlement_not_customer [OF assms(2,3)] by blast
qed

lemma payment_accounts_distinct:
  assumes "customer_source d s" "accounts_ok (accounts d)" "settlement_account_id L d r k = Some i"
    "settlement_account_id L d r' k' = Some j" "r \<noteq> r'"
  shows "distinct [s, i, j]"
  using customer_not_settlement [OF assms(1,2,3)] customer_not_settlement [OF assms(1,2,4)]
    settlement_distinct [OF assms(2-5)] by auto

lemma sql_settlement_Inr [simp]:
  "sql_settlement A L r d = (Inr i, d') \<longleftrightarrow>
     d' = d \<and> at_fault A (SSettlement r) = None \<and> settlement_account_id L d r (at_txn_id A) = Some i"
  by (auto simp: sql_settlement_def split: option.splits)

lemma sql_writes_Inr [simp]:
  "sql_update_balance A i b d = (Inr u, d') \<longleftrightarrow>
     at_fault A (SUpdateBalance i) = None \<and> d' = d\<lparr>accounts := set_balance i b (accounts d)\<rparr>"
  "sql_insert_mutation A m d = (Inr u, d') \<longleftrightarrow>
     at_fault A (SInsertMutation (mu_account m)) = None \<and> d' = d\<lparr>mutations := mutations d @ [stored_mutation m]\<rparr>"
  "sql_insert_transaction A t d = (Inr u, d') \<longleftrightarrow>
     at_fault A SInsertTxn = None \<and> \<not> list_ex (txn_collides t) (transactions d)
     \<and> d' = d\<lparr>transactions := transactions d @ [stored_txn t]\<rparr>"
  "sql_upsert_usage A v c ty x d = (Inr u, d') \<longleftrightarrow>
     at_fault A SUpsertUsage = None \<and> d' = d\<lparr>daily_usage := bump_usage v c ty x (daily_usage d)\<rparr>"
  "sql_next_reference A L c d = (Inr ref, d') \<longleftrightarrow>
     at_fault A SRefNumber = None \<and> d' = d\<lparr>ref_seq := next_seq (ref_seq d)\<rparr>
     \<and> ref = reference_number L c (next_seq (ref_seq d))"
  by (auto simp: sql_update_balance_def sql_insert_mutation_def sql_insert_transaction_def
      sql_upsert_usage_def sql_next_reference_def)

lemma sql_reads_Inr [simp]:
  "sql_daily_usage A v c ty d = (Inr x, d') \<longleftrightarrow>
     at_fault A SDailyUsage = None \<and> d' = d \<and> x = daily_usage_of d v c ty"
  "sql_daily_limit A v ty d = (Inr x, d') \<longleftrightarrow>
     at_fault A SDailyLimit = None \<and> d' = d \<and> x = daily_limit_of d v ty"
  by (auto simp: sql_daily_usage_def sql_daily_limit_def)

text \<open>
  Enough for a posting: the ids are distinct and locked, the amounts have two decimals and the
  inserted mutations are those of the legs.
\<close>

lemma posts_intro:
  assumes "accounts d' = apply_legs ls (accounts d)" "transactions d' = transactions d @ [stored_txn t]"
    "mutations d' = mutations d @ map stored_mutation ms"
    "list_all2 (\<lambda>m l. leg_mutation lk (tx_id t) l m) ms ls"
    "distinct (map fst ls)" "\<forall>l \<in> set ls. locked_ok (accounts d) lk (fst l)"
    "\<forall>l \<in> set ls. sen (snd l)" "accounts_ok (accounts d)" "\<not> list_ex (txn_collides t) (transactions d)"
  shows "posts t ls d d'"
proof -
  have "tx_id t \<notin> tx_id ` set (transactions d)"
    using assms(9) by (auto simp: list_ex_iff txn_collides_def)
  then show ?thesis
    using assms legs_recorded [OF assms(4,8,6,7)] by (auto simp: posts_def)
qed

end
