(* ===== verification/Idempotency.thy ===== *)
theory Idempotency
  imports Entities
begin

text \<open>
  The idempotency guard of the money endpoints, \<open>internal/pkg/idempotency/idempotency.go\<close>:
  one Redis key per customer and idempotency key, claimed with SETNX, overwritten with the
  response when the request succeeds and deleted when it fails. The locale states the contract
  of the interface \<open>transaction.IdempotencyStore\<close> the services rely on.
\<close>

record idem_result =
  already_claimed :: bool
  stored_response :: rval
  still_processing :: bool

definition status_processing :: rval where
  "status_processing = RText ''PROCESSING''"

definition claim_ttl :: time where
  "claim_ttl = seconds 30"

definition result_ttl :: time where
  "result_ttl = hours 24"

definition idem_key :: "string \<Rightarrow> string \<Rightarrow> string" where
  "idem_key user k = ''idem:'' @ user @ '':'' @ k"

definition idem_claim ::
    "'s redis_api \<Rightarrow> time \<Rightarrow> string \<Rightarrow> string \<Rightarrow> 's \<Rightarrow> idem_result reply \<times> 's" where
  "idem_claim R t user k s =
     (case api_setnx R t (idem_key user k) status_processing claim_ttl s of
        (Fault, s1) \<Rightarrow> (Fault, s1)
      | (Reply True, s1) \<Rightarrow>
          (Reply \<lparr>already_claimed = False, stored_response = RText '''', still_processing = False\<rparr>, s1)
      | (Reply False, s1) \<Rightarrow>
          (case api_get R t (idem_key user k) s1 of
             (Fault, s2) \<Rightarrow> (Fault, s2)
           | (Reply None, s2) \<Rightarrow>
               (Reply \<lparr>already_claimed = True, stored_response = RText '''', still_processing = True\<rparr>, s2)
           | (Reply (Some v), s2) \<Rightarrow>
               (if v = status_processing
                then (Reply \<lparr>already_claimed = True, stored_response = RText '''', still_processing = True\<rparr>, s2)
                else (Reply \<lparr>already_claimed = True, stored_response = v, still_processing = False\<rparr>, s2))))"

definition idem_persist ::
    "'s redis_api \<Rightarrow> time \<Rightarrow> string \<Rightarrow> string \<Rightarrow> json \<Rightarrow> 's \<Rightarrow> unit reply \<times> 's" where
  "idem_persist R t user k resp s = api_set R t (idem_key user k) (RJson resp) result_ttl s"

definition idem_release ::
    "'s redis_api \<Rightarrow> time \<Rightarrow> string \<Rightarrow> string \<Rightarrow> 's \<Rightarrow> unit reply \<times> 's" where
  "idem_release R t user k s = api_del R t (idem_key user k) s"

text \<open>A slot is free, taken by a request in flight, or holds a response.\<close>

datatype slot = Free | Busy | Done rval

definition slot_of :: "rval option \<Rightarrow> slot" where
  "slot_of v = (case v of None \<Rightarrow> Free | Some w \<Rightarrow> if w = status_processing then Busy else Done w)"

definition idem_slot :: "('s \<Rightarrow> time \<Rightarrow> string \<Rightarrow> rval option) \<Rightarrow> 's \<Rightarrow> time \<Rightarrow> string \<Rightarrow> string \<Rightarrow> slot" where
  "idem_slot live s t user k = slot_of (live s t (idem_key user k))"

lemma slot_of_simps [simp]:
  "slot_of None = Free"
  "slot_of (Some status_processing) = Busy"
  "slot_of (Some (RJson j)) = Done (RJson j)"
  by (simp_all add: slot_of_def status_processing_def)

lemma slot_of_Free [simp]: "slot_of v = Free \<longleftrightarrow> v = None"
  by (auto simp: slot_of_def split: option.splits if_splits)

lemma slot_of_Busy [simp]: "slot_of v = Busy \<longleftrightarrow> v = Some status_processing"
  by (auto simp: slot_of_def split: option.splits if_splits)

lemma slot_of_Done: "slot_of v = Done w \<longleftrightarrow> v = Some w \<and> w \<noteq> status_processing"
  by (auto simp: slot_of_def split: option.splits if_splits)

subsection \<open>The contract\<close>

locale idempotency_store =
  fixes claim :: "time \<Rightarrow> string \<Rightarrow> string \<Rightarrow> 's \<Rightarrow> idem_result reply \<times> 's"
    and persist :: "time \<Rightarrow> string \<Rightarrow> string \<Rightarrow> json \<Rightarrow> 's \<Rightarrow> unit reply \<times> 's"
    and release :: "time \<Rightarrow> string \<Rightarrow> string \<Rightarrow> 's \<Rightarrow> unit reply \<times> 's"
    and slot :: "'s \<Rightarrow> time \<Rightarrow> string \<Rightarrow> string \<Rightarrow> slot"
  assumes claim_free: "claim t u k s = (Reply r, s') \<Longrightarrow> \<not> already_claimed r \<longleftrightarrow> slot s t u k = Free"
    and claim_takes: "claim t u k s = (Reply r, s') \<Longrightarrow> \<not> already_claimed r \<Longrightarrow>
          t \<le> t' \<Longrightarrow> t' < t + claim_ttl \<Longrightarrow> slot s' t' u k = Busy"
    and claim_busy: "claim t u k s = (Reply r, s') \<Longrightarrow> already_claimed r \<Longrightarrow>
          still_processing r \<longleftrightarrow> slot s t u k = Busy"
    and claim_done: "claim t u k s = (Reply r, s') \<Longrightarrow> already_claimed r \<Longrightarrow> \<not> still_processing r \<Longrightarrow>
          slot s t u k = Done (stored_response r)"
    and claim_keeps: "claim t u k s = (Reply r, s') \<Longrightarrow> already_claimed r \<Longrightarrow> t \<le> t' \<Longrightarrow>
          slot s' t' u k = slot s t' u k"
    and persist_done: "persist t u k j s = (Reply x, s') \<Longrightarrow> t \<le> t' \<Longrightarrow> t' < t + result_ttl \<Longrightarrow>
          slot s' t' u k = Done (RJson j)"
    and release_free: "release t u k s = (Reply x, s') \<Longrightarrow> t \<le> t' \<Longrightarrow> slot s' t' u k = Free"
begin

text \<open>
  Mutual exclusion: while one request holds the slot, a second one with the same key is told
  that the first is still being processed.
\<close>

lemma claim_excludes:
  assumes "claim t u k s = (Reply r, s1)" "\<not> already_claimed r"
    and "t \<le> t'" "t' < t + claim_ttl" "claim t' u k s1 = (Reply r', s2)"
  shows "already_claimed r' \<and> still_processing r'"
proof -
  have "slot s1 t' u k = Busy" using assms claim_takes by blast
  then show ?thesis
    using claim_free [OF assms(5)] claim_busy [OF assms(5)] by auto
qed

text \<open>Replay: once a response is stored, a claim returns it and is never fresh, for a day.\<close>

lemma claim_replays:
  assumes "persist t u k j s = (Reply x, s1)" "t \<le> t'" "t' < t + result_ttl"
    and "claim t' u k s1 = (Reply r, s2)"
  shows "already_claimed r \<and> \<not> still_processing r \<and> stored_response r = RJson j"
proof -
  have "slot s1 t' u k = Done (RJson j)" using assms persist_done by blast
  then show ?thesis
    using claim_free [OF assms(4)] claim_busy [OF assms(4)] claim_done [OF assms(4)] by auto
qed

lemma claim_after_release:
  assumes "release t u k s = (Reply x, s1)" "t \<le> t'" "claim t' u k s1 = (Reply r, s2)"
  shows "\<not> already_claimed r"
  using assms release_free claim_free by blast

end

subsection \<open>Redis provides it\<close>

context redis_contract
begin

lemma idem_claim_cases:
  assumes "idem_claim R t u k s = (Reply r, s')"
  obtains (fresh) "live s t (idem_key u k) = None" "\<not> already_claimed r"
      "\<And>t'. t \<le> t' \<Longrightarrow> live s' t' (idem_key u k) = shows_put status_processing t claim_ttl t'"
  | (busy) "live s t (idem_key u k) = Some status_processing" "already_claimed r" "still_processing r"
      "\<And>t'. t \<le> t' \<Longrightarrow> live s' t' (idem_key u k) = live s t' (idem_key u k)"
  | (replay) v where "live s t (idem_key u k) = Some v" "v \<noteq> status_processing"
      "already_claimed r" "\<not> still_processing r" "stored_response r = v"
      "\<And>t'. t \<le> t' \<Longrightarrow> live s' t' (idem_key u k) = live s t' (idem_key u k)"
proof -
  let ?k = "idem_key u k"
  obtain q s1 where q: "api_setnx R t ?k status_processing claim_ttl s = (q, s1)" by force
  show thesis
  proof (cases q)
    case Fault
    then show ?thesis using assms q by (simp add: idem_claim_def)
  next
    case (Reply b)
    show ?thesis
    proof (cases b)
      case True
      then have "r = \<lparr>already_claimed = False, stored_response = RText '''', still_processing = False\<rparr>"
        and "s' = s1"
        using assms q Reply by (auto simp: idem_claim_def)
      then show ?thesis
        using q Reply True setnx_reply [of t ?k _ _ s True s1] setnx_new [of t ?k _ _ s s1]
        by (auto intro!: fresh)
    next
      case False
      with q Reply have q0: "api_setnx R t ?k status_processing claim_ttl s = (Reply False, s1)" by simp
      obtain g s2 where g: "api_get R t ?k s1 = (g, s2)" by force
      have keep: "live s2 t' ?k = live s t' ?k" if "t \<le> t'" for t'
        using get_frame [OF g that] setnx_old [OF q0 that] by simp
      have some: "live s1 t ?k \<noteq> None"
        using setnx_reply [OF q0] setnx_old [OF q0, of t] by simp
      have "s' = s2" and "g \<noteq> Fault"
        using assms q Reply False g
        by (auto simp: idem_claim_def split: reply.splits option.splits if_splits)
      then obtain w where w: "g = Reply w" "w = live s1 t ?k"
        using g get_reply by (cases g) auto
      with some obtain v where v: "g = Reply (Some v)" "live s1 t ?k = Some v" by auto
      then have lv: "live s t ?k = Some v"
        using setnx_old [OF q0, of t] by simp
      show ?thesis
      proof (cases "v = status_processing")
        case True
        then have "r = \<lparr>already_claimed = True, stored_response = RText '''', still_processing = True\<rparr>"
          using assms q Reply False g v by (simp add: idem_claim_def)
        then show ?thesis using lv keep \<open>s' = s2\<close> True by (intro busy) auto
      next
        case other: False
        then have "r = \<lparr>already_claimed = True, stored_response = v, still_processing = False\<rparr>"
          using assms q Reply False g v by (simp add: idem_claim_def)
        then show ?thesis using lv keep \<open>s' = s2\<close> other by (intro replay) auto
      qed
    qed
  qed
qed

sublocale idem: idempotency_store "idem_claim R" "idem_persist R" "idem_release R" "idem_slot live"
proof (unfold_locales, goal_cases)
  case (1 t u k s r s')
  then show ?case by (elim idem_claim_cases) (auto simp: idem_slot_def)
next
  case (2 t u k s r s' t')
  then show ?case by (elim idem_claim_cases) (auto simp: idem_slot_def)
next
  case (3 t u k s r s')
  then show ?case by (elim idem_claim_cases) (auto simp: idem_slot_def)
next
  case (4 t u k s r s')
  then show ?case by (elim idem_claim_cases) (auto simp: idem_slot_def slot_of_Done)
next
  case (5 t u k s r s' t')
  then show ?case by (elim idem_claim_cases) (auto simp: idem_slot_def)
next
  case (6 t u k j s x s' t')
  then show ?case by (auto simp: idem_slot_def idem_persist_def set_reply)
next
  case (7 t u k s x s' t')
  then show ?case by (auto simp: idem_slot_def idem_release_def del_gone)
qed

lemma idem_claim_frame:
  assumes "idem_claim R t u k s = (r, s')" "k' \<noteq> idem_key u k" "t \<le> t'"
  shows "live s' t' k' = live s t' k'"
  using assms by (auto simp: idem_claim_def split: prod.splits reply.splits bool.splits option.splits if_splits
      dest!: setnx_frame [where k' = k' and t' = t'] get_frame [where k' = k' and t' = t'])

end

end
