(* ===== verification/Transaction_Cache.thy ===== *)
theory Transaction_Cache
  imports Idempotency
begin

text \<open>
  The Redis caches of the money paths, \<open>internal/repository/redis/transaction_cache.go\<close>:
  transfer inquiries and verification tokens (stored with a time to live, consumed with GETDEL),
  recent transfers, receipts, and the invalidation after a transaction. The locale
  \<open>single_use_store\<close> is the contract of \<open>transaction.InquiryCache\<close> and
  \<open>transaction.VerificationTokenCache\<close> the services rely on; both caches provide it.
\<close>

subsection \<open>Inquiries\<close>

text \<open>
  \<open>cachedInquiry\<close>: what the cache keeps of an inquiry. There is no field for \<open>Metadata\<close>, and
  \<open>ExpiresAt\<close> is rendered in RFC 3339, that is cut to whole seconds.
\<close>

definition to_seconds :: "time \<Rightarrow> time" where
  "to_seconds t = 1000 * (t div 1000)"

definition encode_inquiry :: "inquiry \<Rightarrow> json" where
  "encode_inquiry q = JObj [
     (''id'', JStr (iq_id q)),
     (''user_id'', JStr (iq_user q)),
     (''inquiry_type'', JStr (iq_type q)),
     (''destination_account'', JStr (iq_dest q)),
     (''destination_name'', jopt JStr (iq_dest_name q)),
     (''destination_bank'', jopt JStr (iq_dest_bank q)),
     (''bank_code'', jopt JStr (iq_bank_code q)),
     (''provider_id'', jopt JStr (iq_provider q)),
     (''amount'', jopt JDec (iq_amount q)),
     (''admin_fee'', jopt JDec (iq_fee q)),
     (''expires_at'', JTime (to_seconds (iq_expires q)))]"

definition decode_inquiry :: "json \<Rightarrow> inquiry option" where
  "decode_inquiry j = (case j of JObj p \<Rightarrow> do {
      i \<leftarrow> get_str p ''id'';
      u \<leftarrow> get_str p ''user_id'';
      ty \<leftarrow> get_str p ''inquiry_type'';
      d \<leftarrow> get_str p ''destination_account'';
      dn \<leftarrow> get_ostr p ''destination_name'';
      db \<leftarrow> get_ostr p ''destination_bank'';
      bc \<leftarrow> get_ostr p ''bank_code'';
      pr \<leftarrow> get_ostr p ''provider_id'';
      am \<leftarrow> get_odec p ''amount'';
      fee \<leftarrow> get_odec p ''admin_fee'';
      ex \<leftarrow> get_time p ''expires_at'';
      Some \<lparr>iq_id = i, iq_user = u, iq_type = ty, iq_dest = d, iq_dest_name = dn, iq_dest_bank = db,
        iq_bank_code = bc, iq_provider = pr, iq_amount = am, iq_fee = fee, iq_metadata = None,
        iq_expires = ex, iq_used = None, iq_created = 0\<rparr> }
    | _ \<Rightarrow> None)"

text \<open>What survives a round trip through the cache.\<close>

definition cached_inquiry :: "inquiry \<Rightarrow> inquiry" where
  "cached_inquiry q = q\<lparr>iq_metadata := None, iq_expires := to_seconds (iq_expires q),
     iq_used := None, iq_created := 0\<rparr>"

lemma decode_encode_inquiry [simp]: "decode_inquiry (encode_inquiry q) = Some (cached_inquiry q)"
  by (cases q) (auto simp: decode_inquiry_def encode_inquiry_def cached_inquiry_def json_get_defs
      split: option.splits)

lemma to_seconds_idem [simp]: "to_seconds (to_seconds t) = to_seconds t"
  by (simp add: to_seconds_def)

lemma to_seconds_le: "to_seconds t \<le> t"
  by (simp add: to_seconds_def)

lemma cached_inquiry_idem [simp]: "cached_inquiry (cached_inquiry q) = cached_inquiry q"
  by (simp add: cached_inquiry_def)

lemma cached_inquiry_sel [simp]:
  "iq_id (cached_inquiry q) = iq_id q" "iq_user (cached_inquiry q) = iq_user q"
  "iq_dest (cached_inquiry q) = iq_dest q" "iq_metadata (cached_inquiry q) = None"
  "iq_amount (cached_inquiry q) = iq_amount q" "iq_fee (cached_inquiry q) = iq_fee q"
  "iq_bank_code (cached_inquiry q) = iq_bank_code q"
  by (simp_all add: cached_inquiry_def)

definition inquiry_key :: "string \<Rightarrow> string" where
  "inquiry_key i = ''inquiry:'' @ i"

definition store_inquiry :: "'s redis_api \<Rightarrow> time \<Rightarrow> inquiry \<Rightarrow> 's \<Rightarrow> unit reply \<times> 's" where
  "store_inquiry R t q s =
     api_set R t (inquiry_key (iq_id q)) (RJson (encode_inquiry q)) inquiry_cache_ttl s"

definition consume_inquiry :: "'s redis_api \<Rightarrow> time \<Rightarrow> string \<Rightarrow> 's \<Rightarrow> inquiry option reply \<times> 's" where
  "consume_inquiry R t i s = (case api_getdel R t (inquiry_key i) s of
      (Fault, s1) \<Rightarrow> (Fault, s1)
    | (Reply None, s1) \<Rightarrow> (Reply None, s1)
    | (Reply (Some (RJson j)), s1) \<Rightarrow>
        (case decode_inquiry j of None \<Rightarrow> (Fault, s1) | Some q \<Rightarrow> (Reply (Some q), s1))
    | (Reply (Some _), s1) \<Rightarrow> (Fault, s1))"

subsection \<open>Verification tokens\<close>

definition encode_vtoken :: "string \<times> string \<Rightarrow> json" where
  "encode_vtoken v = JObj [(''user_id'', JStr (fst v)), (''purpose'', JStr (snd v))]"

definition decode_vtoken :: "json \<Rightarrow> (string \<times> string) option" where
  "decode_vtoken j = (case j of JObj p \<Rightarrow> do {
      u \<leftarrow> get_str p ''user_id'';
      q \<leftarrow> get_str p ''purpose'';
      Some (u, q) }
    | _ \<Rightarrow> None)"

lemma decode_encode_vtoken [simp]: "decode_vtoken (encode_vtoken v) = Some v"
  by (simp add: decode_vtoken_def encode_vtoken_def json_get_defs)

definition vtoken_key :: "string \<Rightarrow> string" where
  "vtoken_key h = ''vtoken:'' @ h"

definition store_token :: "'s redis_api \<Rightarrow> time \<Rightarrow> string \<Rightarrow> string \<times> string \<Rightarrow> 's \<Rightarrow> unit reply \<times> 's" where
  "store_token R t h v s =
     api_set R t (vtoken_key h) (RJson (encode_vtoken v)) verification_token_ttl s"

text \<open>A missing token is answered with two empty strings.\<close>

definition consume_token :: "'s redis_api \<Rightarrow> time \<Rightarrow> string \<Rightarrow> 's \<Rightarrow> (string \<times> string) reply \<times> 's" where
  "consume_token R t h s = (case api_getdel R t (vtoken_key h) s of
      (Fault, s1) \<Rightarrow> (Fault, s1)
    | (Reply None, s1) \<Rightarrow> (Reply ('''', ''''), s1)
    | (Reply (Some (RJson j)), s1) \<Rightarrow>
        (case decode_vtoken j of None \<Rightarrow> (Fault, s1) | Some v \<Rightarrow> (Reply v, s1))
    | (Reply (Some _), s1) \<Rightarrow> (Fault, s1))"

subsection \<open>Recent transfers and receipts\<close>

definition encode_favorite :: "favorite_transfer \<Rightarrow> json" where
  "encode_favorite f = JObj ([
     (''dest_account'', JStr (fv_dest f)),
     (''dest_name'', JStr (fv_dest_name f)),
     (''dest_bank'', JStr (fv_dest_bank f)),
     (''bank_code'', JStr (fv_bank_code f)),
     (''type'', JStr (fv_type f)),
     (''count'', JInt (int (fv_count f)))]
     @ (case fv_last f of None \<Rightarrow> [] | Some t \<Rightarrow> [(''last_at'', JTime (to_seconds t))]))"

definition decode_favorite :: "json \<Rightarrow> favorite_transfer option" where
  "decode_favorite j = (case j of JObj p \<Rightarrow> do {
      d \<leftarrow> get_str p ''dest_account'';
      dn \<leftarrow> get_str p ''dest_name'';
      db \<leftarrow> get_str p ''dest_bank'';
      bc \<leftarrow> get_str p ''bank_code'';
      ty \<leftarrow> get_str p ''type'';
      n \<leftarrow> (case map_of p ''count'' of None \<Rightarrow> Some 0 | Some (JInt n) \<Rightarrow> Some (nat n) | Some _ \<Rightarrow> None);
      la \<leftarrow> (case map_of p ''last_at'' of None \<Rightarrow> Some None | Some JNull \<Rightarrow> Some None
             | Some (JTime t) \<Rightarrow> Some (Some t) | Some _ \<Rightarrow> None);
      Some \<lparr>fv_user = uuid_nil, fv_dest = d, fv_dest_name = dn, fv_dest_bank = db, fv_bank_code = bc,
        fv_type = ty, fv_count = n, fv_last = la\<rparr> }
    | _ \<Rightarrow> None)"

definition recent_key :: "uuid \<Rightarrow> string" where
  "recent_key u = ''cache:transfers:recent:'' @ u"

definition get_recent ::
    "'s redis_api \<Rightarrow> time \<Rightarrow> uuid \<Rightarrow> 's \<Rightarrow> favorite_transfer list option reply \<times> 's" where
  "get_recent R t u s = (case api_get R t (recent_key u) s of
      (Fault, s1) \<Rightarrow> (Fault, s1)
    | (Reply None, s1) \<Rightarrow> (Reply None, s1)
    | (Reply (Some (RJson (JArr js))), s1) \<Rightarrow>
        (case those (map decode_favorite js) of None \<Rightarrow> (Fault, s1) | Some fs \<Rightarrow> (Reply (Some fs), s1))
    | (Reply (Some _), s1) \<Rightarrow> (Fault, s1))"

definition set_recent ::
    "'s redis_api \<Rightarrow> time \<Rightarrow> uuid \<Rightarrow> favorite_transfer list \<Rightarrow> 's \<Rightarrow> unit reply \<times> 's" where
  "set_recent R t u fs s =
     api_set R t (recent_key u) (RJson (JArr (map encode_favorite fs))) recent_transfers_ttl s"

text \<open>What a favourite looks like after the cache: no owner, whole seconds.\<close>

definition cached_favorite :: "favorite_transfer \<Rightarrow> favorite_transfer" where
  "cached_favorite f = f\<lparr>fv_user := uuid_nil, fv_last := map_option to_seconds (fv_last f)\<rparr>"

lemma decode_encode_favorite [simp]: "decode_favorite (encode_favorite f) = Some (cached_favorite f)"
  by (cases f) (auto simp: decode_favorite_def encode_favorite_def cached_favorite_def json_get_defs
      split: option.splits)

lemma those_map_Some: "(\<And>x. x \<in> set xs \<Longrightarrow> f x = Some (g x)) \<Longrightarrow> those (map f xs) = Some (map g xs)"
  by (induction xs) auto

lemma those_decode_favorites [simp]:
  "those (map decode_favorite (map encode_favorite fs)) = Some (map cached_favorite fs)"
  by (simp add: comp_def those_map_Some)

definition balance_key :: "uuid \<Rightarrow> string" where
  "balance_key a = ''cache:balance:'' @ a"

definition dashboard_key :: "uuid \<Rightarrow> string" where
  "dashboard_key u = ''cache:dashboard:'' @ u"

definition notif_count_key :: "uuid \<Rightarrow> string" where
  "notif_count_key u = ''cache:notif:count:'' @ u"

definition mutations_version_key :: "uuid \<Rightarrow> string" where
  "mutations_version_key a = ''cachever:mutations:'' @ a"

definition history_version_key :: "uuid \<Rightarrow> string" where
  "history_version_key u = ''cachever:history:'' @ u"

definition notif_version_key :: "uuid \<Rightarrow> string" where
  "notif_version_key u = ''cachever:notif:'' @ u"

text \<open>
  A pipeline sends every command and reports whether one of them failed. \<open>CDel\<close> and \<open>CIncr\<close>
  are the two commands the invalidator queues.
\<close>

datatype pipe_cmd = CDel string | CIncr string

fun run_pipe :: "'s redis_api \<Rightarrow> time \<Rightarrow> pipe_cmd list \<Rightarrow> 's \<Rightarrow> unit reply \<times> 's" where
  "run_pipe R t [] s = (Reply (), s)"
| "run_pipe R t (CDel k # cs) s = (case api_del R t k s of (r, s1) \<Rightarrow>
     (case run_pipe R t cs s1 of (q, s2) \<Rightarrow> (if r = Fault then Fault else q, s2)))"
| "run_pipe R t (CIncr k # cs) s = (case api_incr R t k s of (r, s1) \<Rightarrow>
     (case run_pipe R t cs s1 of (q, s2) \<Rightarrow> (if r = Fault then Fault else q, s2)))"

fun cmd_key :: "pipe_cmd \<Rightarrow> string" where
  "cmd_key (CDel k) = k"
| "cmd_key (CIncr k) = k"

definition party_cmds :: "affected_party \<Rightarrow> pipe_cmd list" where
  "party_cmds p = [
     CDel (balance_key (af_account p)),
     CDel (dashboard_key (af_user p)),
     CDel (recent_key (af_user p)),
     CDel (notif_count_key (af_user p)),
     CIncr (mutations_version_key (af_account p)),
     CIncr (history_version_key (af_user p)),
     CIncr (notif_version_key (af_user p))]"

definition invalidate_caches :: "'s redis_api \<Rightarrow> time \<Rightarrow> affected_party list \<Rightarrow> 's \<Rightarrow> unit reply \<times> 's" where
  "invalidate_caches R t ps s = run_pipe R t (concat (map party_cmds ps)) s"

subsection \<open>The contract of a single-use store\<close>

text \<open>
  \<open>take\<close> answers \<open>Some\<close> with the stored value and removes it; \<open>fits\<close> says which values belong
  under a key and \<open>norm\<close> what storing keeps of a value.
\<close>

locale single_use_store =
  fixes put :: "time \<Rightarrow> string \<Rightarrow> 'v \<Rightarrow> 's \<Rightarrow> unit reply \<times> 's"
    and take :: "time \<Rightarrow> string \<Rightarrow> 's \<Rightarrow> 'v option reply \<times> 's"
    and holds :: "'s \<Rightarrow> time \<Rightarrow> string \<Rightarrow> 'v option"
    and fits :: "string \<Rightarrow> 'v \<Rightarrow> bool"
    and norm :: "'v \<Rightarrow> 'v"
    and ttl :: time
  assumes take_some: "take t k s = (Reply (Some v), s') \<Longrightarrow> holds s t k = Some v"
    and take_none: "take t k s = (Reply None, s') \<Longrightarrow> holds s t k = None"
    and take_gone: "take t k s = (Reply w, s') \<Longrightarrow> t \<le> t' \<Longrightarrow> holds s' t' k = None"
    and take_fault: "take t k s = (Fault, s') \<Longrightarrow> t \<le> t' \<Longrightarrow> holds s' t' k = None \<or> holds s' t' k = holds s t' k"
    and take_frame: "take t k s = (w', s') \<Longrightarrow> k' \<noteq> k \<Longrightarrow> t \<le> t' \<Longrightarrow> holds s' t' k' = holds s t' k'"
    and put_holds: "put t k v s = (Reply u, s') \<Longrightarrow> fits k v \<Longrightarrow> t \<le> t' \<Longrightarrow> t' < t + ttl \<Longrightarrow> holds s' t' k = Some (norm v)"
    and put_expires: "put t k v s = (Reply u, s') \<Longrightarrow> fits k v \<Longrightarrow> t + ttl \<le> t' \<Longrightarrow> holds s' t' k = None"
begin

text \<open>A value that was handed out once is never handed out again.\<close>

lemma single_use:
  assumes "take t k s = (Reply (Some v), s1)" "t \<le> t'" "take t' k s1 = (Reply w, s2)"
  shows "w = None"
proof (cases w)
  case (Some v')
  then have "holds s1 t' k = Some v'" using assms take_some by blast
  then show ?thesis using assms take_gone by fastforce
qed simp

lemma put_take:
  assumes "put t k v s = (Reply u, s1)" "fits k v" "t \<le> t'" "t' < t + ttl" "take t' k s1 = (Reply w, s2)"
  shows "w = Some (norm v)"
  using put_holds [OF assms(1-4)] take_some [of t' k s1 _ s2] take_none [of t' k s1 s2] assms(5)
  by (cases w) auto

lemma put_take_expired:
  assumes "put t k v s = (Reply u, s1)" "fits k v" "t + ttl \<le> t'" "take t' k s1 = (Reply w, s2)"
  shows "w = None"
  using put_expires [OF assms(1-3)] take_some [of t' k s1 _ s2] assms(4) by (cases w) auto

end

subsection \<open>Both caches provide it\<close>

definition json_of :: "rval option \<Rightarrow> json option" where
  "json_of v = (case v of Some (RJson j) \<Rightarrow> Some j | _ \<Rightarrow> None)"

definition inquiry_held :: "('s \<Rightarrow> time \<Rightarrow> string \<Rightarrow> rval option) \<Rightarrow> 's \<Rightarrow> time \<Rightarrow> string \<Rightarrow> inquiry option" where
  "inquiry_held live s t i = Option.bind (json_of (live s t (inquiry_key i))) decode_inquiry"

definition vtoken_held ::
    "('s \<Rightarrow> time \<Rightarrow> string \<Rightarrow> rval option) \<Rightarrow> 's \<Rightarrow> time \<Rightarrow> string \<Rightarrow> (string \<times> string) option" where
  "vtoken_held live s t h = Option.bind (json_of (live s t (vtoken_key h))) decode_vtoken"

text \<open>A consumption of a token as \<open>take\<close>: no token is the pair of empty strings.\<close>

definition take_token :: "'s redis_api \<Rightarrow> time \<Rightarrow> string \<Rightarrow> 's \<Rightarrow> (string \<times> string) option reply \<times> 's" where
  "take_token R t h s = (case api_getdel R t (vtoken_key h) s of
      (Fault, s1) \<Rightarrow> (Fault, s1)
    | (Reply None, s1) \<Rightarrow> (Reply None, s1)
    | (Reply (Some (RJson j)), s1) \<Rightarrow>
        (case decode_vtoken j of None \<Rightarrow> (Fault, s1) | Some v \<Rightarrow> (Reply (Some v), s1))
    | (Reply (Some _), s1) \<Rightarrow> (Fault, s1))"

lemma consume_token_take:
  "consume_token R t h s = (case take_token R t h s of
      (Fault, s1) \<Rightarrow> (Fault, s1)
    | (Reply None, s1) \<Rightarrow> (Reply ('''', ''''), s1)
    | (Reply (Some v), s1) \<Rightarrow> (Reply v, s1))"
  by (simp add: consume_token_def take_token_def split: prod.splits reply.splits option.splits rval.splits)

context redis_contract
begin

lemma consume_inquiry_reply:
  assumes "consume_inquiry R t i s = (Reply w, s')"
  shows "api_getdel R t (inquiry_key i) s = (Reply (live s t (inquiry_key i)), s')"
    and "w = inquiry_held live s t i"
    and "w = None \<Longrightarrow> live s t (inquiry_key i) = None"
proof -
  obtain g s1 where g: "api_getdel R t (inquiry_key i) s = (g, s1)" by force
  then have "s1 = s'" and "g \<noteq> Fault"
    using assms by (auto simp: consume_inquiry_def split: reply.splits option.splits rval.splits)
  then obtain v where v: "g = Reply v" by (cases g) auto
  with g have lv: "v = live s t (inquiry_key i)" using getdel_reply by blast
  then show "api_getdel R t (inquiry_key i) s = (Reply (live s t (inquiry_key i)), s')"
    using g v \<open>s1 = s'\<close> by simp
  show "w = inquiry_held live s t i" "w = None \<Longrightarrow> live s t (inquiry_key i) = None"
    using assms g v lv
    by (auto simp: consume_inquiry_def inquiry_held_def json_of_def split: option.splits rval.splits)
qed

lemma take_token_reply:
  assumes "take_token R t h s = (Reply w, s')"
  shows "api_getdel R t (vtoken_key h) s = (Reply (live s t (vtoken_key h)), s')"
    and "w = vtoken_held live s t h"
    and "w = None \<Longrightarrow> live s t (vtoken_key h) = None"
proof -
  obtain g s1 where g: "api_getdel R t (vtoken_key h) s = (g, s1)" by force
  then have "s1 = s'" and "g \<noteq> Fault"
    using assms by (auto simp: take_token_def split: reply.splits option.splits rval.splits)
  then obtain v where v: "g = Reply v" by (cases g) auto
  with g have lv: "v = live s t (vtoken_key h)" using getdel_reply by blast
  then show "api_getdel R t (vtoken_key h) s = (Reply (live s t (vtoken_key h)), s')"
    using g v \<open>s1 = s'\<close> by simp
  show "w = vtoken_held live s t h" "w = None \<Longrightarrow> live s t (vtoken_key h) = None"
    using assms g v lv
    by (auto simp: take_token_def vtoken_held_def json_of_def split: option.splits rval.splits)
qed

lemma consume_inquiry_getdel: "snd (consume_inquiry R t i s) = snd (api_getdel R t (inquiry_key i) s)"
  by (auto simp: consume_inquiry_def split: prod.splits reply.splits option.splits rval.splits)

lemma take_token_getdel: "snd (take_token R t h s) = snd (api_getdel R t (vtoken_key h) s)"
  by (auto simp: take_token_def split: prod.splits reply.splits option.splits rval.splits)

lemma consume_inquiry_frame:
  assumes "consume_inquiry R t i s = (r, s')" "k' \<noteq> inquiry_key i" "t \<le> t'"
  shows "live s' t' k' = live s t' k'"
  using getdel_frame [of t "inquiry_key i" s _ s' k' t'] consume_inquiry_getdel [of t i s] assms
  by (metis prod.collapse snd_conv)

lemma take_token_frame:
  assumes "take_token R t h s = (r, s')" "k' \<noteq> vtoken_key h" "t \<le> t'"
  shows "live s' t' k' = live s t' k'"
  using getdel_frame [of t "vtoken_key h" s _ s' k' t'] take_token_getdel [of t h s] assms
  by (metis prod.collapse snd_conv)

lemma run_pipe_frame:
  assumes "run_pipe R t cs s = (r, s')" "k' \<notin> cmd_key ` set cs" "t \<le> t'"
  shows "live s' t' k' = live s t' k'"
  using assms
proof (induction cs arbitrary: s r)
  case Nil
  then show ?case by simp
next
  case (Cons c cs)
  then show ?case
    by (cases c) (auto split: prod.splits
        dest: del_frame [where k' = k' and t' = t'] incr_frame [where k' = k' and t' = t'])
qed

lemma getdel_gone_or_same:
  assumes "api_getdel R t k s = (g, s')" "t \<le> t'"
  shows "live s' t' k = None \<or> live s' t' k = live s t' k"
proof (cases g)
  case (Reply w)
  then show ?thesis using assms getdel_gone by blast
next
  case Fault
  then show ?thesis using assms getdel_fault by blast
qed

sublocale inquiries: single_use_store "\<lambda>t i q. store_inquiry R t q" "consume_inquiry R"
    "inquiry_held live" "\<lambda>i q. iq_id q = i" cached_inquiry inquiry_cache_ttl
proof (unfold_locales, goal_cases)
  case (1 t k s v s')
  then show ?case using consume_inquiry_reply(2) by metis
next
  case (2 t k s s')
  then show ?case using consume_inquiry_reply(2) by metis
next
  case (3 t k s w s' t')
  then show ?case
    using consume_inquiry_reply(1) [OF 3(1)] getdel_gone by (auto simp: inquiry_held_def json_of_def)
next
  case (4 t k s s' t')
  then have "api_getdel R t (inquiry_key k) s = (fst (api_getdel R t (inquiry_key k) s), s')"
    using consume_inquiry_getdel [of t k s] by (simp add: prod_eq_iff)
  from getdel_gone_or_same [OF this 4(2)] show ?case
    by (auto simp: inquiry_held_def json_of_def)
next
  case (5 t k s w' s' k' t')
  then have "api_getdel R t (inquiry_key k) s = (fst (api_getdel R t (inquiry_key k) s), s')"
    using consume_inquiry_getdel [of t k s] by (simp add: prod_eq_iff)
  from getdel_frame [OF this _ 5(3), of "inquiry_key k'"] 5(2) show ?case
    by (auto simp: inquiry_held_def inquiry_key_def)
next
  case (6 t k v s u s' t')
  then show ?case by (auto simp: store_inquiry_def inquiry_held_def json_of_def set_reply)
next
  case (7 t k v s u s' t')
  then have "t \<le> t'" by simp
  with 7 show ?case by (auto simp: store_inquiry_def inquiry_held_def json_of_def set_reply)
qed

sublocale vtokens: single_use_store "store_token R" "take_token R" "vtoken_held live"
    "\<lambda>_ _. True" "\<lambda>v. v" verification_token_ttl
proof (unfold_locales, goal_cases)
  case (1 t k s v s')
  then show ?case using take_token_reply(2) by metis
next
  case (2 t k s s')
  then show ?case using take_token_reply(2) by metis
next
  case (3 t k s w s' t')
  then show ?case
    using take_token_reply(1) [OF 3(1)] getdel_gone by (auto simp: vtoken_held_def json_of_def)
next
  case (4 t k s s' t')
  then have "api_getdel R t (vtoken_key k) s = (fst (api_getdel R t (vtoken_key k) s), s')"
    using take_token_getdel [of t k s] by (simp add: prod_eq_iff)
  from getdel_gone_or_same [OF this 4(2)] show ?case
    by (auto simp: vtoken_held_def json_of_def)
next
  case (5 t k s w' s' k' t')
  then have "api_getdel R t (vtoken_key k) s = (fst (api_getdel R t (vtoken_key k) s), s')"
    using take_token_getdel [of t k s] by (simp add: prod_eq_iff)
  from getdel_frame [OF this _ 5(3), of "vtoken_key k'"] 5(2) show ?case
    by (auto simp: vtoken_held_def vtoken_key_def)
next
  case (6 t k v s u s' t')
  then show ?case by (auto simp: store_token_def vtoken_held_def json_of_def set_reply)
next
  case (7 t k v s u s' t')
  then have "t \<le> t'" by simp
  with 7 show ?case by (auto simp: store_token_def vtoken_held_def json_of_def set_reply)
qed

end

end
