(* ===== verification/Service.thy ===== *)
theory Service
  imports Rail_Legs Transaction_Cache
begin

text \<open>
  The state a money service works on (Redis, the database and the notifications written), what a
  request draws from its environment, a state and error monad for the handlers, and the queries of
  \<open>transaction_repo.go\<close> and \<open>account_repo.go\<close> the services issue outside a transaction.

  A handler reads the clock once: \<open>en_now\<close> is the time of the whole request. \<open>en_fault\<close> says which
  of its queries fail; what happens inside an executor is in \<open>en_attempts\<close>. Waiting and
  cancellation are not modelled beyond that: a cancelled request shows as a query or command that
  fails.
\<close>

record notice =
  no_user :: uuid
  no_type :: string
  no_title :: string
  no_body :: string
  no_link :: string
  no_meta :: "(string \<times> string) list"

record 's world =
  kv :: 's
  pg :: db
  sent :: "notice list"

datatype query = QFindOwned | QFindByNumber | QFindProvider | QCreateInquiry | QMarkInquiry
  | QCreateToken | QMarkToken | QListFavorites | QUpsertFavorite | QInsertNotice | QLookup
  | QListMutations | QListHistory | QFindTxn | QListActive | QListProviders

record env =
  en_now :: time
  en_id :: uuid
  en_raw_token :: string
  en_fault :: "query \<Rightarrow> bool"
  en_attempts :: "nat \<Rightarrow> attempt"

subsection \<open>The handler monad\<close>

type_synonym ('w, 'a) svc = "'w \<Rightarrow> (app_err + 'a) \<times> 'w"

definition svc_return :: "'a \<Rightarrow> ('w, 'a) svc" where
  "svc_return x w = (Inr x, w)"

definition svc_throw :: "app_err \<Rightarrow> ('w, 'a) svc" where
  "svc_throw e w = (Inl e, w)"

definition svc_bind :: "('w, 'a) svc \<Rightarrow> ('a \<Rightarrow> ('w, 'b) svc) \<Rightarrow> ('w, 'b) svc" where
  "svc_bind m f w = (case m w of (Inl e, w1) \<Rightarrow> (Inl e, w1) | (Inr x, w1) \<Rightarrow> f x w1)"

definition svc_seq :: "('w, unit) svc \<Rightarrow> ('w, 'b) svc \<Rightarrow> ('w, 'b) svc" where
  "svc_seq m n = svc_bind m (\<lambda>_. n)"

text \<open>\<open>if b { return err }\<close>\<close>

definition fail_if :: "bool \<Rightarrow> app_err \<Rightarrow> ('w, unit) svc" where
  "fail_if b e = (if b then svc_throw e else svc_return ())"

definition svc_option :: "app_err \<Rightarrow> 'a option \<Rightarrow> ('w, 'a) svc" where
  "svc_option e x = (case x of None \<Rightarrow> svc_throw e | Some y \<Rightarrow> svc_return y)"

text \<open>A Redis call whose error ends the request, and one whose error is only logged.\<close>

definition on_kv :: "('s \<Rightarrow> 'a reply \<times> 's) \<Rightarrow> (('s, 'z) world_scheme, 'a) svc" where
  "on_kv f w = (case f (kv w) of
      (Reply x, s) \<Rightarrow> (Inr x, w\<lparr>kv := s\<rparr>) | (Fault, s) \<Rightarrow> (Inl InternalError, w\<lparr>kv := s\<rparr>))"

definition best_effort_kv :: "('s \<Rightarrow> 'a reply \<times> 's) \<Rightarrow> (('s, 'z) world_scheme, unit) svc" where
  "best_effort_kv f w = (Inr (), w\<lparr>kv := snd (f (kv w))\<rparr>)"

definition sql_read :: "env \<Rightarrow> query \<Rightarrow> (db \<Rightarrow> 'a) \<Rightarrow> (('s, 'z) world_scheme, 'a) svc" where
  "sql_read E q f w = (if en_fault E q then (Inl InternalError, w) else (Inr (f (pg w)), w))"

definition sql_exec :: "env \<Rightarrow> query \<Rightarrow> (db \<Rightarrow> db) \<Rightarrow> (('s, 'z) world_scheme, unit) svc" where
  "sql_exec E q f w = (if en_fault E q then (Inl InternalError, w) else (Inr (), w\<lparr>pg := f (pg w)\<rparr>))"

definition best_effort_sql :: "env \<Rightarrow> query \<Rightarrow> (db \<Rightarrow> db) \<Rightarrow> (('s, 'z) world_scheme, unit) svc" where
  "best_effort_sql E q f w = (Inr (), if en_fault E q then w else w\<lparr>pg := f (pg w)\<rparr>)"

text \<open>
  A run of an executor inside a handler; an error that is not an \<open>apperr.Error\<close> reaches the client
  as an internal error.
\<close>

fun exec_app_err :: "exec_err \<Rightarrow> app_err" where
  "exec_app_err (EApp e) = e"
| "exec_app_err _ = InternalError"

definition on_pg :: "'a tx \<Rightarrow> (('s, 'z) world_scheme, 'a) svc" where
  "on_pg m w = (case m (pg w) of
      (Inl e, d) \<Rightarrow> (Inl (exec_app_err e), w\<lparr>pg := d\<rparr>) | (Inr x, d) \<Rightarrow> (Inr x, w\<lparr>pg := d\<rparr>))"

lemmas svc_defs = svc_return_def svc_throw_def svc_bind_def svc_seq_def fail_if_def svc_option_def
  on_kv_def best_effort_kv_def sql_read_def sql_exec_def best_effort_sql_def on_pg_def

lemma svc_bind_Inr [simp]:
  "svc_bind m f w = (Inr y, w') \<longleftrightarrow> (\<exists>x w1. m w = (Inr x, w1) \<and> f x w1 = (Inr y, w'))"
  by (auto simp: svc_bind_def split: prod.splits sum.splits)

lemma svc_seq_Inr [simp]:
  "svc_seq m n w = (Inr y, w') \<longleftrightarrow> (\<exists>w1. m w = (Inr (), w1) \<and> n w1 = (Inr y, w'))"
  by (simp add: svc_seq_def)

lemma svc_bind_Inl [simp]:
  "svc_bind m f w = (Inl e, w') \<longleftrightarrow> m w = (Inl e, w') \<or> (\<exists>x w1. m w = (Inr x, w1) \<and> f x w1 = (Inl e, w'))"
  by (auto simp: svc_bind_def split: prod.splits sum.splits)

lemma svc_seq_Inl [simp]:
  "svc_seq m n w = (Inl e, w') \<longleftrightarrow> m w = (Inl e, w') \<or> (\<exists>w1. m w = (Inr (), w1) \<and> n w1 = (Inl e, w'))"
  by (simp add: svc_seq_def)

lemma svc_simps [simp]:
  "svc_return x w = (Inr y, w') \<longleftrightarrow> y = x \<and> w' = w"
  "svc_return x w = (Inl e, w') \<longleftrightarrow> False"
  "svc_throw e w = (Inl e', w') \<longleftrightarrow> e' = e \<and> w' = w"
  "svc_throw e w = (Inr z, w') \<longleftrightarrow> False"
  "fail_if b e w = (Inr u, w') \<longleftrightarrow> \<not> b \<and> w' = w"
  "fail_if b e w = (Inl e', w') \<longleftrightarrow> b \<and> e' = e \<and> w' = w"
  "svc_option e v w = (Inr y', w') \<longleftrightarrow> v = Some y' \<and> w' = w"
  "svc_option e v w = (Inl e', w') \<longleftrightarrow> v = None \<and> e' = e \<and> w' = w"
  by (auto simp: svc_defs split: option.splits)

lemma svc_io_simps [simp]:
  "sql_read E q f w = (Inr a, w') \<longleftrightarrow> \<not> en_fault E q \<and> a = f (pg w) \<and> w' = w"
  "sql_read E q f w = (Inl e, w') \<longleftrightarrow> en_fault E q \<and> e = InternalError \<and> w' = w"
  "sql_exec E q g w = (Inr u, w') \<longleftrightarrow> \<not> en_fault E q \<and> w' = w\<lparr>pg := g (pg w)\<rparr>"
  "sql_exec E q g w = (Inl e, w') \<longleftrightarrow> en_fault E q \<and> e = InternalError \<and> w' = w"
  "best_effort_kv h w = (Inr u, w') \<longleftrightarrow> w' = w\<lparr>kv := snd (h (kv w))\<rparr>"
  "best_effort_kv h w = (Inl e, w') \<longleftrightarrow> False"
  "best_effort_sql E q g w = (Inr u, w') \<longleftrightarrow> w' = (if en_fault E q then w else w\<lparr>pg := g (pg w)\<rparr>)"
  "best_effort_sql E q g w = (Inl e, w') \<longleftrightarrow> False"
  by (auto simp: svc_defs)

lemma on_kv_Inr [simp]: "on_kv h w = (Inr x, w') \<longleftrightarrow> (\<exists>s. h (kv w) = (Reply x, s) \<and> w' = w\<lparr>kv := s\<rparr>)"
  by (auto simp: on_kv_def split: prod.splits reply.splits)

lemma on_kv_Inl [simp]:
  "on_kv h w = (Inl e, w') \<longleftrightarrow> e = InternalError \<and> (\<exists>s. h (kv w) = (Fault, s) \<and> w' = w\<lparr>kv := s\<rparr>)"
  by (auto simp: on_kv_def split: prod.splits reply.splits)

lemma on_pg_Inr [simp]: "on_pg m w = (Inr x, w') \<longleftrightarrow> (\<exists>d. m (pg w) = (Inr x, d) \<and> w' = w\<lparr>pg := d\<rparr>)"
  by (auto simp: on_pg_def split: prod.splits sum.splits)

lemma on_pg_Inl [simp]:
  "on_pg m w = (Inl e, w') \<longleftrightarrow> (\<exists>x d. m (pg w) = (Inl x, d) \<and> e = exec_app_err x \<and> w' = w\<lparr>pg := d\<rparr>)"
  by (auto simp: on_pg_def split: prod.splits sum.splits)

subsection \<open>Handlers that keep an invariant\<close>

definition keeps :: "('w \<Rightarrow> bool) \<Rightarrow> ('w, 'a) svc \<Rightarrow> bool" where
  "keeps P m \<longleftrightarrow> (\<forall>w r w'. P w \<longrightarrow> m w = (r, w') \<longrightarrow> P w')"

named_theorems keeps_intros \<open>a handler built from steps that keep an invariant keeps it\<close>

lemma keepsD: "keeps P m \<Longrightarrow> P w \<Longrightarrow> m w = (r, w') \<Longrightarrow> P w'"
  unfolding keeps_def by blast

lemma keeps_pure [keeps_intros]:
  "keeps P (svc_return x)" "keeps P (svc_throw e)" "keeps P (fail_if b e)" "keeps P (svc_option e v)"
  by (auto simp: keeps_def svc_defs split: option.splits if_splits)

lemma keeps_bind [keeps_intros]: "keeps P m \<Longrightarrow> (\<And>x. keeps P (f x)) \<Longrightarrow> keeps P (svc_bind m f)"
  unfolding keeps_def svc_bind_def
proof (intro allI impI)
  fix w r w'
  assume m: "\<forall>w r w'. P w \<longrightarrow> m w = (r, w') \<longrightarrow> P w'" and f: "\<And>x. \<forall>w r w'. P w \<longrightarrow> f x w = (r, w') \<longrightarrow> P w'"
    and w: "P w" and r: "(case m w of (Inl e, w1) \<Rightarrow> (Inl e, w1) | (Inr x, w1) \<Rightarrow> f x w1) = (r, w')"
  obtain q w1 where q: "m w = (q, w1)" by force
  then have "P w1" using m w by blast
  then show "P w'" using r q f by (cases q) auto
qed

lemma keeps_seq [keeps_intros]: "keeps P m \<Longrightarrow> keeps P n \<Longrightarrow> keeps P (svc_seq m n)"
  unfolding svc_seq_def by (rule keeps_bind)

lemma keeps_if [keeps_intros]: "(b \<Longrightarrow> keeps P m) \<Longrightarrow> (\<not> b \<Longrightarrow> keeps P n) \<Longrightarrow> keeps P (if b then m else n)"
  by simp

subsection \<open>Audit rows\<close>

definition insert_inquiry :: "inquiry \<Rightarrow> db \<Rightarrow> db" where
  "insert_inquiry q d = d\<lparr>transfer_inquiries := transfer_inquiries d @ [q\<lparr>iq_used := None\<rparr>]\<rparr>"

definition mark_inquiry_used :: "time \<Rightarrow> uuid \<Rightarrow> db \<Rightarrow> db" where
  "mark_inquiry_used t i d = d\<lparr>transfer_inquiries := map (\<lambda>q. if iq_id q = i \<and> iq_used q = None
     then q\<lparr>iq_used := Some t\<rparr> else q) (transfer_inquiries d)\<rparr>"

definition insert_vtoken :: "verification_token \<Rightarrow> db \<Rightarrow> db" where
  "insert_vtoken v d = d\<lparr>verification_tokens := verification_tokens d @ [v\<lparr>vt_used := None\<rparr>]\<rparr>"

definition mark_vtoken_used :: "time \<Rightarrow> string \<Rightarrow> db \<Rightarrow> db" where
  "mark_vtoken_used t h d = d\<lparr>verification_tokens := map (\<lambda>v. if vt_hash v = h \<and> vt_used v = None
     then v\<lparr>vt_used := Some t\<rparr> else v) (verification_tokens d)\<rparr>"

text \<open>\<open>ON CONFLICT (user_id, destination_account, bank_code)\<close>: the stored bank and type stay.\<close>

fun upsert_favorite :: "time \<Rightarrow> favorite_transfer \<Rightarrow> favorite_transfer list \<Rightarrow> favorite_transfer list" where
  "upsert_favorite t f [] = [f\<lparr>fv_count := 1, fv_last := Some t\<rparr>]"
| "upsert_favorite t f (g # gs) =
     (if fv_user g = fv_user f \<and> fv_dest g = fv_dest f \<and> fv_bank_code g = fv_bank_code f
      then g\<lparr>fv_count := fv_count g + 1, fv_last := Some t, fv_dest_name := fv_dest_name f\<rparr> # gs
      else g # upsert_favorite t f gs)"

definition save_favorite :: "time \<Rightarrow> favorite_transfer \<Rightarrow> db \<Rightarrow> db" where
  "save_favorite t f d = d\<lparr>favorite_transfers := upsert_favorite t f (favorite_transfers d)\<rparr>"

text \<open>None of them touches the ledger.\<close>

definition same_ledger :: "db \<Rightarrow> db \<Rightarrow> bool" where
  "same_ledger d d' \<longleftrightarrow> accounts d' = accounts d \<and> transactions d' = transactions d
     \<and> mutations d' = mutations d \<and> daily_usage d' = daily_usage d
     \<and> transaction_limits d' = transaction_limits d \<and> ewallet_providers d' = ewallet_providers d"

lemma same_ledger_audit [simp]:
  "same_ledger d (insert_inquiry q d)" "same_ledger d (mark_inquiry_used t i d)"
  "same_ledger d (insert_vtoken v d)" "same_ledger d (mark_vtoken_used t h d)"
  "same_ledger d (save_favorite t f d)" "same_ledger d d"
  by (simp_all add: same_ledger_def insert_inquiry_def mark_inquiry_used_def insert_vtoken_def
      mark_vtoken_used_def save_favorite_def)

lemma same_ledger_trans: "same_ledger a b \<Longrightarrow> same_ledger b c \<Longrightarrow> same_ledger a c"
  by (simp add: same_ledger_def)

lemma same_tables_ledger: "same_tables d d' \<Longrightarrow> same_ledger d d'"
  by (simp add: same_ledger_def same_tables_sel)

lemma same_ledger_ok: "same_ledger d d' \<Longrightarrow> ledger_ok d' = ledger_ok d"
  by (simp add: same_ledger_def ledger_ok_def)

subsection \<open>Notifications\<close>

text \<open>\<open>Notifier.Transaction\<close>: the row is written if the insert succeeds; nothing else depends on it.\<close>

definition notify_transaction :: "env \<Rightarrow> notice \<Rightarrow> (('s, 'z) world_scheme, unit) svc" where
  "notify_transaction E n w = (Inr (), if en_fault E QInsertNotice then w
     else w\<lparr>sent := sent w @ [n\<lparr>no_type := ''TRANSACTION''\<rparr>]\<rparr>)"

lemma notify_transaction_simps [simp]:
  "notify_transaction E n w = (Inl e, w') \<longleftrightarrow> False"
  "notify_transaction E n w = (Inr u, w') \<longleftrightarrow> w' = (if en_fault E QInsertNotice then w
     else w\<lparr>sent := sent w @ [n\<lparr>no_type := ''TRANSACTION''\<rparr>]\<rparr>)"
  by (auto simp: notify_transaction_def)

subsection \<open>Amounts in Indonesian notation\<close>

text \<open>Decimal digits of a natural number, without leading zeros.\<close>

fun digits_of :: "nat \<Rightarrow> string" where
  "digits_of n = (if n < 10 then [digit_char n] else digits_of (n div 10) @ [digit_char (n mod 10)])"

declare digits_of.simps [simp del]

text \<open>The loop over the digits: a dot before every digit that a multiple of three of them follows.\<close>

fun group_digits :: "nat \<Rightarrow> string \<Rightarrow> string" where
  "group_digits i [] = []"
| "group_digits i (c # cs) =
     (if 0 < i \<and> Suc (List.length cs) mod 3 = 0 then [CHR ''.''] else []) @ c # group_digits (Suc i) cs"

definition format_idr :: "decimal \<Rightarrow> string" where
  "format_idr d = ''Rp'' @ (if d < 0 then ''-'' else []) @ group_digits 0 (digits_of (nat \<lfloor>\<bar>d\<bar>\<rfloor>))"

end
