(* ===== verification/Transfer_Executor.thy ===== *)
theory Transfer_Executor
  imports Rail_Legs
begin

text \<open>
  \<open>internal/repository/postgres/transfer_executor.go\<close>: the serializable transaction of a transfer
  (steps 6 to 14), as an instance of the \<open>rail\<close> interface.
\<close>

definition str_ptr_or_nil :: "string \<Rightarrow> string option" where
  "str_ptr_or_nil s = (if s = '''' then None else Some s)"

subsection \<open>Steps 6 and 7: the accounts\<close>

definition resolve_destination :: "attempt \<Rightarrow> execute_params \<Rightarrow> uuid option tx" where
  "resolve_destination A p =
     (if ep_transfer_type p = ''INTERNAL'' then
        tx_seq (tx_stmt A SResolveDest)
          (tx_bind (tx_read (\<lambda>d. find_by_account_number d (iq_dest (ep_inquiry p))))
             (\<lambda>r. case r of
                None \<Rightarrow> tx_throw (EApp TransferAccountNotFound)
              | Some a \<Rightarrow> if ac_id a = ep_source p then tx_throw (EApp SelfTransfer)
                  else tx_return (Some (ac_id a))))
      else tx_return None)"

definition resolve_rail :: "attempt \<Rightarrow> lib \<Rightarrow> execute_params \<Rightarrow> uuid option tx" where
  "resolve_rail A L p =
     (if ep_txn_type p = ''TRANSFER_EXTERNAL''
      then tx_bind (sql_settlement A L ''TRANSFER_EXTERNAL'') (\<lambda>i. tx_return (Some i))
      else tx_return None)"

definition resolve_fee :: "attempt \<Rightarrow> lib \<Rightarrow> execute_params \<Rightarrow> uuid option tx" where
  "resolve_fee A L p =
     (if 0 < ep_fee p then tx_bind (sql_settlement A L ''FEE_INCOME'') (\<lambda>i. tx_return (Some i))
      else tx_return None)"

definition transfer_locks :: "execute_params \<Rightarrow> uuid option \<Rightarrow> uuid option \<Rightarrow> uuid option \<Rightarrow> uuid list" where
  "transfer_locks p dst sett fee =
     sorted_locks (ep_source p # opt_list dst @ opt_list sett @ opt_list fee)"

subsection \<open>Steps 8 and 9: funds and limit\<close>

definition check_transfer :: "attempt \<Rightarrow> execute_params \<Rightarrow> (uuid \<times> locked_account) list \<Rightarrow> unit tx" where
  "check_transfer A p ls =
     (let source = locked_of ls (ep_source p); available = lk_balance source - lk_hold source in
      if available < ep_total p then tx_throw (EApp InsufficientBalance)
      else tx_bind (sql_daily_usage A (ep_user p) (ep_wib_date p) (ep_limit_type p)) (\<lambda>used_today.
        tx_bind (sql_daily_limit A (ep_user p) (ep_limit_type p)) (\<lambda>daily_limit.
          let remaining = daily_limit - used_today in
          if remaining < ep_total p
          then tx_throw (EApp (LimitExceeded daily_limit used_today remaining))
          else tx_return ())))"

subsection \<open>Step 10: balances\<close>

definition update_balances ::
    "attempt \<Rightarrow> execute_params \<Rightarrow> (uuid \<times> locked_account) list \<Rightarrow> uuid option \<Rightarrow> uuid option
      \<Rightarrow> uuid option \<Rightarrow> unit tx" where
  "update_balances A p ls dst sett fee =
     tx_seq (sql_update_balance A (ep_source p) (lk_balance (locked_of ls (ep_source p)) - ep_total p))
    (tx_seq (tx_opt (if ep_transfer_type p = ''INTERNAL'' then dst else None)
        (\<lambda>i. sql_update_balance A i (lk_balance (locked_of ls i) + ep_amount p)))
    (tx_seq (tx_opt sett (\<lambda>i. sql_update_balance A i (lk_balance (locked_of ls i) + ep_amount p)))
      (tx_opt fee (\<lambda>i. sql_update_balance A i (lk_balance (locked_of ls i) + ep_fee p)))))"

subsection \<open>Step 11: the transaction row\<close>

definition transfer_description :: "inquiry \<Rightarrow> string" where
  "transfer_description q = (case iq_dest_name q of
      Some n \<Rightarrow> ''Transfer ke '' @ n | None \<Rightarrow> ''Transfer ke '' @ iq_dest q)"

definition transfer_row :: "attempt \<Rightarrow> execute_params \<Rightarrow> uuid option \<Rightarrow> string \<Rightarrow> transaction" where
  "transfer_row A p dst ref =
     \<lparr>tx_id = at_txn_id A, tx_idem = Some (ep_idem p), tx_user = ep_user p,
      tx_source = Some (ep_source p), tx_dest_id = dst, tx_type = ep_txn_type p,
      tx_status = ''SUCCESS'', tx_amount = ep_amount p, tx_fee = ep_fee p, tx_total = ep_total p,
      tx_currency = ''IDR'', tx_ref = ref, tx_desc = Some (transfer_description (ep_inquiry p)),
      tx_notes = str_ptr_or_nil (ep_notes p), tx_dest = Some (iq_dest (ep_inquiry p)),
      tx_dest_name = iq_dest_name (ep_inquiry p), tx_dest_bank = iq_dest_bank (ep_inquiry p),
      tx_dest_bank_code = iq_bank_code (ep_inquiry p), tx_provider_id = None,
      tx_provider_name = None, tx_provider_ref = None, tx_created = at_now A,
      tx_processed = Some (at_now A), tx_completed = Some (at_now A), tx_expired = None\<rparr>"

subsection \<open>Step 12: the mutations\<close>

definition transfer_mutation ::
    "attempt \<Rightarrow> execute_params \<Rightarrow> string \<Rightarrow> uuid \<Rightarrow> mutation_type \<Rightarrow> decimal \<Rightarrow> decimal \<Rightarrow> decimal
      \<Rightarrow> string \<Rightarrow> string \<Rightarrow> mutation" where
  "transfer_mutation A p ref i ty amount bal_before bal_after desc cat =
     \<lparr>mu_id = at_mut_id A i, mu_account = i, mu_txn = Some (at_txn_id A), mu_type = ty,
      mu_amount = amount, mu_before = bal_before, mu_after = bal_after, mu_desc = desc,
      mu_detail = None, mu_category = Some cat, mu_ref = Some ref, mu_date = ep_wib_date p,
      mu_time = ep_wib_time p, mu_created = at_now A\<rparr>"

definition debit_leg :: "attempt \<Rightarrow> execute_params \<Rightarrow> string \<Rightarrow> (uuid \<times> locked_account) list \<Rightarrow> mutation" where
  "debit_leg A p ref ls =
     (let b = lk_balance (locked_of ls (ep_source p)) in
      transfer_mutation A p ref (ep_source p) DEBIT (ep_total p) b (b - ep_total p)
        (transfer_description (ep_inquiry p)) (ep_txn_type p))"

definition credit_leg ::
    "attempt \<Rightarrow> execute_params \<Rightarrow> string \<Rightarrow> (uuid \<times> locked_account) list \<Rightarrow> uuid \<Rightarrow> mutation" where
  "credit_leg A p ref ls i =
     (let b = lk_balance (locked_of ls i) in
      transfer_mutation A p ref i CREDIT (ep_amount p) b (b + ep_amount p)
        (''Transfer dari '' @ iq_dest (ep_inquiry p)) (ep_txn_type p))"

definition settlement_leg ::
    "attempt \<Rightarrow> execute_params \<Rightarrow> string \<Rightarrow> (uuid \<times> locked_account) list \<Rightarrow> uuid \<Rightarrow> mutation" where
  "settlement_leg A p ref ls i =
     (let b = lk_balance (locked_of ls i) in
      transfer_mutation A p ref i CREDIT (ep_amount p) b (b + ep_amount p)
        (''Settlement '' @ ep_txn_type p) ''SETTLEMENT'')"

definition fee_leg ::
    "attempt \<Rightarrow> execute_params \<Rightarrow> string \<Rightarrow> (uuid \<times> locked_account) list \<Rightarrow> uuid \<Rightarrow> mutation" where
  "fee_leg A p ref ls i =
     (let b = lk_balance (locked_of ls i) in
      transfer_mutation A p ref i CREDIT (ep_fee p) b (b + ep_fee p)
        (''Admin fee '' @ ep_txn_type p) ''FEE_INCOME'')"

definition insert_legs ::
    "attempt \<Rightarrow> execute_params \<Rightarrow> string \<Rightarrow> (uuid \<times> locked_account) list \<Rightarrow> uuid option \<Rightarrow> uuid option
      \<Rightarrow> uuid option \<Rightarrow> unit tx" where
  "insert_legs A p ref ls dst sett fee =
     tx_seq (sql_insert_mutation A (debit_leg A p ref ls))
    (tx_seq (tx_opt (if ep_transfer_type p = ''INTERNAL'' then dst else None)
        (\<lambda>i. sql_insert_mutation A (credit_leg A p ref ls i)))
    (tx_seq (tx_opt sett (\<lambda>i. sql_insert_mutation A (settlement_leg A p ref ls i)))
      (tx_opt fee (\<lambda>i. sql_insert_mutation A (fee_leg A p ref ls i)))))"

subsection \<open>The whole transaction\<close>

definition transfer_body :: "lib \<Rightarrow> attempt \<Rightarrow> execute_params \<Rightarrow> transaction tx" where
  "transfer_body L A p =
     tx_bind (resolve_destination A p) (\<lambda>dst.
     tx_bind (resolve_rail A L p) (\<lambda>sett.
     tx_bind (resolve_fee A L p) (\<lambda>fee.
     tx_bind (lock_accounts A (transfer_locks p dst sett fee)) (\<lambda>ls.
     tx_seq (check_transfer A p ls)
    (tx_seq (update_balances A p ls dst sett fee)
    (tx_bind (sql_next_reference A L (ep_wib_date p)) (\<lambda>ref.
     tx_seq (sql_insert_transaction A (transfer_row A p dst ref))
    (tx_seq (insert_legs A p ref ls dst sett fee)
    (tx_seq (sql_upsert_usage A (ep_user p) (ep_wib_date p) (ep_limit_type p) (ep_total p))
       (tx_return (transfer_row A p dst ref)))))))))))"

definition execute_transfer_tx :: "lib \<Rightarrow> (nat \<Rightarrow> attempt) \<Rightarrow> execute_params \<Rightarrow> transaction tx" where
  "execute_transfer_tx L E p =
     retry_from (\<lambda>A. attempt_tx A (\<lambda>t. t) (ep_user p) (ep_idem p) (transfer_body L A p)) E 0"

subsection \<open>The rail contract\<close>

text \<open>
  What the service guarantees of the parameters (\<open>service_execute.go\<close>): the source is a customer
  account, the transfer type is one of the closed table and decides the transaction type, total is
  amount plus fee, and both are whole numbers of sen.
\<close>

definition transfer_amounts_ok :: "execute_params \<Rightarrow> bool" where
  "transfer_amounts_ok p \<longleftrightarrow> 0 \<le> ep_amount p \<and> 0 \<le> ep_fee p \<and> ep_total p = ep_amount p + ep_fee p
     \<and> sen (ep_amount p) \<and> sen (ep_fee p)
     \<and> ep_transfer_type p \<in> set valid_transfer_types
     \<and> ep_txn_type p = transfer_type_txn (ep_transfer_type p)"

definition transfer_fits :: "execute_params \<Rightarrow> db \<Rightarrow> bool" where
  "transfer_fits p d \<longleftrightarrow> transfer_amounts_ok p \<and> customer_source d (ep_source p)"

lemma resolve_destination_Inr:
  "resolve_destination A p d = (Inr dst, d') \<Longrightarrow> d' = d \<and>
     (if ep_transfer_type p = ''INTERNAL'' then \<exists>a \<in> set (accounts d). dst = Some (ac_id a)
        \<and> ac_owner a = CUSTOMER \<and> ac_status a = ACTIVE \<and> ac_number a = iq_dest (ep_inquiry p)
        \<and> ac_id a \<noteq> ep_source p
      else dst = None)"
  by (auto simp: resolve_destination_def find_by_account_number_def split: option.splits if_splits
      dest!: find_Some_D)

lemma resolve_rail_Inr:
  "resolve_rail A L p d = (Inr sett, d') \<Longrightarrow> d' = d \<and>
     (if ep_txn_type p = ''TRANSFER_EXTERNAL''
      then \<exists>i. sett = Some i \<and> settlement_account_id L d ''TRANSFER_EXTERNAL'' (at_txn_id A) = Some i
      else sett = None)"
  by (auto simp: resolve_rail_def split: if_splits)

lemma resolve_fee_Inr:
  "resolve_fee A L p d = (Inr fee, d') \<Longrightarrow> d' = d \<and>
     (if 0 < ep_fee p
      then \<exists>i. fee = Some i \<and> settlement_account_id L d ''FEE_INCOME'' (at_txn_id A) = Some i
      else fee = None)"
  by (auto simp: resolve_fee_def split: if_splits)

lemma check_transfer_Inr:
  "check_transfer A p lk d = (Inr u, d') \<longleftrightarrow> d' = d
     \<and> ep_total p \<le> lk_balance (locked_of lk (ep_source p)) - lk_hold (locked_of lk (ep_source p))
     \<and> ep_total p \<le> daily_limit_of d (ep_user p) (ep_limit_type p)
         - daily_usage_of d (ep_user p) (ep_wib_date p) (ep_limit_type p)
     \<and> at_fault A SDailyUsage = None \<and> at_fault A SDailyLimit = None"
  by (auto simp: check_transfer_def Let_def)

text \<open>The credit legs: the destination or the settlement shard takes the amount, the fee shard the fee.\<close>

definition transfer_credits :: "execute_params \<Rightarrow> uuid option \<Rightarrow> uuid option \<Rightarrow> uuid option \<Rightarrow> leg list" where
  "transfer_credits p dst sett fee =
     map (\<lambda>i. (i, ep_amount p)) (opt_list dst @ opt_list sett) @ map (\<lambda>i. (i, ep_fee p)) (opt_list fee)"

text \<open>What the first part of a successful attempt establishes.\<close>

definition transfer_plan ::
    "lib \<Rightarrow> attempt \<Rightarrow> execute_params \<Rightarrow> db \<Rightarrow> uuid option \<Rightarrow> uuid option \<Rightarrow> uuid option \<Rightarrow> bool" where
  "transfer_plan L A p d dst sett fee \<longleftrightarrow>
     (if ep_transfer_type p = ''INTERNAL'' then \<exists>a \<in> set (accounts d). dst = Some (ac_id a)
        \<and> ac_owner a = CUSTOMER \<and> ac_status a = ACTIVE \<and> ac_number a = iq_dest (ep_inquiry p)
        \<and> ac_id a \<noteq> ep_source p
      else dst = None)
   \<and> (if ep_txn_type p = ''TRANSFER_EXTERNAL''
      then \<exists>i. sett = Some i \<and> settlement_account_id L d ''TRANSFER_EXTERNAL'' (at_txn_id A) = Some i
      else sett = None)
   \<and> (if 0 < ep_fee p
      then \<exists>i. fee = Some i \<and> settlement_account_id L d ''FEE_INCOME'' (at_txn_id A) = Some i
      else fee = None)"

lemma transfer_body_Inr:
  assumes "transfer_body L A p d = (Inr t, d')"
  obtains dst sett fee lk ref d1 d2 d3 where
    "transfer_plan L A p d dst sett fee"
    "\<forall>i \<in> set (transfer_locks p dst sett fee). locked_ok (accounts d) lk i"
    "check_transfer A p lk d = (Inr (), d)"
    "update_balances A p lk dst sett fee d = (Inr (), d1)"
    "ref = reference_number L (ep_wib_date p) (next_seq (ref_seq d1))"
    "t = transfer_row A p dst ref" "\<not> list_ex (txn_collides t) (transactions d1)"
    "d2 = d1\<lparr>ref_seq := next_seq (ref_seq d1), transactions := transactions d1 @ [stored_txn t]\<rparr>"
    "insert_legs A p ref lk dst sett fee d2 = (Inr (), d3)"
    "d' = d3\<lparr>daily_usage := bump_usage (ep_user p) (ep_wib_date p) (ep_limit_type p) (ep_total p) (daily_usage d3)\<rparr>"
proof -
  from assms obtain dst da sett db fee dc lk dd de where
    "resolve_destination A p d = (Inr dst, da)" "resolve_rail A L p da = (Inr sett, db)"
    "resolve_fee A L p db = (Inr fee, dc)"
    "lock_accounts A (transfer_locks p dst sett fee) dc = (Inr lk, dd)"
    and rest: "check_transfer A p lk dd = (Inr (), de)"
      "\<exists>d1. update_balances A p lk dst sett fee de = (Inr (), d1) \<and>
        (\<exists>ref d2 d3. ref = reference_number L (ep_wib_date p) (next_seq (ref_seq d1))
         \<and> t = transfer_row A p dst ref \<and> \<not> list_ex (txn_collides t) (transactions d1)
         \<and> d2 = d1\<lparr>ref_seq := next_seq (ref_seq d1), transactions := transactions d1 @ [stored_txn t]\<rparr>
         \<and> insert_legs A p ref lk dst sett fee d2 = (Inr (), d3)
         \<and> d' = d3\<lparr>daily_usage := bump_usage (ep_user p) (ep_wib_date p) (ep_limit_type p) (ep_total p) (daily_usage d3)\<rparr>)"
    by (auto simp: transfer_body_def)
  moreover from this have "da = d" "db = d" "dc = d" "transfer_plan L A p d dst sett fee"
    using resolve_destination_Inr [of A p d dst da] resolve_rail_Inr [of A L p da sett db]
      resolve_fee_Inr [of A L p db fee dc] by (auto simp: transfer_plan_def)
  moreover from calculation have "dd = d" "\<forall>i \<in> set (transfer_locks p dst sett fee). locked_ok (accounts d) lk i"
    using lock_accounts_ok by metis+
  moreover from calculation have "de = d" by (simp add: check_transfer_Inr)
  ultimately show ?thesis using that by blast
qed

lemma transfer_plan_cases:
  assumes "transfer_plan L A p d dst sett fee" "transfer_fits p d"
  obtains (internal) i where "dst = Some i" "sett = None" "ep_transfer_type p = ''INTERNAL''"
  | (external) i where "dst = None" "sett = Some i" "ep_transfer_type p \<noteq> ''INTERNAL''"
  using assms
  by (auto simp: transfer_plan_def transfer_fits_def transfer_amounts_ok_def valid_transfer_types_def
      transfer_type_txn_def split: if_splits)

lemma plan_accounts_distinct:
  assumes plan: "transfer_plan L A p d dst sett fee" and fits: "transfer_fits p d"
    and ok: "accounts_ok (accounts d)"
  shows "distinct (ep_source p # opt_list dst @ opt_list sett @ opt_list fee)"
proof -
  obtain s where s: "s \<in> set (accounts d)" "ac_id s = ep_source p" "ac_owner s = CUSTOMER"
    using fits by (auto simp: transfer_fits_def customer_source_def list_ex_iff)
  have src: "i \<noteq> ep_source p" if "settlement_account_id L d r (at_txn_id A) = Some i" for i r
    using settlement_not_customer [OF ok that s(1,3)] s(2) by simp
  have feeD: "settlement_account_id L d ''FEE_INCOME'' (at_txn_id A) = Some f" if "fee = Some f" for f
    using plan that by (auto simp: transfer_plan_def split: if_splits)
  show ?thesis
    using plan fits
  proof (cases rule: transfer_plan_cases)
    case (internal i)
    then obtain a where a: "a \<in> set (accounts d)" "ac_id a = i" "ac_owner a = CUSTOMER" "i \<noteq> ep_source p"
      using plan by (auto simp: transfer_plan_def)
    show ?thesis
    proof (cases fee)
      case (Some f)
      then show ?thesis
        using internal a src [OF feeD] settlement_not_customer [OF ok feeD a(1,3)] by auto
    qed (use internal a in auto)
  next
    case (external i)
    then have i: "settlement_account_id L d ''TRANSFER_EXTERNAL'' (at_txn_id A) = Some i"
      using plan by (auto simp: transfer_plan_def split: if_splits)
    show ?thesis
    proof (cases fee)
      case (Some f)
      then show ?thesis
        using external src [OF feeD] src [OF i] settlement_distinct [OF ok i feeD] by auto
    qed (use external src [OF i] in auto)
  qed
qed

lemma transfer_credits_fst [simp]:
  "map fst (transfer_credits p dst sett fee) = opt_list dst @ opt_list sett @ opt_list fee"
  by (simp add: transfer_credits_def comp_def)

lemma transfer_credits_sum:
  assumes "transfer_plan L A p d dst sett fee" "transfer_fits p d"
  shows "sum_list (map snd (transfer_credits p dst sett fee)) = ep_total p"
proof -
  have fee: "sum_list (map snd (map (\<lambda>i. (i, ep_fee p)) (opt_list fee))) = ep_fee p"
    using assms by (auto simp: transfer_plan_def transfer_fits_def transfer_amounts_ok_def split: if_splits)
  from assms show ?thesis
    by (cases rule: transfer_plan_cases)
      (use fee assms in \<open>auto simp: transfer_credits_def transfer_fits_def transfer_amounts_ok_def\<close>)
qed

lemma transfer_credits_sen:
  "transfer_fits p d \<Longrightarrow> l \<in> set (transfer_credits p dst sett fee) \<Longrightarrow> sen (snd l) \<and> 0 \<le> snd l"
  by (auto simp: transfer_credits_def transfer_fits_def transfer_amounts_ok_def)

lemma update_balances_legs:
  assumes upd: "update_balances A p lk dst sett fee d = (Inr (), d1)"
    and plan: "transfer_plan L A p d dst sett fee" and fits: "transfer_fits p d"
    and ok: "accounts_ok (accounts d)"
    and lk: "\<forall>i \<in> set (transfer_locks p dst sett fee). locked_ok (accounts d) lk i"
  shows "d1 = d\<lparr>accounts := apply_legs ((ep_source p, - ep_total p) # transfer_credits p dst sett fee) (accounts d)\<rparr>"
proof -
  note dist = plan_accounts_distinct [OF plan fits ok]
  have sen: "sen (ep_total p)" "sen (ep_amount p)" "sen (ep_fee p)"
    using fits by (auto simp: transfer_fits_def transfer_amounts_ok_def)
  have lk: "\<forall>i \<in> set (ep_source p # opt_list dst @ opt_list sett @ opt_list fee). locked_ok (accounts d) lk i"
    using lk by (simp only: transfer_locks_def sorted_locks.complete)
  have first: "set_balance (ep_source p) (lk_balance (locked_of lk (ep_source p)) - ep_total p) (accounts d)
      = apply_legs [(ep_source p, - ep_total p)] (accounts d)"
    using lk ok sen by (intro first_leg_write) auto
  note legs = leg_write [OF _ ok]
  from plan fits show ?thesis
  proof (cases rule: transfer_plan_cases)
    case (internal i)
    with dist lk sen have "set_balance i (lk_balance (locked_of lk i) + ep_amount p)
        (apply_legs [(ep_source p, - ep_total p)] (accounts d))
      = apply_legs [(ep_source p, - ep_total p), (i, ep_amount p)] (accounts d)"
      by (subst legs) auto
    moreover have "set_balance f (lk_balance (locked_of lk f) + ep_fee p)
        (apply_legs [(ep_source p, - ep_total p), (i, ep_amount p)] (accounts d))
      = apply_legs [(ep_source p, - ep_total p), (i, ep_amount p), (f, ep_fee p)] (accounts d)"
      if "fee = Some f" for f
      using dist lk sen internal that by (subst legs) auto
    ultimately show ?thesis
      using upd internal first
      by (cases fee) (simp_all add: update_balances_def transfer_credits_def del: apply_legs.simps)
  next
    case (external i)
    with dist lk sen have "set_balance i (lk_balance (locked_of lk i) + ep_amount p)
        (apply_legs [(ep_source p, - ep_total p)] (accounts d))
      = apply_legs [(ep_source p, - ep_total p), (i, ep_amount p)] (accounts d)"
      by (subst legs) auto
    moreover have "set_balance f (lk_balance (locked_of lk f) + ep_fee p)
        (apply_legs [(ep_source p, - ep_total p), (i, ep_amount p)] (accounts d))
      = apply_legs [(ep_source p, - ep_total p), (i, ep_amount p), (f, ep_fee p)] (accounts d)"
      if "fee = Some f" for f
      using dist lk sen external that by (subst legs) auto
    ultimately show ?thesis
      using upd external first
      by (cases fee) (simp_all add: update_balances_def transfer_credits_def del: apply_legs.simps)
  qed
qed

lemma update_balances_frame:
  "update_balances A p lk dst sett fee d = (Inr (), d1) \<Longrightarrow> \<exists>as. d1 = d\<lparr>accounts := as\<rparr>"
  by (cases dst; cases sett; cases fee) (auto simp: update_balances_def split: if_splits)

definition transfer_rows ::
    "attempt \<Rightarrow> execute_params \<Rightarrow> string \<Rightarrow> (uuid \<times> locked_account) list \<Rightarrow> uuid option \<Rightarrow> uuid option
      \<Rightarrow> uuid option \<Rightarrow> mutation list" where
  "transfer_rows A p ref lk dst sett fee = debit_leg A p ref lk
     # map (credit_leg A p ref lk) (opt_list dst) @ map (settlement_leg A p ref lk) (opt_list sett)
     @ map (fee_leg A p ref lk) (opt_list fee)"

lemma insert_legs_rows:
  assumes "insert_legs A p ref lk dst sett fee d = (Inr (), d1)"
    "transfer_plan L A p d0 dst sett fee"
  shows "d1 = d\<lparr>mutations := mutations d @ map stored_mutation (transfer_rows A p ref lk dst sett fee)\<rparr>"
proof -
  have dst: "(if ep_transfer_type p = ''INTERNAL'' then dst else None) = dst"
    using assms(2) by (auto simp: transfer_plan_def)
  show ?thesis
    using assms(1) unfolding insert_legs_def dst
    by (cases dst; cases sett; cases fee) (simp_all add: transfer_rows_def)
qed

lemmas transfer_leg_defs = debit_leg_def credit_leg_def settlement_leg_def fee_leg_def
  transfer_mutation_def

lemma transfer_rows_legs:
  "list_all2 (\<lambda>m l. leg_mutation lk (at_txn_id A) l m) (transfer_rows A p ref lk dst sett fee)
     ((ep_source p, - ep_total p) # transfer_credits p dst sett fee)"
  by (cases dst; cases sett; cases fee)
    (simp_all add: transfer_rows_def transfer_credits_def leg_mutation_def signed_amount_def
      transfer_leg_defs Let_def)

lemma transfer_posts:
  assumes body: "transfer_body L A p d = (Inr t, d')" and fits: "transfer_fits p d" and ok: "ledger_ok d"
  shows "\<exists>dst sett fee. transfer_plan L A p d dst sett fee
    \<and> posts t ((ep_source p, - ep_total p) # transfer_credits p dst sett fee) d d'"
  using body
proof (rule transfer_body_Inr)
  fix dst sett fee lk ref d1 d2 d3
  assume plan: "transfer_plan L A p d dst sett fee"
    and lk: "\<forall>i \<in> set (transfer_locks p dst sett fee). locked_ok (accounts d) lk i"
    and upd: "update_balances A p lk dst sett fee d = (Inr (), d1)"
    and t: "t = transfer_row A p dst ref" and fresh: "\<not> list_ex (txn_collides t) (transactions d1)"
    and d2: "d2 = d1\<lparr>ref_seq := next_seq (ref_seq d1), transactions := transactions d1 @ [stored_txn t]\<rparr>"
    and ins: "insert_legs A p ref lk dst sett fee d2 = (Inr (), d3)"
    and d': "d' = d3\<lparr>daily_usage := bump_usage (ep_user p) (ep_wib_date p) (ep_limit_type p) (ep_total p) (daily_usage d3)\<rparr>"
  have acc: "accounts_ok (accounts d)" using ok by auto
  note d1 = update_balances_legs [OF upd plan fits acc lk]
  note d3 = insert_legs_rows [OF ins plan]
  let ?ls = "(ep_source p, - ep_total p) # transfer_credits p dst sett fee"
  have "posts t ?ls d d'"
  proof (rule posts_intro [where ms = "transfer_rows A p ref lk dst sett fee" and lk = lk])
    show "list_all2 (\<lambda>m l. leg_mutation lk (tx_id t) l m) (transfer_rows A p ref lk dst sett fee) ?ls"
      using transfer_rows_legs by (simp add: t transfer_row_def)
    have ids: "map fst ?ls = ep_source p # opt_list dst @ opt_list sett @ opt_list fee" by simp
    then show "distinct (map fst ?ls)" using plan_accounts_distinct [OF plan fits acc] by simp
    show "\<forall>l \<in> set ?ls. locked_ok (accounts d) lk (fst l)"
    proof -
      have "\<forall>i \<in> set (map fst ?ls). locked_ok (accounts d) lk i"
        unfolding ids using lk by (simp only: transfer_locks_def sorted_locks.complete)
      then show ?thesis by (simp only: list.set_map ball_simps)
    qed
    show "\<forall>l \<in> set ?ls. sen (snd l)"
      using transfer_credits_sen [OF fits] fits
      by (auto simp: transfer_fits_def transfer_amounts_ok_def)
  qed (use d1 d2 d3 d' acc fresh in \<open>simp_all del: apply_legs.simps\<close>)
  with plan show ?thesis by blast
qed

interpretation transfer: rail "transfer_body L" ep_user ep_idem ep_source ep_total ep_limit_type
    ep_wib_date transfer_fits "\<lambda>t. t" "\<lambda>t. t" for L
proof
  show "transfer_fits p d = transfer_fits p d0" if "same_tables d d0" for p d d0
    using that by (simp add: transfer_fits_def customer_source_def same_tables_sel)
next
  fix p d A t d'
  assume "transfer_fits p d" "ledger_ok d" "transfer_body L A p d = (Inr t, d')"
  then show "\<exists>row ls. t = row \<and> posts row ((ep_source p, - ep_total p) # ls) d d' \<and> sum_list (map snd ls) = ep_total p
      \<and> (\<forall>l \<in> set ls. 0 \<le> snd l)"
    using transfer_posts transfer_credits_sum transfer_credits_sen by metis
next
  fix A p d t d'
  assume "transfer_body L A p d = (Inr t, d')"
  then show "\<exists>a. account_by_id (accounts d) (ep_source p) = Some a \<and> ep_total p \<le> ac_balance a - ac_hold a"
  proof (rule transfer_body_Inr)
    fix dst sett fee lk
    assume lk: "\<forall>i \<in> set (transfer_locks p dst sett fee). locked_ok (accounts d) lk i"
      and chk: "check_transfer A p lk d = (Inr (), d)"
    have "locked_ok (accounts d) lk (ep_source p)"
      using lk by (simp add: transfer_locks_def sorted_locks.complete)
    then show ?thesis using chk by (auto simp: check_transfer_Inr elim!: locked_okE)
  qed
next
  fix A p d t d'
  assume "transfer_body L A p d = (Inr t, d')"
  then show "daily_usage_of d (ep_user p) (ep_wib_date p) (ep_limit_type p) + ep_total p
      \<le> daily_limit_of d (ep_user p) (ep_limit_type p)"
    by (rule transfer_body_Inr) (simp add: check_transfer_Inr)
next
  fix A p d t d'
  assume body: "transfer_body L A p d = (Inr t, d')"
  then show "daily_usage d' = bump_usage (ep_user p) (ep_wib_date p) (ep_limit_type p) (ep_total p) (daily_usage d)
      \<and> transaction_limits d' = transaction_limits d \<and> ewallet_providers d' = ewallet_providers d"
    by (rule transfer_body_Inr) (auto dest!: update_balances_frame insert_legs_rows)
  from body show "tx_user t = ep_user p \<and> tx_idem t = Some (ep_idem p)
      \<and> \<not> list_ex (txn_collides t) (transactions d)"
    by (rule transfer_body_Inr) (auto simp: transfer_row_def dest!: update_balances_frame)
qed simp

end
