(* ===== verification/Transfer_Service.thy ===== *)
theory Transfer_Service
  imports Service Transfer_Executor
begin

text \<open>
  The transfer service of \<open>internal/domain/transaction\<close> (\<open>service.go\<close>, \<open>service_execute.go\<close>):
  inquiries, verification tokens and the seventeen steps of a transfer. In the production wiring
  (\<open>internal/server/router.go\<close>) every optional dependency of the service is present, so its nil
  checks are always passed.
\<close>

subsection \<open>Inquiries\<close>

definition inquiry_transfer_type :: "string \<Rightarrow> string" where
  "inquiry_transfer_type ty =
     (if ty = ''EXTERNAL'' \<or> ty = ''VIRTUAL_ACCOUNT'' then ''EXTERNAL'' else ''INTERNAL'')"

text \<open>Destination name, bank, bank code and fee of an inquiry.\<close>

definition resolve_inquiry ::
    "env \<Rightarrow> uuid \<Rightarrow> inquiry_request
      \<Rightarrow> (('s, 'z) world_scheme, string \<times> string \<times> string \<times> decimal) svc" where
  "resolve_inquiry E user req =
     (if inquiry_transfer_type (ir_type req) = ''INTERNAL'' then
        svc_bind (sql_read E QFindByNumber (\<lambda>d. find_by_account_number d (ir_dest req))) (\<lambda>r.
        svc_bind (svc_option TransferAccountNotFound r) (\<lambda>dest.
        svc_seq (fail_if (ac_user dest = Some user) SelfTransfer)
          (svc_return (ac_label dest, ''BCA'', ''014'', 0))))
      else svc_seq (fail_if (ir_bank_code req = '''') ValidationError)
        (svc_return (ir_dest req, ir_dest_bank req, ir_bank_code req, 6500)))"

definition new_inquiry ::
    "env \<Rightarrow> uuid \<Rightarrow> inquiry_request \<Rightarrow> string \<Rightarrow> string \<Rightarrow> string \<Rightarrow> decimal \<Rightarrow> inquiry" where
  "new_inquiry E user req dest_name dest_bank bank_code fee =
     \<lparr>iq_id = en_id E, iq_user = user, iq_type = ''TRANSFER'', iq_dest = ir_dest req,
      iq_dest_name = Some dest_name, iq_dest_bank = Some dest_bank, iq_bank_code = Some bank_code,
      iq_provider = None,
      iq_amount = (if 0 < ir_amount req then Some (of_int (ir_amount req)) else None),
      iq_fee = Some fee, iq_metadata = None, iq_expires = en_now E + inquiry_cache_ttl,
      iq_used = None, iq_created = en_now E\<rparr>"

definition create_inquiry ::
    "'s redis_api \<Rightarrow> env \<Rightarrow> uuid \<Rightarrow> inquiry_request \<Rightarrow> (('s, 'z) world_scheme, inquiry_response) svc" where
  "create_inquiry R E user req =
     svc_seq (fail_if (ir_type req \<notin> set valid_transfer_types) ValidationError)
    (svc_bind (resolve_inquiry E user req) (\<lambda>(dest_name, dest_bank, bank_code, fee).
       let q = new_inquiry E user req dest_name dest_bank bank_code fee in
       svc_seq (sql_exec E QCreateInquiry (insert_inquiry q))
      (svc_seq (best_effort_kv (store_inquiry R (en_now E) q))
         (svc_return \<lparr>is_id = iq_id q, is_dest = ir_dest req, is_dest_name = dest_name,
            is_dest_bank = dest_bank, is_bank_code = bank_code, is_type = ir_type req, is_fee = fee,
            is_expires_in = inquiry_cache_ttl div 1000\<rparr>))))"

subsection \<open>Verification tokens\<close>

definition create_verification_token ::
    "lib \<Rightarrow> 's redis_api \<Rightarrow> env \<Rightarrow> uuid \<Rightarrow> string \<Rightarrow> (('s, 'z) world_scheme, pin_verify_response) svc" where
  "create_verification_token L R E user purpose =
     svc_seq (fail_if (purpose \<notin> set valid_purposes) ValidationError)
    (let h = sha256_hex L (en_raw_token E);
         v = \<lparr>vt_id = en_id E, vt_user = user, vt_hash = h, vt_purpose = purpose, vt_txn = None,
              vt_expires = en_now E + verification_token_ttl, vt_used = None, vt_created = en_now E\<rparr> in
     svc_seq (sql_exec E QCreateToken (insert_vtoken v))
    (svc_seq (best_effort_kv (store_token R (en_now E) h (user, purpose)))
       (svc_return \<lparr>pv_token = en_raw_token E, pv_expires_in = verification_token_ttl div 1000\<rparr>)))"

definition consume_verification_token ::
    "lib \<Rightarrow> 's redis_api \<Rightarrow> env \<Rightarrow> uuid \<Rightarrow> string \<Rightarrow> string \<Rightarrow> (('s, 'z) world_scheme, unit) svc" where
  "consume_verification_token L R E user raw purpose =
     svc_seq (fail_if (raw = '''') VerificationTokenInvalid)
    (svc_seq (fail_if (purpose \<notin> set valid_purposes) ValidationError)
    (svc_bind (on_kv (consume_token R (en_now E) (sha256_hex L raw))) (\<lambda>v.
       svc_seq (fail_if (fst v = '''' \<or> fst v \<noteq> user \<or> snd v \<noteq> purpose) VerificationTokenInvalid)
         (best_effort_sql E QMarkToken (mark_vtoken_used (en_now E) (sha256_hex L raw))))))"

subsection \<open>Steps 2 to 5\<close>

text \<open>The two local variables the deferred undo function of \<open>ExecuteTransfer\<close> reads.\<close>

record 's call = "'s world" +
  restore_inquiry :: "inquiry option"
  restore_vtoken :: string

definition take_transfer_token ::
    "lib \<Rightarrow> 's redis_api \<Rightarrow> env \<Rightarrow> uuid \<Rightarrow> execute_request \<Rightarrow> ('s call, unit) svc" where
  "take_transfer_token L R E user req =
     (let h = sha256_hex L (er_vtoken req) in
      svc_bind (on_kv (consume_token R (en_now E) h)) (\<lambda>v.
        svc_seq (fail_if (fst v = '''') VerificationTokenInvalid)
       (svc_seq (fail_if (fst v \<noteq> user) VerificationTokenInvalid)
       (svc_seq (fail_if (snd v \<noteq> ''TRANSFER'') VerificationTokenInvalid)
         (\<lambda>w. (Inr (), w\<lparr>restore_vtoken := h\<rparr>))))))"

definition take_transfer_inquiry ::
    "'s redis_api \<Rightarrow> env \<Rightarrow> uuid \<Rightarrow> execute_request \<Rightarrow> ('s call, inquiry) svc" where
  "take_transfer_inquiry R E user req =
     svc_bind (on_kv (consume_inquiry R (en_now E) (er_inquiry req))) (\<lambda>r.
     svc_bind (svc_option InquiryExpired r) (\<lambda>q.
     svc_seq (fail_if (iq_user q \<noteq> user) InquiryExpired)
       (\<lambda>w. (Inr q, w\<lparr>restore_inquiry := Some q\<rparr>))))"

definition cross_check :: "execute_request \<Rightarrow> inquiry \<Rightarrow> bool" where
  "cross_check req q \<longleftrightarrow>
     (er_dest req = '''' \<or> er_dest req = iq_dest q)
   \<and> (er_bank_code req = '''' \<or> (case iq_bank_code q of None \<Rightarrow> True | Some b \<Rightarrow> er_bank_code req = b))"

definition transfer_amount :: "execute_request \<Rightarrow> inquiry \<Rightarrow> decimal option" where
  "transfer_amount req q = (case iq_amount q of
      Some a \<Rightarrow> if a \<noteq> 0 then Some a else if 0 < er_amount req then Some (of_int (er_amount req)) else None
    | None \<Rightarrow> if 0 < er_amount req then Some (of_int (er_amount req)) else None)"

definition transfer_fee :: "inquiry \<Rightarrow> decimal" where
  "transfer_fee q = (case iq_fee q of None \<Rightarrow> 0 | Some f \<Rightarrow> f)"

definition execute_type :: "execute_request \<Rightarrow> inquiry \<Rightarrow> string" where
  "execute_type req q =
     (let t = (case iq_bank_code q of
                 None \<Rightarrow> ''INTERNAL'' | Some b \<Rightarrow> if b \<noteq> ''014'' then ''EXTERNAL'' else ''INTERNAL'') in
      if er_type req \<noteq> '''' \<and> (er_type req = ''EXTERNAL'' \<or> er_type req = ''VIRTUAL_ACCOUNT'')
      then ''EXTERNAL'' else t)"

definition or_internal :: "string \<Rightarrow> string" where
  "or_internal s = (if s = '''' then ''TRANSFER_INTERNAL'' else s)"

definition transfer_params ::
    "env \<Rightarrow> uuid \<Rightarrow> execute_request \<Rightarrow> string \<Rightarrow> inquiry \<Rightarrow> decimal \<Rightarrow> uuid \<Rightarrow> execute_params" where
  "transfer_params E user req key q amount source =
     \<lparr>ep_idem = key, ep_user = user, ep_source = source, ep_inquiry = q,
      ep_transfer_type = execute_type req q,
      ep_txn_type = or_internal (transfer_type_txn (execute_type req q)),
      ep_limit_type = or_internal (transfer_type_limit (execute_type req q)),
      ep_amount = amount, ep_fee = transfer_fee q, ep_total = amount + transfer_fee q,
      ep_notes = er_notes req, ep_wib_date = wib_date (en_now E), ep_wib_time = wib_time (en_now E)\<rparr>"

text \<open>What the request has established when it reaches the executor.\<close>

definition prepare_transfer ::
    "lib \<Rightarrow> 's redis_api \<Rightarrow> env \<Rightarrow> uuid \<Rightarrow> execute_request \<Rightarrow> string
      \<Rightarrow> ('s call, account \<times> execute_params) svc" where
  "prepare_transfer L R E user req key =
     svc_seq (take_transfer_token L R E user req)
    (svc_bind (take_transfer_inquiry R E user req) (\<lambda>q.
     svc_seq (fail_if (\<not> cross_check req q) InquiryMismatch)
    (svc_bind (svc_option ValidationError (transfer_amount req q)) (\<lambda>amount.
     svc_bind (svc_option ValidationError (parse_uuid L (er_source req))) (\<lambda>source.
     svc_bind (sql_read E QFindOwned (\<lambda>d. find_owned_by_id d user source)) (\<lambda>r.
     svc_bind (svc_option SourceAccountForbidden r) (\<lambda>acct.
     svc_seq (fail_if (ac_number acct = iq_dest q) SelfTransfer)
       (svc_return (acct, transfer_params E user req key q amount source)))))))))"

subsection \<open>Steps 15 to 17\<close>

definition transfer_parties ::
    "env \<Rightarrow> uuid \<Rightarrow> execute_params \<Rightarrow> transaction \<Rightarrow> db \<Rightarrow> affected_party list" where
  "transfer_parties E user p t d =
     \<lparr>af_user = user, af_account = ep_source p\<rparr> #
     (if tx_dest_id t = None \<or> en_fault E QFindByNumber then []
      else case find_by_account_number d (iq_dest (ep_inquiry p)) of
          None \<Rightarrow> []
        | Some a \<Rightarrow> [\<lparr>af_user = (case ac_user a of None \<Rightarrow> uuid_nil | Some u \<Rightarrow> u), af_account = ac_id a\<rparr>])"

definition dest_name_of :: "inquiry \<Rightarrow> string" where
  "dest_name_of q = (case iq_dest_name q of None \<Rightarrow> iq_dest q | Some n \<Rightarrow> n)"

definition dest_bank_of :: "inquiry \<Rightarrow> string" where
  "dest_bank_of q = (case iq_dest_bank q of None \<Rightarrow> ''BCA'' | Some n \<Rightarrow> n)"

definition transfer_response_of ::
    "lib \<Rightarrow> execute_request \<Rightarrow> account \<Rightarrow> execute_params \<Rightarrow> transaction \<Rightarrow> transfer_response" where
  "transfer_response_of L req acct p t =
     \<lparr>tr_txn = tx_id t, tr_ref = tx_ref t, tr_status = tx_status t,
      tr_amount = string_fixed2 L (ep_amount p), tr_fee = string_fixed2 L (ep_fee p),
      tr_total = string_fixed2 L (ep_total p), tr_src_number = ac_number acct,
      tr_src_name = ac_label acct, tr_dst_number = iq_dest (ep_inquiry p),
      tr_dst_name = dest_name_of (ep_inquiry p), tr_dst_bank = dest_bank_of (ep_inquiry p),
      tr_notes = er_notes req, tr_created = rfc3339 L (tx_created t)\<rparr>"

definition transfer_notice :: "lib \<Rightarrow> uuid \<Rightarrow> execute_params \<Rightarrow> transaction \<Rightarrow> notice" where
  "transfer_notice L user p t =
     \<lparr>no_user = user, no_type = '''', no_title = ''Transfer berhasil'',
      no_body = ''Transfer '' @ format_idr (ep_total p) @ '' ke '' @ dest_name_of (ep_inquiry p)
        @ '' berhasil. Ref: '' @ tx_ref t,
      no_link = ''bcamobile://transaction/'' @ tx_id t,
      no_meta = [(''transaction_id'', tx_id t), (''reference_number'', tx_ref t),
        (''amount'', string_fixed2 L (ep_amount p)), (''type'', ep_txn_type p)]\<rparr>"

definition transfer_favorite :: "uuid \<Rightarrow> execute_params \<Rightarrow> favorite_transfer" where
  "transfer_favorite user p =
     \<lparr>fv_user = user, fv_dest = iq_dest (ep_inquiry p), fv_dest_name = dest_name_of (ep_inquiry p),
      fv_dest_bank = dest_bank_of (ep_inquiry p),
      fv_bank_code = (case iq_bank_code (ep_inquiry p) of None \<Rightarrow> ''014'' | Some b \<Rightarrow> b),
      fv_type = ep_transfer_type p, fv_count = 0, fv_last = None\<rparr>"

definition finish_transfer ::
    "lib \<Rightarrow> 's redis_api \<Rightarrow> env \<Rightarrow> uuid \<Rightarrow> execute_request \<Rightarrow> string \<Rightarrow> account \<Rightarrow> execute_params
      \<Rightarrow> transaction \<Rightarrow> ('s call, transfer_response) svc" where
  "finish_transfer L R E user req key acct p t w =
     (let resp = transfer_response_of L req acct p t in
      svc_seq (best_effort_kv (invalidate_caches R (en_now E) (transfer_parties E user p t (pg w))))
     (svc_seq (best_effort_sql E QMarkToken (mark_vtoken_used (en_now E) (sha256_hex L (er_vtoken req))))
     (svc_seq (best_effort_sql E QMarkInquiry (mark_inquiry_used (en_now E) (iq_id (ep_inquiry p))))
     (svc_seq (best_effort_kv (idem_persist R (en_now E) user key (encode_transfer_response resp)))
     (svc_seq (notify_transaction E (transfer_notice L user p t))
     (svc_seq (best_effort_sql E QUpsertFavorite (save_favorite (en_now E) (transfer_favorite user p)))
       (svc_return resp)))))) w)"

subsection \<open>The deferred undo\<close>

definition undo_transfer ::
    "'s redis_api \<Rightarrow> env \<Rightarrow> uuid \<Rightarrow> string \<Rightarrow> 's call \<Rightarrow> 's call" where
  "undo_transfer R E user key w0 =
     (let w1 = w0\<lparr>kv := snd (idem_release R (en_now E) user key (kv w0))\<rparr>;
          w2 = (case restore_inquiry w1 of
                  Some q \<Rightarrow> if en_now E < iq_expires q
                    then w1\<lparr>kv := snd (store_inquiry R (en_now E) q (kv w1))\<rparr> else w1
                | None \<Rightarrow> w1)
      in if restore_vtoken w2 \<noteq> ''''
         then w2\<lparr>kv := snd (store_token R (en_now E) (restore_vtoken w2) (user, ''TRANSFER'') (kv w2))\<rparr>
         else w2)"

subsection \<open>The handler\<close>

definition transfer_flow ::
    "lib \<Rightarrow> 's redis_api \<Rightarrow> env \<Rightarrow> uuid \<Rightarrow> execute_request \<Rightarrow> string \<Rightarrow> ('s call, transfer_response) svc" where
  "transfer_flow L R E user req key =
     svc_bind (prepare_transfer L R E user req key) (\<lambda>(acct, p).
     svc_bind (on_pg (execute_transfer_tx L (en_attempts E) p)) (\<lambda>t.
       finish_transfer L R E user req key acct p t))"

text \<open>The response and whether it is a replay of a stored one.\<close>

definition replay_transfer :: "idem_result \<Rightarrow> app_err + transfer_response \<times> bool" where
  "replay_transfer r =
     (if still_processing r then Inl IdempotencyConflict
      else case stored_response r of
          RJson j \<Rightarrow> (case decode_transfer_response j of
              None \<Rightarrow> Inl InternalError | Some resp \<Rightarrow> Inr (resp, True))
        | _ \<Rightarrow> Inl InternalError)"

definition execute_transfer ::
    "lib \<Rightarrow> 's redis_api \<Rightarrow> env \<Rightarrow> uuid \<Rightarrow> execute_request \<Rightarrow> string
      \<Rightarrow> ('s world, transfer_response \<times> bool) svc" where
  "execute_transfer L R E user req key w =
     (case idem_claim R (en_now E) user key (kv w) of
        (Fault, s) \<Rightarrow> (Inl InternalError, w\<lparr>kv := s\<rparr>)
      | (Reply r, s) \<Rightarrow>
          let w1 = w\<lparr>kv := s\<rparr> in
          if already_claimed r then (replay_transfer r, w1)
          else case transfer_flow L R E user req key
                 (world.extend w1 \<lparr>restore_inquiry = None, restore_vtoken = ''''\<rparr>) of
              (Inl e, w2) \<Rightarrow> (Inl e, world.truncate (undo_transfer R E user key w2))
            | (Inr resp, w2) \<Rightarrow> (Inr (resp, False), world.truncate w2))"

end
