(* ===== verification/Transfer_Laws.thy ===== *)
theory Transfer_Laws
  imports Transfer_Service
begin

text \<open>
  What a transfer request does: how far it got decides what it consumed, what it moved and what it
  gives back.
\<close>

subsection \<open>The preparation\<close>

lemma take_transfer_token_Inr:
  "take_transfer_token L R E user req w = (Inr u, w') \<longleftrightarrow>
     (\<exists>s. consume_token R (en_now E) (sha256_hex L (er_vtoken req)) (kv w) = (Reply (user, ''TRANSFER''), s)
        \<and> user \<noteq> '''' \<and> w' = w\<lparr>kv := s, restore_vtoken := sha256_hex L (er_vtoken req)\<rparr>)"
  by (auto simp: take_transfer_token_def Let_def)

lemma take_transfer_token_Inl:
  "take_transfer_token L R E user req w = (Inl e, w') \<Longrightarrow>
     \<exists>s. w' = w\<lparr>kv := s\<rparr> \<and> snd (consume_token R (en_now E) (sha256_hex L (er_vtoken req)) (kv w)) = s
       \<and> (user \<noteq> '''' \<longrightarrow> fst (consume_token R (en_now E) (sha256_hex L (er_vtoken req)) (kv w)) \<noteq> Reply (user, ''TRANSFER''))"
  by (auto simp: take_transfer_token_def Let_def)

lemma take_transfer_inquiry_Inr:
  "take_transfer_inquiry R E user req w = (Inr q, w') \<longleftrightarrow>
     (\<exists>s. consume_inquiry R (en_now E) (er_inquiry req) (kv w) = (Reply (Some q), s)
        \<and> iq_user q = user \<and> w' = w\<lparr>kv := s, restore_inquiry := Some q\<rparr>)"
  by (auto simp: take_transfer_inquiry_def)

lemma take_transfer_inquiry_Inl:
  "take_transfer_inquiry R E user req w = (Inl e, w') \<Longrightarrow>
     \<exists>s. w' = w\<lparr>kv := s\<rparr> \<and> snd (consume_inquiry R (en_now E) (er_inquiry req) (kv w)) = s
       \<and> (\<forall>q. fst (consume_inquiry R (en_now E) (er_inquiry req) (kv w)) = Reply (Some q) \<longrightarrow> iq_user q \<noteq> user)"
  by (auto simp: take_transfer_inquiry_def)

text \<open>The parameters the checks of steps 4 and 5 let through.\<close>

definition prepared ::
    "lib \<Rightarrow> env \<Rightarrow> uuid \<Rightarrow> execute_request \<Rightarrow> string \<Rightarrow> db \<Rightarrow> inquiry \<Rightarrow> account \<Rightarrow> execute_params \<Rightarrow> bool" where
  "prepared L E user req key d q acct p \<longleftrightarrow> cross_check req q
     \<and> (\<exists>source. parse_uuid L (er_source req) = Some source
          \<and> find_owned_by_id d user source = Some acct \<and> ac_number acct \<noteq> iq_dest q
          \<and> (\<exists>amount. transfer_amount req q = Some amount
               \<and> p = transfer_params E user req key q amount source))"

lemma prepare_transfer_Inr:
  assumes "prepare_transfer L R E user req key w = (Inr (acct, p), w')"
  obtains q s1 s2 where
    "consume_token R (en_now E) (sha256_hex L (er_vtoken req)) (kv w) = (Reply (user, ''TRANSFER''), s1)"
    "user \<noteq> ''''" "consume_inquiry R (en_now E) (er_inquiry req) s1 = (Reply (Some q), s2)"
    "iq_user q = user" "prepared L E user req key (pg w) q acct p"
    "w' = w\<lparr>kv := s2, restore_vtoken := sha256_hex L (er_vtoken req), restore_inquiry := Some q\<rparr>"
  using assms
  by (fastforce simp: prepare_transfer_def take_transfer_token_Inr take_transfer_inquiry_Inr prepared_def)

lemma prepare_transfer_Inl:
  assumes "prepare_transfer L R E user req key w = (Inl e, w')" "restore_inquiry w = None" "restore_vtoken w = ''''"
  obtains (token) "pg w' = pg w" "sent w' = sent w" "restore_inquiry w' = None" "restore_vtoken w' = ''''"
      "kv w' = snd (consume_token R (en_now E) (sha256_hex L (er_vtoken req)) (kv w))"
      "user \<noteq> '''' \<Longrightarrow> fst (consume_token R (en_now E) (sha256_hex L (er_vtoken req)) (kv w)) \<noteq> Reply (user, ''TRANSFER'')"
  | (inquiry) s where "pg w' = pg w" "sent w' = sent w" "restore_inquiry w' = None"
      "restore_vtoken w' = sha256_hex L (er_vtoken req)"
      "consume_token R (en_now E) (sha256_hex L (er_vtoken req)) (kv w) = (Reply (user, ''TRANSFER''), s)"
      "kv w' = snd (consume_inquiry R (en_now E) (er_inquiry req) s)"
      "\<And>q. fst (consume_inquiry R (en_now E) (er_inquiry req) s) = Reply (Some q) \<Longrightarrow> iq_user q \<noteq> user"
  | (checks) q s where "pg w' = pg w" "sent w' = sent w" "restore_inquiry w' = Some q"
      "restore_vtoken w' = sha256_hex L (er_vtoken req)" "iq_user q = user"
      "consume_token R (en_now E) (sha256_hex L (er_vtoken req)) (kv w) = (Reply (user, ''TRANSFER''), s)"
      "consume_inquiry R (en_now E) (er_inquiry req) s = (Reply (Some q), kv w')"
proof -
  consider (a) "take_transfer_token L R E user req w = (Inl e, w')"
    | (b) w1 where "take_transfer_token L R E user req w = (Inr (), w1)"
        "take_transfer_inquiry R E user req w1 = (Inl e, w')"
    | (c) w1 q w2 where "take_transfer_token L R E user req w = (Inr (), w1)"
        "take_transfer_inquiry R E user req w1 = (Inr q, w2)" "w' = w2"
    using assms(1) by (auto simp: prepare_transfer_def)
  then show ?thesis
  proof cases
    case a
    from take_transfer_token_Inl [OF a] show ?thesis using assms(2,3) by (intro token) auto
  next
    case b
    then obtain s where s: "consume_token R (en_now E) (sha256_hex L (er_vtoken req)) (kv w) = (Reply (user, ''TRANSFER''), s)"
      "w1 = w\<lparr>kv := s, restore_vtoken := sha256_hex L (er_vtoken req)\<rparr>"
      by (auto simp: take_transfer_token_Inr)
    from take_transfer_inquiry_Inl [OF b(2)] show ?thesis
      using assms(2) s by (intro inquiry [of s]) auto
  next
    case c
    then obtain s where s: "consume_token R (en_now E) (sha256_hex L (er_vtoken req)) (kv w) = (Reply (user, ''TRANSFER''), s)"
      "w1 = w\<lparr>kv := s, restore_vtoken := sha256_hex L (er_vtoken req)\<rparr>"
      by (auto simp: take_transfer_token_Inr)
    with c show ?thesis by (intro checks [of q s]) (auto simp: take_transfer_inquiry_Inr)
  qed
qed

subsection \<open>The whole request\<close>

lemma undo_transfer_frame [simp]:
  "pg (undo_transfer R E user key w) = pg w" "sent (undo_transfer R E user key w) = sent w"
  by (auto simp: undo_transfer_def Let_def split: option.splits)

lemma world_truncate [simp]:
  "pg (world.truncate w) = pg w" "kv (world.truncate w) = kv w" "sent (world.truncate w) = sent w"
  by (simp_all add: world.truncate_def)

lemma world_extend [simp]:
  "pg (world.extend w m) = pg w" "kv (world.extend w m) = kv w" "sent (world.extend w m) = sent w"
  "restore_inquiry (world.extend w \<lparr>restore_inquiry = a, restore_vtoken = b\<rparr>) = a"
  "restore_vtoken (world.extend w \<lparr>restore_inquiry = a, restore_vtoken = b\<rparr>) = b"
  by (simp_all add: world.extend_def)

lemma finish_transfer_total: "finish_transfer L R E user req key acct p t w \<noteq> (Inl e, w')"
  by (auto simp: finish_transfer_def Let_def)

text \<open>The stages a request can end in.\<close>

lemma execute_transfer_cases:
  assumes "execute_transfer L R E user req key w = (r, w')"
  obtains
    (unclaimed) s where "idem_claim R (en_now E) user key (kv w) = (Fault, s)" "r = Inl InternalError" "w' = w\<lparr>kv := s\<rparr>"
  | (claimed) c s where "idem_claim R (en_now E) user key (kv w) = (Reply c, s)" "already_claimed c"
      "r = replay_transfer c" "w' = w\<lparr>kv := s\<rparr>"
  | (rejected) c s e w1 w2 where "idem_claim R (en_now E) user key (kv w) = (Reply c, s)" "\<not> already_claimed c"
      "w1 = world.extend (w\<lparr>kv := s\<rparr>) \<lparr>restore_inquiry = None, restore_vtoken = ''''\<rparr>"
      "prepare_transfer L R E user req key w1 = (Inl e, w2)" "r = Inl e"
      "w' = world.truncate (undo_transfer R E user key w2)"
  | (failed) c s w1 acct p w2 x d where "idem_claim R (en_now E) user key (kv w) = (Reply c, s)" "\<not> already_claimed c"
      "w1 = world.extend (w\<lparr>kv := s\<rparr>) \<lparr>restore_inquiry = None, restore_vtoken = ''''\<rparr>"
      "prepare_transfer L R E user req key w1 = (Inr (acct, p), w2)"
      "execute_transfer_tx L (en_attempts E) p (pg w2) = (Inl x, d)" "r = Inl (exec_app_err x)"
      "w' = world.truncate (undo_transfer R E user key (w2\<lparr>pg := d\<rparr>))"
  | (executed) c s w1 acct p w2 t d resp w3 where "idem_claim R (en_now E) user key (kv w) = (Reply c, s)"
      "\<not> already_claimed c"
      "w1 = world.extend (w\<lparr>kv := s\<rparr>) \<lparr>restore_inquiry = None, restore_vtoken = ''''\<rparr>"
      "prepare_transfer L R E user req key w1 = (Inr (acct, p), w2)"
      "execute_transfer_tx L (en_attempts E) p (pg w2) = (Inr t, d)"
      "finish_transfer L R E user req key acct p t (w2\<lparr>pg := d\<rparr>) = (Inr resp, w3)"
      "r = Inr (resp, False)" "w' = world.truncate w3"
proof -
  obtain q s where claim: "idem_claim R (en_now E) user key (kv w) = (q, s)" by fastforce
  show ?thesis
  proof (cases q)
    case Fault
    then show ?thesis using claim assms by (intro unclaimed [of s]) (auto simp: execute_transfer_def)
  next
    case (Reply c)
    show ?thesis
    proof (cases "already_claimed c")
      case True
      then show ?thesis using claim Reply assms by (intro claimed [of c s]) (auto simp: execute_transfer_def Let_def)
    next
      case False
      define w1 where "w1 = world.extend (w\<lparr>kv := s\<rparr>) \<lparr>restore_inquiry = None, restore_vtoken = ''''\<rparr>"
      obtain f w2 where flow: "transfer_flow L R E user req key w1 = (f, w2)" by fastforce
      show ?thesis
      proof (cases f)
        case (Inl e)
        then have r: "r = Inl e" "w' = world.truncate (undo_transfer R E user key w2)"
          using claim Reply assms False flow by (auto simp: execute_transfer_def Let_def w1_def)
        from flow Inl consider (p) "prepare_transfer L R E user req key w1 = (Inl e, w2)"
          | (x) acct p w3 x d where "prepare_transfer L R E user req key w1 = (Inr (acct, p), w3)"
              "execute_transfer_tx L (en_attempts E) p (pg w3) = (Inl x, d)" "e = exec_app_err x" "w2 = w3\<lparr>pg := d\<rparr>"
          by (auto simp: transfer_flow_def finish_transfer_total)
        then show ?thesis
        proof cases
          case p
          show ?thesis using rejected [OF _ False w1_def p] claim Reply r by blast
        next
          case x
          show ?thesis using failed [OF _ False w1_def x(1,2)] claim Reply r x by blast
        qed
      next
        case (Inr resp)
        then have r: "r = Inr (resp, False)" "w' = world.truncate w2"
          using claim Reply assms False flow by (auto simp: execute_transfer_def Let_def w1_def)
        from flow Inr obtain acct p w3 t d where x: "prepare_transfer L R E user req key w1 = (Inr (acct, p), w3)"
          "execute_transfer_tx L (en_attempts E) p (pg w3) = (Inr t, d)"
          "finish_transfer L R E user req key acct p t (w3\<lparr>pg := d\<rparr>) = (Inr resp, w2)"
          by (auto simp: transfer_flow_def)
        show ?thesis using executed [OF _ False w1_def x] claim Reply r by blast
      qed
    qed
  qed
qed

lemma finish_transfer_Inr:
  assumes "finish_transfer L R E user req key acct p t w = (Inr resp, w')"
  shows "resp = transfer_response_of L req acct p t" "same_ledger (pg w) (pg w')"
proof -
  show "resp = transfer_response_of L req acct p t"
    using assms by (auto simp: finish_transfer_def Let_def)
  show "same_ledger (pg w) (pg w')"
    using assms by (auto simp: finish_transfer_def Let_def same_ledger_def insert_inquiry_def
        mark_inquiry_used_def mark_vtoken_used_def save_favorite_def)
qed

text \<open>The ledger after a request is that of a run of the executor on prepared parameters, or unchanged.\<close>

lemma execute_transfer_ledger:
  assumes "execute_transfer L R E user req key w = (r, w')"
  obtains (same) "pg w' = pg w"
  | (ran) q acct p x d s1 s2 s3 c where "idem_claim R (en_now E) user key (kv w) = (Reply c, s1)" "\<not> already_claimed c"
      "consume_token R (en_now E) (sha256_hex L (er_vtoken req)) s1 = (Reply (user, ''TRANSFER''), s2)"
      "consume_inquiry R (en_now E) (er_inquiry req) s2 = (Reply (Some q), s3)"
      "iq_user q = user" "prepared L E user req key (pg w) q acct p"
      "execute_transfer_tx L (en_attempts E) p (pg w) = (x, d)" "same_ledger d (pg w')"
      "\<forall>e. x = Inl e \<longrightarrow> r = Inl (exec_app_err e)" "\<forall>t. x = Inr t \<longrightarrow> r = Inr (transfer_response_of L req acct p t, False)"
  using assms
proof (cases rule: execute_transfer_cases)
  case (unclaimed s)
  then show ?thesis by (intro same) simp
next
  case (claimed c s)
  then show ?thesis by (intro same) simp
next
  case (rejected c s e w1 w2)
  show ?thesis
  proof (rule prepare_transfer_Inl [OF rejected(4)])
    show "restore_inquiry w1 = None" "restore_vtoken w1 = ''''" by (simp_all add: rejected(3))
  qed (use rejected in \<open>auto intro!: same\<close>)
next
  case (failed c s w1 acct p w2 x d)
  from failed(4) show ?thesis
  proof (rule prepare_transfer_Inr)
    fix q s1 s2
    assume *: "consume_token R (en_now E) (sha256_hex L (er_vtoken req)) (kv w1) = (Reply (user, ''TRANSFER''), s1)"
      "consume_inquiry R (en_now E) (er_inquiry req) s1 = (Reply (Some q), s2)" "iq_user q = user"
      "prepared L E user req key (pg w1) q acct p"
      "w2 = w1\<lparr>kv := s2, restore_vtoken := sha256_hex L (er_vtoken req), restore_inquiry := Some q\<rparr>"
    show ?thesis
      by (rule ran [OF failed(1,2), of s1 q s2 acct p "Inl x" d]) (use * failed in auto)
  qed
next
  case (executed c s w1 acct p w2 t d resp w3)
  from executed(4) show ?thesis
  proof (rule prepare_transfer_Inr)
    fix q s1 s2
    assume *: "consume_token R (en_now E) (sha256_hex L (er_vtoken req)) (kv w1) = (Reply (user, ''TRANSFER''), s1)"
      "consume_inquiry R (en_now E) (er_inquiry req) s1 = (Reply (Some q), s2)" "iq_user q = user"
      "prepared L E user req key (pg w1) q acct p"
      "w2 = w1\<lparr>kv := s2, restore_vtoken := sha256_hex L (er_vtoken req), restore_inquiry := Some q\<rparr>"
    show ?thesis
      by (rule ran [OF executed(1,2), of s1 q s2 acct p "Inr t" d])
        (use * executed finish_transfer_Inr [OF executed(6)] in auto)
  qed
qed

end
