(* ===== verification/Request_Keys.thy ===== *)
theory Request_Keys
  imports Transfer_Laws
begin

text \<open>
  The keyspaces of a request are disjoint: which command can change what a later request sees of an
  inquiry, a verification token or an idempotency slot.
\<close>

lemmas cache_key_defs = balance_key_def dashboard_key_def recent_key_def notif_count_key_def
  mutations_version_key_def history_version_key_def notif_version_key_def

lemma keyspaces_disjoint [key_simps]:
  "idem_key u k \<noteq> inquiry_key i" "inquiry_key i \<noteq> idem_key u k"
  "idem_key u k \<noteq> vtoken_key h" "vtoken_key h \<noteq> idem_key u k"
  "inquiry_key i \<noteq> vtoken_key h" "vtoken_key h \<noteq> inquiry_key i"
  by (simp_all add: idem_key_def inquiry_key_def vtoken_key_def)

lemma party_keys_disjoint [key_simps]:
  "idem_key u k \<notin> cmd_key ` set (concat (map party_cmds ps))"
  "inquiry_key i \<notin> cmd_key ` set (concat (map party_cmds ps))"
  "vtoken_key h \<notin> cmd_key ` set (concat (map party_cmds ps))"
  by (auto simp: idem_key_def inquiry_key_def vtoken_key_def party_cmds_def cache_key_defs)

lemma key_inj [simp]:
  "inquiry_key i = inquiry_key j \<longleftrightarrow> i = j" "vtoken_key h = vtoken_key g \<longleftrightarrow> h = g"
  by (simp_all add: inquiry_key_def vtoken_key_def)

text \<open>No command of this server fails (but INCR, which fails on a key of another type); a property that
  needs it says so.\<close>

definition healthy :: "'s redis_api \<Rightarrow> bool" where
  "healthy R \<longleftrightarrow> (\<forall>t k s. fst (api_get R t k s) \<noteq> Fault) \<and> (\<forall>t k v l s. fst (api_setnx R t k v l s) \<noteq> Fault)
     \<and> (\<forall>t k v l s. fst (api_set R t k v l s) \<noteq> Fault) \<and> (\<forall>t k s. fst (api_getdel R t k s) \<noteq> Fault)
     \<and> (\<forall>t k s. fst (api_del R t k s) \<noteq> Fault)"

lemma healthy_replies:
  assumes "healthy R"
  shows "\<exists>s'. api_set R t k v l s = (Reply (), s')" "\<exists>s'. api_del R t k s = (Reply (), s')"
    "\<exists>b s'. api_setnx R t k v l s = (Reply b, s')" "\<exists>g s'. api_get R t k s = (Reply g, s')"
    "\<exists>g s'. api_getdel R t k s = (Reply g, s')"
  using assms unfolding healthy_def by (metis (full_types) reply.exhaust old.unit.exhaust prod.collapse)+

lemma idem_claim_healthy:
  assumes "healthy R"
  shows "\<exists>c s'. idem_claim R t u k s = (Reply c, s')"
proof -
  obtain b s1 where 1: "api_setnx R t (idem_key u k) status_processing claim_ttl s = (Reply b, s1)"
    using healthy_replies(3) [OF assms] by blast
  obtain g s2 where 2: "api_get R t (idem_key u k) s1 = (Reply g, s2)"
    using healthy_replies(4) [OF assms] by blast
  show ?thesis using 1 2 by (cases b; cases g) (auto simp: idem_claim_def)
qed

context redis_contract
begin

lemma consume_token_snd: "snd (consume_token R t h s) = snd (take_token R t h s)"
  by (auto simp: consume_token_take split: prod.splits reply.splits option.splits)

lemma consume_token_Reply:
  assumes "consume_token R t h s = (Reply (u, p), s')" "u \<noteq> ''''"
  shows "take_token R t h s = (Reply (Some (u, p)), s')"
  using assms by (auto simp: consume_token_take split: prod.splits reply.splits option.splits)

lemma vtoken_held_frame:
  "k \<noteq> vtoken_key h \<Longrightarrow> (\<And>k'. k' \<noteq> k \<Longrightarrow> live s' t' k' = live s t' k') \<Longrightarrow>
   vtoken_held live s' t' h = vtoken_held live s t' h"
  by (simp add: vtoken_held_def)

lemma views_frame:
  assumes "\<And>k'. k' \<noteq> k \<Longrightarrow> live s' t' k' = live s t' k'"
  shows "k \<noteq> vtoken_key h \<Longrightarrow> vtoken_held live s' t' h = vtoken_held live s t' h"
    "k \<noteq> inquiry_key i \<Longrightarrow> inquiry_held live s' t' i = inquiry_held live s t' i"
    "k \<noteq> idem_key u x \<Longrightarrow> idem_slot live s' t' u x = idem_slot live s t' u x"
  using assms by (auto simp: vtoken_held_def inquiry_held_def idem_slot_def)

lemma consume_token_live:
  assumes "consume_token R t h s = (r, s')" "k' \<noteq> vtoken_key h" "t \<le> t'"
  shows "live s' t' k' = live s t' k'"
proof -
  have "take_token R t h s = (fst (take_token R t h s), s')"
    using assms(1) consume_token_snd [of t h s] by (simp add: prod_eq_iff)
  then show ?thesis using take_token_frame assms(2,3) by blast
qed

lemma idem_persist_live:
  assumes "idem_persist R t u x j s = (r, s')" "k' \<noteq> idem_key u x" "t \<le> t'"
  shows "live s' t' k' = live s t' k'"
  using assms set_frame by (auto simp: idem_persist_def)

lemma idem_release_live:
  assumes "idem_release R t u x s = (r, s')" "k' \<noteq> idem_key u x" "t \<le> t'"
  shows "live s' t' k' = live s t' k'"
  using assms del_frame by (auto simp: idem_release_def)

lemma store_token_live:
  assumes "store_token R t h v s = (r, s')" "k' \<noteq> vtoken_key h" "t \<le> t'"
  shows "live s' t' k' = live s t' k'"
  using assms set_frame by (auto simp: store_token_def)

lemma store_inquiry_live:
  assumes "store_inquiry R t q s = (r, s')" "k' \<noteq> inquiry_key (iq_id q)" "t \<le> t'"
  shows "live s' t' k' = live s t' k'"
  using assms set_frame by (auto simp: store_inquiry_def)

lemma invalidate_live:
  assumes "invalidate_caches R t ps s = (r, s')" "k' \<notin> cmd_key ` set (concat (map party_cmds ps))" "t \<le> t'"
  shows "live s' t' k' = live s t' k'"
  using assms run_pipe_frame by (auto simp: invalidate_caches_def)

text \<open>The Redis side of steps 15 to 17.\<close>

lemma finish_transfer_kv:
  assumes "finish_transfer L R E user req key acct p t w = (Inr resp, w')"
  obtains ps s r1 r2 where "invalidate_caches R (en_now E) ps (kv w) = (r1, s)"
    "idem_persist R (en_now E) user key (encode_transfer_response resp) s = (r2, kv w')"
proof -
  let ?ps = "transfer_parties E user p t (pg w)"
  let ?s = "snd (invalidate_caches R (en_now E) ?ps (kv w))"
  have "kv w' = snd (idem_persist R (en_now E) user key (encode_transfer_response resp) ?s)"
    using assms by (auto simp: finish_transfer_def Let_def)
  then show ?thesis using that [of ?ps _ ?s] by (metis prod.collapse)
qed

text \<open>A transfer that is executed consumed the token and the inquiry it names.\<close>

lemma executed_consumes:
  assumes ex: "execute_transfer L R E user req key w = (Inr (resp, False), w')" and t: "en_now E \<le> t"
  shows "vtoken_held live (kv w) (en_now E) (sha256_hex L (er_vtoken req)) = Some (user, ''TRANSFER'')"
    and "\<exists>q. inquiry_held live (kv w) (en_now E) (er_inquiry req) = Some q \<and> iq_user q = user"
    and "vtoken_held live (kv w') t (sha256_hex L (er_vtoken req)) = None"
    and "inquiry_held live (kv w') t (er_inquiry req) = None"
proof -
  have "vtoken_held live (kv w) (en_now E) (sha256_hex L (er_vtoken req)) = Some (user, ''TRANSFER'')
    \<and> (\<exists>q. inquiry_held live (kv w) (en_now E) (er_inquiry req) = Some q \<and> iq_user q = user)
    \<and> vtoken_held live (kv w') t (sha256_hex L (er_vtoken req)) = None
    \<and> inquiry_held live (kv w') t (er_inquiry req) = None"
  using ex
proof (cases rule: execute_transfer_cases)
  case (claimed c s)
  then show ?thesis
    by (auto simp: replay_transfer_def split: if_splits rval.splits option.splits)
next
  case (executed c s w1 acct p w2 x d resp' w3)
  let ?now = "en_now E" and ?h = "sha256_hex L (er_vtoken req)" and ?i = "er_inquiry req"
  from executed(4) obtain q s1 s2 where tok: "consume_token R ?now ?h (kv w1) = (Reply (user, ''TRANSFER''), s1)"
    and u: "user \<noteq> ''''" and inq: "consume_inquiry R ?now ?i s1 = (Reply (Some q), s2)" and q: "iq_user q = user"
    and w2: "w2 = w1\<lparr>kv := s2, restore_vtoken := ?h, restore_inquiry := Some q\<rparr>"
    by (rule prepare_transfer_Inr)
  have kv1: "kv w1 = s" by (simp add: executed(3))
  note take = consume_token_Reply [OF tok u]
  from executed(6) obtain ps sm r1 r2 where inv: "invalidate_caches R ?now ps s2 = (r1, sm)"
    and per: "idem_persist R ?now user key (encode_transfer_response resp') sm = (r2, kv w3)"
    by (rule finish_transfer_kv) (auto simp: w2)
  have "vtoken_held live s ?now ?h = Some (user, ''TRANSFER'')"
    using vtokens.take_some [OF take] by (simp add: kv1)
  then have 1: "vtoken_held live (kv w) ?now ?h = Some (user, ''TRANSFER'')"
    using idem_claim_frame [OF executed(1), of "vtoken_key ?h" ?now] by (simp add: vtoken_held_def key_simps)
  have "inquiry_held live s1 ?now ?i = Some q" using inquiries.take_some [OF inq] .
  then have 2: "inquiry_held live (kv w) ?now ?i = Some q"
    using idem_claim_frame [OF executed(1), of "inquiry_key ?i" ?now]
      consume_token_live [OF tok, of "inquiry_key ?i" ?now]
    by (simp add: inquiry_held_def key_simps kv1)
  have "vtoken_held live s1 t ?h = None" using vtokens.take_gone [OF take t] .
  then have 3: "vtoken_held live (kv w3) t ?h = None"
    using consume_inquiry_frame [OF inq, of "vtoken_key ?h" t] invalidate_live [OF inv party_keys_disjoint(3) t]
      idem_persist_live [OF per, of "vtoken_key ?h" t] t
    by (simp add: vtoken_held_def key_simps)
  have "inquiry_held live s2 t ?i = None" using inquiries.take_gone [OF inq t] .
  then have 4: "inquiry_held live (kv w3) t ?i = None"
    using invalidate_live [OF inv party_keys_disjoint(2) t]
      idem_persist_live [OF per, of "inquiry_key ?i" t] t
    by (simp add: inquiry_held_def key_simps)
  show ?thesis using 1 2 3 4 q executed(7,8) by simp
qed auto
  then show "vtoken_held live (kv w) (en_now E) (sha256_hex L (er_vtoken req)) = Some (user, ''TRANSFER'')"
    and "\<exists>q. inquiry_held live (kv w) (en_now E) (er_inquiry req) = Some q \<and> iq_user q = user"
    and "vtoken_held live (kv w') t (sha256_hex L (er_vtoken req)) = None"
    and "inquiry_held live (kv w') t (er_inquiry req) = None" by auto
qed

text \<open>With a healthy Redis the response is stored, and every call with the key replays it for a day.\<close>

lemma executed_replays:
  assumes ex: "execute_transfer L R E user req key w = (Inr (resp, False), w')" and ok: "healthy R"
    and t: "en_now E \<le> en_now E'" "en_now E' < en_now E + result_ttl"
  shows "\<exists>w2. execute_transfer L R E' user req' key w' = (Inr (resp, True), w2) \<and> pg w2 = pg w' \<and> sent w2 = sent w'"
  using ex
proof (cases rule: execute_transfer_cases)
  case (executed c s w1 acct p w2 x d resp' w3)
  from executed(6) obtain ps sm r1 r2 where
    per: "idem_persist R (en_now E) user key (encode_transfer_response resp') sm = (r2, kv w3)"
    by (rule finish_transfer_kv)
  have "r2 = Reply ()"
    using per healthy_replies(1) [OF ok, of "en_now E" "idem_key user key" "RJson (encode_transfer_response resp')" result_ttl sm]
    by (auto simp: idem_persist_def)
  with per have per: "idem_persist R (en_now E) user key (encode_transfer_response resp') sm = (Reply (), kv w3)"
    by simp
  obtain c' s' where cl: "idem_claim R (en_now E') user key (kv w3) = (Reply c', s')"
    using idem_claim_healthy [OF ok] by blast
  have "already_claimed c' \<and> \<not> still_processing c' \<and> stored_response c' = RJson (encode_transfer_response resp')"
    using idem.claim_replays [OF per t cl] .
  then have "execute_transfer L R E' user req' key w' = (Inr (resp', True), w'\<lparr>kv := s'\<rparr>)"
    using cl executed(8) by (simp add: execute_transfer_def Let_def replay_transfer_def)
  then show ?thesis using executed(7) by simp
next
  case (claimed c s)
  then show ?thesis by (auto simp: replay_transfer_def split: if_splits rval.splits option.splits)
qed auto

end

end
