(* ===== verification/Transfer_Guarantees.thy ===== *)
theory Transfer_Guarantees
  imports Request_Keys
begin

text \<open>
  The guarantees of a transfer request, for every Redis that keeps the contract: the ledger stays
  balanced, only an own account is debited, a rejected request gives its credentials back.
\<close>

subsection \<open>What an inquiry may carry\<close>

definition inquiry_fits :: "inquiry \<Rightarrow> bool" where
  "inquiry_fits q \<longleftrightarrow> (case iq_amount q of None \<Rightarrow> True | Some a \<Rightarrow> 0 \<le> a \<and> sen a)
     \<and> 0 \<le> transfer_fee q \<and> sen (transfer_fee q)"

lemma inquiry_fits_cached [simp]: "inquiry_fits (cached_inquiry q) = inquiry_fits q"
  by (simp add: inquiry_fits_def transfer_fee_def)

lemma transfer_amount_fits:
  "transfer_amount req q = Some a \<Longrightarrow> inquiry_fits q \<Longrightarrow> 0 \<le> a \<and> sen a"
  by (auto simp: transfer_amount_def inquiry_fits_def split: option.splits if_splits)

lemma find_owned_Some:
  "find_owned_by_id d u i = Some a \<Longrightarrow>
     a \<in> set (accounts d) \<and> ac_id a = i \<and> ac_user a = Some u \<and> ac_owner a = CUSTOMER \<and> ac_status a = ACTIVE"
  by (auto simp: find_owned_by_id_def dest: find_Some_D)

lemma execute_type_cases: "execute_type req q = ''INTERNAL'' \<or> execute_type req q = ''EXTERNAL''"
  by (auto simp: execute_type_def Let_def split: option.splits)

lemma params_types:
  "ep_transfer_type (transfer_params E u req key q x i) \<in> set valid_transfer_types"
  "ep_txn_type (transfer_params E u req key q x i) = transfer_type_txn (ep_transfer_type (transfer_params E u req key q x i))"
  using execute_type_cases [of req q]
  by (auto simp: transfer_params_def valid_transfer_types_def transfer_type_txn_def or_internal_def)

lemma prepared_fits:
  assumes "prepared L E user req key d q acct p" "inquiry_fits q"
  shows "transfer_fits p d"
proof -
  from assms(1) obtain source amount where p: "p = transfer_params E user req key q amount source"
    and acct: "find_owned_by_id d user source = Some acct" and am: "transfer_amount req q = Some amount"
    by (auto simp: prepared_def)
  have "customer_source d source"
    using find_owned_Some [OF acct] by (auto simp: customer_source_def list_ex_iff)
  moreover have "transfer_amounts_ok p"
    using transfer_amount_fits [OF am assms(2)] assms(2) params_types [of E user req key q amount source]
    by (simp add: p transfer_amounts_ok_def inquiry_fits_def) (simp add: transfer_params_def)
  ultimately show ?thesis by (simp add: transfer_fits_def p transfer_params_def)
qed

lemma execute_transfer_tx_run: "execute_transfer_tx L E p = transfer.run L E p"
  by (simp add: execute_transfer_tx_def transfer.run_def)

context redis_contract
begin

subsection \<open>The ledger\<close>

lemma inquiry_seen:
  assumes "idem_claim R t u k s = (rc, s1)" "consume_token R t h s1 = (rt, s2)"
    "consume_inquiry R t i s2 = (Reply (Some q), s3)"
  shows "inquiry_held live s t i = Some q"
  using inquiries.take_some [OF assms(3)] idem_claim_frame [OF assms(1), of "inquiry_key i" t]
    consume_token_live [OF assms(2), of "inquiry_key i" t]
  by (simp add: inquiry_held_def key_simps)

lemma request_ledger_ok:
  assumes ex: "execute_transfer L R E user req key w = (r, w')" and ok: "ledger_ok (pg w)"
    and fit: "\<And>q. inquiry_held live (kv w) (en_now E) (er_inquiry req) = Some q \<Longrightarrow> inquiry_fits q"
  shows "ledger_ok (pg w') \<and> total_money (accounts (pg w')) = total_money (accounts (pg w))"
  using ex
proof (cases rule: execute_transfer_ledger)
  case same
  then show ?thesis using ok by simp
next
  case (ran q acct p x d s1 s2 s3 c)
  have "inquiry_fits q" using inquiry_seen [OF ran(1,3,4)] fit by blast
  then have fits: "transfer_fits p (pg w)" using prepared_fits ran(6) by blast
  have run: "transfer.run L (en_attempts E) p (pg w) = (x, d)" using ran(7) by (simp add: execute_transfer_tx_run)
  have "ledger_ok d" using transfer.keeps_ledger_ok [OF run fits ok] .
  moreover have "total_money (accounts d) = total_money (accounts (pg w))"
    using transfer.conserves [OF run fits ok] .
  ultimately show ?thesis using same_ledger_ok [OF ran(8)] ran(8) by (simp add: same_ledger_def)
qed

text \<open>A request that takes money from an account takes it from an active account of its own user, within its funds.\<close>

lemma moves_own_money:
  assumes ex: "execute_transfer L R E user req key w = (r, w')" and ok: "ledger_ok (pg w)"
    and fit: "\<And>q. inquiry_held live (kv w) (en_now E) (er_inquiry req) = Some q \<Longrightarrow> inquiry_fits q"
    and a: "account_by_id (accounts (pg w)) i = Some a" "account_by_id (accounts (pg w')) i = Some a'"
    and less: "ac_balance a' < ac_balance a"
  shows "ac_user a = Some user \<and> ac_owner a = CUSTOMER \<and> ac_status a = ACTIVE \<and> ac_hold a \<le> ac_balance a'"
  using ex
proof (cases rule: execute_transfer_ledger)
  case same
  then show ?thesis using a less by simp
next
  case (ran q acct p x d s1 s2 s3 c)
  have "inquiry_fits q" using inquiry_seen [OF ran(1,3,4)] fit by blast
  then have fits: "transfer_fits p (pg w)" using prepared_fits ran(6) by blast
  have run: "transfer.run L (en_attempts E) p (pg w) = (x, d)" using ran(7) by (simp add: execute_transfer_tx_run)
  have acc: "accounts d = accounts (pg w')" using ran(8) by (simp add: same_ledger_def)
  have "\<not> same_tables (pg w) d" using a less acc by (auto dest: same_tables_sel(1))
  then obtain t where t: "transfer.posted L p (pg w) x d t"
    using transfer.run_cases [OF run] by (auto simp: transfer.unposted_def)
  from transfer.posted_posts [OF t fits ok] obtain d0 row ls where *: "same_tables (pg w) d0"
    "posts row ((ep_source p, - ep_total p) # ls) d0 d" "\<forall>l \<in> set ls. 0 \<le> snd l" by metis
  let ?ls = "(ep_source p, - ep_total p) # ls"
  have a0: "account_by_id (accounts d0) i = Some a" using a(1) *(1) by (simp add: same_tables_sel)
  have "account_by_id (apply_legs ?ls (accounts d0)) i = Some a'"
    using *(2) a(2) acc by (simp add: posts_def)
  then have bal: "ac_balance a' = ac_balance a + sum_list (map snd (filter (\<lambda>l. fst l = i) ?ls))"
    using apply_legs_balance [OF a0, of ?ls] by auto
  have pos: "0 \<le> sum_list (map snd (filter (\<lambda>l. fst l = i) ls))"
    using *(3) by (intro sum_list_nonneg) auto
  have i: "i = ep_source p" using bal pos less by (cases "i = ep_source p") auto
  have "filter (\<lambda>l. fst l = i) ls = []"
    using *(2) i by (force simp: posts_def filter_empty_conv)
  then have debit: "ac_balance a' = ac_balance a - ep_total p" using bal i by simp
  obtain source where s: "find_owned_by_id (pg w) user source = Some acct" "ep_source p = source"
    using ran(6) by (auto simp: prepared_def transfer_params_def)
  have "a \<in> set (accounts (pg w))" "ac_id a = i"
    using a(1) by (auto simp: account_by_id_def dest: find_Some_D)
  then have "acct = a"
    using find_owned_Some [OF s(1)] i s(2) distinct_key_unique [of ac_id "accounts (pg w)" acct a] ok
    by (simp add: ledger_ok_def accounts_ok_def)
  moreover have "ep_total p \<le> ac_balance a - ac_hold a"
    using transfer.posted_funds [OF t] a(1) i by auto
  ultimately show ?thesis using find_owned_Some [OF s(1)] debit by simp
qed

text \<open>A rejected request leaves every table as it was; only a COMMIT whose reply was lost may hide a posting.\<close>

lemma rejected_moves_nothing:
  assumes "execute_transfer L R E user req key w = (Inl e, w')" "e \<noteq> InternalError"
  shows "same_ledger (pg w) (pg w')"
  using assms(1)
proof (cases rule: execute_transfer_ledger)
  case same
  then show ?thesis by simp
next
  case (ran q acct p x d s1 s2 s3 c)
  then obtain y where x: "x = Inl y" "e = exec_app_err y" by (cases x) auto
  have "y \<noteq> EPg OtherPg" using x(2) assms(2) by auto
  then have "same_tables (pg w) d"
    using transfer.failure_atomic [of L "en_attempts E" p "pg w" y d] ran(7) x(1)
    by (simp add: execute_transfer_tx_run)
  then show ?thesis using ran(8) same_ledger_trans same_tables_ledger by blast
qed

text \<open>While a request with the same key is in flight, another one is turned away and changes nothing.\<close>

lemma busy_conflict:
  assumes "healthy R" "idem_slot live (kv w) (en_now E) user key = Busy"
  shows "\<exists>w'. execute_transfer L R E user req key w = (Inl IdempotencyConflict, w') \<and> pg w' = pg w \<and> sent w' = sent w"
proof -
  obtain c s where c: "idem_claim R (en_now E) user key (kv w) = (Reply c, s)"
    using idem_claim_healthy [OF assms(1)] by blast
  then have "already_claimed c" "still_processing c"
    using idem.claim_free [OF c] idem.claim_busy [OF c] assms(2) by auto
  then show ?thesis using c by (simp add: execute_transfer_def Let_def replay_transfer_def)
qed

subsection \<open>Giving back\<close>

lemma consume_token_held:
  assumes "healthy R" "vtoken_held live s t h = Some v"
  shows "\<exists>s'. consume_token R t h s = (Reply v, s')"
proof -
  obtain g s1 where g: "api_getdel R t (vtoken_key h) s = (Reply g, s1)"
    using healthy_replies(5) [OF assms(1)] by blast
  have "g = live s t (vtoken_key h)" using getdel_reply [OF g] .
  then show ?thesis using g assms(2)
    by (auto simp: consume_token_def vtoken_held_def json_of_def bind_eq_Some_conv split: option.splits rval.splits)
qed

lemma consume_inquiry_held:
  assumes "healthy R" "inquiry_held live s t i = Some q"
  shows "\<exists>s'. consume_inquiry R t i s = (Reply (Some q), s')"
proof -
  obtain g s1 where g: "api_getdel R t (inquiry_key i) s = (Reply g, s1)"
    using healthy_replies(5) [OF assms(1)] by blast
  have "g = live s t (inquiry_key i)" using getdel_reply [OF g] .
  then show ?thesis using g assms(2)
    by (auto simp: consume_inquiry_def inquiry_held_def json_of_def bind_eq_Some_conv split: option.splits rval.splits)
qed

lemma undo_restores:
  assumes "healthy R" "restore_inquiry w = Some q" "restore_vtoken w = h" "h \<noteq> ''''"
    "en_now E < iq_expires q" "en_now E \<le> t" "t < en_now E + verification_token_ttl"
  shows "idem_slot live (kv (undo_transfer R E user key w)) t user key = Free"
    "vtoken_held live (kv (undo_transfer R E user key w)) t h = Some (user, ''TRANSFER'')"
    "inquiry_held live (kv (undo_transfer R E user key w)) t (iq_id q) = Some (cached_inquiry q)"
proof -
  let ?n = "en_now E"
  obtain s1 where rel: "idem_release R ?n user key (kv w) = (Reply (), s1)"
    using healthy_replies(2) [OF assms(1)] unfolding idem_release_def by blast
  obtain s2 where inq: "store_inquiry R ?n q s1 = (Reply (), s2)"
    using healthy_replies(1) [OF assms(1)] unfolding store_inquiry_def by blast
  obtain s3 where tok: "store_token R ?n h (user, ''TRANSFER'') s2 = (Reply (), s3)"
    using healthy_replies(1) [OF assms(1)] unfolding store_token_def by blast
  have kv: "kv (undo_transfer R E user key w) = s3"
    using assms rel inq tok by (simp add: undo_transfer_def Let_def)
  have ttl: "t < ?n + inquiry_cache_ttl" using assms(7) by (simp add: ttl_defs)
  have "idem_slot live s1 t user key = Free" using idem.release_free [OF rel assms(6)] .
  then show "idem_slot live (kv (undo_transfer R E user key w)) t user key = Free"
    using store_inquiry_live [OF inq, of "idem_key user key" t] store_token_live [OF tok, of "idem_key user key" t] assms(6)
    unfolding kv idem_slot_def by (simp add: key_simps)
  show "vtoken_held live (kv (undo_transfer R E user key w)) t h = Some (user, ''TRANSFER'')"
    using vtokens.put_holds [OF tok] assms(6,7) by (simp add: kv)
  have "inquiry_held live s2 t (iq_id q) = Some (cached_inquiry q)"
    using inquiries.put_holds [OF inq] assms(6) ttl by simp
  then show "inquiry_held live (kv (undo_transfer R E user key w)) t (iq_id q) = Some (cached_inquiry q)"
    using store_token_live [OF tok, of "inquiry_key (iq_id q)" t] assms(6)
    unfolding kv inquiry_held_def by (simp add: key_simps)
qed

lemma prepared_state:
  assumes ok: "healthy R"
    and tok: "vtoken_held live (kv w) (en_now E) (sha256_hex L (er_vtoken req)) = Some (user, ''TRANSFER'')"
    and u: "user \<noteq> ''''"
    and inq: "inquiry_held live (kv w) (en_now E) (er_inquiry req) = Some q" and q: "iq_user q = user"
    and claim: "idem_claim R (en_now E) user key (kv w) = (Reply c, s)"
    and prep: "prepare_transfer L R E user req key
      (world.extend (w\<lparr>kv := s\<rparr>) \<lparr>restore_inquiry = None, restore_vtoken = ''''\<rparr>) = (z, w2)"
  shows "restore_inquiry w2 = Some q" "restore_vtoken w2 = sha256_hex L (er_vtoken req)"
proof -
  let ?n = "en_now E" and ?h = "sha256_hex L (er_vtoken req)" and ?i = "er_inquiry req"
  define w1 where "w1 = world.extend (w\<lparr>kv := s\<rparr>) \<lparr>restore_inquiry = None, restore_vtoken = ''''\<rparr>"
  note prep = prep [folded w1_def]
  have w1: "kv w1 = s" "restore_inquiry w1 = None" "restore_vtoken w1 = ''''" by (simp_all add: w1_def)
  have "vtoken_held live s ?n ?h = Some (user, ''TRANSFER'')"
    using tok idem_claim_frame [OF claim, of "vtoken_key ?h" ?n] by (simp add: vtoken_held_def key_simps)
  then obtain s1 where t1: "consume_token R ?n ?h s = (Reply (user, ''TRANSFER''), s1)"
    using consume_token_held [OF ok] by blast
  have "inquiry_held live s1 ?n ?i = Some q"
    using inq idem_claim_frame [OF claim, of "inquiry_key ?i" ?n] consume_token_live [OF t1, of "inquiry_key ?i" ?n]
    by (simp add: inquiry_held_def key_simps)
  then obtain s2 where i1: "consume_inquiry R ?n ?i s1 = (Reply (Some q), s2)"
    using consume_inquiry_held [OF ok] by blast
  have "restore_inquiry w2 = Some q \<and> restore_vtoken w2 = ?h"
  proof (cases z)
    case (Inl e)
    with prep have "prepare_transfer L R E user req key w1 = (Inl e, w2)" by simp
    then show ?thesis
      by (rule prepare_transfer_Inl) (use w1 t1 i1 u q in auto)
  next
    case (Inr x)
    with prep obtain acct p where "prepare_transfer L R E user req key w1 = (Inr (acct, p), w2)"
      by (cases x) auto
    then show ?thesis
      by (rule prepare_transfer_Inr) (use w1 t1 i1 in auto)
  qed
  then show "restore_inquiry w2 = Some q" "restore_vtoken w2 = ?h" by auto
qed

lemma failure_restores:
  assumes ok: "healthy R" and ex: "execute_transfer L R E user req key w = (Inl e, w')"
    and tok: "vtoken_held live (kv w) (en_now E) (sha256_hex L (er_vtoken req)) = Some (user, ''TRANSFER'')"
    and u: "user \<noteq> ''''" and h: "sha256_hex L (er_vtoken req) \<noteq> ''''"
    and inq: "inquiry_held live (kv w) (en_now E) (er_inquiry req) = Some q"
    and q: "iq_user q = user" "iq_id q = er_inquiry req" "en_now E < iq_expires q"
    and free: "idem_slot live (kv w) (en_now E) user key = Free"
    and t: "en_now E \<le> t" "t < en_now E + verification_token_ttl"
  shows "idem_slot live (kv w') t user key = Free
     \<and> vtoken_held live (kv w') t (sha256_hex L (er_vtoken req)) = Some (user, ''TRANSFER'')
     \<and> inquiry_held live (kv w') t (er_inquiry req) = Some (cached_inquiry q)"
  using ex
proof (cases rule: execute_transfer_cases)
  case (unclaimed s)
  then show ?thesis using idem_claim_healthy [OF ok, of "en_now E" user key "kv w"] by auto
next
  case (claimed c s)
  then show ?thesis using idem.claim_free [OF claimed(1)] free by simp
next
  case (rejected c s e' w1 w2)
  note st = prepared_state [OF ok tok u inq q(1) rejected(1) rejected(4) [unfolded rejected(3)]]
  show ?thesis
    using undo_restores [OF ok st h q(3) t] q(2) rejected(6) by simp
next
  case (failed c s w1 acct p w2 x d)
  note st = prepared_state [OF ok tok u inq q(1) failed(1) failed(4) [unfolded failed(3)]]
  have "restore_inquiry (w2\<lparr>pg := d\<rparr>) = Some q" "restore_vtoken (w2\<lparr>pg := d\<rparr>) = sha256_hex L (er_vtoken req)"
    using st by simp_all
  from undo_restores [OF ok this h q(3) t] show ?thesis using q(2) failed(7) by simp
qed simp

end

end
