(* ===== verification/Outbound.thy ===== *)
theory Outbound
  imports Rail_Legs
begin

text \<open>
  What the e-wallet and the QRIS executor share: the legs, each inserted as a mutation and then
  written to its account, the fee leg only when there is a fee, and the columns their replay query
  reads.
\<close>

text \<open>\<open>fetchExistingTransaction\<close> of \<open>ewallet_repo.go\<close> and \<open>qris_repo.go\<close> selects these columns only.\<close>

definition fetched_outbound :: "transaction \<Rightarrow> transaction" where
  "fetched_outbound t = t\<lparr>tx_dest_id := None, tx_notes := None, tx_dest_bank := None,
     tx_dest_bank_code := None, tx_provider_ref := None, tx_processed := None,
     tx_completed := None, tx_expired := None\<rparr>"

text \<open>The three legs of a payment: source, settlement shard, fee shard.\<close>

definition outbound_legs ::
    "attempt \<Rightarrow> (uuid \<times> locked_account) list \<Rightarrow> uuid \<times> decimal \<times> mutation \<Rightarrow> uuid \<times> decimal \<times> mutation
      \<Rightarrow> uuid \<times> decimal \<times> mutation \<Rightarrow> unit tx" where
  "outbound_legs A lk src sett fee =
     (let (si, tot, sm) = src; (ti, amount, tm) = sett; (fi, fee_amount, fm) = fee in
     tx_seq (sql_insert_mutation A sm)
    (tx_seq (sql_update_balance A si (lk_balance (locked_of lk si) - tot))
    (tx_seq (sql_insert_mutation A tm)
    (tx_seq (sql_update_balance A ti (lk_balance (locked_of lk ti) + amount))
      (tx_when (0 < fee_amount)
        (tx_seq (sql_insert_mutation A fm)
          (sql_update_balance A fi (lk_balance (locked_of lk fi) + fee_amount))))))))"

definition outbound_credits :: "uuid \<Rightarrow> decimal \<Rightarrow> uuid \<Rightarrow> decimal \<Rightarrow> leg list" where
  "outbound_credits ti amount fi fee_amount =
     (ti, amount) # (if 0 < fee_amount then [(fi, fee_amount)] else [])"

lemma outbound_legs_Inr:
  assumes legs: "outbound_legs A lk (si, tot, sm) (ti, amount, tm) (fi, fee_amount, fm) d = (Inr (), d1)"
    and ok: "accounts_ok (accounts d)" and dist: "distinct [si, ti, fi]"
    and lk: "\<forall>i \<in> {si, ti, fi}. locked_ok (accounts d) lk i"
    and sens: "sen tot" "sen amount" "sen fee_amount"
  shows "d1 = d\<lparr>accounts := apply_legs ((si, - tot) # outbound_credits ti amount fi fee_amount) (accounts d),
    mutations := mutations d @ map stored_mutation (sm # tm # (if 0 < fee_amount then [fm] else []))\<rparr>"
proof -
  have 1: "set_balance si (lk_balance (locked_of lk si) - tot) (accounts d) = apply_legs [(si, - tot)] (accounts d)"
    using lk ok sens by (intro first_leg_write) auto
  have 2: "set_balance ti (lk_balance (locked_of lk ti) + amount) (apply_legs [(si, - tot)] (accounts d))
      = apply_legs [(si, - tot), (ti, amount)] (accounts d)"
    using lk dist sens by (subst leg_write [OF _ ok]) auto
  have 3: "set_balance fi (lk_balance (locked_of lk fi) + fee_amount)
        (apply_legs [(si, - tot), (ti, amount)] (accounts d))
      = apply_legs [(si, - tot), (ti, amount), (fi, fee_amount)] (accounts d)"
    using lk dist sens by (subst leg_write [OF _ ok]) auto
  show ?thesis
    using legs 1 2 3
    by (auto simp: outbound_legs_def outbound_credits_def tx_when_def simp del: apply_legs.simps)
qed

lemma outbound_legs_frame:
  "outbound_legs A lk (si, tot, sm) (ti, amount, tm) (fi, fee_amount, fm) d = (Inr (), d1) \<Longrightarrow>
   daily_usage d1 = daily_usage d \<and> transaction_limits d1 = transaction_limits d
   \<and> ewallet_providers d1 = ewallet_providers d"
  by (auto simp: outbound_legs_def tx_when_def split: if_splits)

lemma outbound_credits_sum:
  "0 \<le> fee \<Longrightarrow> sum_list (map snd (outbound_credits ti amount fi fee)) = amount + fee"
  by (simp add: outbound_credits_def)

lemma outbound_credits_nonneg:
  "0 \<le> amount \<Longrightarrow> \<forall>l \<in> set (outbound_credits ti amount fi fee). 0 \<le> snd l"
  by (simp add: outbound_credits_def)

text \<open>A whole payment: the row inserted, then the legs.\<close>

lemma outbound_posts:
  assumes legs: "outbound_legs A lk (si, tot, sm) (ti, amount, tm) (fi, fee_amount, fm) d2 = (Inr (), d3)"
    and d2: "d2 = d\<lparr>ref_seq := n, transactions := transactions d @ [stored_txn row]\<rparr>"
    and d': "d' = d3\<lparr>daily_usage := us\<rparr>"
    and ok: "accounts_ok (accounts d)" and dist: "distinct [si, ti, fi]"
    and lk: "\<forall>i \<in> {si, ti, fi}. locked_ok (accounts d) lk i"
    and sens: "sen tot" "sen amount" "sen fee_amount"
    and rows: "leg_mutation lk (tx_id row) (si, - tot) sm" "leg_mutation lk (tx_id row) (ti, amount) tm"
      "leg_mutation lk (tx_id row) (fi, fee_amount) fm"
    and fresh: "\<not> list_ex (txn_collides row) (transactions d)"
  shows "posts row ((si, - tot) # outbound_credits ti amount fi fee_amount) d d'"
proof -
  have d3: "d3 = d2\<lparr>accounts := apply_legs ((si, - tot) # outbound_credits ti amount fi fee_amount) (accounts d2),
    mutations := mutations d2 @ map stored_mutation (sm # tm # (if 0 < fee_amount then [fm] else []))\<rparr>"
    using ok lk by (intro outbound_legs_Inr [OF legs _ dist _ sens]) (simp_all add: d2)
  show ?thesis
    by (rule posts_intro [where ms = "sm # tm # (if 0 < fee_amount then [fm] else [])" and lk = lk])
      (use rows dist lk sens ok fresh in \<open>auto simp: d' d3 d2 outbound_credits_def simp del: apply_legs.simps\<close>)
qed

end
