(* ===== verification/EWallet_Executor.thy ===== *)
theory EWallet_Executor
  imports Outbound
begin

text \<open>
  \<open>EWalletExecutorImpl\<close> of \<open>internal/repository/postgres/ewallet_repo.go\<close>: the serializable
  transaction of a top-up, as an instance of the \<open>rail\<close> interface.
\<close>

record topup_params =
  tp_idem :: string
  tp_user :: uuid
  tp_source :: uuid
  tp_provider_id :: string
  tp_provider_name :: string
  tp_phone :: string
  tp_dest_name :: string
  tp_amount :: decimal
  tp_fee :: decimal
  tp_total :: decimal
  tp_wib_date :: date
  tp_wib_time :: nat

definition check_topup :: "attempt \<Rightarrow> topup_params \<Rightarrow> (uuid \<times> locked_account) list \<Rightarrow> unit tx" where
  "check_topup A p lk =
     (let source = locked_of lk (tp_source p) in
      if lk_balance source - lk_hold source < tp_total p then tx_throw (EApp EWalletInsufficientBalance)
      else tx_bind (sql_daily_usage A (tp_user p) (tp_wib_date p) ''EWALLET'') (\<lambda>used_today.
        tx_bind (sql_daily_limit A (tp_user p) ''EWALLET'') (\<lambda>daily_limit.
          if daily_limit < used_today + tp_total p then tx_throw (EApp TransferLimitExceeded)
          else tx_return ())))"

definition topup_row :: "attempt \<Rightarrow> topup_params \<Rightarrow> string \<Rightarrow> transaction" where
  "topup_row A p ref =
     \<lparr>tx_id = at_txn_id A, tx_idem = Some (tp_idem p), tx_user = tp_user p,
      tx_source = Some (tp_source p), tx_dest_id = None, tx_type = ''EWALLET_TOPUP'',
      tx_status = ''SUCCESS'', tx_amount = tp_amount p, tx_fee = tp_fee p, tx_total = tp_total p,
      tx_currency = ''IDR'', tx_ref = ref, tx_desc = Some (''Top Up '' @ tp_provider_name p),
      tx_notes = None, tx_dest = Some (tp_phone p), tx_dest_name = Some (tp_dest_name p),
      tx_dest_bank = None, tx_dest_bank_code = None, tx_provider_id = Some (tp_provider_id p),
      tx_provider_name = Some (tp_provider_name p), tx_provider_ref = None,
      tx_created = at_now A, tx_processed = Some (at_now A), tx_completed = Some (at_now A),
      tx_expired = None\<rparr>"

text \<open>The struct returned leaves out what the row has beyond these fields.\<close>

definition topup_shown :: "transaction \<Rightarrow> transaction" where
  "topup_shown t = t\<lparr>tx_desc := None, tx_dest := None, tx_dest_name := None,
     tx_processed := None, tx_completed := None\<rparr>"

definition topup_mutation ::
    "attempt \<Rightarrow> topup_params \<Rightarrow> string \<Rightarrow> uuid \<Rightarrow> mutation_type \<Rightarrow> decimal \<Rightarrow> decimal \<Rightarrow> decimal
      \<Rightarrow> string \<Rightarrow> string option \<Rightarrow> string \<Rightarrow> mutation" where
  "topup_mutation A p ref i ty amount bal_before bal_after desc detail cat =
     \<lparr>mu_id = at_mut_id A i, mu_account = i, mu_txn = Some (at_txn_id A), mu_type = ty,
      mu_amount = amount, mu_before = bal_before, mu_after = bal_after, mu_desc = desc,
      mu_detail = detail, mu_category = Some cat, mu_ref = Some ref, mu_date = tp_wib_date p,
      mu_time = tp_wib_time p, mu_created = at_now A\<rparr>"

definition topup_debit :: "attempt \<Rightarrow> topup_params \<Rightarrow> string \<Rightarrow> (uuid \<times> locked_account) list \<Rightarrow> mutation" where
  "topup_debit A p ref lk =
     (let b = lk_balance (locked_of lk (tp_source p)) in
      topup_mutation A p ref (tp_source p) DEBIT (tp_total p) b (b - tp_total p)
        (''TOP UP '' @ tp_provider_name p)
        (Some (''Top Up '' @ tp_phone p @ '' '' @ tp_dest_name p)) ''EWALLET'')"

definition topup_settlement ::
    "attempt \<Rightarrow> topup_params \<Rightarrow> string \<Rightarrow> (uuid \<times> locked_account) list \<Rightarrow> uuid \<Rightarrow> mutation" where
  "topup_settlement A p ref lk i =
     (let b = lk_balance (locked_of lk i) in
      topup_mutation A p ref i CREDIT (tp_amount p) b (b + tp_amount p)
        (''SETTLEMENT '' @ tp_provider_name p) None ''SETTLEMENT'')"

definition topup_fee ::
    "attempt \<Rightarrow> topup_params \<Rightarrow> string \<Rightarrow> (uuid \<times> locked_account) list \<Rightarrow> uuid \<Rightarrow> mutation" where
  "topup_fee A p ref lk i =
     (let b = lk_balance (locked_of lk i) in
      topup_mutation A p ref i CREDIT (tp_fee p) b (b + tp_fee p)
        (''FEE '' @ tp_provider_name p) None ''FEE_INCOME'')"

definition topup_body :: "lib \<Rightarrow> attempt \<Rightarrow> topup_params \<Rightarrow> transaction tx" where
  "topup_body L A p =
     tx_bind (sql_settlement A L ''EWALLET'') (\<lambda>sett.
     tx_bind (sql_settlement A L ''FEE_INCOME'') (\<lambda>fee.
     tx_bind (lock_accounts A (sorted_unique_uuids [tp_source p, sett, fee])) (\<lambda>lk.
     tx_seq (check_topup A p lk)
    (tx_bind (sql_next_reference A L (tp_wib_date p)) (\<lambda>ref.
     tx_seq (sql_insert_transaction A (topup_row A p ref))
    (tx_seq (outbound_legs A lk (tp_source p, tp_total p, topup_debit A p ref lk)
        (sett, tp_amount p, topup_settlement A p ref lk sett)
        (fee, tp_fee p, topup_fee A p ref lk fee))
    (tx_seq (sql_upsert_usage A (tp_user p) (tp_wib_date p) ''EWALLET'' (tp_total p))
       (tx_return (topup_shown (topup_row A p ref))))))))))"

definition execute_topup_tx :: "lib \<Rightarrow> (nat \<Rightarrow> attempt) \<Rightarrow> topup_params \<Rightarrow> transaction tx" where
  "execute_topup_tx L E p =
     retry_from (\<lambda>A. attempt_tx A fetched_outbound (tp_user p) (tp_idem p) (topup_body L A p)) E 0"

subsection \<open>The rail contract\<close>

definition topup_fits :: "topup_params \<Rightarrow> db \<Rightarrow> bool" where
  "topup_fits p d \<longleftrightarrow> 0 \<le> tp_amount p \<and> 0 \<le> tp_fee p \<and> tp_total p = tp_amount p + tp_fee p
     \<and> sen (tp_amount p) \<and> sen (tp_fee p) \<and> customer_source d (tp_source p)"

lemma check_topup_Inr:
  "check_topup A p lk d = (Inr u, d') \<longleftrightarrow> d' = d
     \<and> tp_total p \<le> lk_balance (locked_of lk (tp_source p)) - lk_hold (locked_of lk (tp_source p))
     \<and> daily_usage_of d (tp_user p) (tp_wib_date p) ''EWALLET'' + tp_total p
         \<le> daily_limit_of d (tp_user p) ''EWALLET''
     \<and> at_fault A SDailyUsage = None \<and> at_fault A SDailyLimit = None"
  by (auto simp: check_topup_def Let_def)

lemma topup_body_Inr:
  assumes "topup_body L A p d = (Inr t, d')"
  obtains sett fee lk ref d2 d3 where
    "settlement_account_id L d ''EWALLET'' (at_txn_id A) = Some sett"
    "settlement_account_id L d ''FEE_INCOME'' (at_txn_id A) = Some fee"
    "\<forall>i \<in> {tp_source p, sett, fee}. locked_ok (accounts d) lk i"
    "check_topup A p lk d = (Inr (), d)"
    "t = topup_shown (topup_row A p ref)" "\<not> list_ex (txn_collides (topup_row A p ref)) (transactions d)"
    "d2 = d\<lparr>ref_seq := next_seq (ref_seq d), transactions := transactions d @ [stored_txn (topup_row A p ref)]\<rparr>"
    "outbound_legs A lk (tp_source p, tp_total p, topup_debit A p ref lk)
        (sett, tp_amount p, topup_settlement A p ref lk sett)
        (fee, tp_fee p, topup_fee A p ref lk fee) d2 = (Inr (), d3)"
    "d' = d3\<lparr>daily_usage := bump_usage (tp_user p) (tp_wib_date p) ''EWALLET'' (tp_total p) (daily_usage d3)\<rparr>"
proof -
  from assms obtain sett fee lk dd ref d2 d3 where
    *: "settlement_account_id L d ''EWALLET'' (at_txn_id A) = Some sett"
      "settlement_account_id L d ''FEE_INCOME'' (at_txn_id A) = Some fee"
    and lock: "lock_accounts A (sorted_unique_uuids [tp_source p, sett, fee]) d = (Inr lk, dd)"
    and rest: "check_topup A p lk dd = (Inr (), dd)" "t = topup_shown (topup_row A p ref)"
      "\<not> list_ex (txn_collides (topup_row A p ref)) (transactions dd)"
      "d2 = dd\<lparr>ref_seq := next_seq (ref_seq dd), transactions := transactions dd @ [stored_txn (topup_row A p ref)]\<rparr>"
      "outbound_legs A lk (tp_source p, tp_total p, topup_debit A p ref lk)
        (sett, tp_amount p, topup_settlement A p ref lk sett)
        (fee, tp_fee p, topup_fee A p ref lk fee) d2 = (Inr (), d3)"
      "d' = d3\<lparr>daily_usage := bump_usage (tp_user p) (tp_wib_date p) ''EWALLET'' (tp_total p) (daily_usage d3)\<rparr>"
    by (auto simp: topup_body_def check_topup_Inr)
  have dd: "dd = d" and lk: "\<forall>i \<in> {tp_source p, sett, fee}. locked_ok (accounts d) lk i"
    using lock_accounts_ok [OF lock] by (auto simp: unique_uuids.complete)
  show ?thesis
    by (rule that [OF * lk rest [unfolded dd]])
qed

lemmas topup_leg_defs = topup_debit_def topup_settlement_def topup_fee_def topup_mutation_def

lemma topup_posts:
  assumes body: "topup_body L A p d = (Inr t, d')" and fits: "topup_fits p d" and ok: "ledger_ok d"
  obtains row sett fee where "t = topup_shown row" "tx_total row = tp_total p"
    "settlement_account_id L d ''EWALLET'' (at_txn_id A) = Some sett"
    "settlement_account_id L d ''FEE_INCOME'' (at_txn_id A) = Some fee"
    "posts row ((tp_source p, - tp_total p) # outbound_credits sett (tp_amount p) fee (tp_fee p)) d d'"
  using body
proof (rule topup_body_Inr)
  fix sett fee lk ref d2 d3
  assume i: "settlement_account_id L d ''EWALLET'' (at_txn_id A) = Some sett"
    "settlement_account_id L d ''FEE_INCOME'' (at_txn_id A) = Some fee"
    and lk: "\<forall>i \<in> {tp_source p, sett, fee}. locked_ok (accounts d) lk i"
    and t: "t = topup_shown (topup_row A p ref)"
    and fresh: "\<not> list_ex (txn_collides (topup_row A p ref)) (transactions d)"
    and d2: "d2 = d\<lparr>ref_seq := next_seq (ref_seq d), transactions := transactions d @ [stored_txn (topup_row A p ref)]\<rparr>"
    and legs: "outbound_legs A lk (tp_source p, tp_total p, topup_debit A p ref lk)
        (sett, tp_amount p, topup_settlement A p ref lk sett)
        (fee, tp_fee p, topup_fee A p ref lk fee) d2 = (Inr (), d3)"
    and d': "d' = d3\<lparr>daily_usage := bump_usage (tp_user p) (tp_wib_date p) ''EWALLET'' (tp_total p) (daily_usage d3)\<rparr>"
  have acc: "accounts_ok (accounts d)" using ok by auto
  have dist: "distinct [tp_source p, sett, fee]"
    using fits by (intro payment_accounts_distinct [OF _ acc i]) (simp_all add: topup_fits_def)
  have sens: "sen (tp_total p)" "sen (tp_amount p)" "sen (tp_fee p)"
    using fits by (auto simp: topup_fits_def)
  have "posts (topup_row A p ref)
      ((tp_source p, - tp_total p) # outbound_credits sett (tp_amount p) fee (tp_fee p)) d d'"
    by (rule outbound_posts [OF legs d2 d' acc dist lk sens _ _ _ fresh])
      (simp_all add: leg_mutation_def signed_amount_def topup_leg_defs topup_row_def Let_def)
  then show ?thesis using that [OF t _ i] by (simp add: topup_row_def)
qed

lemma topup_shown_key:
  "tx_user (topup_shown (topup_row A p ref)) = tp_user p"
  "tx_idem (topup_shown (topup_row A p ref)) = Some (tp_idem p)"
  "txn_collides (topup_shown t) = txn_collides t"
  by (simp_all add: topup_row_def topup_shown_def txn_collides_def fun_eq_iff)

interpretation topup: rail "topup_body L" tp_user tp_idem tp_source tp_total "\<lambda>p. ''EWALLET''"
    tp_wib_date topup_fits topup_shown fetched_outbound for L
proof
  show "topup_fits p d = topup_fits p d0" if "same_tables d d0" for p d d0
    using customer_source_same [OF that] by (simp add: topup_fits_def)
next
  fix p d A t d'
  assume *: "topup_fits p d" "ledger_ok d" "topup_body L A p d = (Inr t, d')"
  then show "\<exists>row ls. t = topup_shown row \<and> posts row ((tp_source p, - tp_total p) # ls) d d'
      \<and> sum_list (map snd ls) = tp_total p \<and> (\<forall>l \<in> set ls. 0 \<le> snd l)"
    using topup_posts [OF *(3,1,2)] outbound_credits_sum
    by (metis outbound_credits_nonneg topup_fits_def)
next
  fix A p d t d'
  assume body: "topup_body L A p d = (Inr t, d')"
  then show "\<exists>a. account_by_id (accounts d) (tp_source p) = Some a \<and> tp_total p \<le> ac_balance a - ac_hold a"
    by (rule topup_body_Inr) (auto simp: check_topup_Inr elim!: locked_okE)
  from body show "daily_usage_of d (tp_user p) (tp_wib_date p) ''EWALLET'' + tp_total p
      \<le> daily_limit_of d (tp_user p) ''EWALLET''"
    by (rule topup_body_Inr) (simp add: check_topup_Inr)
  from body show "daily_usage d' = bump_usage (tp_user p) (tp_wib_date p) ''EWALLET'' (tp_total p) (daily_usage d)
      \<and> transaction_limits d' = transaction_limits d \<and> ewallet_providers d' = ewallet_providers d"
    by (rule topup_body_Inr) (auto dest!: outbound_legs_frame)
  from body show "tx_user t = tp_user p \<and> tx_idem t = Some (tp_idem p)
      \<and> \<not> list_ex (txn_collides t) (transactions d)"
    by (rule topup_body_Inr) (simp add: topup_shown_key)
qed (simp add: topup_shown_def)

end
