(* ===== verification/Masking.thy ===== *)
theory Masking
  imports Prelude
begin

text \<open>
  \<open>internal/domain/account/mask.go\<close>: what of a phone number, an email address, an identity number
  or an account number a response shows. Strings are byte strings, as in the code.
\<close>

definition stars :: "nat \<Rightarrow> string" where
  "stars n = replicate n CHR ''*''"

text \<open>The last \<open>n\<close> bytes.\<close>

definition tail_of :: "nat \<Rightarrow> string \<Rightarrow> string" where
  "tail_of n s = drop (length s - n) s"

definition mask_phone :: "string \<Rightarrow> string" where
  "mask_phone p =
     (if length p \<le> 4 then p
      else if length p \<le> 4 + 4 then take 4 p @ stars (length p - 4)
      else take 4 p @ stars (length p - 4 - 4) @ tail_of 4 p)"

definition mask_nik :: "string \<Rightarrow> string" where
  "mask_nik n =
     (if length n \<le> 4 + 2 then stars (length n)
      else take 4 n @ stars (length n - 4 - 2) @ tail_of 2 n)"

definition mask_account_number :: "string \<Rightarrow> string" where
  "mask_account_number n =
     (if n = '''' then '''' else if length n \<le> 4 then stars (length n) else ''****'' @ tail_of 4 n)"

text \<open>\<open>strings.LastIndex(email, "@")\<close>\<close>

fun last_at :: "nat \<Rightarrow> string \<Rightarrow> nat option" where
  "last_at i [] = None"
| "last_at i (c # cs) = (case last_at (Suc i) cs of
      Some j \<Rightarrow> Some j | None \<Rightarrow> if c = CHR ''@'' then Some i else None)"

definition mask_email :: "string \<Rightarrow> string" where
  "mask_email e =
     (if e = '''' then ''''
      else case last_at 0 e of
        None \<Rightarrow> e
      | Some ix \<Rightarrow>
          if ix = 0 then e
          else let local = take ix e; domain = drop ix e in
            if length local \<le> 2 then local @ ''***'' @ domain
            else [local ! 0] @ stars (length local - 2) @ [local ! (length local - 1)] @ domain)"

lemma length_stars [simp]: "length (stars n) = n"
  by (simp add: stars_def)

lemma length_tail_of [simp]: "length (tail_of n s) = min n (length s)"
  by (simp add: tail_of_def)

text \<open>
  The mask is a function of the shown bytes and the length alone: two numbers that agree on them are
  masked alike, so nothing else can be read from it.
\<close>

lemma mask_phone_length: "length (mask_phone p) = length p"
  by (simp add: mask_phone_def)

lemma mask_phone_hides:
  assumes "length p = length q" "8 < length p" "take 4 p = take 4 q" "tail_of 4 p = tail_of 4 q"
  shows "mask_phone p = mask_phone q"
  using assms by (simp add: mask_phone_def)

lemma mask_nik_hides:
  assumes "length p = length q" "take 4 p = take 4 q" "tail_of 2 p = tail_of 2 q"
  shows "mask_nik p = mask_nik q"
  using assms by (simp add: mask_nik_def)

lemma mask_nik_length: "length (mask_nik n) = length n"
  by (auto simp: mask_nik_def)

lemma last_at_sound: "last_at i s = Some j \<Longrightarrow> i \<le> j \<and> j - i < length s \<and> s ! (j - i) = CHR ''@''
    \<and> CHR ''@'' \<notin> set (drop (Suc (j - i)) s)"
proof (induction i s rule: last_at.induct)
  case (2 i c cs)
  show ?case
  proof (cases "last_at (Suc i) cs")
    case (Some k)
    then have "k = j" using 2 by simp
    with Some 2 have *: "Suc i \<le> j" "j - Suc i < length cs" "cs ! (j - Suc i) = CHR ''@''"
      "CHR ''@'' \<notin> set (drop (Suc (j - Suc i)) cs)" by auto
    moreover from *(1) have "j - i = Suc (j - Suc i)" by simp
    ultimately show ?thesis by simp
  next
    case None
    have "last_at k xs = None \<Longrightarrow> CHR ''@'' \<notin> set xs" for k xs
      by (induction k xs rule: last_at.induct) (auto split: option.splits if_splits)
    with None 2 show ?thesis by (auto split: if_splits)
  qed
qed simp

text \<open>The domain of an address is shown unchanged, whatever the local part is.\<close>

lemma mask_email_domain:
  assumes "last_at 0 e = Some ix"
  shows "\<exists>m. mask_email e = m @ drop ix e"
proof -
  have "e \<noteq> ''''" using assms by auto
  then show ?thesis
    using assms by (cases "ix = 0") (auto simp: mask_email_def Let_def intro: exI [of _ "[]"])
qed

end
