(* ===== verification/EWallet_Service.thy ===== *)
theory EWallet_Service
  imports Transfer_Guarantees EWallet_Executor Masking
begin

text \<open>
  \<open>internal/domain/ewallet/service.go\<close> and \<open>provider_stub.go\<close>: inquiries for a top-up and its
  execution.
\<close>

subsection \<open>The provider stub\<close>

text \<open>
  \<open>phoneNumber[len(phoneNumber)-4:]\<close> panics on a number of fewer than four bytes; the handler only
  rejects an empty one.
\<close>

datatype lookup_result = LookupDown | LookupInvalid | LookupFound string | LookupPanic

definition has_suffix :: "string \<Rightarrow> string \<Rightarrow> bool" where
  "has_suffix s x \<longleftrightarrow> length x \<le> length s \<and> drop (length s - length x) s = x"

text \<open>\<open>strings.ToUpper\<close> on ASCII letters, which is what provider ids consist of.\<close>

definition upper_char :: "char \<Rightarrow> char" where
  "upper_char c = (if 97 \<le> (of_char c :: nat) \<and> (of_char c :: nat) \<le> 122 then char_of (of_char c - (32 :: nat)) else c)"

definition fake_lookup :: "string \<Rightarrow> string \<Rightarrow> lookup_result" where
  "fake_lookup provider phone =
     (if has_suffix phone ''999'' then LookupDown
      else if has_suffix phone ''000'' then LookupInvalid
      else if length phone < 4 then LookupPanic
      else LookupFound (''USER '' @ map upper_char provider @ '' '' @ tail_of 4 phone))"

subsection \<open>Inquiries\<close>

record topup_inquiry_request =
  ti_provider :: string
  ti_phone :: string
  ti_amount :: int
  ti_source :: string

record topup_inquiry_response =
  ts_id :: string
  ts_provider :: string
  ts_dest_name :: string
  ts_dest_phone :: string
  ts_amount :: string
  ts_fee :: string
  ts_total :: string
  ts_source :: string
  ts_expires_in :: nat

definition find_provider :: "db \<Rightarrow> string \<Rightarrow> provider option" where
  "find_provider d i = find (\<lambda>p. pr_id p = i) (ewallet_providers d)"

text \<open>A panic ends the request; the recovery middleware answers with an internal error.\<close>

definition lookup_name :: "lookup_result \<Rightarrow> (('s, 'z) world_scheme, string) svc" where
  "lookup_name r = (case r of
      LookupDown \<Rightarrow> svc_throw EWalletProviderDown
    | LookupInvalid \<Rightarrow> svc_throw EWalletAccountNotFound
    | LookupFound n \<Rightarrow> svc_return n
    | LookupPanic \<Rightarrow> svc_throw InternalError)"

definition new_topup_inquiry ::
    "lib \<Rightarrow> env \<Rightarrow> uuid \<Rightarrow> topup_inquiry_request \<Rightarrow> provider \<Rightarrow> string \<Rightarrow> uuid \<Rightarrow> inquiry" where
  "new_topup_inquiry L E user req pr name source =
     \<lparr>iq_id = en_id E, iq_user = user, iq_type = ''EWALLET'', iq_dest = ti_phone req,
      iq_dest_name = Some name, iq_dest_bank = None, iq_bank_code = None,
      iq_provider = Some (ti_provider req), iq_amount = Some (of_int (ti_amount req)),
      iq_fee = Some (pr_fee pr),
      iq_metadata = Some [(''source_account_id'', JStr source), (''provider_name'', JStr (pr_name pr)),
        (''total_amount'', JDec (of_int (ti_amount req) + pr_fee pr))],
      iq_expires = en_now E + inquiry_cache_ttl, iq_used = None, iq_created = en_now E\<rparr>"

definition topup_inquiry ::
    "lib \<Rightarrow> 's redis_api \<Rightarrow> env \<Rightarrow> uuid \<Rightarrow> topup_inquiry_request
      \<Rightarrow> (('s, 'z) world_scheme, topup_inquiry_response) svc" where
  "topup_inquiry L R E user req =
     svc_bind (sql_read E QFindProvider (\<lambda>d. find_provider d (ti_provider req))) (\<lambda>r.
     svc_bind (svc_option ValidationError r) (\<lambda>pr.
     svc_seq (fail_if (\<not> pr_active pr) ValidationError)
    (svc_seq (fail_if (of_int (ti_amount req) < pr_min pr \<or> pr_max pr < of_int (ti_amount req))
        (AmountOutOfRange (pr_min pr) (pr_max pr)))
    (svc_bind (lookup_name (fake_lookup (ti_provider req) (ti_phone req))) (\<lambda>name.
     svc_bind (svc_option ValidationError (parse_uuid L (ti_source req))) (\<lambda>source.
     svc_bind (sql_read E QFindOwned (\<lambda>d. find_owned_by_id d user source)) (\<lambda>a.
     svc_bind (svc_option SourceAccountForbidden a) (\<lambda>acct.
       let q = new_topup_inquiry L E user req pr name source in
       svc_seq (on_kv (store_inquiry R (en_now E) q))
         (svc_return \<lparr>ts_id = iq_id q, ts_provider = pr_name pr, ts_dest_name = name,
            ts_dest_phone = mask_phone (ti_phone req),
            ts_amount = string_fixed2 L (of_int (ti_amount req)), ts_fee = string_fixed2 L (pr_fee pr),
            ts_total = string_fixed2 L (of_int (ti_amount req) + pr_fee pr),
            ts_source = ac_number acct, ts_expires_in = inquiry_cache_ttl div 1000\<rparr>)))))))))"

subsection \<open>The top-up\<close>

record topup_request =
  tq_inquiry :: string
  tq_vtoken :: string

record topup_response =
  to_txn :: string
  to_ref :: string
  to_status :: string
  to_provider :: string
  to_dest_phone :: string
  to_dest_name :: string
  to_amount :: string
  to_fee :: string
  to_total :: string
  to_source :: string
  to_source_name :: string
  to_created :: string

definition encode_topup_response :: "topup_response \<Rightarrow> json" where
  "encode_topup_response r = JObj [
     (''transaction_id'', JStr (to_txn r)), (''reference_number'', JStr (to_ref r)),
     (''status'', JStr (to_status r)), (''provider'', JStr (to_provider r)),
     (''destination_phone'', JStr (to_dest_phone r)), (''destination_name'', JStr (to_dest_name r)),
     (''amount'', JStr (to_amount r)), (''admin_fee'', JStr (to_fee r)), (''total'', JStr (to_total r)),
     (''source_account'', JStr (to_source r)), (''source_name'', JStr (to_source_name r)),
     (''created_at'', JStr (to_created r))]"

definition decode_topup_response :: "json \<Rightarrow> topup_response option" where
  "decode_topup_response j = (case j of JObj p \<Rightarrow> do {
      txn \<leftarrow> get_str p ''transaction_id'';
      ref \<leftarrow> get_str p ''reference_number'';
      st \<leftarrow> get_str p ''status'';
      prov \<leftarrow> get_str p ''provider'';
      ph \<leftarrow> get_str p ''destination_phone'';
      dn \<leftarrow> get_str p ''destination_name'';
      am \<leftarrow> get_str p ''amount'';
      fee \<leftarrow> get_str p ''admin_fee'';
      tot \<leftarrow> get_str p ''total'';
      src \<leftarrow> get_str p ''source_account'';
      sn \<leftarrow> get_str p ''source_name'';
      cr \<leftarrow> get_str p ''created_at'';
      Some \<lparr>to_txn = txn, to_ref = ref, to_status = st, to_provider = prov, to_dest_phone = ph,
        to_dest_name = dn, to_amount = am, to_fee = fee, to_total = tot, to_source = src,
        to_source_name = sn, to_created = cr\<rparr> }
    | _ \<Rightarrow> None)"

lemma decode_encode_topup_response [simp]: "decode_topup_response (encode_topup_response r) = Some r"
  by (simp add: decode_topup_response_def encode_topup_response_def json_get_defs)

definition take_topup_token ::
    "lib \<Rightarrow> 's redis_api \<Rightarrow> env \<Rightarrow> uuid \<Rightarrow> topup_request \<Rightarrow> ('s call, unit) svc" where
  "take_topup_token L R E user req =
     (let h = sha256_hex L (tq_vtoken req) in
      svc_bind (on_kv (consume_token R (en_now E) h)) (\<lambda>v.
        svc_seq (fail_if (fst v = '''' \<or> fst v \<noteq> user \<or> snd v \<noteq> ''EWALLET_TOPUP'') VerificationTokenInvalid)
         (\<lambda>w. (Inr (), w\<lparr>restore_vtoken := h\<rparr>))))"

definition take_topup_inquiry ::
    "'s redis_api \<Rightarrow> env \<Rightarrow> uuid \<Rightarrow> topup_request \<Rightarrow> ('s call, inquiry) svc" where
  "take_topup_inquiry R E user req =
     svc_bind (on_kv (consume_inquiry R (en_now E) (tq_inquiry req))) (\<lambda>r.
     svc_bind (svc_option InquiryExpired r) (\<lambda>q.
     svc_seq (fail_if (iq_user q \<noteq> user) InquiryExpired)
       (\<lambda>w. (Inr q, w\<lparr>restore_inquiry := Some q\<rparr>))))"

text \<open>The two metadata entries the top-up reads; a value of another type is ignored.\<close>

definition meta_string :: "inquiry \<Rightarrow> string \<Rightarrow> string option" where
  "meta_string q k = (case iq_metadata q of None \<Rightarrow> None
     | Some m \<Rightarrow> (case map_of m k of Some (JStr s) \<Rightarrow> Some s | _ \<Rightarrow> None))"

definition topup_source :: "lib \<Rightarrow> inquiry \<Rightarrow> uuid" where
  "topup_source L q = (case meta_string q ''source_account_id'' of
      None \<Rightarrow> uuid_nil
    | Some s \<Rightarrow> (case parse_uuid L s of None \<Rightarrow> uuid_nil | Some i \<Rightarrow> i))"

definition topup_provider :: "inquiry \<Rightarrow> string" where
  "topup_provider q = (case iq_provider q of None \<Rightarrow> '''' | Some i \<Rightarrow> i)"

definition topup_provider_name :: "inquiry \<Rightarrow> string" where
  "topup_provider_name q = (case meta_string q ''provider_name'' of None \<Rightarrow> topup_provider q | Some n \<Rightarrow> n)"

definition topup_amount :: "inquiry \<Rightarrow> decimal" where
  "topup_amount q = (case iq_amount q of None \<Rightarrow> 0 | Some a \<Rightarrow> a)"

definition topup_params_of :: "lib \<Rightarrow> env \<Rightarrow> uuid \<Rightarrow> string \<Rightarrow> inquiry \<Rightarrow> topup_params" where
  "topup_params_of L E user key q =
     \<lparr>tp_idem = key, tp_user = user, tp_source = topup_source L q, tp_provider_id = topup_provider q,
      tp_provider_name = topup_provider_name q, tp_phone = iq_dest q, tp_dest_name = dest_name_of q,
      tp_amount = topup_amount q, tp_fee = transfer_fee q, tp_total = topup_amount q + transfer_fee q,
      tp_wib_date = wib_date (en_now E), tp_wib_time = wib_time (en_now E)\<rparr>"

definition prepare_topup ::
    "lib \<Rightarrow> 's redis_api \<Rightarrow> env \<Rightarrow> uuid \<Rightarrow> topup_request \<Rightarrow> string \<Rightarrow> ('s call, account \<times> topup_params) svc" where
  "prepare_topup L R E user req key =
     svc_seq (take_topup_token L R E user req)
    (svc_bind (take_topup_inquiry R E user req) (\<lambda>q.
     svc_seq (fail_if (topup_source L q = uuid_nil) ValidationError)
    (svc_bind (sql_read E QFindOwned (\<lambda>d. find_owned_by_id d user (topup_source L q))) (\<lambda>a.
     svc_bind (svc_option SourceAccountForbidden a) (\<lambda>acct.
       svc_return (acct, topup_params_of L E user key q))))))"

definition topup_response_of :: "lib \<Rightarrow> account \<Rightarrow> topup_params \<Rightarrow> transaction \<Rightarrow> topup_response" where
  "topup_response_of L acct p t =
     \<lparr>to_txn = tx_id t, to_ref = tx_ref t, to_status = tx_status t, to_provider = tp_provider_name p,
      to_dest_phone = mask_phone (tp_phone p), to_dest_name = tp_dest_name p,
      to_amount = string_fixed2 L (tp_amount p), to_fee = string_fixed2 L (tp_fee p),
      to_total = string_fixed2 L (tp_total p), to_source = ac_number acct, to_source_name = ac_label acct,
      to_created = rfc3339 L (tx_created t)\<rparr>"

definition topup_notice :: "lib \<Rightarrow> uuid \<Rightarrow> topup_params \<Rightarrow> transaction \<Rightarrow> notice" where
  "topup_notice L user p t =
     \<lparr>no_user = user, no_type = '''', no_title = ''Top up e-wallet berhasil'',
      no_body = ''Top up '' @ format_idr (tp_total p) @ '' ke '' @ tp_provider_name p @ '' (''
        @ mask_phone (tp_phone p) @ '') berhasil. Ref: '' @ tx_ref t,
      no_link = ''bcamobile://transaction/'' @ tx_id t,
      no_meta = [(''transaction_id'', tx_id t), (''reference_number'', tx_ref t),
        (''amount'', string_fixed2 L (tp_amount p)), (''provider'', tp_provider_name p)]\<rparr>"

definition finish_topup ::
    "lib \<Rightarrow> 's redis_api \<Rightarrow> env \<Rightarrow> uuid \<Rightarrow> string \<Rightarrow> account \<Rightarrow> topup_params \<Rightarrow> transaction
      \<Rightarrow> ('s call, topup_response) svc" where
  "finish_topup L R E user key acct p t =
     (let resp = topup_response_of L acct p t in
      svc_seq (best_effort_kv (invalidate_caches R (en_now E) [\<lparr>af_user = user, af_account = tp_source p\<rparr>]))
     (svc_seq (notify_transaction E (topup_notice L user p t))
     (svc_seq (best_effort_kv (idem_persist R (en_now E) user key (encode_topup_response resp)))
       (svc_return resp))))"

definition undo_topup :: "'s redis_api \<Rightarrow> env \<Rightarrow> uuid \<Rightarrow> string \<Rightarrow> 's call \<Rightarrow> 's call" where
  "undo_topup R E user key w0 =
     (let w1 = w0\<lparr>kv := snd (idem_release R (en_now E) user key (kv w0))\<rparr>;
          w2 = (case restore_inquiry w1 of
                  Some q \<Rightarrow> if en_now E < iq_expires q
                    then w1\<lparr>kv := snd (store_inquiry R (en_now E) q (kv w1))\<rparr> else w1
                | None \<Rightarrow> w1)
      in if restore_vtoken w2 \<noteq> ''''
         then w2\<lparr>kv := snd (store_token R (en_now E) (restore_vtoken w2) (user, ''EWALLET_TOPUP'') (kv w2))\<rparr>
         else w2)"

definition topup_flow ::
    "lib \<Rightarrow> 's redis_api \<Rightarrow> env \<Rightarrow> uuid \<Rightarrow> topup_request \<Rightarrow> string \<Rightarrow> ('s call, topup_response) svc" where
  "topup_flow L R E user req key =
     svc_bind (prepare_topup L R E user req key) (\<lambda>(acct, p).
     svc_bind (on_pg (execute_topup_tx L (en_attempts E) p)) (\<lambda>t.
       finish_topup L R E user key acct p t))"

definition replay_topup :: "idem_result \<Rightarrow> app_err + topup_response \<times> bool" where
  "replay_topup r =
     (if still_processing r then Inl IdempotencyConflict
      else case stored_response r of
          RJson j \<Rightarrow> (case decode_topup_response j of None \<Rightarrow> Inl InternalError | Some resp \<Rightarrow> Inr (resp, True))
        | _ \<Rightarrow> Inl InternalError)"

definition execute_topup ::
    "lib \<Rightarrow> 's redis_api \<Rightarrow> env \<Rightarrow> uuid \<Rightarrow> topup_request \<Rightarrow> string \<Rightarrow> ('s world, topup_response \<times> bool) svc" where
  "execute_topup L R E user req key w =
     (case idem_claim R (en_now E) user key (kv w) of
        (Fault, s) \<Rightarrow> (Inl InternalError, w\<lparr>kv := s\<rparr>)
      | (Reply r, s) \<Rightarrow>
          let w1 = w\<lparr>kv := s\<rparr> in
          if already_claimed r then (replay_topup r, w1)
          else case topup_flow L R E user req key
                 (world.extend w1 \<lparr>restore_inquiry = None, restore_vtoken = ''''\<rparr>) of
              (Inl e, w2) \<Rightarrow> (Inl e, world.truncate (undo_topup R E user key w2))
            | (Inr resp, w2) \<Rightarrow> (Inr (resp, False), world.truncate w2))"

subsection \<open>No top-up succeeds\<close>

text \<open>
  The inquiry comes out of the cache without its metadata, so the source account is unknown to every
  top-up: the executor is never reached, whatever the Redis server does.
\<close>

lemma decode_no_metadata: "decode_inquiry j = Some q \<Longrightarrow> iq_metadata q = None"
  by (auto simp: decode_inquiry_def bind_eq_Some_conv split: json.splits)

lemma consumed_no_metadata: "consume_inquiry R t i s = (Reply (Some q), s') \<Longrightarrow> iq_metadata q = None"
  by (auto simp: consume_inquiry_def split: prod.splits reply.splits option.splits rval.splits
      dest: decode_no_metadata)

lemma prepare_topup_never: "prepare_topup L R E user req key w \<noteq> (Inr x, w')"
  by (auto simp: prepare_topup_def take_topup_inquiry_def topup_source_def meta_string_def
      dest!: consumed_no_metadata)

lemma undo_topup_frame [simp]:
  "pg (undo_topup R E user key w) = pg w" "sent (undo_topup R E user key w) = sent w"
  by (auto simp: undo_topup_def Let_def split: option.splits)

lemma prepare_topup_frame: "prepare_topup L R E user req key w = (r, w') \<Longrightarrow> pg w' = pg w \<and> sent w' = sent w"
  by (cases r) (auto simp: prepare_topup_def take_topup_token_def take_topup_inquiry_def Let_def)

lemma topup_never_posts:
  assumes "execute_topup L R E user req key w = (r, w')"
  shows "pg w' = pg w \<and> sent w' = sent w \<and> (\<forall>resp. r \<noteq> Inr (resp, False))"
proof -
  obtain q s where claim: "idem_claim R (en_now E) user key (kv w) = (q, s)" by fastforce
  obtain f w2 where flow: "topup_flow L R E user req key
      (world.extend (w\<lparr>kv := s\<rparr>) \<lparr>restore_inquiry = None, restore_vtoken = ''''\<rparr>) = (f, w2)" by fastforce
  have "\<exists>e. f = Inl e" "pg w2 = pg w" "sent w2 = sent w"
    using flow prepare_topup_never prepare_topup_frame by (cases f; fastforce simp: topup_flow_def)+
  then show ?thesis
    using assms claim flow
    by (auto simp: execute_topup_def Let_def replay_topup_def
        split: reply.splits if_splits rval.splits option.splits)
qed

end
