(* ===== verification/QRIS_Executor.thy ===== *)
theory QRIS_Executor
  imports Outbound
begin

text \<open>
  \<open>QRISExecutorImpl\<close> of \<open>internal/repository/postgres/qris_repo.go\<close>: the serializable
  transaction of a QRIS payment, as an instance of the \<open>rail\<close> interface. It is the one rail with a
  per-transaction ceiling.
\<close>

record pay_params =
  pp_idem :: string
  pp_user :: uuid
  pp_source :: uuid
  pp_merchant :: string
  pp_city :: string
  pp_amount :: decimal
  pp_fee :: decimal
  pp_total :: decimal
  pp_wib_date :: date
  pp_wib_time :: nat

definition sql_per_txn_limit :: "attempt \<Rightarrow> uuid \<Rightarrow> decimal option tx" where
  "sql_per_txn_limit A user =
     tx_seq (tx_stmt A SPerTxnLimit)
       (tx_read (\<lambda>d. case limit_of d user ''QRIS'' of None \<Rightarrow> None | Some l \<Rightarrow> li_per_txn l))"

definition check_pay :: "attempt \<Rightarrow> pay_params \<Rightarrow> (uuid \<times> locked_account) list \<Rightarrow> unit tx" where
  "check_pay A p lk =
     (let source = locked_of lk (pp_source p) in
      if lk_balance source - lk_hold source < pp_total p then tx_throw (EApp QRISInsufficientBalance)
      else tx_bind (sql_daily_usage A (pp_user p) (pp_wib_date p) ''QRIS'') (\<lambda>used_today.
        tx_bind (sql_daily_limit A (pp_user p) ''QRIS'') (\<lambda>daily_limit.
          if daily_limit < used_today + pp_total p then tx_throw (EApp QRISLimitExceeded)
          else tx_bind (sql_per_txn_limit A (pp_user p)) (\<lambda>per_txn_limit.
            case per_txn_limit of
              None \<Rightarrow> tx_return ()
            | Some m \<Rightarrow> if m < pp_total p then tx_throw (EApp QRISLimitExceeded) else tx_return ()))))"

definition pay_row :: "attempt \<Rightarrow> pay_params \<Rightarrow> string \<Rightarrow> transaction" where
  "pay_row A p ref =
     \<lparr>tx_id = at_txn_id A, tx_idem = Some (pp_idem p), tx_user = pp_user p,
      tx_source = Some (pp_source p), tx_dest_id = None, tx_type = ''QRIS_PAYMENT'',
      tx_status = ''SUCCESS'', tx_amount = pp_amount p, tx_fee = pp_fee p, tx_total = pp_total p,
      tx_currency = ''IDR'', tx_ref = ref, tx_desc = Some (''QRIS '' @ pp_merchant p),
      tx_notes = None, tx_dest = Some (pp_merchant p), tx_dest_name = Some (pp_city p),
      tx_dest_bank = None, tx_dest_bank_code = None, tx_provider_id = None,
      tx_provider_name = None, tx_provider_ref = None,
      tx_created = at_now A, tx_processed = Some (at_now A), tx_completed = Some (at_now A),
      tx_expired = None\<rparr>"

text \<open>The struct returned leaves out what the row has beyond these fields.\<close>

definition pay_shown :: "transaction \<Rightarrow> transaction" where
  "pay_shown t = t\<lparr>tx_desc := None, tx_dest := None, tx_dest_name := None,
     tx_processed := None, tx_completed := None\<rparr>"

definition pay_mutation ::
    "attempt \<Rightarrow> pay_params \<Rightarrow> string \<Rightarrow> uuid \<Rightarrow> mutation_type \<Rightarrow> decimal \<Rightarrow> decimal \<Rightarrow> decimal
      \<Rightarrow> string \<Rightarrow> string option \<Rightarrow> string \<Rightarrow> mutation" where
  "pay_mutation A p ref i ty amount bal_before bal_after desc detail cat =
     \<lparr>mu_id = at_mut_id A i, mu_account = i, mu_txn = Some (at_txn_id A), mu_type = ty,
      mu_amount = amount, mu_before = bal_before, mu_after = bal_after, mu_desc = desc,
      mu_detail = detail, mu_category = Some cat, mu_ref = Some ref, mu_date = pp_wib_date p,
      mu_time = pp_wib_time p, mu_created = at_now A\<rparr>"

definition pay_debit :: "attempt \<Rightarrow> pay_params \<Rightarrow> string \<Rightarrow> (uuid \<times> locked_account) list \<Rightarrow> mutation" where
  "pay_debit A p ref lk =
     (let b = lk_balance (locked_of lk (pp_source p)) in
      pay_mutation A p ref (pp_source p) DEBIT (pp_total p) b (b - pp_total p)
        (''QRIS '' @ pp_merchant p)
        (Some (''Pembayaran '' @ pp_merchant p @ '' '' @ pp_city p)) ''QRIS'')"

definition pay_settlement ::
    "attempt \<Rightarrow> pay_params \<Rightarrow> string \<Rightarrow> (uuid \<times> locked_account) list \<Rightarrow> uuid \<Rightarrow> mutation" where
  "pay_settlement A p ref lk i =
     (let b = lk_balance (locked_of lk i) in
      pay_mutation A p ref i CREDIT (pp_amount p) b (b + pp_amount p)
        (''SETTLEMENT QRIS '' @ pp_merchant p) None ''SETTLEMENT'')"

definition pay_fee ::
    "attempt \<Rightarrow> pay_params \<Rightarrow> string \<Rightarrow> (uuid \<times> locked_account) list \<Rightarrow> uuid \<Rightarrow> mutation" where
  "pay_fee A p ref lk i =
     (let b = lk_balance (locked_of lk i) in
      pay_mutation A p ref i CREDIT (pp_fee p) b (b + pp_fee p)
        ''FEE QRIS'' None ''FEE_INCOME'')"

definition pay_body :: "lib \<Rightarrow> attempt \<Rightarrow> pay_params \<Rightarrow> transaction tx" where
  "pay_body L A p =
     tx_bind (sql_settlement A L ''QRIS'') (\<lambda>sett.
     tx_bind (sql_settlement A L ''FEE_INCOME'') (\<lambda>fee.
     tx_bind (lock_accounts A (sorted_unique_uuids [pp_source p, sett, fee])) (\<lambda>lk.
     tx_seq (check_pay A p lk)
    (tx_bind (sql_next_reference A L (pp_wib_date p)) (\<lambda>ref.
     tx_seq (sql_insert_transaction A (pay_row A p ref))
    (tx_seq (outbound_legs A lk (pp_source p, pp_total p, pay_debit A p ref lk)
        (sett, pp_amount p, pay_settlement A p ref lk sett)
        (fee, pp_fee p, pay_fee A p ref lk fee))
    (tx_seq (sql_upsert_usage A (pp_user p) (pp_wib_date p) ''QRIS'' (pp_total p))
       (tx_return (pay_shown (pay_row A p ref))))))))))"

definition execute_pay_tx :: "lib \<Rightarrow> (nat \<Rightarrow> attempt) \<Rightarrow> pay_params \<Rightarrow> transaction tx" where
  "execute_pay_tx L E p =
     retry_from (\<lambda>A. attempt_tx A fetched_outbound (pp_user p) (pp_idem p) (pay_body L A p)) E 0"

subsection \<open>The rail contract\<close>

definition pay_fits :: "pay_params \<Rightarrow> db \<Rightarrow> bool" where
  "pay_fits p d \<longleftrightarrow> 0 \<le> pp_amount p \<and> 0 \<le> pp_fee p \<and> pp_total p = pp_amount p + pp_fee p
     \<and> sen (pp_amount p) \<and> sen (pp_fee p) \<and> customer_source d (pp_source p)"

lemma check_pay_Inr:
  "check_pay A p lk d = (Inr u, d') \<longleftrightarrow> d' = d
     \<and> pp_total p \<le> lk_balance (locked_of lk (pp_source p)) - lk_hold (locked_of lk (pp_source p))
     \<and> daily_usage_of d (pp_user p) (pp_wib_date p) ''QRIS'' + pp_total p
         \<le> daily_limit_of d (pp_user p) ''QRIS''
     \<and> (\<forall>l m. limit_of d (pp_user p) ''QRIS'' = Some l \<longrightarrow> li_per_txn l = Some m \<longrightarrow> pp_total p \<le> m)
     \<and> at_fault A SDailyUsage = None \<and> at_fault A SDailyLimit = None \<and> at_fault A SPerTxnLimit = None"
  by (auto simp: check_pay_def sql_per_txn_limit_def Let_def split: option.splits)

lemma pay_body_Inr:
  assumes "pay_body L A p d = (Inr t, d')"
  obtains sett fee lk ref d2 d3 where
    "settlement_account_id L d ''QRIS'' (at_txn_id A) = Some sett"
    "settlement_account_id L d ''FEE_INCOME'' (at_txn_id A) = Some fee"
    "\<forall>i \<in> {pp_source p, sett, fee}. locked_ok (accounts d) lk i"
    "check_pay A p lk d = (Inr (), d)"
    "t = pay_shown (pay_row A p ref)" "\<not> list_ex (txn_collides (pay_row A p ref)) (transactions d)"
    "d2 = d\<lparr>ref_seq := next_seq (ref_seq d), transactions := transactions d @ [stored_txn (pay_row A p ref)]\<rparr>"
    "outbound_legs A lk (pp_source p, pp_total p, pay_debit A p ref lk)
        (sett, pp_amount p, pay_settlement A p ref lk sett)
        (fee, pp_fee p, pay_fee A p ref lk fee) d2 = (Inr (), d3)"
    "d' = d3\<lparr>daily_usage := bump_usage (pp_user p) (pp_wib_date p) ''QRIS'' (pp_total p) (daily_usage d3)\<rparr>"
proof -
  from assms obtain sett fee lk dd ref d2 d3 where
    *: "settlement_account_id L d ''QRIS'' (at_txn_id A) = Some sett"
      "settlement_account_id L d ''FEE_INCOME'' (at_txn_id A) = Some fee"
    and lock: "lock_accounts A (sorted_unique_uuids [pp_source p, sett, fee]) d = (Inr lk, dd)"
    and rest: "check_pay A p lk dd = (Inr (), dd)" "t = pay_shown (pay_row A p ref)"
      "\<not> list_ex (txn_collides (pay_row A p ref)) (transactions dd)"
      "d2 = dd\<lparr>ref_seq := next_seq (ref_seq dd), transactions := transactions dd @ [stored_txn (pay_row A p ref)]\<rparr>"
      "outbound_legs A lk (pp_source p, pp_total p, pay_debit A p ref lk)
        (sett, pp_amount p, pay_settlement A p ref lk sett)
        (fee, pp_fee p, pay_fee A p ref lk fee) d2 = (Inr (), d3)"
      "d' = d3\<lparr>daily_usage := bump_usage (pp_user p) (pp_wib_date p) ''QRIS'' (pp_total p) (daily_usage d3)\<rparr>"
    by (auto simp: pay_body_def check_pay_Inr)
  have dd: "dd = d" and lk: "\<forall>i \<in> {pp_source p, sett, fee}. locked_ok (accounts d) lk i"
    using lock_accounts_ok [OF lock] by (auto simp: unique_uuids.complete)
  show ?thesis
    by (rule that [OF * lk rest [unfolded dd]])
qed

lemmas pay_leg_defs = pay_debit_def pay_settlement_def pay_fee_def pay_mutation_def

lemma pay_posts:
  assumes body: "pay_body L A p d = (Inr t, d')" and fits: "pay_fits p d" and ok: "ledger_ok d"
  obtains row sett fee where "t = pay_shown row" "tx_total row = pp_total p"
    "settlement_account_id L d ''QRIS'' (at_txn_id A) = Some sett"
    "settlement_account_id L d ''FEE_INCOME'' (at_txn_id A) = Some fee"
    "posts row ((pp_source p, - pp_total p) # outbound_credits sett (pp_amount p) fee (pp_fee p)) d d'"
  using body
proof (rule pay_body_Inr)
  fix sett fee lk ref d2 d3
  assume i: "settlement_account_id L d ''QRIS'' (at_txn_id A) = Some sett"
    "settlement_account_id L d ''FEE_INCOME'' (at_txn_id A) = Some fee"
    and lk: "\<forall>i \<in> {pp_source p, sett, fee}. locked_ok (accounts d) lk i"
    and t: "t = pay_shown (pay_row A p ref)"
    and fresh: "\<not> list_ex (txn_collides (pay_row A p ref)) (transactions d)"
    and d2: "d2 = d\<lparr>ref_seq := next_seq (ref_seq d), transactions := transactions d @ [stored_txn (pay_row A p ref)]\<rparr>"
    and legs: "outbound_legs A lk (pp_source p, pp_total p, pay_debit A p ref lk)
        (sett, pp_amount p, pay_settlement A p ref lk sett)
        (fee, pp_fee p, pay_fee A p ref lk fee) d2 = (Inr (), d3)"
    and d': "d' = d3\<lparr>daily_usage := bump_usage (pp_user p) (pp_wib_date p) ''QRIS'' (pp_total p) (daily_usage d3)\<rparr>"
  have acc: "accounts_ok (accounts d)" using ok by auto
  have dist: "distinct [pp_source p, sett, fee]"
    using fits by (intro payment_accounts_distinct [OF _ acc i]) (simp_all add: pay_fits_def)
  have sens: "sen (pp_total p)" "sen (pp_amount p)" "sen (pp_fee p)"
    using fits by (auto simp: pay_fits_def)
  have "posts (pay_row A p ref)
      ((pp_source p, - pp_total p) # outbound_credits sett (pp_amount p) fee (pp_fee p)) d d'"
    by (rule outbound_posts [OF legs d2 d' acc dist lk sens _ _ _ fresh])
      (simp_all add: leg_mutation_def signed_amount_def pay_leg_defs pay_row_def Let_def)
  then show ?thesis using that [OF t _ i] by (simp add: pay_row_def)
qed

lemma pay_shown_key:
  "tx_user (pay_shown (pay_row A p ref)) = pp_user p"
  "tx_idem (pay_shown (pay_row A p ref)) = Some (pp_idem p)"
  "txn_collides (pay_shown t) = txn_collides t"
  by (simp_all add: pay_row_def pay_shown_def txn_collides_def fun_eq_iff)

interpretation pay: rail "pay_body L" pp_user pp_idem pp_source pp_total "\<lambda>p. ''QRIS''"
    pp_wib_date pay_fits pay_shown fetched_outbound for L
proof
  show "pay_fits p d = pay_fits p d0" if "same_tables d d0" for p d d0
    using customer_source_same [OF that] by (simp add: pay_fits_def)
next
  fix p d A t d'
  assume *: "pay_fits p d" "ledger_ok d" "pay_body L A p d = (Inr t, d')"
  then show "\<exists>row ls. t = pay_shown row \<and> posts row ((pp_source p, - pp_total p) # ls) d d'
      \<and> sum_list (map snd ls) = pp_total p \<and> (\<forall>l \<in> set ls. 0 \<le> snd l)"
    using pay_posts [OF *(3,1,2)] outbound_credits_sum
    by (metis outbound_credits_nonneg pay_fits_def)
next
  fix A p d t d'
  assume body: "pay_body L A p d = (Inr t, d')"
  then show "\<exists>a. account_by_id (accounts d) (pp_source p) = Some a \<and> pp_total p \<le> ac_balance a - ac_hold a"
    by (rule pay_body_Inr) (auto simp: check_pay_Inr elim!: locked_okE)
  from body show "daily_usage_of d (pp_user p) (pp_wib_date p) ''QRIS'' + pp_total p
      \<le> daily_limit_of d (pp_user p) ''QRIS''"
    by (rule pay_body_Inr) (simp add: check_pay_Inr)
  from body show "daily_usage d' = bump_usage (pp_user p) (pp_wib_date p) ''QRIS'' (pp_total p) (daily_usage d)
      \<and> transaction_limits d' = transaction_limits d \<and> ewallet_providers d' = ewallet_providers d"
    by (rule pay_body_Inr) (auto dest!: outbound_legs_frame)
  from body show "tx_user t = pp_user p \<and> tx_idem t = Some (pp_idem p)
      \<and> \<not> list_ex (txn_collides t) (transactions d)"
    by (rule pay_body_Inr) (simp add: pay_shown_key)
qed (simp add: pay_shown_def)

end
