(* ===== verification/EMVCo.thy ===== *)
theory EMVCo
  imports Prelude
begin

text \<open>
  \<open>internal/domain/qris/decoder.go\<close>: the tag-length-value parser and the decoder of a QRIS payload.
  A payload is a byte string. \<open>strconv.Atoi\<close> accepts a sign, so a length field may be negative; the
  slice \<open>data[i : i+length]\<close> then panics, which is a result of its own here.
\<close>

subsection \<open>Lengths\<close>

definition digit_of :: "char \<Rightarrow> int option" where
  "digit_of c = (if 48 \<le> (of_char c :: nat) \<and> (of_char c :: nat) \<le> 57 then Some (int (of_char c) - 48) else None)"

text \<open>\<open>strconv.Atoi\<close> on two bytes.\<close>

definition atoi2 :: "char \<Rightarrow> char \<Rightarrow> int option" where
  "atoi2 a b = (case digit_of b of
      None \<Rightarrow> None
    | Some y \<Rightarrow>
        if a = CHR ''+'' then Some y
        else if a = CHR ''-'' then Some (- y)
        else map_option (\<lambda>x. 10 * x + y) (digit_of a))"

lemma digit_of_range: "digit_of c = Some x \<Longrightarrow> 0 \<le> x \<and> x \<le> 9"
  by (auto simp: digit_of_def split: if_splits)

lemma atoi2_range: "atoi2 a b = Some n \<Longrightarrow> - 9 \<le> n \<and> n \<le> 99"
  by (auto simp: atoi2_def split: option.splits if_splits dest!: digit_of_range)

subsection \<open>Fields\<close>

datatype 'a parsed = Parsed 'a | Malformed | Panics

type_synonym fields = "(string \<times> string) list"

text \<open>The Go map as an association list: the entry written last shadows the earlier ones.\<close>

function parse_tlv :: "fields \<Rightarrow> string \<Rightarrow> fields parsed" where
  "parse_tlv fs data =
     (if data = [] then Parsed fs
      else if length data < 4 then Malformed
      else case atoi2 (data ! 2) (data ! 3) of
          None \<Rightarrow> Malformed
        | Some n \<Rightarrow>
            if int (length (drop 4 data)) < n then Malformed
            else if n < 0 then Panics
            else parse_tlv ((take 2 data, take (nat n) (drop 4 data)) # fs) (drop (nat n) (drop 4 data)))"
  by pat_completeness auto
termination
  by (relation "measure (\<lambda>(_, data). length data)") auto

declare parse_tlv.simps [simp del]

definition field :: "fields \<Rightarrow> string \<Rightarrow> string" where
  "field fs tag = (case map_of fs tag of None \<Rightarrow> '''' | Some v \<Rightarrow> v)"

subsection \<open>The payload\<close>

record decoded_qris =
  dq_name :: string
  dq_city :: string
  dq_amount :: decimal
  dq_fixed :: bool
  dq_id :: string
  dq_expires :: string

definition is_space :: "char \<Rightarrow> bool" where
  "is_space c \<longleftrightarrow> (9 \<le> (of_char c :: nat) \<and> (of_char c :: nat) \<le> 13) \<or> c = CHR '' ''"

text \<open>\<open>strings.TrimSpace\<close> on a payload whose first and last bytes are ASCII.\<close>

definition trim_space :: "string \<Rightarrow> string" where
  "trim_space s = rev (dropWhile is_space (rev (dropWhile is_space s)))"

definition amount_field :: "lib \<Rightarrow> fields \<Rightarrow> (decimal \<times> bool) option" where
  "amount_field L fs =
     (let fixed = (field fs ''01'' = ''12''); amt = field fs ''54'' in
      if amt = '''' then Some (0, fixed)
      else case parse_decimal L amt of
          None \<Rightarrow> None
        | Some x \<Rightarrow> if x < 0 then None else Some (x, True))"

definition parse_emvco :: "lib \<Rightarrow> string \<Rightarrow> decoded_qris parsed" where
  "parse_emvco L raw0 =
     (let raw = trim_space raw0 in
      if length raw < 10 then Malformed
      else case parse_tlv [] raw of
          Panics \<Rightarrow> Panics
        | Malformed \<Rightarrow> Malformed
        | Parsed fs \<Rightarrow>
            if field fs ''00'' \<noteq> ''01'' then Malformed
            else if field fs ''59'' = '''' then Malformed
            else case amount_field L fs of
                None \<Rightarrow> Malformed
              | Some (x, fixed) \<Rightarrow> Parsed
                  \<lparr>dq_name = field fs ''59'',
                   dq_city = (if field fs ''60'' = '''' then ''UNKNOWN'' else field fs ''60''),
                   dq_amount = x, dq_fixed = fixed, dq_id = '''', dq_expires = ''''\<rparr>)"

subsection \<open>Rendering and the round trip\<close>

definition two_digits :: "nat \<Rightarrow> string" where
  "two_digits n = [char_of (48 + n div 10), char_of (48 + n mod 10)]"

definition field_ok :: "string \<times> string \<Rightarrow> bool" where
  "field_ok f \<longleftrightarrow> length (fst f) = 2 \<and> length (snd f) < 100"

definition render_tlv :: "fields \<Rightarrow> string" where
  "render_tlv fs = concat (map (\<lambda>(tag, v). tag @ two_digits (length v) @ v) fs)"

lemma digit_of_char: "n < 10 \<Longrightarrow> digit_of (char_of (48 + n)) = Some (int n)"
  by (simp add: digit_of_def)

lemma atoi2_digits:
  assumes "n < 100"
  shows "atoi2 (char_of (48 + n div 10)) (char_of (48 + n mod 10)) = Some (int n)"
proof -
  have d: "digit_of (char_of (48 + n div 10)) = Some (int (n div 10))"
    "digit_of (char_of (48 + n mod 10)) = Some (int (n mod 10))"
    using assms by (auto intro: digit_of_char)
  moreover have "digit_of CHR ''+'' = None" "digit_of CHR ''-'' = None" by (simp_all add: digit_of_def)
  ultimately have "char_of (48 + n div 10) \<noteq> CHR ''+''" "char_of (48 + n div 10) \<noteq> CHR ''-''"
    by (metis option.distinct(1))+
  moreover have "10 * int (n div 10) + int (n mod 10) = int n" by presburger
  ultimately show ?thesis using d by (simp add: atoi2_def)
qed

theorem parse_render: "\<forall>f \<in> set fs. field_ok f \<Longrightarrow> parse_tlv acc (render_tlv fs) = Parsed (rev fs @ acc)"
proof (induction fs arbitrary: acc)
  case Nil
  then show ?case by (simp add: render_tlv_def parse_tlv.simps)
next
  case (Cons f fs)
  obtain tag v where f: "f = (tag, v)" by (cases f)
  with Cons.prems have len: "length tag = 2" "length v < 100" by (auto simp: field_ok_def)
  then obtain a b where tag: "tag = [a, b]" by (cases tag; cases "tl tag") auto
  have "parse_tlv acc (render_tlv (f # fs)) = parse_tlv ((tag, v) # acc) (render_tlv fs)"
    using len(2) by (subst parse_tlv.simps) (simp add: render_tlv_def f tag two_digits_def atoi2_digits)
  with Cons show ?case by (simp add: f)
qed

text \<open>What is parsed was there: every field is a slice of the input, and the slices cover it.\<close>

lemma parse_tlv_shape:
  "parse_tlv acc data = Parsed fs \<Longrightarrow>
     \<exists>new. fs = rev new @ acc \<and> (\<forall>f \<in> set new. length (fst f) = 2 \<and> length (snd f) \<le> 99)
       \<and> length data = sum_list (map (\<lambda>f. 4 + length (snd f)) new)"
proof (induction acc data rule: parse_tlv.induct)
  case (1 acc data)
  show ?case
  proof (cases "data = []")
    case True
    then show ?thesis using "1.prems" by (auto simp: parse_tlv.simps intro!: exI [of _ "[]"])
  next
    case False
    let ?rest = "drop 4 data"
    from "1.prems" False obtain n where n: "4 \<le> length data" "atoi2 (data ! 2) (data ! 3) = Some n"
      "n \<le> int (length ?rest)" "0 \<le> n"
      and rec: "parse_tlv ((take 2 data, take (nat n) ?rest) # acc) (drop (nat n) ?rest) = Parsed fs"
      by (subst (asm) parse_tlv.simps) (auto split: if_splits option.splits)
    let ?f = "(take 2 data, take (nat n) ?rest)"
    have "\<exists>new. fs = rev new @ ?f # acc \<and> (\<forall>f \<in> set new. length (fst f) = 2 \<and> length (snd f) \<le> 99)
       \<and> length (drop (nat n) ?rest) = sum_list (map (\<lambda>f. 4 + length (snd f)) new)"
      using "1.IH" [OF False _ n(2) _ _ rec] n by auto
    then obtain new where new: "fs = rev new @ ?f # acc"
      "\<forall>f \<in> set new. length (fst f) = 2 \<and> length (snd f) \<le> 99"
      "length (drop (nat n) ?rest) = sum_list (map (\<lambda>f. 4 + length (snd f)) new)" by blast
    have "n \<le> 99" using atoi2_range [OF n(2)] by simp
    then show ?thesis
      using new n by (intro exI [of _ "?f # new"]) auto
  qed
qed

text \<open>Without a minus sign in a length field nothing panics; with one at the first field it does.\<close>

lemma parse_tlv_no_panic:
  "CHR ''-'' \<notin> set data \<Longrightarrow> parse_tlv acc data \<noteq> Panics"
proof (induction acc data rule: parse_tlv.induct)
  case (1 acc data)
  have "0 \<le> n" if "atoi2 (data ! 2) (data ! 3) = Some n" "4 \<le> length data" for n
  proof -
    have "data ! 2 \<in> set data" using that(2) by simp
    then have "data ! 2 \<noteq> CHR ''-''" using "1.prems" by metis
    then show ?thesis
      using that(1) by (auto simp: atoi2_def split: option.splits if_splits dest!: digit_of_range)
  qed
  moreover have "CHR ''-'' \<notin> set (drop k (drop 4 data))" for k
    using "1.prems" by (auto dest: in_set_dropD)
  ultimately show ?case
    using "1.IH" by (subst parse_tlv.simps) (auto split: option.splits)
qed

end
