(* ===== verification/QRIS_Service.thy ===== *)
theory QRIS_Service
  imports Transfer_Guarantees QRIS_Executor EMVCo
begin

text \<open>
  \<open>internal/domain/qris/service.go\<close> and \<open>internal/repository/redis/qris_cache.go\<close>: decoding a
  payload and paying it.
\<close>

subsection \<open>The decode cache\<close>

definition decode_cache_ttl :: time where
  "decode_cache_ttl = minutes 5"

definition encode_decoded :: "decoded_qris \<Rightarrow> json" where
  "encode_decoded q = JObj [(''merchant_name'', JStr (dq_name q)), (''merchant_city'', JStr (dq_city q)),
     (''amount'', JDec (dq_amount q)), (''is_amount_fixed'', JBool (dq_fixed q)),
     (''qris_id'', JStr (dq_id q)), (''expires_at'', JStr (dq_expires q))]"

definition get_bool :: "(string \<times> json) list \<Rightarrow> string \<Rightarrow> bool option" where
  "get_bool ob k = (case map_of ob k of
      None \<Rightarrow> Some False | Some JNull \<Rightarrow> Some False | Some (JBool b) \<Rightarrow> Some b | Some _ \<Rightarrow> None)"

definition get_dec :: "(string \<times> json) list \<Rightarrow> string \<Rightarrow> decimal option" where
  "get_dec ob k = (case map_of ob k of
      None \<Rightarrow> Some 0 | Some JNull \<Rightarrow> Some 0 | Some (JDec d) \<Rightarrow> Some d | Some _ \<Rightarrow> None)"

definition decode_decoded :: "json \<Rightarrow> decoded_qris option" where
  "decode_decoded j = (case j of JObj p \<Rightarrow> do {
      n \<leftarrow> get_str p ''merchant_name'';
      c \<leftarrow> get_str p ''merchant_city'';
      a \<leftarrow> get_dec p ''amount'';
      f \<leftarrow> get_bool p ''is_amount_fixed'';
      i \<leftarrow> get_str p ''qris_id'';
      e \<leftarrow> get_str p ''expires_at'';
      Some \<lparr>dq_name = n, dq_city = c, dq_amount = a, dq_fixed = f, dq_id = i, dq_expires = e\<rparr> }
    | _ \<Rightarrow> None)"

lemma decode_encode_decoded [simp]: "decode_decoded (encode_decoded q) = Some q"
  by (simp add: decode_decoded_def encode_decoded_def get_bool_def get_dec_def json_get_defs)

definition decoded_key :: "string \<Rightarrow> string" where
  "decoded_key i = ''cache:qris:decoded:'' @ i"

definition store_decoded :: "'s redis_api \<Rightarrow> time \<Rightarrow> string \<Rightarrow> decoded_qris \<Rightarrow> 's \<Rightarrow> unit reply \<times> 's" where
  "store_decoded R t i q s = api_set R t (decoded_key i) (RJson (encode_decoded q)) decode_cache_ttl s"

definition get_decoded :: "'s redis_api \<Rightarrow> time \<Rightarrow> string \<Rightarrow> 's \<Rightarrow> decoded_qris option reply \<times> 's" where
  "get_decoded R t i s = (case api_get R t (decoded_key i) s of
      (Fault, s1) \<Rightarrow> (Fault, s1)
    | (Reply None, s1) \<Rightarrow> (Reply None, s1)
    | (Reply (Some (RJson j)), s1) \<Rightarrow>
        (case decode_decoded j of None \<Rightarrow> (Fault, s1) | Some q \<Rightarrow> (Reply (Some q), s1))
    | (Reply (Some _), s1) \<Rightarrow> (Fault, s1))"

text \<open>A GET and then a DEL whose error is dropped: two commands, where the inquiry cache has one.\<close>

definition consume_decoded :: "'s redis_api \<Rightarrow> time \<Rightarrow> string \<Rightarrow> 's \<Rightarrow> decoded_qris option reply \<times> 's" where
  "consume_decoded R t i s = (case get_decoded R t i s of
      (Reply (Some q), s1) \<Rightarrow> (Reply (Some q), snd (api_del R t (decoded_key i) s1))
    | r \<Rightarrow> r)"

subsection \<open>Decoding\<close>

text \<open>A panic of the parser ends the request with an internal error.\<close>

definition decode_qris :: "lib \<Rightarrow> 's redis_api \<Rightarrow> env \<Rightarrow> string \<Rightarrow> (('s, 'z) world_scheme, decoded_qris) svc" where
  "decode_qris L R E raw =
     (case parse_emvco L raw of
        Malformed \<Rightarrow> svc_throw QRISInvalidPayload
      | Panics \<Rightarrow> svc_throw InternalError
      | Parsed q0 \<Rightarrow>
          let q = q0\<lparr>dq_id := en_id E, dq_expires := rfc3339 L (en_now E + decode_cache_ttl)\<rparr> in
          svc_seq (on_kv (store_decoded R (en_now E) (en_id E) q)) (svc_return q))"

subsection \<open>Paying\<close>

record pay_request =
  pq_qris :: string
  pq_source :: string
  pq_amount :: int
  pq_vtoken :: string

record pay_response =
  po_txn :: string
  po_ref :: string
  po_status :: string
  po_merchant :: string
  po_city :: string
  po_amount :: string
  po_fee :: string
  po_total :: string
  po_source :: string
  po_source_name :: string
  po_created :: string

definition encode_pay_response :: "pay_response \<Rightarrow> json" where
  "encode_pay_response r = JObj [
     (''transaction_id'', JStr (po_txn r)), (''reference_number'', JStr (po_ref r)),
     (''status'', JStr (po_status r)), (''merchant_name'', JStr (po_merchant r)),
     (''merchant_city'', JStr (po_city r)), (''amount'', JStr (po_amount r)),
     (''admin_fee'', JStr (po_fee r)), (''total'', JStr (po_total r)),
     (''source_account'', JStr (po_source r)), (''source_name'', JStr (po_source_name r)),
     (''created_at'', JStr (po_created r))]"

definition decode_pay_response :: "json \<Rightarrow> pay_response option" where
  "decode_pay_response j = (case j of JObj p \<Rightarrow> do {
      txn \<leftarrow> get_str p ''transaction_id'';
      ref \<leftarrow> get_str p ''reference_number'';
      st \<leftarrow> get_str p ''status'';
      mn \<leftarrow> get_str p ''merchant_name'';
      mc \<leftarrow> get_str p ''merchant_city'';
      am \<leftarrow> get_str p ''amount'';
      fee \<leftarrow> get_str p ''admin_fee'';
      tot \<leftarrow> get_str p ''total'';
      src \<leftarrow> get_str p ''source_account'';
      sn \<leftarrow> get_str p ''source_name'';
      cr \<leftarrow> get_str p ''created_at'';
      Some \<lparr>po_txn = txn, po_ref = ref, po_status = st, po_merchant = mn, po_city = mc, po_amount = am,
        po_fee = fee, po_total = tot, po_source = src, po_source_name = sn, po_created = cr\<rparr> }
    | _ \<Rightarrow> None)"

lemma decode_encode_pay_response [simp]: "decode_pay_response (encode_pay_response r) = Some r"
  by (simp add: decode_pay_response_def encode_pay_response_def json_get_defs)

record 's pay_call = "'s world" +
  restore_decoded :: "decoded_qris option"
  restore_ptoken :: string

definition take_pay_token ::
    "lib \<Rightarrow> 's redis_api \<Rightarrow> env \<Rightarrow> uuid \<Rightarrow> pay_request \<Rightarrow> ('s pay_call, unit) svc" where
  "take_pay_token L R E user req =
     (let h = sha256_hex L (pq_vtoken req) in
      svc_bind (on_kv (consume_token R (en_now E) h)) (\<lambda>v.
        svc_seq (fail_if (fst v = '''' \<or> fst v \<noteq> user \<or> snd v \<noteq> ''QRIS_PAYMENT'') VerificationTokenInvalid)
         (\<lambda>w. (Inr (), w\<lparr>restore_ptoken := h\<rparr>))))"

definition take_decoded :: "'s redis_api \<Rightarrow> env \<Rightarrow> pay_request \<Rightarrow> ('s pay_call, decoded_qris) svc" where
  "take_decoded R E req =
     svc_bind (on_kv (consume_decoded R (en_now E) (pq_qris req))) (\<lambda>r.
     svc_bind (svc_option InquiryExpired r) (\<lambda>q.
       (\<lambda>w. (Inr q, w\<lparr>restore_decoded := Some q\<rparr>))))"

definition pay_amount :: "pay_request \<Rightarrow> decoded_qris \<Rightarrow> decimal" where
  "pay_amount req q =
     (if \<not> dq_fixed q \<and> 0 < pq_amount req then of_int (pq_amount req) else dq_amount q)"

definition pay_params_of :: "env \<Rightarrow> uuid \<Rightarrow> string \<Rightarrow> pay_request \<Rightarrow> decoded_qris \<Rightarrow> uuid \<Rightarrow> pay_params" where
  "pay_params_of E user key req q source =
     \<lparr>pp_idem = key, pp_user = user, pp_source = source, pp_merchant = dq_name q, pp_city = dq_city q,
      pp_amount = pay_amount req q, pp_fee = 0, pp_total = pay_amount req q + 0,
      pp_wib_date = wib_date (en_now E), pp_wib_time = wib_time (en_now E)\<rparr>"

definition prepare_pay ::
    "lib \<Rightarrow> 's redis_api \<Rightarrow> env \<Rightarrow> uuid \<Rightarrow> pay_request \<Rightarrow> string \<Rightarrow> ('s pay_call, account \<times> pay_params) svc" where
  "prepare_pay L R E user req key =
     svc_seq (take_pay_token L R E user req)
    (svc_bind (take_decoded R E req) (\<lambda>q.
     svc_seq (fail_if (pay_amount req q = 0 \<or> pay_amount req q < 0) ValidationError)
    (svc_bind (svc_option ValidationError (parse_uuid L (pq_source req))) (\<lambda>source.
     svc_bind (sql_read E QFindOwned (\<lambda>d. find_owned_by_id d user source)) (\<lambda>a.
     svc_bind (svc_option SourceAccountForbidden a) (\<lambda>acct.
       svc_return (acct, pay_params_of E user key req q source)))))))"

definition pay_response_of :: "lib \<Rightarrow> account \<Rightarrow> pay_params \<Rightarrow> transaction \<Rightarrow> pay_response" where
  "pay_response_of L acct p t =
     \<lparr>po_txn = tx_id t, po_ref = tx_ref t, po_status = tx_status t, po_merchant = pp_merchant p,
      po_city = pp_city p, po_amount = string_fixed2 L (pp_amount p), po_fee = string_fixed2 L (pp_fee p),
      po_total = string_fixed2 L (pp_total p), po_source = ac_number acct, po_source_name = ac_label acct,
      po_created = rfc3339 L (tx_created t)\<rparr>"

definition pay_notice :: "lib \<Rightarrow> uuid \<Rightarrow> pay_params \<Rightarrow> transaction \<Rightarrow> notice" where
  "pay_notice L user p t =
     \<lparr>no_user = user, no_type = '''', no_title = ''Pembayaran QRIS berhasil'',
      no_body = ''Pembayaran '' @ format_idr (pp_total p) @ '' ke '' @ pp_merchant p
        @ '' berhasil. Ref: '' @ tx_ref t,
      no_link = ''bcamobile://transaction/'' @ tx_id t,
      no_meta = [(''transaction_id'', tx_id t), (''reference_number'', tx_ref t),
        (''amount'', string_fixed2 L (pp_amount p)), (''merchant'', pp_merchant p)]\<rparr>"

definition finish_pay ::
    "lib \<Rightarrow> 's redis_api \<Rightarrow> env \<Rightarrow> uuid \<Rightarrow> string \<Rightarrow> account \<Rightarrow> pay_params \<Rightarrow> transaction
      \<Rightarrow> ('s pay_call, pay_response) svc" where
  "finish_pay L R E user key acct p t =
     (let resp = pay_response_of L acct p t in
      svc_seq (best_effort_kv (invalidate_caches R (en_now E) [\<lparr>af_user = user, af_account = pp_source p\<rparr>]))
     (svc_seq (notify_transaction E (pay_notice L user p t))
     (svc_seq (best_effort_kv (idem_persist R (en_now E) user key (encode_pay_response resp)))
       (svc_return resp))))"

definition undo_pay :: "'s redis_api \<Rightarrow> env \<Rightarrow> uuid \<Rightarrow> string \<Rightarrow> 's pay_call \<Rightarrow> 's pay_call" where
  "undo_pay R E user key w0 =
     (let w1 = w0\<lparr>kv := snd (idem_release R (en_now E) user key (kv w0))\<rparr>;
          w2 = (case restore_decoded w1 of
                  Some q \<Rightarrow> w1\<lparr>kv := snd (store_decoded R (en_now E) (dq_id q) q (kv w1))\<rparr>
                | None \<Rightarrow> w1)
      in if restore_ptoken w2 \<noteq> ''''
         then w2\<lparr>kv := snd (store_token R (en_now E) (restore_ptoken w2) (user, ''QRIS_PAYMENT'') (kv w2))\<rparr>
         else w2)"

definition pay_flow ::
    "lib \<Rightarrow> 's redis_api \<Rightarrow> env \<Rightarrow> uuid \<Rightarrow> pay_request \<Rightarrow> string \<Rightarrow> ('s pay_call, pay_response) svc" where
  "pay_flow L R E user req key =
     svc_bind (prepare_pay L R E user req key) (\<lambda>(acct, p).
     svc_bind (on_pg (execute_pay_tx L (en_attempts E) p)) (\<lambda>t.
       finish_pay L R E user key acct p t))"

definition replay_pay :: "idem_result \<Rightarrow> app_err + pay_response \<times> bool" where
  "replay_pay r =
     (if still_processing r then Inl IdempotencyConflict
      else case stored_response r of
          RJson j \<Rightarrow> (case decode_pay_response j of None \<Rightarrow> Inl InternalError | Some resp \<Rightarrow> Inr (resp, True))
        | _ \<Rightarrow> Inl InternalError)"

definition execute_pay ::
    "lib \<Rightarrow> 's redis_api \<Rightarrow> env \<Rightarrow> uuid \<Rightarrow> pay_request \<Rightarrow> string \<Rightarrow> ('s world, pay_response \<times> bool) svc" where
  "execute_pay L R E user req key w =
     (case idem_claim R (en_now E) user key (kv w) of
        (Fault, s) \<Rightarrow> (Inl InternalError, w\<lparr>kv := s\<rparr>)
      | (Reply r, s) \<Rightarrow>
          let w1 = w\<lparr>kv := s\<rparr> in
          if already_claimed r then (replay_pay r, w1)
          else case pay_flow L R E user req key
                 (world.extend w1 \<lparr>restore_decoded = None, restore_ptoken = ''''\<rparr>) of
              (Inl e, w2) \<Rightarrow> (Inl e, world.truncate (undo_pay R E user key w2))
            | (Inr resp, w2) \<Rightarrow> (Inr (resp, False), world.truncate w2))"

subsection \<open>What a payment does\<close>

definition prepared_payment ::
    "lib \<Rightarrow> env \<Rightarrow> uuid \<Rightarrow> pay_request \<Rightarrow> string \<Rightarrow> db \<Rightarrow> decoded_qris \<Rightarrow> account \<Rightarrow> pay_params \<Rightarrow> bool" where
  "prepared_payment L E user req key d q acct p \<longleftrightarrow> 0 < pay_amount req q
     \<and> (\<exists>source. parse_uuid L (pq_source req) = Some source
          \<and> find_owned_by_id d user source = Some acct \<and> p = pay_params_of E user key req q source)"

lemma prepare_pay_Inr:
  assumes "prepare_pay L R E user req key w = (Inr (acct, p), w')"
  obtains q s1 s2 where
    "consume_token R (en_now E) (sha256_hex L (pq_vtoken req)) (kv w) = (Reply (user, ''QRIS_PAYMENT''), s1)"
    "user \<noteq> ''''" "consume_decoded R (en_now E) (pq_qris req) s1 = (Reply (Some q), s2)"
    "prepared_payment L E user req key (pg w) q acct p" "pg w' = pg w" "kv w' = s2"
  using assms
  by (fastforce simp: prepare_pay_def take_pay_token_def take_decoded_def prepared_payment_def Let_def)

lemma prepare_pay_frame: "prepare_pay L R E user req key w = (r, w') \<Longrightarrow> pg w' = pg w \<and> sent w' = sent w"
  by (cases r) (auto simp: prepare_pay_def take_pay_token_def take_decoded_def Let_def)

lemma finish_pay_Inr:
  "finish_pay L R E user key acct p t w = (r, w') \<Longrightarrow> r = Inr (pay_response_of L acct p t) \<and> pg w' = pg w"
  by (cases r) (auto simp: finish_pay_def Let_def)

lemma undo_pay_frame [simp]:
  "pg (undo_pay R E user key w) = pg w" "sent (undo_pay R E user key w) = sent w"
  by (auto simp: undo_pay_def Let_def split: option.splits)

lemma pay_world [simp]:
  "pg (world.extend w \<lparr>restore_decoded = a, restore_ptoken = b\<rparr>) = pg w"
  "kv (world.extend w \<lparr>restore_decoded = a, restore_ptoken = b\<rparr>) = kv w"
  by (simp_all add: world.extend_def)

lemma execute_pay_ledger:
  assumes "execute_pay L R E user req key w = (r, w')"
  obtains (same) "pg w' = pg w"
  | (ran) q acct p x s1 s2 s3 c where "idem_claim R (en_now E) user key (kv w) = (Reply c, s1)" "\<not> already_claimed c"
      "consume_token R (en_now E) (sha256_hex L (pq_vtoken req)) s1 = (Reply (user, ''QRIS_PAYMENT''), s2)"
      "consume_decoded R (en_now E) (pq_qris req) s2 = (Reply (Some q), s3)"
      "prepared_payment L E user req key (pg w) q acct p"
      "execute_pay_tx L (en_attempts E) p (pg w) = (x, pg w')"
      "\<forall>e. x = Inl e \<longrightarrow> r = Inl (exec_app_err e)" "\<forall>t. x = Inr t \<longrightarrow> r = Inr (pay_response_of L acct p t, False)"
proof -
  obtain z s where claim: "idem_claim R (en_now E) user key (kv w) = (z, s)" by fastforce
  let ?w1 = "world.extend (w\<lparr>kv := s\<rparr>) \<lparr>restore_decoded = None, restore_ptoken = ''''\<rparr>"
  obtain g w2 where prep: "prepare_pay L R E user req key ?w1 = (g, w2)" by fastforce
  show ?thesis
  proof (cases "\<exists>c a. z = Reply c \<and> \<not> already_claimed c \<and> g = Inr a")
    case False
    then have "pg w' = pg w"
      using assms claim prep prepare_pay_frame [OF prep]
      by (cases z; cases g)
        (auto simp: execute_pay_def Let_def pay_flow_def svc_bind_def split: if_splits)
    then show ?thesis by (rule same)
  next
    case True
    then obtain c acct p where zg: "z = Reply c" "\<not> already_claimed c" "g = Inr (acct, p)" by auto
    obtain x d where x: "execute_pay_tx L (en_attempts E) p (pg w2) = (x, d)" by fastforce
    from prep zg have "prepare_pay L R E user req key ?w1 = (Inr (acct, p), w2)" by simp
    then obtain q s1 s2 where *:
      "consume_token R (en_now E) (sha256_hex L (pq_vtoken req)) s = (Reply (user, ''QRIS_PAYMENT''), s1)"
      "consume_decoded R (en_now E) (pq_qris req) s1 = (Reply (Some q), s2)"
      "prepared_payment L E user req key (pg w) q acct p" "pg w2 = pg w"
      by (rule prepare_pay_Inr) auto
    have rest: "pg w' = d \<and> (\<forall>e. x = Inl e \<longrightarrow> r = Inl (exec_app_err e))
        \<and> (\<forall>t. x = Inr t \<longrightarrow> r = Inr (pay_response_of L acct p t, False))"
    proof (cases x)
      case (Inl e)
      then show ?thesis
        using assms claim prep zg x
        by (auto simp: execute_pay_def Let_def pay_flow_def svc_bind_def on_pg_def)
    next
      case (Inr t)
      obtain f w3 where fin: "finish_pay L R E user key acct p t (w2\<lparr>pg := d\<rparr>) = (f, w3)" by fastforce
      show ?thesis
        using assms claim prep zg x Inr fin finish_pay_Inr [OF fin]
        by (auto simp: execute_pay_def Let_def pay_flow_def svc_bind_def on_pg_def)
    qed
    show ?thesis
      by (rule ran [OF _ zg(2) *(1,2,3), of x]) (use claim zg x * rest in auto)
  qed
qed

lemma prepared_payment_fits:
  assumes "prepared_payment L E user req key d q acct p" "sen (dq_amount q)"
  shows "pay_fits p d"
proof -
  from assms(1) obtain source where p: "p = pay_params_of E user key req q source"
    and acct: "find_owned_by_id d user source = Some acct" and am: "0 < pay_amount req q"
    by (auto simp: prepared_payment_def)
  have "customer_source d source"
    using find_owned_Some [OF acct] by (auto simp: customer_source_def list_ex_iff)
  moreover have "sen (pay_amount req q)" using assms(2) by (simp add: pay_amount_def)
  ultimately show ?thesis using am by (simp add: pay_fits_def p pay_params_of_def)
qed

lemma execute_pay_tx_run: "execute_pay_tx L E p = pay.run L E p"
  by (simp add: execute_pay_tx_def pay.run_def)

end
