(* ===== verification/QRIS_Guarantees.thy ===== *)
theory QRIS_Guarantees
  imports QRIS_Service
begin

text \<open>
  The guarantees of a QRIS payment, for every Redis that keeps the contract, and the limits of the
  decode cache, which reads and deletes in two commands.
\<close>

definition decoded_held ::
    "('s \<Rightarrow> time \<Rightarrow> string \<Rightarrow> rval option) \<Rightarrow> 's \<Rightarrow> time \<Rightarrow> string \<Rightarrow> decoded_qris option" where
  "decoded_held live s t i = Option.bind (json_of (live s t (decoded_key i))) decode_decoded"

lemma decoded_keys_disjoint [key_simps]:
  "idem_key u k \<noteq> decoded_key i" "decoded_key i \<noteq> idem_key u k"
  "vtoken_key h \<noteq> decoded_key i" "decoded_key i \<noteq> vtoken_key h"
  "inquiry_key j \<noteq> decoded_key i" "decoded_key i \<noteq> inquiry_key j"
  by (simp_all add: idem_key_def inquiry_key_def vtoken_key_def decoded_key_def)

text \<open>A code that fixes the amount at zero can never be paid.\<close>

lemma fixed_zero_unpayable:
  assumes "dq_fixed q" "dq_amount q = 0"
  shows "\<not> prepared_payment L E user req key d q acct p"
  using assms by (simp add: prepared_payment_def pay_amount_def)

lemma parse_fixed_zero:
  assumes "parse_emvco L raw = Parsed q" "parse_tlv [] (trim_space raw) = Parsed fs"
    "field fs ''01'' = ''12''" "field fs ''54'' = ''''"
  shows "dq_fixed q \<and> dq_amount q = 0"
  using assms by (auto simp: parse_emvco_def amount_field_def Let_def split: if_splits)

text \<open>A payment within its parameters also respects the per-transaction ceiling.\<close>

lemma pay_per_txn:
  assumes "pay.posted L p d r d' t" "limit_of d (pp_user p) ''QRIS'' = Some l" "li_per_txn l = Some m"
  shows "pp_total p \<le> m"
proof -
  obtain A d0 where d0: "same_tables d d0" "pay_body L A p d0 = (Inr t, d')"
    using assms(1) by (auto simp: pay.posted_def)
  have "limit_of d0 = limit_of d" using d0(1) by (simp add: limit_of_def fun_eq_iff same_tables_sel)
  then show ?thesis
    using d0(2) assms(2,3) by - (erule pay_body_Inr, auto simp: check_pay_Inr)
qed

context redis_contract
begin

lemma get_decoded_reply:
  assumes "get_decoded R t i s = (Reply w, s')"
  shows "w = decoded_held live s t i" and "\<And>k' t'. t \<le> t' \<Longrightarrow> live s' t' k' = live s t' k'"
    and "w = None \<Longrightarrow> live s t (decoded_key i) = None"
proof -
  obtain g s1 where g: "api_get R t (decoded_key i) s = (g, s1)" by force
  then have "s1 = s'" "g \<noteq> Fault"
    using assms by (auto simp: get_decoded_def split: reply.splits option.splits rval.splits)
  then obtain v where v: "g = Reply v" by (cases g) auto
  have lv: "v = live s t (decoded_key i)" using g v get_reply by blast
  show "w = decoded_held live s t i" "w = None \<Longrightarrow> live s t (decoded_key i) = None"
    using assms g v lv
    by (auto simp: get_decoded_def decoded_held_def json_of_def split: option.splits rval.splits)
  show "live s' t' k' = live s t' k'" if "t \<le> t'" for k' t'
    using get_frame [OF g that] \<open>s1 = s'\<close> by simp
qed

lemma consume_decoded_reply:
  assumes "consume_decoded R t i s = (Reply (Some q), s')"
  shows "decoded_held live s t i = Some q"
    and "\<And>k' t'. k' \<noteq> decoded_key i \<Longrightarrow> t \<le> t' \<Longrightarrow> live s' t' k' = live s t' k'"
    and "healthy R \<Longrightarrow> t \<le> t' \<Longrightarrow> live s' t' (decoded_key i) = None"
proof -
  obtain g s1 where g: "get_decoded R t i s = (g, s1)" by force
  then have gq: "g = Reply (Some q)" and s': "s' = snd (api_del R t (decoded_key i) s1)"
    using assms by (auto simp: consume_decoded_def split: reply.splits option.splits)
  note got = get_decoded_reply [OF g [unfolded gq]]
  show "decoded_held live s t i = Some q" using got(1) by simp
  obtain u where del: "api_del R t (decoded_key i) s1 = (u, s')" using s' by (metis prod.collapse)
  show "live s' t' k' = live s t' k'" if "k' \<noteq> decoded_key i" "t \<le> t'" for k' t'
    using del_frame [OF del that] got(2) [OF that(2)] by simp
  show "live s' t' (decoded_key i) = None" if "healthy R" "t \<le> t'"
  proof -
    have "u = Reply ()" using healthy_replies(2) [OF that(1), of t "decoded_key i" s1] del by auto
    then show ?thesis using del_gone [of t "decoded_key i" s1 "()" s' t'] del that(2) by simp
  qed
qed

text \<open>On a healthy Redis a decoded code is handed out once.\<close>

lemma consume_decoded_once:
  assumes "healthy R" "consume_decoded R t i s = (Reply (Some q), s1)" "t \<le> t'"
    "consume_decoded R t' i s1 = (Reply w, s2)"
  shows "w = None"
proof (cases w)
  case (Some q')
  then have "decoded_held live s1 t' i = Some q'" using consume_decoded_reply(1) assms(4) by blast
  then show ?thesis
    using consume_decoded_reply(3) [OF assms(2,1,3)] by (simp add: decoded_held_def json_of_def)
qed simp

lemma decoded_seen:
  assumes "idem_claim R t u k s = (rc, s1)" "consume_token R t h s1 = (rt, s2)"
    "consume_decoded R t i s2 = (Reply (Some q), s3)"
  shows "decoded_held live s t i = Some q"
  using consume_decoded_reply(1) [OF assms(3)] idem_claim_frame [OF assms(1), of "decoded_key i" t]
    consume_token_live [OF assms(2), of "decoded_key i" t]
  by (simp add: decoded_held_def key_simps)

lemma pay_ledger_ok:
  assumes ex: "execute_pay L R E user req key w = (r, w')" and ok: "ledger_ok (pg w)"
    and fit: "\<And>q. decoded_held live (kv w) (en_now E) (pq_qris req) = Some q \<Longrightarrow> sen (dq_amount q)"
  shows "ledger_ok (pg w') \<and> total_money (accounts (pg w')) = total_money (accounts (pg w))"
  using ex
proof (cases rule: execute_pay_ledger)
  case same
  then show ?thesis using ok by simp
next
  case (ran q acct p x s1 s2 s3 c)
  have "sen (dq_amount q)" using decoded_seen [OF ran(1,3,4)] fit by blast
  then have fits: "pay_fits p (pg w)" using prepared_payment_fits ran(5) by blast
  have run: "pay.run L (en_attempts E) p (pg w) = (x, pg w')" using ran(6) by (simp add: execute_pay_tx_run)
  show ?thesis using pay.keeps_ledger_ok [OF run fits ok] pay.conserves [OF run fits ok] by simp
qed

end

end
