(* ===== verification/System.thy ===== *)
theory System
  imports EWallet_Service QRIS_Guarantees
begin

text \<open>
  The money services together: any sequence of requests, each handled as a whole, on one database and
  one Redis. The invariant ties the caches to the ledger: an inquiry or a decoded code that a later
  request can still consume carries amounts the ledger can post.
\<close>

definition providers_ok :: "db \<Rightarrow> bool" where
  "providers_ok d \<longleftrightarrow> (\<forall>p \<in> set (ewallet_providers d). 0 \<le> pr_min p \<and> 0 \<le> pr_fee p \<and> sen (pr_fee p))"

text \<open>A payload whose amount, if any, is a whole number of sen.\<close>

definition sen_payload :: "lib \<Rightarrow> string \<Rightarrow> bool" where
  "sen_payload L raw \<longleftrightarrow> (case parse_emvco L raw of Parsed q \<Rightarrow> sen (dq_amount q) | _ \<Rightarrow> True)"

text \<open>One request: the clock never runs backwards between requests.\<close>

inductive request :: "lib \<Rightarrow> 's redis_api \<Rightarrow> time \<times> 's world \<Rightarrow> time \<times> 's world \<Rightarrow> bool" for L R where
  transfer_inquiry: "t \<le> en_now E \<Longrightarrow> create_inquiry R E u ireq w = (x, w') \<Longrightarrow>
     request L R (t, w) (en_now E, w')"
| pin_verified: "t \<le> en_now E \<Longrightarrow> create_verification_token L R E u purpose w = (y, w') \<Longrightarrow>
     request L R (t, w) (en_now E, w')"
| token_spent: "t \<le> en_now E \<Longrightarrow> consume_verification_token L R E u raw purpose w = (z, w') \<Longrightarrow>
     request L R (t, w) (en_now E, w')"
| transfer: "t \<le> en_now E \<Longrightarrow> execute_transfer L R E u ereq key w = (a, w') \<Longrightarrow>
     request L R (t, w) (en_now E, w')"
| topup_inquiry: "t \<le> en_now E \<Longrightarrow> topup_inquiry L R E u treq w = (b, w') \<Longrightarrow>
     request L R (t, w) (en_now E, w')"
| topup: "t \<le> en_now E \<Longrightarrow> execute_topup L R E u ureq key w = (c, w') \<Longrightarrow>
     request L R (t, w) (en_now E, w')"
| decode: "t \<le> en_now E \<Longrightarrow> sen_payload L raw \<Longrightarrow> decode_qris L R E raw w = (d, w') \<Longrightarrow>
     request L R (t, w) (en_now E, w')"
| pay: "t \<le> en_now E \<Longrightarrow> execute_pay L R E u preq key w = (e, w') \<Longrightarrow>
     request L R (t, w) (en_now E, w')"

text \<open>What a value under a key has to satisfy: only inquiries and decoded codes are constrained.\<close>

definition value_fits :: "string \<Rightarrow> rval \<Rightarrow> bool" where
  "value_fits k v \<longleftrightarrow>
     (k \<in> range inquiry_key \<longrightarrow> (\<forall>q. Option.bind (json_of (Some v)) decode_inquiry = Some q \<longrightarrow> inquiry_fits q))
   \<and> (k \<in> range decoded_key \<longrightarrow> (\<forall>q. Option.bind (json_of (Some v)) decode_decoded = Some q \<longrightarrow> sen (dq_amount q)))"

definition caches_fit :: "('s \<Rightarrow> time \<Rightarrow> string \<Rightarrow> rval option) \<Rightarrow> time \<Rightarrow> 's \<Rightarrow> bool" where
  "caches_fit live t s \<longleftrightarrow> (\<forall>t' \<ge> t. \<forall>k v. live s t' k = Some v \<longrightarrow> value_fits k v)"

definition system_ok :: "('s \<Rightarrow> time \<Rightarrow> string \<Rightarrow> rval option) \<Rightarrow> decimal \<Rightarrow> time \<times> 's world \<Rightarrow> bool" where
  "system_ok live m = (\<lambda>(t, w). ledger_ok (pg w) \<and> total_money (accounts (pg w)) = m
     \<and> providers_ok (pg w) \<and> caches_fit live t (kv w))"

lemma caches_fit_later: "caches_fit live t s \<Longrightarrow> t \<le> u \<Longrightarrow> caches_fit live u s"
  by (meson caches_fit_def le_trans)

lemma caches_fit_inquiry:
  "caches_fit live t s \<Longrightarrow> inquiry_held live s t i = Some q \<Longrightarrow> inquiry_fits q"
  by (cases "live s t (inquiry_key i)") (auto simp: caches_fit_def value_fits_def inquiry_held_def json_of_def)

lemma caches_fit_decoded:
  "caches_fit live t s \<Longrightarrow> decoded_held live s t i = Some q \<Longrightarrow> sen (dq_amount q)"
  by (cases "live s t (decoded_key i)") (auto simp: caches_fit_def value_fits_def decoded_held_def json_of_def)

subsection \<open>How the caches change\<close>

definition evolves :: "('s \<Rightarrow> time \<Rightarrow> string \<Rightarrow> rval option) \<Rightarrow> time \<Rightarrow> 's \<Rightarrow> 's \<Rightarrow> bool" where
  "evolves live t s s' \<longleftrightarrow> (\<forall>t' \<ge> t. \<forall>k. live s' t' k = live s t' k
     \<or> (\<forall>v. live s' t' k = Some v \<longrightarrow> value_fits k v))"

lemma evolves_refl [simp]: "evolves live t s s"
  by (simp add: evolves_def)

lemma evolves_trans [trans]: "evolves live t a b \<Longrightarrow> evolves live t b c \<Longrightarrow> evolves live t a c"
  unfolding evolves_def by metis

lemma evolves_fit: "evolves live t s s' \<Longrightarrow> caches_fit live t s \<Longrightarrow> caches_fit live t s'"
  unfolding evolves_def caches_fit_def by metis

lemma evolves_key:
  assumes "\<And>k' t'. k' \<noteq> k \<Longrightarrow> t \<le> t' \<Longrightarrow> live s' t' k' = live s t' k'"
    "\<And>t' v. t \<le> t' \<Longrightarrow> live s' t' k = Some v \<Longrightarrow> live s' t' k = live s t' k \<or> value_fits k v"
  shows "evolves live t s s'"
  unfolding evolves_def
proof (intro allI impI)
  fix t' k' assume t: "t \<le> t'"
  show "live s' t' k' = live s t' k' \<or> (\<forall>v. live s' t' k' = Some v \<longrightarrow> value_fits k' v)"
    using assms(1) [OF _ t] assms(2) [OF t] by (cases "k' = k") blast+
qed

lemma value_fits_other [simp]:
  "value_fits (idem_key u x) v" "value_fits (vtoken_key h) v"
  by (auto simp: value_fits_def idem_key_def vtoken_key_def inquiry_key_def decoded_key_def)

lemma value_fits_party: "k \<in> cmd_key ` set (concat (map party_cmds ps)) \<Longrightarrow> value_fits k v"
  by (auto simp: value_fits_def party_cmds_def cache_key_defs inquiry_key_def decoded_key_def)

lemma value_fits_inquiry: "inquiry_fits q \<Longrightarrow> value_fits (inquiry_key i) (RJson (encode_inquiry q))"
  by (auto simp: value_fits_def json_of_def inquiry_key_def decoded_key_def)

lemma value_fits_decoded: "sen (dq_amount q) \<Longrightarrow> value_fits (decoded_key i) (RJson (encode_decoded q))"
  by (auto simp: value_fits_def json_of_def inquiry_key_def decoded_key_def)

context redis_contract
begin

lemma set_cases:
  assumes "api_set R t k v ttl s = (r, s')" "t \<le> t'"
  shows "live s' t' k = live s t' k \<or> live s' t' k = shows_put v t ttl t'"
proof (cases r)
  case (Reply u)
  then show ?thesis using set_reply assms by blast
next
  case Fault
  then show ?thesis using set_fault assms by blast
qed

lemma evolves_claim: "idem_claim R t u x s = (r, s') \<Longrightarrow> evolves live t s s'"
  by (rule evolves_key [of "idem_key u x"]) (auto intro: idem_claim_frame)

lemma evolves_persist: "idem_persist R t u x j s = (r, s') \<Longrightarrow> evolves live t s s'"
  by (rule evolves_key [of "idem_key u x"]) (auto intro: idem_persist_live)

lemma evolves_release: "idem_release R t u x s = (r, s') \<Longrightarrow> evolves live t s s'"
  by (rule evolves_key [of "idem_key u x"]) (auto intro: idem_release_live)

lemma evolves_token: "consume_token R t h s = (r, s') \<Longrightarrow> evolves live t s s'"
  by (rule evolves_key [of "vtoken_key h"]) (auto intro: consume_token_live)

lemma evolves_store_token: "store_token R t h v s = (r, s') \<Longrightarrow> evolves live t s s'"
  by (rule evolves_key [of "vtoken_key h"]) (auto intro: store_token_live)

lemma evolves_invalidate: "invalidate_caches R t ps s = (r, s') \<Longrightarrow> evolves live t s s'"
  unfolding evolves_def using invalidate_live value_fits_party by metis

lemma evolves_consume_inquiry: "consume_inquiry R t i s = (r, s') \<Longrightarrow> evolves live t s s'"
proof (rule evolves_key [of "inquiry_key i"])
  assume c: "consume_inquiry R t i s = (r, s')"
  then have "api_getdel R t (inquiry_key i) s = (fst (api_getdel R t (inquiry_key i) s), s')"
    using consume_inquiry_getdel [of t i s] by (simp add: prod_eq_iff)
  then show "t \<le> t' \<Longrightarrow> live s' t' (inquiry_key i) = Some v \<Longrightarrow>
      live s' t' (inquiry_key i) = live s t' (inquiry_key i) \<or> value_fits (inquiry_key i) v" for t' v
    using getdel_gone_or_same by force
qed (auto intro: consume_inquiry_frame)

lemma evolves_store_inquiry:
  assumes "store_inquiry R t q s = (r, s')" "inquiry_fits q"
  shows "evolves live t s s'"
proof (rule evolves_key [of "inquiry_key (iq_id q)"])
  fix t' v assume t: "t \<le> t'" and v: "live s' t' (inquiry_key (iq_id q)) = Some v"
  show "live s' t' (inquiry_key (iq_id q)) = live s t' (inquiry_key (iq_id q)) \<or> value_fits (inquiry_key (iq_id q)) v"
    using set_cases [OF assms(1) [unfolded store_inquiry_def] t] v value_fits_inquiry [OF assms(2)]
    by (auto simp: shows_put_def split: if_splits)
qed (use assms(1) in \<open>auto intro: store_inquiry_live\<close>)

lemma evolves_store_decoded:
  assumes "store_decoded R t i q s = (r, s')" "sen (dq_amount q)"
  shows "evolves live t s s'"
proof (rule evolves_key [of "decoded_key i"])
  fix t' v assume t: "t \<le> t'" and v: "live s' t' (decoded_key i) = Some v"
  show "live s' t' (decoded_key i) = live s t' (decoded_key i) \<or> value_fits (decoded_key i) v"
    using set_cases [OF assms(1) [unfolded store_decoded_def] t] v value_fits_decoded [OF assms(2)]
    by (auto simp: shows_put_def split: if_splits)
qed (use assms(1) set_frame in \<open>auto simp: store_decoded_def\<close>)

lemma evolves_get_decoded: "get_decoded R t i s = (r, s') \<Longrightarrow> evolves live t s s'"
  unfolding evolves_def get_decoded_def
  by (auto split: prod.splits reply.splits option.splits rval.splits dest: get_frame)

lemma evolves_consume_decoded: "consume_decoded R t i s = (r, s') \<Longrightarrow> evolves live t s s'"
proof -
  assume c: "consume_decoded R t i s = (r, s')"
  obtain g s1 where g: "get_decoded R t i s = (g, s1)" by force
  note e1 = evolves_get_decoded [OF g]
  show ?thesis
  proof (cases "\<exists>q. g = Reply (Some q)")
    case True
    then obtain u where d: "api_del R t (decoded_key i) s1 = (u, s')"
      using c g by (auto simp: consume_decoded_def prod_eq_iff)
    have "evolves live t s1 s'"
      by (rule evolves_key [of "decoded_key i"]) (use d del_frame del_never_creates in \<open>auto\<close>)
    with e1 show ?thesis by (rule evolves_trans)
  next
    case False
    then have "s' = s1" using c g by (auto simp: consume_decoded_def split: reply.splits option.splits)
    with e1 show ?thesis by simp
  qed
qed

end

subsection \<open>Handlers keep the caches fit\<close>

text \<open>
  An invariant that reads the state of Redis only through \<open>caches_fit\<close> and nothing of the tables;
  \<open>Q\<close> speaks of the local variables of the handler.
\<close>

definition steady :: "(('s, 'z) world_scheme \<Rightarrow> bool) \<Rightarrow> bool" where
  "steady Q \<longleftrightarrow> (\<forall>w s d n. Q (w\<lparr>kv := s\<rparr>) = Q w \<and> Q (w\<lparr>pg := d\<rparr>) = Q w \<and> Q (w\<lparr>sent := n\<rparr>) = Q w)"

definition fit_state ::
    "('s \<Rightarrow> time \<Rightarrow> string \<Rightarrow> rval option) \<Rightarrow> time \<Rightarrow> (('s, 'z) world_scheme \<Rightarrow> bool) \<Rightarrow> ('s, 'z) world_scheme \<Rightarrow> bool" where
  "fit_state live t Q w \<longleftrightarrow> caches_fit live t (kv w) \<and> Q w"

lemma steady_True [keeps_intros]: "steady (\<lambda>_. True)"
  by (simp add: steady_def)

lemma keeps_sql [keeps_intros]:
  assumes "steady Q"
  shows "keeps (fit_state live t Q) (sql_read E q f)" "keeps (fit_state live t Q) (sql_exec E q g)"
  "keeps (fit_state live t Q) (best_effort_sql E q g)" "keeps (fit_state live t Q) (notify_transaction E n)"
  "keeps (fit_state live t Q) (on_pg m)"
  using assms by (auto simp: steady_def keeps_def fit_state_def sql_read_def sql_exec_def best_effort_sql_def
      notify_transaction_def on_pg_def split: if_splits prod.splits sum.splits)

lemma keeps_kv:
  assumes st: "steady Q" and fit: "\<And>s r s'. f s = (r, s') \<Longrightarrow> caches_fit live t s \<Longrightarrow> caches_fit live t s'"
  shows "keeps (fit_state live t Q) (on_kv f)" "keeps (fit_state live t Q) (best_effort_kv f)"
proof -
  show "keeps (fit_state live t Q) (on_kv f)"
    using st fit by (auto simp: steady_def keeps_def fit_state_def on_kv_def split: prod.splits reply.splits)
  show "keeps (fit_state live t Q) (best_effort_kv f)"
    using st fit [OF prod.collapse [symmetric]] by (auto simp: steady_def keeps_def fit_state_def best_effort_kv_def)
qed

text \<open>What the deferred undo would put back is fit.\<close>

definition inquiry_kept :: "'s call \<Rightarrow> bool" where
  "inquiry_kept w \<longleftrightarrow> (\<forall>q. restore_inquiry w = Some q \<longrightarrow> inquiry_fits q)"

definition decoded_kept :: "'s pay_call \<Rightarrow> bool" where
  "decoded_kept w \<longleftrightarrow> (\<forall>q. restore_decoded w = Some q \<longrightarrow> sen (dq_amount q))"

lemma steady_kept [keeps_intros]: "steady inquiry_kept" "steady decoded_kept"
  by (simp_all add: steady_def inquiry_kept_def decoded_kept_def)

lemma keeps_locals [keeps_intros]:
  "keeps (fit_state live t inquiry_kept) (\<lambda>w. (Inr (), w\<lparr>restore_vtoken := h\<rparr>))"
  "keeps (fit_state live t decoded_kept) (\<lambda>w. (Inr (), w\<lparr>restore_ptoken := h\<rparr>))"
  by (auto simp: keeps_def fit_state_def inquiry_kept_def decoded_kept_def)

context redis_contract
begin

lemma evolves_keeps:
  assumes st: "steady Q" and ev: "\<And>s r s'. f s = (r, s') \<Longrightarrow> evolves live t s s'"
  shows "keeps (fit_state live t Q) (on_kv f)" "keeps (fit_state live t Q) (best_effort_kv f)"
proof -
  have f: "caches_fit live t s'" if "f s = (r, s')" "caches_fit live t s" for s r s'
    using evolves_fit [OF ev [OF that(1)] that(2)] .
  show "keeps (fit_state live t Q) (on_kv f)" by (rule keeps_kv(1) [OF st f])
  show "keeps (fit_state live t Q) (best_effort_kv f)" by (rule keeps_kv(2) [OF st f])
qed

lemma keeps_redis [keeps_intros]:
  assumes "steady Q"
  shows "keeps (fit_state live t Q) (on_kv (consume_token R t h))"
    and "keeps (fit_state live t Q) (on_kv (consume_inquiry R t i))"
    and "keeps (fit_state live t Q) (on_kv (consume_decoded R t i))"
    and "keeps (fit_state live t Q) (best_effort_kv (store_token R t h v))"
    and "keeps (fit_state live t Q) (best_effort_kv (idem_persist R t u k j))"
    and "keeps (fit_state live t Q) (best_effort_kv (invalidate_caches R t ps))"
    and "inquiry_fits q \<Longrightarrow> keeps (fit_state live t Q) (best_effort_kv (store_inquiry R t q))"
    and "inquiry_fits q \<Longrightarrow> keeps (fit_state live t Q) (on_kv (store_inquiry R t q))"
    and "sen (dq_amount d) \<Longrightarrow> keeps (fit_state live t Q) (on_kv (store_decoded R t i d))"
  by (rule evolves_keeps [OF assms], erule evolves_token)
    (rule evolves_keeps [OF assms], erule evolves_consume_inquiry,
     rule evolves_keeps [OF assms], erule evolves_consume_decoded,
     rule evolves_keeps [OF assms], erule evolves_store_token,
     rule evolves_keeps [OF assms], erule evolves_persist,
     rule evolves_keeps [OF assms], erule evolves_invalidate,
     (rule evolves_keeps [OF assms], erule (1) evolves_store_inquiry)+,
     rule evolves_keeps [OF assms], erule (1) evolves_store_decoded)

text \<open>A consumed inquiry or code was fit, so it may be kept for the undo.\<close>

lemma keeps_take_inquiry [keeps_intros]:
  "keeps (fit_state live (en_now E) inquiry_kept) (take_transfer_inquiry R E u req)"
  "keeps (fit_state live (en_now E) inquiry_kept) (take_topup_inquiry R E u treq)"
proof -
  have aux: "fit_state live (en_now E) inquiry_kept w'"
    if "fit_state live (en_now E) inquiry_kept w"
      "svc_bind (on_kv (consume_inquiry R (en_now E) i)) (\<lambda>r. svc_bind (svc_option InquiryExpired r) (\<lambda>q.
         svc_seq (fail_if (iq_user q \<noteq> u) InquiryExpired) (\<lambda>w. (Inr q, w\<lparr>restore_inquiry := Some q\<rparr>)))) w = (r, w')"
    for w :: "'s call" and r w' i
  proof -
    obtain c s where c: "consume_inquiry R (en_now E) i (kv w) = (c, s)" by force
    have fit: "caches_fit live (en_now E) s"
      using evolves_fit [OF evolves_consume_inquiry [OF c]] that(1) by (simp add: fit_state_def)
    have "inquiry_fits q" if "c = Reply (Some q)" for q
      using inquiries.take_some [of "en_now E" i "kv w" q s] c that \<open>fit_state live (en_now E) inquiry_kept w\<close>
      by (auto simp: fit_state_def intro: caches_fit_inquiry)
    then show ?thesis
      using that c fit
      by (auto simp: svc_defs fit_state_def inquiry_kept_def split: reply.splits option.splits if_splits prod.splits sum.splits)
  qed
  show "keeps (fit_state live (en_now E) inquiry_kept) (take_transfer_inquiry R E u req)"
    "keeps (fit_state live (en_now E) inquiry_kept) (take_topup_inquiry R E u treq)"
    using aux by (auto simp: keeps_def take_transfer_inquiry_def take_topup_inquiry_def)
qed

lemma keeps_take_decoded [keeps_intros]:
  "keeps (fit_state live (en_now E) decoded_kept) (take_decoded R E req)"
  unfolding keeps_def
proof (intro allI impI)
  fix w r w' assume w: "fit_state live (en_now E) decoded_kept w" and t: "take_decoded R E req w = (r, w')"
  obtain c s where c: "consume_decoded R (en_now E) (pq_qris req) (kv w) = (c, s)" by force
  have fit: "caches_fit live (en_now E) s"
    using evolves_fit [OF evolves_consume_decoded [OF c]] w by (simp add: fit_state_def)
  have "sen (dq_amount q)" if "c = Reply (Some q)" for q
    using consume_decoded_reply(1) [of "en_now E" "pq_qris req" "kv w" q s] c that w
    by (auto simp: fit_state_def intro: caches_fit_decoded)
  then show "fit_state live (en_now E) decoded_kept w'"
    using t c w fit
    by (auto simp: take_decoded_def svc_defs fit_state_def decoded_kept_def
        split: reply.splits option.splits if_splits prod.splits sum.splits)
qed

lemma keeps_parts [keeps_intros]:
  "keeps (fit_state live (en_now E) inquiry_kept) (take_transfer_token L R E u req)"
  "keeps (fit_state live (en_now E) inquiry_kept) (take_topup_token L R E u treq)"
  "keeps (fit_state live (en_now E) decoded_kept) (take_pay_token L R E u preq)"
  by (simp_all only: take_transfer_token_def take_topup_token_def take_pay_token_def Let_def)
    (intro keeps_intros)+

lemma keeps_at_state: "(\<And>w0. keeps P (m w0)) \<Longrightarrow> keeps P (\<lambda>w. m w w)"
  by (auto simp: keeps_def)

lemma keeps_finish [keeps_intros]:
  "keeps (fit_state live (en_now E) inquiry_kept) (finish_transfer L R E u req key acct p t)"
  "keeps (fit_state live (en_now E) inquiry_kept) (finish_topup L R E u key acct tp t)"
  "keeps (fit_state live (en_now E) decoded_kept) (finish_pay L R E u key acct pp t)"
proof -
  show "keeps (fit_state live (en_now E) inquiry_kept) (finish_transfer L R E u req key acct p t)"
    unfolding finish_transfer_def [abs_def] Let_def by (rule keeps_at_state) (intro keeps_intros)
  show "keeps (fit_state live (en_now E) inquiry_kept) (finish_topup L R E u key acct tp t)"
    unfolding finish_topup_def Let_def by (intro keeps_intros)
  show "keeps (fit_state live (en_now E) decoded_kept) (finish_pay L R E u key acct pp t)"
    unfolding finish_pay_def Let_def by (intro keeps_intros)
qed

lemma keeps_flows:
  "keeps (fit_state live (en_now E) inquiry_kept) (transfer_flow L R E u req key)"
  "keeps (fit_state live (en_now E) inquiry_kept) (topup_flow L R E u treq key)"
  "keeps (fit_state live (en_now E) decoded_kept) (pay_flow L R E u preq key)"
  unfolding transfer_flow_def topup_flow_def pay_flow_def prepare_transfer_def prepare_topup_def prepare_pay_def
  by (intro keeps_intros; simp add: case_prod_beta; intro keeps_intros)+

lemma fit_snd:
  assumes "caches_fit live t s"
  shows "caches_fit live t (snd (idem_claim R t u k s))" "caches_fit live t (snd (idem_release R t u k s))"
    "caches_fit live t (snd (store_token R t h v s))"
    "inquiry_fits q \<Longrightarrow> caches_fit live t (snd (store_inquiry R t q s))"
    "sen (dq_amount d) \<Longrightarrow> caches_fit live t (snd (store_decoded R t i d s))"
proof -
  note ev = evolves_fit [OF _ assms]
  show "caches_fit live t (snd (idem_claim R t u k s))" "caches_fit live t (snd (idem_release R t u k s))"
    "caches_fit live t (snd (store_token R t h v s))"
    by (rule ev, rule evolves_claim, rule prod.collapse [symmetric])
      (rule ev, rule evolves_release, rule prod.collapse [symmetric],
       rule ev, rule evolves_store_token, rule prod.collapse [symmetric])
  show "caches_fit live t (snd (store_inquiry R t q s))" if "inquiry_fits q"
    by (rule ev, rule evolves_store_inquiry, rule prod.collapse [symmetric]) (rule that)
  show "caches_fit live t (snd (store_decoded R t i d s))" if "sen (dq_amount d)"
    by (rule ev, rule evolves_store_decoded, rule prod.collapse [symmetric]) (rule that)
qed

lemma undo_fit:
  "fit_state live (en_now E) inquiry_kept w \<Longrightarrow> caches_fit live (en_now E) (kv (undo_transfer R E u key w))"
  "fit_state live (en_now E) inquiry_kept w \<Longrightarrow> caches_fit live (en_now E) (kv (undo_topup R E u key w))"
  "fit_state live (en_now E) decoded_kept v \<Longrightarrow> caches_fit live (en_now E) (kv (undo_pay R E u key v))"
  by (auto simp: undo_transfer_def undo_topup_def undo_pay_def Let_def fit_state_def inquiry_kept_def
      decoded_kept_def fit_snd split: option.splits)

subsection \<open>Every request keeps the caches fit\<close>

lemma execute_fit:
  assumes fit: "caches_fit live (en_now E) (kv w)"
  shows "execute_transfer L R E u ereq key w = (a, w1) \<Longrightarrow> caches_fit live (en_now E) (kv w1)"
    and "execute_topup L R E u ureq key w = (b, w2) \<Longrightarrow> caches_fit live (en_now E) (kv w2)"
    and "execute_pay L R E u preq key w = (c, w3) \<Longrightarrow> caches_fit live (en_now E) (kv w3)"
proof -
  obtain q s where claim: "idem_claim R (en_now E) u key (kv w) = (q, s)" by fastforce
  have s: "caches_fit live (en_now E) s" using fit_snd(1) [OF fit, of u key] claim by simp
  let ?call = "world.extend (w\<lparr>kv := s\<rparr>) \<lparr>restore_inquiry = None, restore_vtoken = ''''\<rparr>"
  let ?pay = "world.extend (w\<lparr>kv := s\<rparr>) \<lparr>restore_decoded = None, restore_ptoken = ''''\<rparr>"
  have start: "fit_state live (en_now E) inquiry_kept ?call" "fit_state live (en_now E) decoded_kept ?pay"
    using s by (simp_all add: fit_state_def inquiry_kept_def decoded_kept_def world.extend_def)
  show "caches_fit live (en_now E) (kv w1)" if ex: "execute_transfer L R E u ereq key w = (a, w1)"
  proof -
    obtain f v where f: "transfer_flow L R E u ereq key ?call = (f, v)" by fastforce
    have "fit_state live (en_now E) inquiry_kept v" using keepsD [OF keeps_flows(1) start(1) f] .
    then show ?thesis
      using ex claim f s undo_fit(1) by (auto simp: execute_transfer_def Let_def fit_state_def
          split: reply.splits if_splits sum.splits)
  qed
  show "caches_fit live (en_now E) (kv w2)" if ex: "execute_topup L R E u ureq key w = (b, w2)"
  proof -
    obtain f v where f: "topup_flow L R E u ureq key ?call = (f, v)" by fastforce
    have "fit_state live (en_now E) inquiry_kept v" using keepsD [OF keeps_flows(2) start(1) f] .
    then show ?thesis
      using ex claim f s undo_fit(2) by (auto simp: execute_topup_def Let_def fit_state_def
          split: reply.splits if_splits sum.splits)
  qed
  show "caches_fit live (en_now E) (kv w3)" if ex: "execute_pay L R E u preq key w = (c, w3)"
  proof -
    obtain f v where f: "pay_flow L R E u preq key ?pay = (f, v)" by fastforce
    have "fit_state live (en_now E) decoded_kept v" using keepsD [OF keeps_flows(3) start(2) f] .
    then show ?thesis
      using ex claim f s undo_fit(3) by (auto simp: execute_pay_def Let_def fit_state_def
          split: reply.splits if_splits sum.splits)
  qed
qed

lemma new_inquiry_fits: "fee = 0 \<or> fee = 6500 \<Longrightarrow> inquiry_fits (new_inquiry E u req dn db bc fee)"
  using sen_of_int [of 6500]
  by (auto simp: inquiry_fits_def new_inquiry_def transfer_fee_def)

lemma new_topup_inquiry_fits:
  "0 \<le> pr_fee p \<Longrightarrow> sen (pr_fee p) \<Longrightarrow> 0 \<le> ti_amount req \<Longrightarrow> inquiry_fits (new_topup_inquiry L E u req p n src)"
  by (auto simp: inquiry_fits_def new_topup_inquiry_def transfer_fee_def)

lemma create_inquiry_fit:
  assumes "caches_fit live (en_now E) (kv w)" "create_inquiry R E u req w = (x, w')"
  shows "caches_fit live (en_now E) (kv w') \<and> same_ledger (pg w) (pg w')"
proof (cases x)
  case (Inl e)
  then show ?thesis using assms by (auto simp: create_inquiry_def resolve_inquiry_def Let_def split: if_splits)
next
  case (Inr y)
  then show ?thesis
    using assms by (auto simp: create_inquiry_def resolve_inquiry_def Let_def fit_snd new_inquiry_fits split: if_splits)
qed

lemma token_requests_fit:
  assumes "caches_fit live (en_now E) (kv w)"
  shows "create_verification_token L R E u purpose w = (y, w1) \<Longrightarrow>
      caches_fit live (en_now E) (kv w1) \<and> same_ledger (pg w) (pg w1)"
    and "consume_verification_token L R E u raw purpose w = (z, w2) \<Longrightarrow>
      caches_fit live (en_now E) (kv w2) \<and> same_ledger (pg w) (pg w2)"
proof -
  show "caches_fit live (en_now E) (kv w1) \<and> same_ledger (pg w) (pg w1)"
    if "create_verification_token L R E u purpose w = (y, w1)"
    using that assms by (cases y) (auto simp: create_verification_token_def Let_def fit_snd)
  show "caches_fit live (en_now E) (kv w2) \<and> same_ledger (pg w) (pg w2)"
    if "consume_verification_token L R E u raw purpose w = (z, w2)"
  proof
    have "keeps (fit_state live (en_now E) (\<lambda>_. True)) (consume_verification_token L R E u raw purpose)"
      unfolding consume_verification_token_def by (intro keeps_intros)
    from keepsD [OF this _ that] show "caches_fit live (en_now E) (kv w2)" using assms by (simp add: fit_state_def)
    show "same_ledger (pg w) (pg w2)"
      using that by (cases z) (auto simp: consume_verification_token_def)
  qed
qed

lemma topup_inquiry_fit:
  assumes "caches_fit live (en_now E) (kv w)" "topup_inquiry L R E u req w = (x, w')" "providers_ok (pg w)"
  shows "caches_fit live (en_now E) (kv w') \<and> pg w' = pg w"
proof -
  have "caches_fit live (en_now E) s'" if "find_provider (pg w) i = Some p" "\<not> of_int (ti_amount req) < pr_min p"
    "store_inquiry R (en_now E) (new_topup_inquiry L E u req p n src) (kv w) = (r, s')" for i p n src r s'
  proof -
    have p: "0 \<le> pr_min p" "0 \<le> pr_fee p" "sen (pr_fee p)"
      using that(1) assms(3) by (auto simp: find_provider_def providers_ok_def dest: find_Some_D)
    then have "0 \<le> (of_int (ti_amount req) :: rat)" using that(2) by linarith
    then have "0 \<le> ti_amount req" by simp
    then show ?thesis
      using fit_snd(4) [OF assms(1) new_topup_inquiry_fits [OF p(2,3)]] that(3) by (metis snd_conv)
  qed
  then show ?thesis
    using assms(1,2)
    by (cases x) (auto simp: topup_inquiry_def lookup_name_def Let_def split: lookup_result.splits)
qed

lemma decode_fit:
  assumes "caches_fit live (en_now E) (kv w)" "decode_qris L R E raw w = (x, w')" "sen_payload L raw"
  shows "caches_fit live (en_now E) (kv w') \<and> pg w' = pg w"
proof (cases "parse_emvco L raw")
  case (Parsed q0)
  let ?q = "q0\<lparr>dq_id := en_id E, dq_expires := rfc3339 L (en_now E + decode_cache_ttl)\<rparr>"
  have "caches_fit live (en_now E) (snd (store_decoded R (en_now E) (en_id E) ?q (kv w)))"
    using fit_snd(5) [OF assms(1), of ?q] assms(3) Parsed by (simp add: sen_payload_def)
  then show ?thesis
    using assms(2) Parsed by (cases x) (auto simp: decode_qris_def Let_def)
qed (use assms in \<open>auto simp: decode_qris_def svc_throw_def\<close>)

subsection \<open>The invariant of the system\<close>

lemma same_ledger_system:
  "same_ledger d d' \<Longrightarrow> ledger_ok d \<Longrightarrow> providers_ok d \<Longrightarrow>
     ledger_ok d' \<and> total_money (accounts d') = total_money (accounts d) \<and> providers_ok d'"
  by (simp add: same_ledger_ok) (simp add: same_ledger_def providers_ok_def)

lemma execute_providers:
  "execute_transfer L R E u ereq key w = (a, w1) \<Longrightarrow> ewallet_providers (pg w1) = ewallet_providers (pg w)"
  "execute_pay L R E u preq key w = (c, w2) \<Longrightarrow> ewallet_providers (pg w2) = ewallet_providers (pg w)"
proof -
  show "ewallet_providers (pg w1) = ewallet_providers (pg w)" if "execute_transfer L R E u ereq key w = (a, w1)"
    using that
  proof (cases rule: execute_transfer_ledger)
    case same
    then show ?thesis by simp
  next
    case (ran q acct p x d s1 s2 s3 c)
    then show ?thesis
      using transfer.keeps_providers [of L "en_attempts E" p "pg w" x d]
      by (simp add: execute_transfer_tx_run same_ledger_def)
  qed
  show "ewallet_providers (pg w2) = ewallet_providers (pg w)" if "execute_pay L R E u preq key w = (c, w2)"
    using that
  proof (cases rule: execute_pay_ledger)
    case same
    then show ?thesis by simp
  next
    case (ran q acct p x s1 s2 s3 c)
    then show ?thesis
      using pay.keeps_providers [of L "en_attempts E" p "pg w" x "pg w2"] by (simp add: execute_pay_tx_run)
  qed
qed

text \<open>A handler that keeps the caches fit and the ledger sound keeps the whole invariant.\<close>

lemma system_okI:
  assumes "system_ok live m (t, w)" "t \<le> u"
    and "caches_fit live u (kv w) \<Longrightarrow> ledger_ok (pg w) \<Longrightarrow> providers_ok (pg w) \<Longrightarrow>
      caches_fit live u (kv w') \<and> ledger_ok (pg w') \<and> total_money (accounts (pg w')) = total_money (accounts (pg w))
      \<and> providers_ok (pg w')"
  shows "system_ok live m (u, w')"
proof -
  have w: "caches_fit live u (kv w)" "ledger_ok (pg w)" "providers_ok (pg w)"
    "total_money (accounts (pg w)) = m"
    using assms(1) caches_fit_later [OF _ assms(2)] by (auto simp: system_ok_def)
  show ?thesis using assms(3) [OF w(1-3)] w(4) by (simp add: system_ok_def)
qed

lemma request_system_ok:
  assumes "request L R x y" "system_ok live m x"
  shows "system_ok live m y"
  using assms
proof (induction rule: request.induct)
  case (transfer_inquiry t E u ireq w x w')
  show ?case
    by (rule system_okI [OF transfer_inquiry(3,1)])
      (use create_inquiry_fit [OF _ transfer_inquiry(2)] same_ledger_system in blast)
next
  case (pin_verified t E u purpose w y w')
  show ?case
    by (rule system_okI [OF pin_verified(3,1)])
      (use token_requests_fit(1) [OF _ pin_verified(2)] same_ledger_system in blast)
next
  case (token_spent t E u raw purpose w z w')
  show ?case
    by (rule system_okI [OF token_spent(3,1)])
      (use token_requests_fit(2) [OF _ token_spent(2)] same_ledger_system in blast)
next
  case (transfer t E u ereq key w a w')
  show ?case
  proof (rule system_okI [OF transfer(3,1)])
    assume w: "caches_fit live (en_now E) (kv w)" "ledger_ok (pg w)" "providers_ok (pg w)"
    then show "caches_fit live (en_now E) (kv w') \<and> ledger_ok (pg w')
        \<and> total_money (accounts (pg w')) = total_money (accounts (pg w)) \<and> providers_ok (pg w')"
      using execute_fit(1) [OF w(1) transfer(2)] request_ledger_ok [OF transfer(2) w(2)] caches_fit_inquiry [OF w(1)]
        execute_providers(1) [OF transfer(2)] by (simp add: providers_ok_def)
  qed
next
  case (topup_inquiry t E u treq w b w')
  show ?case
    by (rule system_okI [OF topup_inquiry(3,1)])
      (use topup_inquiry_fit [OF _ topup_inquiry(2)] in simp)
next
  case (topup t E u ureq key w c w')
  show ?case
    by (rule system_okI [OF topup(3,1)])
      (use execute_fit(2) [OF _ topup(2)] topup_never_posts [OF topup(2)] in simp)
next
  case (decode t E raw w d w')
  show ?case
    by (rule system_okI [OF decode(4,1)]) (use decode_fit [OF _ decode(3,2)] in simp)
next
  case (pay t E u preq key w e w')
  show ?case
  proof (rule system_okI [OF pay(3,1)])
    assume w: "caches_fit live (en_now E) (kv w)" "ledger_ok (pg w)" "providers_ok (pg w)"
    then show "caches_fit live (en_now E) (kv w') \<and> ledger_ok (pg w')
        \<and> total_money (accounts (pg w')) = total_money (accounts (pg w)) \<and> providers_ok (pg w')"
      using execute_fit(3) [OF w(1) pay(2)] pay_ledger_ok [OF pay(2) w(2)] caches_fit_decoded [OF w(1)]
        execute_providers(2) [OF pay(2)] by (simp add: providers_ok_def)
  qed
qed

lemma requests_system_ok:
  assumes "(request L R)\<^sup>*\<^sup>* x y" "system_ok live m x"
  shows "system_ok live m y"
  using assms by (induction rule: rtranclp_induct) (auto intro: request_system_ok)

end

end
