(* ===== verification/Numbers.thy ===== *)
theory Numbers
  imports Posting Service
begin

text \<open>
  Reference numbers and amounts as digits: the scrambling of \<open>next_reference_number\<close> is a
  bijection, so numbers of one day do not repeat before the sequence wraps; the grouping loop of
  \<open>formatIDR\<close> is the recursive splitting into thousands.
\<close>

subsection \<open>Reference numbers\<close>

text \<open>An inverse of the multiplier modulo \<open>10^8\<close>.\<close>

definition unscramble :: "nat \<Rightarrow> nat" where
  "unscramble x = x * 31650667 mod 100000000"

lemma unscramble_scramble:
  assumes "x < 100000000"
  shows "unscramble (scramble x) = x"
proof -
  have "unscramble (scramble x) = x * (1327144003 * 31650667) mod 100000000"
    by (simp add: unscramble_def scramble_def mod_mult_left_eq mult.assoc)
  also have "\<dots> = x * (1327144003 * 31650667 mod 100000000) mod 100000000"
    by (simp only: mod_mult_right_eq)
  also have "\<dots> = x" using assms by simp
  finally show ?thesis .
qed

lemma scramble_less: "scramble x < 100000000"
  by (simp add: scramble_def)

text \<open>The product stays below \<open>2^63\<close>, so the \<open>BIGINT\<close> arithmetic of the function does not overflow.\<close>

lemma scramble_no_overflow:
  fixes raw :: nat
  assumes "raw \<le> 99999999"
  shows "raw * 1327144003 < 2 ^ 63"
proof -
  have "raw * 1327144003 \<le> 99999999 * 1327144003" using assms by (rule mult_le_mono1)
  also have "\<dots> < (2 :: nat) ^ 63" by simp
  finally show ?thesis .
qed

text \<open>The sequence walks through \<open>1 .. 99999999\<close> and starts over.\<close>

lemma next_seq_iter:
  "1 \<le> s \<Longrightarrow> s \<le> 99999999 \<Longrightarrow> (next_seq ^^ i) s = (s - 1 + i) mod 99999999 + 1"
proof (induction i)
  case (Suc i)
  then have "(next_seq ^^ Suc i) s = next_seq ((s - 1 + i) mod 99999999 + 1)" by simp
  also have "\<dots> = (s - 1 + Suc i) mod 99999999 + 1"
    using mod_less_divisor [of 99999999 "s - 1 + i"] by (auto simp: next_seq_def mod_Suc)
  finally show ?case .
qed simp

lemma shifted_mod_inj:
  assumes "(c + i) mod n = (c + j) mod n" "i < n" "j < (n :: nat)"
  shows "i = j"
proof -
  have aux: "i = j" if "i \<le> j" "(c + i) mod n = (c + j) mod n" "j < n" for i j :: nat
  proof -
    have "n dvd (c + j) - (c + i)" using that mod_eq_dvd_iff_nat [of "c + i" "c + j" n] by auto
    then show ?thesis using that by (auto dest: dvd_imp_le)
  qed
  show ?thesis using aux [of i j] aux [of j i] assms by (cases "i \<le> j") auto
qed

lemma length_fixed_digits [simp]: "length (fixed_digits w n) = w"
  by (induction w n rule: fixed_digits.induct) simp_all

lemma digit_char_inj:
  assumes "a < 10" "b < 10" "digit_char a = digit_char b"
  shows "a = b"
proof -
  have "(of_char (digit_char x) :: nat) = 48 + x" if "x < 10" for x
    using that by (simp add: digit_char_def)
  then show ?thesis using assms by (metis add_left_cancel)
qed

lemma fixed_digits_mod: "fixed_digits w (n mod 10 ^ w) = fixed_digits w n"
proof (induction w arbitrary: n)
  case (Suc w)
  have "n mod 10 ^ Suc w = 10 * (n div 10 mod 10 ^ w) + n mod 10"
    by (simp add: mod_mult2_eq)
  then have "n mod 10 ^ Suc w div 10 = n div 10 mod 10 ^ w" "n mod 10 ^ Suc w mod 10 = n mod 10"
    by simp_all
  then show ?case using Suc by (simp del: power_Suc)
qed simp

lemma fixed_digits_inj:
  "fixed_digits w a = fixed_digits w b \<Longrightarrow> a < 10 ^ w \<Longrightarrow> b < 10 ^ w \<Longrightarrow> a = b"
proof (induction w arbitrary: a b)
  case (Suc w)
  then have "fixed_digits w (a div 10) = fixed_digits w (b div 10)" "digit_char (a mod 10) = digit_char (b mod 10)"
    by simp_all
  moreover have "a div 10 < 10 ^ w" "b div 10 < 10 ^ w" using Suc.prems by (simp_all add: less_mult_imp_div_less)
  ultimately have "a div 10 = b div 10" "a mod 10 = b mod 10"
    using Suc.IH digit_char_inj [of "a mod 10" "b mod 10"] by auto
  then show ?case by (metis div_mult_mod_eq)
qed simp

lemma reference_number_inj:
  assumes "reference_number L day a = reference_number L day b" "a < 100000000" "b < 100000000"
  shows "a = b"
proof -
  have "fixed_digits 8 (scramble a) = fixed_digits 8 (scramble b)"
    using assms(1) by (simp add: reference_number_def)
  then have "scramble a = scramble b" using fixed_digits_inj [of 8] scramble_less by simp
  then show ?thesis using unscramble_scramble assms(2,3) by metis
qed

text \<open>The numbers \<open>m\<close> and \<open>n\<close> draws ahead differ on every day, unless a whole cycle lies between them.\<close>

lemma reference_numbers_distinct:
  assumes "1 \<le> s" "s \<le> 99999999" "m < 99999999" "n < 99999999" "m \<noteq> n"
  shows "reference_number L day ((next_seq ^^ m) s) \<noteq> reference_number L day ((next_seq ^^ n) s)"
proof
  assume eq: "reference_number L day ((next_seq ^^ m) s) = reference_number L day ((next_seq ^^ n) s)"
  have lt: "(next_seq ^^ k) s < 100000000" for k
    using next_seq_iter [OF assms(1,2), of k] mod_less_divisor [of 99999999 "s - 1 + k"] by linarith
  have "(s - 1 + m) mod 99999999 = (s - 1 + n) mod 99999999"
    using reference_number_inj [OF eq lt lt] next_seq_iter [OF assms(1,2)] by simp
  then show False using shifted_mod_inj assms(3-5) by blast
qed

subsection \<open>Amounts\<close>

text \<open>Thousands, the specification.\<close>

fun thousands :: "nat \<Rightarrow> string" where
  "thousands n = (if n < 1000 then digits_of n else thousands (n div 1000) @ ''.'' @ fixed_digits 3 (n mod 1000))"

declare thousands.simps [simp del]

lemma digits_of_nonempty [simp]: "digits_of n \<noteq> []"
  by (subst digits_of.simps) simp

lemma digits_of_split: "1000 \<le> n \<Longrightarrow> digits_of n = digits_of (n div 1000) @ fixed_digits 3 (n mod 1000)"
proof -
  assume n: "1000 \<le> n"
  have d: "m \<ge> 10 \<Longrightarrow> digits_of m = digits_of (m div 10) @ [digit_char (m mod 10)]" for m
    by (subst digits_of.simps) simp
  have "digits_of n = digits_of (n div 10 div 10 div 10) @ fixed_digits 3 n"
    using n by (simp add: d [of n] d [of "n div 10"] d [of "n div 10 div 10"] numeral_3_eq_3)
  moreover have "n div 10 div 10 div 10 = n div 1000" by (simp add: div_mult2_eq [symmetric])
  moreover have "fixed_digits 3 (n mod 1000) = fixed_digits 3 n" using fixed_digits_mod [of 3 n] by simp
  ultimately show ?thesis by simp
qed

lemma length_digits_of_small: "n < 1000 \<Longrightarrow> length (digits_of n) \<le> 3"
  by (subst digits_of.simps, subst digits_of.simps, subst digits_of.simps) simp

text \<open>A short string gets no dot; three more digits at the end get one dot before them.\<close>

lemma group_digits_short: "length ds \<le> 3 \<Longrightarrow> group_digits 0 ds = ds"
  by (cases ds; cases "tl ds"; cases "tl (tl ds)"; cases "tl (tl (tl ds))") auto

lemma group_digits_append:
  "length ys = 3 \<Longrightarrow> xs \<noteq> [] \<or> 0 < i \<Longrightarrow> group_digits i (xs @ ys) = group_digits i xs @ ''.'' @ ys"
proof (induction xs arbitrary: i)
  case Nil
  then obtain a b c where "ys = [a, b, c]" by (auto simp: length_Suc_conv numeral_3_eq_3)
  then show ?case using Nil by simp
next
  case (Cons x xs)
  have "Suc (length (xs @ ys)) mod 3 = Suc (length xs) mod 3"
    using Cons.prems(1) mod_add_self2 [of "Suc (length xs)" 3] by simp
  then show ?case using Cons.IH [of "Suc i"] Cons.prems(1) by simp
qed

theorem group_digits_thousands: "group_digits 0 (digits_of n) = thousands n"
proof (induction n rule: thousands.induct)
  case (1 n)
  show ?case
  proof (cases "n < 1000")
    case True
    then show ?thesis
      by (simp add: thousands.simps [of n] group_digits_short length_digits_of_small)
  next
    case False
    then show ?thesis
      using 1 group_digits_append [of "fixed_digits 3 (n mod 1000)" "digits_of (n div 1000)" 0]
      by (simp add: thousands.simps [of n] digits_of_split [of n])
  qed
qed

end
