(* ===== verification/Keyset.thy ===== *)
theory Keyset
  imports Service "HOL-Library.Product_Lexorder"
begin

text \<open>
  Keyset pagination, as an interface: a query that returns the first rows of a listing, or the first
  rows strictly behind a key, in descending order of the key. Walking from page to page with the key
  of the last row visits every row once. The statement and the history queries of
  \<open>internal/repository/postgres/transaction_repo.go\<close> meet it; the page handlers of
  \<open>internal/domain/transaction/service.go\<close> use it.
\<close>

text \<open>\<open>ORDER BY key DESC LIMIT n\<close>\<close>

definition top_rows :: "('r \<Rightarrow> 'k :: linorder) \<Rightarrow> nat \<Rightarrow> 'r list \<Rightarrow> 'r list" where
  "top_rows key n rs = take n (rev (sort_key key rs))"

lemma sorted_rev_sort: "sorted_wrt (\<lambda>a b. key b \<le> key a) (rev (sort_key key rs))"
proof -
  have "sorted_wrt (\<lambda>a b. key a \<le> key b) (sort_key key rs)"
    using sorted_sort_key [of key rs] by (simp add: sorted_map)
  then show ?thesis by (simp add: sorted_wrt_rev)
qed

lemma filter_sort_rev: "filter P (rev (sort_key key rs)) = rev (sort_key key (filter P rs))"
  by (simp add: filter_sort rev_filter [symmetric])

text \<open>A client that asks for the first page and follows the cursors, at most \<open>m\<close> times.\<close>

fun follow :: "(string \<Rightarrow> 'i list \<times> bool \<times> string) \<Rightarrow> nat \<Rightarrow> string \<Rightarrow> 'i list list" where
  "follow h 0 c = []"
| "follow h (Suc m) c = (case h c of (is, further, c') \<Rightarrow> is # (if further then follow h m c' else []))"

text \<open>What a page handler does with a query of \<open>limit + 1\<close> rows: the page, and whether there is more.\<close>

definition cut_page :: "nat \<Rightarrow> 'r list \<Rightarrow> 'r list \<times> bool" where
  "cut_page n rs = (if n < List.length rs then (take n rs, True) else (rs, False))"

lemma last_take: "0 < n \<Longrightarrow> n < List.length xs \<Longrightarrow> last (take n xs) = xs ! (n - 1)"
  by (subst last_conv_nth) auto

locale keyset =
  fixes query :: "'k :: linorder option \<Rightarrow> nat \<Rightarrow> 'd \<Rightarrow> 'r list"
    and key :: "'r \<Rightarrow> 'k" and rows :: "'d \<Rightarrow> 'r list"
  assumes first: "query None n d = take n (rows d)"
    and behind: "query (Some k) n d = take n (filter (\<lambda>r. key r < k) (rows d))"
    and descending: "sorted_wrt (\<lambda>a b. key b \<le> key a) (rows d)"
begin

text \<open>One page of \<open>n\<close> rows, and the cursor of the next one when there is more.\<close>

definition page :: "'k option \<Rightarrow> nat \<Rightarrow> 'd \<Rightarrow> 'r list \<times> 'k option" where
  "page c n d = (case cut_page n (query c (Suc n) d) of
     (rs, further) \<Rightarrow> (rs, if further then Some (key (last rs)) else None))"

text \<open>All pages, following the cursors.\<close>

fun walk :: "nat \<Rightarrow> 'k option \<Rightarrow> nat \<Rightarrow> 'd \<Rightarrow> 'r list list" where
  "walk 0 c n d = []"
| "walk (Suc m) c n d = (case page c n d of
     (rs, None) \<Rightarrow> [rs] | (rs, Some k) \<Rightarrow> rs # walk m (Some k) n d)"

lemma behind_prefix:
  assumes dist: "distinct (map key (rows d))" and i: "i < length (rows d)"
  shows "filter (\<lambda>r. key r < key (rows d ! i)) (rows d) = drop (Suc i) (rows d)"
proof -
  have strict: "key (rows d ! b) < key (rows d ! a)" if "a < b" "b < length (rows d)" for a b
  proof -
    have "key (rows d ! b) \<le> key (rows d ! a)"
      using descending [of d] that by (simp add: sorted_wrt_iff_nth_less)
    moreover have "key (rows d ! b) \<noteq> key (rows d ! a)"
      using dist that by (auto simp: distinct_conv_nth)
    ultimately show ?thesis by simp
  qed
  let ?P = "\<lambda>r. key r < key (rows d ! i)"
  have "filter ?P (take (Suc i) (rows d)) = []"
  proof -
    have "\<not> ?P (rows d ! a)" if "a \<le> i" for a
      using strict [of a i] that i by (cases "a = i") auto
    then show ?thesis using i by (auto simp: filter_empty_conv in_set_conv_nth)
  qed
  moreover have "filter ?P (drop (Suc i) (rows d)) = drop (Suc i) (rows d)"
    using strict i by (auto simp: filter_id_conv in_set_conv_nth)
  moreover have "filter ?P (rows d) = filter ?P (take (Suc i) (rows d)) @ filter ?P (drop (Suc i) (rows d))"
    by (metis append_take_drop_id filter_append)
  ultimately show ?thesis by simp
qed

text \<open>The page behind the first \<open>j\<close> rows.\<close>

lemma page_at:
  assumes "distinct (map key (rows d))" "0 < n" "0 < j" "j \<le> length (rows d)"
  shows "page (Some (key (rows d ! (j - 1)))) n d =
    (take n (drop j (rows d)), if j + n < length (rows d) then Some (key (rows d ! (j + n - 1))) else None)"
proof -
  have "query (Some (key (rows d ! (j - 1)))) (Suc n) d = take (Suc n) (drop j (rows d))"
    using assms behind_prefix [of d "j - 1"] by (simp add: behind)
  then show ?thesis
    using assms by (auto simp: page_def cut_page_def last_conv_nth min_def add.commute)
qed

lemma page_first:
  assumes "0 < n"
  shows "page None n d = (take n (rows d), if n < length (rows d) then Some (key (rows d ! (n - 1))) else None)"
  using assms last_take [of n "rows d"] by (auto simp: page_def cut_page_def first)

lemma walk_from:
  assumes "distinct (map key (rows d))" "0 < n" "0 < j" "j \<le> length (rows d)" "length (rows d) < j + m * n"
  shows "concat (walk m (Some (key (rows d ! (j - 1)))) n d) = drop j (rows d)"
  using assms
proof (induction m arbitrary: j)
  case 0
  then show ?case by simp
next
  case (Suc m)
  show ?case
  proof (cases "j + n < length (rows d)")
    case True
    then have "concat (walk m (Some (key (rows d ! (j + n - 1)))) n d) = drop (j + n) (rows d)"
      using Suc.prems by (intro Suc.IH) (auto simp: algebra_simps)
    then show ?thesis
      using True page_at [OF Suc.prems(1-4)]
      by simp (metis add.commute append_take_drop_id drop_drop)
  next
    case False
    then show ?thesis using page_at [OF Suc.prems(1-4)] by simp
  qed
qed

text \<open>Following the cursors visits every row once, in order, in at most \<open>length / n + 1\<close> pages.\<close>

theorem walk_all:
  assumes "distinct (map key (rows d))" "0 < n" "length (rows d) < m * n"
  shows "concat (walk m None n d) = rows d"
proof (cases m)
  case 0
  then show ?thesis using assms by simp
next
  case (Suc l)
  show ?thesis
  proof (cases "n < length (rows d)")
    case True
    then have "concat (walk l (Some (key (rows d ! (n - 1)))) n d) = drop n (rows d)"
      using assms Suc by (intro walk_from) auto
    then show ?thesis using True Suc page_first [OF assms(2)] by simp
  next
    case False
    then show ?thesis using Suc page_first [OF assms(2)] by simp
  qed
qed

text \<open>The cursor a page ends with belongs to one of the rows.\<close>

lemma page_cursor:
  assumes "page c n d = (rs, Some k)" "0 < n"
  shows "k \<in> key ` set (rows d)"
proof -
  let ?q = "query c (Suc n) d"
  have rs: "rs = take n ?q" "n < length ?q" "k = key (last rs)"
    using assms(1) by (auto simp: page_def cut_page_def split: if_splits)
  then have "rs \<noteq> []" using assms(2) by auto
  then have "last rs \<in> set ?q" using rs by (meson in_set_takeD last_in_set)
  moreover have "set ?q \<subseteq> set (rows d)"
    by (cases c) (auto simp: first behind dest: in_set_takeD)
  ultimately show ?thesis using rs by blast
qed

text \<open>A client of a handler that answers with the pages, their cursors as text.\<close>

lemma follow_walk:
  assumes h: "\<And>c rs k. c = None \<or> c \<in> Some ` key ` set (rows d) \<Longrightarrow> page c n d = (rs, k) \<Longrightarrow>
      h (cursor c) = (map item rs, k \<noteq> None, cursor k)"
    and n: "0 < n" and c: "c = None \<or> c \<in> Some ` key ` set (rows d)"
  shows "follow h m (cursor c) = map (map item) (walk m c n d)"
  using c
proof (induction m arbitrary: c)
  case 0
  then show ?case by simp
next
  case (Suc m)
  obtain rs k where p: "page c n d = (rs, k)" by force
  show ?case
  proof (cases k)
    case None
    then show ?thesis using h [OF Suc.prems p] p by simp
  next
    case (Some x)
    then have "k \<in> Some ` key ` set (rows d)" using page_cursor p n by auto
    then show ?thesis using h [OF Suc.prems p] p Some Suc.IH [of k] by simp
  qed
qed

end

end
