(* ===== verification/Statements.thy ===== *)
theory Statements
  imports Keyset "HOL-Library.Monad_Syntax"
begin

text \<open>
  The statement and the history of \<open>internal/domain/transaction/service.go\<close> with their queries in
  \<open>internal/repository/postgres/transaction_repo.go\<close> and the cursors of
  \<open>internal/pkg/pagination/cursor.go\<close>: keyset pages, newest first.
\<close>

subsection \<open>Formats\<close>

text \<open>
  More of the third-party code: \<open>Decimal.String\<close>, the layouts of the \<open>time\<close> package, and the
  encoding of a cursor, JSON in base64. \<open>cursor_doc\<close> gives for a text that is well-formed the value
  every field of the cursor struct receives, the empty string when the document has none.
\<close>

record fmt = lib +
  dec_string :: "decimal \<Rightarrow> string"
  ymd :: "date \<Rightarrow> string"
  parse_ymd :: "string \<Rightarrow> date option"
  hms :: "nat \<Rightarrow> string"
  rfc_nano :: "time \<Rightarrow> string"
  parse_rfc_nano :: "string \<Rightarrow> time option"
  cursor_text :: "(string \<times> string) list \<Rightarrow> string"
  cursor_doc :: "string \<Rightarrow> (string \<Rightarrow> string) option"
  long_date :: "time \<Rightarrow> string"
  hour_minute :: "time \<Rightarrow> string"

text \<open>What the documentation of these packages promises.\<close>

definition codec_ok :: "('a) fmt_scheme \<Rightarrow> bool" where
  "codec_ok F \<longleftrightarrow> (\<forall>ms. cursor_text F ms \<noteq> '''' \<and>
       cursor_doc F (cursor_text F ms) = Some (\<lambda>k. case map_of ms k of None \<Rightarrow> '''' | Some v \<Rightarrow> v))
     \<and> (\<forall>d. parse_ymd F (ymd F d) = Some d) \<and> (\<forall>t. parse_rfc_nano F (rfc_nano F t) = Some t)"

definition str_of :: "string option \<Rightarrow> string" where
  "str_of s = (case s of None \<Rightarrow> '''' | Some x \<Rightarrow> x)"

subsection \<open>Cursors\<close>

definition mutation_cursor_text :: "'a fmt_scheme \<Rightarrow> date \<times> time \<times> uuid \<Rightarrow> string" where
  "mutation_cursor_text F = (\<lambda>(d, t, i).
     cursor_text F [(''d'', ymd F d), (''c'', rfc_nano F t), (''i'', i)])"

definition decode_mutation_cursor :: "'a fmt_scheme \<Rightarrow> string \<Rightarrow> (date \<times> time \<times> uuid) option" where
  "decode_mutation_cursor F s = do {
     f \<leftarrow> cursor_doc F s;
     d \<leftarrow> parse_ymd F (f ''d'');
     t \<leftarrow> parse_rfc_nano F (f ''c'');
     i \<leftarrow> parse_uuid F (f ''i'');
     Some (d, t, i) }"

definition history_cursor_text :: "'a fmt_scheme \<Rightarrow> time \<times> uuid \<Rightarrow> string" where
  "history_cursor_text F = (\<lambda>(t, i). cursor_text F [(''c'', rfc_nano F t), (''i'', i)])"

definition decode_history_cursor :: "'a fmt_scheme \<Rightarrow> string \<Rightarrow> (time \<times> uuid) option" where
  "decode_history_cursor F s = do {
     f \<leftarrow> cursor_doc F s;
     t \<leftarrow> parse_rfc_nano F (f ''c'');
     i \<leftarrow> parse_uuid F (f ''i'');
     Some (t, i) }"

lemma decode_mutation_cursor_text [simp]:
  "codec_ok F \<Longrightarrow> parse_uuid F i = Some i \<Longrightarrow>
     decode_mutation_cursor F (mutation_cursor_text F (d, t, i)) = Some (d, t, i)"
  by (simp add: decode_mutation_cursor_def mutation_cursor_text_def codec_ok_def)

lemma decode_history_cursor_text [simp]:
  "codec_ok F \<Longrightarrow> parse_uuid F i = Some i \<Longrightarrow>
     decode_history_cursor F (history_cursor_text F (t, i)) = Some (t, i)"
  by (simp add: decode_history_cursor_def history_cursor_text_def codec_ok_def)

subsection \<open>The queries\<close>

text \<open>An inclusive range of WIB days.\<close>

record date_range =
  dr_from :: date
  dr_to :: date

definition mut_key :: "mutation \<Rightarrow> date \<times> time \<times> uuid" where
  "mut_key m = (mu_date m, mu_created m, mu_id m)"

definition hist_key :: "transaction \<Rightarrow> time \<times> uuid" where
  "hist_key t = (tx_created t, tx_id t)"

definition statement_where :: "uuid \<Rightarrow> date_range option \<Rightarrow> mutation \<Rightarrow> bool" where
  "statement_where acc period m \<longleftrightarrow> mu_account m = acc
     \<and> (case period of None \<Rightarrow> True | Some r \<Rightarrow> dr_from r \<le> mu_date m \<and> mu_date m \<le> dr_to r)"

text \<open>
  \<open>ListByAccountID\<close>: \<open>(transaction_date, created_at, id) < cursor\<close>, newest first.
\<close>

definition list_mutation_rows ::
    "uuid \<Rightarrow> date_range option \<Rightarrow> (date \<times> time \<times> uuid) option \<Rightarrow> nat \<Rightarrow> db \<Rightarrow> mutation list" where
  "list_mutation_rows acc period cursor n d =
     top_rows mut_key n (filter (\<lambda>m. case cursor of None \<Rightarrow> True | Some k \<Rightarrow> mut_key m < k)
       (filter (statement_where acc period) (mutations d)))"

text \<open>
  The bounds of the range are midnights in Asia/Jakarta, compared as instants: \<open>created_at\<close> is not
  before the first and before the midnight after the last.
\<close>

definition history_where :: "uuid \<Rightarrow> string option \<Rightarrow> date_range option \<Rightarrow> transaction \<Rightarrow> bool" where
  "history_where user ty period t \<longleftrightarrow> tx_user t = user
     \<and> (case ty of None \<Rightarrow> True | Some y \<Rightarrow> tx_type t = y)
     \<and> (case period of None \<Rightarrow> True | Some r \<Rightarrow> dr_from r * hours 24 \<le> tx_created t + hours 7
          \<and> tx_created t + hours 7 < dr_to r * hours 24 + hours 24)"

definition list_history_rows ::
    "uuid \<Rightarrow> string option \<Rightarrow> date_range option \<Rightarrow> (time \<times> uuid) option \<Rightarrow> nat \<Rightarrow> db \<Rightarrow> transaction list" where
  "list_history_rows user ty period cursor n d =
     top_rows hist_key n (filter (\<lambda>t. case cursor of None \<Rightarrow> True | Some k \<Rightarrow> hist_key t < k)
       (filter (history_where user ty period) (transactions d)))"

text \<open>The whole listings, which the pages cut.\<close>

definition statement_rows :: "uuid \<Rightarrow> date_range option \<Rightarrow> db \<Rightarrow> mutation list" where
  "statement_rows acc period d = rev (sort_key mut_key (filter (statement_where acc period) (mutations d)))"

definition history_rows :: "uuid \<Rightarrow> string option \<Rightarrow> date_range option \<Rightarrow> db \<Rightarrow> transaction list" where
  "history_rows user ty period d = rev (sort_key hist_key (filter (history_where user ty period) (transactions d)))"

interpretation statement: keyset "list_mutation_rows acc period" mut_key "statement_rows acc period" for acc period
  by unfold_locales
    (simp_all add: list_mutation_rows_def statement_rows_def top_rows_def filter_sort_rev sorted_rev_sort del: filter_filter)

interpretation history: keyset "list_history_rows user ty period" hist_key "history_rows user ty period" for user ty period
  by unfold_locales
    (simp_all add: list_history_rows_def history_rows_def top_rows_def filter_sort_rev sorted_rev_sort del: filter_filter)

text \<open>A day of the range is a WIB calendar day, as it is for the statement.\<close>

lemma history_days:
  "dr_from r * hours 24 \<le> t + hours 7 \<and> t + hours 7 < dr_to r * hours 24 + hours 24
     \<longleftrightarrow> dr_from r \<le> wib_date t \<and> wib_date t \<le> dr_to r"
proof -
  have "0 < hours 24" by (simp add: duration_defs)
  then have "dr_from r \<le> wib_date t \<longleftrightarrow> dr_from r * hours 24 \<le> t + hours 7"
    by (simp add: wib_date_def less_eq_div_iff_mult_less_eq)
  moreover have "wib_date t < Suc (dr_to r) \<longleftrightarrow> t + hours 7 < Suc (dr_to r) * hours 24"
    using \<open>0 < hours 24\<close> by (simp add: wib_date_def div_less_iff_less_mult del: mult_Suc)
  ultimately show ?thesis by (auto simp: less_Suc_eq_le add.commute)
qed

subsection \<open>The page handlers\<close>

record mutation_item =
  mi_id :: string
  mi_type :: mutation_type
  mi_amount :: string
  mi_before :: string
  mi_after :: string
  mi_desc :: string
  mi_detail :: string
  mi_category :: string
  mi_ref :: string
  mi_date :: string
  mi_time :: string
  mi_created :: string

definition to_mutation_item :: "'a fmt_scheme \<Rightarrow> mutation \<Rightarrow> mutation_item" where
  "to_mutation_item F m =
     \<lparr>mi_id = mu_id m, mi_type = mu_type m, mi_amount = dec_string F (mu_amount m),
      mi_before = dec_string F (mu_before m), mi_after = dec_string F (mu_after m),
      mi_desc = mu_desc m, mi_detail = str_of (mu_detail m), mi_category = str_of (mu_category m),
      mi_ref = str_of (mu_ref m), mi_date = ymd F (mu_date m), mi_time = hms F (mu_time m),
      mi_created = rfc3339 F (mu_created m)\<rparr>"

record transaction_item =
  xi_id :: string
  xi_type :: string
  xi_status :: string
  xi_amount :: string
  xi_fee :: string
  xi_total :: string
  xi_currency :: string
  xi_ref :: string
  xi_desc :: string
  xi_notes :: string
  xi_dest :: string
  xi_dest_name :: string
  xi_dest_bank :: string
  xi_created :: string

definition to_transaction_item :: "'a fmt_scheme \<Rightarrow> transaction \<Rightarrow> transaction_item" where
  "to_transaction_item F t =
     \<lparr>xi_id = tx_id t, xi_type = tx_type t, xi_status = tx_status t, xi_amount = dec_string F (tx_amount t),
      xi_fee = dec_string F (tx_fee t), xi_total = dec_string F (tx_total t), xi_currency = tx_currency t,
      xi_ref = tx_ref t, xi_desc = str_of (tx_desc t), xi_notes = str_of (tx_notes t),
      xi_dest = str_of (tx_dest t), xi_dest_name = str_of (tx_dest_name t),
      xi_dest_bank = str_of (tx_dest_bank t), xi_created = rfc3339 F (tx_created t)\<rparr>"

definition page_limit :: "int \<Rightarrow> nat" where
  "page_limit l = (if l \<le> 0 \<or> 50 < l then 20 else nat l)"

definition cursor_arg :: "(string \<Rightarrow> 'k option) \<Rightarrow> string \<Rightarrow> ('w, 'k option) svc" where
  "cursor_arg dec s = (if s = '''' then svc_return None
     else case dec s of None \<Rightarrow> svc_throw ValidationError | Some k \<Rightarrow> svc_return (Some k))"

text \<open>Items, whether there are more, and the text of the next cursor.\<close>

definition page_reply :: "('r \<Rightarrow> 'i) \<Rightarrow> ('r \<Rightarrow> string) \<Rightarrow> nat \<Rightarrow> 'r list \<Rightarrow> 'i list \<times> bool \<times> string" where
  "page_reply item text limit rs =
     (let (page, further) = cut_page limit rs in
      (map item page, further, if further \<and> page \<noteq> [] then text (last page) else ''''))"

definition list_mutations ::
    "'a fmt_scheme \<Rightarrow> env \<Rightarrow> uuid \<Rightarrow> uuid \<Rightarrow> string \<Rightarrow> int \<Rightarrow> date_range option
      \<Rightarrow> (('s, 'z) world_scheme, mutation_item list \<times> bool \<times> string) svc" where
  "list_mutations F E user acc cursor limit period =
     svc_bind (sql_read E QFindOwned (\<lambda>d. find_owned_by_id d user acc)) (\<lambda>owned.
     svc_seq (fail_if (owned = None) SourceAccountForbidden)
    (svc_bind (cursor_arg (decode_mutation_cursor F) cursor) (\<lambda>k.
     svc_bind (sql_read E QListMutations (list_mutation_rows acc period k (Suc (page_limit limit)))) (\<lambda>rows.
       svc_return (page_reply (to_mutation_item F) (\<lambda>m. mutation_cursor_text F (mut_key m))
         (page_limit limit) rows)))))"

definition list_history ::
    "'a fmt_scheme \<Rightarrow> env \<Rightarrow> uuid \<Rightarrow> string option \<Rightarrow> date_range option \<Rightarrow> string \<Rightarrow> int
      \<Rightarrow> (('s, 'z) world_scheme, transaction_item list \<times> bool \<times> string) svc" where
  "list_history F E user ty period cursor limit =
     svc_bind (cursor_arg (decode_history_cursor F) cursor) (\<lambda>k.
     svc_bind (sql_read E QListHistory (list_history_rows user ty period k (Suc (page_limit limit)))) (\<lambda>rows.
       svc_return (page_reply (to_transaction_item F) (\<lambda>t. history_cursor_text F (hist_key t))
         (page_limit limit) rows)))"

subsection \<open>What a client sees\<close>

definition reply_of :: "(app_err + 'i list \<times> bool \<times> string) \<times> 'w \<Rightarrow> 'i list \<times> bool \<times> string" where
  "reply_of x = (case fst x of Inr p \<Rightarrow> p | Inl _ \<Rightarrow> ([], False, ''''))"

definition cursor_of :: "('k \<Rightarrow> string) \<Rightarrow> 'k option \<Rightarrow> string" where
  "cursor_of text k = (case k of None \<Rightarrow> '''' | Some x \<Rightarrow> text x)"

lemma page_limit_pos: "0 < page_limit l" "page_limit l \<le> 50"
  by (auto simp: page_limit_def)

lemma cursor_arg_text:
  assumes "\<And>x. k = Some x \<Longrightarrow> dec (text x) = Some x \<and> text x \<noteq> ''''"
  shows "cursor_arg dec (cursor_of text k) = svc_return k"
  using assms by (auto simp: cursor_arg_def cursor_of_def split: option.splits)

lemma page_reply_page:
  assumes "0 < n"
  shows "page_reply item (\<lambda>r. text (key r)) n rs =
    (map item (fst (cut_page n rs)), snd (cut_page n rs),
     cursor_of text (if snd (cut_page n rs) then Some (key (last (fst (cut_page n rs)))) else None))"
  using assms by (auto simp: page_reply_def cut_page_def cursor_of_def)

lemma mutation_text:
  assumes "codec_ok F" "m \<in> set (mutations d)" "\<forall>m \<in> set (mutations d). parse_uuid F (mu_id m) = Some (mu_id m)"
  shows "decode_mutation_cursor F (mutation_cursor_text F (mut_key m)) = Some (mut_key m)
    \<and> mutation_cursor_text F (mut_key m) \<noteq> ''''"
  using assms by (simp add: mut_key_def) (simp add: mutation_cursor_text_def codec_ok_def)

lemma history_text:
  assumes "codec_ok F" "t \<in> set (transactions d)" "\<forall>t \<in> set (transactions d). parse_uuid F (tx_id t) = Some (tx_id t)"
  shows "decode_history_cursor F (history_cursor_text F (hist_key t)) = Some (hist_key t)
    \<and> history_cursor_text F (hist_key t) \<noteq> ''''"
  using assms by (simp add: hist_key_def) (simp add: history_cursor_text_def codec_ok_def)

lemma set_statement_rows: "set (statement_rows acc period d) = {m \<in> set (mutations d). statement_where acc period m}"
  by (simp add: statement_rows_def)

lemma set_history_rows: "set (history_rows user ty period d) = {t \<in> set (transactions d). history_where user ty period t}"
  by (simp add: history_rows_def)

text \<open>A page of the handler is a page of the listing.\<close>

lemma list_mutations_page:
  assumes F: "codec_ok F" "\<forall>m \<in> set (mutations (pg w)). parse_uuid F (mu_id m) = Some (mu_id m)"
    and E: "\<not> en_fault E QFindOwned" "\<not> en_fault E QListMutations"
    and owned: "find_owned_by_id (pg w) user acc = Some a"
    and c: "c = None \<or> c \<in> Some ` mut_key ` set (statement_rows acc period (pg w))"
    and page: "statement.page acc period c (page_limit limit) (pg w) = (rs, k)"
  shows "list_mutations F E user acc (cursor_of (mutation_cursor_text F) c) limit period w =
    (Inr (map (to_mutation_item F) rs, k \<noteq> None, cursor_of (mutation_cursor_text F) k), w)"
proof -
  have arg: "cursor_arg (decode_mutation_cursor F) (cursor_of (mutation_cursor_text F) c) = svc_return c"
    using c mutation_text [OF F(1) _ F(2)] by (intro cursor_arg_text) (auto simp: set_statement_rows)
  show ?thesis
    using E owned page page_limit_pos(1) [of limit]
    by (auto simp: list_mutations_def arg svc_defs page_reply_page statement.page_def
        split: prod.splits if_splits simp del: not_None_eq)
qed

lemma list_history_page:
  assumes F: "codec_ok F" "\<forall>t \<in> set (transactions (pg w)). parse_uuid F (tx_id t) = Some (tx_id t)"
    and E: "\<not> en_fault E QListHistory"
    and c: "c = None \<or> c \<in> Some ` hist_key ` set (history_rows user ty period (pg w))"
    and page: "history.page user ty period c (page_limit limit) (pg w) = (rs, k)"
  shows "list_history F E user ty period (cursor_of (history_cursor_text F) c) limit w =
    (Inr (map (to_transaction_item F) rs, k \<noteq> None, cursor_of (history_cursor_text F) k), w)"
proof -
  have arg: "cursor_arg (decode_history_cursor F) (cursor_of (history_cursor_text F) c) = svc_return c"
    using c history_text [OF F(1) _ F(2)] by (intro cursor_arg_text) (auto simp: set_history_rows)
  show ?thesis
    using E page page_limit_pos(1) [of limit]
    by (auto simp: list_history_def arg svc_defs page_reply_page history.page_def
        split: prod.splits if_splits)
qed

text \<open>Keys are distinct because they hold the primary key.\<close>

lemma distinct_mut_keys:
  assumes "distinct (map mu_id (mutations d))"
  shows "distinct (map mut_key (statement_rows acc period d))"
proof -
  have "distinct (map mut_key (mutations d))"
    using assms by (auto simp: distinct_map inj_on_def mut_key_def)
  then have "distinct (map mut_key (filter (statement_where acc period) (mutations d)))"
    by (rule distinct_map_filter)
  then show ?thesis by (simp add: statement_rows_def distinct_map)
qed

lemma distinct_hist_keys:
  assumes "distinct (map tx_id (transactions d))"
  shows "distinct (map hist_key (history_rows user ty period d))"
proof -
  have "distinct (map hist_key (transactions d))"
    using assms by (auto simp: distinct_map inj_on_def hist_key_def)
  then have "distinct (map hist_key (filter (history_where user ty period) (transactions d)))"
    by (rule distinct_map_filter)
  then show ?thesis by (simp add: history_rows_def distinct_map)
qed

subsection \<open>The promises to the client\<close>

text \<open>Every page, also with a forged cursor, holds rows of the account, and the account is the caller's.\<close>

lemma set_top_rows: "set (top_rows key n rs) \<subseteq> set rs"
  by (auto simp: top_rows_def dest: in_set_takeD)

lemma set_page_reply: "page_reply item text n rs = (is, b, c) \<Longrightarrow> set is \<subseteq> item ` set rs"
  using set_take_subset [of n rs] by (fastforce simp: page_reply_def cut_page_def split: if_splits)

lemma list_mutations_own:
  assumes "list_mutations F E user acc cursor limit period w = (Inr (items, further, next_cursor), w')"
  shows "w' = w \<and> length items \<le> 50 \<and> (\<exists>a. find_owned_by_id (pg w) user acc = Some a)
    \<and> set items \<subseteq> to_mutation_item F ` {m \<in> set (mutations (pg w)). statement_where acc period m}"
proof -
  from assms obtain k a where owned: "find_owned_by_id (pg w) user acc = Some a" and w': "w' = w"
    and r: "(items, further, next_cursor) = page_reply (to_mutation_item F) (\<lambda>m. mutation_cursor_text F (mut_key m))
      (page_limit limit) (list_mutation_rows acc period k (Suc (page_limit limit)) (pg w))"
    by (auto simp: list_mutations_def cursor_arg_def split: if_splits option.splits)
  have "set items \<subseteq> to_mutation_item F ` {m \<in> set (mutations (pg w)). statement_where acc period m}"
    using set_page_reply [OF r [symmetric]] set_top_rows by (fastforce simp: list_mutation_rows_def)
  moreover have "length items \<le> page_limit limit"
    using r by (auto simp: page_reply_def cut_page_def split: if_splits)
  ultimately show ?thesis using owned w' page_limit_pos(2) [of limit] by simp
qed

lemma list_history_own:
  assumes "list_history F E user ty period cursor limit w = (Inr (items, further, next_cursor), w')"
  shows "w' = w \<and> length items \<le> 50
    \<and> set items \<subseteq> to_transaction_item F ` {t \<in> set (transactions (pg w)). history_where user ty period t}"
proof -
  from assms obtain k where w': "w' = w"
    and r: "(items, further, next_cursor) = page_reply (to_transaction_item F) (\<lambda>m. history_cursor_text F (hist_key m))
      (page_limit limit) (list_history_rows user ty period k (Suc (page_limit limit)) (pg w))"
    by (auto simp: list_history_def cursor_arg_def split: if_splits option.splits)
  have "set items \<subseteq> to_transaction_item F ` {t \<in> set (transactions (pg w)). history_where user ty period t}"
    using set_page_reply [OF r [symmetric]] set_top_rows by (fastforce simp: list_history_rows_def)
  moreover have "length items \<le> page_limit limit"
    using r by (auto simp: page_reply_def cut_page_def split: if_splits)
  ultimately show ?thesis using w' page_limit_pos(2) [of limit] by simp
qed

text \<open>Following the cursors shows every row of the listing once, newest first.\<close>

lemma statement_complete:
  assumes F: "codec_ok F" "\<forall>m \<in> set (mutations (pg w)). parse_uuid F (mu_id m) = Some (mu_id m)"
    and E: "\<not> en_fault E QFindOwned" "\<not> en_fault E QListMutations"
    and owned: "find_owned_by_id (pg w) user acc = Some a"
    and ids: "distinct (map mu_id (mutations (pg w)))"
    and m: "length (statement_rows acc period (pg w)) < m * page_limit limit"
  shows "concat (follow (\<lambda>c. reply_of (list_mutations F E user acc c limit period w)) m '''')
    = map (to_mutation_item F) (statement_rows acc period (pg w))"
proof -
  let ?h = "\<lambda>c. reply_of (list_mutations F E user acc c limit period w)"
  have "follow ?h m (cursor_of (mutation_cursor_text F) None)
      = map (map (to_mutation_item F)) (statement.walk acc period m None (page_limit limit) (pg w))"
    by (rule statement.follow_walk)
      (use list_mutations_page [OF F E owned] page_limit_pos(1) in \<open>auto simp: reply_of_def\<close>)
  then show ?thesis
    using statement.walk_all [OF distinct_mut_keys [OF ids] page_limit_pos(1) m]
    by (simp add: cursor_of_def flip: map_concat)
qed

lemma history_complete:
  assumes F: "codec_ok F" "\<forall>t \<in> set (transactions (pg w)). parse_uuid F (tx_id t) = Some (tx_id t)"
    and E: "\<not> en_fault E QListHistory"
    and ids: "distinct (map tx_id (transactions (pg w)))"
    and m: "length (history_rows user ty period (pg w)) < m * page_limit limit"
  shows "concat (follow (\<lambda>c. reply_of (list_history F E user ty period c limit w)) m '''')
    = map (to_transaction_item F) (history_rows user ty period (pg w))"
proof -
  let ?h = "\<lambda>c. reply_of (list_history F E user ty period c limit w)"
  have "follow ?h m (cursor_of (history_cursor_text F) None)
      = map (map (to_transaction_item F)) (history.walk user ty period m None (page_limit limit) (pg w))"
    by (rule history.follow_walk)
      (use list_history_page [OF F E] page_limit_pos(1) in \<open>auto simp: reply_of_def\<close>)
  then show ?thesis
    using history.walk_all [OF distinct_hist_keys [OF ids] page_limit_pos(1) m]
    by (simp add: cursor_of_def flip: map_concat)
qed

end
