(* ===== verification/Listings.thy ===== *)
theory Listings
  imports Statements EWallet_Service Request_Keys
begin

text \<open>
  The cached reads: the receipt of a transaction and the recent destinations
  (\<open>internal/domain/transaction/service.go\<close>), the e-wallet providers
  (\<open>internal/domain/ewallet/service.go\<close>), with the caches of
  \<open>internal/repository/redis/transaction_cache.go\<close> and \<open>ewallet_cache.go\<close>. All three read through:
  the cache, else the database and then a write to the cache, whose errors are only logged.
\<close>

subsection \<open>Reading through a cache\<close>

definition read_through ::
    "('s \<Rightarrow> 'a option reply \<times> 's) \<Rightarrow> ('a \<Rightarrow> 's \<Rightarrow> unit reply \<times> 's) \<Rightarrow> (('s, 'z) world_scheme, 'a) svc
      \<Rightarrow> (('s, 'z) world_scheme, 'a) svc" where
  "read_through get put load w = (case get (kv w) of
      (Reply (Some x), s) \<Rightarrow> (Inr x, w\<lparr>kv := s\<rparr>)
    | (_, s) \<Rightarrow> svc_bind load (\<lambda>x. svc_seq (best_effort_kv (put x)) (svc_return x)) (w\<lparr>kv := s\<rparr>))"

text \<open>
  The contract of such a cache: for the time to live it answers with what was put, as the encoding
  shows it.
\<close>

locale value_cache =
  fixes get :: "time \<Rightarrow> 's \<Rightarrow> 'a option reply \<times> 's" and put :: "time \<Rightarrow> 'a \<Rightarrow> 's \<Rightarrow> unit reply \<times> 's"
    and shown :: "'a \<Rightarrow> 'a" and ttl :: time
  assumes get_put: "put t x s = (Reply u, s1) \<Longrightarrow> t \<le> t' \<Longrightarrow> t' < t + ttl \<Longrightarrow>
    get t' s1 = (Reply g, s2) \<Longrightarrow> g = Some (shown x)"
begin

text \<open>After a load whose write succeeded, a read within the time to live does not load again.\<close>

lemma warm:
  assumes "read_through (get t) (put t) load w = (Inr x, w')" "fst (get t (kv w)) = Reply None"
    and "\<And>s. fst (put t x s) = Reply ()" "t \<le> t'" "t' < t + ttl" "fst (get t' (kv w')) \<noteq> Fault"
  shows "\<exists>w2. read_through (get t') (put t') load' w' = (Inr (shown x), w2) \<and> pg w2 = pg w' \<and> sent w2 = sent w'"
proof -
  obtain s where "get t (kv w) = (Reply None, s)" using assms(2) by (metis prod.collapse)
  then obtain w1 where w': "w' = w1\<lparr>kv := snd (put t x (kv w1))\<rparr>"
    using assms(1) by (auto simp: read_through_def svc_return_def)
  obtain s1 where p: "put t x (kv w1) = (Reply (), s1)" using assms(3) [of "kv w1"] by (metis prod.collapse)
  obtain g s2 where g: "get t' s1 = (Reply g, s2)"
    using assms(6) w' p by (metis prod.collapse reply.exhaust snd_conv world.select_convs(1) world.surjective world.update_convs(1))
  have "g = Some (shown x)" using get_put [OF p assms(4,5) g] .
  then show ?thesis using w' p g by (simp add: read_through_def)
qed

end

subsection \<open>Recent transfers\<close>

text \<open>\<open>ORDER BY last_transfer_at DESC NULLS LAST LIMIT n\<close>\<close>

definition last_rank :: "favorite_transfer \<Rightarrow> nat" where
  "last_rank f = (case fv_last f of None \<Rightarrow> 0 | Some t \<Rightarrow> Suc t)"

definition list_favorites :: "uuid \<Rightarrow> nat \<Rightarrow> db \<Rightarrow> favorite_transfer list" where
  "list_favorites user n d = top_rows last_rank n (filter (\<lambda>f. fv_user f = user) (favorite_transfers d))"

record recent_item =
  re_dest :: string
  re_dest_name :: string
  re_dest_bank :: string
  re_bank_code :: string
  re_type :: string
  re_count :: nat
  re_last :: string

definition to_recent_item :: "'a fmt_scheme \<Rightarrow> favorite_transfer \<Rightarrow> recent_item" where
  "to_recent_item F f =
     \<lparr>re_dest = fv_dest f, re_dest_name = fv_dest_name f, re_dest_bank = fv_dest_bank f,
      re_bank_code = fv_bank_code f, re_type = fv_type f, re_count = fv_count f,
      re_last = (case fv_last f of None \<Rightarrow> '''' | Some t \<Rightarrow> rfc3339 F t)\<rparr>"

definition list_recent ::
    "'a fmt_scheme \<Rightarrow> 's redis_api \<Rightarrow> env \<Rightarrow> uuid \<Rightarrow> (('s, 'z) world_scheme, recent_item list) svc" where
  "list_recent F R E user =
     svc_bind (read_through (get_recent R (en_now E) user) (set_recent R (en_now E) user)
         (sql_read E QListFavorites (list_favorites user 10)))
       (\<lambda>fs. svc_return (map (to_recent_item F) fs))"

text \<open>RFC 3339 has whole seconds, so the item of a cached favourite is the item of the row.\<close>

lemma to_recent_item_cached:
  "(\<And>t. rfc3339 F (to_seconds t) = rfc3339 F t) \<Longrightarrow> to_recent_item F (cached_favorite f) = to_recent_item F f"
  by (auto simp: to_recent_item_def cached_favorite_def split: option.splits)

subsection \<open>Receipts\<close>

record receipt =
  rc_txn :: string
  rc_type :: string
  rc_status :: string
  rc_date :: string
  rc_time :: string
  rc_ref :: string
  rc_source :: string
  rc_source_name :: string
  rc_dest :: string
  rc_dest_name :: string
  rc_dest_bank :: string
  rc_provider :: string
  rc_amount :: string
  rc_fee :: string
  rc_total :: string
  rc_currency :: string
  rc_notes :: string

definition omit_empty :: "string \<Rightarrow> string \<Rightarrow> (string \<times> json) list" where
  "omit_empty k v = (if v = '''' then [] else [(k, JStr v)])"

definition encode_receipt :: "receipt \<Rightarrow> json" where
  "encode_receipt r = JObj (
     [(''transaction_id'', JStr (rc_txn r)), (''type'', JStr (rc_type r)), (''status'', JStr (rc_status r)),
      (''date'', JStr (rc_date r)), (''time'', JStr (rc_time r)), (''reference_number'', JStr (rc_ref r))]
     @ omit_empty ''source_account'' (rc_source r) @ omit_empty ''source_name'' (rc_source_name r)
     @ omit_empty ''destination_account'' (rc_dest r) @ omit_empty ''destination_name'' (rc_dest_name r)
     @ omit_empty ''destination_bank'' (rc_dest_bank r) @ omit_empty ''provider_name'' (rc_provider r)
     @ [(''amount'', JStr (rc_amount r)), (''admin_fee'', JStr (rc_fee r)), (''total'', JStr (rc_total r)),
      (''currency'', JStr (rc_currency r))] @ omit_empty ''notes'' (rc_notes r))"

definition decode_receipt :: "json \<Rightarrow> receipt option" where
  "decode_receipt j = (case j of JObj p \<Rightarrow> do {
      a \<leftarrow> get_str p ''transaction_id''; b \<leftarrow> get_str p ''type''; c \<leftarrow> get_str p ''status'';
      d \<leftarrow> get_str p ''date''; e \<leftarrow> get_str p ''time''; f \<leftarrow> get_str p ''reference_number'';
      g \<leftarrow> get_str p ''source_account''; h \<leftarrow> get_str p ''source_name'';
      i \<leftarrow> get_str p ''destination_account''; k \<leftarrow> get_str p ''destination_name'';
      l \<leftarrow> get_str p ''destination_bank''; m \<leftarrow> get_str p ''provider_name'';
      n \<leftarrow> get_str p ''amount''; q \<leftarrow> get_str p ''admin_fee''; r \<leftarrow> get_str p ''total'';
      s \<leftarrow> get_str p ''currency''; t \<leftarrow> get_str p ''notes'';
      Some \<lparr>rc_txn = a, rc_type = b, rc_status = c, rc_date = d, rc_time = e, rc_ref = f, rc_source = g,
        rc_source_name = h, rc_dest = i, rc_dest_name = k, rc_dest_bank = l, rc_provider = m,
        rc_amount = n, rc_fee = q, rc_total = r, rc_currency = s, rc_notes = t\<rparr> }
    | _ \<Rightarrow> None)"

lemma map_of_append_omit [simp]:
  "map_of (omit_empty k v @ ps) x = (if x = k \<and> v \<noteq> '''' then Some (JStr v) else map_of ps x)"
  "map_of (omit_empty k v) x = (if x = k \<and> v \<noteq> '''' then Some (JStr v) else None)"
  by (simp_all add: omit_empty_def)

lemma decode_encode_receipt [simp]: "decode_receipt (encode_receipt r) = Some r"
  by (cases r) (simp add: decode_receipt_def encode_receipt_def json_get_defs del: map_of_append)

definition receipt_key :: "string \<Rightarrow> string" where
  "receipt_key i = ''cache:receipt:'' @ i"

definition get_receipt_cache :: "'s redis_api \<Rightarrow> time \<Rightarrow> string \<Rightarrow> 's \<Rightarrow> receipt option reply \<times> 's" where
  "get_receipt_cache R t i s = (case api_get R t (receipt_key i) s of
      (Fault, s1) \<Rightarrow> (Fault, s1)
    | (Reply None, s1) \<Rightarrow> (Reply None, s1)
    | (Reply (Some (RJson j)), s1) \<Rightarrow>
        (case decode_receipt j of None \<Rightarrow> (Fault, s1) | Some r \<Rightarrow> (Reply (Some r), s1))
    | (Reply (Some _), s1) \<Rightarrow> (Fault, s1))"

definition set_receipt_cache :: "'s redis_api \<Rightarrow> time \<Rightarrow> string \<Rightarrow> receipt \<Rightarrow> 's \<Rightarrow> unit reply \<times> 's" where
  "set_receipt_cache R t i r s = api_set R t (receipt_key i) (RJson (encode_receipt r)) receipt_cache_ttl s"

definition find_transaction :: "uuid \<Rightarrow> uuid \<Rightarrow> db \<Rightarrow> transaction option" where
  "find_transaction user i d = find (\<lambda>t. tx_id t = i \<and> tx_user t = user) (transactions d)"

definition find_active_accounts :: "uuid \<Rightarrow> db \<Rightarrow> account list" where
  "find_active_accounts user d =
     sort_key (\<lambda>a. (if ac_primary a then 0 else 1 :: nat, ac_opened a))
       (filter (\<lambda>a. ac_user a = Some user \<and> ac_status a = ACTIVE \<and> ac_owner a = CUSTOMER) (accounts d))"

text \<open>Number and label of the source account; both empty when the query fails or does not list it.\<close>

definition receipt_source :: "env \<Rightarrow> uuid \<Rightarrow> transaction \<Rightarrow> db \<Rightarrow> string \<times> string" where
  "receipt_source E user t d =
     (case tx_source t of
        None \<Rightarrow> ('''', '''')
      | Some i \<Rightarrow> if en_fault E QListActive then ('''', '''')
          else case find (\<lambda>a. ac_id a = i) (find_active_accounts user d) of
              None \<Rightarrow> ('''', '''') | Some a \<Rightarrow> (ac_number a, ac_label a))"

definition receipt_of :: "'a fmt_scheme \<Rightarrow> transaction \<Rightarrow> string \<times> string \<Rightarrow> receipt" where
  "receipt_of F t src =
     \<lparr>rc_txn = tx_id t, rc_type = tx_type t, rc_status = tx_status t, rc_date = long_date F (tx_created t),
      rc_time = hour_minute F (tx_created t), rc_ref = tx_ref t, rc_source = fst src, rc_source_name = snd src,
      rc_dest = str_of (tx_dest t), rc_dest_name = str_of (tx_dest_name t),
      rc_dest_bank = str_of (tx_dest_bank t), rc_provider = str_of (tx_provider_name t),
      rc_amount = string_fixed2 F (tx_amount t), rc_fee = string_fixed2 F (tx_fee t),
      rc_total = string_fixed2 F (tx_total t), rc_currency = tx_currency t, rc_notes = str_of (tx_notes t)\<rparr>"

definition get_receipt ::
    "'a fmt_scheme \<Rightarrow> 's redis_api \<Rightarrow> env \<Rightarrow> uuid \<Rightarrow> uuid \<Rightarrow> (('s, 'z) world_scheme, receipt) svc" where
  "get_receipt F R E user i =
     svc_bind (sql_read E QFindTxn (find_transaction user i)) (\<lambda>r.
     svc_bind (svc_option NotFound r) (\<lambda>t.
       read_through (get_receipt_cache R (en_now E) i) (set_receipt_cache R (en_now E) i)
         (\<lambda>w. (Inr (receipt_of F t (receipt_source E user t (pg w))), w))))"

subsection \<open>Providers\<close>

definition list_active_providers :: "db \<Rightarrow> provider list" where
  "list_active_providers d = sort_key pr_sort (filter pr_active (ewallet_providers d))"

text \<open>The struct has no JSON tags: its members carry the names of the fields.\<close>

definition encode_provider :: "provider \<Rightarrow> json" where
  "encode_provider p = JObj [(''ID'', JStr (pr_id p)), (''Name'', JStr (pr_name p)),
     (''IconURL'', jopt JStr (pr_icon p)), (''IsActive'', JBool (pr_active p)),
     (''MinAmount'', JDec (pr_min p)), (''MaxAmount'', JDec (pr_max p)), (''AdminFee'', JDec (pr_fee p)),
     (''PresetAmounts'', JArr (map JInt (pr_presets p))), (''SortOrder'', JInt (pr_sort p))]"

definition get_int :: "(string \<times> json) list \<Rightarrow> string \<Rightarrow> int option" where
  "get_int ob k = (case map_of ob k of
      None \<Rightarrow> Some 0 | Some JNull \<Rightarrow> Some 0 | Some (JInt n) \<Rightarrow> Some n | Some _ \<Rightarrow> None)"

definition get_flag :: "(string \<times> json) list \<Rightarrow> string \<Rightarrow> bool option" where
  "get_flag ob k = (case map_of ob k of
      None \<Rightarrow> Some False | Some JNull \<Rightarrow> Some False | Some (JBool b) \<Rightarrow> Some b | Some _ \<Rightarrow> None)"

definition get_money :: "(string \<times> json) list \<Rightarrow> string \<Rightarrow> decimal option" where
  "get_money ob k = (case map_of ob k of
      None \<Rightarrow> Some 0 | Some JNull \<Rightarrow> Some 0 | Some (JDec d) \<Rightarrow> Some d | Some _ \<Rightarrow> None)"

definition int_of_json :: "json \<Rightarrow> int option" where
  "int_of_json j = (case j of JInt n \<Rightarrow> Some n | JNull \<Rightarrow> Some 0 | _ \<Rightarrow> None)"

definition get_ints :: "(string \<times> json) list \<Rightarrow> string \<Rightarrow> int list option" where
  "get_ints ob k = (case map_of ob k of
      None \<Rightarrow> Some [] | Some JNull \<Rightarrow> Some [] | Some (JArr js) \<Rightarrow> those (map int_of_json js) | Some _ \<Rightarrow> None)"

definition decode_provider :: "json \<Rightarrow> provider option" where
  "decode_provider j = (case j of JObj p \<Rightarrow> do {
      i \<leftarrow> get_str p ''ID''; n \<leftarrow> get_str p ''Name''; u \<leftarrow> get_ostr p ''IconURL'';
      a \<leftarrow> get_flag p ''IsActive''; lo \<leftarrow> get_money p ''MinAmount''; hi \<leftarrow> get_money p ''MaxAmount'';
      f \<leftarrow> get_money p ''AdminFee''; ps \<leftarrow> get_ints p ''PresetAmounts''; so \<leftarrow> get_int p ''SortOrder'';
      Some \<lparr>pr_id = i, pr_name = n, pr_icon = u, pr_active = a, pr_min = lo, pr_max = hi, pr_fee = f,
        pr_presets = ps, pr_sort = so\<rparr> }
    | _ \<Rightarrow> None)"

lemma those_ints [simp]: "those (map int_of_json (map JInt ns)) = Some ns"
  by (induction ns) (simp_all add: int_of_json_def)

lemma decode_encode_provider [simp]: "decode_provider (encode_provider p) = Some p"
  using those_ints [of "pr_presets p"]
  by (simp add: decode_provider_def encode_provider_def json_get_defs get_int_def get_flag_def
      get_money_def get_ints_def del: those_ints split: option.splits)

definition providers_key :: string where
  "providers_key = ''cache:ewallet:providers''"

definition provider_cache_ttl :: time where
  "provider_cache_ttl = hours 1"

text \<open>A nil slice is written as \<open>null\<close> and read back as nil, which counts as a miss.\<close>

definition get_providers :: "'s redis_api \<Rightarrow> time \<Rightarrow> 's \<Rightarrow> provider list option reply \<times> 's" where
  "get_providers R t s = (case api_get R t providers_key s of
      (Fault, s1) \<Rightarrow> (Fault, s1)
    | (Reply None, s1) \<Rightarrow> (Reply None, s1)
    | (Reply (Some (RJson JNull)), s1) \<Rightarrow> (Reply None, s1)
    | (Reply (Some (RJson (JArr js))), s1) \<Rightarrow>
        (case those (map decode_provider js) of None \<Rightarrow> (Fault, s1) | Some ps \<Rightarrow> (Reply (Some ps), s1))
    | (Reply (Some _), s1) \<Rightarrow> (Fault, s1))"

definition set_providers :: "'s redis_api \<Rightarrow> time \<Rightarrow> provider list \<Rightarrow> 's \<Rightarrow> unit reply \<times> 's" where
  "set_providers R t ps s = api_set R t providers_key
     (RJson (if ps = [] then JNull else JArr (map encode_provider ps))) provider_cache_ttl s"

record provider_item =
  pi_id :: string
  pi_name :: string
  pi_icon :: string
  pi_active :: bool
  pi_min :: string
  pi_max :: string
  pi_fee :: string
  pi_presets :: "int list"

definition to_provider_item :: "'a fmt_scheme \<Rightarrow> provider \<Rightarrow> provider_item" where
  "to_provider_item F p =
     \<lparr>pi_id = pr_id p, pi_name = pr_name p, pi_icon = str_of (pr_icon p), pi_active = pr_active p,
      pi_min = string_fixed2 F (pr_min p), pi_max = string_fixed2 F (pr_max p),
      pi_fee = string_fixed2 F (pr_fee p), pi_presets = pr_presets p\<rparr>"

definition list_providers ::
    "'a fmt_scheme \<Rightarrow> 's redis_api \<Rightarrow> env \<Rightarrow> (('s, 'z) world_scheme, provider_item list) svc" where
  "list_providers F R E =
     svc_bind (read_through (get_providers R (en_now E)) (set_providers R (en_now E))
         (sql_read E QListProviders list_active_providers))
       (\<lambda>ps. svc_return (map (to_provider_item F) ps))"

subsection \<open>The caches meet the contract\<close>

lemma those_decode_providers [simp]: "those (map decode_provider (map encode_provider ps)) = Some ps"
  by (induction ps) simp_all

context redis_contract
begin

sublocale recents: value_cache "\<lambda>t. get_recent R t u" "\<lambda>t. set_recent R t u" "map cached_favorite"
    recent_transfers_ttl for u
proof
  fix t x s v s1 t' g s2
  assume put: "set_recent R t u x s = (Reply v, s1)" and t: "t \<le> t'" "t' < t + recent_transfers_ttl"
    and get: "get_recent R t' u s1 = (Reply g, s2)"
  have "live s1 t' (recent_key u) = Some (RJson (JArr (map encode_favorite x)))"
    using set_reply [OF put [unfolded set_recent_def] t(1)] t(2) by simp
  moreover have "fst (api_get R t' (recent_key u) s1) = Reply (live s1 t' (recent_key u))"
    using get get_reply by (force simp: get_recent_def split: prod.splits reply.splits)
  ultimately show "g = Some (map cached_favorite x)"
    using get by (auto simp: get_recent_def split: prod.splits simp del: map_map)
qed

sublocale receipts: value_cache "\<lambda>t. get_receipt_cache R t i" "\<lambda>t. set_receipt_cache R t i" "\<lambda>r. r"
    receipt_cache_ttl for i
proof
  fix t x s v s1 t' g s2
  assume put: "set_receipt_cache R t i x s = (Reply v, s1)" and t: "t \<le> t'" "t' < t + receipt_cache_ttl"
    and get: "get_receipt_cache R t' i s1 = (Reply g, s2)"
  have "live s1 t' (receipt_key i) = Some (RJson (encode_receipt x))"
    using set_reply [OF put [unfolded set_receipt_cache_def] t(1)] t(2) by simp
  moreover have "fst (api_get R t' (receipt_key i) s1) = Reply (live s1 t' (receipt_key i))"
    using get get_reply by (force simp: get_receipt_cache_def split: prod.splits reply.splits)
  ultimately show "g = Some x"
    using get by (auto simp: get_receipt_cache_def split: prod.splits)
qed

lemma get_providers_put:
  assumes put: "set_providers R t x s = (Reply v, s1)" and t: "t \<le> t'" "t' < t + provider_cache_ttl"
    and get: "get_providers R t' s1 = (Reply g, s2)"
  shows "g = (if x = [] then None else Some x)"
proof -
  have "live s1 t' providers_key = Some (RJson (if x = [] then JNull else JArr (map encode_provider x)))"
    using set_reply [OF put [unfolded set_providers_def] t(1)] t(2) by simp
  moreover have "fst (api_get R t' providers_key s1) = Reply (live s1 t' providers_key)"
    using get get_reply by (force simp: get_providers_def split: prod.splits reply.splits)
  ultimately show ?thesis
    using get by (auto simp: get_providers_def split: prod.splits simp del: map_map)
qed

end

subsection \<open>Receipts belong to their owner\<close>

lemma read_through_Inr:
  assumes "read_through get put load w = (Inr x, w')" "\<And>v r v'. load v = (r, v') \<Longrightarrow> v' = v"
  obtains s where "get (kv w) = (Reply (Some x), s)" "w' = w\<lparr>kv := s\<rparr>"
  | g s where "get (kv w) = (g, s)" "\<forall>y. g \<noteq> Reply (Some y)" "load (w\<lparr>kv := s\<rparr>) = (Inr x, w\<lparr>kv := s\<rparr>)"
      "w' = w\<lparr>kv := snd (put x s)\<rparr>"
proof -
  obtain g s where g: "get (kv w) = (g, s)" by force
  show ?thesis
  proof (cases "\<exists>y. g = Reply (Some y)")
    case True
    then show ?thesis using assms(1) g that(1) by (auto simp: read_through_def)
  next
    case False
    then have "svc_bind load (\<lambda>x. svc_seq (best_effort_kv (put x)) (svc_return x)) (w\<lparr>kv := s\<rparr>) = (Inr x, w')"
      using assms(1) g by (auto simp: read_through_def split: reply.splits option.splits)
    then obtain w1 where "load (w\<lparr>kv := s\<rparr>) = (Inr x, w1)" "w' = w1\<lparr>kv := snd (put x (kv w1))\<rparr>"
      by auto
    moreover from this have "w1 = w\<lparr>kv := s\<rparr>" using assms(2) by blast
    ultimately show ?thesis using that(2) [OF g] False by auto
  qed
qed

lemma get_receipt_cases:
  assumes "get_receipt F R E user i w = (Inr r, w')"
  obtains t where "find_transaction user i (pg w) = Some t"
    "pg w' = pg w" "sent w' = sent w"
    "(\<exists>s. get_receipt_cache R (en_now E) i (kv w) = (Reply (Some r), s) \<and> kv w' = s)
     \<or> (\<exists>g s. get_receipt_cache R (en_now E) i (kv w) = (g, s) \<and> (\<forall>y. g \<noteq> Reply (Some y))
          \<and> r = receipt_of F t (receipt_source E user t (pg w))
          \<and> kv w' = snd (set_receipt_cache R (en_now E) i r s))"
proof -
  from assms obtain t where t: "find_transaction user i (pg w) = Some t"
    and rt: "read_through (get_receipt_cache R (en_now E) i) (set_receipt_cache R (en_now E) i)
         (\<lambda>w. (Inr (receipt_of F t (receipt_source E user t (pg w))), w)) w = (Inr r, w')"
    by (auto simp: get_receipt_def)
  from rt show ?thesis
    by (rule read_through_Inr) (use that [OF t] in auto)
qed

lemma find_transaction_Some:
  "find_transaction user i d = Some t \<Longrightarrow> t \<in> set (transactions d) \<and> tx_id t = i \<and> tx_user t = user"
  by (auto simp: find_transaction_def dest: find_Some_D)

text \<open>A receipt, once rendered, is what its owner gets for the time to live of the cache, also when it was
  rendered while the account query failed.\<close>

context redis_contract
begin

lemma receipt_sticks:
  assumes ok: "healthy R" and first: "get_receipt F R E user i w = (Inr r, w')"
    and cold: "live (kv w) (en_now E) (receipt_key i) = None"
    and t: "en_now E \<le> en_now E'" "en_now E' < en_now E + receipt_cache_ttl" and E': "\<not> en_fault E' QFindTxn"
  shows "\<exists>w2. get_receipt F R E' user i w' = (Inr r, w2) \<and> pg w2 = pg w'"
proof -
  obtain t where t': "find_transaction user i (pg w) = Some t" "pg w' = pg w"
    and c: "(\<exists>s. get_receipt_cache R (en_now E) i (kv w) = (Reply (Some r), s) \<and> kv w' = s)
     \<or> (\<exists>g s. get_receipt_cache R (en_now E) i (kv w) = (g, s) \<and> (\<forall>y. g \<noteq> Reply (Some y))
          \<and> r = receipt_of F t (receipt_source E user t (pg w))
          \<and> kv w' = snd (set_receipt_cache R (en_now E) i r s))"
    using get_receipt_cases [OF first] by metis
  obtain v s0 where "api_get R (en_now E) (receipt_key i) (kv w) = (Reply v, s0)"
    using healthy_replies(4) [OF ok] by blast
  moreover from this have "v = None" using get_reply cold by metis
  ultimately have "get_receipt_cache R (en_now E) i (kv w) = (Reply None, s0)"
    by (simp add: get_receipt_cache_def)
  then obtain s1 where s1: "kv w' = snd (set_receipt_cache R (en_now E) i r s1)" using c by auto
  obtain s2 where put: "api_set R (en_now E) (receipt_key i) (RJson (encode_receipt r)) receipt_cache_ttl s1 = (Reply (), s2)"
    using healthy_replies(1) [OF ok] by blast
  then have w': "kv w' = s2" using s1 by (simp add: set_receipt_cache_def)
  have "live s2 (en_now E') (receipt_key i) = Some (RJson (encode_receipt r))"
    using set_reply [OF put t(1)] t(2) by simp
  moreover obtain v' s3 where g: "api_get R (en_now E') (receipt_key i) s2 = (Reply v', s3)"
    using healthy_replies(4) [OF ok] by blast
  ultimately have "get_receipt_cache R (en_now E') i (kv w') = (Reply (Some r), s3)"
    using get_reply [OF g] w' by (simp add: get_receipt_cache_def)
  then show ?thesis
    using t' E' by (simp add: get_receipt_def svc_defs read_through_def)
qed

end

end
