(* ===== verification/Samples.thy ===== *)
theory Samples
  imports System Numbers Masking Listings "HOL-Library.Code_Target_Nat"
begin

text \<open>
  A concrete bank for the witnesses: two customers, the settlement shards of the three rails and of
  the fee income, limits for every rail, one e-wallet provider; a Redis that never fails; an
  environment without faults. Shard 0 takes every posting.
\<close>

text \<open>Kernel evaluation leaves reference numbers and formatted amounts as they are.\<close>

declare reference_number_def [code del]
declare format_idr_def [code del]

definition sample_lib :: lib where
  "sample_lib = \<lparr>parse_uuid = (\<lambda>s. if s = '''' then None else Some s), sha256_hex = (\<lambda>s. CHR ''#'' # s),
     parse_decimal = (\<lambda>s. if s = ''25000'' then Some 25000 else if s = ''10.005'' then Some (10005 / 1000) else None),
     string_fixed2 = (\<lambda>d. if d = 25000 then ''25000.00'' else if d = 0 then ''0.00'' else ''?''),
     rfc3339 = (\<lambda>t. ''now''), shard_hash = (\<lambda>_. 0), yyyymmdd = (\<lambda>d. ''19700101'')\<rparr>"

definition sample_account :: "uuid \<Rightarrow> uuid option \<Rightarrow> string \<Rightarrow> decimal \<Rightarrow> string option \<Rightarrow> account" where
  "sample_account i u n b r = \<lparr>ac_id = i, ac_user = u, ac_number = n, ac_type = ''SAVINGS'', ac_label = n,
     ac_balance = b, ac_hold = 0, ac_primary = True, ac_status = ACTIVE, ac_opened = 0,
     ac_owner = (if r = None then CUSTOMER else INTERNAL), ac_rail = r,
     ac_shard = (if r = None then None else Some 0)\<rparr>"

definition sample_db :: db where
  "sample_db = \<lparr>accounts = [
       sample_account ''a1'' (Some ''ann'') ''100'' 1000000 None,
       sample_account ''b1'' (Some ''bob'') ''200'' 50000 None,
       sample_account ''x1'' None ''900'' 0 (Some ''TRANSFER_EXTERNAL''),
       sample_account ''w1'' None ''901'' 0 (Some ''EWALLET''),
       sample_account ''q1'' None ''902'' 0 (Some ''QRIS''),
       sample_account ''f1'' None ''903'' 0 (Some ''FEE_INCOME'')],
     transactions = [], mutations = [], daily_usage = [],
     transaction_limits = map (\<lambda>ty. \<lparr>li_user = ''ann'', li_type = ty, li_daily = 500000, li_monthly = None,
       li_per_txn = Some 200000\<rparr>) [''TRANSFER_INTERNAL'', ''TRANSFER_EXTERNAL'', ''EWALLET'', ''QRIS''],
     transfer_inquiries = [], verification_tokens = [], favorite_transfers = [],
     ewallet_providers = [\<lparr>pr_id = ''gopay'', pr_name = ''GoPay'', pr_icon = None, pr_active = True,
       pr_min = 10000, pr_max = 2000000, pr_fee = 1000, pr_presets = [], pr_sort = 1\<rparr>],
     ref_seq = 41\<rparr>"

definition sample_attempt :: attempt where
  "sample_attempt = \<lparr>at_txn_id = ''t1'', at_now = 5000, at_mut_id = (\<lambda>i. CHR ''m'' # i), at_fault = (\<lambda>_. None),
     at_commit = Committed, at_alive = True\<rparr>"

definition sample_attempts :: "nat \<Rightarrow> attempt" where
  "sample_attempts n = sample_attempt"

definition sample_env :: "time \<Rightarrow> string \<Rightarrow> env" where
  "sample_env t i = \<lparr>en_now = t, en_id = i, en_raw_token = ''tok'', en_fault = (\<lambda>_. False),
     en_attempts = sample_attempts\<rparr>"

subsection \<open>The executors on the sample bank\<close>

definition sample_inquiry :: inquiry where
  "sample_inquiry = \<lparr>iq_id = ''i1'', iq_user = ''ann'', iq_type = ''TRANSFER'', iq_dest = ''200'',
     iq_dest_name = Some ''200'', iq_dest_bank = Some ''BCA'', iq_bank_code = Some ''014'', iq_provider = None,
     iq_amount = Some 25000, iq_fee = Some 0, iq_metadata = None, iq_expires = 301000, iq_used = None,
     iq_created = 0\<rparr>"

definition sample_transfer :: execute_params where
  "sample_transfer = \<lparr>ep_idem = ''k1'', ep_user = ''ann'', ep_source = ''a1'', ep_inquiry = sample_inquiry,
     ep_transfer_type = ''INTERNAL'', ep_txn_type = ''TRANSFER_INTERNAL'', ep_limit_type = ''TRANSFER_INTERNAL'',
     ep_amount = 25000, ep_fee = 0, ep_total = 25000, ep_notes = '''', ep_wib_date = 0, ep_wib_time = 25203\<rparr>"

definition sample_topup :: topup_params where
  "sample_topup = \<lparr>tp_idem = ''k2'', tp_user = ''ann'', tp_source = ''a1'', tp_provider_id = ''gopay'',
     tp_provider_name = ''GoPay'', tp_phone = ''0812345'', tp_dest_name = ''USER'', tp_amount = 50000, tp_fee = 1000,
     tp_total = 51000, tp_wib_date = 0, tp_wib_time = 25203\<rparr>"

definition sample_pay :: "decimal \<Rightarrow> pay_params" where
  "sample_pay x = \<lparr>pp_idem = ''k3'', pp_user = ''ann'', pp_source = ''a1'', pp_merchant = ''WARUNG'', pp_city = ''JAKARTA'',
     pp_amount = x, pp_fee = 0, pp_total = x, pp_wib_date = 0, pp_wib_time = 25203\<rparr>"

lemma sample_ledger_ok: "ledger_ok sample_db"
  by (simp add: ledger_ok_def accounts_ok_def sample_db_def sample_account_def sen_def imbalance_def last_after_def)

lemma sample_fits: "transfer_fits sample_transfer sample_db" "topup_fits sample_topup sample_db"
  "pay_fits (sample_pay 25000) sample_db"
  by code_simp+

lemma sample_total: "total_money (accounts sample_db) = 1050000"
  by code_simp

lemma sample_transfer_run:
  "case execute_transfer_tx sample_lib sample_attempts sample_transfer sample_db of
     (Inr t, d) \<Rightarrow> tx_total t = 25000 \<and> map ac_balance (accounts d) = [975000, 75000, 0, 0, 0, 0] | _ \<Rightarrow> False"
  by code_simp

lemma sample_topup_run:
  "case execute_topup_tx sample_lib sample_attempts sample_topup sample_db of
     (Inr t, d) \<Rightarrow> tx_total t = 51000 \<and> map ac_balance (accounts d) = [949000, 50000, 0, 50000, 0, 1000] | _ \<Rightarrow> False"
  by code_simp

lemma sample_pay_run:
  "case execute_pay_tx sample_lib sample_attempts (sample_pay 25000) sample_db of
     (Inr t, d) \<Rightarrow> tx_total t = 25000 \<and> map ac_balance (accounts d) = [975000, 50000, 0, 0, 25000, 0] | _ \<Rightarrow> False"
  by code_simp

end
