(* ===== verification/Posting_Properties.thy ===== *)
theory Posting_Properties
  imports Samples
begin

text \<open>
  The properties of the three executors, each with a run on the sample bank as its witness.
\<close>

lemma execute_topup_tx_run: "execute_topup_tx L E p = topup.run L E p"
  by (simp add: execute_topup_tx_def topup.run_def)

lemma eval_run: "(case m of (Inr t, d) \<Rightarrow> P t d | _ \<Rightarrow> False) \<Longrightarrow> \<exists>t d. m = (Inr t, d) \<and> P t d"
  by (auto split: prod.splits sum.splits)

subsection \<open>Double entry\<close>

text \<open>C2: A transfer, whatever faults its attempts meet and however it ends, keeps the ledger sound (every
  transaction balanced, every balance the one its last mutation left) and moves no money in or out of the bank.\<close>

theorem transfer_double_entry:
  assumes "execute_transfer_tx L E p d = (r, d')" "transfer_fits p d" "ledger_ok d"
  shows "ledger_ok d' \<and> total_money (accounts d') = total_money (accounts d)"
  using assms transfer.keeps_ledger_ok transfer.conserves unfolding execute_transfer_tx_run by blast

lemma transfer_double_entry_witness:
  "\<exists>t d. execute_transfer_tx sample_lib sample_attempts sample_transfer sample_db = (Inr t, d)
     \<and> map ac_balance (accounts d) = [975000, 75000, 0, 0, 0, 0] \<and> ledger_ok d \<and> total_money (accounts d) = 1050000"
proof -
  obtain t d where run: "execute_transfer_tx sample_lib sample_attempts sample_transfer sample_db = (Inr t, d)"
    and bal: "map ac_balance (accounts d) = [975000, 75000, 0, 0, 0, 0]"
    using eval_run [OF sample_transfer_run] by (elim exE conjE) (rule that)
  show ?thesis
    using transfer_double_entry [OF run sample_fits(1) sample_ledger_ok] run bal sample_total by auto
qed

text \<open>An e-wallet top-up by the executor keeps the ledger sound and moves no money in or out of the bank.\<close>

theorem topup_double_entry:
  assumes "execute_topup_tx L E p d = (r, d')" "topup_fits p d" "ledger_ok d"
  shows "ledger_ok d' \<and> total_money (accounts d') = total_money (accounts d)"
  using assms topup.keeps_ledger_ok topup.conserves unfolding execute_topup_tx_run by blast

lemma topup_double_entry_witness:
  "\<exists>t d. execute_topup_tx sample_lib sample_attempts sample_topup sample_db = (Inr t, d)
     \<and> map ac_balance (accounts d) = [949000, 50000, 0, 50000, 0, 1000] \<and> ledger_ok d \<and> total_money (accounts d) = 1050000"
proof -
  obtain t d where run: "execute_topup_tx sample_lib sample_attempts sample_topup sample_db = (Inr t, d)"
    and bal: "map ac_balance (accounts d) = [949000, 50000, 0, 50000, 0, 1000]"
    using eval_run [OF sample_topup_run] by (elim exE conjE) (rule that)
  show ?thesis
    using topup_double_entry [OF run sample_fits(2) sample_ledger_ok] run bal sample_total by auto
qed

text \<open>A QRIS payment of a whole number of sen keeps the ledger sound and moves no money in or out of the bank.\<close>

theorem pay_double_entry:
  assumes "execute_pay_tx L E p d = (r, d')" "pay_fits p d" "ledger_ok d"
  shows "ledger_ok d' \<and> total_money (accounts d') = total_money (accounts d)"
  using assms pay.keeps_ledger_ok pay.conserves unfolding execute_pay_tx_run by blast

lemma pay_double_entry_witness:
  "\<exists>t d. execute_pay_tx sample_lib sample_attempts (sample_pay 25000) sample_db = (Inr t, d)
     \<and> map ac_balance (accounts d) = [975000, 50000, 0, 0, 25000, 0] \<and> ledger_ok d \<and> total_money (accounts d) = 1050000"
proof -
  obtain t d where run: "execute_pay_tx sample_lib sample_attempts (sample_pay 25000) sample_db = (Inr t, d)"
    and bal: "map ac_balance (accounts d) = [975000, 50000, 0, 0, 25000, 0]"
    using eval_run [OF sample_pay_run] by (elim exE conjE) (rule that)
  show ?thesis
    using pay_double_entry [OF run sample_fits(3) sample_ledger_ok] run bal sample_total by auto
qed


subsection \<open>Funds and limits\<close>



lemma posted_if_new:
  assumes "transfer.run L E p d = (Inr t, d')" "find_by_idem d (ep_user p) (ep_idem p) = None"
  shows "transfer.posted L p d (Inr t) d' t"
  using transfer.run_cases [OF assms(1)] assms(2)
  by (auto simp: transfer.unposted_def transfer.posted_def)

text \<open>C33: A new transfer that succeeds adds exactly its total to the customer's usage of the WIB day, and the
  usage is then still within the daily limit of the transfer type.\<close>

theorem transfer_daily_limit:
  assumes "execute_transfer_tx L E p d = (Inr t, d')" "find_by_idem d (ep_user p) (ep_idem p) = None"
    "sen (ep_total p)" "sen (daily_usage_of d (ep_user p) (ep_wib_date p) (ep_limit_type p))"
  shows "daily_usage_of d' (ep_user p) (ep_wib_date p) (ep_limit_type p)
       = daily_usage_of d (ep_user p) (ep_wib_date p) (ep_limit_type p) + ep_total p
    \<and> daily_usage_of d' (ep_user p) (ep_wib_date p) (ep_limit_type p) \<le> daily_limit_of d' (ep_user p) (ep_limit_type p)"
  using transfer.within_limit [OF posted_if_new [OF assms(1) [unfolded execute_transfer_tx_run] assms(2)] assms(3,4)]
  by blast

lemma transfer_daily_limit_witness:
  "\<exists>t d. execute_transfer_tx sample_lib sample_attempts sample_transfer sample_db = (Inr t, d)
     \<and> daily_usage_of d ''ann'' 0 ''TRANSFER_INTERNAL'' = 25000"
proof -
  obtain t d where run: "execute_transfer_tx sample_lib sample_attempts sample_transfer sample_db = (Inr t, d)"
    using eval_run [OF sample_transfer_run] by (elim exE conjE) (rule that)
  show ?thesis
    using transfer_daily_limit [OF run] run
    by (simp add: sample_transfer_def sample_db_def find_by_idem_def daily_usage_of_def sen_def)
qed

lemma pay_posted_if_new:
  assumes "pay.run L E p d = (Inr t, d')" "find_by_idem d (pp_user p) (pp_idem p) = None"
  shows "pay.posted L p d (Inr t) d' t"
  using pay.run_cases [OF assms(1)] assms(2)
  by (auto simp: pay.unposted_def pay.posted_def)

text \<open>A new QRIS payment that succeeds is within the customer's per-transaction ceiling and leaves the usage
  of the day within the daily limit.\<close>

theorem pay_limits:
  assumes "execute_pay_tx L E p d = (Inr t, d')" "find_by_idem d (pp_user p) (pp_idem p) = None"
    "sen (pp_total p)" "sen (daily_usage_of d (pp_user p) (pp_wib_date p) ''QRIS'')"
    "limit_of d (pp_user p) ''QRIS'' = Some l"
  shows "daily_usage_of d' (pp_user p) (pp_wib_date p) ''QRIS'' \<le> li_daily l
    \<and> (\<forall>m. li_per_txn l = Some m \<longrightarrow> pp_total p \<le> m)"
proof -
  note posted = pay_posted_if_new [OF assms(1) [unfolded execute_pay_tx_run] assms(2)]
  obtain A d0 where "same_tables d d0" "pay_body L A p d0 = (Inr t, d')"
    using posted by (auto simp: pay.posted_def)
  then have "transaction_limits d' = transaction_limits d"
    using pay.body_usage same_tables_sel(5) by metis
  then have "daily_limit_of d' (pp_user p) ''QRIS'' = li_daily l"
    using assms(5) by (simp add: daily_limit_of_def limit_of_def)
  then show ?thesis
    using pay.within_limit(2) [OF posted assms(3,4)] pay_per_txn [OF posted assms(5)] by simp
qed

lemma pay_limits_witness:
  "\<exists>t d. execute_pay_tx sample_lib sample_attempts (sample_pay 25000) sample_db = (Inr t, d)
     \<and> daily_usage_of d ''ann'' 0 ''QRIS'' \<le> 500000"
proof -
  obtain t d where run: "execute_pay_tx sample_lib sample_attempts (sample_pay 25000) sample_db = (Inr t, d)"
    using eval_run [OF sample_pay_run] by (elim exE conjE) (rule that)
  have "limit_of sample_db ''ann'' ''QRIS'' = Some \<lparr>li_user = ''ann'', li_type = ''QRIS'', li_daily = 500000,
      li_monthly = None, li_per_txn = Some 200000\<rparr>" by code_simp
  then show ?thesis
    using pay_limits [OF run] run
    by (simp add: sample_pay_def sample_db_def find_by_idem_def daily_usage_of_def sen_def)
qed

subsection \<open>Failures and repetition\<close>

text \<open>C5: A transfer that ends with an error has changed no table (the reference sequence apart), unless the error
  is a driver error, which the loss of the reply to COMMIT also gives.\<close>

theorem transfer_failure_atomic:
  assumes "execute_transfer_tx L E p d = (Inl e, d')" "e \<noteq> EPg OtherPg"
  shows "same_tables d d'"
  using assms transfer.failure_atomic unfolding execute_transfer_tx_run by blast

definition poor_transfer :: execute_params where
  "poor_transfer = sample_transfer\<lparr>ep_amount := 2000000, ep_total := 2000000\<rparr>"

lemma transfer_failure_atomic_witness:
  "\<exists>d. execute_transfer_tx sample_lib sample_attempts poor_transfer sample_db = (Inl (EApp InsufficientBalance), d)
     \<and> same_tables sample_db d"
proof -
  have "fst (execute_transfer_tx sample_lib sample_attempts poor_transfer sample_db) = Inl (EApp InsufficientBalance)"
    by code_simp
  then obtain d where run: "execute_transfer_tx sample_lib sample_attempts poor_transfer sample_db
      = (Inl (EApp InsufficientBalance), d)" by (metis prod.collapse)
  show ?thesis using transfer_failure_atomic [OF run] run by auto
qed

text \<open>C4: A second run of the executor with the customer and the idempotency key of a transfer that changed the
  ledger changes nothing more, whatever the client was told of the first run and whatever the second asks for.\<close>

theorem transfer_exactly_once:
  assumes "execute_transfer_tx L E p d = (r, d1)" "execute_transfer_tx L E' q d1 = (r', d2)"
    "transfer_fits p d" "ledger_ok d" "ep_user q = ep_user p" "ep_idem q = ep_idem p" "\<not> same_tables d d1"
  shows "same_tables d1 d2"
  using transfer.exactly_once [OF assms(1) [unfolded execute_transfer_tx_run] assms(2) [unfolded execute_transfer_tx_run]
      assms(3-7)] .

text \<open>The first COMMIT succeeds but its reply is lost.\<close>

definition lost_attempts :: "nat \<Rightarrow> attempt" where
  "lost_attempts n = sample_attempt\<lparr>at_commit := CommitLost\<rparr>"

lemma transfer_exactly_once_witness:
  "fst (execute_transfer_tx sample_lib lost_attempts sample_transfer sample_db) = Inl (EPg OtherPg)
   \<and> (let d = snd (execute_transfer_tx sample_lib lost_attempts sample_transfer sample_db) in
      map ac_balance (accounts d) = [975000, 75000, 0, 0, 0, 0]
      \<and> same_tables d (snd (execute_transfer_tx sample_lib sample_attempts sample_transfer d)))"
proof -
  let ?d = "snd (execute_transfer_tx sample_lib lost_attempts sample_transfer sample_db)"
  have run: "fst (execute_transfer_tx sample_lib lost_attempts sample_transfer sample_db) = Inl (EPg OtherPg)"
    "map ac_balance (accounts ?d) = [975000, 75000, 0, 0, 0, 0]"
    by code_simp+
  have "map ac_balance (accounts sample_db) = [1000000, 50000, 0, 0, 0, 0]" by code_simp
  then have "\<not> same_tables sample_db ?d" using run(2) same_tables_sel(1) [of sample_db ?d] by auto
  then have "same_tables ?d (snd (execute_transfer_tx sample_lib sample_attempts sample_transfer ?d))"
    using transfer_exactly_once [OF prod.collapse [symmetric] prod.collapse [symmetric] sample_fits(1) sample_ledger_ok]
    by blast
  then show ?thesis using run by (simp add: Let_def)
qed

text \<open>C35: A run makes at most three attempts: it does not look at a fourth.\<close>

theorem transfer_three_attempts:
  assumes "\<forall>m < 3. E m = E' m"
  shows "execute_transfer_tx L E p d = execute_transfer_tx L E' p d"
  unfolding execute_transfer_tx_def
  using assms by (intro retry_from_agree) (simp_all add: max_serialization_retries_def)

text \<open>Every attempt meets a serialization failure at its first statement.\<close>

definition failing_attempts :: "nat \<Rightarrow> attempt" where
  "failing_attempts n = (if n < 3 then sample_attempt\<lparr>at_fault := (\<lambda>_. Some SerializationFailure)\<rparr> else sample_attempt)"

lemma transfer_three_attempts_witness:
  "fst (execute_transfer_tx sample_lib failing_attempts sample_transfer sample_db) = Inl (EPg SerializationFailure)
   \<and> execute_transfer_tx sample_lib failing_attempts sample_transfer sample_db
     = execute_transfer_tx sample_lib (\<lambda>_. failing_attempts 0) sample_transfer sample_db"
proof
  show "fst (execute_transfer_tx sample_lib failing_attempts sample_transfer sample_db) = Inl (EPg SerializationFailure)"
    by code_simp
  show "execute_transfer_tx sample_lib failing_attempts sample_transfer sample_db
     = execute_transfer_tx sample_lib (\<lambda>_. failing_attempts 0) sample_transfer sample_db"
    by (rule transfer_three_attempts) (simp add: failing_attempts_def)
qed

subsection \<open>Locks and numbers\<close>



text \<open>Two of the next 99999999 numbers drawn from the sequence never give the same reference number on one day.\<close>

theorem reference_numbers_unique:
  assumes "1 \<le> s" "s \<le> 99999999" "m < 99999999" "n < 99999999" "m \<noteq> n"
  shows "reference_number L day ((next_seq ^^ m) s) \<noteq> reference_number L day ((next_seq ^^ n) s)"
  using assms by (rule reference_numbers_distinct)

lemma reference_numbers_unique_witness:
  "reference_number sample_lib 0 ((next_seq ^^ 1) 41) \<noteq> reference_number sample_lib 0 ((next_seq ^^ 2) 41)"
  by (rule reference_numbers_unique) simp_all

end
