(* ===== verification/Request_Properties.thy ===== *)
theory Request_Properties
  imports Posting_Properties
begin

text \<open>
  The properties of the transfer request, for every Redis that keeps the contract, with a transfer from
  Ann to Bob on the sample bank as their witness: the inquiry, the PIN, the execution.
\<close>

lemma mem_ok_contract: "redis_contract mem_ok mem_live"
  by (simp add: mem_ok_def mem.redis_contract_axioms)

lemma mem_ok_healthy: "healthy mem_ok"
  by (simp add: healthy_def mem_ok_def mem_redis_def)

context redis_contract
begin

text \<open>A request whose credentials and parameters are in order ends as its executor ends.\<close>

lemma prepare_transfer_succeeds:
  assumes ok: "healthy R" and E: "\<not> en_fault E QFindOwned" and user: "user \<noteq> ''''"
    and tok: "vtoken_held live (kv w) (en_now E) (sha256_hex L (er_vtoken req)) = Some (user, ''TRANSFER'')"
    and inq: "inquiry_held live (kv w) (en_now E) (er_inquiry req) = Some q" and q: "iq_user q = user"
    and prep: "prepared L E user req key (pg w) q acct p"
  shows "\<exists>w'. prepare_transfer L R E user req key w = (Inr (acct, p), w') \<and> pg w' = pg w"
proof -
  obtain s1 where t: "consume_token R (en_now E) (sha256_hex L (er_vtoken req)) (kv w) = (Reply (user, ''TRANSFER''), s1)"
    using consume_token_held [OF ok tok] by blast
  have "inquiry_held live s1 (en_now E) (er_inquiry req) = Some q"
    using inq consume_token_live [OF t, of "inquiry_key (er_inquiry req)" "en_now E"]
    by (simp add: inquiry_held_def key_simps)
  then obtain s2 where i: "consume_inquiry R (en_now E) (er_inquiry req) s1 = (Reply (Some q), s2)"
    using consume_inquiry_held [OF ok] by blast
  show ?thesis
    using prep t i user q E
    by (auto simp: prepare_transfer_def take_transfer_token_Inr take_transfer_inquiry_Inr prepared_def)
qed

lemma transfer_succeeds:
  assumes ok: "healthy R" and E: "\<not> en_fault E QFindOwned" and user: "user \<noteq> ''''"
    and free: "idem_slot live (kv w) (en_now E) user key = Free"
    and tok: "vtoken_held live (kv w) (en_now E) (sha256_hex L (er_vtoken req)) = Some (user, ''TRANSFER'')"
    and inq: "inquiry_held live (kv w) (en_now E) (er_inquiry req) = Some q" and q: "iq_user q = user"
    and prep: "prepared L E user req key (pg w) q acct p"
    and run: "execute_transfer_tx L (en_attempts E) p (pg w) = (Inr t, d)"
  shows "\<exists>w'. execute_transfer L R E user req key w = (Inr (transfer_response_of L req acct p t, False), w')
    \<and> same_ledger d (pg w')"
proof -
  obtain c s where claim: "idem_claim R (en_now E) user key (kv w) = (Reply c, s)"
    using idem_claim_healthy [OF ok] by blast
  have new: "\<not> already_claimed c" using idem.claim_free [OF claim] free by simp
  let ?w1 = "world.extend (w\<lparr>kv := s\<rparr>) \<lparr>restore_inquiry = None, restore_vtoken = ''''\<rparr>"
  have "vtoken_held live (kv ?w1) (en_now E) (sha256_hex L (er_vtoken req)) = Some (user, ''TRANSFER'')"
    "inquiry_held live (kv ?w1) (en_now E) (er_inquiry req) = Some q"
    using tok inq idem_claim_frame [OF claim, of _ "en_now E"]
    by (simp_all add: vtoken_held_def inquiry_held_def key_simps)
  then obtain w2 where w2: "prepare_transfer L R E user req key ?w1 = (Inr (acct, p), w2)" "pg w2 = pg w"
    using prepare_transfer_succeeds [OF ok E user, of ?w1 L req q key acct p] q prep by auto
  obtain f w3 where fin: "finish_transfer L R E user req key acct p t (w2\<lparr>pg := d\<rparr>) = (f, w3)" by force
  then obtain resp where resp: "f = Inr resp" using finish_transfer_total by (cases f) blast+
  note fin' = finish_transfer_Inr [OF fin [unfolded resp]]
  have "transfer_flow L R E user req key ?w1 = (Inr resp, w3)"
    using w2 run fin resp by (simp add: transfer_flow_def)
  then show ?thesis
    using claim new fin' by (simp add: execute_transfer_def Let_def)
qed

end

subsection \<open>The sample transfer\<close>

definition sample_world :: "mem world" where
  "sample_world = \<lparr>kv = (\<lambda>_. None), pg = sample_db, sent = []\<rparr>"

definition inquired :: "mem world" where
  "inquired = snd (create_inquiry mem_ok (sample_env 1000 ''i1'') ''ann''
     \<lparr>ir_dest = ''200'', ir_dest_bank = '''', ir_bank_code = '''', ir_type = ''INTERNAL'', ir_amount = 25000,
      ir_notes = ''''\<rparr> sample_world)"

definition verified :: "mem world" where
  "verified = snd (create_verification_token sample_lib mem_ok (sample_env 2000 ''v1'') ''ann'' ''TRANSFER'' inquired)"

definition sample_request :: execute_request where
  "sample_request = \<lparr>er_inquiry = ''i1'', er_source = ''a1'', er_dest = '''', er_bank_code = '''', er_type = '''',
     er_amount = 0, er_notes = '''', er_vtoken = ''tok'', er_idem = ''k1''\<rparr>"

abbreviation env3 :: env where
  "env3 \<equiv> sample_env 3000 ''r1''"

definition transferred :: "(app_err + transfer_response \<times> bool) \<times> mem world" where
  "transferred = execute_transfer sample_lib mem_ok env3 ''ann'' sample_request ''k1'' verified"

lemma verified_kv:
  "vtoken_held mem_live (kv verified) 3000 ''#tok'' = Some (''ann'', ''TRANSFER'')"
  "inquiry_held mem_live (kv verified) 3000 ''i1'' = Some sample_inquiry"
  "idem_slot mem_live (kv verified) 3000 ''ann'' ''k1'' = Free"
  by code_simp+

lemma verified_pg:
  "find_owned_by_id (pg verified) ''ann'' ''a1'' = Some (sample_account ''a1'' (Some ''ann'') ''100'' 1000000 None)"
  "accounts (pg verified) = accounts sample_db"
  "mutations (pg verified) = []" "transactions (pg verified) = []"
  by code_simp+

lemma verified_run:
  "case execute_transfer_tx sample_lib sample_attempts sample_transfer (pg verified) of
     (Inr t, d) \<Rightarrow> map ac_id (accounts d) = [''a1'', ''b1'', ''x1'', ''w1'', ''q1'', ''f1'']
       \<and> map ac_balance (accounts d) = [975000, 75000, 0, 0, 0, 0] | _ \<Rightarrow> False"
  by code_simp

lemma verified_ledger_ok: "ledger_ok (pg verified)"
  using sample_ledger_ok by (simp add: ledger_ok_def verified_pg) (simp add: sample_db_def)

lemma sample_prepared:
  "prepared sample_lib env3 ''ann'' sample_request ''k1'' (pg verified) sample_inquiry
     (sample_account ''a1'' (Some ''ann'') ''100'' 1000000 None) sample_transfer"
proof -
  have "transfer_params env3 ''ann'' sample_request ''k1'' sample_inquiry 25000 ''a1'' = sample_transfer"
    "transfer_amount sample_request sample_inquiry = Some 25000" "cross_check sample_request sample_inquiry"
    "parse_uuid sample_lib (er_source sample_request) = Some ''a1''"
    by code_simp+
  then show ?thesis using verified_pg(1)
    by (auto simp: prepared_def sample_account_def sample_inquiry_def)
qed

lemma sample_hash: "sha256_hex sample_lib (er_vtoken sample_request) = ''#tok''"
  by (simp add: sample_lib_def sample_request_def)

lemma sample_env_simps [simp]:
  "en_now (sample_env t i) = t" "en_fault (sample_env t i) q = False" "en_attempts (sample_env t i) = sample_attempts"
  by (simp_all add: sample_env_def)

lemma sample_executed:
  obtains resp w' where "execute_transfer sample_lib mem_ok env3 ''ann'' sample_request ''k1'' verified
      = (Inr (resp, False), w')"
    "map ac_balance (accounts (pg w')) = [975000, 75000, 0, 0, 0, 0]"
    "map ac_id (accounts (pg w')) = [''a1'', ''b1'', ''x1'', ''w1'', ''q1'', ''f1'']"
proof -
  obtain t d where run: "execute_transfer_tx sample_lib sample_attempts sample_transfer (pg verified) = (Inr t, d)"
    and ids: "map ac_id (accounts d) = [''a1'', ''b1'', ''x1'', ''w1'', ''q1'', ''f1'']"
    and bal: "map ac_balance (accounts d) = [975000, 75000, 0, 0, 0, 0]"
    using eval_run [OF verified_run] by (elim exE conjE) (rule that)
  have i: "er_inquiry sample_request = ''i1''" "iq_user sample_inquiry = ''ann''"
    by (simp_all add: sample_request_def sample_inquiry_def)
  obtain w' where "execute_transfer sample_lib mem_ok env3 ''ann'' sample_request ''k1'' verified = (Inr (transfer_response_of sample_lib sample_request
        (sample_account ''a1'' (Some ''ann'') ''100'' 1000000 None) sample_transfer t, False), w')" "same_ledger d (pg w')"
    using redis_contract.transfer_succeeds [OF mem_ok_contract mem_ok_healthy, of env3 "''ann''" verified "''k1''"
        sample_lib sample_request sample_inquiry, OF _ _ _ _ _ _ sample_prepared, of t d]
      verified_kv run by (auto simp: sample_hash i)
  then show ?thesis using that bal ids by (simp add: same_ledger_def)
qed

subsection \<open>What a customer can rely on\<close>



lemma verified_inquiry_fits: "inquiry_held mem_live (kv verified) 3000 ''i1'' = Some q \<Longrightarrow> inquiry_fits q"
  using verified_kv(2) by (auto simp: inquiry_fits_def transfer_fee_def sample_inquiry_def sen_def)

text \<open>C3: A transfer request takes money from an account only if the account is an active customer account of the
  user who made the request, and it never takes more than what is not on hold.\<close>

theorem request_own_money:
  assumes "redis_contract R live" "execute_transfer L R E user req key w = (r, w')" "ledger_ok (pg w)"
    "\<And>q. inquiry_held live (kv w) (en_now E) (er_inquiry req) = Some q \<Longrightarrow> inquiry_fits q"
    "account_by_id (accounts (pg w)) i = Some a" "account_by_id (accounts (pg w')) i = Some a'"
    "ac_balance a' < ac_balance a"
  shows "ac_user a = Some user \<and> ac_owner a = CUSTOMER \<and> ac_status a = ACTIVE \<and> ac_hold a \<le> ac_balance a'"
  using redis_contract.moves_own_money [OF assms] .

lemma request_own_money_witness:
  "\<exists>r w' a a'. execute_transfer sample_lib mem_ok env3 ''ann'' sample_request ''k1'' verified = (r, w')
     \<and> account_by_id (accounts (pg verified)) ''a1'' = Some a \<and> account_by_id (accounts (pg w')) ''a1'' = Some a'
     \<and> ac_balance a' < ac_balance a \<and> ac_user a = Some ''ann'' \<and> ac_hold a \<le> ac_balance a'"
proof -
  obtain resp w' where ex: "execute_transfer sample_lib mem_ok env3 ''ann'' sample_request ''k1'' verified = (Inr (resp, False), w')"
    and bal: "map ac_balance (accounts (pg w')) = [975000, 75000, 0, 0, 0, 0]"
    and ids: "map ac_id (accounts (pg w')) = [''a1'', ''b1'', ''x1'', ''w1'', ''q1'', ''f1'']" by (rule sample_executed)
  have fit: "inquiry_fits q" if "inquiry_held mem_live (kv verified) (en_now env3) (er_inquiry sample_request) = Some q" for q
    using that verified_inquiry_fits by (simp add: sample_request_def)
  let ?a = "sample_account ''a1'' (Some ''ann'') ''100'' 1000000 None"
  have a: "account_by_id (accounts (pg verified)) ''a1'' = Some ?a"
    by (simp add: verified_pg account_by_id_def) (simp add: sample_db_def sample_account_def)
  have "ac_hold ?a \<le> ac_balance ?a" by (simp add: sample_account_def)
  obtain a' where a': "account_by_id (accounts (pg w')) ''a1'' = Some a'" "ac_balance a' = 975000"
    using ids bal by (auto simp: account_by_id_def map_eq_Cons_conv)
  have less: "ac_balance a' < ac_balance ?a" using a'(2) by (simp add: sample_account_def)
  show ?thesis
    using request_own_money [OF mem_ok_contract ex verified_ledger_ok fit a a'(1) less] ex a a' less by auto
qed





text \<open>
  While a request with the same idempotency key is being processed, another one is answered with a conflict
  and changes neither the tables nor the notifications.\<close>

theorem request_conflict:
  assumes "redis_contract R live" "healthy R" "idem_slot live (kv w) (en_now E) user key = Busy"
  shows "\<exists>w'. execute_transfer L R E user req key w = (Inl IdempotencyConflict, w') \<and> pg w' = pg w \<and> sent w' = sent w"
  using redis_contract.busy_conflict [OF assms] .

lemma request_conflict_witness:
  "\<exists>w'. execute_transfer sample_lib mem_ok env3 ''ann'' sample_request ''k1''
     (verified\<lparr>kv := snd (idem_claim mem_ok 2999 ''ann'' ''k1'' (kv verified))\<rparr>) = (Inl IdempotencyConflict, w')
     \<and> pg w' = pg verified"
proof -
  have "idem_slot mem_live (snd (idem_claim mem_ok 2999 ''ann'' ''k1'' (kv verified))) 3000 ''ann'' ''k1'' = Busy"
    by code_simp
  then show ?thesis
    using request_conflict [OF mem_ok_contract mem_ok_healthy,
        of "verified\<lparr>kv := snd (idem_claim mem_ok 2999 ''ann'' ''k1'' (kv verified))\<rparr>" env3 "''ann''" "''k1''"
          sample_lib sample_request] by auto
qed


definition foreign_request :: execute_request where
  "foreign_request = sample_request\<lparr>er_source := ''b1''\<rparr>"

lemma rejected_request:
  assumes "idem_claim R (en_now E) user key (kv w) = (Reply c, s)" "\<not> already_claimed c"
    "prepare_transfer L R E user req key (world.extend (w\<lparr>kv := s\<rparr>) \<lparr>restore_inquiry = None, restore_vtoken = ''''\<rparr>)
      = (Inl e, w2)"
  shows "execute_transfer L R E user req key w = (Inl e, world.truncate (undo_transfer R E user key w2))"
  using assms by (simp add: execute_transfer_def Let_def transfer_flow_def svc_bind_def)

lemma foreign_rejected:
  "\<exists>w'. execute_transfer sample_lib mem_ok env3 ''ann'' foreign_request ''k1'' verified = (Inl SourceAccountForbidden, w')"
proof -
  let ?s = "snd (idem_claim mem_ok 3000 ''ann'' ''k1'' (kv verified))"
  let ?c = "\<lparr>already_claimed = False, stored_response = RText '''', still_processing = False\<rparr>"
  let ?m = "prepare_transfer sample_lib mem_ok env3 ''ann'' foreign_request ''k1''
      (world.extend (verified\<lparr>kv := ?s\<rparr>) \<lparr>restore_inquiry = None, restore_vtoken = ''''\<rparr>)"
  have "fst (idem_claim mem_ok 3000 ''ann'' ''k1'' (kv verified)) = Reply ?c" by code_simp
  then have c: "idem_claim mem_ok (en_now env3) ''ann'' ''k1'' (kv verified) = (Reply ?c, ?s)"
    by (metis prod.collapse sample_env_simps(1))
  have "fst ?m = Inl SourceAccountForbidden" by code_simp
  then have "?m = (Inl SourceAccountForbidden, snd ?m)" by (metis prod.collapse)
  from rejected_request [OF c _ this] show ?thesis by simp
qed


text \<open>A transfer request that is rejected with anything but an internal error has left accounts, transactions,
  mutations, usage and limits as they were.\<close>

theorem request_rejected_unchanged:
  assumes "redis_contract R live" "execute_transfer L R E user req key w = (Inl e, w')" "e \<noteq> InternalError"
  shows "same_ledger (pg w) (pg w')"
  using redis_contract.rejected_moves_nothing [OF assms] .

lemma request_rejected_unchanged_witness:
  "same_ledger (pg verified) (pg (snd (execute_transfer sample_lib mem_ok env3 ''ann'' foreign_request ''k1'' verified)))"
proof -
  obtain w' where ex: "execute_transfer sample_lib mem_ok env3 ''ann'' foreign_request ''k1'' verified
    = (Inl SourceAccountForbidden, w')" using foreign_rejected by blast
  show ?thesis using request_rejected_unchanged [OF mem_ok_contract ex] ex by simp
qed

end
