(* ===== verification/Sample_Format.thy ===== *)
theory Sample_Format
  imports Statements Samples
begin

text \<open>Formats and cursors for the witnesses.\<close>

text \<open>
  A codec that keeps its promises: a number is written in unary, a string with every character escaped
  and a stop at the end.
\<close>

definition esc :: "string \<Rightarrow> string" where
  "esc s = concat (map (\<lambda>c. [CHR ''x'', c]) s) @ ''.''"

fun unesc :: "string \<Rightarrow> string \<Rightarrow> string list" where
  "unesc acc (a # b # r) = (if a = CHR ''x'' then unesc (acc @ [b]) r else acc # unesc [] (b # r))"
| "unesc acc [a] = [acc]"
| "unesc acc [] = []"

fun pairs_of :: "string list \<Rightarrow> (string \<times> string) list" where
  "pairs_of (k # v # r) = (k, v) # pairs_of r"
| "pairs_of _ = []"

lemma unesc_esc: "unesc acc (esc s @ r) = (acc @ s) # unesc [] r"
proof (induction s arbitrary: acc)
  case Nil
  then show ?case by (cases r) (simp_all add: esc_def)
next
  case (Cons c s)
  then show ?case by (simp add: esc_def)
qed

lemma pairs_unesc: "pairs_of (unesc [] (concat (map (\<lambda>(k, v). esc k @ esc v) ms))) = ms"
  by (induction ms) (auto simp: unesc_esc)

definition sample_fmt :: fmt where
  "sample_fmt = lib.extend sample_lib \<lparr>dec_string = (\<lambda>d. ''?''), ymd = (\<lambda>d. replicate d CHR ''d''),
     parse_ymd = (\<lambda>s. Some (length s)), hms = (\<lambda>t. ''?''), rfc_nano = (\<lambda>t. replicate t CHR ''t''),
     parse_rfc_nano = (\<lambda>s. Some (length s)),
     cursor_text = (\<lambda>ms. CHR ''c'' # concat (map (\<lambda>(k, v). esc k @ esc v) ms)),
     cursor_doc = (\<lambda>s. Some (\<lambda>k. case map_of (pairs_of (unesc [] (tl s))) k of None \<Rightarrow> '''' | Some v \<Rightarrow> v)),
     long_date = (\<lambda>t. ''?''), hour_minute = (\<lambda>t. ''?'')\<rparr>"

lemma sample_codec_ok: "codec_ok sample_fmt"
  by (simp add: codec_ok_def sample_fmt_def lib.extend_def pairs_unesc)

end
