(* ===== verification/Data_Properties.thy ===== *)
theory Data_Properties
  imports Request_Properties Sample_Format
begin

text \<open>
  The properties of the other services and of the data: top-ups, QRIS, encodings, listings, receipts.
\<close>

subsection \<open>Top-ups and QRIS\<close>

text \<open>C36: A top-up request never reaches the ledger and is never answered with a fresh success: the inquiry cache
  drops the metadata the top-up needs, whatever Redis, database and request are.\<close>

theorem topup_request_never_posts:
  assumes "execute_topup L R E user req key w = (r, w')"
  shows "pg w' = pg w \<and> sent w' = sent w \<and> (\<forall>resp. r \<noteq> Inr (resp, False))"
  using assms by (rule topup_never_posts)

definition topup_asked :: "mem world" where
  "topup_asked = snd (topup_inquiry sample_lib mem_ok (sample_env 1000 ''i2'') ''ann''
     \<lparr>ti_provider = ''gopay'', ti_phone = ''081234567890'', ti_amount = 50000, ti_source = ''a1''\<rparr> verified)"

definition sample_topup_request :: topup_request where
  "sample_topup_request = \<lparr>tq_inquiry = ''i2'', tq_vtoken = ''tok''\<rparr>"

lemma topup_request_never_posts_witness:
  "pg (snd (execute_topup sample_lib mem_ok env3 ''ann'' sample_topup_request ''k5'' topup_asked)) = pg topup_asked
   \<and> inquiry_held mem_live (kv topup_asked) 3000 ''i2'' \<noteq> None"
proof
  show "pg (snd (execute_topup sample_lib mem_ok env3 ''ann'' sample_topup_request ''k5'' topup_asked)) = pg topup_asked"
    using topup_request_never_posts [OF prod.collapse [symmetric], of sample_lib mem_ok env3 "''ann''"
        sample_topup_request "''k5''" topup_asked] by blast
  show "inquiry_held mem_live (kv topup_asked) 3000 ''i2'' \<noteq> None"
    by code_simp
qed

text \<open>On a Redis that does not fail, a decoded code is handed out to at most one payment.\<close>

theorem decoded_code_once:
  assumes "redis_contract R live" "healthy R" "consume_decoded R t i s = (Reply (Some q), s1)" "t \<le> t'"
    "consume_decoded R t' i s1 = (Reply w, s2)"
  shows "w = None \<and> decoded_held live s t i = Some q"
  using redis_contract.consume_decoded_once [OF assms] redis_contract.consume_decoded_reply(1) [OF assms(1,3)] by blast

definition sample_decoded :: decoded_qris where
  "sample_decoded = \<lparr>dq_name = ''WARUNG'', dq_city = ''JAKARTA'', dq_amount = 0, dq_fixed = False, dq_id = ''d1'',
     dq_expires = ''now''\<rparr>"

lemma decoded_code_once_witness:
  "let s = snd (store_decoded mem_ok 1000 ''d1'' sample_decoded (\<lambda>_. None));
       s1 = snd (consume_decoded mem_ok 2000 ''d1'' s) in
   fst (consume_decoded mem_ok 2000 ''d1'' s) = Reply (Some sample_decoded) \<and> fst (consume_decoded mem_ok 2001 ''d1'' s1) = Reply None"
proof -
  let ?s = "snd (store_decoded mem_ok 1000 ''d1'' sample_decoded (\<lambda>_. None))"
  let ?s1 = "snd (consume_decoded mem_ok 2000 ''d1'' ?s)"
  have 1: "fst (consume_decoded mem_ok 2000 ''d1'' ?s) = Reply (Some sample_decoded)"
    "fst (consume_decoded mem_ok 2001 ''d1'' ?s1) \<noteq> Fault" by code_simp+
  then have c: "consume_decoded mem_ok 2000 ''d1'' ?s = (Reply (Some sample_decoded), ?s1)" by (metis prod.collapse)
  obtain w where w: "fst (consume_decoded mem_ok 2001 ''d1'' ?s1) = Reply w" using 1(2) by (meson reply.exhaust)
  then have "consume_decoded mem_ok 2001 ''d1'' ?s1 = (Reply w, snd (consume_decoded mem_ok 2001 ''d1'' ?s1))"
    by (metis prod.collapse)
  from decoded_code_once [OF mem_ok_contract mem_ok_healthy c _ this] show ?thesis using 1 w by (simp add: Let_def)
qed

text \<open>A code whose point of initiation says the amount is fixed, but which carries no amount, is decoded as fixed
  at zero, and no payment of it passes the checks.\<close>

theorem fixed_code_without_amount:
  assumes "parse_emvco L raw = Parsed q" "parse_tlv [] (trim_space raw) = Parsed fs"
    "field fs ''01'' = ''12''" "field fs ''54'' = ''''"
  shows "dq_fixed q \<and> dq_amount q = 0 \<and> \<not> prepared_payment L' E user req key d q acct p"
  using parse_fixed_zero [OF assms] fixed_zero_unpayable by blast

definition sample_payload :: string where
  "sample_payload = render_tlv [(''00'', ''01''), (''01'', ''12''), (''59'', ''WARUNG''), (''60'', ''JAKARTA'')]"

lemma fixed_code_without_amount_witness:
  "\<exists>q. parse_emvco sample_lib sample_payload = Parsed q \<and> dq_fixed q \<and> dq_amount q = 0"
proof -
  have "parse_emvco sample_lib sample_payload = Parsed \<lparr>dq_name = ''WARUNG'', dq_city = ''JAKARTA'', dq_amount = 0,
      dq_fixed = True, dq_id = '''', dq_expires = ''''\<rparr>" by code_simp
  moreover obtain fs where fs: "parse_tlv [] (trim_space sample_payload) = Parsed fs"
    "field fs ''01'' = ''12''" "field fs ''54'' = ''''"
  proof -
    have "case parse_tlv [] (trim_space sample_payload) of Parsed fs \<Rightarrow> field fs ''01'' = ''12'' \<and> field fs ''54'' = '''' | _ \<Rightarrow> False"
      by code_simp
    then show ?thesis using that by (auto split: parsed.splits)
  qed
  ultimately show ?thesis using fixed_code_without_amount [OF _ fs] by blast
qed

text \<open>C39: Parsing what a generator of payloads prints gives the fields back, in the order they were met last first.\<close>

theorem emvco_roundtrip:
  assumes "\<forall>f \<in> set fs. field_ok f"
  shows "parse_tlv [] (render_tlv fs) = Parsed (rev fs)"
  using parse_render [OF assms, of "[]"] by simp

lemma emvco_roundtrip_witness:
  "parse_tlv [] (render_tlv [(''59'', ''WARUNG''), (''60'', ''JAKARTA'')]) = Parsed [(''60'', ''JAKARTA''), (''59'', ''WARUNG'')]"
  using emvco_roundtrip [of "[(''59'', ''WARUNG''), (''60'', ''JAKARTA'')]"] by (simp add: field_ok_def)

text \<open>The payload parser can only panic on an input with a minus sign (a negative length passes its check of the
  bounds), and every field it returns is a slice of at most 99 bytes of the input, which the fields cover.\<close>

theorem emvco_total:
  assumes "CHR ''-'' \<notin> set data"
  shows "parse_tlv [] data \<noteq> Panics
    \<and> (\<forall>fs. parse_tlv [] data = Parsed fs \<longrightarrow> (\<forall>f \<in> set fs. length (fst f) = 2 \<and> length (snd f) \<le> 99)
         \<and> length data = sum_list (map (\<lambda>f. 4 + length (snd f)) fs))"
proof (intro conjI allI impI)
  show "parse_tlv [] data \<noteq> Panics" using assms by (rule parse_tlv_no_panic)
  fix fs assume "parse_tlv [] data = Parsed fs"
  then obtain new where new: "fs = rev new" "\<forall>f \<in> set new. length (fst f) = 2 \<and> length (snd f) \<le> 99"
    "length data = sum_list (map (\<lambda>f. 4 + length (snd f)) new)"
    using parse_tlv_shape by fastforce
  then show "\<forall>f \<in> set fs. length (fst f) = 2 \<and> length (snd f) \<le> 99" by simp
  show "length data = sum_list (map (\<lambda>f. 4 + length (snd f)) fs)" using new(3) unfolding new(1) rev_map [symmetric] sum_list_rev .
qed

lemma emvco_total_witness:
  "parse_tlv [] ''0002015'' \<noteq> Panics \<and> parse_tlv [] ''00-1x'' = Panics"
proof
  show "parse_tlv [] ''0002015'' \<noteq> Panics" using emvco_total [of "''0002015''"] by simp
  show "parse_tlv [] ''00-1x'' = Panics" by code_simp
qed

subsection \<open>Encodings\<close>

text \<open>The inquiry cache gives back the inquiry that was stored, but without its metadata, its creation time and the
  milliseconds of its expiry.\<close>

theorem inquiry_cache_roundtrip:
  "decode_inquiry (encode_inquiry q)
     = Some (q\<lparr>iq_metadata := None, iq_expires := to_seconds (iq_expires q), iq_used := None, iq_created := 0\<rparr>)"
  by (simp add: cached_inquiry_def)

text \<open>
  Stored responses, decoded codes, receipts and providers survive their JSON encoding unchanged.\<close>

theorem stored_documents_roundtrip:
  "decode_transfer_response (encode_transfer_response r) = Some r
   \<and> decode_topup_response (encode_topup_response tr) = Some tr
   \<and> decode_pay_response (encode_pay_response p) = Some p
   \<and> decode_decoded (encode_decoded q) = Some q
   \<and> decode_receipt (encode_receipt rc) = Some rc
   \<and> decode_provider (encode_provider pr) = Some pr"
  by simp

text \<open>
  An amount of rupiah is shown with its digits grouped by thousands, for every amount.\<close>

theorem idr_by_thousands:
  "format_idr (of_nat n) = ''Rp'' @ thousands n"
  by (simp add: format_idr_def group_digits_thousands)

text \<open>
  A masked phone number shows at most its first four and last four bytes: numbers of one length that agree on
  them have the same mask; a masked NIK its first four and last two. Both keep the length.\<close>

theorem masks_hide:
  assumes "length p = length q" "8 < length p" "take 4 p = take 4 q" "tail_of 4 p = tail_of 4 q"
  shows "mask_phone p = mask_phone q \<and> mask_nik p = mask_nik q
    \<and> length (mask_phone p) = length p \<and> length (mask_nik p) = length p"
proof -
  have "tail_of 2 x = tail_of 2 (tail_of 4 x)" if "8 < length x" for x :: string
  proof -
    have "length x - 2 = Suc (Suc (length x - 4))" using that by simp
    then show ?thesis using that by (simp add: tail_of_def)
  qed
  then have "tail_of 2 p = tail_of 2 q" using assms by metis
  then show ?thesis
    using mask_phone_hides [OF assms] mask_nik_hides [OF assms(1,3)] assms(1) by (simp add: mask_phone_length mask_nik_length)
qed

lemma masks_hide_witness:
  "mask_phone ''081234567890'' = mask_phone ''081200007890'' \<and> mask_phone ''081234567890'' = ''0812****7890''"
proof
  show "mask_phone ''081234567890'' = mask_phone ''081200007890''"
    using masks_hide [of "''081234567890''" "''081200007890''"] by (simp add: tail_of_def)
  show "mask_phone ''081234567890'' = ''0812****7890''" by code_simp
qed

subsection \<open>Listings\<close>

text \<open>Two mutations of Ann's account.\<close>

definition booked :: "mem world" where
  "booked = verified\<lparr>pg := (pg verified)\<lparr>mutations := map (\<lambda>i. \<lparr>mu_id = i, mu_account = ''a1'', mu_txn = None,
     mu_type = DEBIT, mu_amount = 1, mu_before = 2, mu_after = 1, mu_desc = i, mu_detail = None, mu_category = None,
     mu_ref = None, mu_date = 7, mu_time = 0, mu_created = 9\<rparr>) [''m1'', ''m2'']\<rparr>\<rparr>"

lemma booked_facts:
  "\<forall>m \<in> set (mutations (pg booked)). parse_uuid sample_fmt (mu_id m) = Some (mu_id m)"
  "find_owned_by_id (pg booked) ''ann'' ''a1'' = Some (sample_account ''a1'' (Some ''ann'') ''100'' 1000000 None)"
  "distinct (map mu_id (mutations (pg booked)))" "map mu_id (statement_rows ''a1'' None (pg booked)) = [''m2'', ''m1'']"
  using verified_pg(1)
  by (simp_all add: booked_def sample_fmt_def sample_lib_def lib.extend_def find_owned_by_id_def statement_rows_def
      statement_where_def mut_key_def)

text \<open>C38: A client that follows the cursors of a statement from the first page, with any page size, sees every mutation of
  the account in the period exactly once, newest first.\<close>

theorem statement_pages_complete:
  assumes "codec_ok F" "\<forall>m \<in> set (mutations (pg w)). parse_uuid F (mu_id m) = Some (mu_id m)"
    "\<not> en_fault E QFindOwned" "\<not> en_fault E QListMutations" "find_owned_by_id (pg w) user acc = Some a"
    "distinct (map mu_id (mutations (pg w)))" "length (statement_rows acc period (pg w)) < m * page_limit limit"
  shows "concat (follow (\<lambda>c. reply_of (list_mutations F E user acc c limit period w)) m '''')
    = map (to_mutation_item F) (statement_rows acc period (pg w))"
  using assms by (rule statement_complete)

lemma statement_pages_complete_witness:
  "map mi_id (concat (follow (\<lambda>c. reply_of (list_mutations sample_fmt env3 ''ann'' ''a1'' c 1 None booked)) 3 ''''))
     = [''m2'', ''m1'']"
proof -
  have "length (statement_rows ''a1'' None (pg booked)) = 2"
    using arg_cong [OF booked_facts(4), of length] by simp
  then have "concat (follow (\<lambda>c. reply_of (list_mutations sample_fmt env3 ''ann'' ''a1'' c 1 None booked)) 3 '''')
      = map (to_mutation_item sample_fmt) (statement_rows ''a1'' None (pg booked))"
    by (intro statement_pages_complete [OF sample_codec_ok booked_facts(1) _ _ booked_facts(2,3)])
      (simp_all add: page_limit_def)
  then show ?thesis using booked_facts(4) by (simp add: to_mutation_item_def comp_def)
qed

text \<open>A page of a statement or of a history, also with a forged cursor, has at most 50 items; a statement is that
  of an active account of the caller, a history is that of the caller's transactions; nothing is changed.\<close>

theorem pages_are_own:
  "(list_mutations F E user acc cursor limit period w = (Inr (items, further, next_cursor), w') \<longrightarrow>
      w' = w \<and> length items \<le> 50 \<and> (\<exists>a. find_owned_by_id (pg w) user acc = Some a)
      \<and> set items \<subseteq> to_mutation_item F ` {m \<in> set (mutations (pg w)). statement_where acc period m})
   \<and> (list_history F E user ty period cursor limit w = (Inr (items', further', next_cursor'), w') \<longrightarrow>
      w' = w \<and> length items' \<le> 50
      \<and> set items' \<subseteq> to_transaction_item F ` {t \<in> set (transactions (pg w)). history_where user ty period t})"
  using list_mutations_own [of F E user acc cursor limit period w items further next_cursor w']
    list_history_own [of F E user ty period cursor limit w items' further' next_cursor' w'] by blast

lemma pages_are_own_witness:
  "\<exists>items b c. list_mutations sample_fmt env3 ''ann'' ''a1'' '''' 10 None verified = (Inr (items, b, c), verified)
     \<and> length items \<le> 50"
proof -
  have "fst (list_mutations sample_fmt env3 ''ann'' ''a1'' '''' 10 None verified) = Inr ([], False, '''')"
    using verified_pg by (simp add: list_mutations_def svc_defs cursor_arg_def list_mutation_rows_def top_rows_def
        page_reply_def cut_page_def)
  then have r: "list_mutations sample_fmt env3 ''ann'' ''a1'' '''' 10 None verified
      = (Inr ([], False, ''''), snd (list_mutations sample_fmt env3 ''ann'' ''a1'' '''' 10 None verified))"
    by (metis prod.collapse)
  from pages_are_own [of sample_fmt env3 "''ann''" "''a1''" "''''" 10 None verified "[]" False "''''"
      "snd (list_mutations sample_fmt env3 ''ann'' ''a1'' '''' 10 None verified)"] r
  show ?thesis by auto
qed

text \<open>A client that follows the cursors of its history, with any page size, sees every transaction of the filter exactly
  once, newest first; the days of the period are WIB calendar days.\<close>

theorem history_pages_complete:
  assumes "codec_ok F" "\<forall>t \<in> set (transactions (pg w)). parse_uuid F (tx_id t) = Some (tx_id t)"
    "\<not> en_fault E QListHistory" "distinct (map tx_id (transactions (pg w)))"
    "length (history_rows user ty (Some r) (pg w)) < m * page_limit limit"
  shows "concat (follow (\<lambda>c. reply_of (list_history F E user ty (Some r) c limit w)) m '''')
      = map (to_transaction_item F) (history_rows user ty (Some r) (pg w))
    \<and> (\<forall>t \<in> set (history_rows user ty (Some r) (pg w)). dr_from r \<le> wib_date (tx_created t) \<and> wib_date (tx_created t) \<le> dr_to r)"
  using history_complete [OF assms] history_days by (auto simp: set_history_rows history_where_def)

definition paid :: "mem world" where
  "paid = verified\<lparr>pg := (pg verified)\<lparr>transactions := [transfer_row sample_attempt sample_transfer (Some ''b1'') ''r1'',
     (transfer_row sample_attempt sample_transfer (Some ''b1'') ''r2'')\<lparr>tx_id := ''t2''\<rparr>]\<rparr>\<rparr>"

lemma paid_facts:
  "\<forall>t \<in> set (transactions (pg paid)). parse_uuid sample_fmt (tx_id t) = Some (tx_id t)"
  "distinct (map tx_id (transactions (pg paid)))"
  "map tx_ref (history_rows ''ann'' None (Some \<lparr>dr_from = 0, dr_to = 0\<rparr>) (pg paid)) = [''r2'', ''r1'']"
  by (simp_all add: paid_def sample_fmt_def sample_lib_def lib.extend_def history_rows_def history_where_def
      hist_key_def transfer_row_def sample_attempt_def sample_transfer_def duration_defs)

lemma history_pages_complete_witness:
  "map xi_ref (concat (follow (\<lambda>c. reply_of (list_history sample_fmt env3 ''ann'' None (Some \<lparr>dr_from = 0, dr_to = 0\<rparr>) c 1 paid)) 3 ''''))
     = [''r2'', ''r1'']"
proof -
  let ?r = "\<lparr>dr_from = 0, dr_to = 0\<rparr> :: date_range"
  have "length (history_rows ''ann'' None (Some ?r) (pg paid)) = 2"
    using arg_cong [OF paid_facts(3), of length] by simp
  then have "concat (follow (\<lambda>c. reply_of (list_history sample_fmt env3 ''ann'' None (Some ?r) c 1 paid)) 3 '''')
      = map (to_transaction_item sample_fmt) (history_rows ''ann'' None (Some ?r) (pg paid))"
    by (intro history_pages_complete [OF sample_codec_ok paid_facts(1) _ paid_facts(2), THEN conjunct1])
      (simp_all add: page_limit_def)
  then show ?thesis using paid_facts(3) by (simp add: to_transaction_item_def comp_def)
qed

text \<open>A receipt is only given to the customer of the transaction, also when it is in the cache, and giving it changes
  no table.\<close>

theorem receipt_for_owner:
  assumes "get_receipt F R E user i w = (Inr r, w')"
  shows "(\<exists>t \<in> set (transactions (pg w)). tx_id t = i \<and> tx_user t = user) \<and> pg w' = pg w \<and> sent w' = sent w"
  using get_receipt_cases [OF assms] find_transaction_Some by metis

definition no_accounts :: env where
  "no_accounts = env3\<lparr>en_fault := (\<lambda>q. q = QListActive)\<rparr>"

lemma paid_receipt:
  "\<exists>r w'. get_receipt sample_fmt mem_ok no_accounts ''ann'' ''t2'' paid = (Inr r, w') \<and> rc_ref r = ''r2''
     \<and> rc_source r = ''''"
proof -
  let ?t = "(transfer_row sample_attempt sample_transfer (Some ''b1'') ''r2'')\<lparr>tx_id := ''t2''\<rparr>"
  have t: "find_transaction ''ann'' ''t2'' (pg paid) = Some ?t"
    by (simp add: find_transaction_def paid_def transfer_row_def sample_attempt_def sample_transfer_def)
  have cold: "get_receipt_cache mem_ok 3000 ''t2'' (kv paid) = (Reply None, kv paid)"
  proof -
    have "mem_live (kv paid) 3000 (receipt_key ''t2'') = None" by code_simp
    then show ?thesis by (simp add: get_receipt_cache_def mem_ok_def mem_redis_def)
  qed
  show ?thesis
    using t cold by (simp add: get_receipt_def svc_defs read_through_def no_accounts_def sample_env_def receipt_of_def
        receipt_source_def transfer_row_def sample_transfer_def)
qed

lemma receipt_for_owner_witness:
  "\<exists>r w'. get_receipt sample_fmt mem_ok no_accounts ''ann'' ''t2'' paid = (Inr r, w') \<and> pg w' = pg paid"
  using paid_receipt receipt_for_owner by (metis (no_types, lifting))

text \<open>A receipt that was rendered on an empty cache is what its owner gets for the next 24 hours, even if it was rendered
  while the account query failed and shows no source account.\<close>

theorem receipt_stays:
  assumes "redis_contract R live" "healthy R" "get_receipt F R E user i w = (Inr r, w')"
    "live (kv w) (en_now E) (receipt_key i) = None"
    "en_now E \<le> en_now E'" "en_now E' < en_now E + receipt_cache_ttl" "\<not> en_fault E' QFindTxn"
  shows "\<exists>w2. get_receipt F R E' user i w' = (Inr r, w2) \<and> pg w2 = pg w'"
  using redis_contract.receipt_sticks [OF assms] .

lemma receipt_stays_witness:
  "\<exists>r w' w2. get_receipt sample_fmt mem_ok no_accounts ''ann'' ''t2'' paid = (Inr r, w')
     \<and> get_receipt sample_fmt mem_ok (sample_env 80000000 ''e'') ''ann'' ''t2'' w' = (Inr r, w2) \<and> rc_source r = ''''"
proof -
  obtain r w' where r: "get_receipt sample_fmt mem_ok no_accounts ''ann'' ''t2'' paid = (Inr r, w')" "rc_source r = ''''"
    using paid_receipt by blast
  have now: "en_now no_accounts = 3000" by (simp add: no_accounts_def)
  have "mem_live (kv paid) 3000 (receipt_key ''t2'') = None" by code_simp
  then show ?thesis
    using receipt_stays [OF mem_ok_contract mem_ok_healthy r(1), of "sample_env 80000000 ''e''"] r now
    by (auto simp: receipt_cache_ttl_def duration_defs)
qed

end
