(* ===== verification/Redis_Data.thy ===== *)
theory Redis_Data
  imports Redis
begin

text \<open>
  The commands of Redis that the authentication side uses beyond those of \<open>Redis\<close>: EXISTS, TTL, EXPIRE, a DEL of several
  keys, sets (SADD, SREM, SMEMBERS), hashes (HSET) and sorted sets (ZREMRANGEBYSCORE, ZCARD, ZADD), with what their documentation
  promises, and a reference server. Keys of one kind are never used as keys of another in the program, so the contract speaks
  of the strings, the sets and the sorted sets of a state separately. A pipeline is a list of commands that are all sent;
  its error is the first error of a reply.
\<close>

record 's data_api =
  strs :: "'s redis_api"
  api_exists :: "time \<Rightarrow> string \<Rightarrow> 's \<Rightarrow> bool reply \<times> 's"
  api_ttl :: "time \<Rightarrow> string \<Rightarrow> 's \<Rightarrow> int reply \<times> 's"
  api_expire :: "time \<Rightarrow> string \<Rightarrow> time \<Rightarrow> 's \<Rightarrow> unit reply \<times> 's"
  api_del_keys :: "time \<Rightarrow> string list \<Rightarrow> 's \<Rightarrow> unit reply \<times> 's"
  api_sadd :: "time \<Rightarrow> string \<Rightarrow> string \<Rightarrow> 's \<Rightarrow> unit reply \<times> 's"
  api_srem :: "time \<Rightarrow> string \<Rightarrow> string \<Rightarrow> 's \<Rightarrow> unit reply \<times> 's"
  api_smembers :: "time \<Rightarrow> string \<Rightarrow> 's \<Rightarrow> string list reply \<times> 's"
  api_hset :: "time \<Rightarrow> string \<Rightarrow> (string \<times> json) list \<Rightarrow> 's \<Rightarrow> unit reply \<times> 's"
  api_zrem_upto :: "time \<Rightarrow> string \<Rightarrow> int \<Rightarrow> 's \<Rightarrow> unit reply \<times> 's"
  api_zcard :: "time \<Rightarrow> string \<Rightarrow> 's \<Rightarrow> nat reply \<times> 's"
  api_zadd :: "time \<Rightarrow> string \<Rightarrow> int \<Rightarrow> string \<Rightarrow> 's \<Rightarrow> unit reply \<times> 's"

subsection \<open>Pipelines\<close>

definition pipe_then :: "('s \<Rightarrow> 'a reply \<times> 's) \<Rightarrow> ('s \<Rightarrow> 'b reply \<times> 's) \<Rightarrow> 's \<Rightarrow> ('a \<times> 'b) reply \<times> 's" where
  "pipe_then f g s = (let (a, s1) = f s; (b, s2) = g s1 in
     (case (a, b) of (Reply x, Reply y) \<Rightarrow> Reply (x, y) | _ \<Rightarrow> Fault, s2))"

lemma pipe_then_Reply [simp]:
  "pipe_then f g s = (Reply v, s2) \<longleftrightarrow> (\<exists>s1. f s = (Reply (fst v), s1) \<and> g s1 = (Reply (snd v), s2))"
  by (cases v) (auto simp: pipe_then_def split: prod.splits reply.splits)

lemma pipe_then_state: "snd (pipe_then f g s) = snd (g (snd (f s)))"
  by (simp add: pipe_then_def split: prod.splits)

subsection \<open>The contract\<close>

text \<open>Nothing appears under a key between two states: the later one shows there what the earlier one does, or nothing.\<close>

definition only_loses :: "('s \<Rightarrow> time \<Rightarrow> string \<Rightarrow> rval option) \<Rightarrow> time \<Rightarrow> string \<Rightarrow> 's \<Rightarrow> 's \<Rightarrow> bool" where
  "only_loses live t k s s' \<longleftrightarrow> (\<forall>t' \<ge> t. live s' t' k = live s t' k) \<or> (\<forall>t' \<ge> t. live s' t' k = None)"

text \<open>TTL counts in seconds: it is positive while a key with an expiry lives for another second, and not positive without the key.\<close>

locale redis_data = redis_contract "strs R" live
  for R :: "'s data_api" and live :: "'s \<Rightarrow> time \<Rightarrow> string \<Rightarrow> rval option" +
  assumes exists_reply: "api_exists R t k s = (Reply b, s') \<Longrightarrow> b \<longleftrightarrow> live s t k \<noteq> None"
    and exists_frame: "api_exists R t k s = (r, s') \<Longrightarrow> t \<le> t' \<Longrightarrow> live s' t' k' = live s t' k'"
    and ttl_reply: "api_ttl R t k s = (Reply n, s') \<Longrightarrow> (live s t k = None \<longrightarrow> n \<le> 0)
          \<and> (live s (t + 1000) k \<noteq> None \<and> (\<exists>t' \<ge> t. live s t' k = None) \<longrightarrow> 0 < n)"
    and ttl_frame: "api_ttl R t k s = (ri, s') \<Longrightarrow> t \<le> t' \<Longrightarrow> live s' t' k' = live s t' k'"
    and expire_reply: "api_expire R t k d s = (Reply u, s') \<Longrightarrow> t \<le> t' \<Longrightarrow>
          live s' t' k = (if t' < t + d then live s t k else None)"
    and expire_fault: "api_expire R t k d s = (Fault, s') \<Longrightarrow>
          (\<forall>t' \<ge> t. live s' t' k = live s t' k) \<or> (\<forall>t' \<ge> t. live s' t' k = (if t' < t + d then live s t k else None))"
    and expire_frame: "api_expire R t k d s = (ru, s') \<Longrightarrow> k' \<noteq> k \<Longrightarrow> t \<le> t' \<Longrightarrow> live s' t' k' = live s t' k'"
    and del_keys_gone: "api_del_keys R t ks s = (Reply u, s') \<Longrightarrow> k \<in> set ks \<Longrightarrow> t \<le> t' \<Longrightarrow> live s' t' k = None"
    and del_keys_loses: "api_del_keys R t ks s = (ru, s') \<Longrightarrow> only_loses live t k s s'"
    and del_keys_frame: "api_del_keys R t ks s = (ru, s') \<Longrightarrow> k \<notin> set ks \<Longrightarrow> t \<le> t' \<Longrightarrow> live s' t' k = live s t' k"
    and sadd_frame: "api_sadd R t k x s = (ru, s') \<Longrightarrow> t \<le> t' \<Longrightarrow> live s' t' k' = live s t' k'"
    and srem_frame: "api_srem R t k x s = (ru, s') \<Longrightarrow> t \<le> t' \<Longrightarrow> live s' t' k' = live s t' k'"
    and smembers_frame: "api_smembers R t k s = (rl, s') \<Longrightarrow> t \<le> t' \<Longrightarrow> live s' t' k' = live s t' k'"
    and hset_frame: "api_hset R t k fs s = (ru, s') \<Longrightarrow> t \<le> t' \<Longrightarrow> live s' t' k' = live s t' k'"
    and zrem_frame: "api_zrem_upto R t k i s = (ru, s') \<Longrightarrow> t \<le> t' \<Longrightarrow> live s' t' k' = live s t' k'"
    and zcard_frame: "api_zcard R t k s = (rn, s') \<Longrightarrow> t \<le> t' \<Longrightarrow> live s' t' k' = live s t' k'"
    and zadd_frame: "api_zadd R t k i m s = (ru, s') \<Longrightarrow> t \<le> t' \<Longrightarrow> live s' t' k' = live s t' k'"

text \<open>Sorted sets: \<open>hits s t k\<close> is the set of members with their scores.\<close>

locale redis_scores =
  fixes R :: "'s data_api" and hits :: "'s \<Rightarrow> time \<Rightarrow> string \<Rightarrow> (string \<times> int) set"
  assumes finite_hits: "finite (hits s t k)"
    and zrem_reply: "api_zrem_upto R t k i s = (Reply u, s') \<Longrightarrow> hits s' t k = {h \<in> hits s t k. i < snd h}"
    and zcard_reply: "api_zcard R t k s = (Reply n, s') \<Longrightarrow> n = card (hits s t k) \<and> hits s' t k = hits s t k"
    and zadd_reply: "api_zadd R t k i m s = (Reply u, s') \<Longrightarrow>
          hits s' t k = insert (m, i) {h \<in> hits s t k. fst h \<noteq> m}"
    and zexpire_reply: "api_expire R t k d s = (Reply u, s') \<Longrightarrow> t \<le> t' \<Longrightarrow>
          hits s' t' k = (if t' < t + d then hits s t k else {})"

subsection \<open>A reference server\<close>

text \<open>
  The server of \<open>Redis\<close> for the strings, beside tables of sets and sorted sets with an expiry. Hashes are written and
  never read by the program, so the server keeps none.
\<close>

record store =
  str_table :: mem
  set_table :: "string \<Rightarrow> (string list \<times> time option) option"
  score_table :: "string \<Rightarrow> ((string \<times> int) list \<times> time option) option"

definition unexpired :: "time \<Rightarrow> ('a list \<times> time option) option \<Rightarrow> 'a list" where
  "unexpired t x = (case x of None \<Rightarrow> [] | Some (xs, None) \<Rightarrow> xs | Some (xs, Some e) \<Rightarrow> if t < e then xs else [])"

definition keep_expiry :: "time \<Rightarrow> ('a list \<times> time option) option \<Rightarrow> time option" where
  "keep_expiry t x = (case x of None \<Rightarrow> None | Some (_, None) \<Rightarrow> None | Some (_, Some e) \<Rightarrow> if t < e then Some e else None)"

definition rewrite :: "time \<Rightarrow> string \<Rightarrow> ('a list \<Rightarrow> 'a list) \<Rightarrow> (string \<Rightarrow> ('a list \<times> time option) option)
    \<Rightarrow> string \<Rightarrow> ('a list \<times> time option) option" where
  "rewrite t k f m = m(k := Some (f (unexpired t (m k)), keep_expiry t (m k)))"

definition rearm :: "time \<Rightarrow> string \<Rightarrow> time \<Rightarrow> (string \<Rightarrow> ('a \<times> time option) option) \<Rightarrow> string \<Rightarrow> ('a \<times> time option) option" where
  "rearm t k d m = (case m k of
      None \<Rightarrow> m
    | Some (v, e) \<Rightarrow> (case e of Some e' \<Rightarrow> if t < e' then m(k := Some (v, Some (t + d))) else m
        | None \<Rightarrow> m(k := Some (v, Some (t + d)))))"

definition on_strs :: "(mem \<Rightarrow> 'a reply \<times> mem) \<Rightarrow> store \<Rightarrow> 'a reply \<times> store" where
  "on_strs f s = (case f (str_table s) of (r, m) \<Rightarrow> (r, s\<lparr>str_table := m\<rparr>))"

definition store_live :: "store \<Rightarrow> time \<Rightarrow> string \<Rightarrow> rval option" where
  "store_live s t k = mem_live (str_table s) t k"

definition store_hits :: "store \<Rightarrow> time \<Rightarrow> string \<Rightarrow> (string \<times> int) set" where
  "store_hits s t k = set (unexpired t (score_table s k))"

definition store_ttl :: "store \<Rightarrow> time \<Rightarrow> string \<Rightarrow> int" where
  "store_ttl s t k = (case str_table s k of
      None \<Rightarrow> -2 | Some (v, None) \<Rightarrow> -1 | Some (v, Some e) \<Rightarrow> if t < e then int ((e - t + 500) div 1000) else -2)"

definition store_redis :: "(time \<Rightarrow> string \<Rightarrow> bool) \<Rightarrow> store data_api" where
  "store_redis down = \<lparr>
     strs = \<lparr>
       api_get = (\<lambda>t k. on_strs (api_get (mem_redis down) t k)),
       api_setnx = (\<lambda>t k v d. on_strs (api_setnx (mem_redis down) t k v d)),
       api_set = (\<lambda>t k v d. on_strs (api_set (mem_redis down) t k v d)),
       api_getdel = (\<lambda>t k. on_strs (api_getdel (mem_redis down) t k)),
       api_del = (\<lambda>t k. on_strs (api_del (mem_redis down) t k)),
       api_incr = (\<lambda>t k. on_strs (api_incr (mem_redis down) t k)) \<rparr>,
     api_exists = (\<lambda>t k s. if down t k then (Fault, s) else (Reply (store_live s t k \<noteq> None), s)),
     api_ttl = (\<lambda>t k s. if down t k then (Fault, s) else (Reply (store_ttl s t k), s)),
     api_expire = (\<lambda>t k d s. if down t k then (Fault, s) else (Reply (),
       s\<lparr>str_table := rearm t k d (str_table s), set_table := rearm t k d (set_table s),
         score_table := rearm t k d (score_table s)\<rparr>)),
     api_del_keys = (\<lambda>t ks s. if list_ex (down t) ks then (Fault, s) else (Reply (),
       s\<lparr>str_table := foldr (\<lambda>k m. m(k := None)) ks (str_table s),
         set_table := foldr (\<lambda>k m. m(k := None)) ks (set_table s),
         score_table := foldr (\<lambda>k m. m(k := None)) ks (score_table s)\<rparr>)),
     api_sadd = (\<lambda>t k x s. if down t k then (Fault, s)
       else (Reply (), s\<lparr>set_table := rewrite t k (List.insert x) (set_table s)\<rparr>)),
     api_srem = (\<lambda>t k x s. if down t k then (Fault, s)
       else (Reply (), s\<lparr>set_table := rewrite t k (removeAll x) (set_table s)\<rparr>)),
     api_smembers = (\<lambda>t k s. if down t k then (Fault, s) else (Reply (unexpired t (set_table s k)), s)),
     api_hset = (\<lambda>t k fs s. if down t k then (Fault, s) else (Reply (), s)),
     api_zrem_upto = (\<lambda>t k i s. if down t k then (Fault, s)
       else (Reply (), s\<lparr>score_table := rewrite t k (filter (\<lambda>h. i < snd h)) (score_table s)\<rparr>)),
     api_zcard = (\<lambda>t k s. if down t k then (Fault, s) else (Reply (card (store_hits s t k)), s)),
     api_zadd = (\<lambda>t k i m s. if down t k then (Fault, s)
       else (Reply (), s\<lparr>score_table := rewrite t k (\<lambda>hs. (m, i) # filter (\<lambda>h. fst h \<noteq> m) hs) (score_table s)\<rparr>)) \<rparr>"

lemma on_strs_eq [simp]:
  "on_strs f s = (r, s') \<longleftrightarrow> (\<exists>m. f (str_table s) = (r, m) \<and> s' = s\<lparr>str_table := m\<rparr>)"
  by (auto simp: on_strs_def split: prod.splits)

lemma foldr_forget [simp]: "foldr (\<lambda>k m. m(k := None)) ks m k = (if k \<in> set ks then None else m k)"
  by (induction ks) auto

lemma store_live_upd [simp]:
  "store_live (s\<lparr>str_table := m\<rparr>) t k = mem_live m t k"
  "store_live (s\<lparr>set_table := m1\<rparr>) t k = store_live s t k"
  "store_live (s\<lparr>score_table := m2\<rparr>) t k = store_live s t k"
  by (simp_all add: store_live_def)

lemma mem_live_rearm:
  "t \<le> t' \<Longrightarrow> mem_live (rearm t k d m) t' k' = (if k' = k then if t' < t + d then mem_live m t k else None else mem_live m t' k')"
  by (auto simp: mem_live_def rearm_def split: option.splits)

lemma unexpired_rearm:
  "t \<le> t' \<Longrightarrow> unexpired t' (rearm t k d m k) = (if t' < t + d then unexpired t (m k) else [])"
  by (auto simp: unexpired_def rearm_def split: option.splits)

lemma unexpired_rewrite [simp]: "unexpired t (rewrite t k f m k) = f (unexpired t (m k))"
  by (auto simp: unexpired_def rewrite_def keep_expiry_def split: option.splits)

lemma store_strs_contract: "redis_contract (strs (store_redis down)) store_live"
  by unfold_locales
    (auto simp: store_redis_def store_live_def mem_redis_simps split: option.splits if_splits prod.splits rval.splits)

lemma mem_live_forget [simp]:
  "mem_live (foldr (\<lambda>k m. m(k := None)) ks m) t k = (if k \<in> set ks then None else mem_live m t k)"
  by (simp add: mem_live_def)

lemma store_ttl_sign:
  "(store_live s t k = None \<longrightarrow> store_ttl s t k \<le> 0)
   \<and> (store_live s (t + 1000) k \<noteq> None \<and> (\<exists>t' \<ge> t. store_live s t' k = None) \<longrightarrow> 0 < store_ttl s t k)"
  by (auto simp: store_live_def store_ttl_def mem_live_def split: option.splits if_splits)

lemma only_loses_forget: "only_loses store_live t k s s" "only_loses store_live t k s
    (s\<lparr>str_table := foldr (\<lambda>k m. m(k := None)) ks (str_table s), set_table := x, score_table := y\<rparr>)"
  by (auto simp: only_loses_def store_live_def)

interpretation store: redis_data "store_redis down" store_live for down
proof (rule redis_data.intro [OF store_strs_contract], unfold_locales, goal_cases)
  case (3 t k s n s') then show ?case using store_ttl_sign [of s t k] by (auto simp: store_redis_def split: if_splits)
next
  case (9 t ks s ru s' k) then show ?case by (auto simp: store_redis_def only_loses_forget split: if_splits)
qed (auto simp: store_redis_def mem_live_rearm store_live_def split: if_splits)

interpretation store_scores: redis_scores "store_redis down" store_hits for down
  by unfold_locales (auto simp: store_redis_def store_hits_def unexpired_rearm split: if_splits)

definition store_ok :: "store data_api" where
  "store_ok = store_redis (\<lambda>_ _. False)"

end
