(* ===== verification/Rate_Limit.thy ===== *)
theory Rate_Limit
  imports Redis_Data
begin

text \<open>
  The sliding window rate limiter of \<open>repository/redis/ratelimit.go\<close> with the limits of \<open>auth_ratelimit.go\<close>. An attempt is
  recorded whether or not it is allowed. Scores are times (the code uses nanoseconds).
\<close>

definition login_device_limit :: nat where "login_device_limit = 5"

definition login_device_window :: time where "login_device_window = minutes 15"

definition login_ip_limit :: nat where "login_ip_limit = 20"

definition login_ip_window :: time where "login_ip_window = minutes 15"

definition pin_verify_user_limit :: nat where "pin_verify_user_limit = 5"

definition pin_verify_user_window :: time where "pin_verify_user_window = minutes 15"

record rate_result =
  rl_allowed :: bool
  rl_current :: nat
  rl_limit :: nat
  rl_remaining :: nat
  rl_retry_at :: "time option"

definition rate_result_of :: "time \<Rightarrow> nat \<Rightarrow> time \<Rightarrow> nat \<Rightarrow> rate_result" where
  "rate_result_of t limit window current =
     \<lparr>rl_allowed = current < limit, rl_current = current + 1, rl_limit = limit, rl_remaining = limit - current - 1,
      rl_retry_at = (if current < limit then None else Some (t + window))\<rparr>"

definition rate_allow ::
    "'s data_api \<Rightarrow> time \<Rightarrow> string \<Rightarrow> string \<Rightarrow> nat \<Rightarrow> time \<Rightarrow> 's \<Rightarrow> rate_result reply \<times> 's" where
  "rate_allow R t member key limit window s =
     (case pipe_then (api_zrem_upto R t key (int t - int window))
          (pipe_then (api_zcard R t key)
          (pipe_then (api_zadd R t key (int t) member)
             (api_expire R t key (window + seconds 1)))) s of
        (Reply (_, current, _), s1) \<Rightarrow> (Reply (rate_result_of t limit window current), s1)
      | (Fault, s1) \<Rightarrow> (Fault, s1))"

definition login_device_key :: "string \<Rightarrow> string" where
  "login_device_key d = ''rate:login:dev:'' @ d"

definition login_ip_key :: "string \<Rightarrow> string" where
  "login_ip_key ip = ''rate:login:ip:'' @ ip"

definition pin_verify_user_key :: "string \<Rightarrow> string" where
  "pin_verify_user_key u = ''rate:pin:'' @ u"

definition check_login_device :: "'s data_api \<Rightarrow> time \<Rightarrow> string \<Rightarrow> string \<Rightarrow> 's \<Rightarrow> rate_result reply \<times> 's" where
  "check_login_device R t member d = rate_allow R t member (login_device_key d) login_device_limit login_device_window"

definition check_login_ip :: "'s data_api \<Rightarrow> time \<Rightarrow> string \<Rightarrow> string \<Rightarrow> 's \<Rightarrow> rate_result reply \<times> 's" where
  "check_login_ip R t member ip = rate_allow R t member (login_ip_key ip) login_ip_limit login_ip_window"

definition check_pin_verify :: "'s data_api \<Rightarrow> time \<Rightarrow> string \<Rightarrow> string \<Rightarrow> 's \<Rightarrow> rate_result reply \<times> 's" where
  "check_pin_verify R t member u = rate_allow R t member (pin_verify_user_key u) pin_verify_user_limit pin_verify_user_window"

definition reset_login_device :: "'s data_api \<Rightarrow> time \<Rightarrow> string \<Rightarrow> 's \<Rightarrow> unit reply \<times> 's" where
  "reset_login_device R t d = api_del (strs R) t (login_device_key d)"

subsection \<open>What the limiter admits\<close>

text \<open>
  A run of attempts on one key, each with its time and its member; the result says which were allowed. It is None when a
  command fails, which the services treat as a denial.
\<close>

fun rate_run :: "'s data_api \<Rightarrow> string \<Rightarrow> nat \<Rightarrow> time \<Rightarrow> (time \<times> string) list \<Rightarrow> 's \<Rightarrow> bool list option" where
  "rate_run R key limit window [] s = Some []"
| "rate_run R key limit window ((t, m) # as) s =
     (case rate_allow R t m key limit window s of
        (Reply r, s1) \<Rightarrow> map_option ((#) (rl_allowed r)) (rate_run R key limit window as s1)
      | (Fault, s1) \<Rightarrow> None)"

text \<open>The specification: an attempt is allowed iff fewer than \<open>limit\<close> of the earlier ones are younger than the window.\<close>

definition recent :: "time \<Rightarrow> time \<Rightarrow> time list \<Rightarrow> nat" where
  "recent window t ts = length (filter (\<lambda>u. t < u + window) ts)"

fun window_spec :: "nat \<Rightarrow> time \<Rightarrow> time list \<Rightarrow> time list \<Rightarrow> bool list" where
  "window_spec limit window past [] = []"
| "window_spec limit window past (t # ts) = (recent window t past < limit) # window_spec limit window (t # past) ts"

lemma window_spec_length [simp]: "length (window_spec limit window past ts) = length ts"
  by (induction ts arbitrary: past) auto

text \<open>The times of the allowed attempts among \<open>ts\<close>.\<close>

definition allowed_times :: "time list \<Rightarrow> bool list \<Rightarrow> time list" where
  "allowed_times ts bs = map fst (filter snd (zip ts bs))"

lemma allowed_times_simps [simp]:
  "allowed_times [] bs = []"
  "allowed_times (t # ts) (b # bs) = (if b then t # allowed_times ts bs else allowed_times ts bs)"
  by (simp_all add: allowed_times_def)

text \<open>How many of the times lie in the window that starts at \<open>a\<close>.\<close>

definition in_window :: "time \<Rightarrow> time \<Rightarrow> time list \<Rightarrow> nat" where
  "in_window window a ts = length (filter (\<lambda>u. a \<le> u \<and> u < a + window) ts)"

lemma in_window_simps [simp]:
  "in_window w a [] = 0"
  "in_window w a (t # ts) = (if a \<le> t \<and> t < a + w then 1 else 0) + in_window w a ts"
  by (simp_all add: in_window_def)

lemma in_window_recent: "t < a + w \<Longrightarrow> in_window w a past \<le> recent w t past"
  unfolding recent_def by (induction past) auto

text \<open>Whatever the attempts, no window admits more than \<open>limit\<close> of them.\<close>

lemma window_spec_bound:
  "in_window w a (allowed_times ts (window_spec limit w past ts)) \<le> limit - in_window w a past"
proof (induction ts arbitrary: past)
  case (Cons t ts)
  have "in_window w a (allowed_times ts (window_spec limit w (t # past) ts)) \<le> limit - in_window w a (t # past)"
    by (rule Cons.IH)
  then show ?case using in_window_recent [of t a w past] by (auto simp: not_less)
qed simp

text \<open>An attempt that comes a full window after every earlier one is allowed.\<close>

lemma recent_old: "\<forall>u \<in> set past. u + w \<le> t \<Longrightarrow> recent w t past = 0"
  by (auto simp: recent_def filter_empty_conv)

context redis_scores
begin

text \<open>The sorted set holds what the window needs of the past attempts.\<close>

definition tracks :: "'s \<Rightarrow> string \<Rightarrow> time \<Rightarrow> time \<Rightarrow> (time \<times> string) list \<Rightarrow> bool" where
  "tracks s key window now past \<longleftrightarrow> distinct (map snd past) \<and> (\<forall>u \<in> set past. fst u \<le> now)
     \<and> (\<forall>t \<ge> now. {h \<in> hits s t key. int t - int window < snd h}
          = (\<lambda>(u, m). (m, int u)) ` {x \<in> set past. t < fst x + window})"

lemma tracked_card:
  assumes "tracks s key window now past" "now \<le> t"
  shows "card {h \<in> hits s t key. int t - int window < snd h} = recent window t (map fst past)"
proof -
  have "inj_on (\<lambda>(u :: time, m :: string). (m, int u)) S" for S by (auto simp: inj_on_def)
  moreover have "distinct past" using assms(1) by (auto simp: tracks_def distinct_map)
  ultimately show ?thesis using assms
    by (auto simp: tracks_def card_image recent_def filter_map comp_def distinct_length_filter Int_def conj_commute)
qed

lemma rate_allow_step:
  assumes "rate_allow R t m key limit window s = (Reply r, s')" "tracks s key window now past" "now \<le> t" "m \<notin> snd ` set past"
  shows "rl_allowed r = (recent window t (map fst past) < limit) \<and> tracks s' key window t ((t, m) # past)"
proof -
  obtain s1 s2 s3 n where steps: "api_zrem_upto R t key (int t - int window) s = (Reply (), s1)"
    "api_zcard R t key s1 = (Reply n, s2)" "api_zadd R t key (int t) m s2 = (Reply (), s3)"
    "api_expire R t key (window + seconds 1) s3 = (Reply (), s')" and r: "r = rate_result_of t limit window n"
    using assms(1) by (auto simp: rate_allow_def split: prod.splits reply.splits)
  define old where "old = {h \<in> hits s t key. int t - int window < snd h}"
  have old: "old = (\<lambda>(u, m). (m, int u)) ` {x \<in> set past. t < fst x + window}"
    using assms(2,3) by (auto simp: tracks_def old_def)
  have n: "n = card old" and h2: "hits s2 t key = old"
    using zrem_reply [OF steps(1)] zcard_reply [OF steps(2)] by (simp_all add: old_def)
  have fresh: "fst h \<noteq> m" if "h \<in> old" for h using that assms(4) by (force simp: old)
  have h3: "hits s3 t key = insert (m, int t) old" using zadd_reply [OF steps(3)] h2 fresh by auto
  have later: "hits s' t' key = (if t' < t + (window + seconds 1) then insert (m, int t) old else {})" if "t \<le> t'" for t'
    using zexpire_reply [OF steps(4) that] h3 by simp
  have "{h \<in> hits s' t' key. int t' - int window < snd h}
      = (\<lambda>(u, m). (m, int u)) ` {x \<in> set ((t, m) # past). t' < fst x + window}" if "t \<le> t'" for t'
  proof (cases "t' < t + (window + seconds 1)")
    case True
    then show ?thesis using that by (auto simp: later old image_iff)
  next
    case False
    then have "\<forall>x \<in> set ((t, m) # past). \<not> t' < fst x + window"
      using assms(2,3) by (force simp: tracks_def)
    then have "{x \<in> set ((t, m) # past). t' < fst x + window} = {}" by blast
    then show ?thesis using False by (simp add: later [OF that])
  qed
  then have "tracks s' key window t ((t, m) # past)" using assms(2-4) by (force simp: tracks_def)
  moreover have "n = recent window t (map fst past)" using n tracked_card [OF assms(2,3)] by (simp add: old_def)
  ultimately show ?thesis using r by (simp add: rate_result_of_def)
qed

lemma rate_run_spec:
  assumes "rate_run R key limit window as s = Some bs" "tracks s key window now past"
    "sorted (map fst as)" "\<forall>a \<in> set as. now \<le> fst a" "distinct (map snd (as @ past))"
  shows "bs = window_spec limit window (map fst past) (map fst as)"
  using assms
proof (induction "as" arbitrary: s bs now past)
  case (Cons a as)
  obtain t m where a: "a = (t, m)" by (cases a)
  obtain r s1 bs' where step: "rate_allow R t m key limit window s = (Reply r, s1)"
    and run: "rate_run R key limit window as s1 = Some bs'" and bs: "bs = rl_allowed r # bs'"
    using Cons.prems(1) by (auto simp: a split: prod.splits reply.splits)
  have "m \<notin> snd ` set past" using Cons.prems(5) by (auto simp: a)
  with rate_allow_step [OF step Cons.prems(2)] Cons.prems(4)
  have r: "rl_allowed r = (recent window t (map fst past) < limit)" and tr: "tracks s1 key window t ((t, m) # past)"
    by (auto simp: a)
  have "bs' = window_spec limit window (map fst ((t, m) # past)) (map fst as)"
    by (rule Cons.IH [OF run tr]) (use Cons.prems(3,5) in \<open>auto simp: a\<close>)
  then show ?case by (simp add: bs r a)
qed simp

lemma tracks_empty: "(\<And>t. hits s t key = {}) \<Longrightarrow> tracks s key window now []"
  by (simp add: tracks_def)

theorem admitted_in_window:
  assumes "rate_run R key limit window as s = Some bs" "\<And>t. hits s t key = {}"
    "sorted (map fst as)" "distinct (map snd as)"
  shows "bs = window_spec limit window [] (map fst as)
    \<and> in_window window a (allowed_times (map fst as) bs) \<le> limit"
proof -
  have "bs = window_spec limit window [] (map fst as)"
    using rate_run_spec [OF assms(1) tracks_empty [OF assms(2)], of 0] assms(3,4) by simp
  then show ?thesis using window_spec_bound [of window a "map fst as" limit "[]"] by simp
qed

end

end
