(* ===== verification/Auth_Store.thy ===== *)
theory Auth_Store
  imports Service
begin

text \<open>
  The tables of the authentication side (\<open>domain/auth/entity.go\<close>, \<open>migrations/000001\<close>) and the queries of
  \<open>repository/postgres/user_repo.go\<close>, \<open>device_repo.go\<close>, \<open>session_repo.go\<close> and \<open>biometric_repo.go\<close>. Each query is a
  statement of its own; it may fail, and a failed one changes nothing.
\<close>

subsection \<open>Errors\<close>

abbreviation InvalidPIN :: app_err where "InvalidPIN \<equiv> Coded 401 ''AUTH_INVALID_PIN'' []"

abbreviation TokenExpired :: app_err where "TokenExpired \<equiv> Coded 401 ''AUTH_TOKEN_EXPIRED'' []"

abbreviation TokenInvalid :: app_err where "TokenInvalid \<equiv> Coded 401 ''AUTH_TOKEN_INVALID'' []"

abbreviation BiometricNotRegistered :: app_err where
  "BiometricNotRegistered \<equiv> Coded 401 ''AUTH_BIOMETRIC_NOT_REGISTERED'' []"

abbreviation SessionRevoked :: app_err where "SessionRevoked \<equiv> Coded 401 ''AUTH_SESSION_REVOKED'' []"

abbreviation DeviceNotRecognized :: app_err where "DeviceNotRecognized \<equiv> Coded 403 ''AUTH_DEVICE_NOT_RECOGNIZED'' []"

abbreviation OldPINMismatch :: app_err where "OldPINMismatch \<equiv> Coded 422 ''AUTH_OLD_PIN_MISMATCH'' []"

abbreviation SamePIN :: app_err where "SamePIN \<equiv> Coded 422 ''VALIDATION_ERROR'' []"

abbreviation BiometricKeyUnsupported :: app_err where
  "BiometricKeyUnsupported \<equiv> Coded 422 ''AUTH_BIOMETRIC_KEY_UNSUPPORTED'' []"

abbreviation PINKeyUnknown :: "string \<Rightarrow> string \<Rightarrow> app_err" where
  "PINKeyUnknown expected received \<equiv> Coded 422 ''AUTH_PIN_KEY_UNKNOWN''
     [(''expected_key_id'', JStr expected), (''received_key_id'', JStr received)]"

abbreviation AccountLocked :: app_err where "AccountLocked \<equiv> Coded 423 ''AUTH_ACCOUNT_LOCKED'' []"

abbreviation AccountLockedUntil :: "time \<Rightarrow> app_err" where
  "AccountLockedUntil t \<equiv> Coded 423 ''AUTH_ACCOUNT_LOCKED'' [(''locked_until'', JTime t)]"

abbreviation AttemptsRemaining :: "int \<Rightarrow> app_err" where
  "AttemptsRemaining n \<equiv> Coded 401 ''AUTH_INVALID_PIN'' [(''attempts_remaining'', JInt n)]"

abbreviation RateLimitExceeded :: app_err where "RateLimitExceeded \<equiv> Coded 429 ''RATE_LIMIT_EXCEEDED'' []"

abbreviation ProviderNotConfigured :: app_err where "ProviderNotConfigured \<equiv> Coded 503 ''PROVIDER_NOT_CONFIGURED'' []"

subsection \<open>Tables\<close>

record user =
  ur_id :: uuid
  ur_full_name :: string
  ur_display_name :: string
  ur_pin_hash :: string
  ur_access_hash :: string
  ur_status :: string
  ur_locked_until :: "time option"
  ur_failed :: int
  ur_max :: int
  ur_last_login :: "time option"
  ur_deleted :: bool

record device =
  de_id :: uuid
  de_user :: uuid
  de_key :: string
  de_last_active :: "time option"
  de_revoked :: bool

record session =
  se_id :: uuid
  se_user :: uuid
  se_device :: uuid
  se_hash :: string
  se_ip :: string
  se_method :: string
  se_expires :: time
  se_created :: time
  se_revoked :: "time option"

record biometric_key =
  bk_id :: uuid
  bk_user :: uuid
  bk_device :: uuid
  bk_key :: string
  bk_public :: string
  bk_type :: string
  bk_attestation :: "string option"
  bk_active :: bool
  bk_revoked :: "time option"
  bk_created :: time

record auth_db =
  users :: "user list"
  devices :: "device list"
  sessions :: "session list"
  biometric_keys :: "biometric_key list"

text \<open>\<open>User.LoginCredential\<close>: the access code when there is one, otherwise the PIN.\<close>

definition login_credential :: "user \<Rightarrow> string" where
  "login_credential u = (if ur_access_hash u \<noteq> '''' then ur_access_hash u else ur_pin_hash u)"

subsection \<open>The request's environment\<close>

datatype auth_query = AFindUserByDevice | AFindUser | AIncrementFailed | AResetFailed | ASetLocked | AUpdateAccess
  | AUpdatePIN | AFindDevice | ATouchDevice | ACreateSession | AFindByHash | AFindActive | AUpdateRefresh
  | ARevokeSession | ARevokeUser | AFindKey | ACreateKey | ARevokeKeys | AInsertNotice

text \<open>
  The clock, the fresh ids, the token pair the JWT manager signs (None when signing fails), the salted hash of a new credential
  (None when hashing fails), the random challenge, the members for the rate limiter, and which queries fail.
\<close>

record auth_env =
  ae_now :: time
  ae_id :: uuid
  ae_pair :: "(string \<times> string) option"
  ae_hash :: "string \<Rightarrow> string option"
  ae_challenge :: string
  ae_member :: "string \<Rightarrow> string"
  ae_fault :: "auth_query \<Rightarrow> bool"

record 's auth_world = "'s world" +
  au :: auth_db

type_synonym ('s, 'a) auth = "('s auth_world, 'a) svc"

definition au_read :: "auth_env \<Rightarrow> auth_query \<Rightarrow> (auth_db \<Rightarrow> 'a) \<Rightarrow> ('s, 'a) auth" where
  "au_read E q f w = (if ae_fault E q then (Inl InternalError, w) else (Inr (f (au w)), w))"

text \<open>A statement that may find nothing to do or violate a constraint.\<close>

definition au_write :: "auth_env \<Rightarrow> auth_query \<Rightarrow> (auth_db \<Rightarrow> ('a \<times> auth_db) option) \<Rightarrow> ('s, 'a) auth" where
  "au_write E q f w = (if ae_fault E q then (Inl InternalError, w) else
     (case f (au w) of None \<Rightarrow> (Inl InternalError, w) | Some (x, d) \<Rightarrow> (Inr x, w\<lparr>au := d\<rparr>)))"

definition au_exec :: "auth_env \<Rightarrow> auth_query \<Rightarrow> (auth_db \<Rightarrow> auth_db) \<Rightarrow> ('s, unit) auth" where
  "au_exec E q f w = (if ae_fault E q then (Inl InternalError, w) else (Inr (), w\<lparr>au := f (au w)\<rparr>))"

definition best_effort_au :: "auth_env \<Rightarrow> auth_query \<Rightarrow> (auth_db \<Rightarrow> auth_db) \<Rightarrow> ('s, unit) auth" where
  "best_effort_au E q f w = (Inr (), if ae_fault E q then w else w\<lparr>au := f (au w)\<rparr>)"

lemma au_simps [simp]:
  "au_read E q f w = (Inr a, w') \<longleftrightarrow> \<not> ae_fault E q \<and> a = f (au w) \<and> w' = w"
  "au_read E q f w = (Inl e, w') \<longleftrightarrow> ae_fault E q \<and> e = InternalError \<and> w' = w"
  "au_exec E q g w = (Inr u, w') \<longleftrightarrow> \<not> ae_fault E q \<and> w' = w\<lparr>au := g (au w)\<rparr>"
  "au_exec E q g w = (Inl e, w') \<longleftrightarrow> ae_fault E q \<and> e = InternalError \<and> w' = w"
  "best_effort_au E q g w = (Inr u, w') \<longleftrightarrow> w' = (if ae_fault E q then w else w\<lparr>au := g (au w)\<rparr>)"
  "best_effort_au E q g w = (Inl e, w') \<longleftrightarrow> False"
  "au_write E q h w = (Inr x, w') \<longleftrightarrow> \<not> ae_fault E q \<and> (\<exists>d. h (au w) = Some (x, d) \<and> w' = w\<lparr>au := d\<rparr>)"
  "au_write E q h w = (Inl e, w') \<longleftrightarrow> (ae_fault E q \<or> h (au w) = None) \<and> e = InternalError \<and> w' = w"
  by (auto simp: au_read_def au_exec_def best_effort_au_def au_write_def split: option.splits)

text \<open>\<open>Notifier.Security\<close>\<close>

definition notify_security :: "auth_env \<Rightarrow> uuid \<Rightarrow> string \<Rightarrow> string \<Rightarrow> ('s, unit) auth" where
  "notify_security E user title body w = (Inr (), if ae_fault E AInsertNotice then w
     else w\<lparr>sent := sent w @ [\<lparr>no_user = user, no_type = ''SECURITY'', no_title = title, no_body = body, no_link = '''', no_meta = []\<rparr>]\<rparr>)"

lemma notify_security_simps [simp]:
  "notify_security E user title body w = (Inl e, w') \<longleftrightarrow> False"
  by (auto simp: notify_security_def)

subsection \<open>Users\<close>

definition find_user_by_device :: "string \<Rightarrow> auth_db \<Rightarrow> user option" where
  "find_user_by_device d a = (case find (\<lambda>x. de_key x = d \<and> \<not> de_revoked x) (devices a) of
     None \<Rightarrow> None | Some x \<Rightarrow> find (\<lambda>u. ur_id u = de_user x \<and> \<not> ur_deleted u) (users a))"

definition find_user :: "uuid \<Rightarrow> auth_db \<Rightarrow> user option" where
  "find_user i a = find (\<lambda>u. ur_id u = i \<and> \<not> ur_deleted u) (users a)"

definition update_user :: "uuid \<Rightarrow> (user \<Rightarrow> user) \<Rightarrow> auth_db \<Rightarrow> auth_db" where
  "update_user i f a = a\<lparr>users := map (\<lambda>u. if ur_id u = i then f u else u) (users a)\<rparr>"

text \<open>\<open>UPDATE users SET failed_pin_attempts = failed_pin_attempts + 1 \<dots> RETURNING failed_pin_attempts\<close>\<close>

definition increment_failed :: "uuid \<Rightarrow> auth_db \<Rightarrow> (int \<times> auth_db) option" where
  "increment_failed i a = (case find (\<lambda>u. ur_id u = i) (users a) of
     None \<Rightarrow> None
   | Some u \<Rightarrow> Some (ur_failed u + 1, update_user i (\<lambda>u. u\<lparr>ur_failed := ur_failed u + 1\<rparr>) a))"

definition reset_failed :: "time \<Rightarrow> uuid \<Rightarrow> auth_db \<Rightarrow> auth_db" where
  "reset_failed t i = update_user i (\<lambda>u. u\<lparr>ur_failed := 0, ur_last_login := Some t\<rparr>)"

definition set_locked_until :: "uuid \<Rightarrow> time \<Rightarrow> auth_db \<Rightarrow> auth_db" where
  "set_locked_until i t = update_user i (\<lambda>u. u\<lparr>ur_locked_until := Some t\<rparr>)"

definition update_access_hash :: "uuid \<Rightarrow> string \<Rightarrow> auth_db \<Rightarrow> auth_db" where
  "update_access_hash i h = update_user i (\<lambda>u. u\<lparr>ur_access_hash := h\<rparr>)"

definition update_pin_hash :: "uuid \<Rightarrow> string \<Rightarrow> auth_db \<Rightarrow> auth_db" where
  "update_pin_hash i h = update_user i (\<lambda>u. u\<lparr>ur_pin_hash := h\<rparr>)"

subsection \<open>Devices\<close>

definition find_active_device :: "string \<Rightarrow> auth_db \<Rightarrow> device option" where
  "find_active_device d a = find (\<lambda>x. de_key x = d \<and> \<not> de_revoked x) (devices a)"

definition touch_device :: "time \<Rightarrow> uuid \<Rightarrow> auth_db \<Rightarrow> auth_db" where
  "touch_device t i a = a\<lparr>devices := map (\<lambda>x. if de_id x = i then x\<lparr>de_last_active := Some t\<rparr> else x) (devices a)\<rparr>"

subsection \<open>Sessions\<close>

definition create_session :: "session \<Rightarrow> auth_db \<Rightarrow> (unit \<times> auth_db) option" where
  "create_session s a = (if list_ex (\<lambda>x. se_id x = se_id s \<or> se_hash x = se_hash s) (sessions a) then None
     else Some ((), a\<lparr>sessions := sessions a @ [s]\<rparr>))"

definition find_by_refresh_hash :: "string \<Rightarrow> auth_db \<Rightarrow> session option" where
  "find_by_refresh_hash h a = find (\<lambda>x. se_hash x = h \<and> se_revoked x = None) (sessions a)"

definition find_active_session :: "time \<Rightarrow> uuid \<Rightarrow> auth_db \<Rightarrow> session option" where
  "find_active_session t i a = find (\<lambda>x. se_id x = i \<and> se_revoked x = None \<and> t < se_expires x) (sessions a)"

text \<open>No row updated, or a hash another session has, is an error.\<close>

definition update_refresh :: "uuid \<Rightarrow> string \<Rightarrow> time \<Rightarrow> auth_db \<Rightarrow> (unit \<times> auth_db) option" where
  "update_refresh i h e a = (if \<not> list_ex (\<lambda>x. se_id x = i \<and> se_revoked x = None) (sessions a)
       \<or> list_ex (\<lambda>x. se_id x \<noteq> i \<and> se_hash x = h) (sessions a) then None
     else Some ((), a\<lparr>sessions := map (\<lambda>x. if se_id x = i \<and> se_revoked x = None
       then x\<lparr>se_hash := h, se_expires := e\<rparr> else x) (sessions a)\<rparr>))"

definition revoke_session :: "time \<Rightarrow> uuid \<Rightarrow> auth_db \<Rightarrow> auth_db" where
  "revoke_session t i a = a\<lparr>sessions := map (\<lambda>x. if se_id x = i \<and> se_revoked x = None
     then x\<lparr>se_revoked := Some t\<rparr> else x) (sessions a)\<rparr>"

definition revoke_user_sessions :: "time \<Rightarrow> uuid \<Rightarrow> auth_db \<Rightarrow> auth_db" where
  "revoke_user_sessions t u a = a\<lparr>sessions := map (\<lambda>x. if se_user x = u \<and> se_revoked x = None
     then x\<lparr>se_revoked := Some t\<rparr> else x) (sessions a)\<rparr>"

subsection \<open>Biometric keys\<close>

definition find_active_key :: "string \<Rightarrow> auth_db \<Rightarrow> biometric_key option" where
  "find_active_key k a = find (\<lambda>x. bk_key x = k \<and> bk_active x \<and> bk_revoked x = None) (biometric_keys a)"

text \<open>
  \<open>INSERT \<dots> ON CONFLICT (key_id) DO UPDATE \<dots> WHERE\<close> same user and device \<open>RETURNING id\<close>; no row is returned, an error, when
  the key id belongs to another user or device.
\<close>

definition create_key :: "biometric_key \<Rightarrow> auth_db \<Rightarrow> (uuid \<times> auth_db) option" where
  "create_key k a = (case find (\<lambda>x. bk_key x = bk_key k) (biometric_keys a) of
     None \<Rightarrow> Some (bk_id k, a\<lparr>biometric_keys := biometric_keys a @ [k]\<rparr>)
   | Some x0 \<Rightarrow> if bk_user x0 = bk_user k \<and> bk_device x0 = bk_device k
       then Some (bk_id x0, a\<lparr>biometric_keys := map (\<lambda>x. if bk_key x = bk_key k
         then x\<lparr>bk_public := bk_public k, bk_type := bk_type k, bk_attestation := bk_attestation k, bk_active := True,
           bk_revoked := None, bk_created := bk_created k\<rparr> else x) (biometric_keys a)\<rparr>)
       else None)"

definition revoke_keys :: "time \<Rightarrow> uuid \<Rightarrow> uuid \<Rightarrow> auth_db \<Rightarrow> (nat \<times> auth_db) option" where
  "revoke_keys t user dev a =
     (let hit = (\<lambda>x. bk_user x = user \<and> bk_device x = dev \<and> bk_active x \<and> bk_revoked x = None) in
      Some (length (filter hit (biometric_keys a)),
        a\<lparr>biometric_keys := map (\<lambda>x. if hit x then x\<lparr>bk_active := False, bk_revoked := Some t\<rparr> else x) (biometric_keys a)\<rparr>))"

end
