(* ===== verification/Session_Cache.thy ===== *)
theory Session_Cache
  imports Rate_Limit Auth_Store
begin

text \<open>
  What the authentication side keeps in Redis: the session markers of \<open>repository/redis/session_cache.go\<close>, the revoked
  refresh tokens of \<open>token_revocation.go\<close>, the PIN nonces of \<open>nonce.go\<close>, the account locks of \<open>lockout.go\<close> and the challenges
  of \<open>biometric_cache.go\<close>.
\<close>

definition session_ttl :: time where "session_ttl = minutes 15"

definition user_session_ttl :: time where "user_session_ttl = hours 168"

definition negative_session_ttl :: time where "negative_session_ttl = minutes 1"

definition session_key :: "uuid \<Rightarrow> string \<Rightarrow> string" where
  "session_key u d = ''session:'' @ u @ '':'' @ d"

definition user_sessions_key :: "uuid \<Rightarrow> string" where
  "user_sessions_key u = ''sessions:user:'' @ u"

definition active_session_key :: "uuid \<Rightarrow> string" where
  "active_session_key i = ''session:active:'' @ i"

definition user_active_sessions_key :: "uuid \<Rightarrow> string" where
  "user_active_sessions_key u = ''sessions:active:user:'' @ u"

definition inactive_session_key :: "uuid \<Rightarrow> string" where
  "inactive_session_key i = ''session:inactive:'' @ i"

definition device_key_for :: "session \<Rightarrow> string \<Rightarrow> string" where
  "device_key_for x dkey = (if dkey \<noteq> '''' then dkey else se_device x)"

definition store_session :: "'s data_api \<Rightarrow> time \<Rightarrow> session \<Rightarrow> string \<Rightarrow> string \<Rightarrow> string \<Rightarrow> 's \<Rightarrow> (unit \<times> unit) reply \<times> 's" where
  "store_session R t x dkey display auth_method =
     (let key = session_key (se_user x) (device_key_for x dkey) in
      pipe_then (api_hset R t key [(''session_id'', JStr (se_id x)), (''user_id'', JStr (se_user x)), (''device_id'', JStr (se_device x)),
          (''display_name'', JStr display), (''auth_method'', JStr auth_method), (''ip'', JStr (se_ip x)),
          (''created_at'', JTime (se_created x)), (''last_activity'', JTime t)])
        (api_expire R t key session_ttl))"

definition mark_active :: "'s data_api \<Rightarrow> time \<Rightarrow> uuid \<Rightarrow> uuid \<Rightarrow> time \<Rightarrow> 's \<Rightarrow> (unit \<times> unit \<times> unit) reply \<times> 's" where
  "mark_active R t user i ttl =
     pipe_then (api_set (strs R) t (active_session_key i) (RText user) ttl)
       (pipe_then (api_sadd R t (user_active_sessions_key user) i)
          (api_expire R t (user_active_sessions_key user) ttl))"

definition is_active :: "'s data_api \<Rightarrow> time \<Rightarrow> uuid \<Rightarrow> 's \<Rightarrow> bool reply \<times> 's" where
  "is_active R t i = api_exists R t (active_session_key i)"

definition mark_inactive :: "'s data_api \<Rightarrow> time \<Rightarrow> uuid \<Rightarrow> time \<Rightarrow> 's \<Rightarrow> unit reply \<times> 's" where
  "mark_inactive R t i ttl =
     api_set (strs R) t (inactive_session_key i) (RText ''1'') (if ttl = 0 then negative_session_ttl else ttl)"

definition is_known_inactive :: "'s data_api \<Rightarrow> time \<Rightarrow> uuid \<Rightarrow> 's \<Rightarrow> bool reply \<times> 's" where
  "is_known_inactive R t i = api_exists R t (inactive_session_key i)"

definition revoke_active :: "'s data_api \<Rightarrow> time \<Rightarrow> uuid \<Rightarrow> uuid \<Rightarrow> 's \<Rightarrow> (unit \<times> unit) reply \<times> 's" where
  "revoke_active R t user i =
     pipe_then (api_del (strs R) t (active_session_key i)) (api_srem R t (user_active_sessions_key user) i)"

definition revoke_all_active :: "'s data_api \<Rightarrow> time \<Rightarrow> uuid \<Rightarrow> 's \<Rightarrow> unit reply \<times> 's" where
  "revoke_all_active R t user s =
     (case api_smembers R t (user_active_sessions_key user) s of
        (Fault, s1) \<Rightarrow> (Fault, s1)
      | (Reply ids, s1) \<Rightarrow> api_del_keys R t (map active_session_key ids @ [user_active_sessions_key user]) s1)"

definition add_to_user_sessions :: "'s data_api \<Rightarrow> time \<Rightarrow> uuid \<Rightarrow> string \<Rightarrow> 's \<Rightarrow> (unit \<times> unit) reply \<times> 's" where
  "add_to_user_sessions R t user d =
     pipe_then (api_sadd R t (user_sessions_key user) d) (api_expire R t (user_sessions_key user) user_session_ttl)"

definition delete_session :: "'s data_api \<Rightarrow> time \<Rightarrow> uuid \<Rightarrow> string \<Rightarrow> 's \<Rightarrow> unit reply \<times> 's" where
  "delete_session R t user d = api_del (strs R) t (session_key user d)"

definition invalidate_user_sessions :: "'s data_api \<Rightarrow> time \<Rightarrow> uuid \<Rightarrow> 's \<Rightarrow> unit reply \<times> 's" where
  "invalidate_user_sessions R t user s =
     (case api_smembers R t (user_sessions_key user) s of
        (Fault, s1) \<Rightarrow> (Fault, s1)
      | (Reply ids, s1) \<Rightarrow> if ids = [] then (Reply (), s1)
          else api_del_keys R t (map (session_key user) ids @ [user_sessions_key user]) s1)"

subsection \<open>Revoked refresh tokens\<close>

definition revoked_key :: "string \<Rightarrow> string" where
  "revoked_key h = ''refresh:revoked:'' @ h"

definition mark_revoked :: "'s data_api \<Rightarrow> time \<Rightarrow> string \<Rightarrow> int \<Rightarrow> 's \<Rightarrow> unit reply \<times> 's" where
  "mark_revoked R t h ttl s =
     (if ttl \<le> 0 then (Reply (), s) else api_set (strs R) t (revoked_key h) (RText ''1'') (nat ttl) s)"

definition is_revoked :: "'s data_api \<Rightarrow> time \<Rightarrow> string \<Rightarrow> 's \<Rightarrow> bool reply \<times> 's" where
  "is_revoked R t h = api_exists R t (revoked_key h)"

subsection \<open>Nonces\<close>

definition nonce_ttl :: time where "nonce_ttl = seconds 120"

definition nonce_key :: "string \<Rightarrow> string" where
  "nonce_key n = ''pin_nonce:'' @ n"

definition check_and_mark :: "'s data_api \<Rightarrow> time \<Rightarrow> string \<Rightarrow> 's \<Rightarrow> bool reply \<times> 's" where
  "check_and_mark R t n = api_setnx (strs R) t (nonce_key n) (RText ''1'') nonce_ttl"

subsection \<open>Locks\<close>

definition lockout_duration :: time where "lockout_duration = minutes 30"

definition lockout_escalated :: time where "lockout_escalated = hours 24"

definition lockout_escalate_after :: int where "lockout_escalate_after = 3"

definition lock_account_key :: "uuid \<Rightarrow> string" where
  "lock_account_key u = ''lock:account:'' @ u"

definition lockout_count_key :: "uuid \<Rightarrow> string" where
  "lockout_count_key u = ''lock:count:'' @ u"

text \<open>Locked until when, or None.\<close>

definition is_locked :: "'s data_api \<Rightarrow> time \<Rightarrow> uuid \<Rightarrow> 's \<Rightarrow> time option reply \<times> 's" where
  "is_locked R t u s = (case api_ttl R t (lock_account_key u) s of
     (Fault, s1) \<Rightarrow> (Fault, s1)
   | (Reply n, s1) \<Rightarrow> (Reply (if n \<le> 0 then None else Some (t + 1000 * nat n)), s1))"

definition lock_account :: "'s data_api \<Rightarrow> time \<Rightarrow> uuid \<Rightarrow> 's \<Rightarrow> time reply \<times> 's" where
  "lock_account R t u s =
     (case pipe_then (api_incr (strs R) t (lockout_count_key u))
          (api_expire R t (lockout_count_key u) (hours 24)) s of
        (Fault, s1) \<Rightarrow> (Fault, s1)
      | (Reply (locks, _), s1) \<Rightarrow>
          (let duration = (if lockout_escalate_after \<le> locks then lockout_escalated else lockout_duration);
               until = t + duration in
           case api_set (strs R) t (lock_account_key u) (RNum (int (until div 1000))) duration s1 of
             (Fault, s2) \<Rightarrow> (Fault, s2)
           | (Reply _, s2) \<Rightarrow> (Reply until, s2)))"

definition unlock :: "'s data_api \<Rightarrow> time \<Rightarrow> uuid \<Rightarrow> 's \<Rightarrow> unit reply \<times> 's" where
  "unlock R t u = api_del (strs R) t (lock_account_key u)"

subsection \<open>Biometric challenges\<close>

definition challenge_ttl :: time where "challenge_ttl = seconds 60"

definition challenge_key :: "string \<Rightarrow> string" where
  "challenge_key i = ''bio_challenge:'' @ i"

record challenge_data =
  cd_challenge :: string
  cd_device :: string

definition encode_challenge :: "challenge_data \<Rightarrow> json" where
  "encode_challenge c = JObj [(''Challenge'', JStr (cd_challenge c)), (''DeviceID'', JStr (cd_device c))]"

definition decode_challenge :: "json \<Rightarrow> challenge_data option" where
  "decode_challenge j = (case j of
     JObj ms \<Rightarrow> (case (get_str ms ''Challenge'', get_str ms ''DeviceID'') of
        (Some c, Some d) \<Rightarrow> Some \<lparr>cd_challenge = c, cd_device = d\<rparr> | _ \<Rightarrow> None)
   | _ \<Rightarrow> None)"

lemma decode_encode_challenge [simp]: "decode_challenge (encode_challenge c) = Some c"
  by (simp add: encode_challenge_def decode_challenge_def get_str_def)

definition store_challenge :: "'s data_api \<Rightarrow> time \<Rightarrow> string \<Rightarrow> challenge_data \<Rightarrow> 's \<Rightarrow> unit reply \<times> 's" where
  "store_challenge R t i c = api_set (strs R) t (challenge_key i) (RJson (encode_challenge c)) challenge_ttl"

definition consume_challenge :: "'s data_api \<Rightarrow> time \<Rightarrow> string \<Rightarrow> 's \<Rightarrow> challenge_data option reply \<times> 's" where
  "consume_challenge R t i s = (case api_getdel (strs R) t (challenge_key i) s of
      (Fault, s1) \<Rightarrow> (Fault, s1)
    | (Reply None, s1) \<Rightarrow> (Reply None, s1)
    | (Reply (Some (RJson j)), s1) \<Rightarrow> (case decode_challenge j of None \<Rightarrow> (Fault, s1) | Some c \<Rightarrow> (Reply (Some c), s1))
    | (Reply (Some _), s1) \<Rightarrow> (Fault, s1))"

end
