(* ===== verification/Auth_Service.thy ===== *)
theory Auth_Service
  imports Session_Cache EWallet_Service EMVCo "HOL-Library.Word"
begin

text \<open>
  \<open>domain/auth/service.go\<close>, \<open>session_service.go\<close> and \<open>biometric_service.go\<close>: login by PIN and by biometric key, the PIN
  check before a transaction, the changes of PIN and access code, the rotation of refresh tokens, logout, and the check of a
  session that the middleware makes on every request. The optional collaborators are wired, as the router does. The audit log
  is written by a queue of its own and left out.
\<close>

subsection \<open>Third-party code and configuration\<close>

record claims =
  cl_subject :: string
  cl_session :: string
  cl_device :: string

record pin_payload =
  pl_pin :: string
  pl_nonce :: string
  pl_ts :: "64 word"

datatype public_key = P256 string | OtherCurve string | NotEC

record auth_lib = lib +
  verify_refresh :: "time \<Rightarrow> string \<Rightarrow> claims option"
  decrypt_pin :: "string \<Rightarrow> pin_payload option"
  verify_password :: "string \<Rightarrow> string \<Rightarrow> bool option"
  parse_public_key :: "string \<Rightarrow> public_key option"
  base64_decode :: "string \<Rightarrow> string option"
  base64_encode :: "string \<Rightarrow> string"
  sha256_raw :: "string \<Rightarrow> string"
  verify_asn1 :: "public_key \<Rightarrow> string \<Rightarrow> string \<Rightarrow> bool"
  verify_rs :: "public_key \<Rightarrow> string \<Rightarrow> string \<Rightarrow> string \<Rightarrow> bool"

text \<open>The key pair for PINs, if there is one, by its configured id, and the lifetimes of the tokens.\<close>

record auth_cfg =
  cf_pin_key :: "string option"
  cf_access_ttl :: time
  cf_refresh_ttl :: time

text \<open>A Redis call whose error is a branch of the handler.\<close>

definition try_kv :: "('s \<Rightarrow> 'a reply \<times> 's) \<Rightarrow> ('s, 'a option) auth" where
  "try_kv f w = (case f (kv w) of (Reply x, s) \<Rightarrow> (Inr (Some x), w\<lparr>kv := s\<rparr>) | (Fault, s) \<Rightarrow> (Inr None, w\<lparr>kv := s\<rparr>))"

lemma try_kv_simps [simp]:
  "try_kv f w = (Inl e, w') \<longleftrightarrow> False"
  "try_kv f w = (Inr (Some x), w') \<longleftrightarrow> (\<exists>s. f (kv w) = (Reply x, s) \<and> w' = w\<lparr>kv := s\<rparr>)"
  "try_kv f w = (Inr None, w') \<longleftrightarrow> (\<exists>s. f (kv w) = (Fault, s) \<and> w' = w\<lparr>kv := s\<rparr>)"
  by (auto simp: try_kv_def split: prod.splits reply.splits)

subsection \<open>The PIN on the wire\<close>

definition default_pin_key_id :: string where "default_pin_key_id = ''pin-key-v1''"

definition active_key_id :: "string \<Rightarrow> string" where
  "active_key_id k = (if trim_space k = '''' then default_pin_key_id else k)"

text \<open>\<open>strings.EqualFold\<close> on ASCII strings.\<close>

definition equal_fold :: "string \<Rightarrow> string \<Rightarrow> bool" where
  "equal_fold x y \<longleftrightarrow> map upper_char x = map upper_char y"

definition accepts_key_id :: "string \<Rightarrow> string \<Rightarrow> bool" where
  "accepts_key_id k i = (let i' = trim_space i in if i' = '''' then True else equal_fold i' (active_key_id k))"

definition validate_pin_key_id :: "auth_cfg \<Rightarrow> string \<Rightarrow> ('s, unit) auth" where
  "validate_pin_key_id C i = (case cf_pin_key C of
     None \<Rightarrow> svc_throw ProviderNotConfigured
   | Some k \<Rightarrow> fail_if (\<not> accepts_key_id k i) (PINKeyUnknown (active_key_id k) i))"

definition max_pin_timestamp_skew :: time where "max_pin_timestamp_skew = seconds 60"

text \<open>
  \<open>time.Since\<close> of a Unix second, in nanoseconds: \<open>time.Unix\<close> counts seconds from the year 1 and wraps, the difference saturates at
  the ends of \<open>int64\<close>, and the negation of the least duration is itself.
\<close>

definition year_one :: int where "year_one = 62135596800"

definition time_since :: "time \<Rightarrow> 64 word \<Rightarrow> int" where
  "time_since t ts =
     (let d = 1000000 * int t - 1000000000 * (sint (ts + word_of_int year_one) - year_one) in
      max (- (2 ^ 63)) (min (2 ^ 63 - 1) d))"

definition negate_duration :: "int \<Rightarrow> int" where
  "negate_duration d = (if d = - (2 ^ 63) then d else - d)"

definition pin_timestamp_ok :: "time \<Rightarrow> pin_payload \<Rightarrow> bool" where
  "pin_timestamp_ok t p =
     (let d = time_since t (pl_ts p); d' = (if d < 0 then negate_duration d else d) in
      d' \<le> 1000000 * int max_pin_timestamp_skew)"

text \<open>Decrypt, check the timestamp, then burn the nonce; each refusal is the error \<open>e\<close> of the caller.\<close>

definition open_pin :: "('l) auth_lib_scheme \<Rightarrow> 's data_api \<Rightarrow> auth_env \<Rightarrow> app_err \<Rightarrow> string \<Rightarrow> ('s, pin_payload) auth" where
  "open_pin L R E e enc =
     svc_bind (svc_option e (decrypt_pin L enc)) (\<lambda>p.
     svc_seq (fail_if (\<not> pin_timestamp_ok (ae_now E) p) e)
    (svc_bind (on_kv (check_and_mark R (ae_now E) (pl_nonce p))) (\<lambda>fresh.
     svc_seq (fail_if (\<not> fresh) e) (svc_return p))))"

text \<open>The new PIN of a change: no nonce.\<close>

definition open_new_pin :: "('l) auth_lib_scheme \<Rightarrow> auth_env \<Rightarrow> string \<Rightarrow> ('s, pin_payload) auth" where
  "open_new_pin L E enc =
     svc_bind (svc_option ValidationError (decrypt_pin L enc)) (\<lambda>p.
     svc_seq (fail_if (\<not> pin_timestamp_ok (ae_now E) p) ValidationError) (svc_return p))"

subsection \<open>Guards\<close>

definition limited_by :: "('s \<Rightarrow> rate_result reply \<times> 's) \<Rightarrow> ('s, unit) auth" where
  "limited_by f = svc_bind (on_kv f) (\<lambda>r. fail_if (\<not> rl_allowed r) RateLimitExceeded)"

definition check_rate_limits :: "'s data_api \<Rightarrow> auth_env \<Rightarrow> string \<Rightarrow> string \<Rightarrow> ('s, unit) auth" where
  "check_rate_limits R E dev ip =
     svc_seq (limited_by (check_login_device R (ae_now E) (ae_member E (login_device_key dev)) dev))
       (limited_by (check_login_ip R (ae_now E) (ae_member E (login_ip_key ip)) ip))"

definition pin_rate :: "'s data_api \<Rightarrow> auth_env \<Rightarrow> uuid \<Rightarrow> ('s, unit) auth" where
  "pin_rate R E user = limited_by (check_pin_verify R (ae_now E) (ae_member E (pin_verify_user_key user)) user)"

text \<open>A refusal while the Redis lock of the account lives, with or without the time in its details.\<close>

definition refuse_locked :: "'s data_api \<Rightarrow> auth_env \<Rightarrow> bool \<Rightarrow> uuid \<Rightarrow> ('s, unit) auth" where
  "refuse_locked R E details user =
     svc_bind (on_kv (is_locked R (ae_now E) user)) (\<lambda>l. case l of
        None \<Rightarrow> svc_return ()
      | Some t \<Rightarrow> svc_throw (if details then AccountLockedUntil t else AccountLocked))"

definition refuse_db_locked :: "auth_env \<Rightarrow> user \<Rightarrow> ('s, unit) auth" where
  "refuse_db_locked E u = (case ur_locked_until u of
     None \<Rightarrow> svc_return ()
   | Some t \<Rightarrow> fail_if (ae_now E < t) (AccountLockedUntil t))"

subsection \<open>A wrong PIN\<close>

definition handle_failed_pin :: "'s data_api \<Rightarrow> auth_env \<Rightarrow> user \<Rightarrow> ('s, 'a) auth" where
  "handle_failed_pin R E u =
     svc_bind (au_write E AIncrementFailed (increment_failed (ur_id u))) (\<lambda>n.
       if ur_max u \<le> n then
         svc_bind (try_kv (lock_account R (ae_now E) (ur_id u))) (\<lambda>l. case l of
            None \<Rightarrow> svc_throw AccountLocked
          | Some t \<Rightarrow> svc_seq (best_effort_au E ASetLocked (set_locked_until (ur_id u) t)) (svc_throw (AccountLockedUntil t)))
       else svc_throw (AttemptsRemaining (ur_max u - n)))"

subsection \<open>Sessions\<close>

record user_info =
  ui_id :: uuid
  ui_display :: string
  ui_full :: string

record login_response =
  lr_access :: string
  lr_refresh :: string
  lr_expires_in :: nat
  lr_user :: "user_info option"

definition login_response_of :: "auth_cfg \<Rightarrow> string \<times> string \<Rightarrow> user option \<Rightarrow> login_response" where
  "login_response_of C pair u =
     \<lparr>lr_access = fst pair, lr_refresh = snd pair, lr_expires_in = cf_access_ttl C div 1000,
      lr_user = map_option (\<lambda>u. \<lparr>ui_id = ur_id u, ui_display = ur_display_name u, ui_full = ur_full_name u\<rparr>) u\<rparr>"

definition start_session ::
    "auth_cfg \<Rightarrow> ('l) auth_lib_scheme \<Rightarrow> 's data_api \<Rightarrow> auth_env \<Rightarrow> user \<Rightarrow> device \<Rightarrow> string \<Rightarrow> string \<Rightarrow> string
      \<Rightarrow> ('s, login_response) auth" where
  "start_session C L R E u dev dkey auth_method ip =
     svc_seq (best_effort_au E ATouchDevice (touch_device (ae_now E) (de_id dev)))
    (svc_bind (svc_option InternalError (ae_pair E)) (\<lambda>pair.
     let x = \<lparr>se_id = ae_id E, se_user = ur_id u, se_device = de_id dev, se_hash = sha256_hex L (snd pair), se_ip = ip,
              se_method = auth_method, se_expires = ae_now E + cf_refresh_ttl C, se_created = ae_now E, se_revoked = None\<rparr> in
     svc_seq (au_write E ACreateSession (create_session x))
    (svc_seq (best_effort_kv (store_session R (ae_now E) x dkey (ur_display_name u) auth_method))
    (svc_seq (best_effort_kv (add_to_user_sessions R (ae_now E) (ur_id u) dkey))
    (svc_seq (best_effort_kv (mark_active R (ae_now E) (ur_id u) (ae_id E) (cf_refresh_ttl C)))
       (svc_return (login_response_of C pair (Some u))))))))"

text \<open>\<open>RevokeByUserID\<close> is best effort in every caller but \<open>LogoutAll\<close>; the caches are always.\<close>

definition drop_caches :: "'s data_api \<Rightarrow> auth_env \<Rightarrow> uuid \<Rightarrow> ('s, unit) auth" where
  "drop_caches R E user =
     svc_seq (best_effort_kv (invalidate_user_sessions R (ae_now E) user))
       (best_effort_kv (revoke_all_active R (ae_now E) user))"

definition end_sessions :: "'s data_api \<Rightarrow> auth_env \<Rightarrow> uuid \<Rightarrow> ('s, unit) auth" where
  "end_sessions R E user =
     svc_seq (best_effort_au E ARevokeUser (revoke_user_sessions (ae_now E) user)) (drop_caches R E user)"

subsection \<open>Login by PIN\<close>

record login_request =
  lq_device :: string
  lq_pin :: string
  lq_key_id :: string

definition handle_successful_login ::
    "auth_cfg \<Rightarrow> ('l) auth_lib_scheme \<Rightarrow> 's data_api \<Rightarrow> auth_env \<Rightarrow> user \<Rightarrow> login_request \<Rightarrow> string \<Rightarrow> ('s, login_response) auth" where
  "handle_successful_login C L R E u req ip =
     svc_seq (au_exec E AResetFailed (reset_failed (ae_now E) (ur_id u)))
    (svc_bind (au_read E AFindDevice (find_active_device (lq_device req))) (\<lambda>d.
     svc_bind (svc_option InternalError d) (\<lambda>dev.
     svc_bind (start_session C L R E u dev (lq_device req) ''PIN'' ip) (\<lambda>resp.
     svc_seq (best_effort_kv (reset_login_device R (ae_now E) (lq_device req)))
       (svc_return resp)))))"

definition login_by_pin ::
    "auth_cfg \<Rightarrow> ('l) auth_lib_scheme \<Rightarrow> 's data_api \<Rightarrow> auth_env \<Rightarrow> login_request \<Rightarrow> string \<Rightarrow> ('s, login_response) auth" where
  "login_by_pin C L R E req ip =
     svc_seq (validate_pin_key_id C (lq_key_id req))
    (svc_seq (check_rate_limits R E (lq_device req) ip)
    (svc_bind (au_read E AFindUserByDevice (find_user_by_device (lq_device req))) (\<lambda>found.
     svc_bind (svc_option DeviceNotRecognized found) (\<lambda>u.
     svc_seq (refuse_locked R E True (ur_id u))
    (svc_seq (refuse_db_locked E u)
    (svc_bind (open_pin L R E InvalidPIN (lq_pin req)) (\<lambda>p.
     svc_bind (svc_option InternalError (verify_password L (pl_pin p) (login_credential u))) (\<lambda>match.
       if match then handle_successful_login C L R E u req ip else handle_failed_pin R E u))))))))"

subsection \<open>The PIN before a transaction\<close>

definition verify_pin :: "('l) auth_lib_scheme \<Rightarrow> 's data_api \<Rightarrow> auth_env \<Rightarrow> uuid \<Rightarrow> string \<Rightarrow> string \<Rightarrow> ('s, unit) auth" where
  "verify_pin L R E user dev enc =
     svc_seq (pin_rate R E user)
    (svc_bind (au_read E AFindUserByDevice (find_user_by_device dev)) (\<lambda>found.
     svc_bind (svc_option InvalidPIN found) (\<lambda>u.
     svc_seq (fail_if (ur_id u \<noteq> user) InvalidPIN)
    (svc_seq (refuse_locked R E False (ur_id u))
    (svc_bind (open_pin L R E InvalidPIN enc) (\<lambda>p.
     svc_bind (svc_option InternalError (verify_password L (pl_pin p) (ur_pin_hash u))) (\<lambda>match.
       if match then svc_return () else handle_failed_pin R E u)))))))"

text \<open>\<open>AuthHandler.PINVerify\<close>: the check, then the verification token of the transaction service.\<close>

record pin_verify_request =
  pq_pin :: string
  pq_purpose :: string
  pq_key_id :: string

definition pin_verify ::
    "auth_cfg \<Rightarrow> ('l) auth_lib_scheme \<Rightarrow> 's data_api \<Rightarrow> auth_env \<Rightarrow> env \<Rightarrow> uuid \<Rightarrow> string \<Rightarrow> pin_verify_request
      \<Rightarrow> ('s, pin_verify_response) auth" where
  "pin_verify C L R E E' user dev req =
     svc_seq (validate_pin_key_id C (pq_key_id req))
    (svc_seq (fail_if (pq_pin req = '''' \<or> pq_purpose req = '''') ValidationError)
    (svc_seq (fail_if (pq_purpose req \<notin> set valid_purposes) ValidationError)
    (svc_seq (verify_pin L R E user dev (pq_pin req))
       (create_verification_token (lib.truncate L) (strs R) E' user (pq_purpose req)))))"

subsection \<open>Changing the PIN and the access code\<close>

record change_pin_request =
  cq_old :: string
  cq_new :: string
  cq_key_id :: string

text \<open>
  The two changes are one program over the credential that is checked and the update that is made. A wrong old credential counts
  as a failed attempt; of the resulting errors only the lock is shown.
\<close>

definition wrong_old_pin :: "'s data_api \<Rightarrow> auth_env \<Rightarrow> user \<Rightarrow> ('s, 'a) auth" where
  "wrong_old_pin R E u w = (case handle_failed_pin R E u w of
     (Inl e, w1) \<Rightarrow> (Inl (if http_status e = 423 then e else OldPINMismatch), w1)
   | (Inr (x :: 'a), w1) \<Rightarrow> (Inl OldPINMismatch, w1))"

definition change_credential ::
    "(user \<Rightarrow> string) \<Rightarrow> auth_query \<Rightarrow> (uuid \<Rightarrow> string \<Rightarrow> auth_db \<Rightarrow> auth_db) \<Rightarrow> auth_cfg \<Rightarrow> ('l) auth_lib_scheme \<Rightarrow> 's data_api
      \<Rightarrow> auth_env \<Rightarrow> uuid \<Rightarrow> change_pin_request \<Rightarrow> ('s, unit) auth" where
  "change_credential credential q update C L R E user req =
     svc_seq (validate_pin_key_id C (cq_key_id req))
    (svc_seq (pin_rate R E user)
    (svc_bind (au_read E AFindUser (find_user user)) (\<lambda>found.
     svc_bind (svc_option NotFound found) (\<lambda>u.
     svc_seq (refuse_locked R E False (ur_id u))
    (svc_bind (open_pin L R E OldPINMismatch (cq_old req)) (\<lambda>old.
     svc_bind (svc_option InternalError (verify_password L (pl_pin old) (credential u))) (\<lambda>match.
       if \<not> match then wrong_old_pin R E u else
       svc_bind (open_new_pin L E (cq_new req)) (\<lambda>new.
       svc_seq (fail_if (pl_pin new = pl_pin old) SamePIN)
      (svc_bind (svc_option InternalError (ae_hash E (pl_pin new))) (\<lambda>h.
       svc_seq (au_exec E q (update user h))
      (svc_seq (best_effort_au E AResetFailed (reset_failed (ae_now E) user))
      (svc_seq (end_sessions R E user)
         (notify_security E user ''Kode akses berhasil diubah'' ''Kode akses m-BCA Anda baru saja diubah. Semua perangkat lain telah dikeluarkan. Jika ini bukan Anda, segera hubungi Halo BCA.'')))))))))))))"

definition change_pin ::
    "auth_cfg \<Rightarrow> ('l) auth_lib_scheme \<Rightarrow> 's data_api \<Rightarrow> auth_env \<Rightarrow> uuid \<Rightarrow> change_pin_request \<Rightarrow> ('s, unit) auth" where
  "change_pin = change_credential ur_pin_hash AUpdatePIN update_pin_hash"

definition change_access_code ::
    "auth_cfg \<Rightarrow> ('l) auth_lib_scheme \<Rightarrow> 's data_api \<Rightarrow> auth_env \<Rightarrow> uuid \<Rightarrow> change_pin_request \<Rightarrow> ('s, unit) auth" where
  "change_access_code = change_credential login_credential AUpdateAccess update_access_hash"

subsection \<open>Refresh tokens\<close>

definition handle_suspicious_login :: "'s data_api \<Rightarrow> auth_env \<Rightarrow> uuid \<Rightarrow> ('s, unit) auth" where
  "handle_suspicious_login R E user =
     svc_seq (end_sessions R E user)
       (notify_security E user ''Aktivitas mencurigakan terdeteksi'' ''Semua sesi Anda telah diakhiri karena terdeteksi penggunaan token yang tidak wajar. Silakan login kembali.'')"

text \<open>The user for the response; an error of the query leaves the response without one.\<close>

definition response_user :: "auth_env \<Rightarrow> string \<Rightarrow> ('s, user option) auth" where
  "response_user E dev w = (Inr (if ae_fault E AFindUserByDevice then None else find_user_by_device dev (au w)), w)"

definition refresh_token ::
    "auth_cfg \<Rightarrow> ('l) auth_lib_scheme \<Rightarrow> 's data_api \<Rightarrow> auth_env \<Rightarrow> string \<Rightarrow> ('s, login_response) auth" where
  "refresh_token C L R E raw =
     svc_bind (svc_option TokenInvalid (verify_refresh L (ae_now E) raw)) (\<lambda>cl.
     svc_bind (svc_option TokenInvalid (parse_uuid L (cl_subject cl))) (\<lambda>user.
     svc_bind (svc_option TokenInvalid (parse_uuid L (cl_session cl))) (\<lambda>sid.
     let old = sha256_hex L raw in
     svc_bind (try_kv (is_revoked R (ae_now E) old)) (\<lambda>rev. case rev of
        None \<Rightarrow> svc_throw TokenInvalid
      | Some True \<Rightarrow> svc_seq (handle_suspicious_login R E user) (svc_throw TokenInvalid)
      | Some False \<Rightarrow>
          svc_bind (au_read E AFindByHash (find_by_refresh_hash old)) (\<lambda>found.
          svc_bind (svc_option TokenInvalid found) (\<lambda>x.
          svc_seq (fail_if (se_expires x < ae_now E) TokenExpired)
         (svc_seq (fail_if (se_user x \<noteq> user \<or> se_id x \<noteq> sid) TokenInvalid)
         (svc_bind (svc_option InternalError (ae_pair E)) (\<lambda>pair.
          svc_seq (au_write E AUpdateRefresh (update_refresh sid (sha256_hex L (snd pair)) (ae_now E + cf_refresh_ttl C)))
         (svc_seq (best_effort_kv (mark_revoked R (ae_now E) old (int (se_expires x) - int (ae_now E))))
         (svc_seq (best_effort_kv (store_session R (ae_now E) x (cl_device cl) '''' (se_method x)))
         (svc_seq (best_effort_kv (mark_active R (ae_now E) user sid (cf_refresh_ttl C)))
         (svc_bind (response_user E (cl_device cl)) (\<lambda>u.
            svc_return (login_response_of C pair u)))))))))))))))"

definition logout :: "'s data_api \<Rightarrow> auth_env \<Rightarrow> uuid \<Rightarrow> uuid \<Rightarrow> string \<Rightarrow> ('s, unit) auth" where
  "logout R E sid user dev =
     svc_seq (au_exec E ARevokeSession (revoke_session (ae_now E) sid))
    (svc_seq (best_effort_kv (delete_session R (ae_now E) user dev))
       (best_effort_kv (revoke_active R (ae_now E) user sid)))"

definition logout_all :: "'s data_api \<Rightarrow> auth_env \<Rightarrow> uuid \<Rightarrow> ('s, unit) auth" where
  "logout_all R E user =
     svc_seq (au_exec E ARevokeUser (revoke_user_sessions (ae_now E) user)) (drop_caches R E user)"

subsection \<open>The session behind an access token\<close>

definition is_session_active :: "'s data_api \<Rightarrow> auth_env \<Rightarrow> uuid \<Rightarrow> ('s, bool) auth" where
  "is_session_active R E sid =
     svc_bind (try_kv (is_active R (ae_now E) sid)) (\<lambda>a.
       if a = Some True then svc_return True else
       svc_bind (try_kv (is_known_inactive R (ae_now E) sid)) (\<lambda>k.
         if k = Some True then svc_return False else
         svc_bind (au_read E AFindActive (find_active_session (ae_now E) sid)) (\<lambda>found. case found of
            None \<Rightarrow> svc_seq (best_effort_kv (mark_inactive R (ae_now E) sid 0)) (svc_return False)
          | Some x \<Rightarrow> svc_seq (best_effort_kv (mark_active R (ae_now E) (se_user x) (se_id x) (se_expires x - ae_now E)))
              (svc_return True))))"

subsection \<open>Biometric keys\<close>

definition create_challenge ::
    "('l) auth_lib_scheme \<Rightarrow> 's data_api \<Rightarrow> auth_env \<Rightarrow> string \<Rightarrow> ('s, string \<times> string \<times> time) auth" where
  "create_challenge L R E dev =
     svc_seq (fail_if (dev = '''') ValidationError)
    (svc_bind (au_read E AFindDevice (find_active_device dev)) (\<lambda>found.
     svc_bind (svc_option DeviceNotRecognized found) (\<lambda>_.
     svc_seq (on_kv (store_challenge R (ae_now E) (ae_id E) \<lparr>cd_challenge = ae_challenge E, cd_device = dev\<rparr>))
       (svc_return (ae_id E, base64_encode L (ae_challenge E), ae_now E + challenge_ttl)))))"

record biometric_login_request =
  bl_device :: string
  bl_key :: string
  bl_challenge :: string
  bl_signature :: string
  bl_signed :: string

definition signature_value :: "biometric_login_request \<Rightarrow> string" where
  "signature_value r = (if bl_signature r \<noteq> '''' then bl_signature r else bl_signed r)"

definition verify_signature :: "('l) auth_lib_scheme \<Rightarrow> string \<Rightarrow> string \<Rightarrow> string \<Rightarrow> bool" where
  "verify_signature L key challenge sig = (case parse_public_key L key of
     None \<Rightarrow> False
   | Some NotEC \<Rightarrow> False
   | Some k \<Rightarrow> verify_asn1 L k (sha256_raw L challenge) sig
       \<or> (length sig = 64 \<and> verify_rs L k (sha256_raw L challenge) (take 32 sig) (drop 32 sig)))"

definition login_by_biometric ::
    "auth_cfg \<Rightarrow> ('l) auth_lib_scheme \<Rightarrow> 's data_api \<Rightarrow> auth_env \<Rightarrow> biometric_login_request \<Rightarrow> string \<Rightarrow> ('s, login_response) auth" where
  "login_by_biometric C L R E req ip =
     svc_seq (fail_if (bl_device req = '''' \<or> bl_key req = '''' \<or> bl_challenge req = '''' \<or> signature_value req = '''') ValidationError)
    (svc_bind (on_kv (consume_challenge R (ae_now E) (bl_challenge req))) (\<lambda>held.
     svc_bind (svc_option TokenInvalid held) (\<lambda>c.
     svc_seq (fail_if (cd_device c \<noteq> bl_device req) DeviceNotRecognized)
    (svc_bind (au_read E AFindKey (find_active_key (bl_key req))) (\<lambda>fk.
     svc_bind (svc_option BiometricNotRegistered fk) (\<lambda>k.
     svc_bind (au_read E AFindDevice (find_active_device (bl_device req))) (\<lambda>fd.
     svc_bind (svc_option DeviceNotRecognized fd) (\<lambda>dev.
     svc_seq (fail_if (bk_device k \<noteq> de_id dev) BiometricNotRegistered)
    (svc_bind (svc_option TokenInvalid (base64_decode L (signature_value req))) (\<lambda>sig.
     svc_seq (fail_if (\<not> verify_signature L (bk_public k) (cd_challenge c) sig) TokenInvalid)
    (svc_bind (au_read E AFindUserByDevice (find_user_by_device (bl_device req))) (\<lambda>fu.
     svc_bind (svc_option DeviceNotRecognized fu) (\<lambda>u.
     svc_seq (refuse_locked R E True (ur_id u))
       (start_session C L R E u dev (de_key dev) (bk_type k) ip))))))))))))))"

record biometric_register_request =
  br_key :: string
  br_public :: string
  br_type :: string
  br_attestation :: string
  br_device :: string

definition assert_p256_public_key :: "('l) auth_lib_scheme \<Rightarrow> string \<Rightarrow> ('s, unit) auth" where
  "assert_p256_public_key L k = (case parse_public_key L k of
     None \<Rightarrow> svc_throw ValidationError
   | Some (P256 _) \<Rightarrow> svc_return ()
   | Some _ \<Rightarrow> svc_throw BiometricKeyUnsupported)"

definition max_attestation_bytes :: nat where "max_attestation_bytes = 16384"

definition attestation_ok :: "('l) auth_lib_scheme \<Rightarrow> string \<Rightarrow> bool" where
  "attestation_ok L a \<longleftrightarrow> a = '''' \<or> (case base64_decode L a of None \<Rightarrow> False | Some raw \<Rightarrow> length raw \<le> max_attestation_bytes)"

text \<open>The id of the stored key and how many keys it replaced.\<close>

definition register_biometric_key ::
    "('l) auth_lib_scheme \<Rightarrow> auth_env \<Rightarrow> uuid \<Rightarrow> string \<Rightarrow> biometric_register_request \<Rightarrow> ('s, uuid \<times> nat) auth" where
  "register_biometric_key L E user dev req =
     svc_seq (fail_if (br_key req = '''' \<or> br_public req = '''' \<or> br_type req = '''') ValidationError)
    (svc_seq (fail_if (br_type req \<notin> {''FINGERPRINT'', ''FACE_ID''}) ValidationError)
    (svc_seq (fail_if (br_device req \<noteq> '''' \<and> br_device req \<noteq> dev) DeviceNotRecognized)
    (svc_seq (assert_p256_public_key L (br_public req))
    (svc_seq (fail_if (\<not> attestation_ok L (br_attestation req)) ValidationError)
    (svc_bind (au_read E AFindDevice (find_active_device dev)) (\<lambda>fd.
     svc_bind (svc_option DeviceNotRecognized fd) (\<lambda>d.
     svc_bind (au_write E ARevokeKeys (revoke_keys (ae_now E) user (de_id d))) (\<lambda>revoked.
     svc_bind (au_write E ACreateKey (create_key
        \<lparr>bk_id = ae_id E, bk_user = user, bk_device = de_id d, bk_key = br_key req, bk_public = br_public req,
         bk_type = br_type req, bk_attestation = (if br_attestation req = '''' then None else Some (br_attestation req)),
         bk_active = True, bk_revoked = None, bk_created = ae_now E\<rparr>)) (\<lambda>i.
       svc_return (i, revoked))))))))))"

end
