(* ===== verification/Auth_Frames.thy ===== *)
theory Auth_Frames
  imports Auth_Service
begin

text \<open>
  What the operations on Redis of the authentication side cannot do: no operation but \<open>mark_active\<close> makes the live marker of
  a session appear, and none removes the marker of a nonce. The handlers then never bring a dead session back, never reuse
  a refresh token hash and never forget a nonce early.
\<close>

definition marker_free :: "('s \<Rightarrow> time \<Rightarrow> string \<Rightarrow> rval option) \<Rightarrow> time \<Rightarrow> uuid \<Rightarrow> 's \<Rightarrow> bool" where
  "marker_free live t i s \<longleftrightarrow> (\<forall>t' \<ge> t. live s t' (active_session_key i) = None)"

definition nonces_stay :: "('s \<Rightarrow> time \<Rightarrow> string \<Rightarrow> rval option) \<Rightarrow> time \<Rightarrow> 's \<Rightarrow> 's \<Rightarrow> bool" where
  "nonces_stay live t s s' \<longleftrightarrow> (\<forall>n. \<forall>t' \<ge> t. live s t' (nonce_key n) \<noteq> None \<longrightarrow> live s' t' (nonce_key n) \<noteq> None)"

definition tame :: "('s \<Rightarrow> time \<Rightarrow> string \<Rightarrow> rval option) \<Rightarrow> time \<Rightarrow> 's \<Rightarrow> 's \<Rightarrow> bool" where
  "tame live t s s' \<longleftrightarrow> (\<forall>i. marker_free live t i s \<longrightarrow> marker_free live t i s') \<and> nonces_stay live t s s'"

lemma tame_refl [simp]: "tame live t s s"
  by (simp add: tame_def nonces_stay_def)

lemma tame_trans: "tame live t s s1 \<Longrightarrow> tame live t s1 s2 \<Longrightarrow> tame live t s s2"
  by (auto simp: tame_def nonces_stay_def)

lemma tame_same: "(\<And>k t'. t \<le> t' \<Longrightarrow> live s' t' k = live s t' k) \<Longrightarrow> tame live t s s'"
  by (simp add: tame_def marker_free_def nonces_stay_def)

text \<open>An operation on one key that is neither a live marker nor a nonce, and one that only takes from a key that is no nonce.\<close>

lemma tame_other:
  assumes "\<And>k' t'. k' \<noteq> k \<Longrightarrow> t \<le> t' \<Longrightarrow> live s' t' k' = live s t' k'" "\<And>i. k \<noteq> active_session_key i" "\<And>n. k \<noteq> nonce_key n"
  shows "tame live t s s'"
  using assms(1) [OF assms(2) [symmetric]] assms(1) [OF assms(3) [symmetric]]
  by (simp add: tame_def marker_free_def nonces_stay_def)

lemma tame_takes:
  assumes "\<And>k' t'. k' \<noteq> k \<Longrightarrow> t \<le> t' \<Longrightarrow> live s' t' k' = live s t' k'" "\<And>n. k \<noteq> nonce_key n"
    "\<forall>t' \<ge> t. live s t' k = None \<Longrightarrow> \<forall>t' \<ge> t. live s' t' k = None"
  shows "tame live t s s'"
proof -
  have "marker_free live t i s'" if "marker_free live t i s" for i
  proof (cases "k = active_session_key i")
    case False
    then show ?thesis using that assms(1) [of "active_session_key i"] by (simp add: marker_free_def)
  qed (use that assms(3) in \<open>simp add: marker_free_def\<close>)
  then show ?thesis using assms(1) [OF assms(2) [symmetric]] by (simp add: tame_def nonces_stay_def)
qed

lemmas key_defs = session_key_def user_sessions_key_def active_session_key_def user_active_sessions_key_def
  inactive_session_key_def revoked_key_def nonce_key_def lock_account_key_def lockout_count_key_def challenge_key_def
  login_device_key_def login_ip_key_def pin_verify_user_key_def

named_theorems tame_ops \<open>operations that leave markers dead and nonces alive\<close>

lemma tame_pipe:
  assumes "\<And>s r s'. f s = (r, s') \<Longrightarrow> tame live t s s'" "\<And>s r s'. g s = (r, s') \<Longrightarrow> tame live t s s'"
    "pipe_then f g s = (r, s')"
  shows "tame live t s s'"
  using assms(3) assms(1) [OF prod.collapse [symmetric]] assms(2) [OF prod.collapse [symmetric]]
  by (metis pipe_then_state prod.collapse snd_conv tame_trans)

lemma tame_pipe_snd:
  assumes "\<And>s r s'. f s = (r, s') \<Longrightarrow> tame live t s s'" "\<And>s r s'. g s = (r, s') \<Longrightarrow> tame live t s s'"
  shows "tame live t s (snd (pipe_then f g s))"
  by (rule tame_pipe [OF assms prod.collapse [symmetric]])

context redis_data
begin

lemma tame_set:
  assumes "api_set (strs R) t k v d s = (r, s')" "\<And>i. k \<noteq> active_session_key i" "\<And>n. k \<noteq> nonce_key n"
  shows "tame live t s s'"
  using set_frame [OF assms(1)] assms(2,3) by (rule tame_other)

lemma tame_incr:
  assumes "api_incr (strs R) t k s = (r, s')" "\<And>i. k \<noteq> active_session_key i" "\<And>n. k \<noteq> nonce_key n"
  shows "tame live t s s'"
  using incr_frame [OF assms(1)] assms(2,3) by (rule tame_other)

lemma tame_getdel:
  assumes "api_getdel (strs R) t k s = (r, s')" "\<And>i. k \<noteq> active_session_key i" "\<And>n. k \<noteq> nonce_key n"
  shows "tame live t s s'"
  using getdel_frame [OF assms(1)] assms(2,3) by (rule tame_other)

lemma tame_expire:
  assumes "api_expire R t k d s = (r, s')" "\<And>n. k \<noteq> nonce_key n"
  shows "tame live t s s'"
proof (rule tame_takes [OF _ assms(2)])
  show "live s' t' k' = live s t' k'" if "k' \<noteq> k" "t \<le> t'" for k' t' using expire_frame [OF assms(1) that] .
  assume none: "\<forall>t' \<ge> t. live s t' k = None"
  show "\<forall>t' \<ge> t. live s' t' k = None"
  proof (cases r)
    case (Reply u)
    then show ?thesis using expire_reply [of t k d s u s'] assms(1) none by simp
  next
    case Fault
    then show ?thesis using expire_fault [of t k d s s'] assms(1) none by auto
  qed
qed

lemma tame_del:
  assumes "api_del (strs R) t k s = (r, s')" "\<And>n. k \<noteq> nonce_key n"
  shows "tame live t s s'"
proof (rule tame_takes [OF _ assms(2)])
  show "live s' t' k' = live s t' k'" if "k' \<noteq> k" "t \<le> t'" for k' t' using del_frame [OF assms(1) that] .
  assume none: "\<forall>t' \<ge> t. live s t' k = None"
  show "\<forall>t' \<ge> t. live s' t' k = None" using del_never_creates [OF assms(1)] none by (metis not_None_eq)
qed

lemma tame_del_keys:
  assumes "api_del_keys R t ks s = (r, s')" "\<And>n. nonce_key n \<notin> set ks"
  shows "tame live t s s'"
proof -
  have "marker_free live t i s'" if "marker_free live t i s" for i
    using del_keys_loses [OF assms(1), of "active_session_key i"] that by (auto simp: marker_free_def only_loses_def)
  then show ?thesis using del_keys_frame [OF assms(1) assms(2)] by (simp add: tame_def nonces_stay_def)
qed

lemma tame_nonce: "check_and_mark R t n s = (r, s') \<Longrightarrow> tame live t s s'"
  unfolding check_and_mark_def
proof -
  assume op: "api_setnx (strs R) t (nonce_key n) (RText ''1'') nonce_ttl s = (r, s')"
  have frame: "live s' t' k = live s t' k" if "k \<noteq> nonce_key n" "t \<le> t'" for k t'
    using setnx_frame [OF op that] .
  have kept: "live s' t' (nonce_key n) \<noteq> None" if "live s t' (nonce_key n) \<noteq> None" "t \<le> t'" for t'
  proof -
    have held: "live s t (nonce_key n) \<noteq> None" using expired_stays [of s t "nonce_key n" t'] that by auto
    show ?thesis
    proof (cases r)
      case (Reply b)
      then have "\<not> b" using setnx_reply [of t "nonce_key n" _ _ s b s'] op held by simp
      then show ?thesis using setnx_old [of t "nonce_key n" "RText ''1''" nonce_ttl s s' t'] op Reply that by simp
    next
      case Fault
      then show ?thesis using setnx_fault [of t "nonce_key n" "RText ''1''" nonce_ttl s s'] op held that by auto
    qed
  qed
  have other: "live s' t' (active_session_key i) = live s t' (active_session_key i)" if "t \<le> t'" for i t'
    by (rule frame [OF _ that]) (simp add: key_defs)
  have "live s' t' (nonce_key n') \<noteq> None" if "live s t' (nonce_key n') \<noteq> None" "t \<le> t'" for n' t'
    using that kept frame [of "nonce_key n'" t'] by (cases "nonce_key n' = nonce_key n") auto
  then show ?thesis using other by (simp add: tame_def marker_free_def nonces_stay_def)
qed

lemma tame_exists: "api_exists R t k s = (b, s') \<Longrightarrow> tame live t s s'"
  by (rule tame_same) (rule exists_frame)

lemma tame_ttl: "api_ttl R t k s = (n, s') \<Longrightarrow> tame live t s s'"
  by (rule tame_same) (rule ttl_frame)

lemma tame_sadd: "api_sadd R t k x s = (r, s') \<Longrightarrow> tame live t s s'"
  by (rule tame_same) (rule sadd_frame)

lemma tame_srem: "api_srem R t k x s = (r, s') \<Longrightarrow> tame live t s s'"
  by (rule tame_same) (rule srem_frame)

lemma tame_smembers: "api_smembers R t k s = (l, s') \<Longrightarrow> tame live t s s'"
  by (rule tame_same) (rule smembers_frame)

lemma tame_hset: "api_hset R t k fs s = (r, s') \<Longrightarrow> tame live t s s'"
  by (rule tame_same) (rule hset_frame)

lemma tame_zrem: "api_zrem_upto R t k i s = (r, s') \<Longrightarrow> tame live t s s'"
  by (rule tame_same) (rule zrem_frame)

lemma tame_zcard: "api_zcard R t k s = (n, s') \<Longrightarrow> tame live t s s'"
  by (rule tame_same) (rule zcard_frame)

lemma tame_zadd: "api_zadd R t k i m s = (r, s') \<Longrightarrow> tame live t s s'"
  by (rule tame_same) (rule zadd_frame)

subsection \<open>The caches\<close>

lemma tame_rate_allow:
  assumes "rate_allow R t m k l win s = (r, s')" "\<And>n. k \<noteq> nonce_key n"
  shows "tame live t s s'"
proof -
  note exp = tame_expire [OF _ assms(2)]
  have add: "tame live t s s'" if "pipe_then (api_zadd R t k (int t) m) (api_expire R t k (win + seconds 1)) s = (q, s')" for s q s'
    using that by (rule tame_pipe [rotated 2]) (rule tame_zadd exp, assumption)+
  have card: "tame live t s s'" if "pipe_then (api_zcard R t k) (pipe_then (api_zadd R t k (int t) m)
      (api_expire R t k (win + seconds 1))) s = (q, s')" for s q s'
    using that by (rule tame_pipe [rotated 2]) (rule tame_zcard add, assumption)+
  have "snd (pipe_then (api_zrem_upto R t k (int t - int win)) (pipe_then (api_zcard R t k)
      (pipe_then (api_zadd R t k (int t) m) (api_expire R t k (win + seconds 1)))) s) = s'"
    using assms(1) by (auto simp: rate_allow_def split: prod.splits reply.splits)
  then show ?thesis
    using tame_pipe_snd [of "api_zrem_upto R t k (int t - int win)" live t "pipe_then (api_zcard R t k)
      (pipe_then (api_zadd R t k (int t) m) (api_expire R t k (win + seconds 1)))" s] tame_zrem card by blast
qed

lemma tame_store_session [tame_ops]: "store_session R t x dkey disp am s = (r, s') \<Longrightarrow> tame live t s s'"
  unfolding store_session_def Let_def
  by (erule tame_pipe [rotated 2], erule tame_hset, erule tame_expire) (simp add: key_defs)

lemma tame_add_to_user_sessions [tame_ops]: "add_to_user_sessions R t u d s = (r, s') \<Longrightarrow> tame live t s s'"
  unfolding add_to_user_sessions_def
  by (erule tame_pipe [rotated 2], erule tame_sadd, erule tame_expire) (simp add: key_defs)

lemma tame_revoke_active [tame_ops]: "revoke_active R t u i s = (r, s') \<Longrightarrow> tame live t s s'"
  unfolding revoke_active_def
  by (erule tame_pipe [rotated 2], erule tame_del, simp add: key_defs, erule tame_srem)

lemma tame_is_active [tame_ops]: "is_active R t i s = (r, s') \<Longrightarrow> tame live t s s'"
  unfolding is_active_def by (erule tame_exists)

lemma tame_is_known_inactive [tame_ops]: "is_known_inactive R t i s = (r, s') \<Longrightarrow> tame live t s s'"
  unfolding is_known_inactive_def by (erule tame_exists)

lemma tame_is_revoked [tame_ops]: "is_revoked R t h s = (r, s') \<Longrightarrow> tame live t s s'"
  unfolding is_revoked_def by (erule tame_exists)

lemma tame_mark_inactive [tame_ops]: "mark_inactive R t i d s = (r, s') \<Longrightarrow> tame live t s s'"
  unfolding mark_inactive_def by (erule tame_set) (simp_all add: key_defs)

lemma tame_mark_revoked [tame_ops]: "mark_revoked R t h d s = (r, s') \<Longrightarrow> tame live t s s'"
  unfolding mark_revoked_def by (auto split: if_splits elim!: tame_set simp: key_defs)

lemma tame_delete_session [tame_ops]: "delete_session R t u d s = (r, s') \<Longrightarrow> tame live t s s'"
  unfolding delete_session_def by (erule tame_del) (simp add: key_defs)

lemma tame_reset_login_device [tame_ops]: "reset_login_device R t d s = (r, s') \<Longrightarrow> tame live t s s'"
  unfolding reset_login_device_def by (erule tame_del) (simp add: key_defs)

lemma tame_revoke_all_active [tame_ops]: "revoke_all_active R t u s = (r, s') \<Longrightarrow> tame live t s s'"
  unfolding revoke_all_active_def
  by (auto split: prod.splits reply.splits simp: key_defs dest!: tame_smembers intro: tame_trans
      elim!: tame_trans tame_del_keys)

lemma tame_invalidate [tame_ops]: "invalidate_user_sessions R t u s = (r, s') \<Longrightarrow> tame live t s s'"
  unfolding invalidate_user_sessions_def
  by (auto split: prod.splits reply.splits if_splits simp: key_defs dest!: tame_smembers intro: tame_trans
      elim!: tame_trans tame_del_keys)

lemma tame_is_locked [tame_ops]: "is_locked R t u s = (r, s') \<Longrightarrow> tame live t s s'"
  unfolding is_locked_def by (auto split: prod.splits reply.splits dest!: tame_ttl)

lemma tame_lock_account [tame_ops]:
  assumes "lock_account R t u s = (r, s')"
  shows "tame live t s s'"
proof -
  let ?p = "pipe_then (api_incr (strs R) t (lockout_count_key u)) (api_expire R t (lockout_count_key u) (hours 24))"
  have p: "tame live t s (snd (?p s))"
    by (rule tame_pipe [OF _ _ prod.collapse [symmetric]], erule tame_incr)
      (auto simp: key_defs elim!: tame_expire)
  show ?thesis using assms p
    by (auto simp: lock_account_def Let_def key_defs split: prod.splits reply.splits elim!: tame_trans tame_set)
qed

lemma tame_store_challenge [tame_ops]: "store_challenge R t i c s = (r, s') \<Longrightarrow> tame live t s s'"
  unfolding store_challenge_def by (erule tame_set) (simp_all add: key_defs)

lemma tame_consume_challenge [tame_ops]: "consume_challenge R t i s = (r, s') \<Longrightarrow> tame live t s s'"
  unfolding consume_challenge_def
  by (auto split: prod.splits reply.splits option.splits rval.splits simp: key_defs dest!: tame_getdel)

lemma tame_limits [tame_ops]:
  "check_login_device R t m d s = (r, s') \<Longrightarrow> tame live t s s'"
  "check_login_ip R t m ip s = (r, s') \<Longrightarrow> tame live t s s'"
  "check_pin_verify R t m u s = (r, s') \<Longrightarrow> tame live t s s'"
  unfolding check_login_device_def check_login_ip_def check_pin_verify_def
  by (erule tame_rate_allow, simp add: key_defs)+

lemma tame_store_token [tame_ops]: "store_token (strs R) t h v s = (r, s') \<Longrightarrow> tame live t s s'"
  unfolding store_token_def vtoken_key_def by (erule tame_set) (simp_all add: key_defs)

declare tame_nonce [tame_ops]

text \<open>The live marker that is set is that of the session.\<close>

lemma tame_mark_active:
  assumes "mark_active R t u i d s = (r, s')" "i \<noteq> j"
  shows "(marker_free live t j s \<longrightarrow> marker_free live t j s') \<and> nonces_stay live t s s'"
proof -
  obtain r1 s1 where set: "api_set (strs R) t (active_session_key i) (RText u) d s = (r1, s1)" by force
  have later: "pipe_then (api_sadd R t (user_active_sessions_key u) i) (api_expire R t (user_active_sessions_key u) d) s1 = (q, s')"
    if "q = fst (pipe_then (api_sadd R t (user_active_sessions_key u) i) (api_expire R t (user_active_sessions_key u) d) s1)" for q
    using assms(1) set that unfolding mark_active_def by (metis pipe_then_state prod.collapse snd_conv)
  have "tame live t s1 s'"
    by (rule tame_pipe [OF _ _ later [OF refl]], erule tame_sadd, erule tame_expire) (simp add: key_defs)
  moreover have "marker_free live t j s \<longrightarrow> marker_free live t j s1" "nonces_stay live t s s1"
    using set_frame [OF set, of "active_session_key j"] set_frame [OF set, of "nonce_key n" for n] assms(2)
    by (auto simp: marker_free_def nonces_stay_def key_defs)
  ultimately show ?thesis by (auto simp: tame_def nonces_stay_def)
qed

end

end
