(* ===== verification/Auth_Guarantees.thy ===== *)
theory Auth_Guarantees
  imports Auth_Frames
begin

text \<open>
  What holds over any sequence of authentication requests: a session that is revoked and has no live marker stays so, the marker of
  a nonce stays until it expires, and a refresh token hash that no row has comes back only by being issued.
\<close>

definition dead :: "('s \<Rightarrow> time \<Rightarrow> string \<Rightarrow> rval option) \<Rightarrow> time \<Rightarrow> uuid \<Rightarrow> 's auth_world \<Rightarrow> bool" where
  "dead live t i w \<longleftrightarrow> (\<exists>x \<in> set (sessions (au w)). se_id x = i)
     \<and> (\<forall>x \<in> set (sessions (au w)). se_id x = i \<longrightarrow> se_revoked x \<noteq> None) \<and> marker_free live t i (kv w)"

definition hashes :: "'s auth_world \<Rightarrow> string set" where
  "hashes w = se_hash ` set (sessions (au w))"

text \<open>\<open>F\<close> holds the hashes of the tokens issued meanwhile.\<close>

definition auth_evolves ::
    "('s \<Rightarrow> time \<Rightarrow> string \<Rightarrow> rval option) \<Rightarrow> time \<Rightarrow> string set \<Rightarrow> 's auth_world \<Rightarrow> 's auth_world \<Rightarrow> bool" where
  "auth_evolves live t F w w' \<longleftrightarrow> (\<forall>i. dead live t i w \<longrightarrow> dead live t i w')
     \<and> nonces_stay live t (kv w) (kv w') \<and> hashes w' \<subseteq> hashes w \<union> F"

lemma auth_evolves_refl [simp]: "auth_evolves live t F w w"
  by (simp add: auth_evolves_def nonces_stay_def)

lemma auth_evolves_trans: "auth_evolves live t F w w1 \<Longrightarrow> auth_evolves live t F w1 w2 \<Longrightarrow> auth_evolves live t F w w2"
  unfolding auth_evolves_def nonces_stay_def by blast

lemma auth_evolves_kv:
  "auth_evolves live t F w0 w \<Longrightarrow> tame live t (kv w) s \<Longrightarrow> auth_evolves live t F w0 (w\<lparr>kv := s\<rparr>)"
  by (auto simp: auth_evolves_def tame_def dead_def hashes_def nonces_stay_def)

lemma auth_evolves_quiet:
  "auth_evolves live t F w0 w \<Longrightarrow> auth_evolves live t F w0 (w\<lparr>pg := d\<rparr>)"
  "auth_evolves live t F w0 w \<Longrightarrow> auth_evolves live t F w0 (w\<lparr>sent := n\<rparr>)"
  "auth_evolves live t F w0 w \<Longrightarrow> sessions a = sessions (au w) \<Longrightarrow> auth_evolves live t F w0 (w\<lparr>au := a\<rparr>)"
  by (auto simp: auth_evolves_def dead_def hashes_def)

text \<open>Rows that change only by being revoked.\<close>

lemma auth_evolves_revoke:
  assumes "auth_evolves live t F w0 w" "sessions a = map f (sessions (au w))"
    "\<And>x. se_id (f x) = se_id x \<and> se_hash (f x) = se_hash x \<and> (se_revoked x \<noteq> None \<longrightarrow> se_revoked (f x) \<noteq> None)"
  shows "auth_evolves live t F w0 (w\<lparr>au := a\<rparr>)"
  using assms by (auto simp: auth_evolves_def dead_def hashes_def)

subsection \<open>The steps of the handlers\<close>

lemma keeps_io [keeps_intros]:
  assumes "\<And>s r s'. f s = (r, s') \<Longrightarrow> tame live t s s'"
  shows "keeps (auth_evolves live t F w0) (on_kv f)" "keeps (auth_evolves live t F w0) (best_effort_kv f)"
    "keeps (auth_evolves live t F w0) (try_kv f)"
  using assms assms [OF prod.collapse [symmetric]]
  by (auto simp: keeps_def on_kv_def best_effort_kv_def try_kv_def split: prod.splits reply.splits intro!: auth_evolves_kv)

lemma keeps_read [keeps_intros]:
  "keeps (auth_evolves live t F w0) (au_read E q g)"
  "keeps (auth_evolves live t F w0) (response_user E d)"
  by (auto simp: keeps_def au_read_def response_user_def)

lemma keeps_pg [keeps_intros]: "keeps (auth_evolves live t F w0) (sql_exec E' q' h)"
  by (auto simp: keeps_def sql_exec_def intro: auth_evolves_quiet)

lemma keeps_notify [keeps_intros]: "keeps (auth_evolves live t F w0) (notify_security E u x y)"
  by (auto simp: keeps_def notify_security_def intro: auth_evolves_quiet)

lemma sessions_of_users [simp]:
  "sessions (update_user i f a) = sessions a" "sessions (touch_device t i a) = sessions a"
  by (simp_all add: update_user_def touch_device_def)

lemma keeps_users:
  assumes "\<And>a. sessions (g a) = sessions a"
  shows "keeps (auth_evolves live t F w0) (au_exec E q g)" "keeps (auth_evolves live t F w0) (best_effort_au E q g)"
  using assms by (auto simp: keeps_def au_exec_def best_effort_au_def intro: auth_evolves_quiet)

lemmas keeps_user_updates [keeps_intros] =
  keeps_users [of "reset_failed t i" for t i, unfolded reset_failed_def, simplified, folded reset_failed_def]
  keeps_users [of "set_locked_until i t" for t i, unfolded set_locked_until_def, simplified, folded set_locked_until_def]
  keeps_users [of "update_pin_hash i h" for i h, unfolded update_pin_hash_def, simplified, folded update_pin_hash_def]
  keeps_users [of "update_access_hash i h" for i h, unfolded update_access_hash_def, simplified, folded update_access_hash_def]
  keeps_users [of "touch_device t i" for t i, simplified]

lemma keeps_increment [keeps_intros]: "keeps (auth_evolves live t F w0) (au_write E q (increment_failed i))"
  by (auto simp: keeps_def au_write_def increment_failed_def split: option.splits prod.splits intro: auth_evolves_quiet)

lemma keeps_keys [keeps_intros]:
  "keeps (auth_evolves live t F w0) (au_write E q (create_key k))"
  "keeps (auth_evolves live t F w0) (au_write E q (revoke_keys t' u d))"
  by (auto simp: keeps_def au_write_def create_key_def revoke_keys_def Let_def split: option.splits if_splits
      intro!: auth_evolves_quiet)

lemma keeps_revoking:
  assumes "\<And>a. sessions (g a) = map f (sessions a)"
    "\<And>x. se_id (f x) = se_id x \<and> se_hash (f x) = se_hash x \<and> (se_revoked x \<noteq> None \<longrightarrow> se_revoked (f x) \<noteq> None)"
  shows "keeps (auth_evolves live t F w0) (au_exec E q g)" "keeps (auth_evolves live t F w0) (best_effort_au E q g)"
  using auth_evolves_revoke [where f = f, OF _ assms] by (auto simp: keeps_def au_exec_def best_effort_au_def)

lemma keeps_revocations [keeps_intros]:
  "keeps (auth_evolves live t F w0) (au_exec E q (revoke_session t' i))"
  "keeps (auth_evolves live t F w0) (au_exec E q (revoke_user_sessions t' u))"
  "keeps (auth_evolves live t F w0) (best_effort_au E q (revoke_user_sessions t' u))"
proof -
  note one = keeps_revoking [where f = "\<lambda>x. if se_id x = i \<and> se_revoked x = None then x\<lparr>se_revoked := Some t'\<rparr> else x"]
  note all = keeps_revoking [where f = "\<lambda>x. if se_user x = u \<and> se_revoked x = None then x\<lparr>se_revoked := Some t'\<rparr> else x"]
  show "keeps (auth_evolves live t F w0) (au_exec E q (revoke_session t' i))"
    by (rule one) (simp_all add: revoke_session_def)
  show "keeps (auth_evolves live t F w0) (au_exec E q (revoke_user_sessions t' u))"
    by (rule all) (simp_all add: revoke_user_sessions_def)
  show "keeps (auth_evolves live t F w0) (best_effort_au E q (revoke_user_sessions t' u))"
    by (rule all) (simp_all add: revoke_user_sessions_def)
qed

lemma keeps_case_option [keeps_intros]:
  "(x = None \<Longrightarrow> keeps P m) \<Longrightarrow> (\<And>y. x = Some y \<Longrightarrow> keeps P (n y)) \<Longrightarrow> keeps P (case x of None \<Rightarrow> m | Some y \<Rightarrow> n y)"
  by (cases x) auto

lemma keeps_case_bool [keeps_intros]:
  "(b \<Longrightarrow> keeps P m) \<Longrightarrow> (\<not> b \<Longrightarrow> keeps P n) \<Longrightarrow> keeps P (case b of True \<Rightarrow> m | False \<Rightarrow> n)"
  by (cases b) auto

text \<open>A session that is not revoked cannot be dead, so setting its marker brings none back.\<close>

definition alive :: "uuid \<Rightarrow> 's auth_world \<Rightarrow> bool" where
  "alive i w \<longleftrightarrow> (\<exists>x \<in> set (sessions (au w)). se_id x = i \<and> se_revoked x = None)"

definition serving ::
    "('s \<Rightarrow> time \<Rightarrow> string \<Rightarrow> rval option) \<Rightarrow> time \<Rightarrow> string set \<Rightarrow> 's auth_world \<Rightarrow> uuid \<Rightarrow> 's auth_world \<Rightarrow> bool" where
  "serving live t F w0 i w \<longleftrightarrow> auth_evolves live t F w0 w \<and> alive i w"

lemma keeps_serving_io [keeps_intros]:
  assumes "\<And>s r s'. f s = (r, s') \<Longrightarrow> tame live t s s'"
  shows "keeps (serving live t F w0 i) (best_effort_kv f)"
  using assms [OF prod.collapse [symmetric]]
  by (auto simp: keeps_def serving_def alive_def best_effort_kv_def intro!: auth_evolves_kv)

lemma keeps_serving_read [keeps_intros]: "keeps (serving live t F w0 i) (response_user E d)"
  by (auto simp: keeps_def response_user_def)

lemma keeps_enter:
  assumes "\<And>w x w'. P w \<Longrightarrow> m w = (Inr x, w') \<Longrightarrow> Q x w'" "\<And>w e w'. P w \<Longrightarrow> m w = (Inl e, w') \<Longrightarrow> P w'"
    "\<And>x. keeps (Q x) (f x)" "\<And>x w. Q x w \<Longrightarrow> P w"
  shows "keeps P (svc_bind m f)"
  unfolding keeps_def svc_bind_def
proof (intro allI impI)
  fix w r w'
  assume w: "P w" and r: "(case m w of (Inl e, w1) \<Rightarrow> (Inl e, w1) | (Inr x, w1) \<Rightarrow> f x w1) = (r, w')"
  obtain q w1 where q: "m w = (q, w1)" by force
  show "P w'"
  proof (cases q)
    case (Inl e)
    then show ?thesis using assms(2) [OF w] q r by simp
  next
    case (Inr x)
    then have "Q x w1" using assms(1) [OF w] q by simp
    moreover have "f x w1 = (r, w')" using q r Inr by simp
    ultimately show ?thesis using keepsD [OF assms(3)] assms(4) by blast
  qed
qed

context redis_data
begin

lemma keeps_mark_active [keeps_intros]:
  "keeps (serving live t F w0 i) (best_effort_kv (mark_active R t u i d))"
proof -
  have "auth_evolves live t F w0 (w\<lparr>kv := snd (mark_active R t u i d (kv w))\<rparr>)"
    if ev: "auth_evolves live t F w0 w" and "alive i w" for w
  proof -
    have mark: "(marker_free live t j (kv w) \<longrightarrow> marker_free live t j (snd (mark_active R t u i d (kv w))))
        \<and> nonces_stay live t (kv w) (snd (mark_active R t u i d (kv w)))" if "i \<noteq> j" for j
      using tame_mark_active [OF prod.collapse [symmetric] that] .
    have "dead live t j (w\<lparr>kv := snd (mark_active R t u i d (kv w))\<rparr>)" if "dead live t j w" for j
    proof -
      have "i \<noteq> j" using that \<open>alive i w\<close> by (auto simp: dead_def alive_def)
      then show ?thesis using that mark by (auto simp: dead_def)
    qed
    moreover have "nonces_stay live t (kv w) (snd (mark_active R t u i d (kv w)))"
      using mark [of "''x'' @ i"] by auto
    ultimately show ?thesis using ev by (auto simp: auth_evolves_def hashes_def nonces_stay_def)
  qed
  then show ?thesis by (auto simp: keeps_def serving_def alive_def best_effort_kv_def)
qed

subsubsection \<open>The handlers\<close>

lemma keeps_open_pin [keeps_intros]: "keeps (auth_evolves live (ae_now E) F w0) (open_pin L R E e enc)"
  unfolding open_pin_def by (rule keeps_intros | erule tame_ops)+

lemma keeps_open_new_pin [keeps_intros]: "keeps (auth_evolves live (ae_now E) F w0) (open_new_pin L E enc)"
  unfolding open_new_pin_def by (rule keeps_intros | erule tame_ops)+

lemma keeps_key_id [keeps_intros]: "keeps (auth_evolves live (ae_now E) F w0) (validate_pin_key_id C i)"
  unfolding validate_pin_key_id_def by (rule keeps_intros | erule tame_ops)+

lemma keeps_rate_limits [keeps_intros]: "keeps (auth_evolves live (ae_now E) F w0) (check_rate_limits R E dev ip)"
  unfolding check_rate_limits_def limited_by_def by (rule keeps_intros | erule tame_ops)+

lemma keeps_pin_rate [keeps_intros]: "keeps (auth_evolves live (ae_now E) F w0) (pin_rate R E user)"
  unfolding pin_rate_def limited_by_def by (rule keeps_intros | erule tame_ops)+

lemma keeps_refuse_locked [keeps_intros]: "keeps (auth_evolves live (ae_now E) F w0) (refuse_locked R E b user)"
  unfolding refuse_locked_def by (rule keeps_intros | erule tame_ops)+

lemma keeps_refuse_db_locked [keeps_intros]: "keeps (auth_evolves live (ae_now E) F w0) (refuse_db_locked E u)"
  unfolding refuse_db_locked_def by (rule keeps_intros | erule tame_ops)+

lemma keeps_failed_pin [keeps_intros]: "keeps (auth_evolves live (ae_now E) F w0) (handle_failed_pin R E u)"
  unfolding handle_failed_pin_def by (rule keeps_intros | erule tame_ops)+

lemma keeps_drop_caches [keeps_intros]: "keeps (auth_evolves live (ae_now E) F w0) (drop_caches R E user)"
  unfolding drop_caches_def by (rule keeps_intros | erule tame_ops)+

lemma keeps_end_sessions [keeps_intros]: "keeps (auth_evolves live (ae_now E) F w0) (end_sessions R E user)"
  unfolding end_sessions_def by (rule keeps_intros | erule tame_ops)+

text \<open>A step after which the session is known not to be revoked.\<close>

lemma keeps_serving_start:
  assumes "\<And>x w w'. auth_evolves live t F w0 w \<Longrightarrow> m w = (Inr x, w') \<Longrightarrow> serving live t F w0 i w'"
    "\<And>w e w'. auth_evolves live t F w0 w \<Longrightarrow> m w = (Inl e, w') \<Longrightarrow> auth_evolves live t F w0 w'"
    "keeps (serving live t F w0 i) n"
  shows "keeps (auth_evolves live t F w0) (svc_seq m n)"
  unfolding svc_seq_def
proof (rule keeps_enter [where Q = "\<lambda>_. serving live t F w0 i"])
  show "auth_evolves live t F w0 w" if "serving live t F w0 i w" for w using that by (simp add: serving_def)
qed (use assms in blast)+

lemma serving_created:
  assumes "auth_evolves live t F w0 w" "se_hash x \<in> F" "se_revoked x = None" "au_write E q (create_session x) w = (Inr u, w')"
  shows "serving live t F w0 (se_id x) w'"
  using assms by (auto simp: serving_def alive_def auth_evolves_def dead_def hashes_def create_session_def list_ex_iff
      split: if_splits)

lemma serving_updated:
  assumes ev: "auth_evolves live t F w0 w" and h: "h \<in> F" and up: "au_write E q (update_refresh i h e) w = (Inr u, w')"
  shows "serving live t F w0 i w'"
proof -
  let ?f = "\<lambda>x. if se_id x = i \<and> se_revoked x = None then x\<lparr>se_hash := h, se_expires := e\<rparr> else x"
  obtain x where x: "x \<in> set (sessions (au w))" "se_id x = i" "se_revoked x = None"
    and w': "w' = w\<lparr>au := (au w)\<lparr>sessions := map ?f (sessions (au w))\<rparr>\<rparr>"
    using up by (auto simp: update_refresh_def list_ex_iff split: if_splits)
  have f: "se_id (?f y) = se_id y \<and> se_revoked (?f y) = se_revoked y \<and> se_hash (?f y) \<in> {h, se_hash y}" for y by simp
  have "dead live t j w'" if "dead live t j w" for j
    using that f unfolding dead_def w' by (auto split: if_splits)
  moreover have "hashes w' \<subseteq> hashes w \<union> {h}"
    by (auto simp: hashes_def w' split: if_splits)
  moreover have "alive i w'"
    unfolding alive_def by (rule bexI [of _ "?f x"]) (use x w' in simp_all)
  ultimately show ?thesis
    using ev h by (auto simp: serving_def auth_evolves_def nonces_stay_def w')
qed

lemma keeps_option: "(\<And>x. v = Some x \<Longrightarrow> keeps P (f x)) \<Longrightarrow> keeps P (svc_bind (svc_option e v) f)"
  by (auto simp: keeps_def svc_defs split: option.splits)

lemma keeps_start_session:
  assumes "\<And>p. ae_pair E = Some p \<Longrightarrow> sha256_hex L (snd p) \<in> F"
  shows "keeps (auth_evolves live (ae_now E) F w0) (start_session C L R E u dev dkey auth_method ip)"
  unfolding start_session_def Let_def
proof (rule keeps_seq, rule keeps_intros, rule keeps_option)
  fix p assume p: "ae_pair E = Some p"
  let ?x = "\<lparr>se_id = ae_id E, se_user = ur_id u, se_device = de_id dev, se_hash = sha256_hex L (snd p), se_ip = ip,
    se_method = auth_method, se_expires = ae_now E + cf_refresh_ttl C, se_created = ae_now E, se_revoked = None\<rparr>"
  note created = serving_created [where x = ?x and q = ACreateSession and E = E]
  show "keeps (auth_evolves live (ae_now E) F w0) (svc_seq (au_write E ACreateSession (create_session ?x))
      (svc_seq (best_effort_kv (store_session R (ae_now E) ?x dkey (ur_display_name u) auth_method))
      (svc_seq (best_effort_kv (add_to_user_sessions R (ae_now E) (ur_id u) dkey))
      (svc_seq (best_effort_kv (mark_active R (ae_now E) (ur_id u) (ae_id E) (cf_refresh_ttl C)))
         (svc_return (login_response_of C p (Some u)))))))"
  proof (rule keeps_serving_start [where i = "ae_id E"])
    show "serving live (ae_now E) F w0 (ae_id E) w'"
      if "auth_evolves live (ae_now E) F w0 w" "au_write E ACreateSession (create_session ?x) w = (Inr x, w')" for x w w'
      using created [OF that(1) _ _ that(2)] assms [OF p] by simp
  qed (rule keeps_intros | erule tame_ops | simp)+
qed

lemma keeps_successful_login:
  assumes "\<And>p. ae_pair E = Some p \<Longrightarrow> sha256_hex L (snd p) \<in> F"
  shows "keeps (auth_evolves live (ae_now E) F w0) (handle_successful_login C L R E u req ip)"
  unfolding handle_successful_login_def by (rule keeps_intros keeps_start_session assms | erule tame_ops | assumption)+

lemma keeps_login_by_pin:
  assumes "\<And>p. ae_pair E = Some p \<Longrightarrow> sha256_hex L (snd p) \<in> F"
  shows "keeps (auth_evolves live (ae_now E) F w0) (login_by_pin C L R E req ip)"
  unfolding login_by_pin_def by (rule keeps_intros keeps_successful_login assms | assumption)+

lemma keeps_login_by_biometric:
  assumes "\<And>p. ae_pair E = Some p \<Longrightarrow> sha256_hex L (snd p) \<in> F"
  shows "keeps (auth_evolves live (ae_now E) F w0) (login_by_biometric C L R E req ip)"
  unfolding login_by_biometric_def by (rule keeps_intros keeps_start_session assms | erule tame_ops | assumption)+

lemma keeps_verify_pin [keeps_intros]: "keeps (auth_evolves live (ae_now E) F w0) (verify_pin L R E user dev enc)"
  unfolding verify_pin_def by (rule keeps_intros)+

lemma keeps_wrong_old_pin [keeps_intros]: "keeps (auth_evolves live (ae_now E) F w0) (wrong_old_pin R E u)"
  using keeps_failed_pin [of E F w0 u] unfolding keeps_def wrong_old_pin_def by (auto split: prod.splits sum.splits)

lemma keeps_change [keeps_intros]:
  "keeps (auth_evolves live (ae_now E) F w0) (change_pin C L R E user creq)"
  "keeps (auth_evolves live (ae_now E) F w0) (change_access_code C L R E user creq)"
  unfolding change_pin_def change_access_code_def change_credential_def by (rule keeps_intros)+

lemma keeps_pin_verify:
  assumes "en_now E' = ae_now E"
  shows "keeps (auth_evolves live (ae_now E) F w0) (pin_verify C L R E E' user dev req)"
  unfolding pin_verify_def create_verification_token_def Let_def assms
  by (rule keeps_intros | erule tame_ops)+

lemma keeps_logout [keeps_intros]:
  "keeps (auth_evolves live (ae_now E) F w0) (logout R E sid user dev)"
  "keeps (auth_evolves live (ae_now E) F w0) (logout_all R E user)"
  unfolding logout_def logout_all_def by (rule keeps_intros | erule tame_ops)+

lemma keeps_challenge [keeps_intros]: "keeps (auth_evolves live (ae_now E) F w0) (create_challenge L R E dev)"
  unfolding create_challenge_def by (rule keeps_intros | erule tame_ops)+

lemma keeps_assert [keeps_intros]: "keeps P (assert_p256_public_key L k)"
  unfolding assert_p256_public_key_def by (auto split: option.split public_key.split intro: keeps_intros)

lemma keeps_register [keeps_intros]: "keeps (auth_evolves live (ae_now E) F w0) (register_biometric_key L E user dev req)"
  unfolding register_biometric_key_def by (rule keeps_intros)+

lemma keeps_suspicious [keeps_intros]: "keeps (auth_evolves live (ae_now E) F w0) (handle_suspicious_login R E user)"
  unfolding handle_suspicious_login_def by (rule keeps_intros)+

lemma keeps_refresh_token:
  assumes "\<And>p. ae_pair E = Some p \<Longrightarrow> sha256_hex L (snd p) \<in> F"
  shows "keeps (auth_evolves live (ae_now E) F w0) (refresh_token C L R E raw)"
proof -
  have up: "keeps (auth_evolves live (ae_now E) F w0)
      (svc_seq (au_write E AUpdateRefresh (update_refresh sid (sha256_hex L (snd p)) e)) n)"
    if "ae_pair E = Some p" "keeps (serving live (ae_now E) F w0 sid) n" for sid p e and n :: "('s, login_response) auth"
    by (rule keeps_serving_start [OF _ _ that(2)]) (use serving_updated assms [OF that(1)] in \<open>blast | simp\<close>)+
  show ?thesis
    unfolding refresh_token_def Let_def
    by (rule up keeps_option keeps_intros | erule tame_ops | assumption)+
qed

lemma keeps_is_session_active [keeps_intros]: "keeps (auth_evolves live (ae_now E) F w0) (is_session_active R E sid)"
proof -
  have found: "keeps (auth_evolves live (ae_now E) F w0)
      (svc_bind (au_read E AFindActive (find_active_session (ae_now E) sid)) (\<lambda>found. case found of
            None \<Rightarrow> svc_seq (best_effort_kv (mark_inactive R (ae_now E) sid 0)) (svc_return False)
          | Some x \<Rightarrow> svc_seq (best_effort_kv (mark_active R (ae_now E) (se_user x) (se_id x) (se_expires x - ae_now E)))
              (svc_return True)))" (is "keeps ?P (svc_bind ?m ?n)")
  proof (rule keeps_enter [where Q = "\<lambda>found w. ?P w \<and> (\<forall>x. found = Some x \<longrightarrow> alive (se_id x) w)"])
    show "?P w' \<and> (\<forall>x. found = Some x \<longrightarrow> alive (se_id x) w')" if "?P w" "?m w = (Inr found, w')" for w found w'
      using that by (auto simp: find_active_session_def alive_def find_Some_iff dest: nth_mem)
    show "keeps (\<lambda>w. ?P w \<and> (\<forall>x. found = Some x \<longrightarrow> alive (se_id x) w)) (?n found)" for found
    proof (cases found)
      case None
      have "keeps ?P (svc_seq (best_effort_kv (mark_inactive R (ae_now E) sid 0)) (svc_return False))"
        by (rule keeps_intros | erule tame_ops)+
      then show ?thesis using None by simp
    next
      case (Some x)
      have "keeps (serving live (ae_now E) F w0 (se_id x))
          (svc_seq (best_effort_kv (mark_active R (ae_now E) (se_user x) (se_id x) (se_expires x - ae_now E))) (svc_return True))"
        by (rule keeps_intros)+
      then show ?thesis using Some by (simp add: serving_def [abs_def])
    qed
  qed auto
  show ?thesis unfolding is_session_active_def by (rule found keeps_intros | erule tame_ops)+
qed

end

end
