(* ===== verification/Auth_Trace.thy ===== *)
theory Auth_Trace
  imports Auth_Guarantees
begin

text \<open>
  Any sequence of authentication requests, each handled as a whole, on one database and one Redis: what the handlers keep
  lifts to the sequence, and the tables stay well formed.
\<close>

subsection \<open>The requests\<close>

text \<open>\<open>F\<close> holds the hashes of the refresh tokens that are issued on the way. The clock does not run backwards.\<close>

definition issues :: "('l) auth_lib_scheme \<Rightarrow> auth_env \<Rightarrow> string set \<Rightarrow> bool" where
  "issues L E F \<longleftrightarrow> (case ae_pair E of None \<Rightarrow> True | Some p \<Rightarrow> sha256_hex L (snd p) \<in> F)"

inductive auth_request :: "auth_cfg \<Rightarrow> ('l) auth_lib_scheme \<Rightarrow> 's data_api \<Rightarrow> string set
    \<Rightarrow> time \<times> 's auth_world \<Rightarrow> time \<times> 's auth_world \<Rightarrow> bool" for C L R F where
  login: "t \<le> ae_now E \<Longrightarrow> issues L E F \<Longrightarrow> login_by_pin C L R E req ip w = (a, w') \<Longrightarrow>
     auth_request C L R F (t, w) (ae_now E, w')"
| biometric_login: "t \<le> ae_now E \<Longrightarrow> issues L E F \<Longrightarrow> login_by_biometric C L R E breq ip w = (b, w') \<Longrightarrow>
     auth_request C L R F (t, w) (ae_now E, w')"
| refreshed: "t \<le> ae_now E \<Longrightarrow> issues L E F \<Longrightarrow> refresh_token C L R E raw w = (c, w') \<Longrightarrow>
     auth_request C L R F (t, w) (ae_now E, w')"
| pin_checked: "t \<le> ae_now E \<Longrightarrow> en_now E' = ae_now E \<Longrightarrow> pin_verify C L R E E' u d vreq w = (p, w') \<Longrightarrow>
     auth_request C L R F (t, w) (ae_now E, w')"
| pin_changed: "t \<le> ae_now E \<Longrightarrow> change_pin C L R E u creq w = (q, w') \<Longrightarrow> auth_request C L R F (t, w) (ae_now E, w')"
| access_changed: "t \<le> ae_now E \<Longrightarrow> change_access_code C L R E u creq w = (q, w') \<Longrightarrow>
     auth_request C L R F (t, w) (ae_now E, w')"
| logged_out: "t \<le> ae_now E \<Longrightarrow> logout R E i u d w = (q, w') \<Longrightarrow> auth_request C L R F (t, w) (ae_now E, w')"
| logged_out_all: "t \<le> ae_now E \<Longrightarrow> logout_all R E u w = (q, w') \<Longrightarrow> auth_request C L R F (t, w) (ae_now E, w')"
| session_checked: "t \<le> ae_now E \<Longrightarrow> is_session_active R E i w = (h, w') \<Longrightarrow> auth_request C L R F (t, w) (ae_now E, w')"
| challenged: "t \<le> ae_now E \<Longrightarrow> create_challenge L R E d w = (g, w') \<Longrightarrow> auth_request C L R F (t, w) (ae_now E, w')"
| key_registered: "t \<le> ae_now E \<Longrightarrow> register_biometric_key L E u d rreq w = (k, w') \<Longrightarrow>
     auth_request C L R F (t, w) (ae_now E, w')"

lemma dead_later: "dead live t i w \<Longrightarrow> t \<le> t' \<Longrightarrow> dead live t' i w"
  by (auto simp: dead_def marker_free_def)

text \<open>Requests of the sequence.\<close>

definition auth_later ::
    "('s \<Rightarrow> time \<Rightarrow> string \<Rightarrow> rval option) \<Rightarrow> string set \<Rightarrow> time \<times> 's auth_world \<Rightarrow> time \<times> 's auth_world \<Rightarrow> bool" where
  "auth_later live F x y \<longleftrightarrow> fst x \<le> fst y
     \<and> (\<forall>i. dead live (fst x) i (snd x) \<longrightarrow> dead live (fst y) i (snd y))
     \<and> nonces_stay live (fst y) (kv (snd x)) (kv (snd y)) \<and> hashes (snd y) \<subseteq> hashes (snd x) \<union> F"

lemma auth_later_refl: "auth_later live F x x"
  by (simp add: auth_later_def nonces_stay_def)

lemma auth_later_trans: "auth_later live F x y \<Longrightarrow> auth_later live F y z \<Longrightarrow> auth_later live F x z"
  unfolding auth_later_def nonces_stay_def by (meson le_trans subset_trans Un_least Un_upper2 Un_mono subset_refl sup.coboundedI2 le_sup_iff)

context redis_data
begin

lemma auth_request_later:
  assumes "auth_request C L R F x y"
  shows "auth_later live F x y"
proof -
  have step: "auth_later live F (t, w) (ae_now E, w')"
    if "t \<le> ae_now E" "keeps (auth_evolves live (ae_now E) F w) m" "m w = (r, w')" for t E w w' r
      and m :: "('s, 'x) auth"
    using keepsD [OF that(2) auth_evolves_refl that(3)] dead_later [OF _ that(1), of live _ w] that(1)
    by (auto simp: auth_later_def auth_evolves_def)
  have issued: "sha256_hex L (snd p) \<in> F" if "issues L E F" "ae_pair E = Some p" for E p
    using that by (simp add: issues_def)
  note rules = keeps_change keeps_logout keeps_is_session_active keeps_challenge keeps_register
  show ?thesis using assms
  proof cases
    case (login t E req ip w a w')
    show ?thesis unfolding login(1,2)
      by (rule step [OF login(3) keeps_login_by_pin login(5)]) (rule issued [OF login(4)])
  next
    case (biometric_login t E breq ip w b w')
    show ?thesis unfolding biometric_login(1,2)
      by (rule step [OF biometric_login(3) keeps_login_by_biometric biometric_login(5)]) (rule issued [OF biometric_login(4)])
  next
    case (refreshed t E raw w c w')
    show ?thesis unfolding refreshed(1,2)
      by (rule step [OF refreshed(3) keeps_refresh_token refreshed(5)]) (rule issued [OF refreshed(4)])
  next
    case (pin_checked t E E' u d vreq w p w')
    show ?thesis unfolding pin_checked(1,2) by (rule step [OF pin_checked(3) keeps_pin_verify [OF pin_checked(4)] pin_checked(5)])
  qed (simp only:, rule step, assumption, rule rules, assumption)+
qed

lemma auth_requests_later: "(auth_request C L R F)\<^sup>*\<^sup>* x y \<Longrightarrow> auth_later live F x y"
  by (induction rule: rtranclp_induct) (auto intro: auth_later_refl auth_later_trans auth_request_later)

end

end
