(* ===== verification/Auth_Tables.thy ===== *)
theory Auth_Tables
  imports Auth_Trace
begin

text \<open>
  The tables stay well formed: session ids and refresh token hashes are unique, biometric key ids too, and a user has at most one
  active biometric key on a device. The last rests on the handler, which revokes before it inserts: no constraint of the
  database demands it.
\<close>

definition active_keys :: "auth_db \<Rightarrow> biometric_key list" where
  "active_keys a = filter bk_active (biometric_keys a)"

definition tables_ok :: "auth_db \<Rightarrow> bool" where
  "tables_ok a \<longleftrightarrow> distinct (map se_id (sessions a)) \<and> distinct (map se_hash (sessions a))
     \<and> distinct (map bk_key (biometric_keys a)) \<and> (\<forall>k \<in> set (biometric_keys a). bk_active k \<longrightarrow> bk_revoked k = None)
     \<and> distinct (map (\<lambda>k. (bk_user k, bk_device k)) (active_keys a))"

definition well_formed :: "'s auth_world \<Rightarrow> bool" where
  "well_formed w \<longleftrightarrow> tables_ok (au w)"

lemma tables_ok_other:
  "sessions a' = sessions a \<Longrightarrow> biometric_keys a' = biometric_keys a \<Longrightarrow> tables_ok a' = tables_ok a"
  by (simp add: tables_ok_def active_keys_def)

lemma wf_io [keeps_intros]:
  "keeps well_formed (on_kv f)" "keeps well_formed (best_effort_kv f)" "keeps well_formed (try_kv f)"
  "keeps well_formed (au_read E q g)" "keeps well_formed (response_user E d)" "keeps well_formed (sql_exec E' q' h)"
  "keeps well_formed (notify_security E u x y)"
  by (auto simp: keeps_def well_formed_def on_kv_def best_effort_kv_def try_kv_def au_read_def response_user_def sql_exec_def
      notify_security_def split: prod.splits reply.splits)

lemma wf_exec [keeps_intros]:
  assumes "\<And>a. tables_ok a \<Longrightarrow> tables_ok (g a)"
  shows "keeps well_formed (au_exec E q g)" "keeps well_formed (best_effort_au E q g)"
  using assms by (auto simp: keeps_def well_formed_def au_exec_def best_effort_au_def)

lemma wf_write [keeps_intros]:
  assumes "\<And>a x a'. tables_ok a \<Longrightarrow> h a = Some (x, a') \<Longrightarrow> tables_ok a'"
  shows "keeps well_formed (au_write E q h)"
  using assms by (auto simp: keeps_def well_formed_def au_write_def split: option.splits)

named_theorems table_updates \<open>updates that keep the tables well formed\<close>

named_theorems table_writes \<open>the same of statements that may fail\<close>

lemma tables_users [table_updates]:
  "tables_ok a \<Longrightarrow> tables_ok (reset_failed t i a)" "tables_ok a \<Longrightarrow> tables_ok (set_locked_until i t a)"
  "tables_ok a \<Longrightarrow> tables_ok (update_pin_hash i h a)" "tables_ok a \<Longrightarrow> tables_ok (update_access_hash i h a)"
  "tables_ok a \<Longrightarrow> tables_ok (touch_device t i a)"
  by (simp_all add: reset_failed_def set_locked_until_def update_pin_hash_def update_access_hash_def update_user_def
      touch_device_def tables_ok_def active_keys_def)

lemma tables_increment [table_writes]: "tables_ok a \<Longrightarrow> increment_failed i a = Some (n, a') \<Longrightarrow> tables_ok a'"
  by (auto simp: increment_failed_def update_user_def tables_ok_def active_keys_def split: option.splits)

lemma tables_ok_same:
  assumes "map se_id (sessions a') = map se_id (sessions a)" "map se_hash (sessions a') = map se_hash (sessions a)"
    "biometric_keys a' = biometric_keys a" "tables_ok a"
  shows "tables_ok a'"
  using assms(4) unfolding tables_ok_def active_keys_def assms(1-3) .

lemma tables_revoke [table_updates]:
  "tables_ok a \<Longrightarrow> tables_ok (revoke_session t i a)" "tables_ok a \<Longrightarrow> tables_ok (revoke_user_sessions t u a)"
  by (rule tables_ok_same; simp add: revoke_session_def revoke_user_sessions_def)+

lemma tables_create_session [table_writes]:
  assumes "tables_ok a" "create_session x a = Some (u, a')"
  shows "tables_ok a'"
proof -
  have "a' = a\<lparr>sessions := sessions a @ [x]\<rparr>" "se_id x \<notin> se_id ` set (sessions a)" "se_hash x \<notin> se_hash ` set (sessions a)"
    using assms(2) by (force simp: create_session_def list_ex_iff split: if_splits)+
  then show ?thesis using assms(1) by (simp add: tables_ok_def active_keys_def)
qed

lemma tables_update_refresh [table_writes]:
  assumes "tables_ok a" "update_refresh i h e a = Some (u, a')"
  shows "tables_ok a'"
proof -
  let ?f = "\<lambda>x. if se_id x = i \<and> se_revoked x = None then x\<lparr>se_hash := h, se_expires := e\<rparr> else x"
  have a': "a' = a\<lparr>sessions := map ?f (sessions a)\<rparr>"
    and free: "\<forall>x \<in> set (sessions a). se_id x \<noteq> i \<longrightarrow> se_hash x \<noteq> h"
    using assms(2) by (auto simp: update_refresh_def list_ex_iff split: if_splits)
  have ids: "map se_id (sessions a') = map se_id (sessions a)" and others: "biometric_keys a' = biometric_keys a"
    by (simp_all add: a')
  have inj: "inj_on se_id (set (sessions a))" "inj_on se_hash (set (sessions a))" "distinct (sessions a)"
    using assms(1) by (auto simp: tables_ok_def distinct_map)
  have "inj_on (\<lambda>x. se_hash (?f x)) (set (sessions a))"
    using inj(1,2) free by (auto simp: inj_on_def split: if_splits)
  then have "distinct (map se_hash (sessions a'))" using inj(3) by (simp add: a' distinct_map comp_def)
  then show ?thesis using assms(1) unfolding tables_ok_def active_keys_def ids others by simp
qed

lemma active_after_revoke:
  "\<forall>k \<in> set ks. bk_active k \<longrightarrow> bk_revoked k = None \<Longrightarrow>
   filter bk_active (map (\<lambda>k. if bk_user k = u \<and> bk_device k = d \<and> bk_active k \<and> bk_revoked k = None
      then k\<lparr>bk_active := False, bk_revoked := Some t\<rparr> else k) ks)
   = filter (\<lambda>k. \<not> (bk_user k = u \<and> bk_device k = d)) (filter bk_active ks)"
  by (induction ks) auto

lemma tables_revoke_keys:
  assumes "tables_ok a" "revoke_keys t u d a = Some (n, a')"
  shows "tables_ok a' \<and> (\<forall>k \<in> set (active_keys a'). \<not> (bk_user k = u \<and> bk_device k = d))"
proof -
  let ?f = "\<lambda>k. if bk_user k = u \<and> bk_device k = d \<and> bk_active k \<and> bk_revoked k = None
    then k\<lparr>bk_active := False, bk_revoked := Some t\<rparr> else k"
  have a': "a' = a\<lparr>biometric_keys := map ?f (biometric_keys a)\<rparr>"
    using assms(2) by (auto simp: revoke_keys_def Let_def)
  have act: "active_keys a' = filter (\<lambda>k. \<not> (bk_user k = u \<and> bk_device k = d)) (active_keys a)"
    using active_after_revoke [of "biometric_keys a"] assms(1) by (simp add: active_keys_def a' tables_ok_def)
  have keys: "map bk_key (biometric_keys a') = map bk_key (biometric_keys a)" "sessions a' = sessions a" by (simp_all add: a')
  have "\<forall>k \<in> set (biometric_keys a'). bk_active k \<longrightarrow> bk_revoked k = None"
    using assms(1) by (auto simp: a' tables_ok_def)
  then have "tables_ok a'"
    using assms(1) unfolding tables_ok_def keys act by (simp add: distinct_map_filter)
  then show ?thesis using act by auto
qed

lemma distinct_active:
  "distinct (map bk_key (biometric_keys a)) \<Longrightarrow> distinct (map (\<lambda>k. (bk_user k, bk_device k)) (active_keys a))
    = inj_on (\<lambda>k. (bk_user k, bk_device k)) {k \<in> set (biometric_keys a). bk_active k}"
  by (auto simp: active_keys_def distinct_map)

lemma tables_create_key:
  assumes ok: "tables_ok a" and new: "create_key k a = Some (i, a')" and k: "bk_active k" "bk_revoked k = None"
    and free: "\<forall>x \<in> set (active_keys a). \<not> (bk_user x = bk_user k \<and> bk_device x = bk_device k)"
  shows "tables_ok a'"
proof (cases "find (\<lambda>x. bk_key x = bk_key k) (biometric_keys a)")
  case None
  then have "a' = a\<lparr>biometric_keys := biometric_keys a @ [k]\<rparr>" "bk_key k \<notin> bk_key ` set (biometric_keys a)"
    using new None by (simp add: create_key_def, simp add: find_None_iff image_iff, metis)
  then show ?thesis using ok k free by (auto simp: tables_ok_def active_keys_def)
next
  case (Some x0)
  let ?f = "\<lambda>x. if bk_key x = bk_key k then x\<lparr>bk_public := bk_public k, bk_type := bk_type k,
    bk_attestation := bk_attestation k, bk_active := True, bk_revoked := None, bk_created := bk_created k\<rparr> else x"
  have x0: "x0 \<in> set (biometric_keys a)" "bk_key x0 = bk_key k" "bk_user x0 = bk_user k" "bk_device x0 = bk_device k"
    and a': "a' = a\<lparr>biometric_keys := map ?f (biometric_keys a)\<rparr>"
    using Some new find_Some_D [OF Some] by (auto simp: create_key_def split: if_splits)
  have keys: "map bk_key (biometric_keys a') = map bk_key (biometric_keys a)" "sessions a' = sessions a" by (simp_all add: a')
  have "inj_on bk_key (set (biometric_keys a))" using ok by (simp add: tables_ok_def distinct_map)
  then have same: "x = x0" if "x \<in> set (biometric_keys a)" "bk_key x = bk_key k" for x
    by (rule inj_onD) (use that x0(1,2) in simp_all)
  have inj: "inj_on (\<lambda>k. (bk_user k, bk_device k)) {k \<in> set (biometric_keys a). bk_active k}"
    using ok distinct_active by (auto simp: tables_ok_def)
  have apart: "\<not> (bk_user x = bk_user k \<and> bk_device x = bk_device k)" if "x \<in> set (biometric_keys a)" "bk_active x" for x
    using free that by (auto simp: active_keys_def)
  have "inj_on (\<lambda>k. (bk_user k, bk_device k)) {k \<in> set (biometric_keys a'). bk_active k}"
  proof (rule inj_onI)
    fix y z assume "y \<in> {k \<in> set (biometric_keys a'). bk_active k}" "z \<in> {k \<in> set (biometric_keys a'). bk_active k}"
      and eq: "(bk_user y, bk_device y) = (bk_user z, bk_device z)"
    then obtain x1 x2 where x: "x1 \<in> set (biometric_keys a)" "x2 \<in> set (biometric_keys a)" "y = ?f x1" "z = ?f x2"
      "bk_active y" "bk_active z" by (auto simp: a')
    have both: "bk_key v = bk_key k" if "bk_key v' = bk_key k" "v \<in> set (biometric_keys a)" "v' \<in> set (biometric_keys a)"
      "bk_active (?f v)" "bk_user (?f v) = bk_user (?f v')" "bk_device (?f v) = bk_device (?f v')" for v v'
    proof (rule ccontr)
      assume n: "bk_key v \<noteq> bk_key k"
      have "v' = x0" using same that(1,3) by simp
      then show False using apart [OF that(2)] that(4,5,6) x0 n by simp
    qed
    show "y = z"
    proof (cases "bk_key x1 = bk_key k \<or> bk_key x2 = bk_key k")
      case True
      have e: "bk_user y = bk_user z" "bk_device y = bk_device z" using eq by simp_all
      have "bk_key x2 = bk_key k" if "bk_key x1 = bk_key k"
        by (rule both [OF that x(2,1)]) (simp_all only: x(3) [symmetric] x(4) [symmetric] x(5,6) e)
      moreover have "bk_key x1 = bk_key k" if "bk_key x2 = bk_key k"
        by (rule both [OF that x(1,2)]) (simp_all only: x(3) [symmetric] x(4) [symmetric] x(5,6) e)
      ultimately have "bk_key x1 = bk_key k \<and> bk_key x2 = bk_key k" using True by blast
      then have "x1 = x2" using same [OF x(1)] same [OF x(2)] by simp
      then show ?thesis using x(3,4) by simp
    next
      case False
      then have "x1 = x2" using x eq by (intro inj_onD [OF inj]) simp_all
      then show ?thesis using x(3,4) by simp
    qed
  qed
  moreover have "\<forall>k \<in> set (biometric_keys a'). bk_active k \<longrightarrow> bk_revoked k = None"
    using ok by (auto simp: a' tables_ok_def)
  moreover have "distinct (map bk_key (biometric_keys a'))" using ok by (simp only: keys tables_ok_def)
  ultimately show ?thesis using ok distinct_active [of a'] unfolding tables_ok_def keys by simp
qed

subsection \<open>The handlers\<close>

lemma wf_start_session [keeps_intros]: "keeps well_formed (start_session C L R E u dev dkey m ip)"
  unfolding start_session_def Let_def by (rule keeps_intros | erule (1) table_writes | erule table_updates)+

lemma wf_pin [keeps_intros]:
  "keeps well_formed (open_pin L R E e enc)" "keeps well_formed (open_new_pin L E enc)"
  "keeps well_formed (validate_pin_key_id C i)" "keeps well_formed (check_rate_limits R E d ip)"
  "keeps well_formed (pin_rate R E user)" "keeps well_formed (refuse_locked R E b user)"
  "keeps well_formed (refuse_db_locked E u)"
  unfolding open_pin_def open_new_pin_def validate_pin_key_id_def check_rate_limits_def limited_by_def pin_rate_def
    refuse_locked_def refuse_db_locked_def
  by (rule keeps_intros)+

lemma wf_failed_pin [keeps_intros]: "keeps well_formed (handle_failed_pin R E u)"
  unfolding handle_failed_pin_def by (rule keeps_intros | erule (1) table_writes | erule table_updates)+

lemma wf_wrong_old_pin [keeps_intros]: "keeps well_formed (wrong_old_pin R E u)"
  using wf_failed_pin [of R E u] unfolding keeps_def wrong_old_pin_def by (auto split: prod.splits sum.splits)

lemma wf_end_sessions [keeps_intros]: "keeps well_formed (drop_caches R E u)" "keeps well_formed (end_sessions R E u)"
  unfolding end_sessions_def drop_caches_def by (rule keeps_intros | erule table_updates)+

lemma wf_login: "keeps well_formed (login_by_pin C L R E req ip)"
  unfolding login_by_pin_def handle_successful_login_def by (rule keeps_intros | erule table_updates)+

lemma wf_biometric: "keeps well_formed (login_by_biometric C L R E breq ip)"
  unfolding login_by_biometric_def by (rule keeps_intros)+

lemma wf_pin_verify: "keeps well_formed (pin_verify C L R E E' u d vreq)"
  unfolding pin_verify_def verify_pin_def create_verification_token_def Let_def by (rule keeps_intros)+

lemma wf_change:
  "keeps well_formed (change_pin C L R E u creq)" "keeps well_formed (change_access_code C L R E u creq)"
  unfolding change_pin_def change_access_code_def change_credential_def
  by (rule keeps_intros | erule table_updates)+

lemma wf_refresh: "keeps well_formed (refresh_token C L R E raw)"
  unfolding refresh_token_def Let_def handle_suspicious_login_def
  by (rule keeps_intros | erule (1) table_writes)+

lemma wf_logout: "keeps well_formed (logout R E i u d)" "keeps well_formed (logout_all R E u)"
  unfolding logout_def logout_all_def by (rule keeps_intros | erule table_updates)+

lemma wf_checks: "keeps well_formed (is_session_active R E i)" "keeps well_formed (create_challenge L R E d)"
  unfolding is_session_active_def create_challenge_def by (rule keeps_intros)+

lemma wf_register: "keeps (well_formed :: 's auth_world \<Rightarrow> bool) (register_biometric_key L E u d rreq)"
proof -
  have "keeps (well_formed :: 's auth_world \<Rightarrow> bool) (svc_bind (au_write E ARevokeKeys (revoke_keys t u i)) (\<lambda>n.
      svc_bind (au_write E ACreateKey (create_key k)) (\<lambda>j. svc_return (j, n))))"
    if "bk_user k = u" "bk_device k = i" "bk_active k" "bk_revoked k = None" for t i k
    unfolding keeps_def
  proof (intro allI impI)
    fix w w' :: "'s auth_world" and r
    assume ok: "well_formed w" and run: "svc_bind (au_write E ARevokeKeys (revoke_keys t u i)) (\<lambda>n.
      svc_bind (au_write E ACreateKey (create_key k)) (\<lambda>j. svc_return (j, n))) w = (r, w')"
    obtain n a where rev: "revoke_keys t u i (au w) = Some (n, a)" by (simp add: revoke_keys_def Let_def)
    have a: "tables_ok a" "\<forall>x \<in> set (active_keys a). \<not> (bk_user x = bk_user k \<and> bk_device x = bk_device k)"
      using tables_revoke_keys [OF _ rev] ok that(1,2) by (auto simp: well_formed_def)
    have "tables_ok b" if "create_key k a = Some (j, b)" for j b
      using tables_create_key [OF a(1) that \<open>bk_active k\<close> \<open>bk_revoked k = None\<close> a(2)] .
    then show "well_formed w'"
      using run ok a(1) rev by (auto simp: svc_defs au_write_def well_formed_def split: if_splits option.splits prod.splits)
  qed
  note pair = this
  show ?thesis unfolding register_biometric_key_def
    by ((rule pair, simp, simp, simp, simp) | rule keeps_intros)+
qed

subsection \<open>Any sequence of requests\<close>

lemma auth_request_wf:
  assumes "auth_request C L R F x y" "well_formed (snd x)"
  shows "well_formed (snd y)"
proof -
  have step: "well_formed (snd y)" if "x = (t, w)" "y = (t', w')" "m w = (r, w')" "keeps well_formed m" for t t' w w' m r
    using keepsD [OF that(4) _ that(3)] that(1,2) assms(2) by simp
  show ?thesis using assms(1)
  proof cases
    case pin_checked
    show ?thesis by (rule step [OF pin_checked(1,2,5) wf_pin_verify])
  qed (rule step, assumption, assumption, assumption,
    rule wf_login wf_biometric wf_refresh wf_change wf_logout wf_checks wf_register)+
qed

lemma auth_requests_wf: "(auth_request C L R F)\<^sup>*\<^sup>* x y \<Longrightarrow> well_formed (snd x) \<Longrightarrow> well_formed (snd y)"
  by (induction rule: rtranclp_induct) (auto intro: auth_request_wf)

end
