(* ===== verification/Auth_Samples.thy ===== *)
theory Auth_Samples
  imports Auth_Tables Samples
begin

text \<open>
  A concrete authentication side for the witnesses: one customer with a phone, a session and a biometric key, toy ciphers, and
  the reference server of \<open>Redis_Data\<close>, empty and never failing.
\<close>

text \<open>A PIN payload is encrypted as its PIN and its nonce, each one character; its timestamp is second 60.\<close>

definition sample_auth_lib :: "unit auth_lib_scheme" where
  "sample_auth_lib = lib.extend sample_lib (auth_lib.fields
     (\<lambda>t raw. if raw = ''r1'' then Some \<lparr>cl_subject = ''ann'', cl_session = ''s1'', cl_device = ''phone''\<rparr> else None)
     (\<lambda>c. case c of [p, n] \<Rightarrow> Some \<lparr>pl_pin = [p], pl_nonce = [n], pl_ts = 60\<rparr> | _ \<Rightarrow> None)
     (\<lambda>p h. Some (h = CHR ''H'' # p))
     (\<lambda>k. if k = ''pk'' then Some (P256 ''pk'') else None)
     (\<lambda>x. Some x) (\<lambda>x. x) (\<lambda>x. x)
     (\<lambda>k h s. s = CHR ''S'' # h) (\<lambda>k h r s. False))"

definition sample_auth_cfg :: auth_cfg where
  "sample_auth_cfg = \<lparr>cf_pin_key = Some '''', cf_access_ttl = minutes 15, cf_refresh_ttl = hours 168\<rparr>"

definition sample_auth_env :: "time \<Rightarrow> uuid \<Rightarrow> string \<Rightarrow> auth_env" where
  "sample_auth_env t i raw = \<lparr>ae_now = t, ae_id = i, ae_pair = Some (''access'', raw), ae_hash = (\<lambda>p. Some (CHR ''H'' # p)),
     ae_challenge = ''c'', ae_member = (\<lambda>k. k @ i), ae_fault = (\<lambda>_. False)\<rparr>"

definition sample_session :: "uuid \<Rightarrow> string \<Rightarrow> session" where
  "sample_session i h = \<lparr>se_id = i, se_user = ''ann'', se_device = ''d1'', se_hash = h, se_ip = '''', se_method = ''PIN'',
     se_expires = hours 168, se_created = 0, se_revoked = None\<rparr>"

definition sample_user :: user where
  "sample_user = \<lparr>ur_id = ''ann'', ur_full_name = ''Ann'', ur_display_name = ''Ann'', ur_pin_hash = ''H1'', ur_access_hash = '''',
     ur_status = ''ACTIVE'', ur_locked_until = None, ur_failed = 0, ur_max = 3, ur_last_login = None, ur_deleted = False\<rparr>"

definition sample_auth_db :: auth_db where
  "sample_auth_db = \<lparr>users = [sample_user],
     devices = [\<lparr>de_id = ''d1'', de_user = ''ann'', de_key = ''phone'', de_last_active = None, de_revoked = False\<rparr>],
     sessions = [sample_session ''s1'' ''#r1'', sample_session ''s2'' ''#r2''],
     biometric_keys = [\<lparr>bk_id = ''b1'', bk_user = ''ann'', bk_device = ''d1'', bk_key = ''k1'', bk_public = ''pk'',
       bk_type = ''FACE_ID'', bk_attestation = None, bk_active = True, bk_revoked = None, bk_created = 0\<rparr>]\<rparr>"

definition empty_store :: store where
  "empty_store = \<lparr>str_table = Map.empty, set_table = Map.empty, score_table = Map.empty\<rparr>"

definition sample_auth_world :: "store auth_world" where
  "sample_auth_world = \<lparr>kv = empty_store, pg = sample_db, sent = [], au = sample_auth_db\<rparr>"

lemma sample_tables_ok: "tables_ok sample_auth_db"
  by (simp add: tables_ok_def active_keys_def sample_auth_db_def sample_session_def)

subsection \<open>Requests on the sample\<close>

abbreviation sample_logout :: "time \<Rightarrow> store auth_world \<Rightarrow> (app_err + unit) \<times> store auth_world" where
  "sample_logout t \<equiv> logout store_ok (sample_auth_env t '''' '''') ''s1'' ''ann'' ''phone''"

abbreviation sample_refresh :: "time \<Rightarrow> string \<Rightarrow> store auth_world \<Rightarrow> (app_err + login_response) \<times> store auth_world" where
  "sample_refresh t new \<equiv> refresh_token sample_auth_cfg sample_auth_lib store_ok (sample_auth_env t '''' new) ''r1''"

abbreviation sample_auth_requests :: "string set \<Rightarrow> time \<times> store auth_world \<Rightarrow> time \<times> store auth_world \<Rightarrow> bool" where
  "sample_auth_requests F \<equiv> (auth_request sample_auth_cfg sample_auth_lib store_ok F)\<^sup>*\<^sup>*"

lemma store_ok_data: "redis_data store_ok store_live"
  unfolding store_ok_def by (rule store.redis_data_axioms)

lemma sample_env_now [simp]: "ae_now (sample_auth_env t i raw) = t"
  by (simp add: sample_auth_env_def)

lemma sample_auth_hash [simp]: "sha256_hex sample_auth_lib x = CHR ''#'' # x"
  by (simp add: sample_auth_lib_def lib.defs sample_lib_def)

lemma sample_issues [simp]: "issues sample_auth_lib (sample_auth_env t i raw) F \<longleftrightarrow> CHR ''#'' # raw \<in> F"
  by (simp add: issues_def sample_auth_env_def)

lemma sample_refreshes:
  assumes "t \<le> t'" "CHR ''#'' # new \<in> F"
  shows "sample_auth_requests F (t, w) (t', snd (sample_refresh t' new w))"
proof -
  have "auth_request sample_auth_cfg sample_auth_lib store_ok F (t, w)
      (ae_now (sample_auth_env t' '''' new), snd (sample_refresh t' new w))"
    using assms by (intro auth_request.refreshed [OF _ _ prod.collapse [symmetric]]) simp_all
  then show ?thesis by (simp add: r_into_rtranclp)
qed

text \<open>A run that succeeds, as an equation.\<close>

definition succeeds :: "(app_err + 'a) \<times> 'w \<Rightarrow> bool" where
  "succeeds q \<longleftrightarrow> (case q of (Inr _, _) \<Rightarrow> True | _ \<Rightarrow> False)"

lemma succeedsE:
  assumes "succeeds q"
  obtains x where "q = (Inr x, snd q)"
  using assms by (cases q) (auto simp: succeeds_def split: sum.splits)

lemmas sample_defs = sample_auth_lib_def sample_auth_cfg_def lib.defs auth_lib.defs sample_lib_def sample_auth_env_def sample_auth_world_def
  sample_auth_db_def sample_session_def sample_user_def empty_store_def store_ok_def store_redis_def store_live_def mem_live_def

lemmas handler_defs = Let_def svc_defs try_kv_def au_read_def au_write_def au_exec_def best_effort_au_def

text \<open>The first exchange of the sample's token goes through.\<close>

lemma sample_refresh_succeeds: "succeeds (sample_refresh 1000 new sample_auth_world) \<longleftrightarrow> new \<noteq> ''r2''"
  by (simp add: succeeds_def refresh_token_def is_revoked_def find_by_refresh_hash_def update_refresh_def response_user_def
      handler_defs sample_defs hours_def minutes_def seconds_def split: prod.splits)

end
