(* ===== verification/Auth_Properties.thy ===== *)
theory Auth_Properties
  imports Auth_Samples
begin

text \<open>The properties of the authentication side, each with a witness on the sample customer.\<close>

subsection \<open>Sessions\<close>

context redis_data
begin

lemma dead_not_active:
  assumes "dead live t i w" "t \<le> ae_now E"
  shows "fst (is_session_active R E i w) \<noteq> Inr True"
proof -
  have dead: "dead live (ae_now E) i w" by (rule dead_later [OF assms])
  have quiet: "b \<noteq> True" if "is_active R (ae_now E) i (kv w) = (Reply b, s)" for b s
    using exists_reply [OF that [unfolded is_active_def]] dead by (auto simp: dead_def marker_free_def)
  have none: "find_active_session u i (au w) = None" for u
    using dead by (auto simp: dead_def find_active_session_def find_None_iff)
  show ?thesis using quiet none
    by (auto simp: is_session_active_def svc_defs try_kv_def au_read_def split: prod.splits reply.splits option.splits if_splits)
qed

lemma logout_dead:
  assumes "logout R E i u d w = (Inr x, w1)" "\<exists>x \<in> set (sessions (au w)). se_id x = i"
    "\<And>s. fst (api_del (strs R) (ae_now E) (active_session_key i) s) \<noteq> Fault"
  shows "dead live (ae_now E) i w1"
proof -
  let ?a = "revoke_session (ae_now E) i (au w)"
  obtain s1 where w1: "w1 = w\<lparr>au := ?a, kv := snd (revoke_active R (ae_now E) u i s1)\<rparr>"
    using assms(1) by (auto simp: logout_def)
  obtain s2 where del: "api_del (strs R) (ae_now E) (active_session_key i) s1 = (Reply (), s2)"
    using assms(3) [of s1] by (cases "api_del (strs R) (ae_now E) (active_session_key i) s1", cases "fst (api_del (strs R) (ae_now E) (active_session_key i) s1)") auto
  obtain r s3 where srem: "api_srem R (ae_now E) (user_active_sessions_key u) i s2 = (r, s3)" by force
  have "marker_free live (ae_now E) i s3"
    using del_gone [OF del] srem_frame [OF srem] by (auto simp: marker_free_def)
  moreover have "snd (revoke_active R (ae_now E) u i s1) = s3" by (simp add: revoke_active_def pipe_then_state del srem)
  moreover have "map se_id (sessions ?a) = map se_id (sessions (au w))" by (simp add: revoke_session_def)
  then have "\<exists>x \<in> set (sessions ?a). se_id x = i" using assms(2) by (metis imageE imageI list.set_map)
  moreover have "\<forall>x \<in> set (sessions ?a). se_id x = i \<longrightarrow> se_revoked x \<noteq> None"
    using assms(2) by (auto simp: revoke_session_def)
  ultimately show ?thesis by (simp add: dead_def w1)
qed

lemma logged_out_stays_out:
  assumes "logout R E i u d w = (Inr x, w1)" "\<exists>x \<in> set (sessions (au w)). se_id x = i"
    "\<And>s. fst (api_del (strs R) (ae_now E) (active_session_key i) s) \<noteq> Fault"
    "(auth_request C L R F)\<^sup>*\<^sup>* (ae_now E, w1) (t, w2)" "t \<le> ae_now E'"
  shows "fst (is_session_active R E' i w2) \<noteq> Inr True"
proof -
  have "dead live t i w2"
    using auth_requests_later [OF assms(4)] logout_dead [OF assms(1-3)] by (simp add: auth_later_def)
  then show ?thesis using assms(5) by (rule dead_not_active)
qed

end

text \<open>C24: a session that has been logged out, while Redis served the deletion of its marker, stays out: after any further
  authentication requests, refreshes of its token and checks of the session among them, no check of the session finds it active.
\<close>

theorem logout_is_final:
  assumes "redis_data R live" "logout R E i u d w = (Inr x, w1)" "\<exists>x \<in> set (sessions (au w)). se_id x = i"
    "\<And>s. fst (api_del (strs R) (ae_now E) (active_session_key i) s) \<noteq> Fault"
    "(auth_request C L R F)\<^sup>*\<^sup>* (ae_now E, w1) (t, w2)" "t \<le> ae_now E'"
  shows "fst (is_session_active R E' i w2) \<noteq> Inr True"
  by (rule redis_data.logged_out_stays_out [OF assms])

theorem logout_is_final_witness:
  "fst (is_session_active store_ok (sample_auth_env 3000 '''' '''') ''s1''
     (snd (sample_refresh 2000 ''r3'' (snd (sample_logout 1000 sample_auth_world))))) \<noteq> Inr True"
proof (rule logout_is_final [OF store_ok_data _ _ _ sample_refreshes [where F = UNIV], where E = "sample_auth_env 1000 '''' ''''"
      and i = "''s1''" and u = "''ann''" and d = "''phone''" and w = sample_auth_world])
  show "sample_logout 1000 sample_auth_world = (Inr (), snd (sample_logout 1000 sample_auth_world))"
    by (rule prod_eqI) (code_simp, simp)
  show "\<exists>x \<in> set (sessions (au sample_auth_world)). se_id x = ''s1''"
    by (simp add: sample_auth_world_def sample_auth_db_def sample_session_def)
  show "fst (api_del (strs store_ok) t k s) \<noteq> Fault" for t k s
    by (simp add: store_ok_def store_redis_def on_strs_def mem_redis_simps split: prod.splits)
qed (simp_all add: sample_auth_env_def)

subsection \<open>Refresh tokens\<close>

lemma refresh_parts:
  assumes "refresh_token C L R E raw w = (Inr resp, w1)"
  obtains cl p x d s where "verify_refresh L (ae_now E) raw = Some cl" "ae_pair E = Some p"
    "find_by_refresh_hash (sha256_hex L raw) (au w) = Some x"
    "parse_uuid L (cl_subject cl) = Some (se_user x)" "parse_uuid L (cl_session cl) = Some (se_id x)"
    "update_refresh (se_id x) (sha256_hex L (snd p)) (ae_now E + cf_refresh_ttl C) (au w) = Some ((), d)"
    "au w1 = d" "is_revoked R (ae_now E) (sha256_hex L raw) (kv w) = (Reply False, s)"
    "kv w1 = snd (mark_active R (ae_now E) (se_user x) (se_id x) (cf_refresh_ttl C)
       (snd (store_session R (ae_now E) x (cl_device cl) '''' (se_method x)
       (snd (mark_revoked R (ae_now E) (sha256_hex L raw) (int (se_expires x) - int (ae_now E)) s)))))"
  using assms unfolding refresh_token_def Let_def response_user_def
  by (auto split: option.splits bool.splits)

lemma refresh_spends:
  assumes "refresh_token C L R E raw w = (Inr resp, w1)" "tables_ok (au w)" "issues L E F" "sha256_hex L raw \<notin> F"
  shows "sha256_hex L raw \<notin> hashes w1"
proof
  let ?h = "sha256_hex L raw"
  obtain p x d where p: "ae_pair E = Some p" and x: "find_by_refresh_hash ?h (au w) = Some x" and d: "au w1 = d"
    and up: "update_refresh (se_id x) (sha256_hex L (snd p)) (ae_now E + cf_refresh_ttl C) (au w) = Some ((), d)"
    using refresh_parts [OF assms(1)] by metis
  have new: "sha256_hex L (snd p) \<noteq> ?h" using assms(3,4) p by (auto simp: issues_def)
  have x': "x \<in> set (sessions (au w))" "se_hash x = ?h" "se_revoked x = None"
    using find_Some_D [OF x [unfolded find_by_refresh_hash_def]] by auto
  have inj: "inj_on se_hash (set (sessions (au w)))" using assms(2) by (simp add: tables_ok_def distinct_map)
  assume "?h \<in> hashes w1"
  then obtain y where "y \<in> set (sessions (au w))" "se_hash y = ?h" "\<not> (se_id y = se_id x \<and> se_revoked y = None)"
    using up new by (auto simp: hashes_def d update_refresh_def split: if_splits)
  then show False using inj_onD [OF inj, of x y] x' by auto
qed

lemma refresh_unknown:
  assumes "sha256_hex L raw \<notin> hashes w"
  shows "\<exists>e. fst (refresh_token C L R E raw w) = Inl e"
proof (cases "fst (refresh_token C L R E raw w)")
  case (Inr resp)
  then have run: "refresh_token C L R E raw w = (Inr resp, snd (refresh_token C L R E raw w))" by (simp add: prod_eq_iff)
  obtain x where "find_by_refresh_hash (sha256_hex L raw) (au w) = Some x"
    by (rule refresh_parts [OF run])
  then have "x \<in> set (sessions (au w)) \<and> se_hash x = sha256_hex L raw"
    unfolding find_by_refresh_hash_def by (auto dest: find_Some_D)
  then show ?thesis using assms by (metis hashes_def imageI)
qed simp

text \<open>C10: a refresh token is exchanged at most once: after it has been, no sequence of authentication requests, as long as no new
  token has its hash, brings back a world in which it is exchanged again.
\<close>

theorem refresh_once:
  assumes "redis_data R live" "tables_ok (au w)" "refresh_token C L R E raw w = (Inr resp, w1)" "issues L E F"
    "sha256_hex L raw \<notin> F" "(auth_request C L R F)\<^sup>*\<^sup>* (ae_now E, w1) (t, w2)"
  shows "\<exists>e. fst (refresh_token C L R E' raw w2) = Inl e"
proof -
  have "hashes w2 \<subseteq> hashes w1 \<union> F"
    using redis_data.auth_requests_later [OF assms(1,6)] by (simp add: auth_later_def)
  then show ?thesis using refresh_spends [OF assms(3,2,4,5)] assms(5) by (blast intro: refresh_unknown)
qed

theorem refresh_once_witness:
  "\<exists>e. fst (sample_refresh 3000 ''r4'' (snd (sample_refresh 2000 ''r3'' (snd (sample_refresh 1000 ''r2a'' sample_auth_world))))) = Inl e"
proof -
  have "succeeds (sample_refresh 1000 ''r2a'' sample_auth_world)" by (simp add: sample_refresh_succeeds)
  then obtain resp where "sample_refresh 1000 ''r2a'' sample_auth_world = (Inr resp, snd (sample_refresh 1000 ''r2a'' sample_auth_world))"
    by (rule succeedsE)
  from refresh_once [OF store_ok_data _ this, where F = "{''#r2a'', ''#r3''}" and t = 2000
      and E' = "sample_auth_env 3000 '''' ''r4''", OF _ _ _ sample_refreshes]
  show ?thesis by (simp add: sample_tables_ok sample_auth_world_def)
qed

subsection \<open>A stolen refresh token\<close>

context redis_data
begin

lemma pipe_frame:
  assumes "\<And>s r s'. f s = (r, s') \<Longrightarrow> live s' t' k = live s t' k" "\<And>s r s'. g s = (r, s') \<Longrightarrow> live s' t' k = live s t' k"
  shows "live (snd (pipe_then f g s)) t' k = live s t' k"
  using assms(1) [OF prod.collapse [symmetric], of s] assms(2) [OF prod.collapse [symmetric], of "snd (f s)"]
  by (simp add: pipe_then_state)

lemma revoked_token_stays:
  assumes "t \<le> t'"
  shows "live (snd (store_session R t x dk disp m s)) t' (revoked_key h) = live s t' (revoked_key h)"
    "live (snd (mark_active R t u i d s)) t' (revoked_key h) = live s t' (revoked_key h)"
proof -
  have exp: "api_expire R t k d s = (r, s') \<Longrightarrow> k \<noteq> revoked_key h \<Longrightarrow> live s' t' (revoked_key h) = live s t' (revoked_key h)"
    for k d s r s' using expire_frame [of t k d s r s' "revoked_key h" t'] assms by auto
  have put: "api_set (strs R) t k v d s = (r, s') \<Longrightarrow> k \<noteq> revoked_key h \<Longrightarrow> live s' t' (revoked_key h) = live s t' (revoked_key h)"
    for k v d s r s' using set_frame [of t k v d s r s' "revoked_key h" t'] assms by auto
  show "live (snd (store_session R t x dk disp m s)) t' (revoked_key h) = live s t' (revoked_key h)"
    unfolding store_session_def Let_def
    by (rule pipe_frame, erule hset_frame [OF _ assms], erule exp) (simp add: key_defs)
  have track: "live (snd (pipe_then (api_sadd R t k i) (api_expire R t k d) s)) t' (revoked_key h) = live s t' (revoked_key h)"
    if "k \<noteq> revoked_key h" for k s
    by (rule pipe_frame, erule sadd_frame [OF _ assms], erule exp) (rule that)
  show "live (snd (mark_active R t u i d s)) t' (revoked_key h) = live s t' (revoked_key h)"
    unfolding mark_active_def
  proof (rule pipe_frame)
    show "live s' t' (revoked_key h) = live s t' (revoked_key h)"
      if "api_set (strs R) t (active_session_key i) (RText u) d s = (r, s')" for s r s'
      using put [OF that] by (simp add: key_defs)
    show "live s' t' (revoked_key h) = live s t' (revoked_key h)"
      if "pipe_then (api_sadd R t (user_active_sessions_key u) i) (api_expire R t (user_active_sessions_key u) d) s = (r, s')" for s r s'
      using track [of "user_active_sessions_key u" s] that by (simp add: key_defs)
  qed
qed

text \<open>After an exchange the old token is marked until it would have expired, if the SET was served.\<close>

lemma refresh_marks:
  assumes "refresh_token C L R E raw w = (Inr resp, w1)" "\<And>k v d s. fst (api_set (strs R) (ae_now E) k v d s) \<noteq> Fault"
    "find_by_refresh_hash (sha256_hex L raw) (au w) = Some x" "ae_now E \<le> t" "t < se_expires x"
  shows "live (kv w1) t (revoked_key (sha256_hex L raw)) \<noteq> None"
proof -
  let ?h = "sha256_hex L raw"
  obtain cl :: claims and s where w1: "kv w1 = snd (mark_active R (ae_now E) (se_user x) (se_id x) (cf_refresh_ttl C)
       (snd (store_session R (ae_now E) x (cl_device cl) '''' (se_method x)
       (snd (mark_revoked R (ae_now E) ?h (int (se_expires x) - int (ae_now E)) s)))))"
  proof (rule refresh_parts [OF assms(1)])
    fix cl :: claims and x' s
    assume "find_by_refresh_hash ?h (au w) = Some x'" and kv: "kv w1 = snd (mark_active R (ae_now E) (se_user x') (se_id x') (cf_refresh_ttl C)
       (snd (store_session R (ae_now E) x' (cl_device cl) '''' (se_method x')
       (snd (mark_revoked R (ae_now E) ?h (int (se_expires x') - int (ae_now E)) s)))))"
    then have "x' = x" using assms(3) by simp
    show thesis using kv unfolding \<open>x' = x\<close> by (rule that)
  qed
  obtain r s' where set: "api_set (strs R) (ae_now E) (revoked_key ?h) (RText ''1'') (se_expires x - ae_now E) s = (r, s')"
    by force
  then have "r = Reply ()" using assms(2) [of "revoked_key ?h" "RText ''1''" "se_expires x - ae_now E" s] by (cases r) simp_all
  then have "live s' t (revoked_key ?h) \<noteq> None"
    using set_reply [of "ae_now E" "revoked_key ?h" _ _ s "()" s' t] set assms(4,5) by (simp add: shows_put_def)
  moreover have "snd (mark_revoked R (ae_now E) ?h (int (se_expires x) - int (ae_now E)) s) = s'"
    using set assms(4,5) by (simp add: mark_revoked_def nat_diff_distrib)
  ultimately show ?thesis by (simp add: w1 revoked_token_stays [OF assms(4)])
qed

lemma revoke_user_sessions_all:
  "\<forall>x \<in> set (sessions (revoke_user_sessions t u a)). se_user x = u \<longrightarrow> se_revoked x \<noteq> None"
proof
  let ?f = "\<lambda>y. if se_user y = u \<and> se_revoked y = None then y\<lparr>se_revoked := Some t\<rparr> else y"
  fix x assume x: "x \<in> set (sessions (revoke_user_sessions t u a))"
  have "sessions (revoke_user_sessions t u a) = map ?f (sessions a)" by (simp add: revoke_user_sessions_def)
  with x have "x \<in> ?f ` set (sessions a)" unfolding set_map [symmetric] by metis
  then obtain y where "x = ?f y" by (rule imageE)
  then show "se_user x = u \<longrightarrow> se_revoked x \<noteq> None" by (simp split: if_splits)
qed

lemma revoked_token_presented:
  assumes "verify_refresh L (ae_now E) raw = Some cl" "parse_uuid L (cl_subject cl) = Some u" "parse_uuid L (cl_session cl) = Some i"
    "live (kv w) (ae_now E) (revoked_key (sha256_hex L raw)) \<noteq> None" "\<not> ae_fault E ARevokeUser"
    "\<And>k s. fst (api_exists R (ae_now E) k s) \<noteq> Fault"
  shows "fst (refresh_token C L R E raw w) = Inl TokenInvalid
    \<and> (\<forall>x \<in> set (sessions (au (snd (refresh_token C L R E raw w)))). se_user x = u \<longrightarrow> se_revoked x \<noteq> None)"
proof -
  let ?h = "sha256_hex L raw"
  obtain r s where ex: "is_revoked R (ae_now E) ?h (kv w) = (r, s)" by force
  then obtain b where b: "r = Reply b" using assms(6) [of "revoked_key ?h" "kv w"] by (cases r) (auto simp: is_revoked_def)
  then have b: "r = Reply True" using exists_reply [OF ex [unfolded is_revoked_def b]] assms(4) by simp
  have "refresh_token C L R E raw w
      = svc_seq (handle_suspicious_login R E u) (svc_throw TokenInvalid) (w\<lparr>kv := s\<rparr>)"
    using assms(1-3) ex b by (simp add: refresh_token_def svc_defs try_kv_def Let_def)
  moreover have "fst (svc_seq (handle_suspicious_login R E u) (svc_throw TokenInvalid :: ('s, login_response) auth) v) = Inl TokenInvalid
      \<and> au (snd (svc_seq (handle_suspicious_login R E u) (svc_throw TokenInvalid :: ('s, login_response) auth) v)) = revoke_user_sessions (ae_now E) u (au v)"
    for v :: "'s auth_world"
    using assms(5) by (simp add: handle_suspicious_login_def end_sessions_def drop_caches_def svc_defs best_effort_au_def
        notify_security_def)
  ultimately show ?thesis by (simp add: revoke_user_sessions_all)
qed

end


subsection \<open>Logging out everywhere\<close>

text \<open>Two sessions without markers in Redis; the second one is about to expire.\<close>

definition sample_two :: "store auth_world" where
  "sample_two = sample_auth_world\<lparr>au := sample_auth_db\<lparr>sessions := [sample_session ''s1'' ''#r1'',
     sample_session ''s2'' ''#r2''\<lparr>se_expires := 10000\<rparr>]\<rparr>\<rparr>"

abbreviation sample_check :: "time \<Rightarrow> uuid \<Rightarrow> store auth_world \<Rightarrow> (app_err + bool) \<times> store auth_world" where
  "sample_check t i \<equiv> is_session_active store_ok (sample_auth_env t '''' '''') i"

text \<open>logging out everywhere can leave a session in use: a check of a session that is about to expire sets the time to live of the
  user's set of live sessions to what that session has left, so that the set is gone when all sessions are to be dropped; with
  every Redis command served, the marker of another session then outlives the logout although its row is revoked.
\<close>

theorem logout_all_leaves_marker:
  "let w1 = snd (sample_check 0 ''s1'' sample_two); w2 = snd (sample_check 1000 ''s2'' w1);
       r3 = logout_all store_ok (sample_auth_env 20000 '''' '''') ''ann'' w2 in
     fst r3 = Inr () \<and> list_all (\<lambda>x. se_revoked x \<noteq> None) (sessions (au (snd r3)))
     \<and> fst (sample_check 21000 ''s1'' (snd r3)) = Inr True"
  by code_simp

subsection \<open>Biometric login\<close>

lemma start_session_opens:
  assumes "start_session C L R E u dev dkey m ip w = (Inr resp, w')"
  shows "\<exists>x. sessions (au w') = sessions (au w) @ [x] \<and> se_user x = ur_id u \<and> se_device x = de_id dev"
  using assms by (auto simp: start_session_def Let_def create_session_def touch_device_def split: if_splits)

lemma refuse_locked_au: "refuse_locked R E b u w = (r, w') \<Longrightarrow> au w' = au w"
  by (auto simp: refuse_locked_def svc_defs split: prod.splits reply.splits option.splits)

lemma biometric_parts:
  assumes "login_by_biometric C L R E req ip w = (Inr resp, w')"
  obtains c s k dev usr sig w1 w2 where "consume_challenge R (ae_now E) (bl_challenge req) (kv w) = (Reply (Some c), s)"
    "cd_device c = bl_device req" "find_active_key (bl_key req) (au w) = Some k" "find_active_device (bl_device req) (au w) = Some dev"
    "bk_device k = de_id dev" "base64_decode L (signature_value req) = Some sig" "verify_signature L (bk_public k) (cd_challenge c) sig"
    "find_user_by_device (bl_device req) (au w) = Some usr" "refuse_locked R E True (ur_id usr) w1 = (Inr (), w2)" "au w1 = au w"
    "start_session C L R E usr dev (de_key dev) (bk_type k) ip w2 = (Inr resp, w')"
  using assms unfolding login_by_biometric_def by (auto split: option.splits)

context redis_data
begin

lemma consumed_challenge:
  assumes "consume_challenge R t i s = (Reply (Some c), s')"
  shows "\<exists>j. live s t (challenge_key i) = Some (RJson j) \<and> decode_challenge j = Some c"
  using assms by (auto simp: consume_challenge_def split: prod.splits reply.splits option.splits rval.splits)
    (metis getdel_reply)

end

text \<open>C28: a biometric login succeeds only if the challenge it names lies in Redis and was drawn for this device, an active and unrevoked
  key with the given id is bound to that device, and the signature of the challenge verifies under it; the session that it opens
  is for the device and the user it belongs to.
\<close>

theorem biometric_login_proves_key:
  assumes "redis_data R live" "login_by_biometric C L R E req ip w = (Inr resp, w')"
  shows "\<exists>c k dev usr sig x. live (kv w) (ae_now E) (challenge_key (bl_challenge req)) = Some (RJson c)
    \<and> map_option cd_device (decode_challenge c) = Some (bl_device req)
    \<and> k \<in> set (biometric_keys (au w)) \<and> bk_key k = bl_key req \<and> bk_active k \<and> bk_revoked k = None
    \<and> dev \<in> set (devices (au w)) \<and> de_key dev = bl_device req \<and> \<not> de_revoked dev \<and> bk_device k = de_id dev
    \<and> base64_decode L (signature_value req) = Some sig
    \<and> verify_signature L (bk_public k) (cd_challenge (the (decode_challenge c))) sig
    \<and> usr \<in> set (users (au w)) \<and> ur_id usr = de_user dev
    \<and> sessions (au w') = sessions (au w) @ [x] \<and> se_user x = ur_id usr \<and> se_device x = de_id dev"
proof -
  obtain c s k dev usr sig w1 w2 where run: "consume_challenge R (ae_now E) (bl_challenge req) (kv w) = (Reply (Some c), s)"
    "cd_device c = bl_device req" "find_active_key (bl_key req) (au w) = Some k" "find_active_device (bl_device req) (au w) = Some dev"
    "bk_device k = de_id dev" "base64_decode L (signature_value req) = Some sig" "verify_signature L (bk_public k) (cd_challenge c) sig"
    "find_user_by_device (bl_device req) (au w) = Some usr" "refuse_locked R E True (ur_id usr) w1 = (Inr (), w2)" "au w1 = au w"
    "start_session C L R E usr dev (de_key dev) (bk_type k) ip w2 = (Inr resp, w')"
    by (rule biometric_parts [OF assms(2)])
  obtain j where j: "live (kv w) (ae_now E) (challenge_key (bl_challenge req)) = Some (RJson j)" "decode_challenge j = Some c"
    using redis_data.consumed_challenge [OF assms(1) run(1)] by blast
  have k: "k \<in> set (biometric_keys (au w)) \<and> bk_key k = bl_key req \<and> bk_active k \<and> bk_revoked k = None"
    using find_Some_D [OF run(3) [unfolded find_active_key_def]] by simp
  have dev: "dev \<in> set (devices (au w)) \<and> de_key dev = bl_device req \<and> \<not> de_revoked dev"
    using find_Some_D [OF run(4) [unfolded find_active_device_def]] by simp
  have "find (\<lambda>u. ur_id u = de_user dev \<and> \<not> ur_deleted u) (users (au w)) = Some usr"
    using run(4,8) by (simp add: find_active_device_def find_user_by_device_def)
  then have usr: "usr \<in> set (users (au w)) \<and> ur_id usr = de_user dev" by (auto dest: find_Some_D)
  obtain x where "sessions (au w') = sessions (au w) @ [x] \<and> se_user x = ur_id usr \<and> se_device x = de_id dev"
    using start_session_opens [OF run(11)] refuse_locked_au [OF run(9)] run(10) by auto
  then show ?thesis using j k dev usr run(2,5-7) by (intro exI conjI; (simp; fail)?) auto
qed

abbreviation sample_biometric :: "store auth_world \<Rightarrow> (app_err + login_response) \<times> store auth_world" where
  "sample_biometric \<equiv> login_by_biometric sample_auth_cfg sample_auth_lib store_ok (sample_auth_env 1000 ''s3'' ''r3'')
     \<lparr>bl_device = ''phone'', bl_key = ''k1'', bl_challenge = ''ch'', bl_signature = ''Sc'', bl_signed = ''''\<rparr> ''''"

abbreviation sample_challenged :: "store auth_world" where
  "sample_challenged \<equiv> snd (create_challenge sample_auth_lib store_ok (sample_auth_env 0 ''ch'' '''') ''phone'' sample_auth_world)"

theorem biometric_login_proves_key_witness:
  "\<exists>c k. store_live (kv sample_challenged) 1000 (challenge_key ''ch'') = Some (RJson c)
     \<and> k \<in> set (biometric_keys (au sample_challenged)) \<and> bk_key k = ''k1'' \<and> bk_active k
     \<and> verify_signature sample_auth_lib (bk_public k) (cd_challenge (the (decode_challenge c))) ''Sc''"
proof -
  have challenged: "sample_challenged = sample_auth_world\<lparr>kv := empty_store\<lparr>str_table :=
      [''bio_challenge:ch'' \<mapsto> (RJson (encode_challenge \<lparr>cd_challenge = ''c'', cd_device = ''phone''\<rparr>), Some 60000)]\<rparr>\<rparr>"
    by (simp add: create_challenge_def find_active_device_def store_challenge_def challenge_key_def challenge_ttl_def on_strs_def
        handler_defs sample_defs mem_redis_simps seconds_def)
  have "succeeds (sample_biometric sample_challenged)" unfolding challenged
    by (simp add: succeeds_def login_by_biometric_def signature_value_def consume_challenge_def challenge_key_def find_active_key_def
        find_active_device_def verify_signature_def find_user_by_device_def refuse_locked_def is_locked_def store_ttl_def
        lock_account_key_def start_session_def create_session_def on_strs_def handler_defs sample_defs mem_redis_simps
        split: prod.splits)
  then obtain resp where run: "sample_biometric sample_challenged = (Inr resp, snd (sample_biometric sample_challenged))"
    by (rule succeedsE)
  have sig: "base64_decode sample_auth_lib sig = Some sig" for sig by (simp add: sample_auth_lib_def lib.defs auth_lib.defs)
  show ?thesis
    using biometric_login_proves_key [OF store_ok_data run] unfolding signature_value_def sig
    by (elim exE conjE, intro exI conjI) simp_all
qed

subsection \<open>The tables\<close>

text \<open>C29: whatever the sequence of authentication requests, faults included, session ids and refresh token hashes stay unique and a user
  keeps at most one active biometric key on a device.
\<close>

theorem tables_stay_well_formed:
  assumes "(auth_request C L R F)\<^sup>*\<^sup>* (t, w) (t', w')" "tables_ok (au w)"
  shows "tables_ok (au w')"
  using auth_requests_wf [OF assms(1)] assms(2) by (simp add: well_formed_def)

theorem tables_stay_well_formed_witness:
  "tables_ok (au (snd (sample_refresh 1000 ''r3'' sample_auth_world)))"
  by (rule tables_stay_well_formed [OF sample_refreshes [where t = 0 and F = UNIV]])
    (simp_all add: sample_tables_ok sample_auth_world_def)

end
