(* ===== verification/PIN_Properties.thy ===== *)
theory PIN_Properties
  imports Auth_Samples
begin

text \<open>
  The properties of the PIN: an encrypted PIN is not accepted twice, the limits on attempts, the lock after wrong PINs, and of
  the keys that replace it.
\<close>

subsection \<open>Handlers that must fail\<close>

definition fails :: "('w \<Rightarrow> bool) \<Rightarrow> ('w, 'a) svc \<Rightarrow> bool" where
  "fails P m \<longleftrightarrow> (\<forall>w. P w \<longrightarrow> (\<exists>e w'. m w = (Inl e, w') \<and> P w'))"

lemma failsD: "fails P m \<Longrightarrow> P w \<Longrightarrow> \<exists>e w'. m w = (Inl e, w') \<and> P w'"
  by (simp add: fails_def)

lemma failsI: "keeps P m \<Longrightarrow> (\<And>w. P w \<Longrightarrow> \<exists>e. fst (m w) = Inl e) \<Longrightarrow> fails P m"
  unfolding fails_def by (metis keepsD prod.collapse)

lemma fails_throw: "fails P (svc_throw e)"
  by (simp add: fails_def svc_throw_def)

lemma fails_later:
  assumes "keeps P m" "\<And>x. fails P (f x)"
  shows "fails P (svc_bind m f)"
  unfolding fails_def
proof (intro allI impI)
  fix w assume "P w"
  obtain q w1 where q: "m w = (q, w1)" by force
  then have "P w1" using keepsD [OF assms(1) \<open>P w\<close>] by simp
  then show "\<exists>e w'. svc_bind m f w = (Inl e, w') \<and> P w'"
    using q failsD [OF assms(2)] by (cases q) (simp_all add: svc_bind_def)
qed

lemma fails_seq_later: "keeps P m \<Longrightarrow> fails P n \<Longrightarrow> fails P (svc_seq m n)"
  unfolding svc_seq_def by (rule fails_later)

lemma fails_here: "fails P m \<Longrightarrow> fails P (svc_bind m f)"
  unfolding fails_def svc_bind_def by fastforce

lemma fails_seq_here: "fails P m \<Longrightarrow> fails P (svc_seq m n)"
  unfolding svc_seq_def by (rule fails_here)

text \<open>A query whose answer the predicate fixes.\<close>

lemma fails_read:
  assumes "\<And>w. P w \<Longrightarrow> f (au w) = x" "fails P (n x)"
  shows "fails P (svc_bind (au_read E q f) n)"
  using assms unfolding fails_def svc_bind_def au_read_def by (auto split: if_splits)

lemma fails_option: "(\<And>x. v = Some x \<Longrightarrow> fails P (f x)) \<Longrightarrow> fails P (svc_bind (svc_option e v) f)"
  by (cases v) (auto simp: fails_def svc_defs)

subsection \<open>The timestamp\<close>



text \<open>A payload stamped more than 292 years ahead is in the window at all times: the least duration is its own negation.\<close>

lemma pin_far_ahead_is_current:
  assumes "int t < 2 ^ 43" "pl_ts p = 2 ^ 62"
  shows "pin_timestamp_ok t p"
proof -
  have "sint (2 ^ 62 + word_of_int year_one :: 64 word) = 2 ^ 62 + year_one" by (simp add: year_one_def)
  then have "time_since t (2 ^ 62) = - (2 ^ 63)" using assms(1) by (simp add: time_since_def)
  then show ?thesis by (simp add: pin_timestamp_ok_def assms(2) negate_duration_def)
qed

subsection \<open>Nonces\<close>

context redis_data
begin

lemma burnt_pin_refused:
  assumes "decrypt_pin L enc = Some p"
    "pin_timestamp_ok (ae_now E) p \<Longrightarrow> live (kv w0) (ae_now E) (nonce_key (pl_nonce p)) \<noteq> None"
  shows "fails (auth_evolves live (ae_now E) F w0) (open_pin L R E e enc)"
proof (rule failsI [OF keeps_open_pin])
  fix w assume ev: "auth_evolves live (ae_now E) F w0 w"
  have "live (kv w) (ae_now E) (nonce_key (pl_nonce p)) \<noteq> None" if "pin_timestamp_ok (ae_now E) p"
    using ev assms(2) [OF that] by (simp add: auth_evolves_def nonces_stay_def)
  then have "\<not> b" if "check_and_mark R (ae_now E) (pl_nonce p) (kv w) = (Reply b, s)" "pin_timestamp_ok (ae_now E) p" for b s
    using setnx_reply [OF that(1) [unfolded check_and_mark_def]] that(2) by simp
  then show "\<exists>e'. fst (open_pin L R E e enc w) = Inl e'"
    using assms(1) by (auto simp: open_pin_def svc_defs split: prod.splits reply.splits)
qed

lemma burnt_pin_everywhere:
  assumes "decrypt_pin L enc = Some p"
    "pin_timestamp_ok (ae_now E) p \<Longrightarrow> live (kv w) (ae_now E) (nonce_key (pl_nonce p)) \<noteq> None"
  shows "\<exists>e. fst (verify_pin L R E u d enc w) = Inl e"
    "\<exists>e. fst (login_by_pin C L R E (req\<lparr>lq_pin := enc\<rparr>) ip w) = Inl e"
    "\<exists>e. fst (change_pin C L R E u (creq\<lparr>cq_old := enc\<rparr>) w) = Inl e"
    "\<exists>e. fst (change_access_code C L R E u (creq\<lparr>cq_old := enc\<rparr>) w) = Inl e"
proof -
  note refused = burnt_pin_refused [OF assms]
  have end': "\<exists>e. fst (m w) = Inl e" if "fails (auth_evolves live (ae_now E) UNIV w) m" for m :: "('s, 'x) auth"
    using failsD [OF that auth_evolves_refl] by fastforce
  show "\<exists>e. fst (verify_pin L R E u d enc w) = Inl e" unfolding verify_pin_def
    by (rule end') (rule fails_here [OF refused] fails_later fails_seq_later keeps_intros)+
  have pins: "lq_pin (req\<lparr>lq_pin := enc\<rparr>) = enc" "cq_old (creq\<lparr>cq_old := enc\<rparr>) = enc" by simp_all
  show "\<exists>e. fst (login_by_pin C L R E (req\<lparr>lq_pin := enc\<rparr>) ip w) = Inl e" unfolding login_by_pin_def pins
    by (rule end') (rule fails_here [OF refused] fails_later fails_seq_later keeps_intros)+
  have "fails (auth_evolves live (ae_now E) UNIV w) (change_credential cr q up C L R E u (creq\<lparr>cq_old := enc\<rparr>))" for cr q up
    unfolding change_credential_def pins
    by (rule fails_here [OF refused] fails_later fails_seq_later keeps_intros)+
  then show "\<exists>e. fst (change_pin C L R E u (creq\<lparr>cq_old := enc\<rparr>) w) = Inl e"
    "\<exists>e. fst (change_access_code C L R E u (creq\<lparr>cq_old := enc\<rparr>) w) = Inl e"
    unfolding change_pin_def change_access_code_def by (simp_all only: end')
qed

text \<open>What accepting a PIN leaves in Redis.\<close>

lemma verify_pin_burns:
  assumes "verify_pin L R E u d enc w = (Inr x, w1)"
  obtains p where "decrypt_pin L enc = Some p" "pin_timestamp_ok (ae_now E) p"
    "\<And>t. ae_now E \<le> t \<Longrightarrow> t < ae_now E + nonce_ttl \<Longrightarrow> live (kv w1) t (nonce_key (pl_nonce p)) \<noteq> None"
proof -
  from assms obtain p s s1 where p: "decrypt_pin L enc = Some p" "pin_timestamp_ok (ae_now E) p"
    and burn: "check_and_mark R (ae_now E) (pl_nonce p) s = (Reply True, s1)" and w1: "kv w1 = s1"
    unfolding verify_pin_def open_pin_def handle_failed_pin_def by (auto split: if_splits option.splits)
  have "live (kv w1) t (nonce_key (pl_nonce p)) \<noteq> None" if "ae_now E \<le> t" "t < ae_now E + nonce_ttl" for t
    using setnx_new [OF burn [unfolded check_and_mark_def] that(1)] that w1 by (simp add: shows_put_def)
  then show thesis using p that by blast
qed

end


abbreviation sample_pin :: "time \<Rightarrow> string \<Rightarrow> store auth_world \<Rightarrow> (app_err + unit) \<times> store auth_world" where
  "sample_pin t enc \<equiv> verify_pin sample_auth_lib store_ok (sample_auth_env t ''m'' '''') ''ann'' ''phone'' enc"



text \<open>the window has two gaps: a PIN stamped 60 seconds ahead is accepted a second time after exactly 120 seconds, when its
  nonce has just expired, and a PIN stamped more than 292 years ahead counts as current at all times, in 1970 and in 2100, since
  the negation of the least duration is itself.\<close>

theorem pin_window_gaps:
  "succeeds (sample_pin 0 ''1n'' sample_auth_world)
   \<and> succeeds (sample_pin 120000 ''1n'' (snd (sample_pin 0 ''1n'' sample_auth_world)))
   \<and> pin_timestamp_ok 0 \<lparr>pl_pin = p, pl_nonce = n, pl_ts = 2 ^ 62\<rparr>
   \<and> pin_timestamp_ok 4102444800000 \<lparr>pl_pin = p, pl_nonce = n, pl_ts = 2 ^ 62\<rparr>"
proof -
  have "succeeds (sample_pin 0 ''1n'' sample_auth_world)" by code_simp
  moreover have "succeeds (sample_pin 120000 ''1n'' (snd (sample_pin 0 ''1n'' sample_auth_world)))" by code_simp
  ultimately show ?thesis by (simp add: pin_far_ahead_is_current)
qed

subsection \<open>Limits on attempts\<close>



subsection \<open>The lock after wrong PINs\<close>

context redis_data
begin

lemma lock_account_locks:
  assumes "lock_account R t u s = (Reply til, s')"
  shows "t + lockout_duration \<le> til" "t \<le> t' \<Longrightarrow> t' < til \<longleftrightarrow> live s' t' (lock_account_key u) \<noteq> None"
proof -
  obtain s1 d where set: "api_set (strs R) t (lock_account_key u) (RNum (int (til div 1000))) d s1 = (Reply (), s')"
    and til: "til = t + d" "lockout_duration \<le> d"
    using assms unfolding lock_account_def Let_def
    by (auto split: prod.splits reply.splits if_splits simp: lockout_escalated_def lockout_duration_def hours_def minutes_def seconds_def)
  show "t + lockout_duration \<le> til" using til by simp
  show "t' < til \<longleftrightarrow> live s' t' (lock_account_key u) \<noteq> None" if "t \<le> t'"
    using set_reply [OF set that] til by (auto simp: shows_put_def)
qed

text \<open>While a lock with at least a second left lives, the reply of TTL is positive, so a handler that asks is refused.\<close>

definition locked :: "time \<Rightarrow> uuid \<Rightarrow> auth_db \<Rightarrow> 's auth_world \<Rightarrow> bool" where
  "locked t u a w \<longleftrightarrow> au w = a \<and> live (kv w) (t + 1000) (lock_account_key u) \<noteq> None
     \<and> (\<exists>t' \<ge> t. live (kv w) t' (lock_account_key u) = None)"

lemma keeps_locked:
  assumes "\<And>s r s' t'. f s = (r, s') \<Longrightarrow> t \<le> t' \<Longrightarrow> live s' t' (lock_account_key u) = live s t' (lock_account_key u)"
  shows "keeps (locked t u a) (on_kv f)"
proof -
  have "live s' (t + 1000) (lock_account_key u) = live s (t + 1000) (lock_account_key u)"
    "(\<exists>t' \<ge> t. live s' t' (lock_account_key u) = None) = (\<exists>t' \<ge> t. live s t' (lock_account_key u) = None)"
    if "f s = (r, s')" for s r s'
    using assms [OF that] by auto
  then show ?thesis by (auto simp: keeps_def locked_def on_kv_def split: prod.splits reply.splits)
qed

lemma refuse_locked_fails: "fails (locked (ae_now E) u a) (refuse_locked R E b u)"
proof (rule failsI)
  have asked: "keeps (locked (ae_now E) u a) (on_kv (is_locked R (ae_now E) u))"
    by (rule keeps_locked) (auto simp: is_locked_def split: prod.splits reply.splits dest: ttl_frame)
  show "keeps (locked (ae_now E) u a) (refuse_locked R E b u)"
    unfolding refuse_locked_def by (rule asked keeps_intros)+
  fix w assume "locked (ae_now E) u a w"
  then have "0 < n" if "api_ttl R (ae_now E) (lock_account_key u) (kv w) = (Reply n, s)" for n s
    using ttl_reply [OF that] by (simp add: locked_def)
  then show "\<exists>e. fst (refuse_locked R E b u w) = Inl e"
    by (auto simp: refuse_locked_def is_locked_def svc_defs split: prod.splits reply.splits option.splits)
qed

lemma keeps_locked_limits:
  "keeps (locked (ae_now E) u a) (check_rate_limits R E d ip)" "keeps (locked (ae_now E) u a) (pin_rate R E v)"
proof -
  have allow: "live s' t' k' = live s t' k'" if "rate_allow R t m k l win s = (r, s')" "k \<noteq> k'" "t \<le> t'" for t m k l win s r s' t' k'
  proof -
    have "s' = snd (pipe_then (api_zrem_upto R t k (int t - int win)) (pipe_then (api_zcard R t k)
      (pipe_then (api_zadd R t k (int t) m) (api_expire R t k (win + seconds 1)))) s)"
      using that(1) by (auto simp: rate_allow_def split: prod.splits reply.splits)
    then show ?thesis
      using zrem_frame [OF prod.collapse [symmetric] that(3)] zcard_frame [OF prod.collapse [symmetric] that(3)]
        zadd_frame [OF prod.collapse [symmetric] that(3)] expire_frame [OF prod.collapse [symmetric] that(2) [symmetric] that(3)]
      by (simp add: pipe_then_state)
  qed
  show "keeps (locked (ae_now E) u a) (check_rate_limits R E d ip)" "keeps (locked (ae_now E) u a) (pin_rate R E v)"
    unfolding check_rate_limits_def limited_by_def pin_rate_def check_login_device_def check_login_ip_def check_pin_verify_def
    by (rule keeps_intros keeps_locked | erule allow | simp add: key_defs)+
qed

lemma keeps_validate_any: "keeps P (validate_pin_key_id C i)"
  unfolding validate_pin_key_id_def by (rule keeps_intros)+

lemma locked_refuses:
  assumes "find_user_by_device d a = Some usr"
  shows "fails (locked (ae_now E) (ur_id usr) a) (verify_pin L R E v d enc)"
    "fails (locked (ae_now E) (ur_id usr) a) (login_by_pin C L R E (req\<lparr>lq_device := d\<rparr>) ip)"
proof -
  have found: "find_user_by_device d (au w) = Some usr" if "locked (ae_now E) (ur_id usr) a w" for w
    using that assms by (simp add: locked_def)
  have "fails (locked (ae_now E) (ur_id usr) a) (svc_bind (svc_option e (Some usr)) f)" if "fails (locked (ae_now E) (ur_id usr) a) (f usr)"
    for e and f :: "user \<Rightarrow> ('s, 'x) auth"
    using that by (intro fails_option) simp
  note steps = fails_read [where P = "locked (ae_now E) (ur_id usr) a" and f = "find_user_by_device d" and x = "Some usr", OF found] this fails_seq_here [OF refuse_locked_fails] fails_seq_later keeps_validate_any
    keeps_intros keeps_locked_limits
  show "fails (locked (ae_now E) (ur_id usr) a) (verify_pin L R E v d enc)"
    unfolding verify_pin_def by (rule steps, assumption?)+
  have d: "lq_device (req\<lparr>lq_device := d\<rparr>) = d" by simp
  show "fails (locked (ae_now E) (ur_id usr) a) (login_by_pin C L R E (req\<lparr>lq_device := d\<rparr>) ip)"
    unfolding login_by_pin_def d by (rule steps, assumption?)+
qed

lemma failed_pin_locks:
  assumes "handle_failed_pin R E usr w = (Inl (AccountLockedUntil til), w1)" "ae_now E \<le> t" "t + 1000 < til"
  shows "ae_now E + lockout_duration \<le> til" "locked t (ur_id usr) (au w1) w1"
proof -
  obtain s where lock: "lock_account R (ae_now E) (ur_id usr) s = (Reply til, kv w1)"
    using assms(1) by (auto simp: handle_failed_pin_def svc_defs au_write_def try_kv_def best_effort_au_def
        split: if_splits option.splits prod.splits reply.splits)
  show "ae_now E + lockout_duration \<le> til" by (rule lock_account_locks(1) [OF lock])
  have "ae_now E \<le> t + 1000" "ae_now E \<le> til" using assms(2,3) by simp_all
  then show "locked t (ur_id usr) (au w1) w1"
    using lock_account_locks(2) [OF lock, of "t + 1000"] lock_account_locks(2) [OF lock, of til] assms(2,3)
    by (auto simp: locked_def intro!: exI [of _ til])
qed

lemma account_locked_out:
  assumes "handle_failed_pin R E usr w = (Inl (AccountLockedUntil til), w1)"
    "find_user_by_device d (au w1) = Some usr'" "ur_id usr' = ur_id usr" "ae_now E \<le> ae_now E'" "ae_now E' + 1000 < til"
  shows "ae_now E + minutes 30 \<le> til
    \<and> (\<exists>e w2. login_by_pin C L R E' (req\<lparr>lq_device := d\<rparr>) ip w1 = (Inl e, w2) \<and> au w2 = au w1)
    \<and> (\<exists>e w2. verify_pin L R E' v d enc w1 = (Inl e, w2) \<and> au w2 = au w1)"
proof -
  have l: "locked (ae_now E') (ur_id usr') (au w1) w1" using failed_pin_locks(2) [OF assms(1,4,5)] assms(3) by simp
  have "au w2 = au w1" if "locked (ae_now E') (ur_id usr') (au w1) w2" for w2 using that by (simp add: locked_def)
  then show ?thesis
    using failed_pin_locks(1) [OF assms(1,4,5)] failsD [OF locked_refuses(1) [OF assms(2)] l]
      failsD [OF locked_refuses(2) [OF assms(2)] l] unfolding lockout_duration_def by blast
qed

end

text \<open>the wrong PIN that exhausts the attempts locks the account for at least half an hour, and until a second before the lock
  ends a login from the user's device and a PIN check are refused, whatever PIN they carry, with no change to the database:
  no attempt is counted and no PIN is compared.
\<close>

theorem locked_account_refuses:
  assumes "redis_data R live" "handle_failed_pin R E usr w = (Inl (AccountLockedUntil til), w1)"
    "find_user_by_device d (au w1) = Some usr'" "ur_id usr' = ur_id usr" "ae_now E \<le> ae_now E'" "ae_now E' + 1000 < til"
  shows "ae_now E + minutes 30 \<le> til
    \<and> (\<exists>e w2. login_by_pin C L R E' (req\<lparr>lq_device := d\<rparr>) ip w1 = (Inl e, w2) \<and> au w2 = au w1)
    \<and> (\<exists>e w2. verify_pin L R E' v d enc w1 = (Inl e, w2) \<and> au w2 = au w1)"
  by (rule redis_data.account_locked_out [OF assms])

text \<open>Two wrong PINs have been counted.\<close>

definition sample_tries :: "store auth_world" where
  "sample_tries = sample_auth_world\<lparr>au := sample_auth_db\<lparr>users := [sample_user\<lparr>ur_failed := 2\<rparr>]\<rparr>\<rparr>"

abbreviation sample_third :: "(app_err + unit) \<times> store auth_world" where
  "sample_third \<equiv> handle_failed_pin store_ok (sample_auth_env 0 ''m'' '''') sample_user sample_tries"

theorem locked_account_refuses_witness:
  "(\<exists>e w2. verify_pin sample_auth_lib store_ok (sample_auth_env 60000 ''n'' '''') ''ann'' ''phone'' ''1n'' (snd sample_third) = (Inl e, w2)
     \<and> au w2 = au (snd sample_third))"
proof -
  have third: "sample_third = (Inl (AccountLockedUntil 1800000), snd sample_third)"
    by (rule prod_eqI) (code_simp, simp)
  have "map_option ur_id (find_user_by_device ''phone'' (au (snd sample_third))) = Some ''ann''" by code_simp
  then obtain usr where "find_user_by_device ''phone'' (au (snd sample_third)) = Some usr" "ur_id usr = ur_id sample_user"
    by (auto simp: sample_user_def)
  then show ?thesis
    using locked_account_refuses [OF store_ok_data third, of "''phone''" usr "sample_auth_env 60000 ''n'' ''''" undefined
        sample_auth_lib undefined undefined "''ann''" "''1n''"] by simp
qed

end
