(* ===== verification/Staff_Requests.thy ===== *)
theory Staff_Requests
  imports Statements EWallet_Service EMVCo
begin

text \<open>
  What the services behind the internal API share: the identity of the agent a request carries, parameters as text, a step that is
  a pure function with an error, and the rules by which their handlers keep an invariant.
\<close>

text \<open>\<open>strings.ToUpper\<close> on ASCII.\<close>

definition to_upper :: "string \<Rightarrow> string" where
  "to_upper s = map upper_char s"

text \<open>\<open>strconv.Atoi\<close> with a 64-bit \<open>int\<close>.\<close>

definition digit_value :: "char \<Rightarrow> nat option" where
  "digit_value c = (let n = of_char c :: nat in if 48 \<le> n \<and> n \<le> 57 then Some (n - 48) else None)"

fun atoi_digits :: "nat \<Rightarrow> string \<Rightarrow> nat option" where
  "atoi_digits n [] = Some n"
| "atoi_digits n (c # cs) = (case digit_value c of None \<Rightarrow> None | Some x \<Rightarrow> atoi_digits (10 * n + x) cs)"

definition atoi :: "string \<Rightarrow> int option" where
  "atoi s = (let neg = (s \<noteq> [] \<and> hd s = CHR ''-'');
       ds = (if s \<noteq> [] \<and> (hd s = CHR ''-'' \<or> hd s = CHR ''+'') then tl s else s) in
     if ds = [] then None else
     (case atoi_digits 0 ds of None \<Rightarrow> None
      | Some n \<Rightarrow> (let v = (if neg then - int n else int n) in if - (2 ^ 63) \<le> v \<and> v < 2 ^ 63 then Some v else None)))"

text \<open>The agent is the employee id the authentication of the route left in the context, empty when there is none.\<close>

abbreviation Forbidden :: app_err where "Forbidden \<equiv> Coded 403 ''FORBIDDEN'' []"

definition need_agent :: "string \<Rightarrow> ('w, unit) svc" where
  "need_agent agent = fail_if (agent = '''') Forbidden"

definition svc_sum :: "app_err + 'a \<Rightarrow> ('w, 'a) svc" where
  "svc_sum x = (case x of Inl e \<Rightarrow> svc_throw e | Inr y \<Rightarrow> svc_return y)"

lemma svc_sum_simps [simp]:
  "svc_sum x d = (Inr y, d') \<longleftrightarrow> x = Inr y \<and> d' = d"
  "svc_sum x d = (Inl e, d') \<longleftrightarrow> x = Inl e \<and> d' = d"
  by (auto simp: svc_sum_def svc_return_def svc_throw_def split: sum.splits)

text \<open>\<open>UPDATE \<dots> SET f WHERE P\<close>\<close>

definition update_where :: "('r \<Rightarrow> bool) \<Rightarrow> ('r \<Rightarrow> 'r) \<Rightarrow> 'r list \<Rightarrow> 'r list" where
  "update_where P f rs = map (\<lambda>r. if P r then f r else r) rs"

lemma set_update_where: "r \<in> set (update_where P f rs) \<longleftrightarrow> (\<exists>x \<in> set rs. r = (if P x then f x else x))"
  by (auto simp: update_where_def)

lemma ball_update_where: "(\<forall>r \<in> set (update_where P f rs). Q r) \<longleftrightarrow> (\<forall>x \<in> set rs. if P x then Q (f x) else Q x)"
  by (auto simp: update_where_def)

lemma map_update_where: "(\<And>r. k (f r) = k r) \<Longrightarrow> map k (update_where P f rs) = map k rs"
  by (simp add: update_where_def)

lemma image_update_where: "(\<And>r. k (f r) = k r) \<Longrightarrow> k ` set (update_where P f rs) = k ` set rs"
  by (metis map_update_where set_map)

lemma find_update_where:
  "(\<And>r. Q (if P r then f r else r) = Q r) \<Longrightarrow> find Q (update_where P f rs) = map_option (\<lambda>r. if P r then f r else r) (find Q rs)"
  unfolding update_where_def by (induction rs) auto

text \<open>A partial unique index.\<close>

lemma distinct_where:
  "distinct (map k rs) \<Longrightarrow> distinct (map f (filter P rs)) \<longleftrightarrow>
     (\<forall>x \<in> set rs. \<forall>y \<in> set rs. P x \<and> P y \<and> f x = f y \<longrightarrow> k x = k y)"
  by (auto simp: distinct_map inj_on_def)

lemma list_ex_key: "list_ex (\<lambda>r. k r = v) rs \<longleftrightarrow> v \<in> k ` set rs"
  by (auto simp: list_ex_iff)

lemma distinct_where_update:
  assumes key: "distinct (map k rs)" "\<And>r. k (f r) = k r" and old: "distinct (map g (filter P rs))"
    and new: "\<And>x y. x \<in> set rs \<Longrightarrow> y \<in> set rs \<Longrightarrow> Q x \<Longrightarrow> P (f x) \<Longrightarrow>
      (if Q y then P (f y) \<and> g (f y) = g (f x) else P y \<and> g y = g (f x)) \<Longrightarrow> k x = k y"
  shows "distinct (map g (filter P (update_where Q f rs)))"
proof -
  have ids: "distinct (map k (update_where Q f rs))" using key by (simp add: map_update_where)
  have old': "k x = k y" if "x \<in> set rs" "y \<in> set rs" "P x" "P y" "g x = g y" for x y
    using old that unfolding distinct_where [OF key(1)] by blast
  have "k x = k y" if xy: "x \<in> set (update_where Q f rs)" "y \<in> set (update_where Q f rs)" and g: "P x" "P y" "g x = g y" for x y
  proof -
    obtain x0 y0 where x0: "x0 \<in> set rs" "x = (if Q x0 then f x0 else x0)" and y0: "y0 \<in> set rs" "y = (if Q y0 then f y0 else y0)"
      using xy unfolding set_update_where by blast
    have k: "k x = k x0" "k y = k y0" using x0 y0 key(2) by simp_all
    show ?thesis
    proof (cases "Q x0")
      case True
      then show ?thesis using new [of x0 y0] x0 y0 g k by (cases "Q y0") auto
    next
      case False
      then show ?thesis using new [of y0 x0] old' [of x0 y0] x0 y0 g k by (cases "Q y0") auto
    qed
  qed
  then show ?thesis unfolding distinct_where [OF ids] by blast
qed

subsection \<open>Invariants\<close>

lemma keeps_snd: "keeps P m \<Longrightarrow> P w \<Longrightarrow> P (snd (m w))"
  unfolding keeps_def by (metis surj_pair snd_conv)

lemma keeps_svc_sum [keeps_intros]: "keeps P (svc_sum x)"
  by (auto simp: keeps_def svc_sum_def svc_return_def svc_throw_def split: sum.splits)

lemma keeps_prod [keeps_intros]: "(\<And>a b. keeps P (f a b)) \<Longrightarrow> keeps P (case x of (a, b) \<Rightarrow> f a b)"
  by (simp add: split_beta)

lemma keeps_let [keeps_intros]: "(\<And>x. keeps P (f x)) \<Longrightarrow> keeps P (let x = e in f x)"
  by (simp add: Let_def)

lemma keeps_case_opt [keeps_intros]:
  "keeps P f \<Longrightarrow> (\<And>x. keeps P (g x)) \<Longrightarrow> keeps P (case x of None \<Rightarrow> f | Some y \<Rightarrow> g y)"
  by (cases x) simp_all

lemma find_map_rows: "(\<And>x. P (g x) = P x) \<Longrightarrow> find P (map g xs) = map_option g (find P xs)"
  by (induction xs) auto

end
