(* ===== verification/Tickets.thy ===== *)
theory Tickets
  imports Staff_Requests
begin

text \<open>
  Service tickets: \<open>domain/ticket/entity.go\<close> and \<open>service.go\<close>, the queries of \<open>repository/postgres/ticket_repo.go\<close> with the
  constraints of \<open>migrations/000030\<close>, and the handlers of \<open>handler/ticket_handler.go\<close> from the decoded body on. Every statement
  commits on its own; a failed one changes nothing but the sequence. Text is ASCII, so a byte is a character; a NULL text column
  reads as the empty string, as COALESCE has it.
\<close>

subsection \<open>Entities\<close>

record ticket_note =
  nt_id :: uuid
  nt_author :: string
  nt_body :: string
  nt_created :: time

record ticket =
  tk_id :: uuid
  tk_number :: string
  tk_user :: "uuid option"
  tk_session :: string
  tk_category :: string
  tk_priority :: string
  tk_status :: string
  tk_subject :: string
  tk_desc :: string
  tk_creator :: string
  tk_assignee :: string
  tk_resolved :: "time option"
  tk_closed :: "time option"
  tk_created :: time
  tk_updated :: time

abbreviation StatusOpen :: string where "StatusOpen \<equiv> ''OPEN''"

abbreviation StatusInProgress :: string where "StatusInProgress \<equiv> ''IN_PROGRESS''"

abbreviation StatusResolved :: string where "StatusResolved \<equiv> ''RESOLVED''"

abbreviation StatusClosed :: string where "StatusClosed \<equiv> ''CLOSED''"

definition valid_status :: "string \<Rightarrow> bool" where
  "valid_status s \<longleftrightarrow> s \<in> {StatusOpen, StatusInProgress, StatusResolved, StatusClosed}"

definition valid_priority :: "string \<Rightarrow> bool" where
  "valid_priority p \<longleftrightarrow> p \<in> {''LOW'', ''NORMAL'', ''HIGH'', ''URGENT''}"

definition valid_category :: "string \<Rightarrow> bool" where
  "valid_category c \<longleftrightarrow> c \<in> {''KARTU'', ''TRANSAKSI'', ''AKUN'', ''BUKA_REKENING'', ''APLIKASI'', ''LAINNYA''}"

definition valid_transition :: "string \<Rightarrow> string \<Rightarrow> bool" where
  "valid_transition from to' =
     (if \<not> valid_status from \<or> \<not> valid_status to' then False
      else if from = StatusClosed \<and> to' \<noteq> StatusClosed then False
      else True)"

record ticket_request =
  tq_user :: string
  tq_session :: string
  tq_category :: string
  tq_priority :: string
  tq_subject :: string
  tq_desc :: string

record ticket_update =
  tu_status :: "string option"
  tu_priority :: "string option"
  tu_category :: "string option"
  tu_assignee :: "string option"

record ticket_filter =
  lf_status :: string
  lf_category :: string
  lf_assignee :: string
  lf_user :: "uuid option"
  lf_limit :: int
  lf_cursor :: "(time \<times> uuid) option"

subsection \<open>Tables\<close>

text \<open>The tickets, the notes with the ticket they belong to, the last number drawn, and the ids in \<open>users\<close>.\<close>

record ticket_db =
  tickets :: "ticket list"
  ticket_notes :: "(uuid \<times> ticket_note) list"
  ticket_seq :: nat
  ticket_users :: "uuid list"

datatype ticket_query = TInsert | TFind | TList | TUpdate | TInsertNote | TTouch | TListNotes

record ticket_env =
  te_now :: time
  te_id :: uuid
  te_fault :: "ticket_query \<Rightarrow> bool"

type_synonym 'a desk = "(ticket_db, 'a) svc"

definition tk_read :: "ticket_env \<Rightarrow> ticket_query \<Rightarrow> (ticket_db \<Rightarrow> 'a) \<Rightarrow> 'a desk" where
  "tk_read E q f d = (if te_fault E q then (Inl InternalError, d) else (Inr (f d), d))"

definition tk_write :: "ticket_env \<Rightarrow> ticket_query \<Rightarrow> (ticket_db \<Rightarrow> 'a option \<times> ticket_db) \<Rightarrow> 'a desk" where
  "tk_write E q f d = (if te_fault E q then (Inl InternalError, d) else
     (case f d of (None, d') \<Rightarrow> (Inl InternalError, d') | (Some x, d') \<Rightarrow> (Inr x, d')))"

text \<open>\<open>CHECK\<close> constraints, enumerations and column widths.\<close>

definition not_blank :: "string \<Rightarrow> bool" where
  "not_blank s \<longleftrightarrow> list_ex (\<lambda>c. c \<noteq> CHR '' '') s"

definition resolved_consistent :: "ticket \<Rightarrow> bool" where
  "resolved_consistent t \<longleftrightarrow> (tk_status t \<in> {StatusResolved, StatusClosed}) = (tk_resolved t \<noteq> None)"

definition closed_consistent :: "ticket \<Rightarrow> bool" where
  "closed_consistent t \<longleftrightarrow> (tk_status t = StatusClosed) = (tk_closed t \<noteq> None)"

definition ticket_check :: "ticket \<Rightarrow> bool" where
  "ticket_check t \<longleftrightarrow> valid_status (tk_status t) \<and> valid_priority (tk_priority t) \<and> valid_category (tk_category t)
     \<and> not_blank (tk_subject t) \<and> List.length (tk_subject t) \<le> 200
     \<and> List.length (tk_session t) \<le> 32 \<and> List.length (tk_creator t) \<le> 32 \<and> List.length (tk_assignee t) \<le> 32
     \<and> resolved_consistent t \<and> closed_consistent t"

text \<open>PostgreSQL's \<open>lpad\<close> cuts a text that is longer than the width.\<close>

definition lpad :: "nat \<Rightarrow> char \<Rightarrow> string \<Rightarrow> string" where
  "lpad n c s = (if List.length s < n then replicate (n - List.length s) c @ s else take n s)"

definition ticket_number :: "('l) lib_scheme \<Rightarrow> time \<Rightarrow> nat \<Rightarrow> string" where
  "ticket_number L t n = ''TKT-'' @ yyyymmdd L (wib_date t) @ ''-'' @ lpad 6 CHR ''0'' (digits_of n)"

text \<open>The sequence moves also when the row is refused.\<close>

definition insert_ticket :: "('l) lib_scheme \<Rightarrow> ticket \<Rightarrow> ticket_db \<Rightarrow> ticket option \<times> ticket_db" where
  "insert_ticket L t d =
     (let n = Suc (ticket_seq d); t' = t\<lparr>tk_number := ticket_number L (tk_created t) n\<rparr>;
          d' = d\<lparr>ticket_seq := n\<rparr> in
      if ticket_check t' \<and> List.length (tk_number t') \<le> 32
         \<and> \<not> list_ex (\<lambda>x. tk_id x = tk_id t' \<or> tk_number x = tk_number t') (tickets d)
         \<and> (case tk_user t' of None \<Rightarrow> True | Some u \<Rightarrow> u \<in> set (ticket_users d))
      then (Some t', d'\<lparr>tickets := tickets d @ [t']\<rparr>) else (None, d'))"

definition find_ticket :: "string \<Rightarrow> ticket_db \<Rightarrow> ticket option" where
  "find_ticket n d = find (\<lambda>t. tk_number t = n) (tickets d)"

definition map_ticket :: "uuid \<Rightarrow> (ticket \<Rightarrow> ticket) \<Rightarrow> ticket_db \<Rightarrow> ticket_db" where
  "map_ticket i f d = d\<lparr>tickets := map (\<lambda>t. if tk_id t = i then f t else t) (tickets d)\<rparr>"

text \<open>The columns the UPDATE names take the values of \<open>t\<close>.\<close>

definition updated_columns :: "ticket \<Rightarrow> ticket \<Rightarrow> ticket" where
  "updated_columns t r = r\<lparr>tk_status := tk_status t, tk_priority := tk_priority t, tk_category := tk_category t,
     tk_assignee := tk_assignee t, tk_resolved := tk_resolved t, tk_closed := tk_closed t, tk_updated := tk_updated t\<rparr>"

definition update_ticket_row :: "ticket \<Rightarrow> ticket_db \<Rightarrow> unit option \<times> ticket_db" where
  "update_ticket_row t d =
     (if list_ex (\<lambda>r. tk_id r = tk_id t) (tickets d)
         \<and> list_all (\<lambda>r. tk_id r = tk_id t \<longrightarrow> ticket_check (updated_columns t r)) (tickets d)
      then (Some (), map_ticket (tk_id t) (updated_columns t) d) else (None, d))"

definition insert_note :: "uuid \<Rightarrow> ticket_note \<Rightarrow> ticket_db \<Rightarrow> unit option \<times> ticket_db" where
  "insert_note i m d =
     (if list_ex (\<lambda>t. tk_id t = i) (tickets d) \<and> \<not> list_ex (\<lambda>(_, x). nt_id x = nt_id m) (ticket_notes d)
         \<and> List.length (nt_author m) \<le> 32 \<and> not_blank (nt_body m)
      then (Some (), d\<lparr>ticket_notes := ticket_notes d @ [(i, m)]\<rparr>) else (None, d))"

definition touch_ticket :: "time \<Rightarrow> uuid \<Rightarrow> ticket_db \<Rightarrow> unit option \<times> ticket_db" where
  "touch_ticket now i d = (Some (), map_ticket i (\<lambda>t. t\<lparr>tk_updated := now\<rparr>) d)"

text \<open>\<open>ORDER BY created_at ASC\<close>; ties in the order of insertion, which PostgreSQL does not promise.\<close>

definition list_notes :: "uuid \<Rightarrow> ticket_db \<Rightarrow> ticket_note list" where
  "list_notes i d = sort_key nt_created (map snd (filter (\<lambda>(j, _). j = i) (ticket_notes d)))"

definition tick_key :: "ticket \<Rightarrow> time \<times> uuid" where
  "tick_key t = (tk_created t, tk_id t)"

definition ticket_where :: "ticket_filter \<Rightarrow> ticket \<Rightarrow> bool" where
  "ticket_where f t \<longleftrightarrow> (lf_status f = '''' \<or> tk_status t = lf_status f)
     \<and> (lf_category f = '''' \<or> tk_category t = lf_category f)
     \<and> (lf_assignee f = '''' \<or> tk_assignee t = lf_assignee f)
     \<and> (case lf_user f of None \<Rightarrow> True | Some u \<Rightarrow> tk_user t = Some u)"

definition list_ticket_rows :: "ticket_filter \<Rightarrow> (time \<times> uuid) option \<Rightarrow> nat \<Rightarrow> ticket_db \<Rightarrow> ticket list" where
  "list_ticket_rows f cursor n d =
     top_rows tick_key n (filter (\<lambda>t. case cursor of None \<Rightarrow> True | Some k \<Rightarrow> tick_key t < k)
       (filter (ticket_where f) (tickets d)))"

definition ticket_rows :: "ticket_filter \<Rightarrow> ticket_db \<Rightarrow> ticket list" where
  "ticket_rows f d = rev (sort_key tick_key (filter (ticket_where f) (tickets d)))"

interpretation ticket_list: keyset "list_ticket_rows f" tick_key "ticket_rows f" for f
  by unfold_locales
    (simp_all add: list_ticket_rows_def ticket_rows_def top_rows_def filter_sort_rev sorted_rev_sort del: filter_filter)

subsection \<open>The service\<close>

definition default_limit :: int where "default_limit = 20"

definition max_limit :: int where "max_limit = 100"

definition max_subject_len :: nat where "max_subject_len = 200"

definition max_text_len :: nat where "max_text_len = 10000"

abbreviation InvalidTransition :: app_err where
  "InvalidTransition \<equiv> Coded 422 ''TICKET_INVALID_TRANSITION'' []"

definition ticket_user_arg :: "('l) lib_scheme \<Rightarrow> string \<Rightarrow> uuid option desk" where
  "ticket_user_arg L raw0 =
     (let raw = trim_space raw0 in
      if raw = '''' then svc_return None
      else svc_bind (svc_option ValidationError (parse_uuid L raw)) (\<lambda>u. svc_return (Some u)))"

definition create_ticket :: "('l) lib_scheme \<Rightarrow> ticket_env \<Rightarrow> ticket_request \<Rightarrow> string \<Rightarrow> ticket desk" where
  "create_ticket L E q agent =
     (let subject = trim_space (tq_subject q); desc = trim_space (tq_desc q);
          c = to_upper (trim_space (tq_category q)); category = (if c = '''' then ''LAINNYA'' else c);
          p = to_upper (trim_space (tq_priority q)); priority = (if p = '''' then ''NORMAL'' else p) in
      svc_seq (fail_if (subject = '''' \<or> max_subject_len < List.length subject) ValidationError)
     (svc_seq (fail_if (max_text_len < List.length desc) ValidationError)
     (svc_seq (fail_if (\<not> valid_category category) ValidationError)
     (svc_seq (fail_if (\<not> valid_priority priority) ValidationError)
     (svc_bind (ticket_user_arg L (tq_user q)) (\<lambda>user.
        tk_write E TInsert (insert_ticket L
          \<lparr>tk_id = te_id E, tk_number = '''', tk_user = user, tk_session = trim_space (tq_session q),
           tk_category = category, tk_priority = priority, tk_status = StatusOpen, tk_subject = subject, tk_desc = desc,
           tk_creator = agent, tk_assignee = '''', tk_resolved = None, tk_closed = None,
           tk_created = te_now E, tk_updated = te_now E\<rparr>)))))))"

definition load_ticket :: "ticket_env \<Rightarrow> string \<Rightarrow> ticket desk" where
  "load_ticket E number0 =
     (let number = trim_space number0 in
      svc_seq (fail_if (number = '''') ValidationError)
     (svc_bind (tk_read E TFind (find_ticket number)) (svc_option NotFound)))"

definition get_ticket :: "ticket_env \<Rightarrow> string \<Rightarrow> (ticket \<times> ticket_note list) desk" where
  "get_ticket E number =
     svc_bind (load_ticket E number) (\<lambda>t.
     svc_bind (tk_read E TListNotes (list_notes (tk_id t))) (\<lambda>ms. svc_return (t, ms)))"

definition clamp_limit :: "int \<Rightarrow> nat" where
  "clamp_limit l = (let l = (if l \<le> 0 then default_limit else l) in nat (if max_limit < l then max_limit else l))"

text \<open>An unknown status or category fails in the cast to its type.\<close>

definition list_tickets :: "ticket_env \<Rightarrow> ticket_filter \<Rightarrow> (ticket list \<times> bool \<times> (time \<times> uuid) option) desk" where
  "list_tickets E f =
     (let n = clamp_limit (lf_limit f) in
      svc_seq (fail_if ((lf_status f \<noteq> '''' \<and> \<not> valid_status (lf_status f))
        \<or> (lf_category f \<noteq> '''' \<and> \<not> valid_category (lf_category f))) InternalError)
     (svc_bind (tk_read E TList (list_ticket_rows f (lf_cursor f) (Suc n))) (\<lambda>rows.
        let (page, further) = cut_page n rows in svc_return (page, further, if further \<and> page \<noteq> [] then Some (tick_key (last page)) else None))))"

text \<open>\<open>applyStatus\<close>: the first resolved and closed times stay.\<close>

definition apply_status :: "time \<Rightarrow> string \<Rightarrow> ticket \<Rightarrow> ticket" where
  "apply_status now s t =
     (let r = Some (case tk_resolved t of None \<Rightarrow> now | Some x \<Rightarrow> x) in
      if s = StatusResolved then t\<lparr>tk_resolved := r, tk_closed := None, tk_status := s\<rparr>
      else if s = StatusClosed then t\<lparr>tk_resolved := r,
        tk_closed := Some (case tk_closed t of None \<Rightarrow> now | Some x \<Rightarrow> x), tk_status := s\<rparr>
      else t\<lparr>tk_resolved := None, tk_closed := None, tk_status := s\<rparr>)"

definition change_priority :: "string option \<Rightarrow> ticket \<Rightarrow> app_err + ticket" where
  "change_priority x t = (case x of None \<Rightarrow> Inr t | Some raw \<Rightarrow>
     (let p = to_upper (trim_space raw) in if valid_priority p then Inr (t\<lparr>tk_priority := p\<rparr>) else Inl ValidationError))"

definition change_category :: "string option \<Rightarrow> ticket \<Rightarrow> app_err + ticket" where
  "change_category x t = (case x of None \<Rightarrow> Inr t | Some raw \<Rightarrow>
     (let c = to_upper (trim_space raw) in if valid_category c then Inr (t\<lparr>tk_category := c\<rparr>) else Inl ValidationError))"

definition change_assignee :: "string option \<Rightarrow> ticket \<Rightarrow> ticket" where
  "change_assignee x t = (case x of None \<Rightarrow> t | Some raw \<Rightarrow> t\<lparr>tk_assignee := trim_space raw\<rparr>)"

definition change_status :: "time \<Rightarrow> string option \<Rightarrow> ticket \<Rightarrow> app_err + ticket" where
  "change_status now x t = (case x of None \<Rightarrow> Inr t | Some raw \<Rightarrow>
     (let s = to_upper (trim_space raw) in
      if \<not> valid_status s then Inl ValidationError
      else if \<not> valid_transition (tk_status t) s then Inl InvalidTransition
      else Inr (apply_status now s t)))"

definition change_ticket :: "time \<Rightarrow> ticket_update \<Rightarrow> ticket \<Rightarrow> app_err + ticket" where
  "change_ticket now u t =
     (case change_priority (tu_priority u) t of Inl e \<Rightarrow> Inl e | Inr t1 \<Rightarrow>
     (case change_category (tu_category u) t1 of Inl e \<Rightarrow> Inl e | Inr t2 \<Rightarrow>
     (case change_status now (tu_status u) (change_assignee (tu_assignee u) t2) of Inl e \<Rightarrow> Inl e
      | Inr t3 \<Rightarrow> Inr (t3\<lparr>tk_updated := now\<rparr>))))"

definition save_ticket :: "ticket_env \<Rightarrow> ticket \<Rightarrow> ticket desk" where
  "save_ticket E t = svc_seq (tk_write E TUpdate (update_ticket_row t)) (svc_return t)"

definition update_ticket :: "ticket_env \<Rightarrow> string \<Rightarrow> ticket_update \<Rightarrow> ticket desk" where
  "update_ticket E number u =
     svc_bind (load_ticket E number) (\<lambda>t.
     svc_bind (svc_sum (change_ticket (te_now E) u t)) (save_ticket E))"

definition add_note :: "ticket_env \<Rightarrow> string \<Rightarrow> string \<Rightarrow> string \<Rightarrow> ticket_note desk" where
  "add_note E number body0 agent =
     (let body = trim_space body0 in
      svc_seq (fail_if (body = '''' \<or> max_text_len < List.length body) ValidationError)
     (svc_bind (load_ticket E number) (\<lambda>t.
        let m = \<lparr>nt_id = te_id E, nt_author = agent, nt_body = body, nt_created = te_now E\<rparr> in
        svc_seq (tk_write E TInsertNote (insert_note (tk_id t) m))
       (svc_seq (tk_write E TTouch (touch_ticket (te_now E) (tk_id t)))
       (svc_return m)))))"

subsection \<open>The handlers\<close>

definition path_number :: "string \<Rightarrow> ('w, string) svc" where
  "path_number raw = (let number = trim_space raw in
     svc_seq (fail_if (number = '''' \<or> 32 < List.length number) ValidationError) (svc_return number))"

record ticket_args =
  ta_status :: string
  ta_category :: string
  ta_assignee :: string
  ta_user :: string
  ta_limit :: string
  ta_cursor :: string

definition enum_arg :: "(string \<Rightarrow> bool) \<Rightarrow> string \<Rightarrow> ('w, string) svc" where
  "enum_arg ok raw = (if raw = '''' then svc_return ''''
     else svc_seq (fail_if (\<not> ok (to_upper raw)) ValidationError) (svc_return (to_upper raw)))"

definition assignee_arg :: "string \<Rightarrow> string \<Rightarrow> ('w, string) svc" where
  "assignee_arg agent raw = (if raw = ''me'' then svc_seq (need_agent agent) (svc_return agent) else svc_return raw)"

definition user_arg :: "('l) lib_scheme \<Rightarrow> string \<Rightarrow> ('w, uuid option) svc" where
  "user_arg L raw = (if raw = '''' then svc_return None
     else svc_bind (svc_option ValidationError (parse_uuid L raw)) (\<lambda>u. svc_return (Some u)))"

definition limit_arg :: "string \<Rightarrow> ('w, int) svc" where
  "limit_arg raw = (if raw = '''' then svc_return 20
     else svc_bind (svc_option ValidationError (atoi raw)) (\<lambda>n.
       svc_seq (fail_if (n \<le> 0 \<or> 100 < n) ValidationError) (svc_return n)))"

definition handle_create_ticket :: "('l) lib_scheme \<Rightarrow> ticket_env \<Rightarrow> string \<Rightarrow> ticket_request \<Rightarrow> ticket desk" where
  "handle_create_ticket L E agent q = svc_seq (need_agent agent) (create_ticket L E q agent)"

text \<open>The query parameters in the order the handler checks them, the cursor last.\<close>

definition filter_args :: "('l) lib_scheme \<Rightarrow> string \<Rightarrow> ticket_args \<Rightarrow> ('w, ticket_filter) svc" where
  "filter_args L agent a =
     svc_bind (enum_arg valid_status (ta_status a)) (\<lambda>s.
     svc_bind (enum_arg valid_category (ta_category a)) (\<lambda>c.
     svc_bind (assignee_arg agent (ta_assignee a)) (\<lambda>who.
     svc_bind (user_arg L (ta_user a)) (\<lambda>u.
     svc_bind (limit_arg (ta_limit a)) (\<lambda>n.
       svc_return \<lparr>lf_status = s, lf_category = c, lf_assignee = who, lf_user = u, lf_limit = n, lf_cursor = None\<rparr>)))))"

text \<open>The tickets of the page, whether there are more, and the text of the next cursor.\<close>

definition handle_list_tickets ::
    "('l) fmt_scheme \<Rightarrow> ticket_env \<Rightarrow> string \<Rightarrow> ticket_args \<Rightarrow> (ticket list \<times> bool \<times> string) desk" where
  "handle_list_tickets F E agent a =
     svc_bind (filter_args F agent a) (\<lambda>f.
     svc_bind (cursor_arg (decode_history_cursor F) (ta_cursor a)) (\<lambda>k.
     svc_bind (list_tickets E (f\<lparr>lf_cursor := k\<rparr>)) (\<lambda>(page, further, next).
       svc_return (page, further, case next of None \<Rightarrow> '''' | Some x \<Rightarrow> history_cursor_text F x))))"

definition handle_get_ticket :: "ticket_env \<Rightarrow> string \<Rightarrow> (ticket \<times> ticket_note list) desk" where
  "handle_get_ticket E raw = svc_bind (path_number raw) (get_ticket E)"

definition handle_update_ticket :: "ticket_env \<Rightarrow> string \<Rightarrow> string \<Rightarrow> ticket_update \<Rightarrow> ticket desk" where
  "handle_update_ticket E agent raw u =
     svc_bind (path_number raw) (\<lambda>number. svc_seq (need_agent agent) (update_ticket E number u))"

definition handle_add_note :: "ticket_env \<Rightarrow> string \<Rightarrow> string \<Rightarrow> string \<Rightarrow> ticket_note desk" where
  "handle_add_note E agent raw body =
     svc_bind (path_number raw) (\<lambda>number. svc_seq (need_agent agent) (add_note E number body agent))"

text \<open>A request to the desk, with its environment, and what it leaves behind.\<close>

datatype ticket_call =
    CreateTicket ticket_env string ticket_request
  | ListTickets ticket_env string ticket_args
  | GetTicket ticket_env string
  | UpdateTicket ticket_env string string ticket_update
  | AddTicketNote ticket_env string string string

fun serve_ticket :: "('l) fmt_scheme \<Rightarrow> ticket_call \<Rightarrow> ticket_db \<Rightarrow> ticket_db" where
  "serve_ticket F (CreateTicket E agent q) d = snd (handle_create_ticket F E agent q d)"
| "serve_ticket F (ListTickets E agent a) d = snd (handle_list_tickets F E agent a d)"
| "serve_ticket F (GetTicket E raw) d = snd (handle_get_ticket E raw d)"
| "serve_ticket F (UpdateTicket E agent raw u) d = snd (handle_update_ticket E agent raw u d)"
| "serve_ticket F (AddTicketNote E agent raw body) d = snd (handle_add_note E agent raw body d)"

definition serve_tickets :: "('l) fmt_scheme \<Rightarrow> ticket_call list \<Rightarrow> ticket_db \<Rightarrow> ticket_db" where
  "serve_tickets F cs d = fold (serve_ticket F) cs d"

lemma tk_simps [simp]:
  "tk_read E q f d = (Inr a, d') \<longleftrightarrow> \<not> te_fault E q \<and> a = f d \<and> d' = d"
  "tk_read E q f d = (Inl e, d') \<longleftrightarrow> te_fault E q \<and> e = InternalError \<and> d' = d"
  "tk_write E q g d = (Inr x, d') \<longleftrightarrow> \<not> te_fault E q \<and> g d = (Some x, d')"
  "tk_write E q g d = (Inl e, d') \<longleftrightarrow> e = InternalError \<and> (if te_fault E q then d' = d else g d = (None, d'))"
  by (auto simp: tk_read_def tk_write_def split: prod.splits option.splits)

end
