(* ===== verification/Ticket_Desk.thy ===== *)
theory Ticket_Desk
  imports Tickets Numbers
begin

text \<open>
  What the ticket desk promises, as an abstract machine: a ticket is waiting, in work, resolved since a time, or closed since a time, and
  a closed one does not move. Every request on the tables is a step of that machine, and keeps the constraints of the schema.
\<close>

subsection \<open>The abstract desk\<close>

datatype life = Waiting | Working | Resolved time | Closed time time

fun first_resolved :: "time \<Rightarrow> life \<Rightarrow> time" where
  "first_resolved now (Resolved r) = r"
| "first_resolved now (Closed r c) = r"
| "first_resolved now l = now"

fun move :: "time \<Rightarrow> string \<Rightarrow> life \<Rightarrow> life option" where
  "move now s (Closed r c) = (if s = StatusClosed then Some (Closed r c) else None)"
| "move now s l = (if s = StatusOpen then Some Waiting else if s = StatusInProgress then Some Working
     else if s = StatusResolved then Some (Resolved (first_resolved now l))
     else if s = StatusClosed then Some (Closed (first_resolved now l) now) else None)"

type_synonym desk_view = "string \<Rightarrow> life option"

inductive desk_step :: "desk_view \<Rightarrow> desk_view \<Rightarrow> bool" where
  stays: "desk_step m m"
| opens: "m n = None \<Longrightarrow> desk_step m (m(n \<mapsto> Waiting))"
| moves: "m n = Some l \<Longrightarrow> move now s l = Some l' \<Longrightarrow> desk_step m (m(n \<mapsto> l'))"

lemma move_closed: "move now s (Closed r c) = Some l \<longleftrightarrow> s = StatusClosed \<and> l = Closed r c"
  by auto

lemma desk_step_closed: "desk_step m m' \<Longrightarrow> m n = Some (Closed r c) \<Longrightarrow> m' n = Some (Closed r c)"
  by (induction rule: desk_step.induct) (auto simp: move_closed simp del: move.simps)

lemma desk_steps_closed: "desk_step\<^sup>*\<^sup>* m m' \<Longrightarrow> m n = Some (Closed r c) \<Longrightarrow> m' n = Some (Closed r c)"
  by (induction rule: rtranclp_induct) (auto intro: desk_step_closed)

lemma desk_step_known: "desk_step m m' \<Longrightarrow> m n \<noteq> None \<Longrightarrow> m' n \<noteq> None"
  by (induction rule: desk_step.induct) auto

subsection \<open>The view of the tables\<close>

definition life_of :: "ticket \<Rightarrow> life" where
  "life_of t = (if tk_status t = StatusClosed then Closed (the (tk_resolved t)) (the (tk_closed t))
     else if tk_status t = StatusResolved then Resolved (the (tk_resolved t))
     else if tk_status t = StatusInProgress then Working else Waiting)"

definition view :: "ticket_db \<Rightarrow> desk_view" where
  "view d n = map_option life_of (find_ticket n d)"

definition desk_ok :: "ticket_db \<Rightarrow> bool" where
  "desk_ok d \<longleftrightarrow> distinct (map tk_id (tickets d)) \<and> distinct (map tk_number (tickets d))
     \<and> list_all ticket_check (tickets d) \<and> distinct (map (nt_id \<circ> snd) (ticket_notes d))
     \<and> list_all (\<lambda>(i, m). i \<in> tk_id ` set (tickets d) \<and> not_blank (nt_body m)) (ticket_notes d)"

text \<open>A status change of the code is a move of the abstract ticket, and is refused when there is none.\<close>

lemma apply_status_refines:
  assumes t: "resolved_consistent t" "closed_consistent t" "valid_status (tk_status t)" and s: "valid_status s"
  shows "move now s (life_of t) =
    (if valid_transition (tk_status t) s then Some (life_of (apply_status now s t)) else None)"
proof -
  consider "tk_status t = StatusOpen" "tk_resolved t = None" "tk_closed t = None"
    | "tk_status t = StatusInProgress" "tk_resolved t = None" "tk_closed t = None"
    | x where "tk_status t = StatusResolved" "tk_resolved t = Some x" "tk_closed t = None"
    | x y where "tk_status t = StatusClosed" "tk_resolved t = Some x" "tk_closed t = Some y"
    using t by (fastforce simp: valid_status_def resolved_consistent_def closed_consistent_def)
  moreover have "s \<in> {StatusOpen, StatusInProgress, StatusResolved, StatusClosed}" using s by (simp add: valid_status_def)
  ultimately show ?thesis
    by (elim insertE emptyE; cases) (simp_all add: valid_status_def valid_transition_def life_of_def apply_status_def)
qed

lemma apply_status_check:
  "valid_status s \<Longrightarrow> resolved_consistent (apply_status now s t) \<and> closed_consistent (apply_status now s t)
     \<and> tk_status (apply_status now s t) = s"
  by (auto simp: valid_status_def apply_status_def resolved_consistent_def closed_consistent_def Let_def)

lemma apply_status_frame:
  "tk_id (apply_status now s t) = tk_id t" "tk_number (apply_status now s t) = tk_number t"
  "tk_subject (apply_status now s t) = tk_subject t" "tk_session (apply_status now s t) = tk_session t"
  "tk_creator (apply_status now s t) = tk_creator t" "tk_assignee (apply_status now s t) = tk_assignee t"
  "tk_priority (apply_status now s t) = tk_priority t" "tk_category (apply_status now s t) = tk_category t"
  "tk_user (apply_status now s t) = tk_user t" "tk_desc (apply_status now s t) = tk_desc t"
  "tk_created (apply_status now s t) = tk_created t"
  by (simp_all add: apply_status_def Let_def)

lemma valid_transition_life:
  assumes "resolved_consistent t" "closed_consistent t" "valid_status (tk_status t)" "valid_status s" "valid_transition (tk_status t) s"
  shows "move now s (life_of t) = Some (life_of (apply_status now s t))"
  using apply_status_refines [OF assms(1-4)] assms(5) by simp

lemma life_of_cong:
  "tk_status t' = tk_status t \<Longrightarrow> tk_resolved t' = tk_resolved t \<Longrightarrow> tk_closed t' = tk_closed t \<Longrightarrow> life_of t' = life_of t"
  by (simp add: life_of_def)

lemma consistent_frame:
  "resolved_consistent (t\<lparr>tk_priority := p\<rparr>) = resolved_consistent t" "closed_consistent (t\<lparr>tk_priority := p\<rparr>) = closed_consistent t"
  "resolved_consistent (t\<lparr>tk_category := c\<rparr>) = resolved_consistent t" "closed_consistent (t\<lparr>tk_category := c\<rparr>) = closed_consistent t"
  "resolved_consistent (t\<lparr>tk_assignee := a\<rparr>) = resolved_consistent t" "closed_consistent (t\<lparr>tk_assignee := a\<rparr>) = closed_consistent t"
  "resolved_consistent (t\<lparr>tk_updated := now\<rparr>) = resolved_consistent t" "closed_consistent (t\<lparr>tk_updated := now\<rparr>) = closed_consistent t"
  by (simp_all add: resolved_consistent_def closed_consistent_def)

definition status_arg :: "string \<Rightarrow> string" where
  "status_arg raw = to_upper (trim_space raw)"

text \<open>The ticket as it stands before the status is looked at.\<close>

definition before_status :: "ticket_update \<Rightarrow> ticket \<Rightarrow> app_err + ticket" where
  "before_status u t =
     (case change_priority (tu_priority u) t of Inl e \<Rightarrow> Inl e | Inr t1 \<Rightarrow>
     (case change_category (tu_category u) t1 of Inl e \<Rightarrow> Inl e | Inr t2 \<Rightarrow> Inr (change_assignee (tu_assignee u) t2)))"

lemma change_ticket_parts:
  "change_ticket now u t = (case before_status u t of Inl e \<Rightarrow> Inl e | Inr x \<Rightarrow>
     (case change_status now (tu_status u) x of Inl e \<Rightarrow> Inl e | Inr t3 \<Rightarrow> Inr (t3\<lparr>tk_updated := now\<rparr>)))"
  by (simp add: change_ticket_def before_status_def split: sum.splits)

lemma before_status_frame:
  assumes "before_status u t = Inr x"
  shows "\<exists>p c a. x = t\<lparr>tk_priority := p, tk_category := c, tk_assignee := a\<rparr>
    \<and> (valid_priority (tk_priority t) \<longrightarrow> valid_priority p) \<and> (valid_category (tk_category t) \<longrightarrow> valid_category c)
    \<and> a = (case tu_assignee u of None \<Rightarrow> tk_assignee t | Some raw \<Rightarrow> trim_space raw)"
proof -
  obtain t1 t2 where t1: "change_priority (tu_priority u) t = Inr t1" and t2: "change_category (tu_category u) t1 = Inr t2"
    and x: "x = change_assignee (tu_assignee u) t2"
    using assms by (auto simp: before_status_def split: sum.splits)
  have "\<exists>p. t1 = t\<lparr>tk_priority := p\<rparr> \<and> (valid_priority (tk_priority t) \<longrightarrow> valid_priority p)"
    using t1 by (cases "tu_priority u") (auto simp: change_priority_def Let_def intro: exI [of _ "tk_priority t"] split: if_splits)
  then obtain p where p: "t1 = t\<lparr>tk_priority := p\<rparr>" "valid_priority (tk_priority t) \<longrightarrow> valid_priority p" by blast
  have "\<exists>c. t2 = t1\<lparr>tk_category := c\<rparr> \<and> (valid_category (tk_category t1) \<longrightarrow> valid_category c)"
    using t2 by (cases "tu_category u") (auto simp: change_category_def Let_def intro: exI [of _ "tk_category t1"] split: if_splits)
  then obtain c where c: "t2 = t1\<lparr>tk_category := c\<rparr>" "valid_category (tk_category t1) \<longrightarrow> valid_category c" by blast
  define a where "a = (case tu_assignee u of None \<Rightarrow> tk_assignee t | Some raw \<Rightarrow> trim_space raw)"
  have "x = t\<lparr>tk_priority := p, tk_category := c, tk_assignee := a\<rparr>"
    using x p c by (cases "tu_assignee u") (simp_all add: change_assignee_def a_def)
  then show ?thesis using p c a_def by auto
qed

text \<open>What a change leaves alone, and what the abstract ticket does meanwhile.\<close>

lemma change_ticket_frame:
  assumes "change_ticket now u t = Inr t'"
  shows "updated_columns t' t = t'" "tk_id t' = tk_id t" "tk_number t' = tk_number t"
proof -
  obtain x t3 where x: "before_status u t = Inr x" and t3: "change_status now (tu_status u) x = Inr t3"
    and t': "t' = t3\<lparr>tk_updated := now\<rparr>"
    using assms by (auto simp: change_ticket_parts split: sum.splits)
  obtain p c a where xt: "x = t\<lparr>tk_priority := p, tk_category := c, tk_assignee := a\<rparr>"
    using before_status_frame [OF x] by blast
  have "\<exists>s r k. t3 = x\<lparr>tk_status := s, tk_resolved := r, tk_closed := k\<rparr>"
  proof (cases "tu_status u")
    case None
    then have "t3 = x\<lparr>tk_status := tk_status x, tk_resolved := tk_resolved x, tk_closed := tk_closed x\<rparr>"
      using t3 by (simp add: change_status_def)
    then show ?thesis by blast
  next
    case (Some raw)
    then have "t3 = apply_status now (to_upper (trim_space raw)) x"
      using t3 by (simp add: change_status_def Let_def split: if_splits)
    then show ?thesis unfolding apply_status_def Let_def
      by (cases x) auto
  qed
  then obtain s r k where "t3 = x\<lparr>tk_status := s, tk_resolved := r, tk_closed := k\<rparr>" by blast
  then show "updated_columns t' t = t'" "tk_id t' = tk_id t" "tk_number t' = tk_number t"
    using t' xt by (simp_all add: updated_columns_def)
qed

lemma change_ticket_life:
  assumes t: "ticket_check t" and c: "change_ticket now u t = Inr t'"
  shows "(case tu_status u of None \<Rightarrow> life_of t' = life_of t
    | Some raw \<Rightarrow> move now (status_arg raw) (life_of t) = Some (life_of t'))"
proof -
  obtain x t3 where x: "before_status u t = Inr x" and t3: "change_status now (tu_status u) x = Inr t3"
    and t': "t' = t3\<lparr>tk_updated := now\<rparr>"
    using c by (auto simp: change_ticket_parts split: sum.splits)
  obtain p c a where xt: "x = t\<lparr>tk_priority := p, tk_category := c, tk_assignee := a\<rparr>"
    using before_status_frame [OF x] by blast
  have x_ok: "resolved_consistent x" "closed_consistent x" "valid_status (tk_status x)"
    using t by (simp_all add: xt ticket_check_def consistent_frame)
  have l: "life_of x = life_of t" "life_of t' = life_of t3" by (simp_all add: life_of_def xt t')
  show ?thesis
  proof (cases "tu_status u")
    case None
    then show ?thesis using t3 l by (simp add: change_status_def)
  next
    case (Some raw)
    then have "t3 = apply_status now (status_arg raw) x" "valid_status (status_arg raw)"
        "valid_transition (tk_status x) (status_arg raw)"
      using t3 by (simp_all add: change_status_def status_arg_def Let_def split: if_splits)
    then show ?thesis using valid_transition_life [OF x_ok] Some l by simp
  qed
qed

lemma change_ticket_check:
  assumes t: "ticket_check t" and c: "change_ticket now u t = Inr t'"
    and a: "\<And>raw. tu_assignee u = Some raw \<Longrightarrow> length (trim_space raw) \<le> 32"
  shows "ticket_check t'"
proof -
  obtain x t3 where x: "before_status u t = Inr x" and t3: "change_status now (tu_status u) x = Inr t3"
    and t': "t' = t3\<lparr>tk_updated := now\<rparr>"
    using c by (auto simp: change_ticket_parts split: sum.splits)
  have x_ok: "ticket_check x"
    using before_status_frame [OF x] t a
    by (auto simp: ticket_check_def consistent_frame split: option.splits)
  have "ticket_check t3"
  proof (cases "tu_status u")
    case None
    then show ?thesis using t3 x_ok by (simp add: change_status_def)
  next
    case (Some raw)
    then have "t3 = apply_status now (status_arg raw) x" "valid_status (status_arg raw)"
      using t3 by (simp_all add: change_status_def status_arg_def Let_def split: if_splits)
    then show ?thesis using x_ok apply_status_check
      by (simp add: ticket_check_def apply_status_frame)
  qed
  then show ?thesis by (simp add: t' ticket_check_def consistent_frame)
qed

subsection \<open>The tables\<close>

lemma find_ticket_map:
  assumes "\<And>t. tk_number (f t) = tk_number t"
  shows "find_ticket n (map_ticket i f d) = map_option (\<lambda>t. if tk_id t = i then f t else t) (find_ticket n d)"
  unfolding find_ticket_def map_ticket_def by (simp add: find_map_rows assms)

lemma find_ticket_D: "find_ticket n d = Some t \<Longrightarrow> t \<in> set (tickets d) \<and> tk_number t = n"
  unfolding find_ticket_def by (drule find_Some_D) simp

lemma desk_ok_row: "desk_ok d \<Longrightarrow> t \<in> set (tickets d) \<Longrightarrow> ticket_check t"
  by (simp add: desk_ok_def list_all_iff)

lemma desk_ok_unique: "desk_ok d \<Longrightarrow> t \<in> set (tickets d) \<Longrightarrow> t' \<in> set (tickets d) \<Longrightarrow> tk_id t = tk_id t' \<Longrightarrow> t = t'"
  unfolding desk_ok_def by (elim conjE) (rule distinct_key_unique)

text \<open>A row replaced by one with its id and number.\<close>

lemma desk_ok_map:
  assumes d: "desk_ok d" and f: "\<And>t. t \<in> set (tickets d) \<Longrightarrow> tk_id t = i \<Longrightarrow> ticket_check (f t)"
    and keys: "\<And>t. tk_id (f t) = tk_id t" "\<And>t. tk_number (f t) = tk_number t"
  shows "desk_ok (map_ticket i f d)"
proof -
  let ?g = "\<lambda>t. if tk_id t = i then f t else t"
  have ids: "map tk_id (map ?g (tickets d)) = map tk_id (tickets d)"
    and numbers: "map tk_number (map ?g (tickets d)) = map tk_number (tickets d)"
    by (simp_all add: keys)
  moreover have "tk_id ` ?g ` set (tickets d) = tk_id ` set (tickets d)"
    using arg_cong [OF ids, of set] by (simp only: set_map)
  moreover have "list_all ticket_check (map ?g (tickets d))"
    using d f by (auto simp: desk_ok_def list_all_iff)
  moreover have "tickets (map_ticket i f d) = map ?g (tickets d)" "ticket_notes (map_ticket i f d) = ticket_notes d"
    by (simp_all add: map_ticket_def)
  ultimately show ?thesis using d by (simp only: desk_ok_def set_map simp_thms)
qed

lemma updated_columns_keys: "tk_id (updated_columns t r) = tk_id r" "tk_number (updated_columns t r) = tk_number r"
  by (simp_all add: updated_columns_def)

lemma desk_ok_update: "desk_ok d \<Longrightarrow> desk_ok (snd (update_ticket_row t d))"
  unfolding update_ticket_row_def
  by (simp add: list_all_iff) (auto intro!: desk_ok_map simp: updated_columns_keys)

lemma desk_ok_touch: "desk_ok d \<Longrightarrow> desk_ok (snd (touch_ticket now i d))"
  unfolding touch_ticket_def snd_conv
  by (rule desk_ok_map) (simp_all add: desk_ok_row ticket_check_def [of "_\<lparr>tk_updated := now\<rparr>"] consistent_frame
      desk_ok_row [unfolded ticket_check_def])

lemma desk_ok_insert: "desk_ok d \<Longrightarrow> desk_ok (snd (insert_ticket L t d))"
  by (auto simp: insert_ticket_def Let_def desk_ok_def list_ex_iff list_all_iff)

lemma desk_ok_note: "desk_ok d \<Longrightarrow> desk_ok (snd (insert_note i m d))"
  by (auto simp: insert_note_def desk_ok_def list_ex_iff list_all_iff)

lemma keeps_tk_read [keeps_intros]: "keeps P (tk_read E q f)"
  by (simp add: keeps_def tk_read_def)

lemma keeps_tk_write: "(\<And>d. P d \<Longrightarrow> P (snd (f d))) \<Longrightarrow> keeps P (tk_write E q f)"
  unfolding keeps_def tk_write_def by (auto split: if_splits prod.splits option.splits) (metis snd_conv)+

lemmas desk_defs = handle_create_ticket_def handle_list_tickets_def handle_get_ticket_def handle_update_ticket_def
  handle_add_note_def create_ticket_def list_tickets_def get_ticket_def update_ticket_def add_note_def load_ticket_def
  save_ticket_def need_agent_def path_number_def filter_args_def enum_arg_def assignee_arg_def user_arg_def limit_arg_def
  ticket_user_arg_def cursor_arg_def

lemma keeps_desk:
  "keeps desk_ok (handle_create_ticket L E agent q)" "keeps desk_ok (handle_list_tickets F E agent a)"
  "keeps desk_ok (handle_get_ticket E raw)" "keeps desk_ok (handle_update_ticket E agent raw u)"
  "keeps desk_ok (handle_add_note E agent raw body)"
  unfolding desk_defs
  by (rule keeps_intros | erule desk_ok_insert desk_ok_note desk_ok_touch desk_ok_update | rule keeps_tk_write)+

lemma serve_ticket_ok: "desk_ok d \<Longrightarrow> desk_ok (serve_ticket F c d)"
  by (cases c) (simp_all add: keeps_snd keeps_desk)

lemma serve_tickets_ok: "desk_ok d \<Longrightarrow> desk_ok (serve_tickets F cs d)"
  unfolding serve_tickets_def by (induction cs arbitrary: d) (simp_all add: serve_ticket_ok)

subsection \<open>Every request is a step of the abstract desk\<close>

lemma inserts_open:
  "insert_ticket L t d = (x, d') \<Longrightarrow> tk_status t = StatusOpen \<Longrightarrow>
     \<exists>t. tk_status t = StatusOpen \<and> (\<exists>r. insert_ticket L t d = (r, d'))"
  by blast

lemma create_result:
  assumes "handle_create_ticket L E agent q d = (r, d')"
  shows "d' = d \<or> (\<exists>t. tk_status t = StatusOpen \<and> d' = snd (insert_ticket L t d))"
proof (cases "d' = d")
  case False
  then have "\<exists>t r. tk_status t = StatusOpen \<and> insert_ticket L t d = (r, d')"
    using assms unfolding handle_create_ticket_def create_ticket_def need_agent_def ticket_user_arg_def Let_def
    by (cases r) (auto split: if_splits elim!: inserts_open)
  then show ?thesis by (metis snd_conv)
qed simp

lemma load_ticket_simps [simp]:
  "load_ticket E n d = (Inr t, d') \<longleftrightarrow> trim_space n \<noteq> '''' \<and> \<not> te_fault E TFind \<and> find_ticket (trim_space n) d = Some t \<and> d' = d"
  "load_ticket E n d = (Inl e, d') \<Longrightarrow> d' = d"
  by (auto simp: load_ticket_def Let_def)

lemma updates_changed:
  "update_ticket_row t' d = (x, d') \<Longrightarrow> find_ticket n d = Some t \<Longrightarrow> change_ticket now u t = Inr t' \<Longrightarrow>
     \<exists>n t. find_ticket n d = Some t \<and> (\<exists>t'. change_ticket now u t = Inr t' \<and> (\<exists>x. update_ticket_row t' d = (x, d')))"
  by blast

lemma update_result:
  assumes "handle_update_ticket E agent raw u d = (r, d')"
  shows "d' = d \<or> (\<exists>n t t'. find_ticket n d = Some t \<and> change_ticket (te_now E) u t = Inr t' \<and> d' = snd (update_ticket_row t' d))"
proof (cases "d' = d")
  case False
  then have "\<exists>n t t' x. find_ticket n d = Some t \<and> change_ticket (te_now E) u t = Inr t' \<and> update_ticket_row t' d = (x, d')"
    using assms unfolding handle_update_ticket_def update_ticket_def save_ticket_def need_agent_def path_number_def Let_def
    by (cases r) (auto dest: load_ticket_simps(2) split: if_splits elim!: updates_changed)
  then show ?thesis by (metis snd_conv)
qed simp

lemma view_fresh: "view d n = None \<longleftrightarrow> n \<notin> tk_number ` set (tickets d)"
  by (auto simp: view_def find_ticket_def find_None_iff)

lemma view_cong: "tickets d' = tickets d \<Longrightarrow> view d' = view d"
  by (rule ext) (simp add: view_def find_ticket_def)

lemma view_insert:
  assumes t: "tk_status t = StatusOpen"
  shows "desk_step (view d) (view (snd (insert_ticket L t d)))"
proof -
  let ?t = "t\<lparr>tk_number := ticket_number L (tk_created t) (Suc (ticket_seq d))\<rparr>" and ?d = "snd (insert_ticket L t d)"
  have "tickets ?d = tickets d \<or> (tickets ?d = tickets d @ [?t] \<and> tk_number ?t \<notin> tk_number ` set (tickets d))"
    by (auto simp: insert_ticket_def Let_def list_ex_iff)
  then show ?thesis
  proof
    assume "tickets ?d = tickets d"
    then show ?thesis using view_cong [of ?d d] desk_step.stays by simp
  next
    assume n: "tickets ?d = tickets d @ [?t] \<and> tk_number ?t \<notin> tk_number ` set (tickets d)"
    have "view ?d = (view d)(tk_number ?t \<mapsto> Waiting)"
    proof (rule ext)
      fix n'
      have "find P (xs @ [x]) = (case find P xs of None \<Rightarrow> if P x then Some x else None | Some y \<Rightarrow> Some y)"
        for P and xs :: "ticket list" and x by (induction xs) auto
      then have "find_ticket n' ?d = (case find_ticket n' d of None \<Rightarrow> if tk_number ?t = n' then Some ?t else None | Some y \<Rightarrow> Some y)"
        using n by (simp only: find_ticket_def)
      moreover have "find_ticket (tk_number ?t) d = None" using n view_fresh [of d] by (simp add: view_def)
      ultimately show "view ?d n' = ((view d)(tk_number ?t \<mapsto> Waiting)) n'"
        using t by (auto simp: view_def life_of_def split: option.splits)
    qed
    then show ?thesis using n view_fresh [of d] desk_step.opens by metis
  qed
qed

lemma view_update:
  assumes d: "desk_ok d" and t: "find_ticket n d = Some t" and c: "change_ticket now u t = Inr t'"
  shows "view (map_ticket (tk_id t') (updated_columns t') d) = (view d)(n \<mapsto> life_of t')"
    "find_ticket n (map_ticket (tk_id t') (updated_columns t') d) = Some t'"
proof -
  note f = change_ticket_frame [OF c]
  have row: "t \<in> set (tickets d)" "tk_number t = n" using find_ticket_D [OF t] by auto
  have g: "find_ticket m (map_ticket (tk_id t') (updated_columns t') d)
      = map_option (\<lambda>r. if tk_id r = tk_id t' then updated_columns t' r else r) (find_ticket m d)" for m
    by (rule find_ticket_map) (rule updated_columns_keys)
  have other: "tk_id r \<noteq> tk_id t'" if "find_ticket m d = Some r" "m \<noteq> n" for m r
    using find_ticket_D [OF that(1)] row desk_ok_unique [OF d, of r t] f that(2) by auto
  show here: "find_ticket n (map_ticket (tk_id t') (updated_columns t') d) = Some t'"
    using g [of n] t f by simp
  show "view (map_ticket (tk_id t') (updated_columns t') d) = (view d)(n \<mapsto> life_of t')"
  proof (rule ext)
    fix m
    show "view (map_ticket (tk_id t') (updated_columns t') d) m = ((view d)(n \<mapsto> life_of t')) m"
      using here g [of m] other [of m] by (cases "find_ticket m d") (auto simp: view_def)
  qed
qed

lemma view_update_row:
  assumes d: "desk_ok d" and t: "find_ticket n d = Some t" and c: "change_ticket now u t = Inr t'"
  shows "desk_step (view d) (view (snd (update_ticket_row t' d)))"
proof -
  have l: "view d n = Some (life_of t)" using t by (simp add: view_def)
  have "ticket_check t" using desk_ok_row d find_ticket_D [OF t] by blast
  note change = change_ticket_life [OF this c]
  have "desk_step (view d) ((view d)(n \<mapsto> life_of t'))"
  proof (cases "tu_status u")
    case None
    then have "(view d)(n \<mapsto> life_of t') = view d" using change l by (simp add: map_upd_triv)
    then show ?thesis by (simp add: desk_step.stays)
  next
    case (Some raw)
    then show ?thesis using change by (auto intro: desk_step.moves [of "view d", OF l])
  qed
  then show ?thesis using view_update(1) [OF d t c] desk_step.stays by (auto simp: update_ticket_row_def)
qed

lemma keeps_tk_view: "(\<And>d. view (snd (f d)) = view d) \<Longrightarrow> keeps (\<lambda>d. view d = V) (tk_write E q f)"
  by (rule keeps_tk_write) simp

lemma keeps_view:
  "keeps (\<lambda>d. view d = V) (handle_list_tickets F E agent a)" "keeps (\<lambda>d. view d = V) (handle_get_ticket E raw)"
  "keeps (\<lambda>d. view d = V) (handle_add_note E agent raw body)"
proof -
  have noted: "view (snd (insert_note i m d)) = view d" for i m d
    by (rule view_cong) (simp add: insert_note_def)
  have touch: "view (snd (touch_ticket now i d)) = view d" for now i d
  proof (rule ext)
    fix n
    have l: "life_of (t\<lparr>tk_updated := now\<rparr>) = life_of t" for t by (rule life_of_cong) simp_all
    have "find_ticket n (map_ticket i (\<lambda>t. t\<lparr>tk_updated := now\<rparr>) d)
        = map_option (\<lambda>t. if tk_id t = i then t\<lparr>tk_updated := now\<rparr> else t) (find_ticket n d)"
      by (rule find_ticket_map) simp
    then show "view (snd (touch_ticket now i d)) n = view d n"
      by (cases "find_ticket n d") (simp_all add: touch_ticket_def view_def l)
  qed
  show "keeps (\<lambda>d. view d = V) (handle_list_tickets F E agent a)" "keeps (\<lambda>d. view d = V) (handle_get_ticket E raw)"
    "keeps (\<lambda>d. view d = V) (handle_add_note E agent raw body)"
    unfolding desk_defs by (rule keeps_intros | rule keeps_tk_view | rule noted | rule touch)+
qed

lemma serve_ticket_step:
  assumes d: "desk_ok d"
  shows "desk_step (view d) (view (serve_ticket F c d))"
proof -
  have same: "e = d \<Longrightarrow> desk_step (view d) (view e)" for e by (simp add: desk_step.stays)
  show ?thesis
  proof (cases c)
    case (CreateTicket E agent q)
    obtain r d' where r: "handle_create_ticket F E agent q d = (r, d')" by force
    have "desk_step (view d) (view d')" using create_result [OF r] same view_insert by blast
    then show ?thesis using CreateTicket r by simp
  next
    case (UpdateTicket E agent raw u)
    obtain r d' where r: "handle_update_ticket E agent raw u d = (r, d')" by force
    have "desk_step (view d) (view d')" using update_result [OF r] same view_update_row [OF d] by blast
    then show ?thesis using UpdateTicket r by simp
  next
    case (ListTickets E agent a)
    have "view (snd (handle_list_tickets F E agent a d)) = view d" by (rule keeps_snd [OF keeps_view(1)]) simp
    then show ?thesis using ListTickets desk_step.stays by simp
  next
    case (GetTicket E raw)
    have "view (snd (handle_get_ticket E raw d)) = view d" by (rule keeps_snd [OF keeps_view(2)]) simp
    then show ?thesis using GetTicket desk_step.stays by simp
  next
    case (AddTicketNote E agent raw body)
    have "view (snd (handle_add_note E agent raw body d)) = view d" by (rule keeps_snd [OF keeps_view(3)]) simp
    then show ?thesis using AddTicketNote desk_step.stays by simp
  qed
qed

lemma serve_tickets_steps:
  "desk_ok d \<Longrightarrow> desk_step\<^sup>*\<^sup>* (view d) (view (serve_tickets F cs d))"
proof (induction cs arbitrary: d)
  case (Cons c cs)
  have "desk_step\<^sup>*\<^sup>* (view (serve_ticket F c d)) (view (serve_tickets F cs (serve_ticket F c d)))"
    by (rule Cons.IH) (rule serve_ticket_ok [OF Cons.prems])
  with serve_ticket_step [OF Cons.prems, of F c]
  have "desk_step\<^sup>*\<^sup>* (view d) (view (serve_tickets F cs (serve_ticket F c d)))"
    by (rule converse_rtranclp_into_rtranclp)
  then show ?case by (simp add: serve_tickets_def)
qed (simp add: serve_tickets_def)

end
