(* ===== verification/Ticket_Properties.thy ===== *)
theory Ticket_Properties
  imports Ticket_Desk Sample_Format
begin

text \<open>The properties of the ticket desk, with a desk of one agent as the concrete input of the witnesses.\<close>

subsection \<open>A sample desk\<close>

definition sample_desk :: ticket_db where
  "sample_desk = \<lparr>tickets = [], ticket_notes = [], ticket_seq = 0, ticket_users = []\<rparr>"

definition desk_env :: "time \<Rightarrow> uuid \<Rightarrow> ticket_env" where
  "desk_env t i = \<lparr>te_now = t, te_id = i, te_fault = (\<lambda>_. False)\<rparr>"

definition sample_complaint :: ticket_request where
  "sample_complaint = \<lparr>tq_user = '''', tq_session = '''', tq_category = ''kartu'', tq_priority = '''',
     tq_subject = '' Card blocked '', tq_desc = ''''\<rparr>"

definition no_update :: ticket_update where
  "no_update = \<lparr>tu_status = None, tu_priority = None, tu_category = None, tu_assignee = None\<rparr>"

definition one_ticket :: ticket where
  "one_ticket = \<lparr>tk_id = ''t1'', tk_number = ''TKT-1'', tk_user = None, tk_session = '''', tk_category = ''KARTU'',
     tk_priority = ''NORMAL'', tk_status = StatusOpen, tk_subject = ''Card blocked'', tk_desc = '''', tk_creator = ''A1'',
     tk_assignee = '''', tk_resolved = None, tk_closed = None, tk_created = 1000, tk_updated = 1000\<rparr>"

definition one_desk :: ticket_db where
  "one_desk = sample_desk\<lparr>tickets := [one_ticket], ticket_seq := 1\<rparr>"

lemmas desk_samples = sample_desk_def desk_env_def sample_complaint_def no_update_def one_ticket_def one_desk_def

lemma one_desk_ok: "desk_ok one_desk"
  by code_simp

subsection \<open>The lifecycle\<close>

text \<open>C16: Whatever requests the desk answers, with whatever failures of the database, the tickets move as the abstract desk
  allows: a new number is opened, an open ticket moves, a closed one stays; and the constraints of the schema hold.\<close>

theorem tickets_refine_lifecycle:
  assumes "desk_ok d"
  shows "desk_ok (serve_tickets F cs d) \<and> desk_step\<^sup>*\<^sup>* (view d) (view (serve_tickets F cs d))"
  using assms by (simp add: serve_tickets_ok serve_tickets_steps)

lemma tickets_refine_lifecycle_witness:
  "desk_step\<^sup>*\<^sup>* (view one_desk) (view (serve_tickets sample_fmt
      [UpdateTicket (desk_env 2000 ''x'') ''A1'' ''TKT-1'' (no_update\<lparr>tu_status := Some ''closed''\<rparr>)] one_desk))
    \<and> view (serve_tickets sample_fmt
      [UpdateTicket (desk_env 2000 ''x'') ''A1'' ''TKT-1'' (no_update\<lparr>tu_status := Some ''closed''\<rparr>)] one_desk) ''TKT-1''
      = Some (Closed 2000 2000)"
proof
  show "desk_step\<^sup>*\<^sup>* (view one_desk) (view (serve_tickets sample_fmt
      [UpdateTicket (desk_env 2000 ''x'') ''A1'' ''TKT-1'' (no_update\<lparr>tu_status := Some ''closed''\<rparr>)] one_desk))"
    using tickets_refine_lifecycle [OF one_desk_ok] by blast
qed code_simp

text \<open>C20: A closed ticket stays closed through any requests, with the times at which it was first resolved and closed.\<close>

theorem closed_ticket_is_final:
  assumes d: "desk_ok d" and t: "find_ticket n d = Some t" "tk_status t = StatusClosed"
  shows "\<exists>t'. find_ticket n (serve_tickets F cs d) = Some t' \<and> tk_status t' = StatusClosed
    \<and> tk_resolved t' = tk_resolved t \<and> tk_closed t' = tk_closed t"
proof -
  have check: "ticket_check r" if "find_ticket n e = Some r" "desk_ok e" for r e
    using desk_ok_row that find_ticket_D by blast
  have "view d n = Some (Closed (the (tk_resolved t)) (the (tk_closed t)))"
    using t by (simp add: view_def life_of_def)
  then have "view (serve_tickets F cs d) n = Some (Closed (the (tk_resolved t)) (the (tk_closed t)))"
    by (rule desk_steps_closed [OF serve_tickets_steps [OF d]])
  then obtain t' where t': "find_ticket n (serve_tickets F cs d) = Some t'"
      "life_of t' = Closed (the (tk_resolved t)) (the (tk_closed t))"
    by (auto simp: view_def)
  then show ?thesis
    using check [OF t(1) d] check [OF t'(1) serve_tickets_ok [OF d]] t(2)
    by (auto simp: life_of_def ticket_check_def resolved_consistent_def closed_consistent_def split: if_splits)
qed

definition closed_desk :: ticket_db where
  "closed_desk = one_desk\<lparr>tickets := [one_ticket\<lparr>tk_status := StatusClosed, tk_resolved := Some 1500, tk_closed := Some 1600\<rparr>]\<rparr>"

lemma closed_ticket_is_final_witness:
  "\<exists>t'. find_ticket ''TKT-1'' (serve_tickets sample_fmt
      [UpdateTicket (desk_env 2000 ''x'') ''A1'' ''TKT-1'' (no_update\<lparr>tu_status := Some ''OPEN''\<rparr>)] closed_desk) = Some t'
    \<and> tk_status t' = StatusClosed \<and> tk_resolved t' = Some 1500 \<and> tk_closed t' = Some 1600"
proof -
  have "desk_ok closed_desk" by code_simp
  moreover have "find_ticket ''TKT-1'' closed_desk
      = Some (one_ticket\<lparr>tk_status := StatusClosed, tk_resolved := Some 1500, tk_closed := Some 1600\<rparr>)" by code_simp
  ultimately show ?thesis
    using closed_ticket_is_final [of closed_desk "''TKT-1''" "one_ticket\<lparr>tk_status := StatusClosed, tk_resolved := Some 1500, tk_closed := Some 1600\<rparr>"]
    by simp
qed

subsection \<open>Updates\<close>

lemma change_succeeds:
  assumes "pred_option (\<lambda>p. valid_priority (status_arg p)) (tu_priority u)"
    "pred_option (\<lambda>c. valid_category (status_arg c)) (tu_category u)"
    "pred_option (\<lambda>s. move now (status_arg s) (life_of t) \<noteq> None) (tu_status u)"
    and t: "ticket_check t"
  shows "\<exists>t'. change_ticket now u t = Inr t'"
proof -
  obtain x where x: "before_status u t = Inr x"
    using assms(1,2) unfolding before_status_def change_priority_def change_category_def status_arg_def [symmetric] Let_def
    by (cases "tu_priority u"; cases "tu_category u") auto
  obtain p c a where xt: "x = t\<lparr>tk_priority := p, tk_category := c, tk_assignee := a\<rparr>"
    using before_status_frame [OF x] by blast
  have x_ok: "resolved_consistent x" "closed_consistent x" "valid_status (tk_status x)"
    using t by (simp_all add: xt ticket_check_def consistent_frame)
  have "\<exists>t3. change_status now (tu_status u) x = Inr t3"
  proof (cases "tu_status u")
    case None
    then show ?thesis by (simp add: change_status_def)
  next
    case (Some raw)
    have "life_of x = life_of t" by (rule life_of_cong) (simp_all add: xt)
    then have m: "move now (status_arg raw) (life_of x) \<noteq> None" using assms(3) Some by simp
    have s: "valid_status (status_arg raw)"
    proof (rule ccontr)
      assume "\<not> valid_status (status_arg raw)"
      then show False using m by (cases "life_of x") (simp_all add: valid_status_def)
    qed
    then have "valid_transition (tk_status x) (status_arg raw)"
      using apply_status_refines [OF x_ok s, of now] m by (simp split: if_splits)
    then show ?thesis using Some s by (simp add: change_status_def status_arg_def Let_def)
  qed
  then show ?thesis using x by (auto simp: change_ticket_parts)
qed

lemma save_succeeds:
  assumes d: "desk_ok d" and t: "find_ticket n d = Some t" and f: "updated_columns t' t = t'" "tk_id t' = tk_id t"
    and t': "ticket_check t'" and E: "\<not> te_fault E TUpdate"
  shows "save_ticket E t' d = (Inr t', map_ticket (tk_id t') (updated_columns t') d)"
    "find_ticket n (map_ticket (tk_id t') (updated_columns t') d) = Some t'"
proof -
  have row: "t \<in> set (tickets d)" using find_ticket_D [OF t] by simp
  have "updated_columns t' r = t'" if "r \<in> set (tickets d)" "tk_id r = tk_id t'" for r
    using desk_ok_unique [OF d that(1) row] that f by simp
  then have "update_ticket_row t' d = (Some (), map_ticket (tk_id t') (updated_columns t') d)"
    using row f t' by (auto simp: update_ticket_row_def list_ex_iff list_all_iff)
  then show "save_ticket E t' d = (Inr t', map_ticket (tk_id t') (updated_columns t') d)"
    using E by (simp add: save_ticket_def svc_defs tk_write_def)
  have "find_ticket n (map_ticket (tk_id t') (updated_columns t') d)
      = map_option (\<lambda>r. if tk_id r = tk_id t' then updated_columns t' r else r) (find_ticket n d)"
    by (rule find_ticket_map) (rule updated_columns_keys)
  then show "find_ticket n (map_ticket (tk_id t') (updated_columns t') d) = Some t'" using t f by simp
qed

text \<open>An update the lifecycle allows is never refused by a constraint of the database: when the values are known and the
  move exists, the request succeeds and the ticket is found with its new state.\<close>

theorem allowed_update_succeeds:
  assumes d: "desk_ok d" and t: "find_ticket n d = Some t" and n: "trim_space n = n" "n \<noteq> ''''" "length n \<le> 32"
    and agent: "agent \<noteq> ''''" and E: "\<not> te_fault E TFind" "\<not> te_fault E TUpdate"
    and u: "pred_option (\<lambda>p. valid_priority (status_arg p)) (tu_priority u)"
      "pred_option (\<lambda>c. valid_category (status_arg c)) (tu_category u)"
      "pred_option (\<lambda>s. move (te_now E) (status_arg s) (life_of t) \<noteq> None) (tu_status u)"
      "pred_option (\<lambda>a. length (trim_space a) \<le> 32) (tu_assignee u)"
  shows "\<exists>t' d'. handle_update_ticket E agent n u d = (Inr t', d') \<and> find_ticket n d' = Some t'
    \<and> (case tu_status u of None \<Rightarrow> life_of t' = life_of t | Some s \<Rightarrow> move (te_now E) (status_arg s) (life_of t) = Some (life_of t'))"
proof -
  have check: "ticket_check t" using desk_ok_row [OF d] find_ticket_D [OF t] by blast
  obtain t' where c: "change_ticket (te_now E) u t = Inr t'" using change_succeeds [OF u(1-3) check] by blast
  have t': "ticket_check t'" by (rule change_ticket_check [OF check c]) (use u(4) in simp)
  have "handle_update_ticket E agent n u d = (Inr t', map_ticket (tk_id t') (updated_columns t') d)"
    using n agent t E c save_succeeds(1) [OF d t change_ticket_frame(1,2) [OF c] t' E(2)]
    by (simp add: handle_update_ticket_def update_ticket_def path_number_def need_agent_def load_ticket_def svc_defs
        svc_sum_def tk_read_def Let_def)
  then show ?thesis using view_update(2) [OF d t c] change_ticket_life [OF check c] by blast
qed

lemma allowed_update_succeeds_witness:
  "\<exists>t' d'. handle_update_ticket (desk_env 2000 ''x'') ''A1'' ''TKT-1'' (no_update\<lparr>tu_status := Some '' resolved ''\<rparr>) one_desk
      = (Inr t', d') \<and> find_ticket ''TKT-1'' d' = Some t' \<and> Resolved 2000 = life_of t'"
proof -
  have "find_ticket ''TKT-1'' one_desk = Some one_ticket" by code_simp
  moreover have "move 2000 (status_arg '' resolved '') (life_of one_ticket) = Some (Resolved 2000)" by code_simp
  moreover have "trim_space ''TKT-1'' = ''TKT-1''" by code_simp
  ultimately show ?thesis
    using allowed_update_succeeds [OF one_desk_ok, of "''TKT-1''" one_ticket "''A1''" "desk_env 2000 ''x''"
        "no_update\<lparr>tu_status := Some '' resolved ''\<rparr>"]
    by (simp add: desk_env_def no_update_def)
qed

text \<open>C40: An update reads the ticket and writes it back without a lock, so of two updates that both read before either writes
  the second wins as a whole: a change of priority that read the ticket before it was closed opens it again.\<close>

theorem stale_update_wins:
  assumes d: "desk_ok d" and t: "find_ticket n d = Some t"
    and c1: "change_ticket now1 u1 t = Inr t1" and c2: "change_ticket now2 u2 t = Inr t2"
    and ok: "ticket_check t1" "ticket_check t2" and E: "\<not> te_fault E1 TUpdate" "\<not> te_fault E2 TUpdate"
  shows "\<exists>d1 d2. save_ticket E1 t1 d = (Inr t1, d1) \<and> find_ticket n d1 = Some t1
    \<and> save_ticket E2 t2 d1 = (Inr t2, d2) \<and> find_ticket n d2 = Some t2"
proof -
  let ?d1 = "map_ticket (tk_id t1) (updated_columns t1) d"
  note f1 = change_ticket_frame [OF c1] and f2 = change_ticket_frame [OF c2]
  note s1 = save_succeeds [OF d t f1(1,2) ok(1) E(1)]
  have "update_ticket_row t1 d = (Some (), ?d1)"
    using s1(1) E(1) by (auto simp: save_ticket_def)
  then have d1: "desk_ok ?d1" using desk_ok_update [OF d, of t1] by simp
  have "updated_columns t2 (updated_columns t1 t) = updated_columns t2 t" by (simp add: updated_columns_def)
  then have "updated_columns t2 t1 = t2" using f1(1) f2(1) by simp
  moreover have "tk_id t2 = tk_id t1" using f1(2) f2(2) by simp
  ultimately show ?thesis using s1 save_succeeds [OF d1 s1(2) _ _ ok(2) E(2)] by blast
qed

lemma stale_update_wins_witness:
  "\<exists>t1 t2 d1 d2. change_ticket 2000 (no_update\<lparr>tu_status := Some ''CLOSED''\<rparr>) one_ticket = Inr t1
    \<and> save_ticket (desk_env 2000 ''x'') t1 one_desk = (Inr t1, d1)
    \<and> (\<exists>t. find_ticket ''TKT-1'' d1 = Some t \<and> tk_status t = StatusClosed)
    \<and> change_ticket 2001 (no_update\<lparr>tu_priority := Some ''HIGH''\<rparr>) one_ticket = Inr t2
    \<and> save_ticket (desk_env 2001 ''y'') t2 d1 = (Inr t2, d2)
    \<and> (\<exists>t. find_ticket ''TKT-1'' d2 = Some t \<and> tk_status t = StatusOpen)"
proof -
  let ?t1 = "one_ticket\<lparr>tk_status := StatusClosed, tk_resolved := Some 2000, tk_closed := Some 2000, tk_updated := 2000\<rparr>"
  let ?t2 = "one_ticket\<lparr>tk_priority := ''HIGH'', tk_updated := 2001\<rparr>"
  have t: "find_ticket ''TKT-1'' one_desk = Some one_ticket" by code_simp
  have c1: "change_ticket 2000 (no_update\<lparr>tu_status := Some ''CLOSED''\<rparr>) one_ticket = Inr ?t1" by code_simp
  have c2: "change_ticket 2001 (no_update\<lparr>tu_priority := Some ''HIGH''\<rparr>) one_ticket = Inr ?t2" by code_simp
  have k1: "ticket_check ?t1" by code_simp
  have k2: "ticket_check ?t2" by code_simp
  obtain d1 d2 where "save_ticket (desk_env 2000 ''x'') ?t1 one_desk = (Inr ?t1, d1)" "find_ticket ''TKT-1'' d1 = Some ?t1"
      "save_ticket (desk_env 2001 ''y'') ?t2 d1 = (Inr ?t2, d2)" "find_ticket ''TKT-1'' d2 = Some ?t2"
    using stale_update_wins [OF one_desk_ok t c1 c2 k1 k2, of "desk_env 2000 ''x''" "desk_env 2001 ''y''"]
    by (auto simp: desk_env_def)
  moreover have "tk_status ?t2 = StatusOpen" "tk_status ?t1 = StatusClosed" by (simp_all add: one_ticket_def)
  ultimately show ?thesis using c1 c2 by blast
qed

subsection \<open>Ticket numbers\<close>

lemma digits_of_snoc: "10 \<le> n \<Longrightarrow> digits_of n = digits_of (n div 10) @ [digit_char (n mod 10)]"
  by (subst digits_of.simps) simp

lemma fixed_digits_lpad:
  "n < 10 ^ w \<Longrightarrow> 0 < w \<Longrightarrow> length (digits_of n) \<le> w
     \<and> fixed_digits w n = replicate (w - length (digits_of n)) CHR ''0'' @ digits_of n"
proof (induction w arbitrary: n)
  case (Suc w)
  have "digit_char 0 = CHR ''0''" by code_simp
  then have zeros: "fixed_digits m 0 = replicate m CHR ''0''" for m
    by (induction m) (simp_all add: replicate_append_same)
  show ?case
  proof (cases "n < 10")
    case True
    then have "digits_of n = [digit_char n]" by (subst digits_of.simps) simp
    then show ?thesis using True zeros by simp
  next
    case False
    then have "n div 10 < 10 ^ w" "0 < w" using Suc.prems by (cases w; simp)+
    then show ?thesis using Suc.IH [of "n div 10"] digits_of_snoc [of n] False by simp
  qed
qed simp

lemma ticket_number_digits: "n < 1000000 \<Longrightarrow> lpad 6 CHR ''0'' (digits_of n) = fixed_digits 6 n"
  using fixed_digits_lpad [of n 6] by (auto simp: lpad_def)

lemma digits_of_long: "10 ^ w \<le> n \<Longrightarrow> w < length (digits_of n)"
proof (induction w arbitrary: n)
  case (Suc w)
  have "10 * 10 ^ w \<le> n" using Suc.prems by simp
  then have "10 ^ w \<le> n div 10" by (simp add: less_eq_div_iff_mult_less_eq mult.commute)
  moreover have "10 * 1 \<le> 10 * (10 :: nat) ^ w" by (rule mult_le_mono2) simp
  then have "10 \<le> n" using \<open>10 * 10 ^ w \<le> n\<close> by linarith
  ultimately show ?case using Suc.IH [of "n div 10"] digits_of_snoc [of n] by simp
qed simp

lemma created_now:
  "insert_ticket L x d = (Some y, d') \<Longrightarrow> tk_created x = t \<Longrightarrow>
     \<exists>x. tk_created x = t \<and> (\<exists>y. insert_ticket L x d = (Some y, d'))"
  by blast

text \<open>The numbers a sequence below a million gives on one day are different. From a million on lpad drops the last digit:
  ten consecutive values share a number, so the row of the next one is refused and no ticket can be created.\<close>

theorem ticket_numbers_run_out:
  "(n < 1000000 \<and> m < 1000000 \<and> ticket_number L t n = ticket_number L t m \<longrightarrow> n = m)
   \<and> (100000 \<le> k \<and> a < 9 \<and> ticket_seq d = 10 * k + a
       \<and> (\<exists>x \<in> set (tickets d). tk_number x = ticket_number L (te_now E) (ticket_seq d))
      \<longrightarrow> (\<forall>r. fst (handle_create_ticket L E agent q d) \<noteq> Inr r))"
proof (intro conjI impI)
  assume "n < 1000000 \<and> m < 1000000 \<and> ticket_number L t n = ticket_number L t m"
  then have small: "n < 1000000" "m < 1000000" and "lpad 6 CHR ''0'' (digits_of n) = lpad 6 CHR ''0'' (digits_of m)"
    by (simp_all add: ticket_number_def)
  then have "fixed_digits 6 n = fixed_digits 6 m" by (simp add: ticket_number_digits)
  then show "n = m" by (rule fixed_digits_inj) (use small in simp_all)
next
  assume a: "100000 \<le> k \<and> a < 9 \<and> ticket_seq d = 10 * k + a
       \<and> (\<exists>x \<in> set (tickets d). tk_number x = ticket_number L (te_now E) (ticket_seq d))"
  have split: "lpad 6 CHR ''0'' (digits_of (10 * k + b)) = take 6 (digits_of k)" if "b < 10" for b
  proof -
    have "digits_of (10 * k + b) = digits_of k @ [digit_char b]" using that a by (subst digits_of_snoc) auto
    moreover have "5 < length (digits_of k)" using digits_of_long [of 5 k] a by simp
    ultimately show ?thesis by (simp add: lpad_def)
  qed
  have same: "ticket_number L (te_now E) (Suc (ticket_seq d)) = ticket_number L (te_now E) (ticket_seq d)"
    using a split [of a] split [of "Suc a"] by (simp add: ticket_number_def)
  have refused: "fst (insert_ticket L x d) = None" if "tk_created x = te_now E" for x
    using a same that by (auto simp: insert_ticket_def Let_def list_ex_iff)
  show "\<forall>r. fst (handle_create_ticket L E agent q d) \<noteq> Inr r"
  proof (rule allI, rule notI)
    fix r assume "fst (handle_create_ticket L E agent q d) = Inr r"
    then obtain d' where "handle_create_ticket L E agent q d = (Inr r, d')" by (metis prod.collapse)
    then have "\<exists>x y. tk_created x = te_now E \<and> insert_ticket L x d = (Some y, d')"
      unfolding handle_create_ticket_def create_ticket_def need_agent_def ticket_user_arg_def Let_def
      by (auto split: if_splits elim!: created_now)
    then show False using refused by fastforce
  qed
qed

definition full_desk :: ticket_db where
  "full_desk = sample_desk\<lparr>tickets := [one_ticket\<lparr>tk_number := ticket_number sample_fmt 1000 1000000\<rparr>], ticket_seq := 1000000\<rparr>"

lemma ticket_numbers_run_out_witness:
  "fst (handle_create_ticket sample_fmt (desk_env 1000 ''x'') ''A1'' sample_complaint full_desk) \<noteq> Inr one_ticket
   \<and> fst (handle_create_ticket sample_fmt (desk_env 1000 ''x'') ''A1'' sample_complaint sample_desk)
       = Inr (one_ticket\<lparr>tk_id := ''x'', tk_number := ticket_number sample_fmt 1000 1\<rparr>)"
proof
  have "\<forall>r. fst (handle_create_ticket sample_fmt (desk_env 1000 ''x'') ''A1'' sample_complaint full_desk) \<noteq> Inr r"
    using ticket_numbers_run_out [of 0 0 sample_fmt 0 100000 0 full_desk "desk_env 1000 ''x''" "''A1''" sample_complaint]
    by (simp add: full_desk_def sample_desk_def desk_env_def)
  then show "fst (handle_create_ticket sample_fmt (desk_env 1000 ''x'') ''A1'' sample_complaint full_desk) \<noteq> Inr one_ticket" by blast
qed code_simp

subsection \<open>Listing\<close>

lemma filter_args_frame:
  assumes "filter_args L agent a d = (Inr f, d')"
  shows "0 < lf_limit f \<and> lf_limit f \<le> 100 \<and> (lf_status f = '''' \<or> valid_status (lf_status f))
    \<and> (lf_category f = '''' \<or> valid_category (lf_category f)) \<and> d' = d
    \<and> filter_args L agent (a\<lparr>ta_cursor := c\<rparr>) d = (Inr f, d)"
  using assms
  by (auto simp: filter_args_def enum_arg_def assignee_arg_def need_agent_def user_arg_def limit_arg_def split: if_splits)

lemma ticket_where_cursor: "ticket_where (f\<lparr>lf_cursor := k\<rparr>) = ticket_where f"
  by (rule ext) (simp add: ticket_where_def)

lemma handle_list_page:
  assumes F: "codec_ok F" "\<forall>t \<in> set (tickets d). parse_uuid F (tk_id t) = Some (tk_id t)"
    and E: "\<not> te_fault E TList" and args: "filter_args F agent a d = (Inr f, d)"
    and c: "c = None \<or> c \<in> Some ` tick_key ` set (ticket_rows f d)"
    and page: "ticket_list.page f c (nat (lf_limit f)) d = (rs, k)"
  shows "handle_list_tickets F E agent (a\<lparr>ta_cursor := cursor_of (history_cursor_text F) c\<rparr>) d =
    (Inr (rs, k \<noteq> None, cursor_of (history_cursor_text F) k), d)"
proof -
  note f = filter_args_frame [OF args]
  have texts: "decode_history_cursor F (history_cursor_text F (tick_key t)) = Some (tick_key t)
      \<and> history_cursor_text F (tick_key t) \<noteq> ''''" if "t \<in> set (ticket_rows f d)" for t
    using that F by (simp add: ticket_rows_def tick_key_def) (simp add: history_cursor_text_def codec_ok_def)
  have "cursor_arg (decode_history_cursor F) (cursor_of (history_cursor_text F) c) = (svc_return c :: _ desk)"
    using c texts by (intro cursor_arg_text) auto
  moreover have "clamp_limit (lf_limit f) = nat (lf_limit f)" using f [of "[]"] by (auto simp: clamp_limit_def max_limit_def)
  moreover have "cut_page n xs = ([], True) \<longleftrightarrow> n = 0 \<and> xs \<noteq> []" for n and xs :: "ticket list"
    by (cases n) (auto simp: cut_page_def)
  ultimately show ?thesis
    using f [of "cursor_of (history_cursor_text F) c"] E page
    by (auto simp: handle_list_tickets_def list_tickets_def svc_defs tk_read_def list_ticket_rows_def ticket_where_cursor
        ticket_list.page_def cursor_of_def Let_def split: prod.splits if_splits)
qed

lemma distinct_ticket_keys:
  assumes "desk_ok d"
  shows "distinct (map tick_key (ticket_rows f d))"
proof -
  have "distinct (map tick_key (tickets d))"
    using assms by (auto simp: desk_ok_def distinct_map inj_on_def tick_key_def)
  then have "distinct (map tick_key (filter (ticket_where f) (tickets d)))" by (rule distinct_map_filter)
  then show ?thesis by (simp add: ticket_rows_def distinct_map)
qed

text \<open>A client that follows the cursors of the ticket list sees every ticket that meets its filter once, newest first.\<close>

theorem ticket_pages_complete:
  assumes F: "codec_ok F" "\<forall>t \<in> set (tickets d). parse_uuid F (tk_id t) = Some (tk_id t)"
    and d: "desk_ok d" and E: "\<not> te_fault E TList" and args: "filter_args F agent a d = (Inr f, d)"
    and m: "length (ticket_rows f d) < m * nat (lf_limit f)"
  shows "concat (follow (\<lambda>c. reply_of (handle_list_tickets F E agent (a\<lparr>ta_cursor := c\<rparr>) d)) m '''') = ticket_rows f d"
proof -
  let ?h = "\<lambda>c. reply_of (handle_list_tickets F E agent (a\<lparr>ta_cursor := c\<rparr>) d)"
  have n: "0 < nat (lf_limit f)" using filter_args_frame [OF args] by simp
  have "follow ?h m (cursor_of (history_cursor_text F) None) = map (map id) (ticket_list.walk f m None (nat (lf_limit f)) d)"
    by (rule ticket_list.follow_walk) (use handle_list_page [OF F E args] n in \<open>auto simp: reply_of_def\<close>)
  then show ?thesis
    using ticket_list.walk_all [OF distinct_ticket_keys [OF d] n m] by (simp add: cursor_of_def)
qed

definition two_desk :: ticket_db where
  "two_desk = one_desk\<lparr>tickets := [one_ticket, one_ticket\<lparr>tk_id := ''t2'', tk_number := ''TKT-2'', tk_created := 2000\<rparr>]\<rparr>"

definition first_tickets :: ticket_args where
  "first_tickets = \<lparr>ta_status = ''open'', ta_category = '''', ta_assignee = '''', ta_user = '''', ta_limit = ''1'', ta_cursor = ''''\<rparr>"

lemma ticket_pages_complete_witness:
  "map tk_id (concat (follow (\<lambda>c. reply_of (handle_list_tickets sample_fmt (desk_env 3000 ''x'') ''A1''
      (first_tickets\<lparr>ta_cursor := c\<rparr>) two_desk)) 3 '''')) = [''t2'', ''t1'']"
proof -
  let ?f = "\<lparr>lf_status = ''OPEN'', lf_category = '''', lf_assignee = '''', lf_user = None, lf_limit = 1, lf_cursor = None\<rparr>"
  have ok: "desk_ok two_desk" by code_simp
  have args: "filter_args sample_fmt ''A1'' first_tickets two_desk = (Inr ?f, two_desk)" by code_simp
  have rows: "map tk_id (ticket_rows ?f two_desk) = [''t2'', ''t1'']" by code_simp
  have ids: "\<forall>t \<in> set (tickets two_desk). parse_uuid sample_fmt (tk_id t) = Some (tk_id t)"
    by (simp add: two_desk_def one_ticket_def one_desk_def sample_fmt_def lib.extend_def sample_lib_def)
  have "length (ticket_rows ?f two_desk) < 3 * nat (lf_limit ?f)"
    using arg_cong [OF rows, of length] by simp
  then show ?thesis
    using ticket_pages_complete [OF sample_codec_ok ids ok _ args, of "desk_env 3000 ''x''" 3] rows
    by (simp add: desk_env_def)
qed

end
