(* ===== verification/Agent_Store.thy ===== *)
theory Agent_Store
  imports Staff_Requests Auth_Service
begin

text \<open>
  The tables of the service desk (\<open>migrations/000026\<close>, \<open>27\<close>, \<open>32\<close> to \<open>37\<close>, \<open>41\<close>; the types of \<open>domain/cs\<close>) and the
  queries of \<open>repository/postgres/cs_session_repo.go\<close>, \<open>cs_terminal_repo.go\<close>, the registry of \<open>cs_repo.go\<close> and the insert of
  \<open>cs_audit_repo.go\<close>. Text is ASCII; a NULL text column reads as the empty string.
\<close>

subsection \<open>Errors\<close>

abbreviation AgentCredentialInvalid :: app_err where "AgentCredentialInvalid \<equiv> Coded 401 ''AGENT_CREDENTIAL_INVALID'' []"

abbreviation AgentPasswordNotSet :: app_err where "AgentPasswordNotSet \<equiv> Coded 422 ''AGENT_PASSWORD_NOT_SET'' []"

abbreviation AgentLocked :: "nat \<Rightarrow> app_err" where
  "AgentLocked s \<equiv> Coded 423 ''AGENT_LOCKED'' [(''retry_after_seconds'', JInt (int s))]"

abbreviation AgentPasswordWeak :: app_err where "AgentPasswordWeak \<equiv> Coded 422 ''AGENT_PASSWORD_WEAK'' []"

abbreviation AgentSessionInvalid :: app_err where "AgentSessionInvalid \<equiv> Coded 401 ''AGENT_SESSION_INVALID'' []"

abbreviation AgentSessionNotFound :: app_err where "AgentSessionNotFound \<equiv> Coded 404 ''AGENT_SESSION_NOT_FOUND'' []"

abbreviation TerminalNotFound :: app_err where "TerminalNotFound \<equiv> Coded 404 ''TERMINAL_NOT_FOUND'' []"

abbreviation TerminalAlreadyRegistered :: app_err where
  "TerminalAlreadyRegistered \<equiv> Coded 409 ''TERMINAL_ALREADY_REGISTERED'' []"

abbreviation TerminalNotReady :: "(string \<times> json) list \<Rightarrow> app_err" where
  "TerminalNotReady details \<equiv> Coded 422 ''TERMINAL_NOT_READY'' details"

abbreviation TerminalNotOnline :: app_err where "TerminalNotOnline \<equiv> Coded 422 ''TERMINAL_NOT_ONLINE'' []"

abbreviation TerminalAgentBusy :: app_err where "TerminalAgentBusy \<equiv> Coded 409 ''TERMINAL_AGENT_BUSY'' []"

abbreviation SupervisorTokenInvalid :: app_err where "SupervisorTokenInvalid \<equiv> Coded 401 ''SUPERVISOR_TOKEN_INVALID'' []"

abbreviation EmployeeInactive :: app_err where "EmployeeInactive \<equiv> Coded 422 ''EMPLOYEE_INACTIVE'' []"

abbreviation AgentAlreadyRegistered :: app_err where "AgentAlreadyRegistered \<equiv> Coded 409 ''AGENT_ALREADY_REGISTERED'' []"

abbreviation AgentNotFound :: app_err where "AgentNotFound \<equiv> Coded 404 ''AGENT_NOT_FOUND'' []"

abbreviation AgentSelfUpdate :: app_err where "AgentSelfUpdate \<equiv> Coded 403 ''AGENT_SELF_UPDATE'' []"

abbreviation AgentAuthUnavailable :: app_err where "AgentAuthUnavailable \<equiv> Coded 503 ''AGENT_AUTH_UNAVAILABLE'' []"

subsection \<open>Tables\<close>

record agent =
  ag_id :: string
  ag_name :: string
  ag_key_hash :: string
  ag_scopes :: "string list"
  ag_active :: bool
  ag_password :: string
  ag_password_set :: "time option"
  ag_failed :: nat
  ag_locked :: "time option"
  ag_updated :: time

record agent_session =
  as_id :: uuid
  as_hash :: string
  as_agent :: string
  as_terminal :: string
  as_shift :: string
  as_started :: time
  as_expires :: time
  as_ended :: "time option"
  as_reason :: string
  as_seen :: "time option"

record terminal =
  tm_id :: string
  tm_workstation :: string
  tm_location :: string
  tm_status :: string
  tm_by :: string
  tm_registered :: time
  tm_agent :: "string option"
  tm_activated :: "time option"
  tm_updated :: time

record gate_record =
  gr_session :: uuid
  gr_gate :: string
  gr_passed :: time
  gr_expires :: time
  gr_ref :: string
  gr_supervisor :: string
  gr_details :: json

record supervisor =
  sv_id :: string
  sv_name :: string
  sv_location :: string
  sv_token_hash :: string
  sv_active :: bool

record audit_event =
  ev_id :: uuid
  ev_type :: string
  ev_actor :: string
  ev_terminal :: string
  ev_session :: "uuid option"
  ev_details :: json
  ev_ip :: string
  ev_client :: string
  ev_at :: time

record cs_db =
  agents :: "agent list"
  agent_sessions :: "agent_session list"
  terminals :: "terminal list"
  gates :: "gate_record list"
  supervisors :: "supervisor list"
  audit_events :: "audit_event list"

abbreviation TerminalRegistered :: string where "TerminalRegistered \<equiv> ''REGISTERED''"

abbreviation TerminalReady :: string where "TerminalReady \<equiv> ''READY''"

abbreviation TerminalOnline :: string where "TerminalOnline \<equiv> ''ONLINE''"

abbreviation TerminalOffline :: string where "TerminalOffline \<equiv> ''OFFLINE''"

abbreviation GateSupervisorAuth :: string where "GateSupervisorAuth \<equiv> ''SUPERVISOR_AUTH''"

abbreviation GateDeviceHealth :: string where "GateDeviceHealth \<equiv> ''DEVICE_HEALTHCHECK''"

abbreviation GatePIIAck :: string where "GatePIIAck \<equiv> ''PII_ACK''"

definition all_gates :: "string list" where
  "all_gates = [GateSupervisorAuth, GateDeviceHealth, GatePIIAck]"

definition all_scopes :: "string list" where
  "all_scopes = [''VIDEO_CALL'', ''CARD_ADMIN'', ''CUSTOMER_PII'', ''TICKET'', ''AUDIT_READ'', ''ESCALATION_REVIEW'']"

definition valid_scope :: "string \<Rightarrow> bool" where
  "valid_scope s \<longleftrightarrow> list_ex (\<lambda>c. c = s) all_scopes"

definition shift_ttl :: time where "shift_ttl = hours 9"

definition min_password_len :: nat where "min_password_len = 12"

definition max_password_len :: nat where "max_password_len = 128"

definition max_failed_logins :: nat where "max_failed_logins = 5"

definition login_lockout :: time where "login_lockout = minutes 15"

definition gate_ttl :: time where "gate_ttl = hours 8"

subsection \<open>The environment of a request\<close>

text \<open>
  A terminal is looked up and its gates are read up to three times in a request: for the gate that was just recorded, for the answer
  of the handler, and after an activation; each may fail on its own.
\<close>

datatype cs_query = CFindLogin | CRecordFailure | CClearFailures | CSetPassword | CCreateSession | CFindToken | CFindLive
  | CEndSession | CFindTerminal | CFindTerminalReply | CFindTerminalAfter | CListGates | CListGatesReply | CUpsertGate | CSetStatus
  | CActivate | CDeactivate | CRegisterTerminal | CSupervisor | CListSupervisors | CFindAgentKey | CRegisterAgent | CUpdateAgent
  | CAudit

record hris_employee =
  hr_id :: string
  hr_name :: string
  hr_position :: string
  hr_branch :: string
  hr_active :: bool

text \<open>
  Two clocks: that of the process and that of the database, which decides whether a session has expired. Then a fresh id and one for
  the audit row, a random token and three random bytes in upper-case hexadecimal (None when the source of randomness fails), a salted
  hash, the directory of employees, the address and the name of the client.
\<close>

record cs_env =
  ce_now :: time
  ce_db_now :: time
  ce_id :: uuid
  ce_audit_id :: uuid
  ce_token :: "string option"
  ce_hex :: "string option"
  ce_hash :: "string \<Rightarrow> string option"
  ce_hris :: "string \<Rightarrow> app_err + hris_employee"
  ce_ip :: string
  ce_client :: string
  ce_fault :: "cs_query \<Rightarrow> bool"

record cs_lib = lib +
  check_password :: "string \<Rightarrow> string \<Rightarrow> bool option"

type_synonym 'a office = "(cs_db, 'a) svc"

definition cs_read :: "cs_env \<Rightarrow> cs_query \<Rightarrow> (cs_db \<Rightarrow> 'a) \<Rightarrow> 'a office" where
  "cs_read E q f d = (if ce_fault E q then (Inl InternalError, d) else (Inr (f d), d))"

text \<open>A statement, or a transaction, that writes or says why it does not.\<close>

definition cs_write :: "cs_env \<Rightarrow> cs_query \<Rightarrow> (cs_db \<Rightarrow> app_err + ('a \<times> cs_db)) \<Rightarrow> 'a office" where
  "cs_write E q f d = (if ce_fault E q then (Inl InternalError, d) else
     (case f d of Inl e \<Rightarrow> (Inl e, d) | Inr (x, d') \<Rightarrow> (Inr x, d')))"

text \<open>One whose failure is only logged.\<close>

definition cs_try :: "cs_env \<Rightarrow> cs_query \<Rightarrow> (cs_db \<Rightarrow> app_err + ('a \<times> cs_db)) \<Rightarrow> 'a option office" where
  "cs_try E q f d = (if ce_fault E q then (Inr None, d) else
     (case f d of Inl e \<Rightarrow> (Inr None, d) | Inr (x, d') \<Rightarrow> (Inr (Some x), d')))"

lemma cs_simps [simp]:
  "cs_read E q f d = (Inr a, d') \<longleftrightarrow> \<not> ce_fault E q \<and> a = f d \<and> d' = d"
  "cs_read E q f d = (Inl e, d') \<longleftrightarrow> ce_fault E q \<and> e = InternalError \<and> d' = d"
  "cs_write E q g d = (Inr x, d') \<longleftrightarrow> \<not> ce_fault E q \<and> g d = Inr (x, d')"
  "cs_write E q g d = (Inl e, d') \<longleftrightarrow> d' = d \<and> (if ce_fault E q then e = InternalError else g d = Inl e)"
  "cs_try E q g d = (Inl e, d') \<longleftrightarrow> False"
  "cs_try E q g d = (Inr (Some x), d') \<longleftrightarrow> \<not> ce_fault E q \<and> g d = Inr (x, d')"
  "cs_try E q g d = (Inr None, d') \<longleftrightarrow> d' = d \<and> (ce_fault E q \<or> (\<exists>e. g d = Inl e))"
  by (auto simp: cs_read_def cs_write_def cs_try_def split: sum.splits prod.splits)

subsection \<open>Agents\<close>

definition find_agent :: "string \<Rightarrow> cs_db \<Rightarrow> agent option" where
  "find_agent e d = find (\<lambda>a. ag_id a = e \<and> ag_active a) (agents d)"

definition map_agents :: "(agent \<Rightarrow> bool) \<Rightarrow> (agent \<Rightarrow> agent) \<Rightarrow> cs_db \<Rightarrow> cs_db" where
  "map_agents P f d = d\<lparr>agents := update_where P f (agents d)\<rparr>"

text \<open>\<open>SetPassword\<close> also empties the lock.\<close>

definition set_agent_password :: "time \<Rightarrow> string \<Rightarrow> string \<Rightarrow> cs_db \<Rightarrow> app_err + (unit \<times> cs_db)" where
  "set_agent_password t e h d = (if find_agent e d = None then Inl InternalError
     else Inr ((), map_agents (\<lambda>a. ag_id a = e \<and> ag_active a)
       (\<lambda>a. a\<lparr>ag_password := h, ag_password_set := Some t, ag_failed := 0, ag_locked := None, ag_updated := t\<rparr>) d))"

definition failed_login :: "time \<Rightarrow> agent \<Rightarrow> agent" where
  "failed_login t a = a\<lparr>ag_failed := ag_failed a + 1,
     ag_locked := (if max_failed_logins \<le> ag_failed a + 1 then Some (t + login_lockout) else ag_locked a), ag_updated := t\<rparr>"

text \<open>\<open>RecordLoginFailure\<close>: one UPDATE, \<open>RETURNING locked_until\<close>; no row is no lock.\<close>

definition record_login_failure :: "time \<Rightarrow> string \<Rightarrow> cs_db \<Rightarrow> app_err + (time option \<times> cs_db)" where
  "record_login_failure t e d = (case find_agent e d of None \<Rightarrow> Inr (None, d)
     | Some a \<Rightarrow> Inr (ag_locked (failed_login t a), map_agents (\<lambda>a. ag_id a = e \<and> ag_active a) (failed_login t) d))"

definition clear_login_failures :: "string \<Rightarrow> cs_db \<Rightarrow> app_err + (unit \<times> cs_db)" where
  "clear_login_failures e d = Inr ((), map_agents (\<lambda>a. ag_id a = e \<and> 0 < ag_failed a) (\<lambda>a. a\<lparr>ag_failed := 0, ag_locked := None\<rparr>) d)"

text \<open>\<open>AuthenticateAgent\<close>: the outer None is a failed check of the hash.\<close>

definition authenticate_agent :: "('l) cs_lib_scheme \<Rightarrow> string \<Rightarrow> string \<Rightarrow> cs_db \<Rightarrow> agent option option" where
  "authenticate_agent L e key d = (if e = '''' \<or> key = '''' then Some None
     else case find_agent e d of None \<Rightarrow> Some None
     | Some a \<Rightarrow> (case check_password L key (ag_key_hash a) of None \<Rightarrow> None | Some ok \<Rightarrow> Some (if ok then Some a else None)))"

text \<open>The CHECK on the scopes, the widths, then the primary key.\<close>

definition register_agent_row :: "time \<Rightarrow> string \<Rightarrow> string \<Rightarrow> string \<Rightarrow> string list \<Rightarrow> cs_db \<Rightarrow> app_err + (unit \<times> cs_db)" where
  "register_agent_row t e name h scopes d =
     (if 32 < List.length e \<or> 128 < List.length name \<or> scopes = [] \<or> \<not> list_all valid_scope scopes then Inl InternalError
      else if list_ex (\<lambda>a. ag_id a = e) (agents d) then Inl AgentAlreadyRegistered
      else Inr ((), d\<lparr>agents := agents d @ [\<lparr>ag_id = e, ag_name = name, ag_key_hash = h, ag_scopes = scopes, ag_active = True,
        ag_password = '''', ag_password_set = None, ag_failed = 0, ag_locked = None, ag_updated = t\<rparr>]\<rparr>))"

text \<open>\<open>Update\<close>: the row before, under its lock, and the row after.\<close>

definition update_agent_row ::
    "time \<Rightarrow> string \<Rightarrow> string list option \<Rightarrow> bool option \<Rightarrow> cs_db \<Rightarrow> app_err + ((agent \<times> agent) \<times> cs_db)" where
  "update_agent_row t e scopes active d =
     (case find (\<lambda>a. ag_id a = e) (agents d) of None \<Rightarrow> Inl AgentNotFound
      | Some a \<Rightarrow>
        (let f = (\<lambda>a. a\<lparr>ag_scopes := (case scopes of None \<Rightarrow> ag_scopes a | Some s \<Rightarrow> s),
             ag_active := (case active of None \<Rightarrow> ag_active a | Some b \<Rightarrow> b), ag_updated := t\<rparr>) in
         if ag_scopes (f a) = [] \<or> \<not> list_all valid_scope (ag_scopes (f a)) then Inl ValidationError
         else Inr ((a, f a), map_agents (\<lambda>a. ag_id a = e) f d)))"

subsection \<open>Sessions of agents\<close>

text \<open>\<open>Create\<close>: one transaction ends the live session of the agent and opens the new one.\<close>

definition supersede :: "agent_session \<Rightarrow> cs_db \<Rightarrow> cs_db" where
  "supersede s d = d\<lparr>agent_sessions := update_where (\<lambda>x. as_agent x = as_agent s \<and> as_ended x = None)
     (\<lambda>x. x\<lparr>as_ended := Some (as_started s), as_reason := ''SUPERSEDED''\<rparr>) (agent_sessions d)\<rparr>"

definition create_agent_session :: "agent_session \<Rightarrow> cs_db \<Rightarrow> app_err + (unit \<times> cs_db)" where
  "create_agent_session s d =
     (let d1 = supersede s d in
      if list_ex (\<lambda>x. as_id x = as_id s \<or> as_hash x = as_hash s \<or> (as_agent x = as_agent s \<and> as_ended x = None)) (agent_sessions d1)
        \<or> \<not> list_ex (\<lambda>a. ag_id a = as_agent s) (agents d1) \<or> \<not> list_ex (\<lambda>t. tm_id t = as_terminal s) (terminals d1)
        \<or> 32 < List.length (as_shift s)
      then Inl InternalError else Inr ((), d1\<lparr>agent_sessions := agent_sessions d1 @ [s]\<rparr>))"

record session_context =
  sc_session :: uuid
  sc_agent :: string
  sc_name :: string
  sc_scopes :: "string list"
  sc_terminal :: string
  sc_expires :: time

definition find_by_token :: "time \<Rightarrow> string \<Rightarrow> cs_db \<Rightarrow> session_context option" where
  "find_by_token t h d =
     (case find (\<lambda>s. as_hash s = h \<and> as_ended s = None \<and> t < as_expires s) (agent_sessions d) of None \<Rightarrow> None
      | Some s \<Rightarrow> (case find_agent (as_agent s) d of None \<Rightarrow> None
        | Some a \<Rightarrow> Some \<lparr>sc_session = as_id s, sc_agent = as_agent s, sc_name = ag_name a, sc_scopes = ag_scopes a,
            sc_terminal = as_terminal s, sc_expires = as_expires s\<rparr>))"

definition find_live_session :: "time \<Rightarrow> string \<Rightarrow> cs_db \<Rightarrow> agent_session option" where
  "find_live_session t e d = find (\<lambda>s. as_agent s = e \<and> as_ended s = None \<and> t < as_expires s) (agent_sessions d)"

text \<open>Whether a row was updated.\<close>

definition end_agent_session :: "time \<Rightarrow> uuid \<Rightarrow> string \<Rightarrow> cs_db \<Rightarrow> app_err + (bool \<times> cs_db)" where
  "end_agent_session t i reason d =
     Inr (list_ex (\<lambda>s. as_id s = i \<and> as_ended s = None) (agent_sessions d),
       d\<lparr>agent_sessions := update_where (\<lambda>s. as_id s = i \<and> as_ended s = None)
         (\<lambda>s. s\<lparr>as_ended := Some t, as_reason := reason\<rparr>) (agent_sessions d)\<rparr>)"

subsection \<open>Terminals, gates and supervisors\<close>

definition find_terminal :: "string \<Rightarrow> cs_db \<Rightarrow> terminal option" where
  "find_terminal i d = find (\<lambda>t. tm_id t = i) (terminals d)"

definition map_terminals :: "(terminal \<Rightarrow> bool) \<Rightarrow> (terminal \<Rightarrow> terminal) \<Rightarrow> cs_db \<Rightarrow> cs_db" where
  "map_terminals P f d = d\<lparr>terminals := update_where P f (terminals d)\<rparr>"

definition register_terminal_row :: "terminal \<Rightarrow> cs_db \<Rightarrow> app_err + (unit \<times> cs_db)" where
  "register_terminal_row t d =
     (if 40 < List.length (tm_id t) \<or> 64 < List.length (tm_workstation t) \<or> 128 < List.length (tm_location t)
        \<or> 32 < List.length (tm_by t) then Inl InternalError
      else if list_ex (\<lambda>x. tm_id x = tm_id t) (terminals d) then Inl TerminalAlreadyRegistered
      else Inr ((), d\<lparr>terminals := terminals d @ [t]\<rparr>))"

text \<open>\<open>Activate\<close>: the partial unique index allows an agent one terminal that is online.\<close>

definition activate_terminal :: "time \<Rightarrow> string \<Rightarrow> string \<Rightarrow> cs_db \<Rightarrow> app_err + (unit \<times> cs_db)" where
  "activate_terminal t i e d =
     (if find_terminal i d = None then Inl TerminalNotFound
      else if list_ex (\<lambda>x. tm_id x \<noteq> i \<and> tm_status x = TerminalOnline \<and> tm_agent x = Some e) (terminals d) then Inl TerminalAgentBusy
      else if \<not> list_ex (\<lambda>a. ag_id a = e) (agents d) then Inl InternalError
      else Inr ((), map_terminals (\<lambda>x. tm_id x = i)
        (\<lambda>x. x\<lparr>tm_status := TerminalOnline, tm_agent := Some e, tm_activated := Some t, tm_updated := t\<rparr>) d))"

definition deactivate_terminal :: "time \<Rightarrow> string \<Rightarrow> cs_db \<Rightarrow> app_err + (bool \<times> cs_db)" where
  "deactivate_terminal t i d =
     Inr (list_ex (\<lambda>x. tm_id x = i \<and> tm_status x \<noteq> TerminalOffline) (terminals d),
       map_terminals (\<lambda>x. tm_id x = i \<and> tm_status x \<noteq> TerminalOffline)
        (\<lambda>x. x\<lparr>tm_status := TerminalOffline, tm_agent := None, tm_activated := None, tm_updated := t\<rparr>) d)"

text \<open>An ONLINE status needs its agent and its time.\<close>

definition online_has_agent :: "terminal \<Rightarrow> bool" where
  "online_has_agent t \<longleftrightarrow> tm_status t = TerminalOnline \<longrightarrow> tm_agent t \<noteq> None \<and> tm_activated t \<noteq> None"

definition set_terminal_status :: "time \<Rightarrow> string \<Rightarrow> string \<Rightarrow> cs_db \<Rightarrow> app_err + (unit \<times> cs_db)" where
  "set_terminal_status t i s d =
     (case find_terminal i d of None \<Rightarrow> Inl TerminalNotFound
      | Some x \<Rightarrow> if s \<in> {TerminalRegistered, TerminalReady, TerminalOnline, TerminalOffline} \<and> online_has_agent (x\<lparr>tm_status := s\<rparr>)
          then Inr ((), map_terminals (\<lambda>x. tm_id x = i) (\<lambda>x. x\<lparr>tm_status := s, tm_updated := t\<rparr>) d) else Inl InternalError)"

text \<open>\<open>ON CONFLICT (session_id, gate) DO UPDATE\<close>\<close>

definition upsert_gate :: "gate_record \<Rightarrow> cs_db \<Rightarrow> app_err + (unit \<times> cs_db)" where
  "upsert_gate g d =
     (if \<not> list_ex (\<lambda>s. as_id s = gr_session g) (agent_sessions d) \<or> gr_gate g \<notin> set all_gates
        \<or> (gr_gate g = GateSupervisorAuth \<and> (gr_supervisor g = '''' \<or> gr_ref g = ''''))
        \<or> (gr_supervisor g \<noteq> '''' \<and> \<not> list_ex (\<lambda>v. sv_id v = gr_supervisor g) (supervisors d))
        \<or> 32 < List.length (gr_ref g) then Inl InternalError
      else if list_ex (\<lambda>x. gr_session x = gr_session g \<and> gr_gate x = gr_gate g) (gates d)
        then Inr ((), d\<lparr>gates := update_where (\<lambda>x. gr_session x = gr_session g \<and> gr_gate x = gr_gate g) (\<lambda>_. g) (gates d)\<rparr>)
      else Inr ((), d\<lparr>gates := gates d @ [g]\<rparr>))"

definition list_gates :: "uuid \<Rightarrow> cs_db \<Rightarrow> gate_record list" where
  "list_gates i d = filter (\<lambda>g. gr_session g = i) (gates d)"

definition list_supervisors :: "string \<Rightarrow> cs_db \<Rightarrow> supervisor list" where
  "list_supervisors loc d = sort_key sv_name (filter (\<lambda>v. sv_active v \<and> (loc = '''' \<or> sv_location v = loc)) (supervisors d))"

text \<open>\<open>Authenticate\<close>: the name, if the token is right; the outer None is a failed check of the hash.\<close>

definition authenticate_supervisor :: "('l) cs_lib_scheme \<Rightarrow> string \<Rightarrow> string \<Rightarrow> cs_db \<Rightarrow> string option option" where
  "authenticate_supervisor L i tok d = (if i = '''' \<or> tok = '''' then Some None
     else case find (\<lambda>v. sv_id v = i \<and> sv_active v) (supervisors d) of None \<Rightarrow> Some None
     | Some v \<Rightarrow> (case check_password L tok (sv_token_hash v) of None \<Rightarrow> None | Some ok \<Rightarrow> Some (if ok then Some (sv_name v) else None)))"

subsection \<open>The audit trail\<close>

definition audit_types :: "string list" where
  "audit_types = [''AGENT_REGISTERED'', ''AGENT_UPDATED'', ''AGENT_LOGIN'', ''AGENT_LOGIN_FAILED'', ''AGENT_LOGOUT'', ''AGENT_PASSWORD_SET'',
     ''SUPERVISOR_AUTHORIZED'', ''SUPERVISOR_AUTH_FAILED'', ''DEVICE_HEALTHCHECK'', ''PII_ACKNOWLEDGED'', ''TERMINAL_REGISTERED'',
     ''TERMINAL_ACTIVATED'', ''TERMINAL_DEACTIVATED'']"

definition insert_audit :: "audit_event \<Rightarrow> cs_db \<Rightarrow> app_err + (unit \<times> cs_db)" where
  "insert_audit v d =
     (if ev_type v \<in> set audit_types \<and> List.length (ev_actor v) \<le> 40 \<and> List.length (ev_terminal v) \<le> 40 \<and> List.length (ev_ip v) \<le> 45
        \<and> \<not> list_ex (\<lambda>x. ev_id x = ev_id v) (audit_events d)
      then Inr ((), d\<lparr>audit_events := audit_events d @ [v]\<rparr>) else Inl InternalError)"

text \<open>\<open>writeCSAudit\<close>: its failure is only logged.\<close>

definition write_audit :: "cs_env \<Rightarrow> string \<Rightarrow> string \<Rightarrow> string \<Rightarrow> uuid option \<Rightarrow> json \<Rightarrow> unit office" where
  "write_audit E ty actor term sess details =
     svc_bind (cs_try E CAudit (insert_audit \<lparr>ev_id = ce_audit_id E, ev_type = ty, ev_actor = actor, ev_terminal = term,
       ev_session = sess, ev_details = details, ev_ip = ce_ip E, ev_client = ce_client E, ev_at = ce_now E\<rparr>)) (\<lambda>_. svc_return ())"

end
