(* ===== verification/Agent_Sessions.thy ===== *)
theory Agent_Sessions
  imports Agent_Store
begin

text \<open>
  \<open>domain/cs/agent_session_service.go\<close>: login, logout, passwords, the check of a session token, and the registration and change of
  agents under dual control; the guards \<open>AgentAuth\<close>, \<open>AgentIdentity\<close> and \<open>AgentSession\<close> of
  \<open>middleware/internal_api_key.go\<close>. The collaborators are wired, as the router does.
\<close>

subsection \<open>Login\<close>

record agent_login_request =
  lg_employee :: string
  lg_password :: string
  lg_terminal :: string
  lg_shift :: string

record agent_login_reply =
  lr_token :: string
  lr_employee :: string
  lr_name :: string
  lr_scopes :: "string list"
  lr_terminal :: string
  lr_status :: string
  lr_started :: time
  lr_expires :: time
  lr_next :: string

text \<open>\<open>lockedError\<close>: whole seconds, and one more.\<close>

definition locked_error :: "time \<Rightarrow> app_err" where
  "locked_error remaining = AgentLocked (remaining div seconds 1 + 1)"

definition refuse_locked_agent :: "time \<Rightarrow> time option \<Rightarrow> unit office" where
  "refuse_locked_agent now l = (case l of None \<Rightarrow> svc_return ()
     | Some t \<Rightarrow> fail_if (now < t) (locked_error (t - now)))"

definition wrong_password :: "cs_env \<Rightarrow> string \<Rightarrow> string \<Rightarrow> 'a office" where
  "wrong_password E employee term =
     svc_bind (cs_try E CRecordFailure (record_login_failure (ce_now E) employee)) (\<lambda>r.
       let l = (case r of None \<Rightarrow> None | Some x \<Rightarrow> x) in
       svc_seq (write_audit E ''AGENT_LOGIN_FAILED'' employee term None
         (JObj [(''reason'', JStr ''bad_password''), (''locked'', JBool (l \<noteq> None))]))
      (svc_seq (refuse_locked_agent (ce_now E) l) (svc_throw AgentCredentialInvalid)))"

definition hash_session_token :: "('l) lib_scheme \<Rightarrow> string \<Rightarrow> string" where
  "hash_session_token L tok = sha256_hex L tok"

definition new_session_token :: "('l) lib_scheme \<Rightarrow> cs_env \<Rightarrow> (string \<times> string) office" where
  "new_session_token L E = svc_bind (svc_option InternalError (ce_token E)) (\<lambda>t. svc_return (t, hash_session_token L t))"

text \<open>From the terminal on: the session, the cleared counter, the answer.\<close>

definition open_shift :: "('l) lib_scheme \<Rightarrow> cs_env \<Rightarrow> agent \<Rightarrow> string \<Rightarrow> string \<Rightarrow> string \<Rightarrow> agent_login_reply office" where
  "open_shift L E a employee term shift =
     svc_bind (cs_read E CFindTerminal (find_terminal term)) (\<lambda>t. case t of
       None \<Rightarrow> svc_seq (write_audit E ''AGENT_LOGIN_FAILED'' employee term None (JObj [(''reason'', JStr ''terminal_not_allowlisted'')]))
         (svc_throw TerminalNotFound)
     | Some terminal \<Rightarrow>
         svc_bind (new_session_token L E) (\<lambda>(tok, h).
         let s = \<lparr>as_id = ce_id E, as_hash = h, as_agent = employee, as_terminal = term, as_shift = trim_space shift,
             as_started = ce_now E, as_expires = ce_now E + shift_ttl, as_ended = None, as_reason = '''', as_seen = None\<rparr> in
         svc_seq (cs_write E CCreateSession (create_agent_session s))
        (svc_bind (cs_try E CClearFailures (clear_login_failures employee)) (\<lambda>_.
         svc_seq (write_audit E ''AGENT_LOGIN'' employee term (Some (as_id s)) (JObj [(''shift'', JStr (as_shift s))]))
        (svc_return \<lparr>lr_token = tok, lr_employee = employee, lr_name = ag_name a, lr_scopes = ag_scopes a, lr_terminal = term,
           lr_status = tm_status terminal, lr_started = as_started s, lr_expires = as_expires s, lr_next = ''TERMINAL_READINESS''\<rparr>)))))"

definition agent_login :: "('l) cs_lib_scheme \<Rightarrow> cs_env \<Rightarrow> agent_login_request \<Rightarrow> agent_login_reply office" where
  "agent_login L E q =
     (let employee = trim_space (lg_employee q); term = trim_space (lg_terminal q) in
      svc_seq (fail_if (employee = '''' \<or> lg_password q = '''' \<or> term = '''') ValidationError)
     (svc_bind (cs_read E CFindLogin (find_agent employee)) (\<lambda>rec. case rec of
        None \<Rightarrow> svc_seq (write_audit E ''AGENT_LOGIN_FAILED'' employee term None (JObj [(''reason'', JStr ''unknown_agent'')]))
          (svc_throw AgentCredentialInvalid)
      | Some a \<Rightarrow>
          svc_seq (refuse_locked_agent (ce_now E) (ag_locked a))
         (svc_seq (fail_if (ag_password a = '''') AgentPasswordNotSet)
         (svc_bind (svc_option InternalError (check_password L (lg_password q) (ag_password a))) (\<lambda>ok.
            if \<not> ok then wrong_password E employee term else open_shift L E a employee term (lg_shift q)))))))"

subsection \<open>Sessions\<close>

definition agent_logout :: "cs_env \<Rightarrow> session_context \<Rightarrow> unit office" where
  "agent_logout E s =
     svc_bind (cs_write E CEndSession (end_agent_session (ce_now E) (sc_session s) ''LOGOUT'')) (\<lambda>ended.
     svc_seq (fail_if (\<not> ended) AgentSessionNotFound)
    (svc_bind (if sc_terminal s \<noteq> '''' then cs_try E CDeactivate (deactivate_terminal (ce_now E) (sc_terminal s)) else svc_return None) (\<lambda>_.
     write_audit E ''AGENT_LOGOUT'' (sc_agent s) (sc_terminal s) (Some (sc_session s)) JNull)))"

definition resolve_session :: "('l) lib_scheme \<Rightarrow> cs_env \<Rightarrow> string \<Rightarrow> session_context office" where
  "resolve_session L E tok0 =
     (let tok = trim_space tok0 in
      svc_seq (fail_if (tok = '''') AgentSessionInvalid)
     (svc_bind (cs_read E CFindToken (find_by_token (ce_db_now E) (hash_session_token L tok))) (svc_option AgentSessionInvalid)))"

definition live_session :: "cs_env \<Rightarrow> string \<Rightarrow> agent_session option office" where
  "live_session E employee = cs_read E CFindLive (find_live_session (ce_db_now E) employee)"

text \<open>\<open>GET /auth/me\<close>: a failing query hides the session.\<close>

definition agent_me :: "cs_env \<Rightarrow> agent \<Rightarrow> (agent \<times> agent_session option) office" where
  "agent_me E a = svc_bind (cs_try E CFindLive (\<lambda>d. Inr (find_live_session (ce_db_now E) (ag_id a) d, d)))
     (\<lambda>s. svc_return (a, case s of None \<Rightarrow> None | Some x \<Rightarrow> x))"

text \<open>\<open>bearerToken\<close>\<close>

definition bearer_token :: "string \<Rightarrow> string option" where
  "bearer_token header =
     (if List.length header \<le> 7 \<or> \<not> equal_fold (take 7 header) ''bearer '' then None
      else let tok = trim_space (drop 7 header) in if tok = '''' then None else Some tok)"

definition with_agent_session ::
    "('l) lib_scheme \<Rightarrow> cs_env \<Rightarrow> string \<Rightarrow> (session_context \<Rightarrow> 'a office) \<Rightarrow> 'a office" where
  "with_agent_session L E header f =
     svc_bind (svc_option AgentSessionInvalid (bearer_token (trim_space header))) (\<lambda>tok. svc_bind (resolve_session L E tok) f)"

text \<open>\<open>agentGuard\<close>; no scope is \<open>AgentIdentity\<close>.\<close>

definition with_agent ::
    "('l) cs_lib_scheme \<Rightarrow> cs_env \<Rightarrow> string \<Rightarrow> string \<Rightarrow> string option \<Rightarrow> (agent \<Rightarrow> 'a office) \<Rightarrow> 'a office" where
  "with_agent L E employee0 key scope f d =
     (let employee = trim_space employee0 in
      if employee = '''' \<or> key = '''' then (Inl Forbidden, d)
      else if ce_fault E CFindAgentKey then (Inl AgentAuthUnavailable, d)
      else case authenticate_agent L employee key d of
        None \<Rightarrow> (Inl AgentAuthUnavailable, d)
      | Some None \<Rightarrow> (Inl Forbidden, d)
      | Some (Some a) \<Rightarrow> (case scope of
          None \<Rightarrow> f a d
        | Some s \<Rightarrow> if s \<in> set (ag_scopes a) then f a d else (Inl Forbidden, d)))"

subsection \<open>Passwords\<close>

definition set_password :: "('l) cs_lib_scheme \<Rightarrow> cs_env \<Rightarrow> string \<Rightarrow> string \<Rightarrow> string \<Rightarrow> unit office" where
  "set_password L E employee current new =
     svc_seq (fail_if (List.length new < min_password_len \<or> max_password_len < List.length new) AgentPasswordWeak)
    (svc_bind (cs_read E CFindLogin (find_agent employee)) (\<lambda>rec.
     svc_bind (svc_option AgentCredentialInvalid rec) (\<lambda>a.
     svc_seq (if ag_password a \<noteq> ''''
        then svc_seq (fail_if (current = '''') AgentCredentialInvalid)
         (svc_bind (svc_option InternalError (check_password L current (ag_password a))) (\<lambda>ok. fail_if (\<not> ok) AgentCredentialInvalid))
        else svc_return ())
    (svc_bind (svc_option InternalError (ce_hash E new)) (\<lambda>h.
     svc_seq (cs_write E CSetPassword (set_agent_password (ce_now E) employee h))
    (write_audit E ''AGENT_PASSWORD_SET'' employee '''' None (JObj [(''first_time'', JBool (ag_password a = ''''))])))))))"

subsection \<open>Registration and change of agents\<close>

record agent_registration =
  rg_employee :: string
  rg_scopes :: "string list"
  rg_supervisor :: string
  rg_token :: string

record agent_change =
  ch_scopes :: "string list option"
  ch_active :: "bool option"
  ch_supervisor :: string
  ch_token :: string

abbreviation ScopeUnknown :: "string \<Rightarrow> app_err" where
  "ScopeUnknown s \<equiv> Coded 422 ''SCOPE_UNKNOWN'' [(''scope'', JStr s), (''allowed'', JArr (map JStr all_scopes))]"

abbreviation ScopeEmpty :: app_err where "ScopeEmpty \<equiv> Coded 422 ''SCOPE_EMPTY'' []"

text \<open>Trimmed, in upper case, without duplicates; the first unknown one ends the request.\<close>

fun clean_scopes :: "string list \<Rightarrow> string list \<Rightarrow> app_err + string list" where
  "clean_scopes acc [] = Inr acc"
| "clean_scopes acc (raw # rs) =
     (let s = to_upper (trim_space raw) in
      if \<not> valid_scope s then Inl (ScopeUnknown s)
      else clean_scopes (if s \<in> set acc then acc else acc @ [s]) rs)"

text \<open>The dual control of a change of authority; a refused token is recorded.\<close>

definition signed_by :: "('l) cs_lib_scheme \<Rightarrow> cs_env \<Rightarrow> string \<Rightarrow> string \<Rightarrow> string \<Rightarrow> string \<Rightarrow> string \<Rightarrow> string office" where
  "signed_by L E purpose actor employee supervisor tok =
     svc_bind (cs_read E CSupervisor (authenticate_supervisor L supervisor tok)) (\<lambda>r.
     svc_bind (svc_option InternalError r) (\<lambda>name. case name of
       None \<Rightarrow> svc_seq (write_audit E ''SUPERVISOR_AUTH_FAILED'' (''agent:'' @ actor) '''' None
           (JObj [(''purpose'', JStr purpose), (''supervisor_id'', JStr supervisor), (''employee_id'', JStr employee)]))
         (svc_throw SupervisorTokenInvalid)
     | Some n \<Rightarrow> svc_return n))"

definition register_agent :: "('l) cs_lib_scheme \<Rightarrow> cs_env \<Rightarrow> agent_registration \<Rightarrow> string \<Rightarrow> (hris_employee \<times> string list \<times> string) office" where
  "register_agent L E q registrar =
     (let employee = trim_space (rg_employee q); supervisor = trim_space (rg_supervisor q) in
      svc_seq (fail_if (employee = '''' \<or> supervisor = '''' \<or> rg_token q = '''' \<or> rg_scopes q = []) ValidationError)
     (svc_bind (svc_sum (clean_scopes [] (rg_scopes q))) (\<lambda>scopes.
      svc_bind (svc_sum (ce_hris E employee)) (\<lambda>emp.
      svc_seq (fail_if (\<not> hr_active emp) EmployeeInactive)
     (svc_bind (signed_by L E ''AGENT_REGISTRATION'' registrar employee supervisor (rg_token q)) (\<lambda>name.
      svc_bind (new_session_token L E) (\<lambda>(key, _).
      svc_bind (svc_option InternalError (ce_hash E key)) (\<lambda>h.
      svc_seq (cs_write E CRegisterAgent (register_agent_row (ce_now E) (hr_id emp) (hr_name emp) h scopes))
     (svc_seq (write_audit E ''AGENT_REGISTERED'' (''agent:'' @ registrar) '''' None
        (JObj [(''employee_id'', JStr (hr_id emp)), (''scopes'', JArr (map JStr scopes)), (''supervisor_id'', JStr supervisor),
          (''supervisor_name'', JStr name), (''hris_branch'', JStr (hr_branch emp))]))
      (svc_return (emp, scopes, key)))))))))))"

text \<open>\<open>diffScopes\<close>\<close>

definition diff_scopes :: "string list \<Rightarrow> string list \<Rightarrow> string list \<times> string list" where
  "diff_scopes old new = (filter (\<lambda>s. s \<notin> set old) new, filter (\<lambda>s. s \<notin> set new) old)"

definition change_details :: "string \<Rightarrow> string \<Rightarrow> string \<Rightarrow> agent \<Rightarrow> agent \<Rightarrow> json" where
  "change_details employee supervisor name a b =
     (let (added, removed) = diff_scopes (ag_scopes a) (ag_scopes b) in
      JObj ([(''employee_id'', JStr employee), (''supervisor_id'', JStr supervisor), (''supervisor_name'', JStr name),
        (''scopes_before'', JArr (map JStr (ag_scopes a))), (''scopes_after'', JArr (map JStr (ag_scopes b)))]
        @ (if ag_active a \<noteq> ag_active b then [(''is_active_before'', JBool (ag_active a)), (''is_active_after'', JBool (ag_active b))] else [])
        @ (if added \<noteq> [] then [(''scopes_added'', JArr (map JStr added))] else [])
        @ (if removed \<noteq> [] then [(''scopes_removed'', JArr (map JStr removed))] else [])))"

definition scopes_arg :: "string list option \<Rightarrow> app_err + string list option" where
  "scopes_arg x = (case x of None \<Rightarrow> Inr None
     | Some raw \<Rightarrow> if raw = [] then Inl ScopeEmpty
         else (case clean_scopes [] raw of Inl e \<Rightarrow> Inl e | Inr s \<Rightarrow> Inr (Some s)))"

definition update_agent ::
    "('l) cs_lib_scheme \<Rightarrow> cs_env \<Rightarrow> string \<Rightarrow> agent_change \<Rightarrow> string \<Rightarrow> (agent \<times> string list \<times> string list) office" where
  "update_agent L E employee0 q updater =
     (let employee = trim_space employee0; supervisor = trim_space (ch_supervisor q) in
      svc_seq (fail_if (employee = '''' \<or> supervisor = '''' \<or> ch_token q = '''') ValidationError)
     (svc_seq (fail_if (ch_scopes q = None \<and> ch_active q = None) ValidationError)
     (svc_seq (fail_if (equal_fold employee (trim_space updater)) AgentSelfUpdate)
     (svc_bind (svc_sum (scopes_arg (ch_scopes q))) (\<lambda>scopes.
      svc_bind (signed_by L E ''AGENT_UPDATE'' updater employee supervisor (ch_token q)) (\<lambda>name.
      svc_bind (cs_write E CUpdateAgent (update_agent_row (ce_now E) employee scopes (ch_active q))) (\<lambda>(a, b).
      svc_seq (write_audit E ''AGENT_UPDATED'' (''agent:'' @ updater) '''' None (change_details employee supervisor name a b))
     (let (added, removed) = diff_scopes (ag_scopes a) (ag_scopes b) in svc_return (b, added, removed)))))))))"

end
