(* ===== verification/Terminals.thy ===== *)
theory Terminals
  imports Agent_Sessions
begin

text \<open>
  \<open>domain/cs/terminal_service.go\<close>: the terminals, the three gates before a terminal may go online, and the handlers of
  \<open>handler/cs_terminal_handler.go\<close> and \<open>cs_auth_handler.go\<close> with the guards the router puts before them.
\<close>

record terminal_request =
  tr_id :: string
  tr_workstation :: string
  tr_location :: string

record gate_state =
  gs_gate :: string
  gs_passed :: bool
  gs_passed_at :: "time option"
  gs_expires :: "time option"
  gs_expired :: bool
  gs_ref :: string
  gs_supervisor :: string
  gs_details :: json

record readiness_state =
  rd_terminal :: string
  rd_status :: string
  rd_session :: uuid
  rd_gates :: "gate_state list"
  rd_can_activate :: bool

record signature =
  sg_ref :: string
  sg_supervisor :: string
  sg_name :: string
  sg_at :: time
  sg_expires :: time

definition register_terminal :: "cs_env \<Rightarrow> terminal_request \<Rightarrow> string \<Rightarrow> terminal office" where
  "register_terminal E q by' =
     (let i = trim_space (tr_id q); ws = trim_space (tr_workstation q); loc = trim_space (tr_location q);
          t = \<lparr>tm_id = i, tm_workstation = ws, tm_location = loc, tm_status = TerminalRegistered, tm_by = by',
            tm_registered = ce_now E, tm_agent = None, tm_activated = None, tm_updated = ce_now E\<rparr> in
      svc_seq (fail_if (i = '''' \<or> ws = '''' \<or> loc = '''') ValidationError)
     (svc_seq (fail_if (40 < List.length i \<or> 64 < List.length ws \<or> 128 < List.length loc) ValidationError)
     (svc_seq (cs_write E CRegisterTerminal (register_terminal_row t))
     (svc_seq (write_audit E ''TERMINAL_REGISTERED'' by' i None (JObj [(''workstation'', JStr ws), (''location'', JStr loc)]))
     (svc_return t)))))"

definition get_terminal :: "cs_env \<Rightarrow> cs_query \<Rightarrow> string \<Rightarrow> terminal office" where
  "get_terminal E q i = svc_bind (cs_read E q (find_terminal i)) (svc_option TerminalNotFound)"

definition supervisors_at :: "cs_env \<Rightarrow> string \<Rightarrow> (string \<times> string \<times> string) list office" where
  "supervisors_at E loc = svc_bind (cs_read E CListSupervisors (list_supervisors (trim_space loc)))
     (\<lambda>vs. svc_return (map (\<lambda>v. (sv_id v, sv_name v, sv_location v)) vs))"

subsection \<open>Readiness\<close>

definition gate_state_of :: "time \<Rightarrow> gate_record list \<Rightarrow> string \<Rightarrow> gate_state" where
  "gate_state_of now rs g =
     (let blank = \<lparr>gs_gate = g, gs_passed = False, gs_passed_at = None, gs_expires = None, gs_expired = False, gs_ref = '''',
        gs_supervisor = '''', gs_details = JNull\<rparr> in
      case find (\<lambda>r. gr_gate r = g) (rev rs) of
        None \<Rightarrow> blank
      | Some r \<Rightarrow> if gr_expires r \<le> now
          then blank\<lparr>gs_expired := True, gs_passed_at := Some (gr_passed r), gs_expires := Some (gr_expires r)\<rparr>
          else blank\<lparr>gs_passed := True, gs_passed_at := Some (gr_passed r), gs_expires := Some (gr_expires r), gs_ref := gr_ref r,
            gs_supervisor := gr_supervisor r, gs_details := gr_details r\<rparr>)"

definition readiness_of :: "time \<Rightarrow> session_context \<Rightarrow> terminal \<Rightarrow> gate_record list \<Rightarrow> readiness_state" where
  "readiness_of now s t rs =
     (let gs = map (gate_state_of now rs) all_gates in
      \<lparr>rd_terminal = tm_id t, rd_status = tm_status t, rd_session = sc_session s, rd_gates = gs, rd_can_activate = list_all gs_passed gs\<rparr>)"

definition readiness :: "cs_env \<Rightarrow> cs_query \<Rightarrow> cs_query \<Rightarrow> session_context \<Rightarrow> readiness_state office" where
  "readiness E qt qg s =
     svc_bind (get_terminal E qt (sc_terminal s)) (\<lambda>t.
     svc_bind (cs_read E qg (list_gates (sc_session s))) (\<lambda>rs. svc_return (readiness_of (ce_now E) s t rs)))"

definition promote_if_ready :: "cs_env \<Rightarrow> session_context \<Rightarrow> unit office" where
  "promote_if_ready E s =
     svc_bind (readiness E CFindTerminal CListGates s) (\<lambda>st.
       if \<not> rd_can_activate st \<or> rd_status st = TerminalOnline \<or> rd_status st = TerminalReady then svc_return ()
       else cs_write E CSetStatus (set_terminal_status (ce_now E) (sc_terminal s) TerminalReady))"

text \<open>A gate passed now, recorded, and its effect on the status.\<close>

definition pass_gate :: "cs_env \<Rightarrow> session_context \<Rightarrow> string \<Rightarrow> string \<Rightarrow> string \<Rightarrow> json \<Rightarrow> unit office" where
  "pass_gate E s g ref supervisor details =
     svc_seq (cs_write E CUpsertGate (upsert_gate \<lparr>gr_session = sc_session s, gr_gate = g, gr_passed = ce_now E,
       gr_expires = ce_now E + gate_ttl, gr_ref = ref, gr_supervisor = supervisor, gr_details = details\<rparr>))
    (promote_if_ready E s)"

definition new_authorization_ref :: "cs_env \<Rightarrow> string office" where
  "new_authorization_ref E = svc_bind (svc_option InternalError (ce_hex E)) (\<lambda>h. svc_return (''BCA-AUTH-'' @ h))"

definition authorize_supervisor :: "('l) cs_lib_scheme \<Rightarrow> cs_env \<Rightarrow> session_context \<Rightarrow> string \<Rightarrow> string \<Rightarrow> signature office" where
  "authorize_supervisor L E s supervisor0 tok =
     (let supervisor = trim_space supervisor0 in
      svc_seq (fail_if (supervisor = '''' \<or> tok = '''') ValidationError)
     (svc_bind (cs_read E CSupervisor (authenticate_supervisor L supervisor tok)) (\<lambda>r.
      svc_bind (svc_option InternalError r) (\<lambda>name. case name of
        None \<Rightarrow> svc_seq (write_audit E ''SUPERVISOR_AUTH_FAILED'' (sc_agent s) (sc_terminal s) (Some (sc_session s))
            (JObj [(''supervisor_id'', JStr supervisor)]))
          (svc_throw SupervisorTokenInvalid)
      | Some n \<Rightarrow>
          svc_bind (new_authorization_ref E) (\<lambda>ref.
          svc_seq (pass_gate E s GateSupervisorAuth ref supervisor JNull)
         (svc_seq (write_audit E ''SUPERVISOR_AUTHORIZED'' supervisor (sc_terminal s) (Some (sc_session s))
            (JObj [(''authorization_ref'', JStr ref), (''authorized_agent'', JStr (sc_agent s))]))
         (svc_return \<lparr>sg_ref = ref, sg_supervisor = supervisor, sg_name = n, sg_at = ce_now E, sg_expires = ce_now E + gate_ttl\<rparr>)))))))"

definition record_healthcheck :: "cs_env \<Rightarrow> session_context \<Rightarrow> bool \<Rightarrow> json \<Rightarrow> unit office" where
  "record_healthcheck E s passed details =
     (let trail = write_audit E ''DEVICE_HEALTHCHECK'' (sc_agent s) (sc_terminal s) (Some (sc_session s))
        (JObj [(''passed'', JBool passed), (''details'', details)]) in
      if \<not> passed then svc_seq trail (svc_throw (TerminalNotReady []))
      else svc_seq (pass_gate E s GateDeviceHealth '''' '''' details) trail)"

definition acknowledge_pii :: "cs_env \<Rightarrow> session_context \<Rightarrow> bool \<Rightarrow> string \<Rightarrow> unit office" where
  "acknowledge_pii E s acknowledged version0 =
     (let version = trim_space version0; pact = JObj [(''pact_version'', JStr version)] in
      svc_seq (fail_if (\<not> acknowledged) ValidationError)
     (svc_seq (fail_if (version = '''') ValidationError)
     (svc_seq (pass_gate E s GatePIIAck '''' '''' pact)
     (write_audit E ''PII_ACKNOWLEDGED'' (sc_agent s) (sc_terminal s) (Some (sc_session s)) pact))))"

definition pending_gates :: "readiness_state \<Rightarrow> string list" where
  "pending_gates st = map gs_gate (filter (\<lambda>g. \<not> gs_passed g) (rd_gates st))"

definition activate :: "cs_env \<Rightarrow> session_context \<Rightarrow> terminal office" where
  "activate E s =
     svc_bind (readiness E CFindTerminal CListGates s) (\<lambda>st.
     svc_seq (fail_if (\<not> rd_can_activate st) (TerminalNotReady [(''pending_gates'', JArr (map JStr (pending_gates st)))]))
    (svc_seq (cs_write E CActivate (activate_terminal (ce_now E) (sc_terminal s) (sc_agent s)))
    (svc_seq (write_audit E ''TERMINAL_ACTIVATED'' (sc_agent s) (sc_terminal s) (Some (sc_session s)) JNull)
    (get_terminal E CFindTerminalAfter (sc_terminal s)))))"

definition deactivate :: "cs_env \<Rightarrow> session_context \<Rightarrow> unit office" where
  "deactivate E s =
     svc_bind (cs_write E CDeactivate (deactivate_terminal (ce_now E) (sc_terminal s))) (\<lambda>changed.
     svc_seq (fail_if (\<not> changed) TerminalNotFound)
    (write_audit E ''TERMINAL_DEACTIVATED'' (sc_agent s) (sc_terminal s) (Some (sc_session s)) JNull))"

text \<open>Rule 4, as the video calls ask it.\<close>

definition assert_online :: "cs_env \<Rightarrow> string \<Rightarrow> string \<Rightarrow> unit office" where
  "assert_online E i employee =
     svc_bind (get_terminal E CFindTerminal i) (\<lambda>t.
       fail_if (tm_status t \<noteq> TerminalOnline \<or> str_of (tm_agent t) \<noteq> employee) TerminalNotOnline)"

subsection \<open>Requests\<close>

text \<open>
  The requests with the credentials they carry: an employee id and an API key, or a header with a session token. The environment is
  that of the request.
\<close>

datatype cs_request =
    AgentLogin agent_login_request
  | AgentLogout string
  | AgentMe string string
  | SetAgentPassword string string string string
  | RegisterAgent string string agent_registration
  | UpdateAgent string string string agent_change
  | RegisterTerminal string string terminal_request
  | GetTerminal string
  | Readiness string
  | ListSupervisors string string
  | AuthorizeSupervisor string string string
  | Healthcheck string bool json
  | AcknowledgePII string bool string
  | Activate string
  | Deactivate string

definition reply_readiness :: "cs_env \<Rightarrow> session_context \<Rightarrow> readiness_state office" where
  "reply_readiness E s = readiness E CFindTerminalReply CListGatesReply s"

fun serve_cs :: "('l) cs_lib_scheme \<Rightarrow> cs_env \<Rightarrow> cs_request \<Rightarrow> cs_db \<Rightarrow> cs_db" where
  "serve_cs L E (AgentLogin q) d = snd (agent_login L E q d)"
| "serve_cs L E (AgentLogout h) d = snd (with_agent_session L E h (agent_logout E) d)"
| "serve_cs L E (AgentMe e k) d = snd (with_agent L E e k None (agent_me E) d)"
| "serve_cs L E (SetAgentPassword e k old new) d = snd (with_agent L E e k None (\<lambda>a. set_password L E (ag_id a) old new) d)"
| "serve_cs L E (RegisterAgent e k q) d = snd (with_agent L E e k None (\<lambda>a. register_agent L E q (ag_id a)) d)"
| "serve_cs L E (UpdateAgent e k who q) d = snd (with_agent L E e k None (\<lambda>a. update_agent L E who q (ag_id a)) d)"
| "serve_cs L E (RegisterTerminal e k q) d = snd (with_agent L E e k None (\<lambda>a. register_terminal E q (ag_id a)) d)"
| "serve_cs L E (GetTerminal i) d = snd (get_terminal E CFindTerminal i d)"
| "serve_cs L E (Readiness h) d = snd (with_agent_session L E h (reply_readiness E) d)"
| "serve_cs L E (ListSupervisors h loc) d = snd (with_agent_session L E h (\<lambda>_. supervisors_at E loc) d)"
| "serve_cs L E (AuthorizeSupervisor h v tok) d = snd (with_agent_session L E h (\<lambda>s. authorize_supervisor L E s v tok) d)"
| "serve_cs L E (Healthcheck h ok details) d =
     snd (with_agent_session L E h (\<lambda>s. svc_seq (record_healthcheck E s ok details) (reply_readiness E s)) d)"
| "serve_cs L E (AcknowledgePII h ok v) d =
     snd (with_agent_session L E h (\<lambda>s. svc_seq (acknowledge_pii E s ok v) (reply_readiness E s)) d)"
| "serve_cs L E (Activate h) d = snd (with_agent_session L E h (activate E) d)"
| "serve_cs L E (Deactivate h) d = snd (with_agent_session L E h (deactivate E) d)"

text \<open>A history: each request with its environment.\<close>

definition serve_all :: "('l) cs_lib_scheme \<Rightarrow> (cs_env \<times> cs_request) list \<Rightarrow> cs_db \<Rightarrow> cs_db" where
  "serve_all L cs d = fold (\<lambda>(E, c) d. serve_cs L E c d) cs d"

end
