(* ===== verification/Office_Tables.thy ===== *)
theory Office_Tables
  imports Terminals
begin

text \<open>
  The invariant of the tables of the service desk, and that every request keeps it: keys, one live session per agent, one terminal
  online per agent, who holds a terminal that is online, which agent and terminal a session belongs to, and gates that were passed
  eight hours before they expire.
\<close>

definition agent_row_ok :: "agent \<Rightarrow> bool" where
  "agent_row_ok a \<longleftrightarrow> ag_scopes a \<noteq> [] \<and> list_all valid_scope (ag_scopes a) \<and> (ag_password_set a = None \<longrightarrow> ag_password a = '''')"

definition agents_ok :: "agent list \<Rightarrow> bool" where
  "agents_ok as \<longleftrightarrow> distinct (map ag_id as) \<and> (\<forall>a \<in> set as. agent_row_ok a)"

definition unended :: "agent_session \<Rightarrow> bool" where
  "unended s \<longleftrightarrow> as_ended s = None"

definition session_row_ok :: "string set \<Rightarrow> string set \<Rightarrow> agent_session \<Rightarrow> bool" where
  "session_row_ok agent_ids terminal_ids s \<longleftrightarrow> as_agent s \<in> agent_ids \<and> as_terminal s \<in> terminal_ids
     \<and> (unended s \<longleftrightarrow> as_reason s = '''') \<and> as_expires s = as_started s + shift_ttl"

definition agent_sessions_ok :: "string set \<Rightarrow> string set \<Rightarrow> agent_session list \<Rightarrow> bool" where
  "agent_sessions_ok agent_ids terminal_ids ss \<longleftrightarrow> distinct (map as_id ss) \<and> distinct (map as_hash ss)
     \<and> distinct (map as_agent (filter unended ss)) \<and> (\<forall>s \<in> set ss. session_row_ok agent_ids terminal_ids s)"

definition online :: "terminal \<Rightarrow> bool" where
  "online t \<longleftrightarrow> tm_status t = TerminalOnline"

definition terminal_row_ok :: "terminal \<Rightarrow> bool" where
  "terminal_row_ok t \<longleftrightarrow> online_has_agent t \<and> tm_status t \<in> {TerminalRegistered, TerminalReady, TerminalOnline, TerminalOffline}"

definition terminals_ok :: "terminal list \<Rightarrow> bool" where
  "terminals_ok ts \<longleftrightarrow> distinct (map tm_id ts) \<and> distinct (map tm_agent (filter online ts)) \<and> (\<forall>t \<in> set ts. terminal_row_ok t)"

definition gate_row_ok :: "uuid set \<Rightarrow> string set \<Rightarrow> gate_record \<Rightarrow> bool" where
  "gate_row_ok session_ids supervisor_ids g \<longleftrightarrow> gr_session g \<in> session_ids \<and> gr_gate g \<in> set all_gates
     \<and> gr_expires g = gr_passed g + gate_ttl
     \<and> (gr_gate g = GateSupervisorAuth \<longrightarrow> gr_supervisor g \<in> supervisor_ids \<and> gr_ref g \<noteq> '''')"

definition gates_ok :: "uuid set \<Rightarrow> string set \<Rightarrow> gate_record list \<Rightarrow> bool" where
  "gates_ok session_ids supervisor_ids gs \<longleftrightarrow> distinct (map (\<lambda>g. (gr_session g, gr_gate g)) gs)
     \<and> (\<forall>g \<in> set gs. gate_row_ok session_ids supervisor_ids g)"

definition office_ok :: "cs_db \<Rightarrow> bool" where
  "office_ok d \<longleftrightarrow> agents_ok (agents d)
     \<and> agent_sessions_ok (ag_id ` set (agents d)) (tm_id ` set (terminals d)) (agent_sessions d)
     \<and> terminals_ok (terminals d) \<and> gates_ok (as_id ` set (agent_sessions d)) (sv_id ` set (supervisors d)) (gates d)"

lemma agent_sessions_ok_mono:
  "agent_sessions_ok A T ss \<Longrightarrow> A \<subseteq> A' \<Longrightarrow> T \<subseteq> T' \<Longrightarrow> agent_sessions_ok A' T' ss"
  unfolding agent_sessions_ok_def session_row_ok_def by blast

lemma gates_ok_mono: "gates_ok S V gs \<Longrightarrow> S \<subseteq> S' \<Longrightarrow> gates_ok S' V gs"
  unfolding gates_ok_def gate_row_ok_def by blast

subsection \<open>The statements\<close>

lemma agents_ok_update:
  assumes "agents_ok as" "\<And>a. ag_id (f a) = ag_id a" "\<And>a. a \<in> set as \<Longrightarrow> P a \<Longrightarrow> agent_row_ok a \<Longrightarrow> agent_row_ok (f a)"
  shows "agents_ok (update_where P f as)"
  using assms unfolding agents_ok_def ball_update_where by (simp add: map_update_where)

lemma office_map_agents:
  assumes "office_ok d" "\<And>a. ag_id (f a) = ag_id a" "\<And>a. a \<in> set (agents d) \<Longrightarrow> P a \<Longrightarrow> agent_row_ok a \<Longrightarrow> agent_row_ok (f a)"
  shows "office_ok (map_agents P f d)"
  using assms agents_ok_update [of "agents d" f P] by (simp add: office_ok_def map_agents_def image_update_where)

lemma office_map_terminals:
  assumes "office_ok d" "\<And>t. tm_id (f t) = tm_id t" "terminals_ok (update_where P f (terminals d))"
  shows "office_ok (map_terminals P f d)"
  using assms by (simp add: office_ok_def map_terminals_def image_update_where)

text \<open>A change of terminals that puts none online.\<close>

lemma terminals_ok_off:
  assumes ts: "terminals_ok ts" and id: "\<And>t. tm_id (f t) = tm_id t"
    and off: "\<And>t. t \<in> set ts \<Longrightarrow> P t \<Longrightarrow> tm_status (f t) \<in> {TerminalRegistered, TerminalReady, TerminalOffline}"
  shows "terminals_ok (update_where P f ts)"
proof -
  have row: "\<not> online (f t) \<and> terminal_row_ok (f t)" if "t \<in> set ts" "P t" for t
    using off [OF that] by (auto simp: online_def terminal_row_ok_def online_has_agent_def)
  have ids: "distinct (map tm_id (update_where P f ts))" using ts id by (simp add: terminals_ok_def map_update_where)
  have "distinct (map tm_agent (filter online (update_where P f ts)))"
    using ts row id by (intro distinct_where_update [where k = tm_id]) (auto simp: terminals_ok_def)
  then show ?thesis using ids ts row unfolding terminals_ok_def ball_update_where by simp
qed

lemma terminals_ok_activate:
  assumes ts: "terminals_ok ts" and free: "\<not> list_ex (\<lambda>x. tm_id x \<noteq> i \<and> tm_status x = TerminalOnline \<and> tm_agent x = Some e) ts"
    and f: "\<And>t. tm_id (f t) = tm_id t" "\<And>t. tm_agent (f t) = Some e" "\<And>t. tm_status (f t) = TerminalOnline"
      "\<And>t. tm_activated (f t) \<noteq> None"
  shows "terminals_ok (update_where (\<lambda>x. tm_id x = i) f ts)"
proof -
  have ids: "distinct (map tm_id (update_where (\<lambda>x. tm_id x = i) f ts))" using ts f(1) by (simp add: terminals_ok_def map_update_where)
  have row: "terminal_row_ok (f t)" for t using f by (simp add: terminal_row_ok_def online_has_agent_def)
  have "distinct (map tm_agent (filter online (update_where (\<lambda>x. tm_id x = i) f ts)))"
    using ts free f by (intro distinct_where_update [where k = tm_id]) (auto simp: terminals_ok_def list_ex_iff online_def split: if_splits)
  then show ?thesis using ids ts row unfolding terminals_ok_def ball_update_where by simp
qed

lemma office_terminals: "office_ok d \<Longrightarrow> terminals_ok (terminals d)"
  by (simp add: office_ok_def)

named_theorems office_laws \<open>the statements keep the invariant\<close>

lemma office_set_password [office_laws]:
  "office_ok d \<Longrightarrow> set_agent_password t e h d = Inr (x, d') \<Longrightarrow> office_ok d'"
  by (auto simp: set_agent_password_def agent_row_ok_def intro!: office_map_agents split: if_splits)

lemma office_login_failure [office_laws]:
  "office_ok d \<Longrightarrow> record_login_failure t e d = Inr (x, d') \<Longrightarrow> office_ok d'"
  by (auto simp: record_login_failure_def agent_row_ok_def failed_login_def intro!: office_map_agents split: option.splits)

lemma office_clear [office_laws]:
  "office_ok d \<Longrightarrow> clear_login_failures e d = Inr (x, d') \<Longrightarrow> office_ok d'"
  by (auto simp: clear_login_failures_def agent_row_ok_def intro!: office_map_agents)

lemma office_register_agent [office_laws]:
  assumes "office_ok d" "register_agent_row t e n h ss d = Inr (x, d')"
  shows "office_ok d'"
  using assms agent_sessions_ok_mono [of _ _ "agent_sessions d" "insert e (ag_id ` set (agents d))"]
  by (fastforce simp: register_agent_row_def office_ok_def agents_ok_def agent_row_ok_def list_ex_iff split: if_splits)

lemma office_update_agent [office_laws]:
  assumes "office_ok d" "update_agent_row t e ss b d = Inr (x, d')"
  shows "office_ok d'"
proof -
  obtain a where a: "find (\<lambda>a. ag_id a = e) (agents d) = Some a" using assms(2) by (auto simp: update_agent_row_def split: option.splits)
  let ?f = "\<lambda>a. a\<lparr>ag_scopes := (case ss of None \<Rightarrow> ag_scopes a | Some s \<Rightarrow> s),
             ag_active := (case b of None \<Rightarrow> ag_active a | Some b \<Rightarrow> b), ag_updated := t\<rparr>"
  have d': "d' = map_agents (\<lambda>a. ag_id a = e) ?f d" and fa: "ag_scopes (?f a) \<noteq> []" "list_all valid_scope (ag_scopes (?f a))"
    using assms(2) a by (auto simp: update_agent_row_def Let_def split: if_splits)
  have "r = a" if "r \<in> set (agents d)" "ag_id r = e" for r
    using distinct_key_unique [of ag_id "agents d" r a] find_Some_D [OF a] that assms(1) by (auto simp: office_ok_def agents_ok_def)
  then show ?thesis unfolding d' using fa by (intro office_map_agents [OF assms(1)]) (auto simp: agent_row_ok_def)
qed

lemma office_deactivate [office_laws]:
  "office_ok d \<Longrightarrow> deactivate_terminal t i d = Inr (x, d') \<Longrightarrow> office_ok d'"
  by (auto simp: deactivate_terminal_def intro!: office_map_terminals terminals_ok_off office_terminals)

lemma office_register_terminal [office_laws]:
  assumes d: "office_ok d" and t: "tm_status t = TerminalRegistered" and r: "register_terminal_row t d = Inr (x, d')"
  shows "office_ok d'"
proof -
  have d': "d' = d\<lparr>terminals := terminals d @ [t]\<rparr>" and new: "tm_id t \<notin> tm_id ` set (terminals d)"
    using r by (auto simp: register_terminal_row_def list_ex_iff split: if_splits)
  have "terminals_ok (terminals d @ [t])"
    using office_terminals [OF d] new t by (simp add: terminals_ok_def terminal_row_ok_def online_has_agent_def online_def)
  moreover have "agent_sessions_ok (ag_id ` set (agents d)) (insert (tm_id t) (tm_id ` set (terminals d))) (agent_sessions d)"
    by (rule agent_sessions_ok_mono) (use d in \<open>auto simp: office_ok_def\<close>)
  ultimately show ?thesis using d by (simp add: d' office_ok_def)
qed

lemma office_activate [office_laws]:
  assumes "office_ok d" "activate_terminal t i e d = Inr (x, d')"
  shows "office_ok d'"
  using assms by (auto simp: activate_terminal_def intro!: office_map_terminals terminals_ok_activate office_terminals split: if_splits)

lemma office_set_ready [office_laws]:
  "office_ok d \<Longrightarrow> set_terminal_status t i TerminalReady d = Inr (x, d') \<Longrightarrow> office_ok d'"
  by (auto simp: set_terminal_status_def intro!: office_map_terminals terminals_ok_off office_terminals split: option.splits if_splits)

lemma gates_ok_update:
  assumes gs: "gates_ok S V gs" and g: "gate_row_ok S V g"
  shows "gates_ok S V (update_where (\<lambda>x. gr_session x = gr_session g \<and> gr_gate x = gr_gate g) (\<lambda>_. g) gs)"
proof -
  have "map (\<lambda>g. (gr_session g, gr_gate g)) (update_where (\<lambda>x. gr_session x = gr_session g \<and> gr_gate x = gr_gate g) (\<lambda>_. g) gs)
      = map (\<lambda>g. (gr_session g, gr_gate g)) gs"
    by (simp add: update_where_def)
  then show ?thesis using gs g unfolding gates_ok_def ball_update_where by simp
qed

lemma office_upsert_gate [office_laws]:
  assumes d: "office_ok d" and g: "gr_expires g = gr_passed g + gate_ttl" and r: "upsert_gate g d = Inr (x, d')"
  shows "office_ok d'"
proof -
  let ?S = "as_id ` set (agent_sessions d)" and ?V = "sv_id ` set (supervisors d)"
  have ok: "gates_ok ?S ?V (gates d)" using d by (simp add: office_ok_def)
  have row: "gate_row_ok ?S ?V g"
    using r g by (auto simp: upsert_gate_def gate_row_ok_def list_ex_key split: if_splits)
  have "\<exists>gs. d' = d\<lparr>gates := gs\<rparr> \<and> gates_ok ?S ?V gs"
  proof (cases "list_ex (\<lambda>x. gr_session x = gr_session g \<and> gr_gate x = gr_gate g) (gates d)")
    case True
    then have "d' = d\<lparr>gates := update_where (\<lambda>x. gr_session x = gr_session g \<and> gr_gate x = gr_gate g) (\<lambda>_. g) (gates d)\<rparr>"
      using r by (simp add: upsert_gate_def split: if_splits)
    then show ?thesis using gates_ok_update [OF ok row] by blast
  next
    case False
    then have "d' = d\<lparr>gates := gates d @ [g]\<rparr>" using r by (simp add: upsert_gate_def split: if_splits)
    moreover have "gates_ok ?S ?V (gates d @ [g])" using ok row False by (auto simp: gates_ok_def list_ex_iff)
    ultimately show ?thesis by blast
  qed
  then show ?thesis using d by (auto simp: office_ok_def)
qed

lemma office_end_session [office_laws]:
  assumes d: "office_ok d" and why: "reason \<noteq> ''''" and r: "end_agent_session t i reason d = Inr (x, d')"
  shows "office_ok d'"
proof -
  let ?f = "\<lambda>s :: agent_session. s\<lparr>as_ended := Some t, as_reason := reason\<rparr>"
  let ?ss = "update_where (\<lambda>s. as_id s = i \<and> as_ended s = None) ?f (agent_sessions d)"
  have d': "d' = d\<lparr>agent_sessions := ?ss\<rparr>" using r by (simp add: end_agent_session_def)
  have ss: "agent_sessions_ok (ag_id ` set (agents d)) (tm_id ` set (terminals d)) (agent_sessions d)" using d by (simp add: office_ok_def)
  have ids: "map as_id ?ss = map as_id (agent_sessions d)" "map as_hash ?ss = map as_hash (agent_sessions d)"
    by (rule map_update_where; simp)+
  have "as_id ` set ?ss = as_id ` set (agent_sessions d)" by (rule image_update_where) simp
  moreover have "distinct (map as_agent (filter unended ?ss))"
    using ss by (intro distinct_where_update [where k = as_id]) (auto simp: agent_sessions_ok_def unended_def)
  moreover have "session_row_ok A T (?f s)" if "session_row_ok A T s" for A T s
    using that why by (simp add: session_row_ok_def unended_def)
  ultimately show ?thesis using d ss unfolding d' office_ok_def agent_sessions_ok_def
    by (simp add: ids ball_update_where)
qed

lemma office_create_session [office_laws]:
  assumes d: "office_ok d" and s: "as_ended s = None" "as_reason s = ''''" "as_expires s = as_started s + shift_ttl"
    and r: "create_agent_session s d = Inr (x, d')"
  shows "office_ok d'"
proof -
  let ?f = "\<lambda>x :: agent_session. x\<lparr>as_ended := Some (as_started s), as_reason := ''SUPERSEDED''\<rparr>"
  let ?ss = "update_where (\<lambda>x. as_agent x = as_agent s \<and> as_ended x = None) ?f (agent_sessions d)"
  let ?A = "ag_id ` set (agents d)" and ?T = "tm_id ` set (terminals d)"
  have d': "d' = d\<lparr>agent_sessions := ?ss @ [s]\<rparr>"
    and fresh: "as_id s \<notin> as_id ` set ?ss" "as_hash s \<notin> as_hash ` set ?ss" "as_agent s \<notin> as_agent ` set (filter unended ?ss)"
    using r by (auto simp: create_agent_session_def supersede_def Let_def list_ex_iff unended_def split: if_splits)
  have refs: "as_agent s \<in> ?A" "as_terminal s \<in> ?T"
    using r by (auto simp: create_agent_session_def supersede_def Let_def list_ex_key split: if_splits)
  have ss: "agent_sessions_ok ?A ?T (agent_sessions d)" using d by (simp add: office_ok_def)
  have ids: "map as_id ?ss = map as_id (agent_sessions d)" "map as_hash ?ss = map as_hash (agent_sessions d)"
    by (rule map_update_where; simp)+
  have im: "as_id ` set ?ss = as_id ` set (agent_sessions d)" "as_hash ` set ?ss = as_hash ` set (agent_sessions d)"
    by (rule image_update_where; simp)+
  have "distinct (map as_agent (filter unended ?ss))"
    using ss by (intro distinct_where_update [where k = as_id]) (auto simp: agent_sessions_ok_def unended_def)
  moreover have "session_row_ok ?A ?T (?f x)" if "session_row_ok ?A ?T x" for x
    using that by (simp add: session_row_ok_def unended_def)
  then have "\<forall>x \<in> set ?ss. session_row_ok ?A ?T x" using ss by (simp add: ball_update_where agent_sessions_ok_def)
  moreover have "session_row_ok ?A ?T s" using s refs by (simp add: session_row_ok_def unended_def)
  ultimately have "agent_sessions_ok ?A ?T (?ss @ [s])"
    using ss fresh ids im by (auto simp: agent_sessions_ok_def)
  moreover have "gates_ok (as_id ` set (?ss @ [s])) (sv_id ` set (supervisors d)) (gates d)"
    by (rule gates_ok_mono) (use d im in \<open>auto simp: office_ok_def\<close>)
  ultimately show ?thesis using d by (simp add: d' office_ok_def)
qed

lemma office_audit [office_laws]: "office_ok d \<Longrightarrow> insert_audit v d = Inr (x, d') \<Longrightarrow> office_ok d'"
  by (auto simp: insert_audit_def office_ok_def split: if_splits)

subsection \<open>The requests\<close>

lemma keeps_cs_read [keeps_intros]: "keeps P (cs_read E q f)"
  by (simp add: keeps_def cs_read_def)

lemma keeps_cs_write: "(\<And>d x d'. P d \<Longrightarrow> f d = Inr (x, d') \<Longrightarrow> P d') \<Longrightarrow> keeps P (cs_write E q f)"
  unfolding keeps_def cs_write_def by (auto split: if_splits sum.splits prod.splits)

lemma keeps_cs_try: "(\<And>d x d'. P d \<Longrightarrow> f d = Inr (x, d') \<Longrightarrow> P d') \<Longrightarrow> keeps P (cs_try E q f)"
  unfolding keeps_def cs_try_def by (auto split: if_splits sum.splits prod.splits)

lemma keeps_with_agent [keeps_intros]: "(\<And>a. keeps P (f a)) \<Longrightarrow> keeps P (with_agent L E e k scope f)"
  unfolding keeps_def with_agent_def Let_def by (auto split: if_splits option.splits)

lemma keeps_with_session [keeps_intros]: "(\<And>s. keeps P (f s)) \<Longrightarrow> keeps P (with_agent_session L E h f)"
  unfolding with_agent_session_def resolve_session_def by (rule keeps_intros | assumption)+

lemmas office_defs = agent_login_def open_shift_def wrong_password_def refuse_locked_agent_def new_session_token_def agent_logout_def
  agent_me_def set_password_def register_agent_def update_agent_def signed_by_def write_audit_def register_terminal_def get_terminal_def
  supervisors_at_def readiness_def promote_if_ready_def pass_gate_def new_authorization_ref_def authorize_supervisor_def
  record_healthcheck_def acknowledge_pii_def activate_def deactivate_def reply_readiness_def

lemma keeps_office:
  "keeps office_ok (agent_login L E q)" "keeps office_ok (agent_logout E s)" "keeps office_ok (agent_me E a)"
  "keeps office_ok (set_password L E e old new)" "keeps office_ok (register_agent L E rq e)" "keeps office_ok (update_agent L E who uq e)"
  "keeps office_ok (register_terminal E tq e)" "keeps office_ok (get_terminal E cq i)" "keeps office_ok (reply_readiness E s)"
  "keeps office_ok (supervisors_at E loc)" "keeps office_ok (authorize_supervisor L E s v tok)"
  "keeps office_ok (record_healthcheck E s ok details)" "keeps office_ok (acknowledge_pii E s ok version)"
  "keeps office_ok (activate E s)" "keeps office_ok (deactivate E s)"
  unfolding office_defs Let_def
  by (rule keeps_intros | rule keeps_cs_write | rule keeps_cs_try | erule office_laws [rotated -1] | assumption | rule refl | simp)+

lemma serve_cs_ok: "office_ok d \<Longrightarrow> office_ok (serve_cs L E c d)"
proof (cases c)
qed (simp_all add: keeps_snd keeps_with_agent keeps_with_session keeps_office keeps_seq)

lemma serve_all_ok: "office_ok d \<Longrightarrow> office_ok (serve_all L cs d)"
  unfolding serve_all_def by (induction cs arbitrary: d) (auto simp: serve_cs_ok)

lemma serve_all_snoc: "serve_all L (cs @ [(E, c)]) d = serve_cs L E c (serve_all L cs d)"
  by (simp add: serve_all_def)

lemma serve_all_append: "serve_all L (cs @ cs') d = serve_all L cs' (serve_all L cs d)"
  by (simp add: serve_all_def)

end
