(* ===== verification/Office_Frames.thy ===== *)
theory Office_Frames
  imports Office_Tables
begin

text \<open>
  What the requests leave alone: no request but an activation puts a terminal online, no request but a registration or a change of an
  agent touches the authority of agents, and a session that ended stays ended.
\<close>

subsection \<open>Terminals that go online\<close>

definition online_among :: "terminal set \<Rightarrow> cs_db \<Rightarrow> bool" where
  "online_among T d \<longleftrightarrow> set (filter online (terminals d)) \<subseteq> T"

named_theorems dark_laws \<open>statements that put no terminal online\<close>

lemma online_among_same: "online_among T d \<Longrightarrow> terminals d' = terminals d \<Longrightarrow> online_among T d'"
  by (simp add: online_among_def)

lemma dark_same [dark_laws]:
  "set_agent_password t e h d = Inr (x, d') \<Longrightarrow> online_among T d \<Longrightarrow> online_among T d'"
  "record_login_failure t e d = Inr (y, d') \<Longrightarrow> online_among T d \<Longrightarrow> online_among T d'"
  "clear_login_failures e d = Inr (x, d') \<Longrightarrow> online_among T d \<Longrightarrow> online_among T d'"
  "register_agent_row t e n h ss d = Inr (x, d') \<Longrightarrow> online_among T d \<Longrightarrow> online_among T d'"
  "update_agent_row t e so b d = Inr (z, d') \<Longrightarrow> online_among T d \<Longrightarrow> online_among T d'"
  "create_agent_session s d = Inr (x, d') \<Longrightarrow> online_among T d \<Longrightarrow> online_among T d'"
  "end_agent_session t i why d = Inr (v, d') \<Longrightarrow> online_among T d \<Longrightarrow> online_among T d'"
  "upsert_gate g d = Inr (x, d') \<Longrightarrow> online_among T d \<Longrightarrow> online_among T d'"
  "insert_audit w d = Inr (x, d') \<Longrightarrow> online_among T d \<Longrightarrow> online_among T d'"
  by (auto elim!: online_among_same simp: set_agent_password_def record_login_failure_def clear_login_failures_def register_agent_row_def
      update_agent_row_def create_agent_session_def supersede_def end_agent_session_def upsert_gate_def insert_audit_def map_agents_def
      Let_def split: if_splits option.splits)

lemma dark_off [dark_laws]:
  "deactivate_terminal t i d = Inr (x, d') \<Longrightarrow> online_among T d \<Longrightarrow> online_among T d'"
  "set_terminal_status t i TerminalReady d = Inr (y, d') \<Longrightarrow> online_among T d \<Longrightarrow> online_among T d'"
  by (auto simp: deactivate_terminal_def set_terminal_status_def online_among_def map_terminals_def online_def set_update_where
      split: option.splits if_splits)

lemma dark_register [dark_laws]:
  "register_terminal_row t d = Inr (x, d') \<Longrightarrow> online_among T d \<Longrightarrow> tm_status t = TerminalRegistered \<Longrightarrow> online_among T d'"
  by (auto simp: register_terminal_row_def online_among_def online_def split: if_splits)

lemma keeps_dark:
  "keeps (online_among T) (agent_login L E q)" "keeps (online_among T) (agent_logout E s)" "keeps (online_among T) (agent_me E a)"
  "keeps (online_among T) (set_password L E e old new)" "keeps (online_among T) (register_agent L E rq e)"
  "keeps (online_among T) (update_agent L E who uq e)" "keeps (online_among T) (register_terminal E tq e)"
  "keeps (online_among T) (get_terminal E cq i)" "keeps (online_among T) (reply_readiness E s)"
  "keeps (online_among T) (supervisors_at E loc)" "keeps (online_among T) (authorize_supervisor L E s v tok)"
  "keeps (online_among T) (record_healthcheck E s ok details)" "keeps (online_among T) (acknowledge_pii E s ok version)"
  "keeps (online_among T) (deactivate E s)"
  unfolding office_defs Let_def
  by (rule keeps_intros | rule keeps_cs_write | rule keeps_cs_try | erule dark_laws | assumption | rule refl | simp)+

text \<open>The session behind a header.\<close>

definition session_of :: "('l) lib_scheme \<Rightarrow> cs_env \<Rightarrow> string \<Rightarrow> cs_db \<Rightarrow> session_context option" where
  "session_of L E h d = (case fst (with_agent_session L E h svc_return d) of Inl _ \<Rightarrow> None | Inr s \<Rightarrow> Some s)"

lemma with_agent_session_cases:
  "(\<exists>e. with_agent_session L E h f d = (Inl e, d) \<and> session_of L E h d = None)
   \<or> (\<exists>s. session_of L E h d = Some s \<and> with_agent_session L E h f d = f s d)"
  by (auto simp: session_of_def with_agent_session_def resolve_session_def svc_defs cs_read_def Let_def
      split: option.splits)

lemma session_of_token:
  assumes "session_of L E h d = Some s"
  obtains r a tok where "r \<in> set (agent_sessions d)" "as_id r = sc_session s" "as_agent r = sc_agent s" "as_terminal r = sc_terminal s"
    "as_ended r = None" "ce_db_now E < as_expires r" "find_agent (sc_agent s) d = Some a"
    "bearer_token (trim_space h) = Some tok" "hash_session_token L (trim_space tok) = as_hash r"
proof -
  obtain x d' where x: "with_agent_session L E h svc_return d = (x, d')" by force
  then have "with_agent_session L E h svc_return d = (Inr s, d')"
    using assms by (auto simp: session_of_def split: sum.splits)
  then obtain t where t: "bearer_token (trim_space h) = Some t"
      and "find_by_token (ce_db_now E) (hash_session_token L (trim_space t)) d = Some s"
    by (auto simp: with_agent_session_def resolve_session_def Let_def)
  define tok where "tok = hash_session_token L (trim_space t)"
  have tok: "find_by_token (ce_db_now E) tok d = Some s"
    using \<open>find_by_token (ce_db_now E) (hash_session_token L (trim_space t)) d = Some s\<close> by (simp add: tok_def)
  obtain r where r: "find (\<lambda>s. as_hash s = tok \<and> as_ended s = None \<and> ce_db_now E < as_expires s) (agent_sessions d) = Some r"
    using tok by (cases "find (\<lambda>s. as_hash s = tok \<and> as_ended s = None \<and> ce_db_now E < as_expires s) (agent_sessions d)")
      (simp_all add: find_by_token_def)
  obtain a where a: "find_agent (as_agent r) d = Some a"
    using tok r by (cases "find_agent (as_agent r) d") (simp_all add: find_by_token_def)
  let ?s = "\<lparr>sc_session = as_id r, sc_agent = as_agent r, sc_name = ag_name a,
      sc_scopes = ag_scopes a, sc_terminal = as_terminal r, sc_expires = as_expires r\<rparr>"
  have "find_by_token (ce_db_now E) tok d = Some ?s" by (simp add: find_by_token_def r a)
  then have s: "s = ?s" using tok by (metis option.inject)
  have row: "r \<in> set (agent_sessions d) \<and> as_hash r = tok \<and> as_ended r = None \<and> ce_db_now E < as_expires r"
    by (rule find_Some_D [OF r])
  show ?thesis by (rule that [of r a t]) (use row a t in \<open>simp_all add: s tok_def\<close>)
qed

text \<open>What an activation needs and does.\<close>

definition cleared :: "cs_env \<Rightarrow> session_context \<Rightarrow> cs_db \<Rightarrow> bool" where
  "cleared E s d \<longleftrightarrow> (\<forall>g \<in> set all_gates. \<exists>r \<in> set (gates d). gr_session r = sc_session s \<and> gr_gate r = g
     \<and> ce_now E < gr_passed r + gate_ttl
     \<and> (g = GateSupervisorAuth \<longrightarrow> gr_supervisor r \<in> sv_id ` set (supervisors d) \<and> gr_ref r \<noteq> ''''))"

lemma readiness_cleared:
  assumes d: "office_ok d" and r: "rd_can_activate (readiness_of (ce_now E) s t (list_gates (sc_session s) d))"
  shows "cleared E s d"
  unfolding cleared_def
proof
  fix g assume g: "g \<in> set all_gates"
  have "gs_passed (gate_state_of (ce_now E) (list_gates (sc_session s) d) g)"
    using r g by (simp add: readiness_of_def list_all_iff Let_def)
  then obtain x where x: "find (\<lambda>r. gr_gate r = g) (rev (list_gates (sc_session s) d)) = Some x" "ce_now E < gr_expires x"
    by (auto simp: gate_state_of_def Let_def split: option.splits if_splits)
  have row: "x \<in> set (gates d)" "gr_session x = sc_session s" "gr_gate x = g"
    using find_Some_D [OF x(1)] by (auto simp: list_gates_def)
  have "gate_row_ok (as_id ` set (agent_sessions d)) (sv_id ` set (supervisors d)) x"
    using d row(1) by (simp add: office_ok_def gates_ok_def)
  then show "\<exists>r \<in> set (gates d). gr_session r = sc_session s \<and> gr_gate r = g \<and> ce_now E < gr_passed r + gate_ttl
     \<and> (g = GateSupervisorAuth \<longrightarrow> gr_supervisor r \<in> sv_id ` set (supervisors d) \<and> gr_ref r \<noteq> '''')"
    using row x(2) unfolding gate_row_ok_def by (intro bexI [of _ x]) auto
qed

lemma activate_effect:
  assumes d: "office_ok d" and r: "activate E s d = (r, d')"
  shows "terminals d' = terminals d \<or> (cleared E s d \<and> terminals d' = update_where (\<lambda>x. tm_id x = sc_terminal s)
    (\<lambda>x. x\<lparr>tm_status := TerminalOnline, tm_agent := Some (sc_agent s), tm_activated := Some (ce_now E), tm_updated := ce_now E\<rparr>) (terminals d))"
proof (cases "\<exists>t. find_terminal (sc_terminal s) d = Some t \<and> rd_can_activate (readiness_of (ce_now E) s t (list_gates (sc_session s) d))
    \<and> \<not> ce_fault E CFindTerminal \<and> \<not> ce_fault E CListGates")
  case True
  then obtain t where t: "find_terminal (sc_terminal s) d = Some t"
      "rd_can_activate (readiness_of (ce_now E) s t (list_gates (sc_session s) d))" "\<not> ce_fault E CFindTerminal" "\<not> ce_fault E CListGates"
    by blast
  have "cleared E s d" by (rule readiness_cleared [OF d t(2)])
  moreover have "terminals d' = terminals d \<or> terminals d' = update_where (\<lambda>x. tm_id x = sc_terminal s)
    (\<lambda>x. x\<lparr>tm_status := TerminalOnline, tm_agent := Some (sc_agent s), tm_activated := Some (ce_now E), tm_updated := ce_now E\<rparr>) (terminals d)"
    using r t by (auto simp: activate_def readiness_def get_terminal_def svc_defs cs_read_def cs_write_def cs_try_def write_audit_def
        insert_audit_def activate_terminal_def map_terminals_def split: if_splits option.splits)
  ultimately show ?thesis by blast
next
  case False
  then have "d' = d" using r by (auto simp: activate_def readiness_def get_terminal_def svc_defs cs_read_def split: if_splits option.splits)
  then show ?thesis by simp
qed

subsection \<open>Authority\<close>

definition authority :: "cs_db \<Rightarrow> (string \<times> string list \<times> bool) list" where
  "authority d = map (\<lambda>a. (ag_id a, ag_scopes a, ag_active a)) (agents d)"

named_theorems authority_laws \<open>statements that leave the authority of agents alone\<close>

lemma authority_map: "(\<And>a. ag_id (f a) = ag_id a \<and> ag_scopes (f a) = ag_scopes a \<and> ag_active (f a) = ag_active a) \<Longrightarrow>
    authority (map_agents P f d) = authority d"
  unfolding authority_def map_agents_def by (simp add: map_update_where)

lemma authority_same [authority_laws]:
  "set_agent_password t e h d = Inr (x, d') \<Longrightarrow> authority d = A \<Longrightarrow> authority d' = A"
  "record_login_failure t e d = Inr (y, d') \<Longrightarrow> authority d = A \<Longrightarrow> authority d' = A"
  "clear_login_failures e d = Inr (x, d') \<Longrightarrow> authority d = A \<Longrightarrow> authority d' = A"
  "create_agent_session s d = Inr (x, d') \<Longrightarrow> authority d = A \<Longrightarrow> authority d' = A"
  "end_agent_session t i why d = Inr (v, d') \<Longrightarrow> authority d = A \<Longrightarrow> authority d' = A"
  "upsert_gate g d = Inr (x, d') \<Longrightarrow> authority d = A \<Longrightarrow> authority d' = A"
  "insert_audit w d = Inr (x, d') \<Longrightarrow> authority d = A \<Longrightarrow> authority d' = A"
  "deactivate_terminal t i d = Inr (v, d') \<Longrightarrow> authority d = A \<Longrightarrow> authority d' = A"
  "activate_terminal t i e d = Inr (x, d') \<Longrightarrow> authority d = A \<Longrightarrow> authority d' = A"
  "set_terminal_status t i st d = Inr (x, d') \<Longrightarrow> authority d = A \<Longrightarrow> authority d' = A"
  "register_terminal_row tm d = Inr (x, d') \<Longrightarrow> authority d = A \<Longrightarrow> authority d' = A"
  by (auto simp: set_agent_password_def record_login_failure_def clear_login_failures_def create_agent_session_def supersede_def
      end_agent_session_def upsert_gate_def insert_audit_def deactivate_terminal_def activate_terminal_def set_terminal_status_def
      register_terminal_row_def map_terminals_def failed_login_def authority_map Let_def split: if_splits option.splits)
    (simp_all add: authority_def)

lemma authority_read: "Inr (v, d) = Inr (x, d') \<Longrightarrow> authority d = A \<Longrightarrow> authority d' = A"
  by simp

lemma keeps_authority:
  "keeps (\<lambda>d. authority d = A) (agent_login L E q)" "keeps (\<lambda>d. authority d = A) (agent_logout E s)" "keeps (\<lambda>d. authority d = A) (agent_me E a)"
  "keeps (\<lambda>d. authority d = A) (set_password L E e old new)" "keeps (\<lambda>d. authority d = A) (register_terminal E tq e)"
  "keeps (\<lambda>d. authority d = A) (get_terminal E cq i)" "keeps (\<lambda>d. authority d = A) (reply_readiness E s)"
  "keeps (\<lambda>d. authority d = A) (supervisors_at E loc)" "keeps (\<lambda>d. authority d = A) (authorize_supervisor L E s v tok)"
  "keeps (\<lambda>d. authority d = A) (record_healthcheck E s ok details)" "keeps (\<lambda>d. authority d = A) (acknowledge_pii E s ok version)"
  "keeps (\<lambda>d. authority d = A) (activate E s)" "keeps (\<lambda>d. authority d = A) (deactivate E s)"
  unfolding office_defs Let_def
  by (rule keeps_intros | rule keeps_cs_write | rule keeps_cs_try | erule authority_laws | erule authority_read | assumption)+

subsection \<open>Sessions that ended\<close>

definition ended_among :: "agent_session set \<Rightarrow> cs_db \<Rightarrow> bool" where
  "ended_among R d \<longleftrightarrow> R \<subseteq> set (filter (\<lambda>s. as_ended s \<noteq> None) (agent_sessions d))"

named_theorems ended_laws \<open>statements that leave ended sessions alone\<close>

lemma ended_update:
  assumes R: "ended_among R d" and d': "agent_sessions d' = update_where (\<lambda>s. Q s \<and> as_ended s = None) f (agent_sessions d) @ ss"
  shows "ended_among R d'"
  unfolding ended_among_def
proof
  fix r assume "r \<in> R"
  then have r: "r \<in> set (agent_sessions d)" "as_ended r \<noteq> None" using R by (auto simp: ended_among_def)
  then have "r \<in> set (update_where (\<lambda>s. Q s \<and> as_ended s = None) f (agent_sessions d))"
    unfolding set_update_where by (intro bexI [of _ r]) auto
  then show "r \<in> set (filter (\<lambda>s. as_ended s \<noteq> None) (agent_sessions d'))" using r d' by simp
qed

lemma ended_same [ended_laws]:
  "set_agent_password t e h d = Inr (x, d') \<Longrightarrow> ended_among R d \<Longrightarrow> ended_among R d'"
  "record_login_failure t e d = Inr (y, d') \<Longrightarrow> ended_among R d \<Longrightarrow> ended_among R d'"
  "clear_login_failures e d = Inr (x, d') \<Longrightarrow> ended_among R d \<Longrightarrow> ended_among R d'"
  "register_agent_row t e n h ss d = Inr (x, d') \<Longrightarrow> ended_among R d \<Longrightarrow> ended_among R d'"
  "update_agent_row t e so b d = Inr (z, d') \<Longrightarrow> ended_among R d \<Longrightarrow> ended_among R d'"
  "upsert_gate g d = Inr (x, d') \<Longrightarrow> ended_among R d \<Longrightarrow> ended_among R d'"
  "insert_audit w d = Inr (x, d') \<Longrightarrow> ended_among R d \<Longrightarrow> ended_among R d'"
  "deactivate_terminal t i d = Inr (v, d') \<Longrightarrow> ended_among R d \<Longrightarrow> ended_among R d'"
  "activate_terminal t i e d = Inr (x, d') \<Longrightarrow> ended_among R d \<Longrightarrow> ended_among R d'"
  "set_terminal_status t i st d = Inr (x, d') \<Longrightarrow> ended_among R d \<Longrightarrow> ended_among R d'"
  "register_terminal_row tm d = Inr (x, d') \<Longrightarrow> ended_among R d \<Longrightarrow> ended_among R d'"
  by (auto simp: ended_among_def set_agent_password_def record_login_failure_def clear_login_failures_def register_agent_row_def
      update_agent_row_def upsert_gate_def insert_audit_def deactivate_terminal_def activate_terminal_def set_terminal_status_def
      register_terminal_row_def map_terminals_def map_agents_def Let_def split: if_splits option.splits)

lemma ended_create [ended_laws]: "create_agent_session s d = Inr (x, d') \<Longrightarrow> ended_among R d \<Longrightarrow> ended_among R d'"
  by (rule ended_update [of R d d' "\<lambda>x. as_agent x = as_agent s" _ "[s]"])
    (auto simp: create_agent_session_def supersede_def Let_def split: if_splits)

lemma ended_end [ended_laws]: "end_agent_session t i why d = Inr (v, d') \<Longrightarrow> ended_among R d \<Longrightarrow> ended_among R d'"
  by (rule ended_update [of R d d' "\<lambda>x. as_id x = i" _ "[]"]) (auto simp: end_agent_session_def)

lemma ended_read: "Inr (v, d) = Inr (x, d') \<Longrightarrow> ended_among R d \<Longrightarrow> ended_among R d'"
  by simp

lemma keeps_ended:
  "keeps (ended_among R) (agent_login L E q)" "keeps (ended_among R) (agent_logout E s)" "keeps (ended_among R) (agent_me E a)"
  "keeps (ended_among R) (set_password L E e old new)" "keeps (ended_among R) (register_agent L E rq e)"
  "keeps (ended_among R) (update_agent L E who uq e)" "keeps (ended_among R) (register_terminal E tq e)"
  "keeps (ended_among R) (get_terminal E cq i)" "keeps (ended_among R) (reply_readiness E s)"
  "keeps (ended_among R) (supervisors_at E loc)" "keeps (ended_among R) (authorize_supervisor L E s v tok)"
  "keeps (ended_among R) (record_healthcheck E s ok details)" "keeps (ended_among R) (acknowledge_pii E s ok version)"
  "keeps (ended_among R) (activate E s)" "keeps (ended_among R) (deactivate E s)"
  unfolding office_defs Let_def
  by (rule keeps_intros | rule keeps_cs_write | rule keeps_cs_try | erule ended_laws | erule ended_read | assumption)+

lemma serve_cs_ended: "ended_among R d \<Longrightarrow> ended_among R (serve_cs L E c d)"
proof (cases c)
qed (simp_all add: keeps_snd keeps_with_agent keeps_with_session keeps_ended keeps_seq)

lemma serve_all_ended: "ended_among R d \<Longrightarrow> ended_among R (serve_all L cs d)"
  unfolding serve_all_def by (induction cs arbitrary: d) (auto simp: serve_cs_ended)

text \<open>The token of an ended session is refused.\<close>

lemma ended_token_refused:
  assumes d: "office_ok d" and r: "r \<in> set (agent_sessions d)" "as_ended r \<noteq> None"
    and tok: "bearer_token (trim_space h) = Some tok" "hash_session_token L (trim_space tok) = as_hash r"
  shows "session_of L E h d = None"
proof -
  have "x = r" if "x \<in> set (agent_sessions d)" "as_hash x = as_hash r" for x
    using distinct_key_unique [of as_hash "agent_sessions d" x r] d r(1) that by (simp add: office_ok_def agent_sessions_ok_def)
  then have "find (\<lambda>s. as_hash s = as_hash r \<and> as_ended s = None \<and> ce_db_now E < as_expires s) (agent_sessions d) = None"
    using r(2) by (auto simp: find_None_iff)
  then have "find_by_token (ce_db_now E) (as_hash r) d = None" by (simp add: find_by_token_def)
  then show ?thesis
    using tok by (simp add: session_of_def with_agent_session_def resolve_session_def svc_defs cs_read_def Let_def)
qed

end
