(* ===== verification/Office_Properties.thy ===== *)
theory Office_Properties
  imports Office_Frames Samples
begin

text \<open>The properties of the service desk: who may be online, how a login is locked, how a shift ends, who may change authority.\<close>

subsection \<open>A sample office\<close>

definition office_lib :: cs_lib where
  "office_lib = lib.extend sample_lib \<lparr>check_password = (\<lambda>pw h. Some (h = CHR ''#'' # pw))\<rparr>"

definition office_env :: "time \<Rightarrow> uuid \<Rightarrow> string \<Rightarrow> cs_env" where
  "office_env t i tok = \<lparr>ce_now = t, ce_db_now = t, ce_id = i, ce_audit_id = i, ce_token = Some tok, ce_hex = Some ''00FF7A'',
     ce_hash = (\<lambda>pw. Some (CHR ''#'' # pw)), ce_hris = (\<lambda>e. Inl NotFound), ce_ip = '''', ce_client = '''', ce_fault = (\<lambda>_. False)\<rparr>"

definition office_agent :: "string \<Rightarrow> agent" where
  "office_agent i = \<lparr>ag_id = i, ag_name = i, ag_key_hash = ''#key'', ag_scopes = [''VIDEO_CALL''], ag_active = True,
     ag_password = ''#pw'', ag_password_set = Some 0, ag_failed = 0, ag_locked = None, ag_updated = 0\<rparr>"

definition office_terminal :: "string \<Rightarrow> terminal" where
  "office_terminal i = \<lparr>tm_id = i, tm_workstation = ''w'', tm_location = ''l'', tm_status = TerminalRegistered, tm_by = ''X'',
     tm_registered = 0, tm_agent = None, tm_activated = None, tm_updated = 0\<rparr>"

definition small_office :: cs_db where
  "small_office = \<lparr>agents = [office_agent ''A1'', office_agent ''A2''], agent_sessions = [],
     terminals = [office_terminal ''T1'', office_terminal ''T2''], gates = [],
     supervisors = [\<lparr>sv_id = ''V1'', sv_name = ''V'', sv_location = ''l'', sv_token_hash = ''#sign'', sv_active = True\<rparr>],
     audit_events = []\<rparr>"

definition login_at :: "string \<Rightarrow> agent_login_request" where
  "login_at t = \<lparr>lg_employee = ''A1'', lg_password = ''pw'', lg_terminal = t, lg_shift = ''''\<rparr>"

text \<open>A shift is opened, the three gates are passed, the terminal goes online.\<close>

definition first_shift :: "(cs_env \<times> cs_request) list" where
  "first_shift = [(office_env 1000 ''s1'' ''tok1'', AgentLogin (login_at ''T1'')),
     (office_env 2000 ''e2'' '''', AuthorizeSupervisor ''Bearer tok1'' ''V1'' ''sign''),
     (office_env 3000 ''e3'' '''', Healthcheck ''Bearer tok1'' True JNull),
     (office_env 4000 ''e4'' '''', AcknowledgePII ''Bearer tok1'' True ''v1''),
     (office_env 5000 ''e5'' '''', Activate ''Bearer tok1'')]"

lemmas office_samples = office_lib_def office_env_def office_agent_def office_terminal_def small_office_def login_at_def first_shift_def

lemma small_office_ok: "office_ok small_office"
  by code_simp

lemma opened: "map (\<lambda>t. (tm_id t, tm_status t, tm_agent t)) (terminals (serve_all office_lib first_shift small_office))
   = [(''T1'', ''ONLINE'', Some ''A1''), (''T2'', ''REGISTERED'', None)]"
  by code_simp

subsection \<open>The tables\<close>

text \<open>C17: Whatever requests the service desk answers, an agent has at most one live session and one terminal online, an online terminal
  has its agent and its time, a session has nine hours and a gate eight, and every agent keeps at least one known scope.\<close>

theorem office_stays_well_formed:
  assumes "office_ok d"
  shows "office_ok (serve_all L cs d)"
  by (rule serve_all_ok [OF assms])

lemma office_stays_well_formed_witness:
  "office_ok (serve_all office_lib first_shift small_office)"
  by (rule office_stays_well_formed [OF small_office_ok])

subsection \<open>Going online\<close>

lemma serve_cs_dark:
  assumes T: "online_among T d" and c: "\<And>h. c \<noteq> Activate h"
  shows "online_among T (serve_cs L E c d)"
proof (cases c)
  case (Activate h)
  then show ?thesis using c by blast
qed (use T in \<open>simp_all add: keeps_snd keeps_with_agent keeps_with_session keeps_dark keeps_seq\<close>)

text \<open>C14: A terminal is online only through an activation by the agent who holds it, sent with a live session at that terminal, at a moment
  when each of the three gates had been passed in that session less than eight hours before and the signature was that of a
  known supervisor.\<close>

theorem online_needs_three_gates:
  assumes d: "office_ok d" "filter online (terminals d) = []"
    and t: "t \<in> set (terminals (serve_all L cs d))" "online t"
  shows "\<exists>cs1 E h cs2 s. cs = cs1 @ (E, Activate h) # cs2 \<and> session_of L E h (serve_all L cs1 d) = Some s
    \<and> cleared E s (serve_all L cs1 d) \<and> sc_terminal s = tm_id t \<and> tm_agent t = Some (sc_agent s) \<and> tm_activated t = Some (ce_now E)"
  using t
proof (induction cs rule: rev_induct)
  case Nil
  then show ?case using d(2) by (auto simp: serve_all_def filter_empty_conv)
next
  case (snoc x cs)
  obtain E c where x: "x = (E, c)" by force
  let ?d = "serve_all L cs d"
  have ok: "office_ok ?d" by (rule serve_all_ok [OF d(1)])
  have t: "t \<in> set (terminals (serve_cs L E c ?d))" "online t" using snoc.prems x by (simp_all add: serve_all_snoc)
  have old: ?case if "t \<in> set (terminals ?d)"
    using snoc.IH [OF that t(2)] by (metis append.assoc append_Cons)
  show ?case
  proof (cases "\<exists>h. c = Activate h")
    case False
    then have "online_among (set (filter online (terminals ?d))) (serve_cs L E c ?d)"
      by (intro serve_cs_dark) (auto simp: online_among_def)
    then show ?thesis using t old by (auto simp: online_among_def)
  next
    case True
    then obtain h where c: "c = Activate h" by blast
    show ?thesis
    proof (cases "session_of L E h ?d")
      case None
      then have "serve_cs L E c ?d = ?d" using with_agent_session_cases [of L E h "activate E" ?d] c by auto
      then show ?thesis using t old by simp
    next
      case (Some s)
      then have r: "with_agent_session L E h (activate E) ?d = activate E s ?d"
        using with_agent_session_cases [of L E h "activate E" ?d] by auto
      obtain r d' where a: "activate E s ?d = (r, d')" by force
      have d': "serve_cs L E c ?d = d'" using c r a by simp
      show ?thesis
      proof (cases "t \<in> set (terminals ?d)")
        case False
        then have cl: "cleared E s ?d" and ts: "terminals d' = update_where (\<lambda>x. tm_id x = sc_terminal s)
            (\<lambda>x. x\<lparr>tm_status := TerminalOnline, tm_agent := Some (sc_agent s), tm_activated := Some (ce_now E), tm_updated := ce_now E\<rparr>)
            (terminals ?d)"
          using activate_effect [OF ok a] t d' by auto
        have "sc_terminal s = tm_id t \<and> tm_agent t = Some (sc_agent s) \<and> tm_activated t = Some (ce_now E)"
          using t(1) False unfolding d' ts set_update_where by (auto split: if_splits)
        then show ?thesis using cl Some c x by (intro exI [of _ cs] exI [of _ E] exI [of _ h] exI [of _ "[]"] exI [of _ s]) simp
      qed (rule old)
    qed
  qed
qed

lemma online_needs_three_gates_witness:
  "\<exists>cs1 E h cs2 s. first_shift = cs1 @ (E, Activate h) # cs2
    \<and> session_of office_lib E h (serve_all office_lib cs1 small_office) = Some s \<and> sc_terminal s = ''T1'' \<and> sc_agent s = ''A1''"
proof -
  let ?ts = "terminals (serve_all office_lib first_shift small_office)"
  have "(''T1'', ''ONLINE'', Some ''A1'') \<in> set (map (\<lambda>t. (tm_id t, tm_status t, tm_agent t)) ?ts)" using opened by simp
  then obtain t where t: "t \<in> set ?ts" "tm_id t = ''T1''" "tm_status t = ''ONLINE''" "tm_agent t = Some ''A1''" by auto
  have "filter online (terminals small_office) = []" by code_simp
  then show ?thesis
    using online_needs_three_gates [OF small_office_ok _ t(1)] t by (fastforce simp: online_def)
qed

subsection \<open>A terminal nobody can close\<close>

definition held_by :: "string \<Rightarrow> string \<Rightarrow> cs_db \<Rightarrow> bool" where
  "held_by i e d \<longleftrightarrow> (\<exists>t \<in> set (terminals d). tm_id t = i \<and> tm_status t = TerminalOnline \<and> tm_agent t = Some e)"

named_theorems held_laws \<open>statements that leave a terminal held\<close>

lemma held_same: "held_by i e d \<Longrightarrow> terminals d' = terminals d \<Longrightarrow> held_by i e d'"
  by (simp add: held_by_def)

lemma held_elsewhere:
  assumes "held_by i e d" "terminals d' = update_where P f (terminals d)" "\<And>t. P t \<Longrightarrow> tm_id t \<noteq> i"
  shows "held_by i e d'"
proof -
  obtain t where t: "t \<in> set (terminals d)" "tm_id t = i" "tm_status t = TerminalOnline" "tm_agent t = Some e"
    using assms(1) by (auto simp: held_by_def)
  have "t \<in> set (terminals d')" using t(1,2) assms(3) [of t] unfolding assms(2) set_update_where by (intro bexI [of _ t]) auto
  then show ?thesis using t by (auto simp: held_by_def)
qed

lemma held_rows [held_laws]:
  "record_login_failure t a d = Inr (y, d') \<Longrightarrow> held_by i e d \<Longrightarrow> held_by i e d'"
  "clear_login_failures a d = Inr (x, d') \<Longrightarrow> held_by i e d \<Longrightarrow> held_by i e d'"
  "create_agent_session s d = Inr (x, d') \<Longrightarrow> held_by i e d \<Longrightarrow> held_by i e d'"
  "end_agent_session t n why d = Inr (v, d') \<Longrightarrow> held_by i e d \<Longrightarrow> held_by i e d'"
  "insert_audit w d = Inr (x, d') \<Longrightarrow> held_by i e d \<Longrightarrow> held_by i e d'"
  by (auto elim!: held_same simp: record_login_failure_def clear_login_failures_def create_agent_session_def supersede_def
      end_agent_session_def insert_audit_def map_agents_def Let_def split: if_splits option.splits)

lemma held_terminals [held_laws]:
  "deactivate_terminal t j d = Inr (v, d') \<Longrightarrow> held_by i e d \<Longrightarrow> j \<noteq> i \<Longrightarrow> held_by i e d'"
  "activate_terminal t j a d = Inr (x, d') \<Longrightarrow> held_by i e d \<Longrightarrow> j \<noteq> i \<Longrightarrow> held_by i e d'"
  by (auto simp: deactivate_terminal_def activate_terminal_def map_terminals_def split: if_splits elim!: held_elsewhere)

lemma keeps_held_login: "keeps (held_by i e) (agent_login L E q)"
  unfolding office_defs Let_def
  by (rule keeps_intros | rule keeps_cs_write | rule keeps_cs_try | erule held_laws | assumption)+

lemma keeps_held:
  assumes s: "sc_terminal s \<noteq> i"
  shows "keeps (held_by i e) (activate E s)" "keeps (held_by i e) (deactivate E s)" "keeps (held_by i e) (agent_logout E s)"
  unfolding office_defs Let_def
  by (rule keeps_intros | rule keeps_cs_write | rule keeps_cs_try | erule held_laws | assumption | rule s)+

lemma activation_refused:
  assumes held: "held_by i (sc_agent s) d" and s: "sc_terminal s \<noteq> i"
  shows "fst (activate E s d) \<noteq> Inr t"
proof -
  have "activate_terminal n (sc_terminal s) (sc_agent s) d \<noteq> Inr x" for n x
    using held s by (auto simp: activate_terminal_def held_by_def list_ex_iff)
  then show ?thesis
    by (auto simp: activate_def readiness_def get_terminal_def svc_defs cs_read_def cs_write_def split: if_splits option.splits sum.splits)
qed

text \<open>An agent whose terminal died without a logout can log in at another one, but not go online there, and cannot close the first:
  the old session is over, a session acts on its own terminal only, and the first terminal stays online in the agent's name, so
  every activation at the second is refused.\<close>

theorem superseded_agent_is_stuck:
  assumes held: "held_by i (sc_agent s) d" and s: "sc_terminal s \<noteq> i"
  shows "fst (activate E s d) \<noteq> Inr t \<and> held_by i (sc_agent s) (snd (activate E s d)) \<and> held_by i (sc_agent s) (snd (deactivate E s d))
    \<and> held_by i (sc_agent s) (snd (agent_logout E s d)) \<and> held_by i (sc_agent s) (snd (agent_login L E q d))"
  using activation_refused [OF held s] by (simp add: keeps_snd [OF keeps_held(1) [OF s] held] keeps_snd [OF keeps_held(2) [OF s] held]
      keeps_snd [OF keeps_held(3) [OF s] held] keeps_snd [OF keeps_held_login held])

text \<open>The day after: at T2 the three gates are passed, and T1 is still in the way.\<close>

definition second_shift :: "(cs_env \<times> cs_request) list" where
  "second_shift = first_shift @ [(office_env 6000 ''s6'' ''tok2'', AgentLogin (login_at ''T2'')),
     (office_env 7000 ''e7'' '''', AuthorizeSupervisor ''Bearer tok2'' ''V1'' ''sign''),
     (office_env 8000 ''e8'' '''', Healthcheck ''Bearer tok2'' True JNull),
     (office_env 9000 ''e9'' '''', AcknowledgePII ''Bearer tok2'' True ''v1'')]"

definition second_context :: session_context where
  "second_context = \<lparr>sc_session = ''s6'', sc_agent = ''A1'', sc_name = ''A1'', sc_scopes = [''VIDEO_CALL''], sc_terminal = ''T2'', sc_expires = 9000\<rparr>"

lemma superseded_agent_is_stuck_witness:
  "fst (activate (office_env 9500 ''eA'' '''') second_context (serve_all office_lib second_shift small_office)) = Inl TerminalAgentBusy
   \<and> held_by ''T1'' ''A1'' (snd (agent_logout (office_env 9600 ''eB'' '''') second_context (serve_all office_lib second_shift small_office)))"
proof -
  let ?d = "serve_all office_lib second_shift small_office"
  have held: "held_by ''T1'' (sc_agent second_context) ?d" by code_simp
  have "sc_terminal second_context \<noteq> ''T1''" by code_simp
  note stuck = superseded_agent_is_stuck [OF held this]
  have "fst (activate (office_env 9500 ''eA'' '''') second_context ?d) = Inl TerminalAgentBusy" by code_simp
  moreover have "sc_agent second_context = ''A1''" by code_simp
  ultimately show ?thesis using stuck by metis
qed

subsection \<open>Authority\<close>



lemma authority_audit [simp]: "authority (d\<lparr>audit_events := x\<rparr>) = authority d"
  by (simp add: authority_def)










subsection \<open>Sessions that end\<close>

text \<open>The sessions of an agent that a login or a logout ends.\<close>

lemma sessions_clear: "cs_try E CClearFailures (clear_login_failures e) w = (r, w') \<Longrightarrow> agent_sessions w' = agent_sessions w"
  by (auto simp: cs_try_def clear_login_failures_def map_agents_def split: if_splits)

lemma sessions_audit: "write_audit E ty a tm x j w = (r, w') \<Longrightarrow> agent_sessions w' = agent_sessions w"
  by (auto simp: write_audit_def insert_audit_def svc_defs cs_try_def split: if_splits sum.splits)

lemma login_ends:
  assumes d: "agent_login L E q d = (Inr r, d1)" and s: "x \<in> set (agent_sessions d)" "as_agent x = trim_space (lg_employee q)"
  shows "\<exists>y \<in> set (agent_sessions d1). as_hash y = as_hash x \<and> as_ended y \<noteq> None"
proof -
  obtain n d3 where c: "create_agent_session n d = Inr ((), d3)" "as_agent n = trim_space (lg_employee q)"
      "agent_sessions d1 = agent_sessions d3"
    using d by (auto simp: agent_login_def open_shift_def wrong_password_def refuse_locked_agent_def new_session_token_def Let_def
        dest!: sessions_clear sessions_audit split: option.splits if_splits)
  let ?f = "\<lambda>x :: agent_session. x\<lparr>as_ended := Some (as_started n), as_reason := ''SUPERSEDED''\<rparr>"
  let ?y = "if as_agent x = as_agent n \<and> as_ended x = None then ?f x else x"
  have "agent_sessions d3 = update_where (\<lambda>x. as_agent x = as_agent n \<and> as_ended x = None) ?f (agent_sessions d) @ [n]"
    using c(1) by (auto simp: create_agent_session_def supersede_def Let_def split: if_splits)
  moreover have "?y \<in> set (update_where (\<lambda>x. as_agent x = as_agent n \<and> as_ended x = None) ?f (agent_sessions d))"
    using s(1) unfolding set_update_where by (intro bexI [of _ x]) auto
  ultimately have "?y \<in> set (agent_sessions d1)" using c(3) by simp
  then show ?thesis using s(2) c(2) by (intro bexI [of _ ?y]) auto
qed

lemma logout_ends:
  assumes d: "agent_logout E s d = (Inr (), d1)" and x: "x \<in> set (agent_sessions d)" "as_id x = sc_session s" "as_ended x = None"
  shows "\<exists>y \<in> set (agent_sessions d1). as_hash y = as_hash x \<and> as_ended y \<noteq> None"
proof -
  let ?f = "\<lambda>x :: agent_session. x\<lparr>as_ended := Some (ce_now E), as_reason := ''LOGOUT''\<rparr>"
  have "agent_sessions d1 = update_where (\<lambda>x. as_id x = sc_session s \<and> as_ended x = None) ?f (agent_sessions d)"
    using d by (auto simp: agent_logout_def cs_write_def cs_try_def end_agent_session_def deactivate_terminal_def map_terminals_def
        svc_defs dest!: sessions_audit split: if_splits sum.splits prod.splits)
  moreover have "?f x \<in> set (update_where (\<lambda>x. as_id x = sc_session s \<and> as_ended x = None) ?f (agent_sessions d))"
    using x unfolding set_update_where by (intro bexI [of _ x]) auto
  ultimately show ?thesis by (intro bexI [of _ "?f x"]) auto
qed

text \<open>C18: A session token dies with its session: once the agent has logged out with it, or has logged in again anywhere, no request with
  that token finds a session, whatever happens afterwards.\<close>

theorem ended_token_never_works:
  assumes d: "office_ok d" and s: "session_of L E h d = Some s"
    and ended: "agent_logout E1 s d = (Inr (), d1) \<or> (agent_login L E1 q d = (Inr r, d1) \<and> trim_space (lg_employee q) = sc_agent s)"
  shows "session_of L E2 h (serve_all L cs d1) = None"
proof -
  obtain x tok where x: "x \<in> set (agent_sessions d)" "as_id x = sc_session s" "as_agent x = sc_agent s" "as_ended x = None"
      and tok: "bearer_token (trim_space h) = Some tok" "hash_session_token L (trim_space tok) = as_hash x"
    using session_of_token [OF s] by metis
  have d1: "office_ok d1" using ended d keeps_snd [OF keeps_office(1) d, of L E1 q] keeps_snd [OF keeps_office(2) d, of E1 s] by auto
  obtain y where y: "y \<in> set (agent_sessions d1)" "as_hash y = as_hash x" "as_ended y \<noteq> None"
    using ended logout_ends [OF _ x(1,2,4)] login_ends [of L E1 q d r d1 x] x by metis
  have "ended_among {y} (serve_all L cs d1)" by (rule serve_all_ended) (use y in \<open>simp add: ended_among_def\<close>)
  then have "y \<in> set (agent_sessions (serve_all L cs d1))" by (simp add: ended_among_def)
  then show ?thesis using ended_token_refused [OF serve_all_ok [OF d1] _ y(3) tok(1)] tok(2) y(2) by simp
qed

text \<open>A1 goes home, and somebody has the token.\<close>

definition first_context :: session_context where
  "first_context = \<lparr>sc_session = ''s1'', sc_agent = ''A1'', sc_name = ''A1'', sc_scopes = [''VIDEO_CALL''], sc_terminal = ''T1'',
     sc_expires = 1000 + hours 9\<rparr>"

definition next_morning :: "(cs_env \<times> cs_request) list" where
  "next_morning = [(office_env 9000 ''e9'' ''tok9'', AgentLogin (login_at ''T2''))]"

lemma ended_token_never_works_witness:
  "session_of office_lib (office_env 9900 ''eD'' '''') ''Bearer tok1'' (serve_all office_lib next_morning
     (snd (agent_logout (office_env 8000 ''e8'' '''') first_context (serve_all office_lib first_shift small_office)))) = None"
proof -
  let ?d = "serve_all office_lib first_shift small_office"
  let ?r = "agent_logout (office_env 8000 ''e8'' '''') first_context ?d"
  have s: "session_of office_lib (office_env 7000 ''e7'' '''') ''Bearer tok1'' ?d = Some first_context" by code_simp
  have "fst ?r = Inr ()" by code_simp
  then have "?r = (Inr (), snd ?r)" by (metis prod.collapse)
  then show ?thesis by (rule ended_token_never_works [OF serve_all_ok [OF small_office_ok] s disjI1])
qed

subsection \<open>Wrong passwords\<close>

definition locked_until :: "time \<Rightarrow> string \<Rightarrow> cs_db \<Rightarrow> bool" where
  "locked_until T e d \<longleftrightarrow> (\<forall>a \<in> set (agents d). ag_id a = e \<longrightarrow> (\<exists>t. ag_locked a = Some t \<and> T \<le> t)) \<and> e \<in> ag_id ` set (agents d)"

named_theorems lock_laws \<open>statements that leave a lock\<close>

lemma locked_same: "locked_until T e d \<Longrightarrow> agents d' = agents d \<Longrightarrow> locked_until T e d'"
  by (simp add: locked_until_def)

lemma locked_map:
  assumes d: "locked_until T e d" and f: "\<And>a. ag_id (f a) = ag_id a" "\<And>a. P a \<Longrightarrow> ag_id a = e \<Longrightarrow> ag_locked (f a) = ag_locked a"
  shows "locked_until T e (map_agents P f d)"
  using d f(2) image_update_where [of ag_id f P "agents d", OF f(1)]
  by (auto simp: locked_until_def map_agents_def ball_update_where f(1))

lemma locked_rows [lock_laws]:
  "create_agent_session s d = Inr (x, d') \<Longrightarrow> locked_until T e d \<Longrightarrow> locked_until T e d'"
  "end_agent_session t i why d = Inr (v, d') \<Longrightarrow> locked_until T e d \<Longrightarrow> locked_until T e d'"
  "upsert_gate g d = Inr (x, d') \<Longrightarrow> locked_until T e d \<Longrightarrow> locked_until T e d'"
  "insert_audit w d = Inr (x, d') \<Longrightarrow> locked_until T e d \<Longrightarrow> locked_until T e d'"
  "deactivate_terminal t i d = Inr (v, d') \<Longrightarrow> locked_until T e d \<Longrightarrow> locked_until T e d'"
  "activate_terminal t i a d = Inr (x, d') \<Longrightarrow> locked_until T e d \<Longrightarrow> locked_until T e d'"
  "set_terminal_status t i st d = Inr (x, d') \<Longrightarrow> locked_until T e d \<Longrightarrow> locked_until T e d'"
  "register_terminal_row tm d = Inr (x, d') \<Longrightarrow> locked_until T e d \<Longrightarrow> locked_until T e d'"
  by (auto elim!: locked_same simp: create_agent_session_def supersede_def end_agent_session_def upsert_gate_def insert_audit_def
      deactivate_terminal_def activate_terminal_def set_terminal_status_def register_terminal_row_def map_terminals_def Let_def
      split: if_splits option.splits)

lemma locked_agents [lock_laws]:
  "set_agent_password t a h d = Inr (x, d') \<Longrightarrow> locked_until T e d \<Longrightarrow> a \<noteq> e \<Longrightarrow> locked_until T e d'"
  "record_login_failure t a d = Inr (y, d') \<Longrightarrow> locked_until T e d \<Longrightarrow> a \<noteq> e \<Longrightarrow> locked_until T e d'"
  "clear_login_failures a d = Inr (x, d') \<Longrightarrow> locked_until T e d \<Longrightarrow> a \<noteq> e \<Longrightarrow> locked_until T e d'"
  "update_agent_row t a so b d = Inr (z, d') \<Longrightarrow> locked_until T e d \<Longrightarrow> locked_until T e d'"
  by (auto simp: set_agent_password_def record_login_failure_def clear_login_failures_def update_agent_row_def failed_login_def Let_def
      split: if_splits option.splits intro!: locked_map)

lemma locked_register [lock_laws]:
  "register_agent_row t a n h ss d = Inr (x, d') \<Longrightarrow> locked_until T e d \<Longrightarrow> locked_until T e d'"
  by (auto simp: register_agent_row_def locked_until_def list_ex_key split: if_splits)



















end
