(* ===== verification/Onboarding_Store.thy ===== *)
theory Onboarding_Store
  imports Staff_Requests Auth_Service
begin

text \<open>
  The steps, products and tables of account opening (\<open>migrations/000010\<close> to \<open>17\<close>, \<open>31\<close>, \<open>38\<close>, \<open>42\<close>; the types of
  \<open>domain/onboarding/entity.go\<close>). Text is ASCII; a NULL text column reads as the empty string. The audit trail of the
  onboarding services is written on a best-effort basis and never read by them: it is left out.
\<close>

subsection \<open>Errors\<close>

abbreviation OnboardingNotFound :: app_err where "OnboardingNotFound \<equiv> Coded 404 ''ONBOARDING_NOT_FOUND'' []"

abbreviation OnboardingDeviceMismatch :: app_err where "OnboardingDeviceMismatch \<equiv> Coded 403 ''ONBOARDING_DEVICE_MISMATCH'' []"

abbreviation OnboardingSessionExpired :: app_err where "OnboardingSessionExpired \<equiv> Coded 422 ''ONBOARDING_SESSION_EXPIRED'' []"

abbreviation OnboardingProductUnavailable :: app_err where
  "OnboardingProductUnavailable \<equiv> Coded 422 ''ONBOARDING_PRODUCT_UNAVAILABLE'' []"

abbreviation OnboardingSessionLimit :: app_err where "OnboardingSessionLimit \<equiv> Coded 429 ''ONBOARDING_SESSION_LIMIT'' []"

abbreviation OnboardingInvalidStep :: app_err where "OnboardingInvalidStep \<equiv> Coded 422 ''ONBOARDING_INVALID_STEP'' []"

abbreviation OnboardingIncomplete :: app_err where "OnboardingIncomplete \<equiv> Coded 422 ''ONBOARDING_INCOMPLETE'' []"

subsection \<open>Steps\<close>

datatype step = StepTNC | StepCardSelection | StepOCR | StepPersonalData | StepOTPVerify | StepBiometric | StepVideoCall
  | StepCredentials | StepReview | StepCompleted | UnknownStep string

definition step_order :: "step list" where
  "step_order = [StepTNC, StepCardSelection, StepOCR, StepPersonalData, StepOTPVerify, StepBiometric, StepVideoCall,
     StepCredentials, StepReview, StepCompleted]"

definition skippable :: "step \<Rightarrow> bool" where
  "skippable s \<longleftrightarrow> s = StepCardSelection"

fun index_of :: "int \<Rightarrow> step \<Rightarrow> step list \<Rightarrow> int" where
  "index_of i s [] = -1"
| "index_of i s (c # cs) = (if c = s then i else index_of (i + 1) s cs)"

definition step_index :: "step \<Rightarrow> int" where
  "step_index s = index_of 0 s step_order"

definition valid_step :: "step \<Rightarrow> bool" where
  "valid_step s \<longleftrightarrow> 0 \<le> step_index s"

definition can_transition :: "step \<Rightarrow> step \<Rightarrow> bool" where
  "can_transition from to' = (let i = step_index from; j = step_index to' in
     if i < 0 \<or> j < 0 \<or> j \<le> i then False
     else list_all (\<lambda>k. skippable (step_order ! nat k)) [i + 1 .. j - 1])"

fun step_name :: "step \<Rightarrow> string" where
  "step_name StepTNC = ''TNC''"
| "step_name StepCardSelection = ''CARD_SELECTION''"
| "step_name StepOCR = ''OCR''"
| "step_name StepPersonalData = ''PERSONAL_DATA''"
| "step_name StepOTPVerify = ''OTP_VERIFY''"
| "step_name StepBiometric = ''BIOMETRIC''"
| "step_name StepVideoCall = ''VIDEO_CALL''"
| "step_name StepCredentials = ''CREDENTIALS''"
| "step_name StepReview = ''REVIEW''"
| "step_name StepCompleted = ''COMPLETED''"
| "step_name (UnknownStep s) = s"

definition step_of :: "string \<Rightarrow> step" where
  "step_of s = (case find (\<lambda>c. step_name c = s) step_order of Some c \<Rightarrow> c | None \<Rightarrow> UnknownStep s)"

lemma step_index_simps [simp]:
  "step_index StepTNC = 0" "step_index StepCardSelection = 1" "step_index StepOCR = 2" "step_index StepPersonalData = 3"
  "step_index StepOTPVerify = 4" "step_index StepBiometric = 5" "step_index StepVideoCall = 6" "step_index StepCredentials = 7"
  "step_index StepReview = 8" "step_index StepCompleted = 9" "step_index (UnknownStep x) = -1"
  by (simp_all add: step_index_def step_order_def)

lemma step_of_name [simp]: "valid_step s \<Longrightarrow> step_of (step_name s) = s"
  by (cases s) (simp_all add: step_of_def step_order_def valid_step_def)

subsection \<open>Products\<close>

datatype product = TahapanBCA | TahapanXpresi | Tabunganku

fun product_name :: "product \<Rightarrow> string" where
  "product_name TahapanBCA = ''TAHAPAN_BCA''"
| "product_name TahapanXpresi = ''TAHAPAN_XPRESI''"
| "product_name Tabunganku = ''TABUNGANKU''"

definition product_of :: "string \<Rightarrow> product option" where
  "product_of s = find (\<lambda>p. product_name p = s) [TahapanBCA, TahapanXpresi, Tabunganku]"

lemma product_of_name [simp]: "product_of (product_name p) = Some p"
  by (cases p) (simp_all add: product_of_def)

record product_info =
  pn_name :: string
  pn_min_deposit :: int

fun product_catalog :: "product \<Rightarrow> product_info" where
  "product_catalog TahapanBCA = \<lparr>pn_name = ''Tahapan BCA'', pn_min_deposit = 500000\<rparr>"
| "product_catalog TahapanXpresi = \<lparr>pn_name = ''Tahapan Xpresi'', pn_min_deposit = 50000\<rparr>"
| "product_catalog Tabunganku = \<lparr>pn_name = ''TabunganKu'', pn_min_deposit = 20000\<rparr>"

subsection \<open>Tables\<close>

record steps_completed =
  sc_tnc :: bool
  sc_ocr :: bool
  sc_personal :: bool
  sc_otp :: bool
  sc_biometric :: bool
  sc_video :: bool
  sc_credentials :: bool
  sc_submitted :: bool
  sc_card :: bool

record ob_session =
  os_row :: uuid
  os_id :: string
  os_device :: string
  os_product :: product
  os_step :: step
  os_tnc :: string
  os_flags :: steps_completed
  os_created :: time
  os_updated :: time
  os_expires :: time
  os_deleted :: "time option"
  os_card :: string
  os_card_at :: "time option"
  os_card_version :: string
  os_catalog :: string
  os_deposit_shown :: int

record ocr_row =
  oc_id :: string
  oc_session :: string
  oc_nik :: string
  oc_nama :: string
  oc_match :: bool
  oc_created :: time

record personal_row =
  pd_id :: string
  pd_session :: string
  pd_nik :: string
  pd_nama :: string
  pd_phone :: string
  pd_email :: string
  pd_created :: time
  pd_updated :: time

record biometric_row =
  br_id :: string
  br_session :: string
  br_face_match :: bool
  br_created :: time

record video_call =
  vc_queue :: string
  vc_session :: string
  vc_number :: string
  vc_status :: string
  vc_agent :: string
  vc_agent_name :: string
  vc_result :: string
  vc_ktp_shown :: bool
  vc_identity :: bool
  vc_notes :: string
  vc_duration :: int
  vc_recording :: string
  vc_joined :: time
  vc_started :: "time option"
  vc_ended :: "time option"

record escalation =
  es_id :: string
  es_session :: string
  es_queue_id :: string
  es_queue :: string
  es_status :: string
  es_reason :: string
  es_raised_by :: string
  es_raised :: time
  es_claimed_by :: string
  es_claimed :: "time option"
  es_resolved_by :: string
  es_resolved :: "time option"
  es_resolution :: string
  es_resolution_reason :: string
  es_notes :: string

record credential =
  cr_id :: string
  cr_session :: string
  cr_access_hash :: string
  cr_pin_hash :: string
  cr_key :: string
  cr_created :: time

record call_schedule =
  sh_id :: string
  sh_session :: string
  sh_at :: time
  sh_status :: string
  sh_created :: time
  sh_updated :: time

text \<open>The columns \<open>phone_hash\<close> and \<open>email_hash\<close> of \<open>users\<close>, which only provisioning reads, are kept here.\<close>

record contact =
  co_user :: uuid
  co_phone :: string
  co_email :: "string option"

record ob_db =
  ob_sessions :: "ob_session list"
  ocr_rows :: "ocr_row list"
  personal_rows :: "personal_row list"
  biometric_rows :: "biometric_row list"
  video_calls :: "video_call list"
  escalations :: "escalation list"
  ob_credentials :: "credential list"
  schedules :: "call_schedule list"
  contacts :: "contact list"

end
