(* ===== verification/Onboarding_Tables.thy ===== *)
theory Onboarding_Tables
  imports Onboarding_Store
begin

text \<open>
  The queries of \<open>repository/postgres/onboarding_repo.go\<close> with the constraints they run into, and what a request of account opening
  draws from its environment.
\<close>

subsection \<open>The environment of a request\<close>

datatype ob_query = OCountDevice | OCreateSession | OFindSession | OSoftDelete | OUpdateStep | OUpdateCard | OInsertOCR | OFindOCR
  | OInsertPersonal | OUpdatePersonal | OFindPersonal | OFindPhone | OInsertBiometric | OCreateCall | OFindCall | OFindLatestCall
  | OUpdateResult | OMarkActive | OCancelCall | OOpenEscalation | OCreateEscalation | OFindEscalation | OFindEscalationAgain
  | OClaimEscalation | OResolveEscalation | OFindCredential | OInsertCredential | OCreateSchedule | OCancelSchedule | OBeginTx
  | OInsertUser | ORevokeDevice | OInsertDevice | OInsertAccount | OInsertLimit string | OCommitTx

text \<open>
  The clocks of the process and of the database, eight random bytes in hexadecimal (None when the source of randomness fails), fresh
  row ids, a signed signaling token (None when signing fails), and which queries fail. A failed statement changes nothing.
\<close>

record ob_env =
  oe_now :: time
  oe_db_now :: time
  oe_short :: "string option"
  oe_uuid :: uuid
  oe_uuid2 :: uuid
  oe_uuid3 :: uuid
  oe_jwt :: "string option"
  oe_fault :: "ob_query \<Rightarrow> bool"

text \<open>
  The rows of accounts and users are those of the rest of the system. \<open>core_calls\<close> are the accounts opened at the core banking
  system so far, with the session each was opened for.
\<close>

record 's ob_world = "'s auth_world" +
  ob :: ob_db
  core_calls :: "(string \<times> string) list"

type_synonym ('s, 'a) onboarding = "('s ob_world, 'a) svc"

definition ob_read :: "ob_env \<Rightarrow> ob_query \<Rightarrow> (ob_db \<Rightarrow> 'a) \<Rightarrow> ('s, 'a) onboarding" where
  "ob_read E q f w = (if oe_fault E q then (Inl InternalError, w) else (Inr (f (ob w)), w))"

definition ob_write :: "ob_env \<Rightarrow> ob_query \<Rightarrow> (ob_db \<Rightarrow> app_err + 'a \<times> ob_db) \<Rightarrow> ('s, 'a) onboarding" where
  "ob_write E q f w = (if oe_fault E q then (Inl InternalError, w) else
     (case f (ob w) of Inl e \<Rightarrow> (Inl e, w) | Inr (x, d) \<Rightarrow> (Inr x, w\<lparr>ob := d\<rparr>)))"

text \<open>A call whose error is only logged, and Redis reads whose error counts as nothing found or as a default.\<close>

definition svc_try :: "('w, 'a) svc \<Rightarrow> ('w, app_err + 'a) svc" where
  "svc_try m w = (case m w of (r, w1) \<Rightarrow> (Inr r, w1))"

definition kv_maybe :: "('s \<Rightarrow> 'a option reply \<times> 's) \<Rightarrow> (('s, 'z) world_scheme, 'a option) svc" where
  "kv_maybe f w = (case f (kv w) of (Reply x, s) \<Rightarrow> (Inr x, w\<lparr>kv := s\<rparr>) | (Fault, s) \<Rightarrow> (Inr None, w\<lparr>kv := s\<rparr>))"

definition kv_or :: "'a \<Rightarrow> ('s \<Rightarrow> 'a reply \<times> 's) \<Rightarrow> (('s, 'z) world_scheme, 'a) svc" where
  "kv_or x f w = (case f (kv w) of (Reply y, s) \<Rightarrow> (Inr y, w\<lparr>kv := s\<rparr>) | (Fault, s) \<Rightarrow> (Inr x, w\<lparr>kv := s\<rparr>))"

definition kv_run :: "('s \<Rightarrow> 'a \<times> 's) \<Rightarrow> (('s, 'z) world_scheme, 'a) svc" where
  "kv_run f w = (case f (kv w) of (x, s) \<Rightarrow> (Inr x, w\<lparr>kv := s\<rparr>))"

lemma ob_io_simps [simp]:
  "ob_read E q f w = (Inr a, w') \<longleftrightarrow> \<not> oe_fault E q \<and> a = f (ob w) \<and> w' = w"
  "ob_read E q f w = (Inl e, w') \<longleftrightarrow> oe_fault E q \<and> e = InternalError \<and> w' = w"
  "ob_write E q g w = (Inr x, w') \<longleftrightarrow> \<not> oe_fault E q \<and> (\<exists>d. g (ob w) = Inr (x, d) \<and> w' = w\<lparr>ob := d\<rparr>)"
  "svc_try m w = (Inl e, w') \<longleftrightarrow> False"
  "svc_try m w = (Inr r, w') \<longleftrightarrow> m w = (r, w')"
  "kv_maybe h w = (Inl e, w') \<longleftrightarrow> False"
  "kv_or x f w = (Inl e, w') \<longleftrightarrow> False"
  "kv_run k w = (Inl e, w') \<longleftrightarrow> False"
  by (auto simp: ob_read_def ob_write_def svc_try_def kv_maybe_def kv_or_def kv_run_def split: sum.splits prod.splits reply.splits)

lemma ob_write_Inl [simp]:
  "ob_write E q g w = (Inl e, w') \<longleftrightarrow> w' = w \<and> (if oe_fault E q then e = InternalError else g (ob w) = Inl e)"
  by (auto simp: ob_write_def split: sum.splits)

lemma kv_maybe_Inr [simp]:
  "kv_maybe h w = (Inr x, w') \<longleftrightarrow> (\<exists>s. (h (kv w) = (Reply x, s) \<or> x = None \<and> h (kv w) = (Fault, s)) \<and> w' = w\<lparr>kv := s\<rparr>)"
  by (auto simp: kv_maybe_def split: prod.splits reply.splits)

lemma keeps_svc_try [keeps_intros]: "keeps P m \<Longrightarrow> keeps P (svc_try m)"
  by (auto simp: keeps_def svc_try_def split: prod.splits)

lemma keeps_ob_read [keeps_intros]: "keeps P (ob_read E q f)"
  by (auto simp: keeps_def ob_read_def)

subsection \<open>Sessions\<close>

definition known_session :: "string \<Rightarrow> ob_db \<Rightarrow> bool" where
  "known_session i d \<longleftrightarrow> list_ex (\<lambda>s. os_id s = i) (ob_sessions d)"

definition create_ob_session :: "ob_session \<Rightarrow> ob_db \<Rightarrow> app_err + unit \<times> ob_db" where
  "create_ob_session s d =
     (if known_session (os_id s) d \<or> 64 < List.length (os_device s) \<or> 20 < List.length (os_tnc s) then Inl InternalError
      else Inr ((), d\<lparr>ob_sessions := ob_sessions d @ [s]\<rparr>))"

text \<open>The columns that record the catalogue shown are not read back.\<close>

definition session_columns :: "ob_session \<Rightarrow> ob_session" where
  "session_columns s = s\<lparr>os_catalog := '''', os_deposit_shown := 0\<rparr>"

definition find_ob_session :: "string \<Rightarrow> ob_db \<Rightarrow> ob_session option" where
  "find_ob_session i d = map_option session_columns (find (\<lambda>s. os_id s = i \<and> os_deleted s = None) (ob_sessions d))"

definition update_live_session :: "string \<Rightarrow> (ob_session \<Rightarrow> ob_session) \<Rightarrow> ob_db \<Rightarrow> app_err + unit \<times> ob_db" where
  "update_live_session i f d =
     (if list_ex (\<lambda>s. os_id s = i \<and> os_deleted s = None) (ob_sessions d)
      then Inr ((), d\<lparr>ob_sessions := update_where (\<lambda>s. os_id s = i \<and> os_deleted s = None) f (ob_sessions d)\<rparr>)
      else Inl InternalError)"

definition soft_delete :: "time \<Rightarrow> string \<Rightarrow> ob_db \<Rightarrow> app_err + unit \<times> ob_db" where
  "soft_delete t i = update_live_session i (\<lambda>s. s\<lparr>os_deleted := Some t, os_updated := t\<rparr>)"

definition update_step :: "time \<Rightarrow> string \<Rightarrow> step \<Rightarrow> steps_completed \<Rightarrow> ob_db \<Rightarrow> app_err + unit \<times> ob_db" where
  "update_step t i st fl = update_live_session i (\<lambda>s. s\<lparr>os_step := st, os_flags := fl, os_updated := t\<rparr>)"

record card_update =
  cu_card :: string
  cu_at :: time
  cu_version :: string
  cu_step :: step
  cu_flags :: steps_completed

definition update_card :: "time \<Rightarrow> string \<Rightarrow> card_update \<Rightarrow> ob_db \<Rightarrow> app_err + unit \<times> ob_db" where
  "update_card t i u = update_live_session i (\<lambda>s. s\<lparr>os_card := cu_card u, os_card_at := Some (cu_at u),
     os_card_version := cu_version u, os_step := cu_step u, os_flags := cu_flags u, os_updated := t\<rparr>)"

definition count_active_by_device :: "time \<Rightarrow> string \<Rightarrow> time \<Rightarrow> ob_db \<Rightarrow> nat" where
  "count_active_by_device db_now dev since d =
     List.length (filter (\<lambda>s. os_device s = dev \<and> os_deleted s = None \<and> db_now < os_expires s \<and> since \<le> os_created s) (ob_sessions d))"

subsection \<open>Evidence\<close>

text \<open>\<open>ORDER BY c DESC LIMIT 1\<close>; of rows with the same instant the first one stored is taken.\<close>

definition newest :: "('r \<Rightarrow> time) \<Rightarrow> 'r list \<Rightarrow> 'r option" where
  "newest k rs = (case rs of [] \<Rightarrow> None | r # rest \<Rightarrow> Some (foldl (\<lambda>b x. if k b < k x then x else b) r rest))"

definition insert_ocr :: "ocr_row \<Rightarrow> ob_db \<Rightarrow> app_err + unit \<times> ob_db" where
  "insert_ocr r d = (if list_ex (\<lambda>x. oc_id x = oc_id r) (ocr_rows d) \<or> \<not> known_session (oc_session r) d then Inl InternalError
     else Inr ((), d\<lparr>ocr_rows := ocr_rows d @ [r]\<rparr>))"

definition find_ocr :: "string \<Rightarrow> ob_db \<Rightarrow> ocr_row option" where
  "find_ocr i d = newest oc_created (filter (\<lambda>r. oc_session r = i) (ocr_rows d))"

definition insert_personal :: "personal_row \<Rightarrow> ob_db \<Rightarrow> app_err + unit \<times> ob_db" where
  "insert_personal r d = (if list_ex (\<lambda>x. pd_id x = pd_id r \<or> pd_session x = pd_session r) (personal_rows d)
       \<or> \<not> known_session (pd_session r) d then Inl InternalError
     else Inr ((), d\<lparr>personal_rows := personal_rows d @ [r]\<rparr>))"

definition update_personal :: "personal_row \<Rightarrow> ob_db \<Rightarrow> app_err + unit \<times> ob_db" where
  "update_personal r d = (if list_ex (\<lambda>x. pd_session x = pd_session r) (personal_rows d)
     then Inr ((), d\<lparr>personal_rows := update_where (\<lambda>x. pd_session x = pd_session r) (\<lambda>x. x\<lparr>pd_nik := pd_nik r, pd_nama := pd_nama r,
       pd_phone := pd_phone r, pd_email := pd_email r, pd_updated := pd_updated r\<rparr>) (personal_rows d)\<rparr>)
     else Inl InternalError)"

definition find_personal :: "string \<Rightarrow> ob_db \<Rightarrow> personal_row option" where
  "find_personal i d = find (\<lambda>r. pd_session r = i) (personal_rows d)"

definition insert_biometric :: "biometric_row \<Rightarrow> ob_db \<Rightarrow> app_err + unit \<times> ob_db" where
  "insert_biometric r d = (if list_ex (\<lambda>x. br_id x = br_id r) (biometric_rows d) \<or> \<not> known_session (br_session r) d then Inl InternalError
     else Inr ((), d\<lparr>biometric_rows := biometric_rows d @ [r]\<rparr>))"

definition insert_credential :: "credential \<Rightarrow> ob_db \<Rightarrow> app_err + unit \<times> ob_db" where
  "insert_credential r d = (if list_ex (\<lambda>x. cr_id x = cr_id r \<or> cr_session x = cr_session r) (ob_credentials d)
       \<or> \<not> known_session (cr_session r) d then Inl InternalError
     else Inr ((), d\<lparr>ob_credentials := ob_credentials d @ [r]\<rparr>))"

definition find_credential :: "string \<Rightarrow> ob_db \<Rightarrow> credential option" where
  "find_credential i d = find (\<lambda>r. cr_session r = i) (ob_credentials d)"

subsection \<open>Video calls\<close>

abbreviation CallQueued :: string where "CallQueued \<equiv> ''QUEUED''"

abbreviation CallActive :: string where "CallActive \<equiv> ''ACTIVE''"

abbreviation CallCompleted :: string where "CallCompleted \<equiv> ''COMPLETED''"

abbreviation CallCancelled :: string where "CallCancelled \<equiv> ''CANCELLED''"

abbreviation open_call :: "video_call \<Rightarrow> bool" where
  "open_call c \<equiv> vc_status c = CallQueued \<or> vc_status c = CallActive"

definition create_call :: "video_call \<Rightarrow> ob_db \<Rightarrow> app_err + unit \<times> ob_db" where
  "create_call c d = (if list_ex (\<lambda>x. vc_queue x = vc_queue c) (video_calls d) \<or> \<not> known_session (vc_session c) d
       \<or> (open_call c \<and> list_ex (\<lambda>x. vc_session x = vc_session c \<and> open_call x) (video_calls d)) then Inl InternalError
     else Inr ((), d\<lparr>video_calls := video_calls d @ [c]\<rparr>))"

definition find_call :: "string \<Rightarrow> ob_db \<Rightarrow> video_call option" where
  "find_call q d = find (\<lambda>c. vc_queue c = q) (video_calls d)"

definition find_latest_call :: "string \<Rightarrow> ob_db \<Rightarrow> video_call option" where
  "find_latest_call i d = newest vc_joined (filter (\<lambda>c. vc_session c = i) (video_calls d))"

text \<open>\<open>COALESCE(x, y)\<close> on text columns that read NULL as the empty string.\<close>

definition coalesce :: "string \<Rightarrow> string \<Rightarrow> string" where
  "coalesce x y = (if x \<noteq> '''' then x else y)"

definition coalesce_time :: "time option \<Rightarrow> time \<Rightarrow> time option" where
  "coalesce_time x t = (case x of None \<Rightarrow> Some t | Some u \<Rightarrow> Some u)"

record call_result =
  rs_result :: string
  rs_agent :: string
  rs_agent_name :: string
  rs_notes :: string
  rs_recording :: string
  rs_ktp_shown :: bool
  rs_identity :: bool
  rs_duration :: int

definition apply_result :: "time \<Rightarrow> call_result \<Rightarrow> video_call \<Rightarrow> video_call" where
  "apply_result t r c = c\<lparr>vc_status := CallCompleted, vc_result := rs_result r, vc_agent := coalesce (vc_agent c) (rs_agent r),
     vc_agent_name := coalesce (rs_agent_name r) (vc_agent_name c), vc_notes := rs_notes r, vc_recording := rs_recording r,
     vc_ktp_shown := rs_ktp_shown r, vc_identity := rs_identity r, vc_duration := rs_duration r, vc_ended := Some t\<rparr>"

definition update_result :: "time \<Rightarrow> string \<Rightarrow> call_result \<Rightarrow> ob_db \<Rightarrow> app_err + unit \<times> ob_db" where
  "update_result t q r d = (if 64 < List.length (rs_recording r) \<or> \<not> list_ex (\<lambda>c. vc_queue c = q) (video_calls d) then Inl InternalError
     else Inr ((), d\<lparr>video_calls := update_where (\<lambda>c. vc_queue c = q) (apply_result t r) (video_calls d)\<rparr>))"

definition apply_active :: "time \<Rightarrow> string \<Rightarrow> string \<Rightarrow> video_call \<Rightarrow> video_call" where
  "apply_active t agent name c = c\<lparr>vc_status := CallActive, vc_agent := coalesce agent (vc_agent c),
     vc_agent_name := coalesce name (vc_agent_name c), vc_started := coalesce_time (vc_started c) t\<rparr>"

definition mark_call_active :: "time \<Rightarrow> string \<Rightarrow> string \<Rightarrow> string \<Rightarrow> ob_db \<Rightarrow> app_err + unit \<times> ob_db" where
  "mark_call_active t q agent name d =
     (let hit = (\<lambda>c. vc_queue c = q \<and> vc_status c \<noteq> CallCompleted \<and> vc_status c \<noteq> CallCancelled) in
      if list_ex hit (video_calls d) then Inr ((), d\<lparr>video_calls := update_where hit (apply_active t agent name) (video_calls d)\<rparr>)
      else Inl InternalError)"

definition cancel_call :: "time \<Rightarrow> string \<Rightarrow> ob_db \<Rightarrow> app_err + bool \<times> ob_db" where
  "cancel_call t q d =
     (let hit = (\<lambda>c. vc_queue c = q \<and> open_call c) in
      Inr (list_ex hit (video_calls d), d\<lparr>video_calls := update_where hit
        (\<lambda>c. c\<lparr>vc_status := CallCancelled, vc_ended := coalesce_time (vc_ended c) t\<rparr>) (video_calls d)\<rparr>))"

subsection \<open>Escalations\<close>

abbreviation EscPending :: string where "EscPending \<equiv> ''PENDING''"

abbreviation EscInReview :: string where "EscInReview \<equiv> ''IN_REVIEW''"

abbreviation EscResolved :: string where "EscResolved \<equiv> ''RESOLVED''"

abbreviation EscCancelled :: string where "EscCancelled \<equiv> ''CANCELLED''"

abbreviation open_escalation :: "escalation \<Rightarrow> bool" where
  "open_escalation e \<equiv> es_status e = EscPending \<or> es_status e = EscInReview"

abbreviation VideoCallEscalationExists :: app_err where
  "VideoCallEscalationExists \<equiv> Coded 409 ''VIDEO_CALL_ESCALATION_EXISTS'' []"

definition create_escalation :: "escalation \<Rightarrow> ob_db \<Rightarrow> app_err + unit \<times> ob_db" where
  "create_escalation e d = (if \<not> known_session (es_session e) d then Inl InternalError
     else if list_ex (\<lambda>x. es_id x = es_id e) (escalations d)
       \<or> (open_escalation e \<and> list_ex (\<lambda>x. es_session x = es_session e \<and> open_escalation x) (escalations d))
     then Inl VideoCallEscalationExists else Inr ((), d\<lparr>escalations := escalations d @ [e]\<rparr>))"

definition find_open_escalation :: "string \<Rightarrow> ob_db \<Rightarrow> escalation option" where
  "find_open_escalation i d = find (\<lambda>e. es_session e = i \<and> open_escalation e) (escalations d)"

definition find_escalation :: "string \<Rightarrow> ob_db \<Rightarrow> escalation option" where
  "find_escalation i d = find (\<lambda>e. es_id e = i) (escalations d)"

definition claim_escalation :: "time \<Rightarrow> string \<Rightarrow> string \<Rightarrow> ob_db \<Rightarrow> app_err + bool \<times> ob_db" where
  "claim_escalation t i agent d =
     (let hit = (\<lambda>e. es_id e = i \<and> es_status e = EscPending) in
      Inr (list_ex hit (escalations d), d\<lparr>escalations := update_where hit
        (\<lambda>e. e\<lparr>es_status := EscInReview, es_claimed_by := agent, es_claimed := Some t\<rparr>) (escalations d)\<rparr>))"

record esc_decision =
  ed_agent :: string
  ed_resolution :: string
  ed_reason :: string
  ed_notes :: string

definition resolve_escalation :: "time \<Rightarrow> string \<Rightarrow> esc_decision \<Rightarrow> ob_db \<Rightarrow> app_err + bool \<times> ob_db" where
  "resolve_escalation t i r d =
     (let hit = (\<lambda>e. es_id e = i \<and> open_escalation e \<and> (es_claimed_by e = '''' \<or> es_claimed_by e = ed_agent r)) in
      Inr (list_ex hit (escalations d), d\<lparr>escalations := update_where hit
        (\<lambda>e. e\<lparr>es_status := EscResolved, es_resolved_by := ed_agent r, es_resolved := Some t, es_resolution := ed_resolution r,
          es_resolution_reason := ed_reason r, es_notes := ed_notes r\<rparr>) (escalations d)\<rparr>))"

subsection \<open>Schedules\<close>

abbreviation VideoCallAlreadyScheduled :: app_err where
  "VideoCallAlreadyScheduled \<equiv> Coded 422 ''VIDEO_CALL_ALREADY_SCHEDULED'' []"

definition create_schedule :: "call_schedule \<Rightarrow> ob_db \<Rightarrow> app_err + unit \<times> ob_db" where
  "create_schedule s d = (if list_ex (\<lambda>x. sh_id x = sh_id s \<or> (sh_session x = sh_session s \<and> sh_status x = ''SCHEDULED''
       \<and> sh_status s = ''SCHEDULED'')) (schedules d) then Inl VideoCallAlreadyScheduled
     else Inr ((), d\<lparr>schedules := schedules d @ [s]\<rparr>))"

definition find_active_schedule :: "string \<Rightarrow> ob_db \<Rightarrow> call_schedule option" where
  "find_active_schedule i d = find (\<lambda>s. sh_session s = i \<and> sh_status s = ''SCHEDULED'') (schedules d)"

definition cancel_schedule :: "time \<Rightarrow> string \<Rightarrow> ob_db \<Rightarrow> app_err + bool \<times> ob_db" where
  "cancel_schedule t i d =
     (let hit = (\<lambda>s. sh_session s = i \<and> sh_status s = ''SCHEDULED'') in
      Inr (list_ex hit (schedules d), d\<lparr>schedules := update_where hit
        (\<lambda>s. s\<lparr>sh_status := ''CANCELLED'', sh_updated := t\<rparr>) (schedules d)\<rparr>))"

end
