(* ===== verification/Onboarding_Cache.thy ===== *)
theory Onboarding_Cache
  imports Onboarding_Tables Session_Cache QRIS_Service
begin

text \<open>
  What account opening keeps in Redis (\<open>repository/redis/onboarding_cache.go\<close>): the session cache, the waiting queue, the
  idempotency slots, the one-time codes with their counters; then the function every service reads its session with.
\<close>

subsection \<open>The session cache\<close>

definition ob_session_ttl :: time where "ob_session_ttl = hours 24"

definition ob_session_key :: "string \<Rightarrow> string" where
  "ob_session_key i = ''onboarding:session:'' @ i"

definition encode_flags :: "steps_completed \<Rightarrow> json" where
  "encode_flags f = JObj [(''tnc_accepted'', JBool (sc_tnc f)), (''ocr_verified'', JBool (sc_ocr f)),
     (''personal_data_saved'', JBool (sc_personal f)), (''otp_verified'', JBool (sc_otp f)),
     (''biometric_verified'', JBool (sc_biometric f)), (''video_call_verified'', JBool (sc_video f)),
     (''credentials_set'', JBool (sc_credentials f)), (''submitted'', JBool (sc_submitted f)), (''card_selected'', JBool (sc_card f))]"

text \<open>A field marked \<open>omitempty\<close> is left out when it is empty.\<close>

definition omit_empty :: "string \<Rightarrow> string \<Rightarrow> (string \<times> json) list" where
  "omit_empty k s = (if s = '''' then [] else [(k, JStr s)])"

definition omit_nil :: "string \<Rightarrow> time option \<Rightarrow> (string \<times> json) list" where
  "omit_nil k t = (case t of None \<Rightarrow> [] | Some u \<Rightarrow> [(k, JTime u)])"

definition encode_ob_session :: "ob_session \<Rightarrow> json" where
  "encode_ob_session s = JObj ([(''id'', JStr (os_row s)), (''session_id'', JStr (os_id s)), (''device_id'', JStr (os_device s)),
     (''product_type'', JStr (product_name (os_product s))), (''current_step'', JStr (step_name (os_step s))),
     (''tnc_version'', JStr (os_tnc s)), (''steps_completed'', encode_flags (os_flags s)), (''created_at'', JTime (os_created s)),
     (''updated_at'', JTime (os_updated s)), (''expires_at'', JTime (os_expires s))]
     @ omit_nil ''deleted_at'' (os_deleted s) @ omit_empty ''card_type'' (os_card s) @ omit_nil ''card_selected_at'' (os_card_at s)
     @ omit_empty ''card_catalog_version'' (os_card_version s))"

definition get_otime :: "(string \<times> json) list \<Rightarrow> string \<Rightarrow> time option option" where
  "get_otime p k = (case map_of p k of
      None \<Rightarrow> Some None | Some JNull \<Rightarrow> Some None | Some (JTime t) \<Rightarrow> Some (Some t) | Some _ \<Rightarrow> None)"

definition decode_flags :: "(string \<times> json) list \<Rightarrow> steps_completed option" where
  "decode_flags p = do {
     a \<leftarrow> get_bool p ''tnc_accepted''; b \<leftarrow> get_bool p ''ocr_verified''; c \<leftarrow> get_bool p ''personal_data_saved'';
     d \<leftarrow> get_bool p ''otp_verified''; e \<leftarrow> get_bool p ''biometric_verified''; f \<leftarrow> get_bool p ''video_call_verified'';
     g \<leftarrow> get_bool p ''credentials_set''; h \<leftarrow> get_bool p ''submitted''; i \<leftarrow> get_bool p ''card_selected'';
     Some \<lparr>sc_tnc = a, sc_ocr = b, sc_personal = c, sc_otp = d, sc_biometric = e, sc_video = f, sc_credentials = g,
       sc_submitted = h, sc_card = i\<rparr> }"

text \<open>A product that is none of the three is refused here; the program stores no other.\<close>

definition decode_ob_session :: "json \<Rightarrow> ob_session option" where
  "decode_ob_session j = (case j of JObj p \<Rightarrow> do {
      row \<leftarrow> get_str p ''id''; i \<leftarrow> get_str p ''session_id''; dev \<leftarrow> get_str p ''device_id'';
      pt \<leftarrow> get_str p ''product_type''; prod \<leftarrow> product_of pt; st \<leftarrow> get_str p ''current_step''; tnc \<leftarrow> get_str p ''tnc_version'';
      fs \<leftarrow> get_obj p ''steps_completed''; fl \<leftarrow> decode_flags fs;
      cr \<leftarrow> get_time p ''created_at''; up \<leftarrow> get_time p ''updated_at''; ex \<leftarrow> get_time p ''expires_at'';
      del \<leftarrow> get_otime p ''deleted_at''; card \<leftarrow> get_str p ''card_type''; cat \<leftarrow> get_otime p ''card_selected_at'';
      cver \<leftarrow> get_str p ''card_catalog_version'';
      Some \<lparr>os_row = row, os_id = i, os_device = dev, os_product = prod, os_step = step_of st, os_tnc = tnc, os_flags = fl,
        os_created = cr, os_updated = up, os_expires = ex, os_deleted = del, os_card = card, os_card_at = cat,
        os_card_version = cver, os_catalog = '''', os_deposit_shown = 0\<rparr> }
    | _ \<Rightarrow> None)"

definition store_ob_session :: "'s data_api \<Rightarrow> time \<Rightarrow> ob_session \<Rightarrow> 's \<Rightarrow> unit reply \<times> 's" where
  "store_ob_session R t x s =
     (if os_expires x \<le> t then (Reply (), s)
      else api_set (strs R) t (ob_session_key (os_id x)) (RJson (encode_ob_session x)) (min (os_expires x - t) ob_session_ttl) s)"

definition get_ob_session :: "'s data_api \<Rightarrow> time \<Rightarrow> string \<Rightarrow> 's \<Rightarrow> ob_session option reply \<times> 's" where
  "get_ob_session R t i s = (case api_get (strs R) t (ob_session_key i) s of
      (Fault, s1) \<Rightarrow> (Fault, s1)
    | (Reply None, s1) \<Rightarrow> (Reply None, s1)
    | (Reply (Some (RJson j)), s1) \<Rightarrow> (case decode_ob_session j of
        None \<Rightarrow> (Fault, s1) | Some x \<Rightarrow> (Reply (if os_deleted x = None then Some x else None), s1))
    | (Reply (Some _), s1) \<Rightarrow> (Fault, s1))"

definition delete_ob_session :: "'s data_api \<Rightarrow> time \<Rightarrow> string \<Rightarrow> 's \<Rightarrow> unit reply \<times> 's" where
  "delete_ob_session R t i = api_del (strs R) t (ob_session_key i)"

lemma decode_encode_session:
  assumes "valid_step (os_step s)"
  shows "decode_ob_session (encode_ob_session s) = Some (session_columns s)"
  using assms by (cases s) (auto simp: decode_ob_session_def encode_ob_session_def session_columns_def get_otime_def json_get_defs
      omit_empty_def omit_nil_def encode_flags_def decode_flags_def get_bool_def split: option.splits)

subsection \<open>Counters with a window\<close>

text \<open>
  \<open>INCR\<close>, then \<open>EXPIRE\<close> on the first one. A limiter drops a key whose time to live could not be set, so that it does not count
  forever; \<open>IncrAttempt\<close> and \<open>IncrResend\<close> do not, and answer the count together with the error.
\<close>

definition incr_window :: "'s data_api \<Rightarrow> time \<Rightarrow> string \<Rightarrow> time \<Rightarrow> 's \<Rightarrow> (int \<times> bool) \<times> 's" where
  "incr_window R t k window s = (case api_incr (strs R) t k s of
      (Fault, s1) \<Rightarrow> ((0, False), s1)
    | (Reply n, s1) \<Rightarrow> if n = 1 then (case api_expire R t k window s1 of (Fault, s2) \<Rightarrow> ((n, False), s2) | (Reply u, s2) \<Rightarrow> ((n, True), s2))
        else ((n, True), s1))"

definition incr_or_drop :: "'s data_api \<Rightarrow> time \<Rightarrow> string \<Rightarrow> time \<Rightarrow> 's \<Rightarrow> int reply \<times> 's" where
  "incr_or_drop R t k window s = (case api_incr (strs R) t k s of
      (Fault, s1) \<Rightarrow> (Fault, s1)
    | (Reply n, s1) \<Rightarrow> if n = 1 then (case api_expire R t k window s1 of
          (Fault, s2) \<Rightarrow> (Fault, snd (api_del (strs R) t k s2)) | (Reply u, s2) \<Rightarrow> (Reply n, s2))
        else (Reply n, s1))"

definition ocr_rate_max :: int where "ocr_rate_max = 10"

definition check_ocr_attempt :: "'s data_api \<Rightarrow> time \<Rightarrow> string \<Rightarrow> 's \<Rightarrow> bool reply \<times> 's" where
  "check_ocr_attempt R t i s = (case incr_or_drop R t (''onboarding:ocr_rate:'' @ i) (hours 1) s of
      (Fault, s1) \<Rightarrow> (Fault, s1) | (Reply n, s1) \<Rightarrow> (Reply (n \<le> ocr_rate_max), s1))"

subsection \<open>One-time codes\<close>

definition otp_key :: "string \<Rightarrow> string" where "otp_key i = ''onboarding:otp:'' @ i"

definition otp_attempt_key :: "string \<Rightarrow> string" where "otp_attempt_key i = ''onboarding:otp_attempt:'' @ i"

definition otp_block_key :: "string \<Rightarrow> string" where "otp_block_key i = ''onboarding:otp_block:'' @ i"

definition otp_resend_key :: "string \<Rightarrow> string" where "otp_resend_key i = ''onboarding:otp_resend:'' @ i"

definition otp_attempt_window :: time where "otp_attempt_window = minutes 30"

definition otp_resend_window :: time where "otp_resend_window = hours 1"

definition otp_phone_send_window :: time where "otp_phone_send_window = hours 1"

definition store_otp :: "'s data_api \<Rightarrow> time \<Rightarrow> string \<Rightarrow> string \<Rightarrow> time \<Rightarrow> 's \<Rightarrow> time reply \<times> 's" where
  "store_otp R t i h ttl s = (case api_set (strs R) t (otp_key i) (RText h) ttl s of
      (Fault, s1) \<Rightarrow> (Fault, s1) | (Reply u, s1) \<Rightarrow> (Reply (t + ttl), s1))"

text \<open>A missing code is answered with the empty string.\<close>

definition get_otp :: "'s data_api \<Rightarrow> time \<Rightarrow> string \<Rightarrow> 's \<Rightarrow> string reply \<times> 's" where
  "get_otp R t i s = (case api_get (strs R) t (otp_key i) s of
      (Reply None, s1) \<Rightarrow> (Reply '''', s1) | (Reply (Some (RText h)), s1) \<Rightarrow> (Reply h, s1) | (r, s1) \<Rightarrow> (Fault, s1))"

definition delete_otp :: "'s data_api \<Rightarrow> time \<Rightarrow> string \<Rightarrow> 's \<Rightarrow> unit reply \<times> 's" where
  "delete_otp R t i = api_del (strs R) t (otp_key i)"

definition incr_otp_attempt :: "'s data_api \<Rightarrow> time \<Rightarrow> string \<Rightarrow> 's \<Rightarrow> (int \<times> bool) \<times> 's" where
  "incr_otp_attempt R t i = incr_window R t (otp_attempt_key i) otp_attempt_window"

definition reset_attempts :: "'s data_api \<Rightarrow> time \<Rightarrow> string \<Rightarrow> 's \<Rightarrow> unit reply \<times> 's" where
  "reset_attempts R t i = api_del (strs R) t (otp_attempt_key i)"

definition otp_blocked :: "'s data_api \<Rightarrow> time \<Rightarrow> string \<Rightarrow> 's \<Rightarrow> bool reply \<times> 's" where
  "otp_blocked R t i = api_exists R t (otp_block_key i)"

definition block_otp :: "'s data_api \<Rightarrow> time \<Rightarrow> string \<Rightarrow> time \<Rightarrow> 's \<Rightarrow> unit reply \<times> 's" where
  "block_otp R t i ttl = api_set (strs R) t (otp_block_key i) (RText ''1'') ttl"

text \<open>Seconds left of a key, 0 when there are none or the command fails.\<close>

definition remaining_seconds :: "'s data_api \<Rightarrow> time \<Rightarrow> string \<Rightarrow> 's \<Rightarrow> int \<times> 's" where
  "remaining_seconds R t k s = (case api_ttl R t k s of (Fault, s1) \<Rightarrow> (0, s1) | (Reply n, s1) \<Rightarrow> (if n \<le> 0 then 0 else n, s1))"

definition incr_resend :: "'s data_api \<Rightarrow> time \<Rightarrow> string \<Rightarrow> 's \<Rightarrow> (int \<times> bool) \<times> 's" where
  "incr_resend R t i = incr_window R t (otp_resend_key i) otp_resend_window"

definition reset_resend :: "'s data_api \<Rightarrow> time \<Rightarrow> string \<Rightarrow> 's \<Rightarrow> unit reply \<times> 's" where
  "reset_resend R t i = api_del (strs R) t (otp_resend_key i)"

definition digits_only :: "string \<Rightarrow> string" where
  "digits_only s = filter (\<lambda>c. digit_value c \<noteq> None) s"

definition national_form :: "string \<Rightarrow> string option" where
  "national_form raw = (let ds = digits_only raw;
       form = (if take 2 ds = ''62'' then Some (''0'' @ drop 2 ds) else if take 1 ds = ''0'' then Some ds
         else if take 1 ds = ''8'' then Some (''0'' @ ds) else None) in
     (case form of None \<Rightarrow> None
      | Some n \<Rightarrow> if List.length n < 10 \<or> 13 < List.length n then None
          else if take 2 n \<noteq> ''08'' \<or> n ! 2 = CHR ''0'' then None else Some n))"

definition normalize_phone :: "string \<Rightarrow> string option" where
  "normalize_phone raw = map_option (\<lambda>n. ''+62'' @ tl n) (national_form raw)"

text \<open>\<open>digest\<close> is the keyed hash when a key is configured, SHA-256 otherwise; a number that cannot be normalised counts as it is.\<close>

definition otp_phone_send_key :: "(string \<Rightarrow> string) \<Rightarrow> string \<Rightarrow> string" where
  "otp_phone_send_key digest phone = ''onboarding:otp_phone_send:''
     @ digest (case normalize_phone phone of None \<Rightarrow> phone | Some n \<Rightarrow> n)"

definition incr_phone_send :: "'s data_api \<Rightarrow> (string \<Rightarrow> string) \<Rightarrow> time \<Rightarrow> string \<Rightarrow> 's \<Rightarrow> int reply \<times> 's" where
  "incr_phone_send R digest t phone = incr_or_drop R t (otp_phone_send_key digest phone) otp_phone_send_window"

subsection \<open>Idempotency of the submission\<close>

definition ob_idem_ttl :: time where "ob_idem_ttl = hours 24"

definition ob_idem_claim_ttl :: time where "ob_idem_claim_ttl = seconds 60"

definition ob_idem_running :: string where "ob_idem_running = ''PROCESSING''"

definition ob_idem_key :: "string \<Rightarrow> string \<Rightarrow> string" where
  "ob_idem_key i k = ''onboarding:idem:'' @ i @ '':'' @ k"

datatype ob_claim = ClaimFresh | ClaimRunning | ClaimStored rval

definition ob_idem_claim :: "'s data_api \<Rightarrow> time \<Rightarrow> string \<Rightarrow> string \<Rightarrow> 's \<Rightarrow> ob_claim reply \<times> 's" where
  "ob_idem_claim R t i k s = (case api_setnx (strs R) t (ob_idem_key i k) (RText ob_idem_running) ob_idem_claim_ttl s of
      (Fault, s1) \<Rightarrow> (Fault, s1)
    | (Reply True, s1) \<Rightarrow> (Reply ClaimFresh, s1)
    | (Reply False, s1) \<Rightarrow> (case api_get (strs R) t (ob_idem_key i k) s1 of
        (Fault, s2) \<Rightarrow> (Fault, s2)
      | (Reply None, s2) \<Rightarrow> (Reply ClaimRunning, s2)
      | (Reply (Some v), s2) \<Rightarrow> (Reply (if v = RText ob_idem_running then ClaimRunning else ClaimStored v), s2)))"

definition ob_idem_persist :: "'s data_api \<Rightarrow> time \<Rightarrow> string \<Rightarrow> string \<Rightarrow> json \<Rightarrow> 's \<Rightarrow> unit reply \<times> 's" where
  "ob_idem_persist R t i k j = api_set (strs R) t (ob_idem_key i k) (RJson j) ob_idem_ttl"

definition ob_idem_release :: "'s data_api \<Rightarrow> time \<Rightarrow> string \<Rightarrow> string \<Rightarrow> 's \<Rightarrow> unit reply \<times> 's" where
  "ob_idem_release R t i k = api_del (strs R) t (ob_idem_key i k)"

subsection \<open>The waiting queue\<close>

text \<open>
  The commands on the sorted set of waiting calls, beside ZADD of \<open>data_api\<close>: ZREM of a member, ZRANK and ZRANGE 0 -1.
\<close>

record 's queue_api =
  api_zrem :: "time \<Rightarrow> string \<Rightarrow> string \<Rightarrow> 's \<Rightarrow> unit reply \<times> 's"
  api_zrank :: "time \<Rightarrow> string \<Rightarrow> string \<Rightarrow> 's \<Rightarrow> nat option reply \<times> 's"
  api_zrange :: "time \<Rightarrow> string \<Rightarrow> 's \<Rightarrow> string list reply \<times> 's"

locale redis_queue = redis_data R live
  for R :: "'s data_api" and live :: "'s \<Rightarrow> time \<Rightarrow> string \<Rightarrow> rval option" +
  fixes Z :: "'s queue_api"
  assumes zrem_member_frame: "api_zrem Z t k m s = (ru, s') \<Longrightarrow> t \<le> t' \<Longrightarrow> live s' t' k' = live s t' k'"
    and zrank_frame: "api_zrank Z t k m s = (ro, s') \<Longrightarrow> t \<le> t' \<Longrightarrow> live s' t' k' = live s t' k'"
    and zrange_frame: "api_zrange Z t k s = (rl, s') \<Longrightarrow> t \<le> t' \<Longrightarrow> live s' t' k' = live s t' k'"

definition by_score :: "(string \<times> int) list \<Rightarrow> string list" where
  "by_score hs = map fst (sort_key snd hs)"

fun rank_in :: "string \<Rightarrow> string list \<Rightarrow> nat option" where
  "rank_in m [] = None"
| "rank_in m (x # xs) = (if x = m then Some 0 else map_option Suc (rank_in m xs))"

definition store_queue :: "(time \<Rightarrow> string \<Rightarrow> bool) \<Rightarrow> store queue_api" where
  "store_queue down = \<lparr>
     api_zrem = (\<lambda>t k m s. if down t k then (Fault, s)
       else (Reply (), s\<lparr>score_table := rewrite t k (filter (\<lambda>h. fst h \<noteq> m)) (score_table s)\<rparr>)),
     api_zrank = (\<lambda>t k m s. if down t k then (Fault, s) else (Reply (rank_in m (by_score (unexpired t (score_table s k)))), s)),
     api_zrange = (\<lambda>t k s. if down t k then (Fault, s) else (Reply (by_score (unexpired t (score_table s k))), s)) \<rparr>"

interpretation store_queue: redis_queue "store_redis down" store_live "store_queue down" for down
  by unfold_locales (auto simp: store_queue_def split: if_splits)

definition queue_key :: string where "queue_key = ''onboarding:queue:active''"

definition queue_add :: "'s data_api \<Rightarrow> time \<Rightarrow> string \<Rightarrow> time \<Rightarrow> 's \<Rightarrow> unit reply \<times> 's" where
  "queue_add R t q joined = api_zadd R t queue_key (int joined) q"

definition queue_remove :: "'s queue_api \<Rightarrow> time \<Rightarrow> string \<Rightarrow> 's \<Rightarrow> unit reply \<times> 's" where
  "queue_remove Z t q = api_zrem Z t queue_key q"

definition queue_position :: "'s queue_api \<Rightarrow> time \<Rightarrow> string \<Rightarrow> 's \<Rightarrow> nat reply \<times> 's" where
  "queue_position Z t q s = (case api_zrank Z t queue_key q s of
      (Fault, s1) \<Rightarrow> (Fault, s1) | (Reply None, s1) \<Rightarrow> (Reply 0, s1) | (Reply (Some n), s1) \<Rightarrow> (Reply (n + 1), s1))"

definition queue_list :: "'s queue_api \<Rightarrow> time \<Rightarrow> 's \<Rightarrow> string list reply \<times> 's" where
  "queue_list Z t = api_zrange Z t queue_key"

text \<open>The counter of the day; its key carries the date of the server's clock. A missing time to live is only logged.\<close>

definition incr_daily_counter :: "'s data_api \<Rightarrow> ('l) lib_scheme \<Rightarrow> time \<Rightarrow> 's \<Rightarrow> int reply \<times> 's" where
  "incr_daily_counter R L t s = (let k = ''onboarding:queue:counter:'' @ yyyymmdd L (t div hours 24) in
     (case api_incr (strs R) t k s of
        (Fault, s1) \<Rightarrow> (Fault, s1)
      | (Reply n, s1) \<Rightarrow> if n = 1 then (Reply n, snd (api_expire R t k (hours 25) s1)) else (Reply n, s1)))"

subsection \<open>Reading a session\<close>

definition ob_expired :: "time \<Rightarrow> ob_session \<Rightarrow> bool" where
  "ob_expired t s \<longleftrightarrow> os_expires s < t"

text \<open>
  \<open>resolveOnboardingSession\<close>, of which every service keeps a copy: the cache first, then the database, whose row is put into the cache.
\<close>

definition live_or_expired :: "ob_env \<Rightarrow> ob_session \<Rightarrow> ('w, ob_session) svc" where
  "live_or_expired E s = (if ob_expired (oe_now E) s then svc_throw OnboardingSessionExpired else svc_return s)"

definition stored_session :: "ob_env \<Rightarrow> string \<Rightarrow> ('s, ob_session) onboarding" where
  "stored_session E i = svc_bind (ob_read E OFindSession (find_ob_session i)) (\<lambda>r.
     svc_bind (svc_option OnboardingNotFound r) (live_or_expired E))"

definition resolve_ob_session :: "'s data_api \<Rightarrow> ob_env \<Rightarrow> string \<Rightarrow> ('s, ob_session) onboarding" where
  "resolve_ob_session R E i = svc_bind (kv_maybe (get_ob_session R (oe_now E) i)) (\<lambda>c. case c of
       Some s \<Rightarrow> live_or_expired E s
     | None \<Rightarrow> svc_bind (stored_session E i) (\<lambda>s. svc_seq (best_effort_kv (store_ob_session R (oe_now E) s)) (svc_return s)))"

definition require_step :: "step \<Rightarrow> ob_session \<Rightarrow> ('w, unit) svc" where
  "require_step st s = fail_if (os_step s \<noteq> st) OnboardingInvalidStep"

text \<open>The end of every step: \<open>UpdateStep\<close>, then the cache, whose failure is only logged.\<close>

definition advance :: "'s data_api \<Rightarrow> ob_env \<Rightarrow> string \<Rightarrow> ob_session \<Rightarrow> step \<Rightarrow> steps_completed \<Rightarrow> ('s, unit) onboarding" where
  "advance R E i s st fl = svc_seq (ob_write E OUpdateStep (update_step (oe_now E) i st fl))
     (best_effort_kv (store_ob_session R (oe_now E) (s\<lparr>os_step := st, os_flags := fl\<rparr>)))"

end
