(* ===== verification/Video_Calls.thy ===== *)
theory Video_Calls
  imports Onboarding_Cache
begin

text \<open>
  The video call with a bank agent: \<open>domain/onboarding/video_call_service.go\<close> and \<open>escalation_service.go\<close>. The messages to the
  two ends of a call and the broadcast of queue positions are output only and left out, as is the signaling URL around the signed
  token. An agent is given by the employee id, the name and the terminal the authentication of the route found.
\<close>

abbreviation VideoCallUnderReview :: app_err where "VideoCallUnderReview \<equiv> Coded 422 ''VIDEO_CALL_UNDER_REVIEW'' []"

abbreviation VideoCallOutsideHours :: app_err where "VideoCallOutsideHours \<equiv> Coded 422 ''VIDEO_CALL_OUTSIDE_HOURS'' []"

abbreviation VideoCallNotActive :: app_err where "VideoCallNotActive \<equiv> Coded 422 ''VIDEO_CALL_NOT_ACTIVE'' []"

abbreviation VideoCallAgentMismatch :: app_err where "VideoCallAgentMismatch \<equiv> Coded 409 ''VIDEO_CALL_AGENT_MISMATCH'' []"

abbreviation VideoCallAlreadyTaken :: app_err where "VideoCallAlreadyTaken \<equiv> Coded 409 ''VIDEO_CALL_ALREADY_TAKEN'' []"

abbreviation CallTerminalNotOnline :: app_err where "CallTerminalNotOnline \<equiv> Coded 422 ''TERMINAL_NOT_ONLINE'' []"

abbreviation EscalationNotFound :: app_err where "EscalationNotFound \<equiv> Coded 404 ''ESCALATION_NOT_FOUND'' []"

abbreviation EscalationAlreadyClosed :: app_err where "EscalationAlreadyClosed \<equiv> Coded 409 ''ESCALATION_ALREADY_CLOSED'' []"

abbreviation EscalationSelfResolve :: app_err where "EscalationSelfResolve \<equiv> Coded 403 ''ESCALATION_SELF_RESOLVE'' []"

abbreviation EscalationClaimedByOther :: "string \<Rightarrow> app_err" where
  "EscalationClaimedByOther a \<equiv> Coded 409 ''ESCALATION_CLAIMED_BY_OTHER'' [(''claimed_by_agent'', JStr a)]"

abbreviation VideoCallScheduleInvalid :: app_err where "VideoCallScheduleInvalid \<equiv> Coded 422 ''VIDEO_CALL_SCHEDULE_INVALID'' []"

abbreviation VideoCallScheduleNotFound :: app_err where "VideoCallScheduleNotFound \<equiv> Coded 404 ''VIDEO_CALL_SCHEDULE_NOT_FOUND'' []"

definition avg_call_seconds :: nat where "avg_call_seconds = 180"

definition active_call_max_age :: time where "active_call_max_age = minutes 15"

definition schedule_max_ahead :: time where "schedule_max_ahead = 7 * hours 24"

definition schedule_min_ahead :: time where "schedule_min_ahead = minutes 15"

definition wib_hour :: "time \<Rightarrow> nat" where
  "wib_hour t = wib_time t div 3600"

definition within_operating_hours :: "time \<Rightarrow> bool" where
  "within_operating_hours t \<longleftrightarrow> 6 \<le> wib_hour t \<and> wib_hour t < 22"

definition valid_call_result :: "string \<Rightarrow> bool" where
  "valid_call_result r \<longleftrightarrow> list_ex (\<lambda>x. x = r) [''APPROVED'', ''REJECTED'', ''NEED_REVIEW'']"

definition valid_rejection_reason :: "string \<Rightarrow> bool" where
  "valid_rejection_reason r \<longleftrightarrow> list_ex (\<lambda>x. x = r) [''IDENTITY_MISMATCH'', ''INVALID_DOCUMENT'', ''FACE_MISMATCH'',
     ''SUSPICIOUS_ACTIVITY'', ''INCOMPLETE_INFORMATION'', ''OTHER'']"

definition valid_escalation_queue :: "string \<Rightarrow> bool" where
  "valid_escalation_queue r \<longleftrightarrow> list_ex (\<lambda>x. x = r) [''TIER_2_VERIFICATION'', ''FRAUD_REVIEW'', ''COMPLIANCE_REVIEW'']"

definition valid_escalation_status :: "string \<Rightarrow> bool" where
  "valid_escalation_status r \<longleftrightarrow> list_ex (\<lambda>x. x = r) [EscPending, EscInReview, EscResolved, EscCancelled]"

definition valid_resolution :: "string \<Rightarrow> bool" where
  "valid_resolution r \<longleftrightarrow> list_ex (\<lambda>x. x = r) [''APPROVED'', ''REJECTED'']"

record agent_info =
  ai_employee :: string
  ai_name :: string
  ai_terminal :: string

subsection \<open>Waiting\<close>

record join_reply =
  jr_queue :: string
  jr_number :: string
  jr_position :: nat
  jr_wait_seconds :: nat
  jr_token :: string

definition join_reply_of :: "ob_env \<Rightarrow> video_call \<Rightarrow> nat \<Rightarrow> ('s, join_reply) onboarding" where
  "join_reply_of E c pos = svc_bind (svc_option InternalError (oe_jwt E)) (\<lambda>tok.
     svc_return \<lparr>jr_queue = vc_queue c, jr_number = vc_number c, jr_position = pos, jr_wait_seconds = pos * avg_call_seconds,
       jr_token = tok\<rparr>)"

definition is_stale :: "time \<Rightarrow> video_call \<Rightarrow> bool" where
  "is_stale t c \<longleftrightarrow> (case vc_started c of None \<Rightarrow> vc_joined c | Some u \<Rightarrow> u) + active_call_max_age < t"

definition release_stale :: "'s queue_api \<Rightarrow> ob_env \<Rightarrow> video_call \<Rightarrow> ('s, unit) onboarding" where
  "release_stale Z E c = svc_bind (ob_write E OCancelCall (cancel_call (oe_now E) (vc_queue c))) (\<lambda>released.
     if released then best_effort_kv (queue_remove Z (oe_now E) (vc_queue c)) else svc_return ())"

definition rejoin_queue :: "'s data_api \<Rightarrow> 's queue_api \<Rightarrow> ob_env \<Rightarrow> video_call \<Rightarrow> ('s, join_reply) onboarding" where
  "rejoin_queue R Z E c = svc_bind (kv_or 0 (queue_position Z (oe_now E) (vc_queue c))) (\<lambda>pos0.
     svc_bind (if pos0 = 0 \<and> vc_status c = CallQueued
         then svc_bind (svc_try (on_kv (queue_add R (oe_now E) (vc_queue c) (vc_joined c)))) (\<lambda>r. case r of
             Inl e \<Rightarrow> svc_return pos0 | Inr u \<Rightarrow> kv_or 0 (queue_position Z (oe_now E) (vc_queue c)))
         else svc_return pos0)
       (join_reply_of E c))"

text \<open>\<open>fmt.Sprintf("A-%03d", seqNum)\<close>\<close>

definition queue_number :: "int \<Rightarrow> string" where
  "queue_number n = (let ds = digits_of (nat n) in ''A-'' @ replicate (3 - List.length ds) (CHR ''0'') @ ds)"

definition enqueue_call :: "'s data_api \<Rightarrow> 's queue_api \<Rightarrow> ('l) lib_scheme \<Rightarrow> ob_env \<Rightarrow> string \<Rightarrow> ('s, join_reply) onboarding" where
  "enqueue_call R Z L E i = svc_bind (svc_option InternalError (oe_short E)) (\<lambda>short.
     svc_bind (on_kv (incr_daily_counter R L (oe_now E))) (\<lambda>n.
     let c = \<lparr>vc_queue = ''q_'' @ short, vc_session = i, vc_number = queue_number n, vc_status = CallQueued, vc_agent = '''',
         vc_agent_name = '''', vc_result = '''', vc_ktp_shown = False, vc_identity = False, vc_notes = '''', vc_duration = 0,
         vc_recording = '''', vc_joined = oe_now E, vc_started = None, vc_ended = None\<rparr> in
     svc_seq (ob_write E OCreateCall (create_call c))
     (svc_seq (on_kv (queue_add R (oe_now E) (vc_queue c) (oe_now E)))
     (svc_bind (kv_or 0 (queue_position Z (oe_now E) (vc_queue c))) (join_reply_of E c)))))"

definition join_queue :: "'s data_api \<Rightarrow> 's queue_api \<Rightarrow> ('l) lib_scheme \<Rightarrow> ob_env \<Rightarrow> string \<Rightarrow> ('s, join_reply) onboarding" where
  "join_queue R Z L E i = svc_bind (resolve_ob_session R E i) (\<lambda>s.
     svc_seq (require_step StepVideoCall s)
     (svc_bind (ob_read E OOpenEscalation (find_open_escalation i)) (\<lambda>esc.
     svc_seq (fail_if (esc \<noteq> None) VideoCallUnderReview)
     (svc_seq (fail_if (\<not> within_operating_hours (oe_now E)) VideoCallOutsideHours)
     (svc_bind (ob_read E OFindLatestCall (find_latest_call i)) (\<lambda>existing. case existing of
        None \<Rightarrow> enqueue_call R Z L E i
      | Some c \<Rightarrow> if vc_status c = CallActive \<and> is_stale (oe_now E) c
            then svc_seq (release_stale Z E c) (enqueue_call R Z L E i)
          else if open_call c then rejoin_queue R Z E c
          else enqueue_call R Z L E i))))))"

subsection \<open>Releasing a call\<close>

text \<open>Best effort: a failing cancellation is logged.\<close>

definition release_call :: "'s queue_api \<Rightarrow> ob_env \<Rightarrow> video_call \<Rightarrow> ('s, unit) onboarding" where
  "release_call Z E c = svc_bind (svc_try (ob_write E OCancelCall (cancel_call (oe_now E) (vc_queue c)))) (\<lambda>r. case r of
       Inl e \<Rightarrow> svc_return ()
     | Inr released \<Rightarrow> if released then best_effort_kv (queue_remove Z (oe_now E) (vc_queue c)) else svc_return ())"

definition cancel_for_session :: "'s queue_api \<Rightarrow> ob_env \<Rightarrow> string \<Rightarrow> ('s, unit) onboarding" where
  "cancel_for_session Z E i = svc_bind (ob_read E OFindLatestCall (find_latest_call i)) (\<lambda>r. case r of
       None \<Rightarrow> svc_return ()
     | Some c \<Rightarrow> if open_call c then release_call Z E c else svc_return ())"

subsection \<open>The agents' list\<close>

record queued_call =
  qd_queue :: string
  qd_number :: string
  qd_session :: string
  qd_position :: nat
  qd_waited :: nat
  qd_status :: string
  qd_priority :: string

definition queue_priority :: "time \<Rightarrow> string" where
  "queue_priority waited = (if minutes 10 \<le> waited then ''HIGH'' else ''NORMAL'')"

fun collect_calls :: "'s queue_api \<Rightarrow> ob_env \<Rightarrow> string list \<Rightarrow> queued_call list \<Rightarrow> ('s, queued_call list) onboarding" where
  "collect_calls Z E [] calls = svc_return calls"
| "collect_calls Z E (q # qs) calls = svc_bind (ob_read E OFindCall (find_call q)) (\<lambda>r. case r of
       None \<Rightarrow> svc_seq (best_effort_kv (queue_remove Z (oe_now E) q)) (collect_calls Z E qs calls)
     | Some c \<Rightarrow> svc_bind (svc_try (ob_read E OFindSession (find_ob_session (vc_session c)))) (\<lambda>s.
         if (case s of Inr None \<Rightarrow> True | Inr (Some x) \<Rightarrow> ob_expired (oe_now E) x | Inl e \<Rightarrow> False)
         then svc_seq (release_call Z E c) (collect_calls Z E qs calls)
         else let waited = oe_now E - vc_joined c in
           collect_calls Z E qs (calls @ [\<lparr>qd_queue = vc_queue c, qd_number = vc_number c, qd_session = vc_session c,
             qd_position = List.length calls + 1, qd_waited = waited div 1000, qd_status = vc_status c,
             qd_priority = queue_priority waited\<rparr>])))"

definition list_queued :: "'s queue_api \<Rightarrow> ob_env \<Rightarrow> ('s, queued_call list \<times> bool) onboarding" where
  "list_queued Z E = svc_bind (on_kv (queue_list Z (oe_now E))) (\<lambda>ids. svc_bind (collect_calls Z E ids []) (\<lambda>calls.
     svc_return (calls, within_operating_hours (oe_now E))))"

subsection \<open>Picking a call up\<close>

record pickup_reply =
  pu_queue :: string
  pu_session :: string
  pu_number :: string
  pu_token :: string

text \<open>\<open>gate\<close> is the check of the agent's terminal, None where the service is built without it.\<close>

definition pick_up_call :: "'s queue_api \<Rightarrow> (string \<Rightarrow> string \<Rightarrow> app_err option) option \<Rightarrow> ob_env \<Rightarrow> string \<Rightarrow> agent_info
    \<Rightarrow> ('s, pickup_reply) onboarding" where
  "pick_up_call Z gate E q a =
     svc_seq (fail_if (ai_employee a = '''') ValidationError)
     (svc_seq (case gate of None \<Rightarrow> svc_return ()
        | Some g \<Rightarrow> svc_seq (fail_if (ai_terminal a = '''') CallTerminalNotOnline)
            (case g (ai_terminal a) (ai_employee a) of None \<Rightarrow> svc_return () | Some e \<Rightarrow> svc_throw e))
     (svc_bind (ob_read E OFindCall (find_call q)) (\<lambda>r. svc_bind (svc_option OnboardingNotFound r) (\<lambda>c.
     svc_seq (fail_if (vc_status c = CallCompleted \<or> vc_status c = CallCancelled) VideoCallNotActive)
     (svc_seq (fail_if (vc_status c = CallActive \<and> vc_agent c \<noteq> '''' \<and> vc_agent c \<noteq> ai_employee a) VideoCallAlreadyTaken)
     (svc_seq (ob_write E OMarkActive (mark_call_active (oe_now E) q (ai_employee a) (ai_name a)))
     (svc_bind (svc_option InternalError (oe_jwt E)) (\<lambda>tok.
     svc_seq (best_effort_kv (queue_remove Z (oe_now E) q))
       (svc_return \<lparr>pu_queue = q, pu_session = vc_session c, pu_number = vc_number c, pu_token = tok\<rparr>)))))))))"

subsection \<open>The agent's decision\<close>

record call_report =
  rp_queue :: string
  rp_session :: string
  rp_result :: string
  rp_rejection :: string
  rp_esc_queue :: string
  rp_notes :: string
  rp_recording :: string
  rp_ktp_shown :: bool
  rp_identity :: bool
  rp_duration :: int

record report_reply =
  rr_result :: string
  rr_step :: step
  rr_escalation :: "escalation option"

text \<open>The checks of the report itself, in the order of the code; the result is the queue of an escalation.\<close>

definition check_report :: "call_report \<Rightarrow> string \<Rightarrow> app_err + string" where
  "check_report q agent =
     (if \<not> valid_call_result (rp_result q) \<or> agent = '''' then Inl ValidationError
      else if rp_result q = ''REJECTED'' \<and> \<not> valid_rejection_reason (rp_rejection q) then Inl ValidationError
      else if rp_result q = ''NEED_REVIEW'' then
        (let eq = trim_space (rp_esc_queue q); eq' = (if eq = '''' then ''TIER_2_VERIFICATION'' else eq) in
         if trim_space (rp_notes q) = '''' \<or> \<not> valid_escalation_queue eq' then Inl ValidationError else Inr eq')
      else Inr (trim_space (rp_esc_queue q)))"

definition move_to_credentials :: "'s data_api \<Rightarrow> ob_env \<Rightarrow> string \<Rightarrow> ob_session \<Rightarrow> ('s, step) onboarding" where
  "move_to_credentials R E i s =
     (if can_transition (os_step s) StepCredentials
      then svc_seq (advance R E i s StepCredentials ((os_flags s)\<lparr>sc_video := True\<rparr>)) (svc_return StepCredentials)
      else svc_return (os_step s))"

definition raise_escalation :: "ob_env \<Rightarrow> call_report \<Rightarrow> string \<Rightarrow> string \<Rightarrow> ('s, escalation option) onboarding" where
  "raise_escalation E q agent esc_queue = (let e = \<lparr>es_id = ''esc_'' @ take 16 (oe_uuid E), es_session = rp_session q,
       es_queue_id = rp_queue q, es_queue = esc_queue, es_status = EscPending, es_reason = trim_space (rp_notes q),
       es_raised_by = agent, es_raised = oe_now E, es_claimed_by = '''', es_claimed = None, es_resolved_by = '''',
       es_resolved = None, es_resolution = '''', es_resolution_reason = '''', es_notes = ''''\<rparr> in
     svc_seq (ob_write E OCreateEscalation (create_escalation e)) (svc_return (Some e)))"

definition after_result :: "'s data_api \<Rightarrow> 's queue_api \<Rightarrow> ob_env \<Rightarrow> call_report \<Rightarrow> string \<Rightarrow> string \<Rightarrow> ('s, report_reply) onboarding" where
  "after_result R Z E q agent esc_queue =
     svc_seq (best_effort_kv (queue_remove Z (oe_now E) (rp_queue q)))
     (svc_bind (if rp_result q = ''APPROVED''
         then svc_bind (resolve_ob_session R E (rp_session q)) (move_to_credentials R E (rp_session q))
         else svc_return StepVideoCall) (\<lambda>next_step.
     svc_bind (if rp_result q = ''NEED_REVIEW'' then raise_escalation E q agent esc_queue else svc_return None) (\<lambda>esc.
     svc_return \<lparr>rr_result = rp_result q, rr_step = next_step, rr_escalation = esc\<rparr>)))"

text \<open>The call the report is about, with its checks, and the queue of an escalation.\<close>

definition reported_call :: "ob_env \<Rightarrow> call_report \<Rightarrow> string \<Rightarrow> ('s, video_call \<times> string) onboarding" where
  "reported_call E q agent = svc_bind (ob_read E OFindCall (find_call (rp_queue q))) (\<lambda>r.
     svc_bind (svc_option OnboardingNotFound r) (\<lambda>c.
     svc_seq (fail_if (vc_session c \<noteq> rp_session q) ValidationError)
     (svc_bind (svc_sum (check_report q agent)) (\<lambda>esc_queue.
     svc_seq (fail_if (vc_status c \<noteq> CallCompleted \<and> vc_status c \<noteq> CallActive) VideoCallNotActive)
     (svc_seq (fail_if (vc_status c = CallActive \<and> vc_agent c \<noteq> '''' \<and> vc_agent c \<noteq> agent) VideoCallAgentMismatch)
       (svc_return (c, esc_queue)))))))"

definition submit_call_result :: "'s data_api \<Rightarrow> 's queue_api \<Rightarrow> ob_env \<Rightarrow> call_report \<Rightarrow> agent_info \<Rightarrow> ('s, report_reply) onboarding" where
  "submit_call_result R Z E q a = svc_bind (reported_call E q (ai_employee a)) (\<lambda>(c, esc_queue).
     if vc_status c = CallCompleted
     then svc_bind (resolve_ob_session R E (rp_session q)) (\<lambda>s.
       svc_return \<lparr>rr_result = vc_result c, rr_step = os_step s, rr_escalation = None\<rparr>)
     else svc_seq (ob_write E OUpdateResult (update_result (oe_now E) (rp_queue q)
         \<lparr>rs_result = rp_result q, rs_agent = ai_employee a, rs_agent_name = vc_agent_name c, rs_notes = rp_notes q,
           rs_recording = rp_recording q, rs_ktp_shown = rp_ktp_shown q, rs_identity = rp_identity q, rs_duration = rp_duration q\<rparr>))
       (after_result R Z E q (ai_employee a) esc_queue))"

subsection \<open>Escalations\<close>

record esc_request =
  er_action :: string
  er_resolution :: string
  er_reason :: string
  er_notes :: string

record esc_reply =
  ep_escalation :: escalation
  ep_step :: "step option"

text \<open>\<open>respond\<close> reads the row of the session, not the cache; a session that cannot be read or is past the step is only logged.\<close>

definition respond_escalation :: "'s data_api \<Rightarrow> ob_env \<Rightarrow> escalation \<Rightarrow> string \<Rightarrow> ('s, esc_reply) onboarding" where
  "respond_escalation R E e resolution = svc_bind (svc_try (ob_read E OFindSession (find_ob_session (es_session e)))) (\<lambda>r. case r of
       Inr (Some s) \<Rightarrow>
         if resolution \<noteq> ''APPROVED'' \<or> ob_expired (oe_now E) s \<or> \<not> can_transition (os_step s) StepCredentials
         then svc_return \<lparr>ep_escalation = e, ep_step = Some (os_step s)\<rparr>
         else svc_seq (advance R E (es_session e) s StepCredentials ((os_flags s)\<lparr>sc_video := True\<rparr>))
           (svc_return \<lparr>ep_escalation = e, ep_step = Some StepCredentials\<rparr>)
     | _ \<Rightarrow> svc_return \<lparr>ep_escalation = e, ep_step = None\<rparr>)"

definition stale_escalation :: "ob_env \<Rightarrow> string \<Rightarrow> ('s, 'a) onboarding" where
  "stale_escalation E i = svc_bind (svc_try (ob_read E OFindEscalationAgain (find_escalation i))) (\<lambda>r. case r of
       Inr (Some e) \<Rightarrow> svc_throw (if es_status e = EscInReview then EscalationClaimedByOther (es_claimed_by e) else EscalationAlreadyClosed)
     | _ \<Rightarrow> svc_throw EscalationAlreadyClosed)"

definition check_esc_request :: "string \<Rightarrow> string \<Rightarrow> esc_request \<Rightarrow> bool" where
  "check_esc_request i agent q \<longleftrightarrow> (let action = to_upper (trim_space (er_action q)); res = to_upper (trim_space (er_resolution q)) in
     i \<noteq> '''' \<and> agent \<noteq> '''' \<and> (action = ''CLAIM'' \<or> action = ''RESOLVE'') \<and> (action = ''RESOLVE'' \<longrightarrow> valid_resolution res
       \<and> (res = ''REJECTED'' \<longrightarrow> valid_rejection_reason (to_upper (trim_space (er_reason q)))) \<and> trim_space (er_notes q) \<noteq> ''''))"

text \<open>The escalation a request works on: open, raised by another agent, not claimed by another one.\<close>

definition escalation_for :: "ob_env \<Rightarrow> string \<Rightarrow> string \<Rightarrow> ('s, escalation) onboarding" where
  "escalation_for E i agent = svc_bind (ob_read E OFindEscalation (find_escalation i)) (\<lambda>r.
     svc_bind (svc_option EscalationNotFound r) (\<lambda>e.
     svc_seq (fail_if (es_status e = EscResolved \<or> es_status e = EscCancelled) EscalationAlreadyClosed)
     (svc_seq (fail_if (equal_fold (es_raised_by e) agent) EscalationSelfResolve)
     (svc_seq (fail_if (es_status e = EscInReview \<and> \<not> equal_fold (es_claimed_by e) agent) (EscalationClaimedByOther (es_claimed_by e)))
       (svc_return e)))))"

definition claim_case :: "'s data_api \<Rightarrow> ob_env \<Rightarrow> string \<Rightarrow> string \<Rightarrow> escalation \<Rightarrow> ('s, esc_reply) onboarding" where
  "claim_case R E i agent e = (if es_status e = EscInReview then respond_escalation R E e ''''
     else svc_bind (ob_write E OClaimEscalation (claim_escalation (oe_now E) i agent)) (\<lambda>ok.
       if \<not> ok then stale_escalation E i
       else respond_escalation R E (e\<lparr>es_status := EscInReview, es_claimed_by := agent, es_claimed := Some (oe_now E)\<rparr>) ''''))"

definition decision_of :: "string \<Rightarrow> esc_request \<Rightarrow> esc_decision" where
  "decision_of agent q = \<lparr>ed_agent = agent, ed_resolution = to_upper (trim_space (er_resolution q)),
     ed_reason = to_upper (trim_space (er_reason q)), ed_notes = trim_space (er_notes q)\<rparr>"

definition resolve_case :: "'s data_api \<Rightarrow> ob_env \<Rightarrow> string \<Rightarrow> esc_decision \<Rightarrow> escalation \<Rightarrow> ('s, esc_reply) onboarding" where
  "resolve_case R E i r e = svc_bind (ob_write E OResolveEscalation (resolve_escalation (oe_now E) i r)) (\<lambda>ok.
     if \<not> ok then stale_escalation E i
     else respond_escalation R E (e\<lparr>es_status := EscResolved, es_resolved_by := ed_agent r, es_resolved := Some (oe_now E),
       es_resolution := ed_resolution r, es_resolution_reason := ed_reason r, es_notes := ed_notes r\<rparr>) (ed_resolution r))"

definition update_escalation :: "'s data_api \<Rightarrow> ob_env \<Rightarrow> string \<Rightarrow> esc_request \<Rightarrow> string \<Rightarrow> ('s, esc_reply) onboarding" where
  "update_escalation R E i0 q agent = (let i = trim_space i0 in
     svc_seq (fail_if (\<not> check_esc_request i agent q) ValidationError)
     (svc_bind (escalation_for E i agent) (\<lambda>e.
       if to_upper (trim_space (er_action q)) = ''CLAIM'' then claim_case R E i agent e
       else resolve_case R E i (decision_of agent q) e)))"

text \<open>The filter of the list; text that no escalation can match is refused.\<close>

abbreviation EscalationQueueUnknown :: app_err where "EscalationQueueUnknown \<equiv> Coded 422 ''ESCALATION_QUEUE_UNKNOWN'' []"

abbreviation EscalationStatusUnknown :: app_err where "EscalationStatusUnknown \<equiv> Coded 422 ''ESCALATION_STATUS_UNKNOWN'' []"

record esc_filter =
  ef_queue :: string
  ef_status :: string
  ef_claimed_by :: string
  ef_session :: string
  ef_limit :: int

definition select_escalations :: "esc_filter \<Rightarrow> ob_db \<Rightarrow> escalation list" where
  "select_escalations f d = take (if ef_limit f \<le> 0 then 50 else nat (ef_limit f)) (sort_key es_raised (filter (\<lambda>e.
     (if ef_status f \<noteq> '''' then es_status e = ef_status f else open_escalation e)
     \<and> (ef_queue f = '''' \<or> es_queue e = ef_queue f) \<and> (ef_claimed_by f = '''' \<or> es_claimed_by e = ef_claimed_by f)
     \<and> (ef_session f = '''' \<or> es_session e = ef_session f)) (escalations d)))"

definition escalation_waited :: "time \<Rightarrow> escalation \<Rightarrow> nat" where
  "escalation_waited t e = ((case es_resolved e of None \<Rightarrow> t | Some u \<Rightarrow> u) - es_raised e) div 1000"

definition list_escalations :: "ob_env \<Rightarrow> esc_filter \<Rightarrow> ('s, (escalation \<times> nat) list) onboarding" where
  "list_escalations E f0 = (let f = f0\<lparr>ef_queue := to_upper (trim_space (ef_queue f0)), ef_status := to_upper (trim_space (ef_status f0)),
       ef_limit := min 200 (if ef_limit f0 \<le> 0 then 50 else ef_limit f0)\<rparr> in
     svc_seq (fail_if (ef_queue f \<noteq> '''' \<and> \<not> valid_escalation_queue (ef_queue f)) EscalationQueueUnknown)
     (svc_seq (fail_if (ef_status f \<noteq> '''' \<and> \<not> valid_escalation_status (ef_status f)) EscalationStatusUnknown)
     (svc_bind (ob_read E OOpenEscalation (select_escalations f)) (\<lambda>rows.
       svc_return (map (\<lambda>e. (e, escalation_waited (oe_now E) e)) rows)))))"

subsection \<open>Appointments\<close>

text \<open>\<open>when0\<close> is the parsed instant of the request, None when it is not an RFC 3339 time.\<close>

definition validate_schedule_time :: "time \<Rightarrow> time \<Rightarrow> bool" where
  "validate_schedule_time now when \<longleftrightarrow> now + schedule_min_ahead \<le> when \<and> when \<le> now + schedule_max_ahead
     \<and> 6 \<le> wib_hour when \<and> wib_hour when < 22"

definition schedule_call :: "'s data_api \<Rightarrow> ob_env \<Rightarrow> string \<Rightarrow> time option \<Rightarrow> ('s, call_schedule) onboarding" where
  "schedule_call R E i when0 =
     svc_seq (fail_if (i = '''') ValidationError)
     (svc_bind (svc_option ValidationError when0) (\<lambda>when.
     svc_bind (resolve_ob_session R E i) (\<lambda>s.
     svc_seq (fail_if (ob_expired (oe_now E) s) OnboardingSessionExpired)
     (svc_seq (fail_if (os_step s \<noteq> StepVideoCall) OnboardingIncomplete)
     (svc_seq (fail_if (\<not> validate_schedule_time (oe_now E) when) VideoCallScheduleInvalid)
     (let sch = \<lparr>sh_id = ''vcs_'' @ take 16 (oe_uuid E), sh_session = i, sh_at = when, sh_status = ''SCHEDULED'',
          sh_created = oe_now E, sh_updated = oe_now E\<rparr> in
      svc_seq (ob_write E OCreateSchedule (create_schedule sch)) (svc_return sch)))))))"

definition cancel_call_schedule :: "'s data_api \<Rightarrow> ob_env \<Rightarrow> string \<Rightarrow> ('s, unit) onboarding" where
  "cancel_call_schedule R E i = svc_seq (fail_if (i = '''') ValidationError)
     (svc_seq (svc_bind (resolve_ob_session R E i) (\<lambda>s. svc_return ()))
     (svc_bind (ob_write E OCancelSchedule (cancel_schedule (oe_now E) i)) (\<lambda>ok. fail_if (\<not> ok) VideoCallScheduleNotFound)))"

end
