(* ===== verification/Onboarding_Sessions.thy ===== *)
theory Onboarding_Sessions
  imports Video_Calls
begin

text \<open>
  The session of an account opening (\<open>domain/onboarding/session_service.go\<close>), the choice of a card (\<open>SetCard\<close> of
  \<open>card_service.go\<close>) and the credentials (\<open>credential_service.go\<close>). What these take from the card catalogue, the product
  catalogue and the terms and conditions is a \<open>desk\<close>, an argument.
\<close>

subsection \<open>Opening a session\<close>

definition session_life :: time where "session_life = hours 24"

definition max_sessions_per_device :: nat where "max_sessions_per_device = 3"

definition session_rate_window :: time where "session_rate_window = hours 1"

text \<open>
  Whether card selection is on, the default card of a product's catalogue, a card that can be chosen, the version of the catalogue,
  the check of the version of the terms, the deposit and the version of the products shown, the threshold of old apps.
\<close>

record desk =
  dk_enabled :: bool
  dk_default :: "product \<Rightarrow> app_err + string"
  dk_card :: "product \<Rightarrow> string \<Rightarrow> app_err + string"
  dk_version :: "string option"
  dk_tnc :: "string \<Rightarrow> app_err option"
  dk_deposit :: "product \<Rightarrow> (int \<times> string) option"
  dk_legacy :: string

record open_request =
  oq_product :: string
  oq_device :: string
  oq_tnc :: string
  oq_card :: string
  oq_card_version :: string
  oq_app_version :: string

record open_reply =
  op_session :: string
  op_product :: product_info
  op_step :: step
  op_expires :: time
  op_outdated :: bool
  op_card :: "string option"

text \<open>The order of Go strings.\<close>

fun string_less :: "string \<Rightarrow> string \<Rightarrow> bool" where
  "string_less [] [] = False"
| "string_less [] (c # cs) = True"
| "string_less (c # cs) [] = False"
| "string_less (c # cs) (d # ds) = ((of_char c :: nat) < of_char d \<or> (c = d \<and> string_less cs ds))"

definition is_legacy_app :: "desk \<Rightarrow> string \<Rightarrow> bool" where
  "is_legacy_app D v \<longleftrightarrow> dk_legacy D \<noteq> '''' \<and> v \<noteq> '''' \<and> string_less v (dk_legacy D)"

definition catalog_outdated :: "desk \<Rightarrow> string \<Rightarrow> bool" where
  "catalog_outdated D v \<longleftrightarrow> v \<noteq> '''' \<and> (case dk_version D of None \<Rightarrow> False | Some u \<Rightarrow> u \<noteq> v)"

definition resolve_session_card :: "desk \<Rightarrow> product \<Rightarrow> open_request \<Rightarrow> app_err + (string option \<times> bool)" where
  "resolve_session_card D p q =
     (if \<not> dk_enabled D then Inr (None, False)
      else let wanted = (if oq_card q = '''' \<and> is_legacy_app D (oq_app_version q)
           then (case dk_default D p of Inl e \<Rightarrow> '''' | Inr c \<Rightarrow> c) else oq_card q) in
        if wanted = '''' then Inr (None, False)
        else (case dk_card D p wanted of Inl e \<Rightarrow> Inl e | Inr c \<Rightarrow> Inr (Some c, catalog_outdated D (oq_card_version q))))"

definition has_selectable_catalog :: "desk \<Rightarrow> product \<Rightarrow> bool" where
  "has_selectable_catalog D p \<longleftrightarrow> dk_enabled D \<and> (case dk_default D p of Inl e \<Rightarrow> False | Inr c \<Rightarrow> c \<noteq> '''')"

definition first_flags :: "bool \<Rightarrow> steps_completed" where
  "first_flags chosen = \<lparr>sc_tnc = True, sc_ocr = False, sc_personal = False, sc_otp = False, sc_biometric = False, sc_video = False,
     sc_credentials = False, sc_submitted = False, sc_card = chosen\<rparr>"

definition new_session :: "ob_env \<Rightarrow> desk \<Rightarrow> product \<Rightarrow> open_request \<Rightarrow> string \<Rightarrow> string option \<Rightarrow> ob_session" where
  "new_session E D p q short chosen =
     \<lparr>os_row = oe_uuid E, os_id = ''onb_'' @ short, os_device = oq_device q, os_product = p,
      os_step = (if chosen = None \<and> has_selectable_catalog D p then StepCardSelection else StepOCR), os_tnc = oq_tnc q,
      os_flags = first_flags (chosen \<noteq> None), os_created = oe_now E, os_updated = oe_now E, os_expires = oe_now E + session_life,
      os_deleted = None, os_card = (case chosen of None \<Rightarrow> '''' | Some c \<Rightarrow> c), os_card_at = (if chosen = None then None else Some (oe_now E)),
      os_card_version = (if chosen = None then '''' else oq_card_version q),
      os_catalog = (case dk_deposit D p of None \<Rightarrow> '''' | Some (n, v) \<Rightarrow> v),
      os_deposit_shown = (case dk_deposit D p of None \<Rightarrow> 0 | Some (n, v) \<Rightarrow> n)\<rparr>"

definition open_session :: "'s data_api \<Rightarrow> ob_env \<Rightarrow> desk \<Rightarrow> open_request \<Rightarrow> ('s, open_reply) onboarding" where
  "open_session R E D q = svc_bind (svc_option OnboardingProductUnavailable (product_of (oq_product q))) (\<lambda>p.
     svc_seq (fail_if (oq_device q = '''' \<or> oq_tnc q = '''') ValidationError)
     (svc_seq (case dk_tnc D (oq_tnc q) of None \<Rightarrow> svc_return () | Some e \<Rightarrow> svc_throw e)
     (svc_bind (ob_read E OCountDevice (count_active_by_device (oe_db_now E) (oq_device q) (oe_now E - session_rate_window))) (\<lambda>n.
     svc_seq (fail_if (max_sessions_per_device \<le> n) OnboardingSessionLimit)
     (svc_bind (svc_option InternalError (oe_short E)) (\<lambda>short.
     svc_bind (svc_sum (resolve_session_card D p q)) (\<lambda>(card, outdated).
     (let s = new_session E D p q short card in
      svc_seq (ob_write E OCreateSession (create_ob_session s))
      (svc_seq (best_effort_kv (store_ob_session R (oe_now E) s))
        (svc_return \<lparr>op_session = os_id s, op_product = product_catalog p, op_step = os_step s, op_expires = os_expires s,
          op_outdated = outdated, op_card = card\<rparr>))))))))))"

subsection \<open>Reading, cancelling, moving on\<close>

record session_view =
  sw_session :: string
  sw_product :: product_info
  sw_step :: step
  sw_flags :: steps_completed
  sw_created :: time
  sw_expires :: time

definition get_session :: "'s data_api \<Rightarrow> ob_env \<Rightarrow> string \<Rightarrow> ('s, session_view) onboarding" where
  "get_session R E i = svc_bind (resolve_ob_session R E i) (\<lambda>s. svc_return \<lparr>sw_session = os_id s,
     sw_product = product_catalog (os_product s), sw_step = os_step s, sw_flags = os_flags s, sw_created = os_created s,
     sw_expires = os_expires s\<rparr>)"

definition cancel_session :: "'s data_api \<Rightarrow> 's queue_api \<Rightarrow> ob_env \<Rightarrow> string \<Rightarrow> ('s, unit) onboarding" where
  "cancel_session R Z E i = svc_bind (resolve_ob_session R E i) (\<lambda>s.
     svc_seq (ob_write E OSoftDelete (soft_delete (oe_now E) i))
     (svc_seq (svc_bind (svc_try (cancel_for_session Z E i)) (\<lambda>r. svc_return ()))
       (best_effort_kv (delete_ob_session R (oe_now E) i))))"

fun flags_on_entry :: "step \<Rightarrow> steps_completed \<Rightarrow> steps_completed" where
  "flags_on_entry StepOCR f = f\<lparr>sc_tnc := True\<rparr>"
| "flags_on_entry StepPersonalData f = f\<lparr>sc_ocr := True\<rparr>"
| "flags_on_entry StepOTPVerify f = f\<lparr>sc_personal := True\<rparr>"
| "flags_on_entry StepBiometric f = f\<lparr>sc_otp := True\<rparr>"
| "flags_on_entry StepVideoCall f = f\<lparr>sc_biometric := True\<rparr>"
| "flags_on_entry StepCredentials f = f\<lparr>sc_video := True\<rparr>"
| "flags_on_entry StepReview f = f\<lparr>sc_credentials := True\<rparr>"
| "flags_on_entry StepCompleted f = f\<lparr>sc_submitted := True\<rparr>"
| "flags_on_entry _ f = f"

text \<open>\<open>TransitionStep\<close>; no service calls it.\<close>

definition transition_step :: "'s data_api \<Rightarrow> ob_env \<Rightarrow> string \<Rightarrow> step \<Rightarrow> ('s, unit) onboarding" where
  "transition_step R E i to' = svc_bind (resolve_ob_session R E i) (\<lambda>s.
     svc_seq (fail_if (\<not> can_transition (os_step s) to') OnboardingInvalidStep)
       (advance R E i s to' (flags_on_entry to' (os_flags s))))"

definition assert_session_device :: "ob_session \<Rightarrow> string \<Rightarrow> ('w, unit) svc" where
  "assert_session_device s dev = fail_if (dev \<noteq> '''' \<and> os_device s \<noteq> '''' \<and> dev \<noteq> os_device s) OnboardingDeviceMismatch"

definition assert_device_owns :: "'s data_api \<Rightarrow> ob_env \<Rightarrow> string \<Rightarrow> string \<Rightarrow> ('s, unit) onboarding" where
  "assert_device_owns R E i dev = (if trim_space dev = '''' then svc_return ()
     else svc_bind (resolve_ob_session R E i) (\<lambda>s. assert_session_device s dev))"

subsection \<open>The card\<close>

abbreviation CardCatalogEmpty :: app_err where "CardCatalogEmpty \<equiv> Coded 404 ''CARD_CATALOG_EMPTY'' []"

abbreviation CardLocked :: app_err where "CardLocked \<equiv> Coded 409 ''CARD_LOCKED'' []"

record card_choice =
  ch_card :: string
  ch_version :: string
  ch_device :: string

definition set_card :: "'s data_api \<Rightarrow> ob_env \<Rightarrow> desk \<Rightarrow> string \<Rightarrow> card_choice \<Rightarrow> ('s, step \<times> steps_completed) onboarding" where
  "set_card R E D i q = svc_seq (fail_if (\<not> dk_enabled D) CardCatalogEmpty)
     (svc_bind (resolve_ob_session R E i) (\<lambda>s.
     svc_seq (assert_session_device s (ch_device q))
     (svc_seq (fail_if (sc_submitted (os_flags s)) CardLocked)
     (svc_bind (svc_sum (dk_card D (os_product s) (ch_card q))) (\<lambda>card.
     (let fl = (os_flags s)\<lparr>sc_card := True\<rparr>; st = (if os_step s = StepCardSelection then StepOCR else os_step s) in
      svc_seq (ob_write E OUpdateCard (update_card (oe_now E) i
          \<lparr>cu_card = card, cu_at = oe_now E, cu_version = ch_version q, cu_step = st, cu_flags = fl\<rparr>))
      (svc_seq (best_effort_kv (store_ob_session R (oe_now E) (s\<lparr>os_card := card, os_card_at := Some (oe_now E),
          os_card_version := ch_version q, os_step := st, os_flags := fl\<rparr>)))
        (svc_return (st, fl)))))))))"

subsection \<open>Weak codes\<close>

abbreviation CredWeakAccessCode :: app_err where "CredWeakAccessCode \<equiv> Coded 422 ''CRED_WEAK_ACCESS_CODE'' []"

abbreviation CredWeakPIN :: app_err where "CredWeakPIN \<equiv> Coded 422 ''CRED_WEAK_PIN'' []"

abbreviation CredSameAsAccessCode :: app_err where "CredSameAsAccessCode \<equiv> Coded 422 ''CRED_SAME_AS_ACCESS_CODE'' []"

abbreviation CredDecryptionFailed :: app_err where "CredDecryptionFailed \<equiv> Coded 422 ''CRED_DECRYPTION_FAILED'' []"

abbreviation CredKeyUnknown :: "string \<Rightarrow> string \<Rightarrow> app_err" where
  "CredKeyUnknown expected received \<equiv> Coded 422 ''CRED_DECRYPTION_FAILED''
     [(''expected_key_id'', JStr expected), (''received_key_id'', JStr received)]"

definition char_num :: "char \<Rightarrow> int" where
  "char_num c = int (of_char c)"

definition is_digit_char :: "char \<Rightarrow> bool" where
  "is_digit_char c \<longleftrightarrow> 48 \<le> char_num c \<and> char_num c \<le> 57"

definition is_letter_char :: "char \<Rightarrow> bool" where
  "is_letter_char c \<longleftrightarrow> (65 \<le> char_num c \<and> char_num c \<le> 90) \<or> (97 \<le> char_num c \<and> char_num c \<le> 122)"

definition lower_char :: "char \<Rightarrow> char" where
  "lower_char c = (if 65 \<le> char_num c \<and> char_num c \<le> 90 then char_of (of_char c + (32 :: nat)) else c)"

definition is_all_same :: "string \<Rightarrow> bool" where
  "is_all_same s \<longleftrightarrow> s \<noteq> [] \<and> list_all (\<lambda>c. c = hd s) (tl s)"

definition sequential_run :: nat where "sequential_run = 3"

text \<open>
  The loop of \<open>isSequential\<close>: the previous character, the difference that led to it (0 for the first) and the length of the run that
  ends there.
\<close>

fun sequential_from :: "char \<Rightarrow> int \<Rightarrow> nat \<Rightarrow> string \<Rightarrow> bool" where
  "sequential_from p prev n [] = False"
| "sequential_from p prev n (c # cs) =
     (let diff = char_num c - char_num p in
      if diff = 1 \<or> diff = -1 then
        (let n' = (if diff = prev then n + 1 else 2) in
         if sequential_run \<le> n' then True else sequential_from c diff n' cs)
      else sequential_from c diff 1 cs)"

definition is_sequential :: "string \<Rightarrow> bool" where
  "is_sequential s = (if List.length s < sequential_run then False else sequential_from (hd s) 0 1 (tl s))"

definition validate_access_code :: "string \<Rightarrow> app_err option" where
  "validate_access_code s = (let l = map lower_char s in
     if List.length s \<noteq> 6 \<or> \<not> list_all (\<lambda>c. is_digit_char c \<or> is_letter_char c) s \<or> is_all_same l \<or> is_sequential l
     then Some CredWeakAccessCode else None)"

definition validate_new_pin :: "string \<Rightarrow> app_err option" where
  "validate_new_pin s = (if List.length s \<noteq> 6 \<or> \<not> list_all is_digit_char s \<or> is_all_same s \<or> is_sequential s
     then Some CredWeakPIN else None)"

subsection \<open>Credentials\<close>

record credential_request =
  cq_session :: string
  cq_access :: string
  cq_pin :: string
  cq_key :: string

text \<open>Whether a PIN key is configured and which, the decryption with it, and the salted hash, each of which may fail.\<close>

record credential_tools =
  ct_key :: "string option"
  ct_decrypt :: "string \<Rightarrow> string option"
  ct_hash :: "string \<Rightarrow> string option"

definition open_credential :: "credential_tools \<Rightarrow> string \<Rightarrow> app_err + string" where
  "open_credential T c = (if ct_key T = None then Inr c
     else case ct_decrypt T c of None \<Rightarrow> Inl CredDecryptionFailed | Some p \<Rightarrow> Inr p)"

definition key_refused :: "credential_tools \<Rightarrow> string \<Rightarrow> app_err option" where
  "key_refused T i = (case ct_key T of None \<Rightarrow> None
     | Some k \<Rightarrow> if accepts_key_id k i then None else Some (CredKeyUnknown (active_key_id k) i))"

definition weak_credentials :: "string \<Rightarrow> string \<Rightarrow> app_err option" where
  "weak_credentials code pin = (case validate_access_code code of Some e \<Rightarrow> Some e
     | None \<Rightarrow> (case validate_new_pin pin of Some e \<Rightarrow> Some e
     | None \<Rightarrow> if equal_fold pin code then Some CredSameAsAccessCode else None))"

definition check_credentials :: "credential_tools \<Rightarrow> credential_request \<Rightarrow> app_err + (string \<times> string)" where
  "check_credentials T q =
     (if cq_access q = '''' \<or> cq_pin q = '''' \<or> cq_key q = '''' then Inl ValidationError
      else case key_refused T (cq_key q) of Some e \<Rightarrow> Inl e
      | None \<Rightarrow> (case open_credential T (cq_access q) of Inl e \<Rightarrow> Inl e
      | Inr code \<Rightarrow> (case open_credential T (cq_pin q) of Inl e \<Rightarrow> Inl e
      | Inr pin \<Rightarrow> (case weak_credentials code pin of Some e \<Rightarrow> Inl e | None \<Rightarrow> Inr (code, pin)))))"

record credential_reply =
  cy_id :: string
  cy_step :: step

definition set_credentials :: "'s data_api \<Rightarrow> credential_tools \<Rightarrow> ob_env \<Rightarrow> credential_request \<Rightarrow> ('s, credential_reply) onboarding" where
  "set_credentials R T E q = svc_bind (resolve_ob_session R E (cq_session q)) (\<lambda>s.
     svc_bind (ob_read E OFindCredential (find_credential (cq_session q))) (\<lambda>existing. case existing of
       Some c \<Rightarrow> svc_return \<lparr>cy_id = cr_id c, cy_step = os_step s\<rparr>
     | None \<Rightarrow> svc_seq (require_step StepCredentials s)
         (svc_bind (svc_sum (check_credentials T q)) (\<lambda>(code, pin).
         svc_bind (svc_option InternalError (ct_hash T code)) (\<lambda>code_hash.
         svc_bind (svc_option InternalError (ct_hash T pin)) (\<lambda>pin_hash.
         svc_bind (svc_option InternalError (oe_short E)) (\<lambda>short.
         svc_seq (ob_write E OInsertCredential (insert_credential \<lparr>cr_id = ''cred_'' @ short, cr_session = cq_session q,
             cr_access_hash = code_hash, cr_pin_hash = pin_hash, cr_key = cq_key q, cr_created = oe_now E\<rparr>))
         (svc_seq (advance R E (cq_session q) s StepReview ((os_flags s)\<lparr>sc_credentials := True\<rparr>))
           (svc_return \<lparr>cy_id = ''cred_'' @ short, cy_step = StepReview\<rparr>)))))))))"

end
