(* ===== verification/Onboarding_Identity.thy ===== *)
theory Onboarding_Identity
  imports Onboarding_Sessions
begin

text \<open>
  Who the customer is: the identity card (\<open>domain/onboarding/ocr_service.go\<close>), the personal data and the one-time code
  (\<open>personal_data_service.go\<close>). The recognition of the text on the card with its parser, the registry of residents, the messaging
  gateway and the cipher of the columns are arguments; of the data on the card the number and the name are kept.
\<close>

subsection \<open>Encrypted columns\<close>

record field_cipher =
  fc_enabled :: bool
  fc_encrypt :: "string \<Rightarrow> string option"
  fc_decrypt :: "string \<Rightarrow> string option"

definition encrypt_field :: "field_cipher \<Rightarrow> string \<Rightarrow> string option" where
  "encrypt_field C s = (if \<not> fc_enabled C \<or> s = '''' then Some s else fc_encrypt C s)"

definition decrypt_field :: "field_cipher \<Rightarrow> string \<Rightarrow> string option" where
  "decrypt_field C s = (if \<not> fc_enabled C \<or> s = '''' then Some s else fc_decrypt C s)"

subsection \<open>The identity card\<close>

abbreviation OCRPhotoBlurry :: app_err where "OCRPhotoBlurry \<equiv> Coded 422 ''OCR_PHOTO_BLURRY'' []"

abbreviation OCRGlareDetected :: app_err where "OCRGlareDetected \<equiv> Coded 422 ''OCR_GLARE_DETECTED'' []"

abbreviation OCRCornersMissing :: app_err where "OCRCornersMissing \<equiv> Coded 422 ''OCR_CORNERS_MISSING'' []"

abbreviation OCRDukcapilTimeout :: app_err where "OCRDukcapilTimeout \<equiv> Coded 503 ''OCR_DUKCAPIL_TIMEOUT'' []"

abbreviation OCRDukcapilUnavailable :: app_err where "OCRDukcapilUnavailable \<equiv> Coded 503 ''OCR_DUKCAPIL_UNAVAILABLE'' []"

abbreviation OCRDukcapilMismatch :: app_err where "OCRDukcapilMismatch \<equiv> Coded 422 ''OCR_DUKCAPIL_MISMATCH'' []"

record capture_meta =
  cm_sharpness :: "rat option"
  cm_glare :: "rat option"
  cm_corners :: "int option"
  cm_resolution :: string

record photo_quality =
  qa_sharp :: bool
  qa_glare :: bool
  qa_corners :: bool

text \<open>\<open>strings.Cut(res, "x")\<close>\<close>

fun cut_at :: "char \<Rightarrow> string \<Rightarrow> (string \<times> string) option" where
  "cut_at c [] = None"
| "cut_at c (d # ds) = (if d = c then Some ([], ds) else map_option (\<lambda>(a, b). (d # a, b)) (cut_at c ds))"

definition parse_resolution :: "string \<Rightarrow> (int \<times> int) option" where
  "parse_resolution res = (case cut_at (CHR ''x'') (map lower_char (trim_space res)) of None \<Rightarrow> None
     | Some (a, b) \<Rightarrow> (case (atoi (trim_space a), atoi (trim_space b)) of
         (Some w, Some h) \<Rightarrow> if 0 < w \<and> 0 < h then Some (w, h) else None | _ \<Rightarrow> None))"

definition assess_photo_quality :: "capture_meta \<Rightarrow> photo_quality" where
  "assess_photo_quality m =
     \<lparr>qa_sharp = \<not> ((case cm_sharpness m of None \<Rightarrow> False | Some x \<Rightarrow> x < 60)
        \<or> (case parse_resolution (cm_resolution m) of None \<Rightarrow> False | Some (w, h) \<Rightarrow> w < 640 \<or> h < 480)),
      qa_glare = (case cm_glare m of None \<Rightarrow> False | Some x \<Rightarrow> 50 \<le> x),
      qa_corners = (case cm_corners m of None \<Rightarrow> True | Some n \<Rightarrow> 4 \<le> n)\<rparr>"

definition quality_error :: "photo_quality \<Rightarrow> app_err option" where
  "quality_error p = (if \<not> qa_sharp p then Some OCRPhotoBlurry else if qa_glare p then Some OCRGlareDetected
     else if \<not> qa_corners p then Some OCRCornersMissing else None)"

datatype registry_answer = RegistryMatch | RegistryMismatch | RegistryTimeout | RegistryDown

text \<open>The text recognised on the card, checked and parsed; the registry, if one is configured; and whether the photo is stored.\<close>

record ocr_tools =
  ot_read :: "string \<Rightarrow> capture_meta \<Rightarrow> app_err + (string \<times> string)"
  ot_registry :: "(string \<Rightarrow> string \<Rightarrow> registry_answer) option"
  ot_upload :: bool

definition verify_registry :: "ocr_tools \<Rightarrow> string \<Rightarrow> string \<Rightarrow> app_err + bool" where
  "verify_registry X nik nama = (case ot_registry X of None \<Rightarrow> Inr False
     | Some f \<Rightarrow> (case f nik nama of RegistryMatch \<Rightarrow> Inr True | RegistryMismatch \<Rightarrow> Inl OCRDukcapilMismatch
         | RegistryTimeout \<Rightarrow> Inl OCRDukcapilTimeout | RegistryDown \<Rightarrow> Inl OCRDukcapilUnavailable))"

definition process_ktp :: "'s data_api \<Rightarrow> field_cipher \<Rightarrow> ocr_tools \<Rightarrow> ob_env \<Rightarrow> string \<Rightarrow> string \<Rightarrow> capture_meta
    \<Rightarrow> ('s, string) onboarding" where
  "process_ktp R C X E i photo meta = svc_bind (resolve_ob_session R E i) (\<lambda>s.
     svc_seq (require_step StepOCR s)
     (svc_bind (on_kv (check_ocr_attempt R (oe_now E) i)) (\<lambda>allowed.
     svc_seq (fail_if (\<not> allowed) RateLimitExceeded)
     (svc_bind (svc_sum (ot_read X photo meta)) (\<lambda>(nik, nama).
     svc_bind (svc_sum (verify_registry X nik nama)) (\<lambda>matched.
     svc_seq (case quality_error (assess_photo_quality meta) of None \<Rightarrow> svc_return () | Some e \<Rightarrow> svc_throw e)
     (svc_seq (fail_if (\<not> ot_upload X) InternalError)
     (svc_bind (svc_option InternalError (oe_short E)) (\<lambda>short.
     svc_bind (svc_option InternalError (encrypt_field C nik)) (\<lambda>nik_enc.
     svc_bind (svc_option InternalError (encrypt_field C nama)) (\<lambda>nama_enc.
     svc_seq (ob_write E OInsertOCR (insert_ocr \<lparr>oc_id = ''ocr_'' @ short, oc_session = i, oc_nik = nik_enc, oc_nama = nama_enc,
         oc_match = matched, oc_created = oe_now E\<rparr>))
     (svc_seq (advance R E i s StepPersonalData ((os_flags s)\<lparr>sc_ocr := True\<rparr>))
       (svc_return (''ocr_'' @ short))))))))))))))"

subsection \<open>Personal data\<close>

abbreviation PersonalDataNIKMismatch :: app_err where "PersonalDataNIKMismatch \<equiv> Coded 422 ''PERSONAL_DATA_NIK_MISMATCH'' []"

abbreviation PersonalDataNamaMismatch :: app_err where "PersonalDataNamaMismatch \<equiv> Coded 422 ''PERSONAL_DATA_NAMA_MISMATCH'' []"

abbreviation PersonalDataInvalidPhone :: app_err where "PersonalDataInvalidPhone \<equiv> Coded 422 ''PERSONAL_DATA_INVALID_PHONE'' []"

abbreviation PersonalDataInvalidEmail :: app_err where "PersonalDataInvalidEmail \<equiv> Coded 422 ''PERSONAL_DATA_INVALID_EMAIL'' []"

abbreviation OTPInvalid :: app_err where "OTPInvalid \<equiv> Coded 422 ''OTP_INVALID'' []"

abbreviation OTPExpired :: app_err where "OTPExpired \<equiv> Coded 422 ''OTP_EXPIRED'' []"

abbreviation OTPBlocked :: "int \<Rightarrow> app_err" where "OTPBlocked n \<equiv> Coded 429 ''OTP_BLOCKED'' [(''retry_after_seconds'', JInt n)]"

abbreviation OTPQuota :: "int \<Rightarrow> app_err" where
  "OTPQuota n \<equiv> Coded 429 ''RATE_LIMIT_EXCEEDED'' [(''retry_after_seconds'', JInt n)]"

abbreviation OTPDeliveryFailed :: app_err where "OTPDeliveryFailed \<equiv> Coded 503 ''OTP_DELIVERY_FAILED'' []"

abbreviation OTPChannelNotAllowed :: app_err where "OTPChannelNotAllowed \<equiv> Coded 400 ''OTP_CHANNEL_NOT_ALLOWED'' []"

record ktp_address =
  ka_rtrw :: string
  ka_postcode :: string
  ka_kelurahan :: string
  ka_kecamatan :: string
  ka_city :: string
  ka_province :: string

record personal_input =
  pq_session :: string
  pq_nik :: string
  pq_nama :: string
  pq_birthplace :: string
  pq_birthdate :: string
  pq_gender :: string
  pq_address :: ktp_address
  pq_job :: string
  pq_income :: string
  pq_funds :: string
  pq_phone :: string
  pq_email :: string
  pq_channel :: string

definition valid_job :: "string \<Rightarrow> bool" where
  "valid_job s \<longleftrightarrow> list_ex (\<lambda>x. x = s) [''KARYAWAN_SWASTA'', ''PNS'', ''TNI_POLRI'', ''WIRASWASTA'', ''PROFESIONAL'',
     ''PELAJAR_MAHASISWA'', ''IBU_RUMAH_TANGGA'', ''LAINNYA'']"

definition valid_income :: "string \<Rightarrow> bool" where
  "valid_income s \<longleftrightarrow> list_ex (\<lambda>x. x = s) [''DIBAWAH_5_JUTA'', ''5_10_JUTA'', ''10_20_JUTA'', ''20_50_JUTA'', ''DIATAS_50_JUTA'']"

definition valid_funds :: "string \<Rightarrow> bool" where
  "valid_funds s \<longleftrightarrow> list_ex (\<lambda>x. x = s) [''GAJI'', ''USAHA'', ''INVESTASI'', ''WARISAN'', ''LAINNYA'']"

definition valid_gender :: "string \<Rightarrow> bool" where
  "valid_gender s \<longleftrightarrow> list_ex (\<lambda>x. x = s) [''LAKI_LAKI'', ''PEREMPUAN'']"

text \<open>
  The expression of \<open>emailRegex\<close>: one at sign, a part before it, and after it a host whose last dot is followed by two letters or more.
\<close>

definition email_local_char :: "char \<Rightarrow> bool" where
  "email_local_char c \<longleftrightarrow> is_letter_char c \<or> is_digit_char c \<or> list_ex (\<lambda>x. x = c) ''._%+-''"

definition email_host_char :: "char \<Rightarrow> bool" where
  "email_host_char c \<longleftrightarrow> is_letter_char c \<or> is_digit_char c \<or> c = CHR ''.'' \<or> c = CHR ''-''"

definition email_host :: "string \<Rightarrow> bool" where
  "email_host h \<longleftrightarrow> (let tld = rev (takeWhile (\<lambda>c. c \<noteq> CHR ''.'') (rev h)) in
     List.length tld + 1 < List.length h \<and> 2 \<le> List.length tld \<and> list_all is_letter_char tld \<and> list_all email_host_char h)"

definition email_ok :: "string \<Rightarrow> bool" where
  "email_ok s \<longleftrightarrow> (case cut_at (CHR ''@'') s of None \<Rightarrow> False
     | Some (a, h) \<Rightarrow> a \<noteq> [] \<and> list_all email_local_char a \<and> email_host h)"

subsection \<open>Dates of birth\<close>

text \<open>Days of the Gregorian calendar since 1970-01-01, and back.\<close>

definition days_of_civil :: "int \<Rightarrow> int \<Rightarrow> int \<Rightarrow> int" where
  "days_of_civil y0 m d = (let y = (if m \<le> 2 then y0 - 1 else y0); era = y div 400; yoe = y mod 400;
     doy = (153 * (if 2 < m then m - 3 else m + 9) + 2) div 5 + d - 1; doe = yoe * 365 + yoe div 4 - yoe div 100 + doy in
     era * 146097 + doe - 719468)"

definition civil_of_days :: "int \<Rightarrow> int \<times> int \<times> int" where
  "civil_of_days n = (let z = n + 719468; era = z div 146097; doe = z mod 146097;
     yoe = (doe - doe div 1460 + doe div 36524 - doe div 146096) div 365; doy = doe - (365 * yoe + yoe div 4 - yoe div 100);
     mp = (5 * doy + 2) div 153; d = doy - (153 * mp + 2) div 5 + 1; m = (if mp < 10 then mp + 3 else mp - 9) in
     (yoe + era * 400 + (if m \<le> 2 then 1 else 0), m, d))"

definition leap_year :: "int \<Rightarrow> bool" where
  "leap_year y \<longleftrightarrow> y mod 4 = 0 \<and> (y mod 100 \<noteq> 0 \<or> y mod 400 = 0)"

definition days_in_month :: "int \<Rightarrow> int \<Rightarrow> int" where
  "days_in_month y m = (if m = 2 then (if leap_year y then 29 else 28)
     else if m = 4 \<or> m = 6 \<or> m = 9 \<or> m = 11 then 30 else 31)"

text \<open>\<open>time.Parse("2006-01-02", s)\<close>\<close>

definition parse_iso_date :: "string \<Rightarrow> (int \<times> int \<times> int) option" where
  "parse_iso_date s = (if List.length s \<noteq> 10 \<or> s ! 4 \<noteq> CHR ''-'' \<or> s ! 7 \<noteq> CHR ''-'' then None
     else case (atoi_digits 0 (take 4 s), atoi_digits 0 (take 2 (drop 5 s)), atoi_digits 0 (drop 8 s)) of
       (Some y, Some m, Some d) \<Rightarrow> if 1 \<le> m \<and> m \<le> 12 \<and> 1 \<le> d \<and> int d \<le> days_in_month (int y) (int m)
         then Some (int y, int m, int d) else None
     | _ \<Rightarrow> None)"

definition day_ms :: int where "day_ms = 86400000"

text \<open>Neither in the future nor more than 120 years ago, by the server's clock in UTC.\<close>

definition birth_date_ok :: "time \<Rightarrow> string \<Rightarrow> bool" where
  "birth_date_ok t s = (case parse_iso_date s of None \<Rightarrow> False
     | Some (y, m, d) \<Rightarrow> (let birth = days_of_civil y m d * day_ms; (cy, cm, cd) = civil_of_days (int t div day_ms);
         oldest = days_of_civil (cy - 120) cm cd * day_ms + int t mod day_ms in \<not> (int t < birth \<or> birth < oldest)))"

definition too_long :: "string \<Rightarrow> nat \<Rightarrow> bool" where
  "too_long s n \<longleftrightarrow> n < List.length s"

text \<open>\<open>managed\<close>: the messaging provider owns the codes and can also call.\<close>

definition resolve_channel :: "bool \<Rightarrow> string \<Rightarrow> app_err + string" where
  "resolve_channel managed raw = (let ch = map lower_char (trim_space raw) in
     if ch = '''' \<or> ch = ''sms'' then Inr ''sms''
     else if ch = ''call'' \<and> managed then Inr ''call'' else Inl OTPChannelNotAllowed)"

definition check_personal :: "bool \<Rightarrow> time \<Rightarrow> personal_input \<Rightarrow> app_err + string" where
  "check_personal managed t q =
     (if \<not> valid_job (pq_job q) \<or> \<not> valid_income (pq_income q) \<or> \<not> valid_funds (pq_funds q) then Inl ValidationError
      else if normalize_phone (pq_phone q) = None then Inl PersonalDataInvalidPhone
      else if \<not> email_ok (pq_email q) then Inl PersonalDataInvalidEmail
      else case resolve_channel managed (pq_channel q) of Inl e \<Rightarrow> Inl e
      | Inr ch \<Rightarrow> if \<not> valid_gender (pq_gender q) \<or> \<not> birth_date_ok t (pq_birthdate q)
            \<or> too_long (pq_birthplace q) 128 \<or> too_long (ka_rtrw (pq_address q)) 16 \<or> too_long (ka_postcode (pq_address q)) 10
            \<or> too_long (ka_kelurahan (pq_address q)) 128 \<or> too_long (ka_kecamatan (pq_address q)) 128
            \<or> too_long (ka_city (pq_address q)) 128 \<or> too_long (ka_province (pq_address q)) 128
          then Inl ValidationError else Inr ch)"

subsection \<open>One-time codes\<close>

definition otp_ttl :: time where "otp_ttl = minutes 5"

definition otp_max_fail :: int where "otp_max_fail = 5"

definition otp_regen_at :: int where "otp_regen_at = 3"

definition otp_block_time :: time where "otp_block_time = minutes 30"

definition otp_max_resend :: int where "otp_max_resend = 3"

definition otp_max_send_per_phone :: int where "otp_max_send_per_phone = 10"

datatype start_answer = Started | ChannelRefused | StartFailed

datatype check_answer = CodeApproved | CodeDenied | CodeExpired | CheckFailed

text \<open>
  Either the provider owns the codes (\<open>managed\<close>, with its start, its check and the life of a code), or the server draws one, None when
  the source of randomness fails, keeps its hash and sends it by the gateway.
\<close>

record otp_tools =
  tt_managed :: bool
  tt_start :: "string \<Rightarrow> string \<Rightarrow> start_answer"
  tt_check :: "string \<Rightarrow> string \<Rightarrow> check_answer"
  tt_ttl :: time
  tt_code :: "string option"
  tt_hash :: "string \<Rightarrow> string"
  tt_send :: "string \<Rightarrow> string \<Rightarrow> bool"
  tt_digest :: "string \<Rightarrow> string"

datatype issue_result = Issued time | Undelivered | IssueFailed app_err

definition issue_code :: "'s data_api \<Rightarrow> otp_tools \<Rightarrow> ob_env \<Rightarrow> string \<Rightarrow> string \<Rightarrow> string \<Rightarrow> ('s, issue_result) onboarding" where
  "issue_code R T E i phone ch =
     (if tt_managed T then svc_return (case tt_start T phone ch of Started \<Rightarrow> Issued (oe_now E + tt_ttl T)
        | ChannelRefused \<Rightarrow> IssueFailed OTPChannelNotAllowed | StartFailed \<Rightarrow> Undelivered)
      else case tt_code T of None \<Rightarrow> svc_return (IssueFailed InternalError)
      | Some c \<Rightarrow> svc_bind (svc_try (on_kv (store_otp R (oe_now E) i (tt_hash T c) otp_ttl))) (\<lambda>r. svc_return (case r of
          Inl e \<Rightarrow> IssueFailed InternalError | Inr until \<Rightarrow> if tt_send T phone c then Issued until else Undelivered)))"

text \<open>True while the number may receive another message in this hour.\<close>

definition spend_phone_budget :: "'s data_api \<Rightarrow> otp_tools \<Rightarrow> ob_env \<Rightarrow> string \<Rightarrow> ('s, bool) onboarding" where
  "spend_phone_budget R T E phone = svc_bind (on_kv (incr_phone_send R (tt_digest T) (oe_now E) phone)) (\<lambda>n.
     svc_return (n \<le> otp_max_send_per_phone))"

definition phone_quota_error :: "'s data_api \<Rightarrow> otp_tools \<Rightarrow> ob_env \<Rightarrow> string \<Rightarrow> ('s, 'a) onboarding" where
  "phone_quota_error R T E phone = svc_bind (kv_run (remaining_seconds R (oe_now E) (otp_phone_send_key (tt_digest T) phone)))
     (\<lambda>n. svc_throw (OTPQuota n))"

record personal_reply =
  py_id :: string
  py_sent_to :: string
  py_expires :: time

definition mask_otp_phone :: "string \<Rightarrow> string" where
  "mask_otp_phone p = (if List.length p < 8 then p else take 4 p @ ''****'' @ drop (List.length p - 4) p)"

definition store_personal :: "ob_env \<Rightarrow> string \<Rightarrow> (string \<Rightarrow> personal_row) \<Rightarrow> ('s, string) onboarding" where
  "store_personal E i row = svc_bind (ob_read E OFindPersonal (find_personal i)) (\<lambda>existing. case existing of
       Some x \<Rightarrow> svc_seq (ob_write E OUpdatePersonal (update_personal (row (pd_id x)))) (svc_return (pd_id x))
     | None \<Rightarrow> svc_bind (svc_option InternalError (oe_short E)) (\<lambda>short.
         svc_seq (ob_write E OInsertPersonal (insert_personal (row (''pd_'' @ short)))) (svc_return (''pd_'' @ short))))"

text \<open>The number and the name given must be those read from the card.\<close>

definition match_card :: "field_cipher \<Rightarrow> ob_env \<Rightarrow> personal_input \<Rightarrow> ('s, unit) onboarding" where
  "match_card C E q = svc_bind (ob_read E OFindOCR (find_ocr (pq_session q))) (\<lambda>r. svc_bind (svc_option OnboardingNotFound r) (\<lambda>o1.
     svc_bind (svc_option InternalError (decrypt_field C (oc_nik o1))) (\<lambda>nik.
     svc_bind (svc_option InternalError (decrypt_field C (oc_nama o1))) (\<lambda>nama.
     svc_seq (fail_if (pq_nik q \<noteq> nik) PersonalDataNIKMismatch)
       (fail_if (\<not> equal_fold (pq_nama q) nama) PersonalDataNamaMismatch)))))"

definition encrypted_row :: "field_cipher \<Rightarrow> time \<Rightarrow> personal_input \<Rightarrow> (string \<Rightarrow> personal_row) option" where
  "encrypted_row C t q = (case (encrypt_field C (pq_nik q), encrypt_field C (pq_nama q), encrypt_field C (pq_phone q),
       encrypt_field C (pq_email q)) of
     (Some nik, Some nama, Some phone, Some email) \<Rightarrow> Some (\<lambda>i. \<lparr>pd_id = i, pd_session = pq_session q, pd_nik = nik, pd_nama = nama,
       pd_phone = phone, pd_email = email, pd_created = t, pd_updated = t\<rparr>)
   | _ \<Rightarrow> None)"

definition save_personal_data :: "'s data_api \<Rightarrow> field_cipher \<Rightarrow> otp_tools \<Rightarrow> ob_env \<Rightarrow> personal_input \<Rightarrow> ('s, personal_reply) onboarding" where
  "save_personal_data R C T E q = (let i = pq_session q in
     svc_bind (resolve_ob_session R E i) (\<lambda>s.
     svc_seq (require_step StepPersonalData s)
     (svc_bind (svc_sum (check_personal (tt_managed T) (oe_now E) q)) (\<lambda>ch.
     svc_seq (match_card C E q)
     (svc_bind (svc_option InternalError (encrypted_row C (oe_now E) q)) (\<lambda>row.
     svc_bind (store_personal E i row) (\<lambda>pd.
     svc_bind (spend_phone_budget R T E (pq_phone q)) (\<lambda>free.
     svc_seq (if free then svc_return () else phone_quota_error R T E (pq_phone q))
     (svc_seq (best_effort_kv (reset_attempts R (oe_now E) i))
     (svc_seq (best_effort_kv (reset_resend R (oe_now E) i))
     (svc_bind (issue_code R T E i (pq_phone q) ch) (\<lambda>issued. case issued of
        IssueFailed e \<Rightarrow> svc_throw e
      | _ \<Rightarrow> svc_seq (advance R E i s StepOTPVerify ((os_flags s)\<lparr>sc_personal := True\<rparr>))
          (case issued of Issued until \<Rightarrow> svc_return \<lparr>py_id = pd, py_sent_to = mask_otp_phone (pq_phone q), py_expires = until\<rparr>
            | _ \<Rightarrow> svc_throw OTPDeliveryFailed)))))))))))))"

definition phone_for_session :: "field_cipher \<Rightarrow> ob_env \<Rightarrow> string \<Rightarrow> ('s, string) onboarding" where
  "phone_for_session C E i = svc_bind (svc_try (ob_read E OFindPhone (find_personal i))) (\<lambda>r. case r of
       Inr (Some p) \<Rightarrow> svc_option OTPDeliveryFailed (decrypt_field C (pd_phone p))
     | _ \<Rightarrow> svc_throw OnboardingNotFound)"

definition otp_blocked_error :: "'s data_api \<Rightarrow> ob_env \<Rightarrow> string \<Rightarrow> ('s, 'a) onboarding" where
  "otp_blocked_error R E i = svc_bind (kv_run (remaining_seconds R (oe_now E) (otp_block_key i))) (\<lambda>n. svc_throw (OTPBlocked n))"

text \<open>Right, wrong or expired; an error of the check is an internal one.\<close>

definition check_code :: "'s data_api \<Rightarrow> otp_tools \<Rightarrow> ob_env \<Rightarrow> string \<Rightarrow> string \<Rightarrow> string \<Rightarrow> ('s, check_answer) onboarding" where
  "check_code R T E i phone code =
     (if tt_managed T then (case tt_check T phone code of CheckFailed \<Rightarrow> svc_throw InternalError | a \<Rightarrow> svc_return a)
      else svc_bind (on_kv (get_otp R (oe_now E) i)) (\<lambda>stored.
        svc_return (if stored = '''' then CodeExpired else if tt_hash T code = stored then CodeApproved else CodeDenied)))"

datatype regen_result = Regenerated | RegenQuota | RegenFailed

definition regenerate_otp :: "'s data_api \<Rightarrow> field_cipher \<Rightarrow> otp_tools \<Rightarrow> ob_env \<Rightarrow> string \<Rightarrow> ('s, regen_result) onboarding" where
  "regenerate_otp R C T E i = svc_bind (svc_try (phone_for_session C E i)) (\<lambda>p. case p of
       Inl e \<Rightarrow> svc_return RegenFailed
     | Inr phone \<Rightarrow> svc_bind (svc_try (spend_phone_budget R T E phone)) (\<lambda>b. case b of
         Inl e \<Rightarrow> svc_return RegenFailed
       | Inr free \<Rightarrow> if \<not> free then svc_return RegenQuota
           else svc_bind (issue_code R T E i phone ''sms'') (\<lambda>r. svc_return (case r of Issued u \<Rightarrow> Regenerated | _ \<Rightarrow> RegenFailed))))"

definition wrong_code :: "'s data_api \<Rightarrow> field_cipher \<Rightarrow> otp_tools \<Rightarrow> ob_env \<Rightarrow> string \<Rightarrow> ('s, 'a) onboarding" where
  "wrong_code R C T E i = svc_bind (kv_run (incr_otp_attempt R (oe_now E) i)) (\<lambda>(attempts, counted).
     if otp_max_fail \<le> attempts then
       svc_seq (best_effort_kv (block_otp R (oe_now E) i otp_block_time))
       (svc_seq (best_effort_kv (delete_otp R (oe_now E) i)) (otp_blocked_error R E i))
     else if attempts = otp_regen_at then
       svc_bind (regenerate_otp R C T E i) (\<lambda>r. svc_throw (case r of Regenerated \<Rightarrow> OTPExpired | RegenQuota \<Rightarrow> OTPInvalid
         | RegenFailed \<Rightarrow> OTPDeliveryFailed))
     else svc_throw OTPInvalid)"

definition verify_otp :: "'s data_api \<Rightarrow> field_cipher \<Rightarrow> otp_tools \<Rightarrow> ob_env \<Rightarrow> string \<Rightarrow> string \<Rightarrow> string \<Rightarrow> ('s, step) onboarding" where
  "verify_otp R C T E i dev code = svc_bind (resolve_ob_session R E i) (\<lambda>s.
     svc_seq (assert_session_device s dev)
     (svc_seq (require_step StepOTPVerify s)
     (svc_bind (on_kv (otp_blocked R (oe_now E) i)) (\<lambda>blocked.
     svc_seq (if blocked then otp_blocked_error R E i else svc_return ())
     (svc_bind (if tt_managed T then phone_for_session C E i else svc_return '''') (\<lambda>phone.
     svc_bind (check_code R T E i phone code) (\<lambda>a. case a of
        CodeExpired \<Rightarrow> svc_throw OTPExpired
      | CodeApproved \<Rightarrow> svc_seq (if tt_managed T then svc_return () else best_effort_kv (delete_otp R (oe_now E) i))
          (svc_seq (best_effort_kv (reset_attempts R (oe_now E) i))
          (svc_seq (advance R E i s StepBiometric ((os_flags s)\<lparr>sc_otp := True\<rparr>)) (svc_return StepBiometric)))
      | _ \<Rightarrow> wrong_code R C T E i)))))))"

definition resend_otp :: "'s data_api \<Rightarrow> field_cipher \<Rightarrow> otp_tools \<Rightarrow> ob_env \<Rightarrow> string \<Rightarrow> string \<Rightarrow> string \<Rightarrow> ('s, string \<times> time) onboarding" where
  "resend_otp R C T E i dev channel = svc_bind (resolve_ob_session R E i) (\<lambda>s.
     svc_seq (assert_session_device s dev)
     (svc_seq (require_step StepOTPVerify s)
     (svc_bind (svc_sum (resolve_channel (tt_managed T) channel)) (\<lambda>ch.
     svc_bind (on_kv (otp_blocked R (oe_now E) i)) (\<lambda>blocked.
     svc_seq (if blocked then otp_blocked_error R E i else svc_return ())
     (svc_bind (svc_try (ob_read E OFindPersonal (find_personal i))) (\<lambda>p.
     svc_seq (fail_if (\<not> (case p of Inr (Some x) \<Rightarrow> True | _ \<Rightarrow> False)) OnboardingNotFound)
     (svc_bind (phone_for_session C E i) (\<lambda>phone.
     svc_bind (spend_phone_budget R T E phone) (\<lambda>free.
     svc_seq (if free then svc_return () else phone_quota_error R T E phone)
     (svc_bind (kv_run (incr_resend R (oe_now E) i)) (\<lambda>(n, counted).
     svc_seq (fail_if (\<not> counted) InternalError)
     (svc_seq (if n \<le> otp_max_resend then svc_return ()
        else svc_bind (kv_run (remaining_seconds R (oe_now E) (otp_resend_key i))) (\<lambda>left. svc_throw (OTPQuota left)))
     (svc_bind (issue_code R T E i phone ch) (\<lambda>issued. case issued of
        IssueFailed e \<Rightarrow> svc_throw e | Undelivered \<Rightarrow> svc_throw OTPDeliveryFailed
      | Issued until \<Rightarrow> svc_return (mask_otp_phone phone, until))))))))))))))))"

end
