(* ===== verification/Onboarding_Face.thy ===== *)
theory Onboarding_Face
  imports Onboarding_Identity
begin

text \<open>
  The examination of the face: \<open>liveness_challenge_service.go\<close>, \<open>biometric_service.go\<close> and the challenges and attempts of
  \<open>repository/redis/biometric_cache.go\<close>. Drawing the actions, checking the device key, the signature, the integrity token and the
  frames are arguments. The log of the attempts is written on a best-effort basis and read by no service: it is left out.
\<close>

abbreviation LivenessChallengeInvalid :: app_err where "LivenessChallengeInvalid \<equiv> Coded 422 ''LIVENESS_CHALLENGE_INVALID'' []"

abbreviation LivenessSignatureInvalid :: app_err where "LivenessSignatureInvalid \<equiv> Coded 422 ''LIVENESS_SIGNATURE_INVALID'' []"

abbreviation LivenessDeviceKeyInvalid :: app_err where "LivenessDeviceKeyInvalid \<equiv> Coded 422 ''LIVENESS_DEVICE_KEY_INVALID'' []"

abbreviation LivenessIntegrityFailed :: app_err where "LivenessIntegrityFailed \<equiv> Coded 403 ''LIVENESS_INTEGRITY_FAILED'' []"

abbreviation LivenessBlocked :: app_err where "LivenessBlocked \<equiv> Coded 422 ''LIVENESS_BLOCKED'' []"

abbreviation LivenessEscalated :: app_err where "LivenessEscalated \<equiv> Coded 422 ''LIVENESS_ESCALATED_TO_VIDEO_CALL'' []"

abbreviation LivenessProviderUnavailable :: app_err where
  "LivenessProviderUnavailable \<equiv> Coded 503 ''LIVENESS_PROVIDER_UNAVAILABLE'' []"

abbreviation BioLivenessFailed :: app_err where "BioLivenessFailed \<equiv> Coded 422 ''BIO_LIVENESS_FAILED'' []"

abbreviation BioFaceNotMatch :: app_err where "BioFaceNotMatch \<equiv> Coded 422 ''BIO_FACE_NOT_MATCH'' []"

abbreviation BioMultipleFaces :: app_err where "BioMultipleFaces \<equiv> Coded 422 ''BIO_MULTIPLE_FACES'' []"

definition liveness_cooldown :: "int \<Rightarrow> app_err" where
  "liveness_cooldown secs = Coded 429 ''LIVENESS_COOLDOWN'' [(''retry_after_seconds'', JInt (if secs < 1 then 1 else secs))]"

record liveness_policy =
  lp_challenge_ttl :: time
  lp_max_failures :: int
  lp_cooldown :: time
  lp_max_rounds :: int
  lp_window :: time
  lp_log_only :: bool

record liveness_challenge =
  lc_id :: string
  lc_nonce :: string
  lc_session :: string
  lc_device :: string
  lc_key_id :: string
  lc_key :: string
  lc_actions :: "string list"
  lc_issued :: time
  lc_expires :: time

subsection \<open>Challenges and attempts\<close>

definition liveness_challenge_key :: "string \<Rightarrow> string" where "liveness_challenge_key i = ''liveness:challenge:'' @ i"

definition liveness_fail_key :: "string \<Rightarrow> string \<Rightarrow> string" where "liveness_fail_key i dev = ''liveness:fail:'' @ i @ '':'' @ dev"

definition liveness_cooldown_key :: "string \<Rightarrow> string \<Rightarrow> string" where
  "liveness_cooldown_key i dev = ''liveness:cooldown:'' @ i @ '':'' @ dev"

definition liveness_rounds_key :: "string \<Rightarrow> string \<Rightarrow> string" where "liveness_rounds_key i dev = ''liveness:rounds:'' @ i @ '':'' @ dev"

definition encode_liveness :: "liveness_challenge \<Rightarrow> json" where
  "encode_liveness c = JObj [(''challenge_id'', JStr (lc_id c)), (''nonce'', JStr (lc_nonce c)), (''session_id'', JStr (lc_session c)),
     (''device_id'', JStr (lc_device c)), (''device_key_id'', JStr (lc_key_id c)), (''device_public_key'', JStr (lc_key c)),
     (''actions'', JArr (map JStr (lc_actions c))), (''issued_at'', JTime (lc_issued c)), (''expires_at'', JTime (lc_expires c))]"

fun json_strings :: "json list \<Rightarrow> string list option" where
  "json_strings [] = Some []"
| "json_strings (JStr s # js) = map_option ((#) s) (json_strings js)"
| "json_strings (_ # js) = None"

definition get_strings :: "(string \<times> json) list \<Rightarrow> string \<Rightarrow> string list option" where
  "get_strings p k = (case map_of p k of None \<Rightarrow> Some [] | Some JNull \<Rightarrow> Some [] | Some (JArr js) \<Rightarrow> json_strings js | Some _ \<Rightarrow> None)"

definition decode_liveness :: "json \<Rightarrow> liveness_challenge option" where
  "decode_liveness j = (case j of JObj p \<Rightarrow> do {
      i \<leftarrow> get_str p ''challenge_id''; n \<leftarrow> get_str p ''nonce''; s \<leftarrow> get_str p ''session_id''; d \<leftarrow> get_str p ''device_id'';
      ki \<leftarrow> get_str p ''device_key_id''; k \<leftarrow> get_str p ''device_public_key''; a \<leftarrow> get_strings p ''actions'';
      t \<leftarrow> get_time p ''issued_at''; e \<leftarrow> get_time p ''expires_at'';
      Some \<lparr>lc_id = i, lc_nonce = n, lc_session = s, lc_device = d, lc_key_id = ki, lc_key = k, lc_actions = a, lc_issued = t,
        lc_expires = e\<rparr> }
    | _ \<Rightarrow> None)"

lemma json_strings_map [simp]: "json_strings (map JStr xs) = Some xs"
  by (induction xs) simp_all

lemma decode_encode_liveness [simp]: "decode_liveness (encode_liveness c) = Some c"
  by (simp add: decode_liveness_def encode_liveness_def json_get_defs get_strings_def)

definition store_liveness :: "'s data_api \<Rightarrow> liveness_policy \<Rightarrow> time \<Rightarrow> liveness_challenge \<Rightarrow> 's \<Rightarrow> unit reply \<times> 's" where
  "store_liveness R P t c = api_set (strs R) t (liveness_challenge_key (lc_id c)) (RJson (encode_liveness c))
     (if lc_expires c \<le> t then lp_challenge_ttl P else lc_expires c - t)"

definition consume_liveness :: "'s data_api \<Rightarrow> time \<Rightarrow> string \<Rightarrow> 's \<Rightarrow> liveness_challenge option reply \<times> 's" where
  "consume_liveness R t i s = (case api_getdel (strs R) t (liveness_challenge_key i) s of
      (Fault, s1) \<Rightarrow> (Fault, s1)
    | (Reply None, s1) \<Rightarrow> (Reply None, s1)
    | (Reply (Some (RJson j)), s1) \<Rightarrow> (case decode_liveness j of None \<Rightarrow> (Fault, s1) | Some c \<Rightarrow> (Reply (Some c), s1))
    | (Reply (Some _), s1) \<Rightarrow> (Fault, s1))"

record attempt_status =
  st_failures :: int
  st_rounds :: int
  st_retry :: int
  st_blocked :: bool

definition int_or_zero :: "rval option \<Rightarrow> int" where
  "int_or_zero v = (case v of Some (RNum n) \<Rightarrow> n | Some (RText s) \<Rightarrow> (case atoi s of Some n \<Rightarrow> n | None \<Rightarrow> 0) | _ \<Rightarrow> 0)"

definition attempt_status_of :: "'s data_api \<Rightarrow> liveness_policy \<Rightarrow> time \<Rightarrow> string \<Rightarrow> string \<Rightarrow> 's \<Rightarrow> attempt_status reply \<times> 's" where
  "attempt_status_of R P t i dev s = (case pipe_then (api_get (strs R) t (liveness_fail_key i dev))
        (pipe_then (api_ttl R t (liveness_cooldown_key i dev)) (api_get (strs R) t (liveness_rounds_key i dev))) s of
      (Fault, s1) \<Rightarrow> (Fault, s1)
    | (Reply (f, c, r), s1) \<Rightarrow> (Reply \<lparr>st_failures = int_or_zero f, st_rounds = int_or_zero r, st_retry = (if 0 < c then c else 0),
        st_blocked = (lp_max_rounds P \<le> int_or_zero r)\<rparr>, s1))"

definition start_cooldown :: "'s data_api \<Rightarrow> liveness_policy \<Rightarrow> time \<Rightarrow> string \<Rightarrow> string \<Rightarrow> int \<Rightarrow> 's \<Rightarrow> attempt_status reply \<times> 's" where
  "start_cooldown R P t i dev rounds s = (case api_del (strs R) t (liveness_fail_key i dev) s of
      (Fault, s1) \<Rightarrow> (Fault, s1)
    | (Reply u, s1) \<Rightarrow> if lp_max_rounds P \<le> rounds then (Reply \<lparr>st_failures = 0, st_rounds = rounds, st_retry = 0, st_blocked = True\<rparr>, s1)
        else (case api_set (strs R) t (liveness_cooldown_key i dev) (RText ''1'') (lp_cooldown P) s1 of
            (Fault, s2) \<Rightarrow> (Fault, s2)
          | (Reply u, s2) \<Rightarrow> (Reply \<lparr>st_failures = 0, st_rounds = rounds, st_retry = int (lp_cooldown P div 1000), st_blocked = False\<rparr>, s2)))"

text \<open>A counter whose expiry cannot be set stays without one.\<close>

definition incr_expire :: "'s data_api \<Rightarrow> time \<Rightarrow> string \<Rightarrow> time \<Rightarrow> 's \<Rightarrow> int reply \<times> 's" where
  "incr_expire R t k d s = (case incr_window R t k d s of ((n, ok), s1) \<Rightarrow> (if ok then Reply n else Fault, s1))"

definition record_liveness_failure :: "'s data_api \<Rightarrow> liveness_policy \<Rightarrow> time \<Rightarrow> string \<Rightarrow> string \<Rightarrow> 's \<Rightarrow> attempt_status reply \<times> 's" where
  "record_liveness_failure R P t i dev s = (case incr_expire R t (liveness_fail_key i dev) (lp_window P) s of
      (Fault, s1) \<Rightarrow> (Fault, s1)
    | (Reply n, s1) \<Rightarrow> if n < lp_max_failures P then (Reply \<lparr>st_failures = n, st_rounds = 0, st_retry = 0, st_blocked = False\<rparr>, s1)
        else (case incr_expire R t (liveness_rounds_key i dev) (lp_window P) s1 of
            (Fault, s2) \<Rightarrow> (Fault, s2) | (Reply rounds, s2) \<Rightarrow> start_cooldown R P t i dev rounds s2))"

definition reset_liveness :: "'s data_api \<Rightarrow> time \<Rightarrow> string \<Rightarrow> string \<Rightarrow> 's \<Rightarrow> unit reply \<times> 's" where
  "reset_liveness R t i dev = api_del_keys R t [liveness_fail_key i dev, liveness_cooldown_key i dev, liveness_rounds_key i dev]"

definition assert_attempt_allowed :: "'s data_api \<Rightarrow> liveness_policy \<Rightarrow> ob_env \<Rightarrow> string \<Rightarrow> string \<Rightarrow> ('s, unit) onboarding" where
  "assert_attempt_allowed R P E i dev = svc_bind (on_kv (attempt_status_of R P (oe_now E) i dev)) (\<lambda>a.
     svc_seq (fail_if (st_blocked a) LivenessBlocked) (fail_if (0 < st_retry a) (liveness_cooldown (st_retry a))))"

subsection \<open>Issuing a challenge\<close>

text \<open>The actions and the nonce drawn (None when the source of randomness fails), and whether a device key is one of P-256.\<close>

record challenge_tools =
  lt_actions :: "string list option"
  lt_nonce :: "string option"
  lt_key_ok :: "string \<Rightarrow> bool"

definition issue_challenge :: "'s data_api \<Rightarrow> liveness_policy \<Rightarrow> challenge_tools \<Rightarrow> ob_env \<Rightarrow> string \<Rightarrow> string \<Rightarrow> string \<Rightarrow> string
    \<Rightarrow> ('s, liveness_challenge) onboarding" where
  "issue_challenge R P X E i dev key_id key = svc_bind (resolve_ob_session R E i) (\<lambda>s.
     svc_seq (require_step StepBiometric s)
     (svc_seq (fail_if (dev = '''' \<or> dev \<noteq> os_device s) OnboardingDeviceMismatch)
     (svc_seq (fail_if (trim_space key = '''' \<or> \<not> lt_key_ok X key) LivenessDeviceKeyInvalid)
     (svc_seq (assert_attempt_allowed R P E i dev)
     (svc_bind (svc_option InternalError (lt_actions X)) (\<lambda>acts.
     svc_bind (svc_option InternalError (lt_nonce X)) (\<lambda>nonce.
     svc_bind (svc_option InternalError (oe_short E)) (\<lambda>short.
     (let c = \<lparr>lc_id = ''chl_'' @ short, lc_nonce = nonce, lc_session = i, lc_device = dev, lc_key_id = key_id, lc_key = key,
          lc_actions = acts, lc_issued = oe_now E, lc_expires = oe_now E + lp_challenge_ttl P\<rparr> in
      svc_seq (on_kv (store_liveness R P (oe_now E) c)) (svc_return c))))))))))"

subsection \<open>Examining the frames\<close>

record face_submission =
  fs_session :: string
  fs_challenge :: string
  fs_nonce :: string
  fs_device :: string
  fs_signature :: string
  fs_neutral :: string
  fs_frames :: "string list"
  fs_token :: string

record verdict =
  ve_passed :: bool
  ve_face_match :: bool
  ve_reason :: string
  ve_unavailable :: bool

text \<open>
  The signature of the payload by the device key, the answer of the integrity service (None without one, or when it fails), the
  verdict on the frames against the photo of the card (the outer None is an error of the provider), whether the photo is stored.
\<close>

record face_tools =
  ft_signed :: "string \<Rightarrow> liveness_challenge \<Rightarrow> face_submission \<Rightarrow> bool"
  ft_integrity :: "string \<Rightarrow> string \<Rightarrow> bool option"
  ft_verdict :: "liveness_challenge \<Rightarrow> face_submission \<Rightarrow> verdict option option"
  ft_upload :: bool

definition integrity_allowed :: "liveness_policy \<Rightarrow> face_tools \<Rightarrow> liveness_challenge \<Rightarrow> face_submission \<Rightarrow> bool" where
  "integrity_allowed P X c q \<longleftrightarrow> ft_integrity X (fs_token q) (lc_nonce c) = Some True \<or> lp_log_only P"

text \<open>The session moves to the video call as it is: the flag of the face stays off.\<close>

definition escalate_to_video_call :: "'s data_api \<Rightarrow> ob_env \<Rightarrow> string \<Rightarrow> ('s, unit) onboarding" where
  "escalate_to_video_call R E i = svc_bind (svc_try (svc_bind (resolve_ob_session R E i) (\<lambda>s.
     advance R E i s StepVideoCall (os_flags s)))) (\<lambda>r. svc_return ())"

definition refuse_face :: "'s data_api \<Rightarrow> liveness_policy \<Rightarrow> ob_env \<Rightarrow> face_submission \<Rightarrow> app_err \<Rightarrow> ('s, 'a) onboarding" where
  "refuse_face R P E q e = svc_bind (svc_try (on_kv (record_liveness_failure R P (oe_now E) (fs_session q) (fs_device q)))) (\<lambda>r. case r of
       Inl e' \<Rightarrow> svc_throw e
     | Inr a \<Rightarrow> if st_blocked a then svc_seq (escalate_to_video_call R E (fs_session q)) (svc_throw LivenessEscalated)
         else if 0 < st_retry a then svc_throw (liveness_cooldown (st_retry a)) else svc_throw e)"

definition verdict_error :: "verdict \<Rightarrow> app_err" where
  "verdict_error v = (if ve_unavailable v then LivenessProviderUnavailable
     else if ve_reason v = ''face_match_below_threshold'' then BioFaceNotMatch
     else if ve_reason v = ''step_frame_face_count'' \<or> ve_reason v = ''neutral_frame_face_count'' then BioMultipleFaces
     else BioLivenessFailed)"

text \<open>Why a consumed challenge and its submission are refused, if they are.\<close>

definition face_refusal :: "liveness_policy \<Rightarrow> face_tools \<Rightarrow> time \<Rightarrow> liveness_challenge \<Rightarrow> face_submission \<Rightarrow> app_err option" where
  "face_refusal P X t c q =
     (if lc_session c \<noteq> fs_session q \<or> lc_device c \<noteq> fs_device q \<or> lc_nonce c \<noteq> fs_nonce q then Some LivenessChallengeInvalid
      else if lc_expires c < t then Some LivenessChallengeInvalid
      else if \<not> ft_signed X (lc_key c) c q then Some LivenessSignatureInvalid
      else if \<not> integrity_allowed P X c q then Some LivenessIntegrityFailed
      else case ft_verdict X c q of None \<Rightarrow> Some LivenessProviderUnavailable | Some None \<Rightarrow> Some LivenessProviderUnavailable
        | Some (Some v) \<Rightarrow> if ve_passed v then None else Some (verdict_error v))"

record face_reply =
  fr_id :: string
  fr_face_match :: bool
  fr_step :: step

definition record_pass :: "'s data_api \<Rightarrow> face_tools \<Rightarrow> ob_env \<Rightarrow> ob_session \<Rightarrow> liveness_challenge \<Rightarrow> face_submission
    \<Rightarrow> ('s, face_reply) onboarding" where
  "record_pass R X E s c q = svc_bind (svc_option InternalError (oe_short E)) (\<lambda>short.
     svc_seq (fail_if (\<not> ft_upload X) InternalError)
     (let fm = (case ft_verdict X c q of Some (Some v) \<Rightarrow> ve_face_match v | _ \<Rightarrow> False) in
      svc_seq (ob_write E OInsertBiometric (insert_biometric \<lparr>br_id = ''bio_'' @ short, br_session = fs_session q, br_face_match = fm,
          br_created = oe_now E\<rparr>))
      (svc_seq (advance R E (fs_session q) s StepVideoCall ((os_flags s)\<lparr>sc_biometric := True\<rparr>))
      (svc_seq (best_effort_kv (reset_liveness R (oe_now E) (fs_session q) (fs_device q)))
        (svc_return \<lparr>fr_id = ''bio_'' @ short, fr_face_match = fm, fr_step = StepVideoCall\<rparr>)))))"

definition process_biometric :: "'s data_api \<Rightarrow> liveness_policy \<Rightarrow> face_tools \<Rightarrow> ob_env \<Rightarrow> face_submission \<Rightarrow> ('s, face_reply) onboarding" where
  "process_biometric R P X E q = svc_bind (resolve_ob_session R E (fs_session q)) (\<lambda>s.
     svc_seq (require_step StepBiometric s)
     (svc_seq (fail_if (fs_device q = '''' \<or> fs_device q \<noteq> os_device s) OnboardingDeviceMismatch)
     (svc_seq (assert_attempt_allowed R P E (fs_session q) (fs_device q))
     (svc_bind (on_kv (consume_liveness R (oe_now E) (fs_challenge q))) (\<lambda>r. case r of
        None \<Rightarrow> refuse_face R P E q LivenessChallengeInvalid
      | Some c \<Rightarrow> (case face_refusal P X (oe_now E) c q of
          Some e \<Rightarrow> refuse_face R P E q e | None \<Rightarrow> record_pass R X E s c q))))))"

end
