(* ===== verification/Onboarding_Submit.thy ===== *)
theory Onboarding_Submit
  imports Onboarding_Face Listings
begin

text \<open>
  The submission of an account opening (\<open>domain/onboarding/submit_service.go\<close>) and the rows it creates in the tables of the rest of
  the system (\<open>repository/postgres/onboarding_provision.go\<close>, with the trigger of \<open>migrations/000009\<close> on new users). The core banking
  system is an argument; the issue of a card, which never fails a submission, is left out.
\<close>

abbreviation AccountCreationFailed :: app_err where "AccountCreationFailed \<equiv> Coded 422 ''ACCOUNT_CREATION_FAILED'' []"

abbreviation CardMissing :: app_err where
  "CardMissing \<equiv> Coded 422 ''ONBOARDING_INCOMPLETE'' [(''missing_step'', JStr ''CARD_SELECTION'')]"

subsection \<open>Provisioning\<close>

fun account_type_for :: "product \<Rightarrow> string" where
  "account_type_for TahapanXpresi = ''TAHAPAN_XPRESI''"
| "account_type_for _ = ''TAHAPAN''"

definition account_label_for :: "product \<Rightarrow> string" where
  "account_label_for p = pn_name (product_catalog p)"

text \<open>\<open>registration.DefaultLimits\<close>, and the rows the trigger on \<open>users\<close> inserts.\<close>

definition default_limits :: "(string \<times> decimal) list" where
  "default_limits = [(''TRANSFER_INTERNAL'', 50000000), (''TRANSFER_EXTERNAL'', 25000000), (''EWALLET'', 20000000), (''QRIS'', 5000000)]"

definition seeded_limits :: "uuid \<Rightarrow> limit_row list" where
  "seeded_limits u = map (\<lambda>(ty, d, m, p). \<lparr>li_user = u, li_type = ty, li_daily = d, li_monthly = Some m, li_per_txn = Some p\<rparr>)
     [(''TRANSFER_INTERNAL'', 50000000, 500000000, 50000000), (''TRANSFER_EXTERNAL'', 25000000, 250000000, 25000000),
      (''EWALLET'', 10000000, 100000000, 2000000), (''QRIS'', 10000000, 100000000, 5000000),
      (''PAYMENT'', 25000000, 250000000, 25000000)]"

text \<open>\<open>INSERT \<dots> ON CONFLICT (user_id, limit_type) DO NOTHING\<close>\<close>

definition insert_limit :: "limit_row \<Rightarrow> limit_row list \<Rightarrow> limit_row list" where
  "insert_limit l ls = (if list_ex (\<lambda>x. li_user x = li_user l \<and> li_type x = li_type l) ls then ls else ls @ [l])"

definition provision_limits :: "uuid \<Rightarrow> limit_row list \<Rightarrow> limit_row list" where
  "provision_limits u ls = fold (\<lambda>(ty, d). insert_limit \<lparr>li_user = u, li_type = ty, li_daily = d, li_monthly = None, li_per_txn = None\<rparr>)
     default_limits (fold insert_limit (seeded_limits u) ls)"

definition display_name_from :: "string \<Rightarrow> string" where
  "display_name_from full = (let w = takeWhile (\<lambda>c. c \<noteq> CHR '' '') (trim_space full) in
     if w = '''' then full else upper_char (hd w) # map lower_char (tl w))"

record provision_params =
  pp_device :: string
  pp_account :: string
  pp_product :: product
  pp_name :: string
  pp_phone :: string
  pp_email :: string
  pp_access_hash :: string
  pp_pin_hash :: string

definition provision_user :: "uuid \<Rightarrow> provision_params \<Rightarrow> user" where
  "provision_user u p = \<lparr>ur_id = u, ur_full_name = pp_name p, ur_display_name = display_name_from (pp_name p),
     ur_pin_hash = pp_pin_hash p, ur_access_hash = pp_access_hash p, ur_status = ''ACTIVE'', ur_locked_until = None, ur_failed = 0,
     ur_max = 5, ur_last_login = None, ur_deleted = False\<rparr>"

text \<open>An active binding of the device is revoked before the new one is stored.\<close>

definition bind_device :: "uuid \<Rightarrow> uuid \<Rightarrow> string \<Rightarrow> device list \<Rightarrow> device list" where
  "bind_device i u key ds = (if key = '''' then ds
     else update_where (\<lambda>x. de_key x = key \<and> \<not> de_revoked x) (\<lambda>x. x\<lparr>de_revoked := True\<rparr>) ds
       @ [\<lparr>de_id = i, de_user = u, de_key = key, de_last_active = None, de_revoked = False\<rparr>])"

definition provision_account_row :: "uuid \<Rightarrow> uuid \<Rightarrow> time \<Rightarrow> provision_params \<Rightarrow> account" where
  "provision_account_row i u t p = \<lparr>ac_id = i, ac_user = Some u, ac_number = pp_account p, ac_type = account_type_for (pp_product p),
     ac_label = account_label_for (pp_product p), ac_balance = 0, ac_hold = 0, ac_primary = True, ac_status = ACTIVE, ac_opened = t,
     ac_owner = CUSTOMER, ac_rail = None, ac_shard = None\<rparr>"

text \<open>The statements of the transaction that may fail.\<close>

definition provision_faults :: "ob_env \<Rightarrow> provision_params \<Rightarrow> bool" where
  "provision_faults E p \<longleftrightarrow> list_ex (oe_fault E) ([OBeginTx, OInsertUser] @ (if pp_device p = '''' then [] else [ORevokeDevice, OInsertDevice])
     @ [OInsertAccount] @ map (\<lambda>l. OInsertLimit (fst l)) default_limits @ [OCommitTx])"

text \<open>What the constraints of the tables refuse; \<open>hash\<close> is the keyed hash of the lookup columns.\<close>

definition provision_conflict :: "ob_env \<Rightarrow> (string \<Rightarrow> string) \<Rightarrow> provision_params \<Rightarrow> 's ob_world \<Rightarrow> bool" where
  "provision_conflict E hash p w \<longleftrightarrow>
     list_ex (\<lambda>c. co_phone c = hash (pp_phone p) \<or> (pp_email p \<noteq> '''' \<and> co_email c = Some (hash (pp_email p)))) (contacts (ob w))
     \<or> list_ex (\<lambda>u. ur_id u = oe_uuid E) (users (au w)) \<or> list_ex (\<lambda>x. de_id x = oe_uuid3 E) (devices (au w))
     \<or> list_ex (\<lambda>a. ac_id a = oe_uuid2 E \<or> ac_number a = pp_account p) (accounts (pg w))
     \<or> 255 < List.length (pp_name p) \<or> 100 < List.length (display_name_from (pp_name p)) \<or> 20 < List.length (pp_account p)"

definition provision_rows :: "ob_env \<Rightarrow> (string \<Rightarrow> string) \<Rightarrow> provision_params \<Rightarrow> 's ob_world \<Rightarrow> 's ob_world" where
  "provision_rows E hash p w = w\<lparr>
     au := (au w)\<lparr>users := users (au w) @ [provision_user (oe_uuid E) p],
       devices := bind_device (oe_uuid3 E) (oe_uuid E) (pp_device p) (devices (au w))\<rparr>,
     pg := (pg w)\<lparr>accounts := accounts (pg w) @ [provision_account_row (oe_uuid2 E) (oe_uuid E) (oe_now E) p],
       transaction_limits := provision_limits (oe_uuid E) (transaction_limits (pg w))\<rparr>,
     ob := (ob w)\<lparr>contacts := contacts (ob w) @ [\<lparr>co_user = oe_uuid E, co_phone = hash (pp_phone p),
       co_email = (if pp_email p = '''' then None else Some (hash (pp_email p)))\<rparr>]\<rparr>\<rparr>"

text \<open>All or nothing; every error is answered alike by the caller.\<close>

definition provision_account :: "ob_env \<Rightarrow> (string \<Rightarrow> string) \<Rightarrow> provision_params \<Rightarrow> ('s, uuid) onboarding" where
  "provision_account E hash p w = (if pp_phone p = '''' \<or> provision_faults E p \<or> provision_conflict E hash p w then (Inl AccountCreationFailed, w)
     else (Inr (oe_uuid E), provision_rows E hash p w))"

subsection \<open>The submission\<close>

record submit_request =
  sq_session :: string
  sq_agreed :: bool
  sq_version :: string

record submit_reply =
  sr_account :: string
  sr_type :: string
  sr_holder :: string
  sr_branch :: string
  sr_branch_code :: string
  sr_min_deposit :: int
  sr_deadline :: time
  sr_user :: string
  sr_created :: time

definition encode_submit_reply :: "submit_reply \<Rightarrow> json" where
  "encode_submit_reply r = JObj [
     (''account'', JObj [(''account_number'', JStr (sr_account r)), (''account_type'', JStr (sr_type r)),
       (''account_holder'', JStr (sr_holder r)), (''branch'', JStr (sr_branch r)), (''branch_code'', JStr (sr_branch_code r)),
       (''currency'', JStr ''IDR''), (''status'', JStr ''ACTIVE''), (''min_initial_deposit'', JInt (sr_min_deposit r)),
       (''initial_deposit_deadline'', JTime (sr_deadline r))]),
     (''m_bca'', JObj [(''user_id'', JStr (sr_user r)), (''access_code_set'', JBool True), (''pin_set'', JBool True)]),
     (''created_at'', JTime (sr_created r)), (''card'', JNull)]"

definition decode_submit_reply :: "json \<Rightarrow> submit_reply option" where
  "decode_submit_reply j = (case j of JObj p \<Rightarrow> do {
      a \<leftarrow> get_obj p ''account''; m \<leftarrow> get_obj p ''m_bca''; t \<leftarrow> get_time p ''created_at'';
      n \<leftarrow> get_str a ''account_number''; ty \<leftarrow> get_str a ''account_type''; h \<leftarrow> get_str a ''account_holder'';
      b \<leftarrow> get_str a ''branch''; bc \<leftarrow> get_str a ''branch_code''; md \<leftarrow> get_int a ''min_initial_deposit'';
      dl \<leftarrow> get_time a ''initial_deposit_deadline''; u \<leftarrow> get_str m ''user_id'';
      Some \<lparr>sr_account = n, sr_type = ty, sr_holder = h, sr_branch = b, sr_branch_code = bc, sr_min_deposit = md, sr_deadline = dl,
        sr_user = u, sr_created = t\<rparr> }
    | _ \<Rightarrow> None)"

lemma decode_encode_submit [simp]: "decode_submit_reply (encode_submit_reply r) = Some r"
  by (simp add: decode_submit_reply_def encode_submit_reply_def json_get_defs get_int_def)

text \<open>
  The core banking system, which answers account number, branch and branch code or fails; whether provisioning is configured; the
  keyed hash; whether a card is required.
\<close>

record submit_tools =
  su_core :: "string \<Rightarrow> product \<Rightarrow> string \<Rightarrow> string \<Rightarrow> (string \<times> string \<times> string) option"
  su_provisioner :: bool
  su_hash :: "string \<Rightarrow> string"
  su_card_required :: bool

definition initial_deposit_window :: time where "initial_deposit_window = 30 * hours 24"

definition all_steps_completed :: "steps_completed \<Rightarrow> bool" where
  "all_steps_completed f \<longleftrightarrow> sc_tnc f \<and> sc_ocr f \<and> sc_personal f \<and> sc_otp f \<and> sc_biometric f \<and> sc_video f \<and> sc_credentials f"

text \<open>The checks before anything is created: the session, its personal data in the clear, its credentials.\<close>

definition ready_session :: "'s data_api \<Rightarrow> submit_tools \<Rightarrow> ob_env \<Rightarrow> submit_request \<Rightarrow> ('s, ob_session) onboarding" where
  "ready_session R T E q = svc_bind (resolve_ob_session R E (sq_session q)) (\<lambda>s.
     svc_seq (require_step StepReview s)
     (svc_seq (fail_if (\<not> sq_agreed q \<or> sq_version q = '''') ValidationError)
     (svc_seq (fail_if (\<not> all_steps_completed (os_flags s)) OnboardingIncomplete)
     (svc_seq (fail_if (\<not> sc_card (os_flags s) \<and> su_card_required T) CardMissing)
       (svc_return s)))))"

definition ready_person :: "field_cipher \<Rightarrow> ob_env \<Rightarrow> string \<Rightarrow> ('s, string \<times> string \<times> string \<times> string) onboarding" where
  "ready_person C E i = svc_bind (ob_read E OFindPersonal (find_personal i)) (\<lambda>r. svc_bind (svc_option OnboardingIncomplete r) (\<lambda>p.
     svc_bind (svc_option InternalError (decrypt_field C (pd_nama p))) (\<lambda>nama.
     svc_bind (svc_option InternalError (decrypt_field C (pd_nik p))) (\<lambda>nik.
     svc_bind (svc_option InternalError (decrypt_field C (pd_phone p))) (\<lambda>phone.
     svc_bind (svc_option InternalError (decrypt_field C (pd_email p))) (\<lambda>email.
     svc_return (nama, nik, phone, email)))))))"

definition core_account :: "submit_tools \<Rightarrow> string \<Rightarrow> product \<Rightarrow> string \<Rightarrow> string \<Rightarrow> ('s, string \<times> string \<times> string) onboarding" where
  "core_account T i p nama nik w = (case su_core T i p nama nik of None \<Rightarrow> (Inl AccountCreationFailed, w)
     | Some (n, b, c) \<Rightarrow> (Inr (n, b, c), w\<lparr>core_calls := core_calls w @ [(i, n)]\<rparr>))"

definition submit_body :: "'s data_api \<Rightarrow> field_cipher \<Rightarrow> submit_tools \<Rightarrow> ob_env \<Rightarrow> submit_request \<Rightarrow> ('s, submit_reply) onboarding" where
  "submit_body R C T E q = (let i = sq_session q in
     svc_bind (ready_session R T E q) (\<lambda>s.
     svc_bind (ready_person C E i) (\<lambda>(nama, nik, phone, email).
     svc_bind (ob_read E OFindCredential (find_credential i)) (\<lambda>cr. svc_bind (svc_option OnboardingIncomplete cr) (\<lambda>c.
     svc_bind (core_account T i (os_product s) nama nik) (\<lambda>(number, branch, code).
     svc_seq (fail_if (\<not> su_provisioner T) ProviderNotConfigured)
     (svc_bind (provision_account E (su_hash T) \<lparr>pp_device = os_device s, pp_account = number, pp_product = os_product s, pp_name = nama,
         pp_phone = phone, pp_email = email, pp_access_hash = cr_access_hash c, pp_pin_hash = cr_pin_hash c\<rparr>) (\<lambda>u.
     svc_seq (advance R E i s StepCompleted ((os_flags s)\<lparr>sc_submitted := True\<rparr>))
       (svc_return \<lparr>sr_account = number, sr_type = product_name (os_product s), sr_holder = nama, sr_branch = branch, sr_branch_code = code,
         sr_min_deposit = pn_min_deposit (product_catalog (os_product s)), sr_deadline = oe_now E + initial_deposit_window,
         sr_user = u, sr_created = oe_now E\<rparr>)))))))))"

definition replay_submit :: "rval \<Rightarrow> ('s, submit_reply) onboarding" where
  "replay_submit v = (case v of RJson j \<Rightarrow> svc_option InternalError (decode_submit_reply j) | _ \<Rightarrow> svc_throw InternalError)"

text \<open>A failed submission frees the slot of its key, a successful one keeps its answer there; neither can fail the request.\<close>

definition submit_claimed :: "'s data_api \<Rightarrow> field_cipher \<Rightarrow> submit_tools \<Rightarrow> ob_env \<Rightarrow> submit_request \<Rightarrow> string \<Rightarrow> ('s, submit_reply) onboarding" where
  "submit_claimed R C T E q key = svc_bind (svc_try (submit_body R C T E q)) (\<lambda>r. case r of
       Inl e \<Rightarrow> svc_seq (best_effort_kv (ob_idem_release R (oe_now E) (sq_session q) key)) (svc_throw e)
     | Inr x \<Rightarrow> svc_seq (best_effort_kv (ob_idem_persist R (oe_now E) (sq_session q) key (encode_submit_reply x))) (svc_return x))"

definition submit :: "'s data_api \<Rightarrow> field_cipher \<Rightarrow> submit_tools \<Rightarrow> ob_env \<Rightarrow> submit_request \<Rightarrow> string \<Rightarrow> ('s, submit_reply) onboarding" where
  "submit R C T E q key = (if key = '''' then submit_body R C T E q
     else svc_bind (on_kv (ob_idem_claim R (oe_now E) (sq_session q) key)) (\<lambda>claim. case claim of
       ClaimStored v \<Rightarrow> replay_submit v
     | ClaimRunning \<Rightarrow> svc_throw IdempotencyConflict
     | ClaimFresh \<Rightarrow> submit_claimed R C T E q key))"

end
