(* ===== verification/Onboarding_Requests.thy ===== *)
theory Onboarding_Requests
  imports Onboarding_Submit
begin

text \<open>
  The endpoints of account opening (\<open>handler/onboarding_handler.go\<close>, \<open>card_handler.go\<close>, \<open>cs_escalation_handler.go\<close>) as one step of
  the system: a request, who sends it, and what the parts outside the program answer to it. A run is a list of such steps.
\<close>

text \<open>The device header, the agent the authentication of the route found, the idempotency key.\<close>

record caller =
  cl_device :: string
  cl_agent :: agent_info
  cl_idem :: string

text \<open>What stands outside, chosen anew for every request.\<close>

record 'l ob_tools =
  ol_lib :: "'l lib_scheme"
  ol_desk :: desk
  ol_cipher :: field_cipher
  ol_ocr :: ocr_tools
  ol_otp :: otp_tools
  ol_policy :: liveness_policy
  ol_challenge :: challenge_tools
  ol_face :: face_tools
  ol_cred :: credential_tools
  ol_submit :: submit_tools
  ol_gate :: "(string \<Rightarrow> string \<Rightarrow> app_err option) option"

datatype ob_request = OpenSession open_request | ViewSession string | CancelSession string | ChooseCard string card_choice
  | ScanCard string string capture_meta | GivePersonal personal_input | GiveCode string string | ResendCode string string
  | AskChallenge string string string | ShowFace face_submission | JoinQueue string | ListCalls | PickUp string
  | ReportCall call_report | ListCases esc_filter | WorkCase string esc_request | BookCall string "time option" | UnbookCall string
  | ChooseCredentials credential_request | SubmitOpening submit_request

datatype ob_reply = OpenReply open_reply | ViewReply session_view | DoneReply | CardReply step steps_completed | ScanReply string
  | PersonalReply personal_reply | StepReply step | CodeReply string time | ChallengeReply liveness_challenge | FaceReply face_reply
  | JoinReply join_reply | CallsReply "queued_call list" bool | PickReply pickup_reply | CallReply report_reply
  | CasesReply "(escalation \<times> nat) list" | CaseReply esc_reply | BookReply call_schedule | CredentialReply credential_reply
  | SubmitReply submit_reply

abbreviation CardTypeInvalid :: app_err where "CardTypeInvalid \<equiv> Coded 422 ''CARD_TYPE_INVALID'' []"

definition otp_code_format :: "string \<Rightarrow> bool" where
  "otp_code_format s \<longleftrightarrow> List.length s = 6 \<and> list_all is_digit_char s"

definition device_id_header :: "caller \<Rightarrow> string" where
  "device_id_header who = trim_space (cl_device who)"

text \<open>The device check most endpoints start with, and the check that an agent is known.\<close>

definition device_owns_session :: "'s data_api \<Rightarrow> ob_env \<Rightarrow> caller \<Rightarrow> string \<Rightarrow> ('s, 'a) onboarding \<Rightarrow> ('s, 'a) onboarding" where
  "device_owns_session R E who i m =
     svc_seq (fail_if (i = '''') ValidationError) (svc_seq (assert_device_owns R E i (device_id_header who)) m)"

definition answer :: "('a \<Rightarrow> ob_reply) \<Rightarrow> ('s, 'a) onboarding \<Rightarrow> ('s, ob_reply) onboarding" where
  "answer f m = svc_bind m (\<lambda>x. svc_return (f x))"

definition customer_request :: "'s data_api \<Rightarrow> 's queue_api \<Rightarrow> 'l ob_tools \<Rightarrow> ob_env \<Rightarrow> caller \<Rightarrow> ob_request \<Rightarrow> ('s, ob_reply) onboarding" where
  "customer_request R Z X E who q = (let dev = device_id_header who in case q of
     OpenSession r \<Rightarrow> svc_seq (fail_if (oq_product r = '''' \<or> oq_device r = '''' \<or> oq_tnc r = '''') ValidationError)
       (answer OpenReply (open_session R E (ol_desk X) r))
   | ViewSession i \<Rightarrow> device_owns_session R E who i (answer ViewReply (get_session R E i))
   | CancelSession i \<Rightarrow> device_owns_session R E who i (answer (\<lambda>u. DoneReply) (cancel_session R Z E i))
   | ChooseCard i c \<Rightarrow> svc_seq (fail_if (i = '''') ValidationError) (svc_seq (fail_if (trim_space (ch_card c) = '''') CardTypeInvalid)
       (answer (\<lambda>(st, fl). CardReply st fl) (set_card R E (ol_desk X) i (c\<lparr>ch_card := trim_space (ch_card c), ch_device := dev\<rparr>))))
   | ScanCard i photo meta \<Rightarrow> device_owns_session R E who i (answer ScanReply (process_ktp R (ol_cipher X) (ol_ocr X) E i photo meta))
   | GivePersonal r \<Rightarrow> device_owns_session R E who (pq_session r)
       (answer PersonalReply (save_personal_data R (ol_cipher X) (ol_otp X) E r))
   | GiveCode i code \<Rightarrow> svc_seq (fail_if (i = '''' \<or> \<not> otp_code_format code) ValidationError)
       (answer StepReply (verify_otp R (ol_cipher X) (ol_otp X) E i dev code))
   | ResendCode i ch \<Rightarrow> svc_seq (fail_if (i = '''') ValidationError)
       (answer (\<lambda>(p, t). CodeReply p t) (resend_otp R (ol_cipher X) (ol_otp X) E i dev ch))
   | AskChallenge i key_id key \<Rightarrow> svc_seq (fail_if (key = '''' \<or> key_id = '''') ValidationError)
       (device_owns_session R E who i (answer ChallengeReply (issue_challenge R (ol_policy X) (ol_challenge X) E i dev key_id key)))
   | ShowFace r \<Rightarrow> device_owns_session R E who (fs_session r)
       (svc_seq (fail_if (fs_challenge r = '''' \<or> fs_nonce r = '''' \<or> fs_signature r = '''') ValidationError)
         (answer FaceReply (process_biometric R (ol_policy X) (ol_face X) E (r\<lparr>fs_device := dev\<rparr>))))
   | JoinQueue i \<Rightarrow> device_owns_session R E who i (answer JoinReply (join_queue R Z (ol_lib X) E i))
   | BookCall i t \<Rightarrow> device_owns_session R E who i (answer BookReply (schedule_call R E i t))
   | UnbookCall i \<Rightarrow> device_owns_session R E who i (answer (\<lambda>u. DoneReply) (cancel_call_schedule R E i))
   | ChooseCredentials r \<Rightarrow> device_owns_session R E who (cq_session r)
       (answer CredentialReply (set_credentials R (ol_cred X) E r))
   | SubmitOpening r \<Rightarrow> device_owns_session R E who (sq_session r)
       (answer SubmitReply (submit R (ol_cipher X) (ol_submit X) E r (cl_idem who)))
   | _ \<Rightarrow> svc_throw ValidationError)"

definition agent_request :: "'s data_api \<Rightarrow> 's queue_api \<Rightarrow> 'l ob_tools \<Rightarrow> ob_env \<Rightarrow> agent_info \<Rightarrow> ob_request \<Rightarrow> ('s, ob_reply) onboarding" where
  "agent_request R Z X E a q = (case q of
     ListCalls \<Rightarrow> answer (\<lambda>(l, b). CallsReply l b) (list_queued Z E)
   | PickUp i \<Rightarrow> svc_seq (fail_if (i = '''') ValidationError) (svc_seq (need_agent (ai_employee a))
       (answer PickReply (pick_up_call Z (ol_gate X) E i a)))
   | ReportCall r \<Rightarrow> svc_seq (fail_if (rp_session r = '''' \<or> rp_queue r = '''' \<or> rp_result r = '''') ValidationError)
       (svc_seq (need_agent (ai_employee a)) (answer CallReply (submit_call_result R Z E r a)))
   | ListCases f \<Rightarrow> answer CasesReply (list_escalations E f)
   | WorkCase i r \<Rightarrow> svc_seq (need_agent (ai_employee a)) (svc_seq (fail_if (i = '''') ValidationError)
       (answer CaseReply (update_escalation R E i r (ai_employee a))))
   | _ \<Rightarrow> svc_throw ValidationError)"

fun from_agent :: "ob_request \<Rightarrow> bool" where
  "from_agent ListCalls = True"
| "from_agent (PickUp i) = True"
| "from_agent (ReportCall r) = True"
| "from_agent (ListCases f) = True"
| "from_agent (WorkCase i r) = True"
| "from_agent _ = False"

definition ob_serve :: "'s data_api \<Rightarrow> 's queue_api \<Rightarrow> 'l ob_tools \<Rightarrow> ob_env \<Rightarrow> caller \<Rightarrow> ob_request \<Rightarrow> ('s, ob_reply) onboarding" where
  "ob_serve R Z X E who q = (if from_agent q then agent_request R Z X E (cl_agent who) q else customer_request R Z X E who q)"

text \<open>A run: requests at times that do not decrease, each with its environment; the log of the replies and the state it ends in.\<close>

record 'l ob_event =
  ev_tools :: "'l ob_tools"
  ev_env :: ob_env
  ev_caller :: caller
  ev_request :: ob_request

fun ob_run :: "'s data_api \<Rightarrow> 's queue_api \<Rightarrow> 'l ob_event list \<Rightarrow> 's ob_world \<Rightarrow> (app_err + ob_reply) list \<times> 's ob_world" where
  "ob_run R Z [] w = ([], w)"
| "ob_run R Z (e # es) w = (case ob_serve R Z (ev_tools e) (ev_env e) (ev_caller e) (ev_request e) w of
     (r, w1) \<Rightarrow> (case ob_run R Z es w1 of (rs, w2) \<Rightarrow> (r # rs, w2)))"

fun in_time :: "time \<Rightarrow> 'l ob_event list \<Rightarrow> bool" where
  "in_time t [] = True"
| "in_time t (e # es) \<longleftrightarrow> t \<le> oe_now (ev_env e) \<and> in_time (oe_now (ev_env e)) es"

fun end_time :: "time \<Rightarrow> 'l ob_event list \<Rightarrow> time" where
  "end_time t [] = t"
| "end_time t (e # es) = end_time (oe_now (ev_env e)) es"

lemma in_time_append: "in_time t (es @ fs) \<longleftrightarrow> in_time t es \<and> in_time (end_time t es) fs"
  by (induction es arbitrary: t) auto

lemma ob_run_state:
  "snd (ob_run R Z (e # es) w) = snd (ob_run R Z es (snd (ob_serve R Z (ev_tools e) (ev_env e) (ev_caller e) (ev_request e) w)))"
  by (simp split: prod.splits)

lemma ob_run_append: "snd (ob_run R Z (es @ fs) w) = snd (ob_run R Z fs (snd (ob_run R Z es w)))"
  by (induction es arbitrary: w) (simp_all add: ob_run_state del: ob_run.simps(2))

end
