(* ===== verification/Onboarding_Logic.thy ===== *)
theory Onboarding_Logic
  imports Onboarding_Requests
begin

text \<open>
  A logic of the handlers of account opening. A triple \<open>obeys I p m q\<close> says that the step \<open>m\<close>, started where the invariant \<open>I\<close> and the
  condition \<open>p\<close> on the tables hold, keeps \<open>I\<close> and, when it succeeds with \<open>x\<close>, ends with \<open>q x\<close>. The rules compute the strongest \<open>q\<close>, so
  that the proof about a handler is the handler read from top to bottom.
\<close>

definition obeys :: "('s ob_world \<Rightarrow> bool) \<Rightarrow> (ob_db \<Rightarrow> bool) \<Rightarrow> ('s, 'a) onboarding \<Rightarrow> ('a \<Rightarrow> ob_db \<Rightarrow> bool) \<Rightarrow> bool" where
  "obeys I p m q \<longleftrightarrow> (\<forall>w r w'. I w \<longrightarrow> p (ob w) \<longrightarrow> m w = (r, w') \<longrightarrow> I w' \<and> (\<forall>x. r = Inr x \<longrightarrow> q x (ob w')))"

lemma obeysI:
  assumes "\<And>w r w'. I w \<Longrightarrow> p (ob w) \<Longrightarrow> m w = (r, w') \<Longrightarrow> I w' \<and> (\<forall>x. r = Inr x \<longrightarrow> q x (ob w'))"
  shows "obeys I p m q"
  using assms unfolding obeys_def by blast

lemma obeysD:
  assumes "obeys I p m q" "I w" "p (ob w)" "m w = (r, w')"
  shows "I w'" and "r = Inr x \<Longrightarrow> q x (ob w')"
  using assms unfolding obeys_def by blast+

lemma obeys_weaken: "obeys I p m q \<Longrightarrow> (\<And>x d. q x d \<Longrightarrow> q' x d) \<Longrightarrow> obeys I p m q'"
  unfolding obeys_def by blast

lemma obeys_any: "obeys I p m q \<Longrightarrow> obeys I p m (\<lambda>_ _. True)"
  by (rule obeys_weaken) simp_all

lemma obeys_pre: "obeys I p m q \<Longrightarrow> (\<And>d. p' d \<Longrightarrow> p d) \<Longrightarrow> obeys I p' m q"
  unfolding obeys_def by blast

named_theorems sp \<open>the strongest condition after a step\<close>

named_theorems vc \<open>steps after which nothing is claimed\<close>

lemma obeys_bind: "obeys I p m q \<Longrightarrow> (\<And>x. obeys I (q x) (f x) r) \<Longrightarrow> obeys I p (svc_bind m f) r"
proof (rule obeysI)
  fix w z w'
  assume m: "obeys I p m q" and f: "\<And>x. obeys I (q x) (f x) r" and w: "I w" "p (ob w)" and z: "svc_bind m f w = (z, w')"
  obtain y w1 where y: "m w = (y, w1)" by force
  note first = obeysD [OF m w y]
  show "I w' \<and> (\<forall>x. z = Inr x \<longrightarrow> r x (ob w'))"
  proof (cases y)
    case (Inl e)
    then show ?thesis using first z y by (auto simp: svc_bind_def)
  next
    case (Inr x)
    then have "f x w1 = (z, w')" using z y by (simp add: svc_bind_def)
    then show ?thesis using obeysD [OF f first(1) first(2) [OF Inr]] by auto
  qed
qed

lemma obeys_seq: "obeys I p m q \<Longrightarrow> obeys I (q ()) n r \<Longrightarrow> obeys I p (svc_seq m n) r"
  unfolding svc_seq_def by (erule obeys_bind) simp

lemma sp_pure [sp]:
  "obeys I p (svc_return x) (\<lambda>y d. p d \<and> y = x)" "obeys I p (svc_throw e) (\<lambda>_ _. False)"
  "obeys I p (fail_if b e) (\<lambda>_ d. p d \<and> \<not> b)" "obeys I p (svc_option e v) (\<lambda>x d. p d \<and> v = Some x)"
  "obeys I p (svc_sum z) (\<lambda>x d. p d \<and> z = Inr x)" "obeys I p (require_step st s) (\<lambda>_ d. p d \<and> os_step s = st)"
  "obeys I p (ob_read E Qn f) (\<lambda>x d. p d \<and> x = f d)" "obeys I p (assert_session_device s dev) (\<lambda>_. p)"
  "obeys I p (svc_try (ob_read E Qn f)) (\<lambda>r d. p d \<and> (\<forall>x. r = Inr x \<longrightarrow> x = f d))"
  "obeys I p (live_or_expired E s) (\<lambda>x d. p d \<and> x = s)" "obeys I p (need_agent a) (\<lambda>_ d. p d \<and> a \<noteq> '''')"
  "obeys I p (stored_session E i) (\<lambda>x d. p d \<and> find_ob_session i d = Some x)"
  by (auto simp: obeys_def svc_defs svc_sum_def require_step_def live_or_expired_def assert_session_device_def need_agent_def
      svc_try_def ob_read_def stored_session_def assert_device_owns_def split: option.splits sum.splits if_splits prod.splits)

lemmas vc_pure [vc] = sp_pure [THEN obeys_any]

lemma sp_if [sp]: "(b \<Longrightarrow> obeys I p m q) \<Longrightarrow> (\<not> b \<Longrightarrow> obeys I p n q') \<Longrightarrow> obeys I p (if b then m else n) (\<lambda>x d. if b then q x d else q' x d)"
  by simp

lemma sp_option [sp]: "obeys I p m q \<Longrightarrow> (\<And>y. v = Some y \<Longrightarrow> obeys I p (f y) (q' y)) \<Longrightarrow>
    obeys I p (case v of None \<Rightarrow> m | Some y \<Rightarrow> f y) (\<lambda>x d. case v of None \<Rightarrow> q x d | Some y \<Rightarrow> q' y x d)"
  by (cases v) simp_all

lemma vc_flow [vc]:
  "(b \<Longrightarrow> obeys I p m q) \<Longrightarrow> (\<not> b \<Longrightarrow> obeys I p n q) \<Longrightarrow> obeys I p (if b then m else n) q"
  "(v = None \<Longrightarrow> obeys I p m q) \<Longrightarrow> (\<And>y. v = Some y \<Longrightarrow> obeys I p (f y) q) \<Longrightarrow> obeys I p (case v of None \<Rightarrow> m | Some y \<Rightarrow> f y) q"
  "(\<And>y. z = Inl y \<Longrightarrow> obeys I p (g y) q) \<Longrightarrow> (\<And>y. z = Inr y \<Longrightarrow> obeys I p (h y) q) \<Longrightarrow>
    obeys I p (case z of Inl y \<Rightarrow> g y | Inr y \<Rightarrow> h y) q"
  "(\<And>a c. k = (a, c) \<Longrightarrow> obeys I p (u a c) q) \<Longrightarrow> obeys I p (case k of (a, c) \<Rightarrow> u a c) q"
  by (simp_all split: option.splits sum.splits prod.splits)

lemma vc_let [vc]: "(\<And>x. x = e \<Longrightarrow> obeys I p (f x) q) \<Longrightarrow> obeys I p (let x = e in f x) q"
  by (simp add: Let_def)

text \<open>The end of a step whose condition is given.\<close>

lemma fin:
  "(\<And>d. p d \<Longrightarrow> q x d) \<Longrightarrow> obeys I p (svc_return x) q" "obeys I p (svc_throw e) q2"
  "(\<And>d y. p d \<Longrightarrow> v = Some y \<Longrightarrow> q' y d) \<Longrightarrow> obeys I p (svc_option e v) q'"
  "(\<And>d. p d \<Longrightarrow> \<not> b \<Longrightarrow> q1 () d) \<Longrightarrow> obeys I p (fail_if b e) q1"
  by (auto simp: obeys_def svc_defs split: option.splits)

lemma vc_answers [vc]:
  "(a = CodeApproved \<Longrightarrow> obeys I p m1 q) \<Longrightarrow> (a = CodeDenied \<Longrightarrow> obeys I p m2 q) \<Longrightarrow> (a = CodeExpired \<Longrightarrow> obeys I p m3 q)
    \<Longrightarrow> (a = CheckFailed \<Longrightarrow> obeys I p m4 q)
    \<Longrightarrow> obeys I p (case a of CodeApproved \<Rightarrow> m1 | CodeDenied \<Rightarrow> m2 | CodeExpired \<Rightarrow> m3 | CheckFailed \<Rightarrow> m4) q"
  "(\<And>t. z = Issued t \<Longrightarrow> obeys I p (n1 t) q) \<Longrightarrow> (z = Undelivered \<Longrightarrow> obeys I p n2 q) \<Longrightarrow> (\<And>e. z = IssueFailed e \<Longrightarrow> obeys I p (n3 e) q)
    \<Longrightarrow> obeys I p (case z of Issued t \<Rightarrow> n1 t | Undelivered \<Rightarrow> n2 | IssueFailed e \<Rightarrow> n3 e) q"
  "(c = ClaimFresh \<Longrightarrow> obeys I p k1 q) \<Longrightarrow> (c = ClaimRunning \<Longrightarrow> obeys I p k2 q) \<Longrightarrow> (\<And>v. c = ClaimStored v \<Longrightarrow> obeys I p (k3 v) q)
    \<Longrightarrow> obeys I p (case c of ClaimFresh \<Rightarrow> k1 | ClaimRunning \<Rightarrow> k2 | ClaimStored v \<Rightarrow> k3 v) q"
  by (simp_all split: check_answer.splits issue_result.splits ob_claim.splits)

lemma obeys_try: "obeys I p m q \<Longrightarrow> obeys I p (svc_try m) (\<lambda>_ _. True)"
  by (auto simp: obeys_def svc_try_def split: prod.splits)

lemma obeys_try_result: "obeys I p m q \<Longrightarrow> obeys I p (svc_try m) (\<lambda>r d. \<forall>x. r = Inr x \<longrightarrow> q x d)"
  by (auto simp: obeys_def svc_try_def split: prod.splits)

lemma obeys_keeps: "obeys I (\<lambda>_. True) m q \<Longrightarrow> I w \<Longrightarrow> I (snd (m w))"
  unfolding obeys_def by (metis prod.collapse)

end
