(* ===== verification/Onboarding_Evidence.thy ===== *)
theory Onboarding_Evidence
  imports Onboarding_Logic
begin

text \<open>
  What the tables of account opening prove about a session, and that no statement takes a proof away: rows of evidence are only
  added, a completed call and a resolved case stay as they are.
\<close>

definition has_ocr :: "string \<Rightarrow> ob_db \<Rightarrow> bool" where
  "has_ocr i d \<longleftrightarrow> list_ex (\<lambda>r. oc_session r = i) (ocr_rows d)"

definition has_personal :: "string \<Rightarrow> ob_db \<Rightarrow> bool" where
  "has_personal i d \<longleftrightarrow> list_ex (\<lambda>r. pd_session r = i) (personal_rows d)"

definition has_face :: "string \<Rightarrow> ob_db \<Rightarrow> bool" where
  "has_face i d \<longleftrightarrow> list_ex (\<lambda>r. br_session r = i) (biometric_rows d)"

definition has_credential :: "string \<Rightarrow> ob_db \<Rightarrow> bool" where
  "has_credential i d \<longleftrightarrow> list_ex (\<lambda>r. cr_session r = i) (ob_credentials d)"

text \<open>A call an agent approved, and a case approved by another agent than the one who raised it.\<close>

definition approved_call :: "string \<Rightarrow> video_call \<Rightarrow> bool" where
  "approved_call i c \<longleftrightarrow> vc_session c = i \<and> vc_status c = CallCompleted \<and> vc_result c = ''APPROVED'' \<and> vc_agent c \<noteq> ''''"

definition approved_case :: "string \<Rightarrow> escalation \<Rightarrow> bool" where
  "approved_case i e \<longleftrightarrow> es_session e = i \<and> es_status e = EscResolved \<and> es_resolution e = ''APPROVED''
     \<and> \<not> equal_fold (es_raised_by e) (es_resolved_by e)"

definition vetted :: "string \<Rightarrow> ob_db \<Rightarrow> bool" where
  "vetted i d \<longleftrightarrow> list_ex (approved_call i) (video_calls d) \<or> list_ex (approved_case i) (escalations d)"

lemmas evidence_defs = has_ocr_def has_personal_def has_face_def has_credential_def vetted_def known_session_def

definition grew :: "ob_db \<Rightarrow> ob_db \<Rightarrow> bool" where
  "grew d d' \<longleftrightarrow> (\<forall>i. (known_session i d \<longrightarrow> known_session i d') \<and> (has_ocr i d \<longrightarrow> has_ocr i d') \<and> (has_personal i d \<longrightarrow> has_personal i d')
     \<and> (has_face i d \<longrightarrow> has_face i d') \<and> (has_credential i d \<longrightarrow> has_credential i d') \<and> (vetted i d \<longrightarrow> vetted i d'))"

lemma grew_refl [simp]: "grew d d"
  by (simp add: grew_def)

lemma grew_trans [trans]: "grew d d1 \<Longrightarrow> grew d1 d2 \<Longrightarrow> grew d d2"
  unfolding grew_def by blast

text \<open>The keys of calls and of cases are unique.\<close>

definition keyed :: "ob_db \<Rightarrow> bool" where
  "keyed d \<longleftrightarrow> distinct (map vc_queue (video_calls d)) \<and> distinct (map es_id (escalations d))"

text \<open>A statement that leaves the sessions alone, keeps the keys and takes no evidence away.\<close>

definition steady :: "(ob_db \<Rightarrow> app_err + 'a \<times> ob_db) \<Rightarrow> bool" where
  "steady g \<longleftrightarrow> (\<forall>d x d'. keyed d \<longrightarrow> g d = Inr (x, d') \<longrightarrow> ob_sessions d' = ob_sessions d \<and> keyed d' \<and> grew d d')"

named_theorems steady_rules \<open>statements that take no evidence away\<close>

lemma list_ex_update_where: "(\<And>x. x \<in> set rs \<Longrightarrow> Q x \<Longrightarrow> P x \<Longrightarrow> P (f x)) \<Longrightarrow> list_ex P rs \<Longrightarrow> list_ex P (update_where Q f rs)"
  by (induction rs) (auto simp: update_where_def)

lemma list_ex_update_same: "(\<And>x. P (f x) = P x) \<Longrightarrow> list_ex P (update_where Q f rs) = list_ex P rs"
  by (induction rs) (auto simp: update_where_def)

lemma keyed_calls: "keyed d \<Longrightarrow> (\<And>c. vc_queue (f c) = vc_queue c) \<Longrightarrow> keyed (d\<lparr>video_calls := update_where Q f (video_calls d)\<rparr>)"
  by (simp add: keyed_def map_update_where)

lemma keyed_cases: "keyed d \<Longrightarrow> (\<And>c. es_id (f c) = es_id c) \<Longrightarrow> keyed (d\<lparr>escalations := update_where Q f (escalations d)\<rparr>)"
  by (simp add: keyed_def map_update_where)

lemma grew_calls:
  assumes "\<And>i c. c \<in> set (video_calls d) \<Longrightarrow> Q c \<Longrightarrow> approved_call i c \<Longrightarrow> approved_call i (f c)"
  shows "grew d (d\<lparr>video_calls := update_where Q f (video_calls d)\<rparr>)"
  using list_ex_update_where [of "video_calls d" Q "approved_call i" f for i, OF assms] by (auto simp: grew_def evidence_defs)

lemma grew_cases:
  assumes "\<And>i c. c \<in> set (escalations d) \<Longrightarrow> Q c \<Longrightarrow> approved_case i c \<Longrightarrow> approved_case i (f c)"
  shows "grew d (d\<lparr>escalations := update_where Q f (escalations d)\<rparr>)"
  using list_ex_update_where [of "escalations d" Q "approved_case i" f for i, OF assms] by (auto simp: grew_def evidence_defs)

lemma steady_inserts [steady_rules]:
  "steady (insert_ocr r)" "steady (insert_personal pr)" "steady (insert_biometric b)" "steady (insert_credential c)"
  "steady (create_call vc)" "steady (create_escalation e)" "steady (create_schedule s)"
  by (auto simp: steady_def insert_ocr_def insert_personal_def insert_biometric_def insert_credential_def create_call_def
      create_escalation_def create_schedule_def keyed_def grew_def evidence_defs list_ex_iff split: if_splits)

lemma steady_personal [steady_rules]: "steady (update_personal r)"
  by (auto simp: steady_def update_personal_def keyed_def grew_def evidence_defs list_ex_update_same split: if_splits)

lemma steady_calls [steady_rules]:
  "steady (mark_call_active t q agent name)" "steady (cancel_call t q)"
  by (auto simp: steady_def mark_call_active_def cancel_call_def Let_def approved_call_def apply_active_def keyed_calls
      intro!: grew_calls split: if_splits)

lemma steady_cases [steady_rules]:
  "steady (claim_escalation t i agent)" "steady (resolve_escalation t i r)" "steady (cancel_schedule t j)"
  by (auto simp: steady_def claim_escalation_def resolve_escalation_def cancel_schedule_def Let_def approved_case_def keyed_cases
      keyed_def [of "d\<lparr>schedules := x\<rparr>" for d x] grew_def [of d "d\<lparr>schedules := x\<rparr>" for d x] evidence_defs intro!: grew_cases
      simp del: map_update_where) (auto simp: keyed_def)

lemma list_ex_disj: "list_ex (\<lambda>x. P x \<or> Q x) rs \<longleftrightarrow> list_ex P rs \<or> list_ex Q rs"
  by (induction rs) auto

text \<open>What a statement that succeeded leaves behind.\<close>

lemma stored_evidence:
  "insert_ocr r d = Inr (u, d') \<Longrightarrow> has_ocr (oc_session r) d'"
  "insert_personal pr d = Inr (u, d') \<Longrightarrow> has_personal (pd_session pr) d'"
  "update_personal pr d = Inr (u, d') \<Longrightarrow> has_personal (pd_session pr) d'"
  "insert_biometric b d = Inr (u, d') \<Longrightarrow> has_face (br_session b) d'"
  "insert_credential c d = Inr (u, d') \<Longrightarrow> has_credential (cr_session c) d' \<and> \<not> has_credential (cr_session c) d"
  by (auto simp: insert_ocr_def insert_personal_def update_personal_def insert_biometric_def insert_credential_def evidence_defs
      list_ex_update_same list_ex_disj split: if_splits)

lemma no_credential: "find_credential i d = None \<longleftrightarrow> \<not> has_credential i d"
  by (auto simp: find_credential_def has_credential_def find_None_iff list_ex_iff)

end
