(* ===== verification/Onboarding_Rules.thy ===== *)
theory Onboarding_Rules
  imports Onboarding_Evidence
begin

text \<open>
  A rule on sessions is a condition \<open>Q d i st fl\<close> on the step and the flags of session \<open>i\<close>, beside a condition \<open>K\<close> on the tables, that
  every move of the program respects. The locale \<open>session_rule\<close> lists the moves; what follows from them is proved once: every stored
  session and every session in the cache satisfies the rule after any request, and so does every account opened.
\<close>

subsection \<open>The cache of sessions\<close>

definition sheds :: "('s \<Rightarrow> time \<Rightarrow> string \<Rightarrow> rval option) \<Rightarrow> time \<Rightarrow> 's \<Rightarrow> 's \<Rightarrow> bool" where
  "sheds live t s s' \<longleftrightarrow> (\<forall>i t' v. t \<le> t' \<longrightarrow> live s' t' (ob_session_key i) = Some v \<longrightarrow> live s t' (ob_session_key i) = Some v)"

lemma sheds_refl [simp]: "sheds live t s s"
  by (simp add: sheds_def)

lemma sheds_trans [trans]: "sheds live t s s1 \<Longrightarrow> sheds live t s1 s2 \<Longrightarrow> sheds live t s s2"
  unfolding sheds_def by blast

lemma sheds_same: "(\<And>k t'. t \<le> t' \<Longrightarrow> live s' t' k = live s t' k) \<Longrightarrow> sheds live t s s'"
  by (simp add: sheds_def)

lemma sheds_other:
  assumes "\<And>k' t'. k' \<noteq> k \<Longrightarrow> t \<le> t' \<Longrightarrow> live s' t' k' = live s t' k'" "\<And>i. k \<noteq> ob_session_key i"
  shows "sheds live t s s'"
  using assms(1) [OF assms(2) [symmetric]] by (simp add: sheds_def)

named_theorems shed_ops \<open>operations that put no session into the cache\<close>

lemma sheds_pipe:
  assumes "\<And>s r s'. f s = (r, s') \<Longrightarrow> sheds live t s s'" "\<And>s r s'. g s = (r, s') \<Longrightarrow> sheds live t s s'" "pipe_then f g s = (r, s')"
  shows "sheds live t s s'"
  using assms(3) assms(1) [OF prod.collapse [symmetric]] assms(2) [OF prod.collapse [symmetric]]
  by (metis pipe_then_state prod.collapse snd_conv sheds_trans)

lemmas ob_key_defs = ob_session_key_def otp_key_def otp_attempt_key_def otp_block_key_def otp_resend_key_def otp_phone_send_key_def
  ob_idem_key_def liveness_challenge_key_def liveness_fail_key_def liveness_cooldown_key_def liveness_rounds_key_def

context redis_data
begin

lemma sheds_get: "api_get (strs R) t k s = (r, s') \<Longrightarrow> sheds live t s s'"
  by (rule sheds_same) (rule get_frame)

lemma sheds_set:
  assumes "api_set (strs R) t k v d s = (r, s')" "\<And>i. k \<noteq> ob_session_key i"
  shows "sheds live t s s'"
  using set_frame [OF assms(1)] assms(2) by (rule sheds_other)

lemma sheds_setnx:
  assumes "api_setnx (strs R) t k v d s = (r, s')" "\<And>i. k \<noteq> ob_session_key i"
  shows "sheds live t s s'"
  using setnx_frame [OF assms(1)] assms(2) by (rule sheds_other)

lemma sheds_incr:
  assumes "api_incr (strs R) t k s = (r, s')" "\<And>i. k \<noteq> ob_session_key i"
  shows "sheds live t s s'"
  using incr_frame [OF assms(1)] assms(2) by (rule sheds_other)

lemma sheds_expire:
  assumes "api_expire R t k d s = (r, s')" "\<And>i. k \<noteq> ob_session_key i"
  shows "sheds live t s s'"
  using expire_frame [OF assms(1)] assms(2) by (rule sheds_other)

lemma sheds_getdel:
  assumes "api_getdel (strs R) t k s = (r, s')" "\<And>i. k \<noteq> ob_session_key i"
  shows "sheds live t s s'"
  using getdel_frame [OF assms(1)] assms(2) by (rule sheds_other)

lemma sheds_del: "api_del (strs R) t k s = (r, s') \<Longrightarrow> sheds live t s s'"
proof -
  assume op: "api_del (strs R) t k s = (r, s')"
  have "live s t' k' = Some v" if "t \<le> t'" "live s' t' k' = Some v" for k' t' v
    using that del_never_creates [OF op that(1)] del_frame [OF op _ that(1), of k'] by (cases "k' = k") auto
  then show ?thesis unfolding sheds_def by blast
qed

lemma sheds_del_keys:
  assumes "api_del_keys R t ks s = (r, s')"
  shows "sheds live t s s'"
proof -
  have "live s t' (ob_session_key i) = Some v" if "t \<le> t'" "live s' t' (ob_session_key i) = Some v" for i t' v
    using del_keys_loses [OF assms, of "ob_session_key i"] that by (auto simp: only_loses_def)
  then show ?thesis by (simp add: sheds_def)
qed

lemma sheds_exists: "api_exists R t k s = (b, s') \<Longrightarrow> sheds live t s s'"
  by (rule sheds_same) (rule exists_frame)

lemma sheds_ttl: "api_ttl R t k s = (n, s') \<Longrightarrow> sheds live t s s'"
  by (rule sheds_same) (rule ttl_frame)

lemma sheds_zadd: "api_zadd R t k i m s = (r, s') \<Longrightarrow> sheds live t s s'"
  by (rule sheds_same) (rule zadd_frame)

lemma sheds_get_session [shed_ops]: "get_ob_session R t i s = (r, s') \<Longrightarrow> sheds live t s s'"
  unfolding get_ob_session_def by (auto split: prod.splits reply.splits option.splits rval.splits dest!: sheds_get)

lemma sheds_delete_session [shed_ops]: "delete_ob_session R t i s = (r, s') \<Longrightarrow> sheds live t s s'"
  unfolding delete_ob_session_def by (erule sheds_del)

lemma sheds_incr_window: "incr_window R t k d s = (r, s') \<Longrightarrow> (\<And>i. k \<noteq> ob_session_key i) \<Longrightarrow> sheds live t s s'"
  unfolding incr_window_def
  by (auto split: prod.splits reply.splits if_splits dest: sheds_incr sheds_expire intro: sheds_trans)

lemma sheds_snd_del: "sheds live t s (snd (api_del (strs R) t k s))"
  by (rule sheds_del [OF prod.collapse [symmetric]])

lemma sheds_incr_or_drop:
  assumes "incr_or_drop R t k d s = (r, s')" "\<And>i. k \<noteq> ob_session_key i"
  shows "sheds live t s s'"
proof -
  note add = sheds_incr [OF _ assms(2)] and lease = sheds_expire [OF _ assms(2)]
  show ?thesis using assms(1) unfolding incr_or_drop_def
    by (auto split: prod.splits reply.splits if_splits dest!: add lease intro: sheds_trans [OF sheds_trans sheds_snd_del] sheds_trans)
qed

lemma sheds_ocr_attempt [shed_ops]: "check_ocr_attempt R t i s = (r, s') \<Longrightarrow> sheds live t s s'"
  unfolding check_ocr_attempt_def
  by (auto split: prod.splits reply.splits dest!: sheds_incr_or_drop simp: ob_key_defs)

lemma sheds_otp [shed_ops]:
  "store_otp R t i h ttl s = (rt, s') \<Longrightarrow> sheds live t s s'" "get_otp R t i s = (rs, s') \<Longrightarrow> sheds live t s s'"
  "delete_otp R t i s = (ru, s') \<Longrightarrow> sheds live t s s'" "incr_otp_attempt R t i s = (rn, s') \<Longrightarrow> sheds live t s s'"
  "reset_attempts R t i s = (ru, s') \<Longrightarrow> sheds live t s s'" "otp_blocked R t i s = (rb, s') \<Longrightarrow> sheds live t s s'"
  "block_otp R t i ttl s = (ru, s') \<Longrightarrow> sheds live t s s'" "remaining_seconds R t k s = (n, s') \<Longrightarrow> sheds live t s s'"
  "incr_resend R t i s = (rn, s') \<Longrightarrow> sheds live t s s'" "reset_resend R t i s = (ru, s') \<Longrightarrow> sheds live t s s'"
  unfolding store_otp_def get_otp_def delete_otp_def incr_otp_attempt_def reset_attempts_def otp_blocked_def block_otp_def
    remaining_seconds_def incr_resend_def reset_resend_def
  by (auto split: prod.splits reply.splits option.splits rval.splits if_splits simp: ob_key_defs
      dest!: sheds_set sheds_get sheds_del sheds_exists sheds_ttl sheds_incr_window)

lemma sheds_phone_send [shed_ops]: "incr_phone_send R dg t ph s = (rn, s') \<Longrightarrow> sheds live t s s'"
  unfolding incr_phone_send_def by (erule sheds_incr_or_drop) (simp add: ob_key_defs)

lemma sheds_idem [shed_ops]:
  "ob_idem_claim R t i k s = (rc, s') \<Longrightarrow> sheds live t s s'" "ob_idem_persist R t i k j s = (ru, s') \<Longrightarrow> sheds live t s s'"
  "ob_idem_release R t i k s = (ru, s') \<Longrightarrow> sheds live t s s'"
  unfolding ob_idem_claim_def ob_idem_persist_def ob_idem_release_def
  by (auto split: prod.splits reply.splits bool.splits option.splits simp: ob_key_defs dest!: sheds_setnx sheds_set sheds_del
      intro: sheds_trans [OF _ sheds_get])

lemma sheds_queue_add [shed_ops]: "queue_add R t q j s = (ru, s') \<Longrightarrow> sheds live t s s'"
  unfolding queue_add_def by (erule sheds_zadd)

lemma sheds_daily [shed_ops]: "incr_daily_counter R L t s = (rn, s') \<Longrightarrow> sheds live t s s'"
  unfolding incr_daily_counter_def Let_def
  by (auto split: prod.splits reply.splits if_splits simp: ob_key_defs dest!: sheds_incr
      intro: sheds_trans [OF _ sheds_expire [OF prod.collapse [symmetric]]])

lemma sheds_liveness [shed_ops]:
  "store_liveness R P t c s = (ru, s') \<Longrightarrow> sheds live t s s'" "consume_liveness R t i s = (rc, s') \<Longrightarrow> sheds live t s s'"
  "reset_liveness R t i dev s = (ru, s') \<Longrightarrow> sheds live t s s'"
  unfolding store_liveness_def consume_liveness_def reset_liveness_def
  by (auto split: prod.splits reply.splits option.splits rval.splits simp: ob_key_defs dest!: sheds_set sheds_getdel sheds_del_keys)

lemma sheds_attempts [shed_ops]: "attempt_status_of R P t i dev s = (ra, s') \<Longrightarrow> sheds live t s s'"
proof -
  have pipe: "sheds live t s s'" if "pipe_then (api_get (strs R) t a) (pipe_then (api_ttl R t b) (api_get (strs R) t c)) s = (q, s')" for q s s' a b c
    using that by (rule sheds_pipe [rotated 2]) ((erule sheds_get sheds_ttl) | (erule sheds_pipe [rotated 2], erule sheds_ttl, erule sheds_get))+
  assume "attempt_status_of R P t i dev s = (ra, s')"
  then show "sheds live t s s'"
    unfolding attempt_status_of_def
    by (cases "pipe_then (api_get (strs R) t (liveness_fail_key i dev)) (pipe_then (api_ttl R t (liveness_cooldown_key i dev))
          (api_get (strs R) t (liveness_rounds_key i dev))) s")
      (use pipe in \<open>fastforce split: prod.splits reply.splits simp del: pipe_then_Reply\<close>)
qed

lemma sheds_cooldown: "start_cooldown R P t i dev n s = (ra, s') \<Longrightarrow> sheds live t s s'"
  unfolding start_cooldown_def
  by (auto split: prod.splits reply.splits if_splits simp: ob_key_defs dest!: sheds_del intro: sheds_trans [OF _ sheds_set])

lemma sheds_incr_expire: "incr_expire R t k d s = (r, s') \<Longrightarrow> (\<And>i. k \<noteq> ob_session_key i) \<Longrightarrow> sheds live t s s'"
  unfolding incr_expire_def by (auto split: prod.splits if_splits dest: sheds_incr_window)

lemma sheds_failure [shed_ops]:
  assumes "record_liveness_failure R P t i dev s = (ra, s')"
  shows "sheds live t s s'"
proof -
  have "sheds live t s1 s2" if "incr_expire R t (liveness_fail_key i dev) d s1 = (n, s2)" for s1 s2 n d
    using that by (rule sheds_incr_expire) (simp add: ob_key_defs)
  moreover have "sheds live t s1 s2" if "incr_expire R t (liveness_rounds_key i dev) d s1 = (n, s2)" for s1 s2 n d
    using that by (rule sheds_incr_expire) (simp add: ob_key_defs)
  ultimately show ?thesis using assms unfolding record_liveness_failure_def
    by (auto split: prod.splits reply.splits if_splits dest!: sheds_cooldown intro: sheds_trans) (meson sheds_trans)+
qed

text \<open>A session that is stored is the one written, or nothing is.\<close>

lemma cached_after_store:
  assumes "store_ob_session R t x s = (r, s')" "t \<le> t'" "live s' t' (ob_session_key i) = Some v"
  shows "live s t' (ob_session_key i) = Some v \<or> i = os_id x \<and> v = RJson (encode_ob_session x)"
proof (cases "os_expires x \<le> t")
  case True
  then show ?thesis using assms by (simp add: store_ob_session_def)
next
  case False
  then have op: "api_set (strs R) t (ob_session_key (os_id x)) (RJson (encode_ob_session x)) (min (os_expires x - t) ob_session_ttl) s = (r, s')"
    using assms(1) by (simp add: store_ob_session_def)
  show ?thesis
  proof (cases "i = os_id x")
    case True
    have op': "api_set (strs R) t (ob_session_key i) (RJson (encode_ob_session x)) (min (os_expires x - t) ob_session_ttl) s = (r, s')"
      using op True by simp
    have "live s' t' (ob_session_key i) = live s t' (ob_session_key i)
        \<or> live s' t' (ob_session_key i) = shows_put (RJson (encode_ob_session x)) t (min (os_expires x - t) ob_session_ttl) t'"
    proof (cases r)
      case (Reply u)
      then show ?thesis using set_reply [of t _ _ _ s u s' t'] op' assms(2) by blast
    next
      case Fault
      then show ?thesis using set_fault [of t _ _ _ s s'] op' assms(2) by blast
    qed
    then show ?thesis using assms(3) True by (auto simp: shows_put_def split: if_splits)
  next
    case False
    then show ?thesis using assms(2,3) set_frame [OF op _ assms(2), of "ob_session_key i"] by (simp add: ob_session_key_def)
  qed
qed

end

context redis_queue
begin

lemma sheds_queue [shed_ops]:
  "queue_remove Z t q s = (ru, s') \<Longrightarrow> sheds live t s s'" "queue_position Z t q s = (rp, s') \<Longrightarrow> sheds live t s s'"
  "queue_list Z t s = (rl, s') \<Longrightarrow> sheds live t s s'"
  unfolding queue_remove_def queue_position_def queue_list_def
  by (auto split: prod.splits reply.splits option.splits intro!: sheds_same dest: zrem_member_frame zrank_frame zrange_frame)

end

end
