(* ===== verification/Onboarding_Moves.thy ===== *)
theory Onboarding_Moves
  imports Onboarding_Rules
begin

text \<open>The moves of a session, the rule they respect, and what the basic steps of the handlers do to a rule.\<close>

locale session_rule =
  fixes K :: "ob_db \<Rightarrow> bool" and Q :: "ob_db \<Rightarrow> string \<Rightarrow> step \<Rightarrow> steps_completed \<Rightarrow> bool"
  assumes K_grew: "K d \<Longrightarrow> grew d d' \<Longrightarrow> K d'"
    and Q_grew: "Q d i st fl \<Longrightarrow> grew d d' \<Longrightarrow> Q d' i st fl"
    and Q_valid: "Q d i st fl \<Longrightarrow> valid_step st"
    and Q_new: "K d \<Longrightarrow> \<not> known_session i d \<Longrightarrow> st = StepCardSelection \<or> st = StepOCR \<Longrightarrow> Q d i st (first_flags b)"
    and Q_card: "Q d i st fl \<Longrightarrow> Q d i (if st = StepCardSelection then StepOCR else st) (fl\<lparr>sc_card := True\<rparr>)"
    and Q_ocr: "Q d i StepOCR fl \<Longrightarrow> has_ocr i d \<Longrightarrow> Q d i StepPersonalData (fl\<lparr>sc_ocr := True\<rparr>)"
    and Q_personal: "Q d i StepPersonalData fl \<Longrightarrow> has_personal i d \<Longrightarrow> Q d i StepOTPVerify (fl\<lparr>sc_personal := True\<rparr>)"
    and Q_otp: "Q d i StepOTPVerify fl \<Longrightarrow> Q d i StepBiometric (fl\<lparr>sc_otp := True\<rparr>)"
    and Q_face: "Q d i StepBiometric fl \<Longrightarrow> has_face i d \<Longrightarrow> Q d i StepVideoCall (fl\<lparr>sc_biometric := True\<rparr>)"
    and Q_escalated: "Q d i st fl \<Longrightarrow> Q d i StepVideoCall fl"
    and Q_vetted: "Q d i StepVideoCall fl \<Longrightarrow> vetted i d \<Longrightarrow> Q d i StepCredentials (fl\<lparr>sc_video := True\<rparr>)"
    and Q_credentials: "K d \<Longrightarrow> \<not> has_credential i d \<Longrightarrow> grew d d' \<Longrightarrow> has_credential i d' \<Longrightarrow> Q d' i StepCredentials fl
      \<Longrightarrow> Q d' i StepReview (fl\<lparr>sc_credentials := True\<rparr>)"
    and Q_submitted: "Q d i StepReview fl \<Longrightarrow> all_steps_completed fl \<Longrightarrow> Q d i StepCompleted (fl\<lparr>sc_submitted := True\<rparr>)"
begin

text \<open>What an account may be opened for.\<close>

definition earned :: "ob_db \<Rightarrow> string \<Rightarrow> bool" where
  "earned d i \<longleftrightarrow> (\<exists>fl. Q d i StepReview fl \<and> all_steps_completed fl)"

definition stored_ok :: "ob_db \<Rightarrow> bool" where
  "stored_ok d \<longleftrightarrow> (\<forall>s \<in> set (ob_sessions d). Q d (os_id s) (os_step s) (os_flags s))"

text \<open>\<open>old\<close>: the accounts opened before the run.\<close>

definition opened_ok :: "(string \<times> string) set \<Rightarrow> ob_db \<Rightarrow> (string \<times> string) list \<Rightarrow> bool" where
  "opened_ok old d l \<longleftrightarrow> (\<forall>p \<in> set l. p \<in> old \<or> earned d (fst p))"

lemma earned_grew: "earned d i \<Longrightarrow> grew d d' \<Longrightarrow> earned d' i"
  unfolding earned_def by (blast intro: Q_grew)

lemma opened_grew: "opened_ok old d l \<Longrightarrow> grew d d' \<Longrightarrow> opened_ok old d' l"
  unfolding opened_ok_def by (blast intro: earned_grew)

end

locale onboarding_rule = redis_queue R live Z + session_rule K Q
  for R :: "'s data_api" and live :: "'s \<Rightarrow> time \<Rightarrow> string \<Rightarrow> rval option" and Z :: "'s queue_api"
    and K :: "ob_db \<Rightarrow> bool" and Q :: "ob_db \<Rightarrow> string \<Rightarrow> step \<Rightarrow> steps_completed \<Rightarrow> bool" +
  fixes old :: "(string \<times> string) set"
begin

definition cache_ok :: "time \<Rightarrow> 's \<Rightarrow> ob_db \<Rightarrow> bool" where
  "cache_ok t s d \<longleftrightarrow> (\<forall>i t' j x. t \<le> t' \<longrightarrow> live s t' (ob_session_key i) = Some (RJson j) \<longrightarrow> decode_ob_session j = Some x
     \<longrightarrow> os_id x = i \<and> Q d i (os_step x) (os_flags x))"

definition sess_inv :: "time \<Rightarrow> 's ob_world \<Rightarrow> bool" where
  "sess_inv t w \<longleftrightarrow> keyed (ob w) \<and> K (ob w) \<and> stored_ok (ob w) \<and> cache_ok t (kv w) (ob w) \<and> opened_ok old (ob w) (core_calls w)"

abbreviation inv :: "ob_env \<Rightarrow> 's ob_world \<Rightarrow> bool" where
  "inv E \<equiv> sess_inv (oe_now E)"

lemma inv_later: "sess_inv t w \<Longrightarrow> t \<le> t' \<Longrightarrow> sess_inv t' w"
  unfolding sess_inv_def cache_ok_def by (meson order_trans)

lemma cache_sheds: "cache_ok t s d \<Longrightarrow> sheds live t s s' \<Longrightarrow> cache_ok t s' d"
  unfolding cache_ok_def sheds_def by blast

lemma cache_grew: "cache_ok t s d \<Longrightarrow> grew d d' \<Longrightarrow> cache_ok t s d'"
  unfolding cache_ok_def using Q_grew by blast

lemma inv_sheds: "sess_inv t w \<Longrightarrow> sheds live t (kv w) s' \<Longrightarrow> sess_inv t (w\<lparr>kv := s'\<rparr>)"
  unfolding sess_inv_def by (auto intro: cache_sheds)

lemma inv_tables:
  "sess_inv t w \<Longrightarrow> keyed d' \<Longrightarrow> grew (ob w) d' \<Longrightarrow> stored_ok d' \<Longrightarrow> sess_inv t (w\<lparr>ob := d'\<rparr>)"
  unfolding sess_inv_def by (auto intro: cache_grew opened_grew K_grew)

subsection \<open>Steps on Redis\<close>

lemma sp_kv [sp]:
  "(\<And>s r s'. f s = (r, s') \<Longrightarrow> sheds live (oe_now E) s s') \<Longrightarrow> obeys (inv E) p (on_kv f) (\<lambda>_. p)"
  "(\<And>s r s'. f s = (r, s') \<Longrightarrow> sheds live (oe_now E) s s') \<Longrightarrow> obeys (inv E) p (svc_try (on_kv f)) (\<lambda>_. p)"
  "(\<And>s r s'. f s = (r, s') \<Longrightarrow> sheds live (oe_now E) s s') \<Longrightarrow> obeys (inv E) p (best_effort_kv f) (\<lambda>_. p)"
  "(\<And>s r s'. f s = (r, s') \<Longrightarrow> sheds live (oe_now E) s s') \<Longrightarrow> obeys (inv E) p (kv_or z f) (\<lambda>_. p)"
proof -
  assume f: "\<And>s r s'. f s = (r, s') \<Longrightarrow> sheds live (oe_now E) s s'"
  have kept: "inv E (w\<lparr>kv := snd (f (kv w))\<rparr>)" if "inv E w" for w
    using inv_sheds [OF that f [OF prod.collapse [symmetric]]] .
  have state: "snd (on_kv f w) = w\<lparr>kv := snd (f (kv w))\<rparr>" "snd (svc_try (on_kv f) w) = w\<lparr>kv := snd (f (kv w))\<rparr>"
    "snd (best_effort_kv f w) = w\<lparr>kv := snd (f (kv w))\<rparr>" "snd (kv_or z f w) = w\<lparr>kv := snd (f (kv w))\<rparr>" for w :: "'s ob_world"
    by (simp_all add: on_kv_def svc_try_def best_effort_kv_def kv_or_def split: prod.splits reply.splits)
  have any: "obeys (inv E) p m (\<lambda>_. p)" if "\<And>w. snd (m w) = w\<lparr>kv := snd (f (kv w))\<rparr>" for m :: "('s, 'c) onboarding"
  proof (rule obeysI)
    fix w r w'
    assume "inv E w" "p (ob w)" "m w = (r, w')"
    then show "inv E w' \<and> (\<forall>x. r = Inr x \<longrightarrow> p (ob w'))" using that [of w] kept [of w] by simp
  qed
  show "obeys (inv E) p (on_kv f) (\<lambda>_. p)" "obeys (inv E) p (svc_try (on_kv f)) (\<lambda>_. p)"
    "obeys (inv E) p (best_effort_kv f) (\<lambda>_. p)" "obeys (inv E) p (kv_or z f) (\<lambda>_. p)"
    by (rule any, rule state)+
qed

lemma sp_kv_run [sp]:
  "(\<And>s x s'. f s = (x, s') \<Longrightarrow> sheds live (oe_now E) s s') \<Longrightarrow> obeys (inv E) p (kv_run f) (\<lambda>_. p)"
  by (rule obeysI) (simp add: kv_run_def inv_sheds split: prod.splits)

lemmas vc_kv [vc] = sp_kv [THEN obeys_any] sp_kv_run [THEN obeys_any]

subsection \<open>Steps on the tables\<close>

lemma steady_inv:
  assumes "sess_inv t w" "steady g" "g (ob w) = Inr (x, d')"
  shows "sess_inv t (w\<lparr>ob := d'\<rparr>)" "grew (ob w) d'" "K (ob w)" "keyed (ob w)"
proof -
  have *: "ob_sessions d' = ob_sessions (ob w)" "keyed d'" "grew (ob w) d'"
    using assms unfolding steady_def sess_inv_def by blast+
  have "stored_ok (ob w)" "K (ob w)" "keyed (ob w)" using assms(1) unfolding sess_inv_def by blast+
  then have "stored_ok d'" using *(1) Q_grew [OF _ *(3)] unfolding stored_ok_def by simp
  then show "sess_inv t (w\<lparr>ob := d'\<rparr>)" by (rule inv_tables [OF assms(1) *(2,3)])
  show "grew (ob w) d'" "K (ob w)" "keyed (ob w)" by fact+
qed

lemma sp_write [sp]:
  "steady g \<Longrightarrow> obeys (inv E) p (ob_write E' Qn g) (\<lambda>x d'. \<exists>d. p d \<and> K d \<and> keyed d \<and> grew d d' \<and> g d = Inr (x, d'))"
  by (auto simp: obeys_def ob_write_def split: sum.splits prod.splits dest: steady_inv)

lemma sp_try_write [sp]: "steady g \<Longrightarrow> obeys (inv E) p (svc_try (ob_write E' Qn g)) (\<lambda>_ _. True)"
  by (rule obeys_try, rule sp_write)

lemmas vc_write [vc] = sp_write [THEN obeys_any] sp_try_write [THEN obeys_any]

text \<open>Updates of the row of a session, and a new row.\<close>

lemma grew_sessions: "(\<And>s. os_id (f s) = os_id s) \<Longrightarrow> grew d (d\<lparr>ob_sessions := update_where P f (ob_sessions d)\<rparr>)"
  by (simp add: grew_def evidence_defs list_ex_update_same)

lemma inv_update_live:
  assumes "sess_inv t w" "update_live_session i f (ob w) = Inr (u, d')" "\<And>s. os_id (f s) = os_id s"
    "\<And>s. s \<in> set (ob_sessions (ob w)) \<Longrightarrow> os_id s = i \<Longrightarrow> Q (ob w) i (os_step (f s)) (os_flags (f s))"
  shows "sess_inv t (w\<lparr>ob := d'\<rparr>) \<and> grew (ob w) d'"
proof -
  have d': "d' = (ob w)\<lparr>ob_sessions := update_where (\<lambda>s. os_id s = i \<and> os_deleted s = None) f (ob_sessions (ob w))\<rparr>"
    using assms(2) by (simp add: update_live_session_def split: if_splits)
  have g: "grew (ob w) d'" unfolding d' by (rule grew_sessions) (rule assms(3))
  have "Q (ob w) (os_id s) (os_step s) (os_flags s)" if "s \<in> set (ob_sessions d')" for s
    using that assms(1,3,4) unfolding sess_inv_def stored_ok_def d' by (auto simp: set_update_where)
  then have "stored_ok d'" using g by (auto simp: stored_ok_def intro: Q_grew)
  moreover have "keyed d'" using assms(1) unfolding sess_inv_def d' keyed_def by simp
  ultimately show ?thesis using inv_tables [OF assms(1)] g by blast
qed

lemma inv_store_session:
  assumes "sess_inv t w" "Q (ob w) (os_id x) (os_step x) (os_flags x)"
  shows "sess_inv t (w\<lparr>kv := snd (store_ob_session R t x (kv w))\<rparr>)"
proof -
  obtain r s' where op: "store_ob_session R t x (kv w) = (r, s')" by force
  have "os_id y = i \<and> Q (ob w) i (os_step y) (os_flags y)"
    if "t \<le> t'" "live s' t' (ob_session_key i) = Some (RJson j)" "decode_ob_session j = Some y" for i t' j y
    using cached_after_store [OF op that(1,2)] that assms decode_encode_session [OF Q_valid [OF assms(2)]]
    unfolding sess_inv_def cache_ok_def by (auto simp: session_columns_def)
  then show ?thesis using assms(1) op unfolding sess_inv_def cache_ok_def by auto
qed

lemma sp_advance [sp]:
  assumes "\<And>d. p d \<Longrightarrow> os_id s = i \<and> Q d i st fl"
  shows "obeys (inv E) p (advance R E i s st fl) (\<lambda>_ _. True)"
proof (rule obeysI)
  fix w r w'
  assume w: "inv E w" "p (ob w)" and r: "advance R E i s st fl w = (r, w')"
  let ?x = "s\<lparr>os_step := st, os_flags := fl\<rparr>"
  show "inv E w' \<and> (\<forall>x. r = Inr x \<longrightarrow> True)"
  proof (cases "ob_write E OUpdateStep (update_step (oe_now E) i st fl) w")
    case (Pair y w1)
    show ?thesis
    proof (cases y)
      case (Inl e)
      have "w1 = w" using Pair Inl by simp
      then show ?thesis using r w by (simp add: advance_def svc_seq_def svc_bind_def Pair [unfolded Inl])
    next
      case (Inr u)
      then obtain d' where d': "update_step (oe_now E) i st fl (ob w) = Inr ((), d')" "w1 = w\<lparr>ob := d'\<rparr>"
        using Pair by (auto simp: ob_write_def split: if_splits sum.splits)
      have q: "Q (ob w) i st fl" "os_id s = i" using assms w(2) by auto
      have *: "inv E w1 \<and> grew (ob w) d'"
        unfolding d'(2) by (rule inv_update_live [OF w(1) d'(1) [unfolded update_step_def]]) (simp_all add: q)
      have "Q (ob w1) (os_id ?x) (os_step ?x) (os_flags ?x)" using q * d'(2) by (auto intro: Q_grew)
      then show ?thesis using inv_store_session [of "oe_now E" w1 ?x] * r Pair Inr
        by (auto simp: advance_def svc_seq_def svc_bind_def best_effort_kv_def Pair [unfolded Inr])
    qed
  qed
qed

lemmas vc_advance [vc] = sp_advance

lemma sp_soft_delete [sp]: "obeys (inv E) p (ob_write E' Qn (soft_delete t i)) (\<lambda>_ _. True)"
proof (rule obeysI)
  fix w r w'
  assume w: "inv E w" "p (ob w)" and r: "ob_write E' Qn (soft_delete t i) w = (r, w')"
  have stored: "Q (ob w) (os_id s) (os_step s) (os_flags s)" if "s \<in> set (ob_sessions (ob w))" for s
    using w(1) that unfolding sess_inv_def stored_ok_def by blast
  have "inv E (w\<lparr>ob := d'\<rparr>)" if "soft_delete t i (ob w) = Inr (u, d')" for u d'
    using inv_update_live [OF w(1) that [unfolded soft_delete_def]] stored by auto
  then show "inv E w' \<and> (\<forall>x. r = Inr x \<longrightarrow> True)" using r w(1) by (auto simp: ob_write_def split: if_splits sum.splits)
qed

lemma found_session:
  assumes "sess_inv t w" "find_ob_session i (ob w) = Some x"
  shows "os_id x = i" "Q (ob w) i (os_step x) (os_flags x)"
  using assms unfolding find_ob_session_def sess_inv_def stored_ok_def
  by (auto simp: session_columns_def find_Some_iff)

lemma sp_found [sp]:
  "obeys (inv E) p (svc_try (ob_read E' Qn (find_ob_session i)))
     (\<lambda>r d. p d \<and> (\<forall>x. r = Inr (Some x) \<longrightarrow> os_id x = i \<and> Q d i (os_step x) (os_flags x)))"
  by (rule obeysI) (auto simp: svc_try_def ob_read_def split: prod.splits if_splits dest: found_session)

lemma sp_resolve [sp]:
  "obeys (inv E) p (resolve_ob_session R E i) (\<lambda>x d. p d \<and> os_id x = i \<and> Q d i (os_step x) (os_flags x))"
proof (rule obeysI)
  fix w r w'
  assume w: "inv E w" "p (ob w)" and r: "resolve_ob_session R E i w = (r, w')"
  obtain c s1 where c: "get_ob_session R (oe_now E) i (kv w) = (c, s1)" by force
  let ?w1 = "w\<lparr>kv := s1\<rparr>"
  have w1: "inv E ?w1" using inv_sheds [OF w(1)] sheds_get_session [OF c] by blast
  show "inv E w' \<and> (\<forall>x. r = Inr x \<longrightarrow> p (ob w') \<and> os_id x = i \<and> Q (ob w') i (os_step x) (os_flags x))"
  proof (cases "\<exists>x. c = Reply (Some x)")
    case True
    then obtain x where x: "c = Reply (Some x)" by blast
    then obtain j where "live (kv w) (oe_now E) (ob_session_key i) = Some (RJson j)" "decode_ob_session j = Some x"
      using c get_reply by (fastforce simp: get_ob_session_def split: prod.splits reply.splits option.splits rval.splits if_splits)
    then have "os_id x = i \<and> Q (ob w) i (os_step x) (os_flags x)" using w(1) unfolding sess_inv_def cache_ok_def by blast
    then show ?thesis using r c x w w1
      by (auto simp: resolve_ob_session_def svc_bind_def kv_maybe_def live_or_expired_def svc_throw_def svc_return_def split: if_splits)
  next
    case False
    then have m: "kv_maybe (get_ob_session R (oe_now E) i) w = (Inr None, ?w1)"
      using c by (cases c) (auto simp: kv_maybe_def split: option.splits)
    show ?thesis
    proof (cases "stored_session E i ?w1")
      case (Pair y w2)
      show ?thesis
      proof (cases y)
        case (Inl e)
        then show ?thesis using r m Pair w1
          by (auto simp: resolve_ob_session_def svc_bind_def stored_session_def ob_read_def svc_defs live_or_expired_def split: if_splits option.splits)
      next
        case (Inr x)
        then have x: "w2 = ?w1" "find_ob_session i (ob ?w1) = Some x"
          using Pair by (auto simp: stored_session_def svc_bind_def ob_read_def svc_defs live_or_expired_def split: if_splits option.splits)
        note fs = found_session [OF w1 x(2)]
        then show ?thesis using r m Pair Inr x inv_store_session [OF w1, of x] w(2)
          by (auto simp: resolve_ob_session_def svc_bind_def svc_seq_def best_effort_kv_def svc_return_def)
      qed
    qed
  qed
qed

lemmas vc_reads [vc] = sp_soft_delete [THEN obeys_any] sp_found [THEN obeys_any] sp_resolve [THEN obeys_any]

end

end
