(* ===== verification/Onboarding_Handlers.thy ===== *)
theory Onboarding_Handlers
  imports Onboarding_Moves
begin

text \<open>Every handler respects a rule on sessions.\<close>

context session_rule
begin

text \<open>
  The moves as the handlers make them: the rule held when the session was read, evidence came in between. The premise that fixes the
  row comes after the one that looks at it, since a proof that works off all premises starts with the last.
\<close>

lemma moves:
  "Q d i StepOCR fl \<Longrightarrow> oc_session r = i \<Longrightarrow> insert_ocr r d = Inr (u, d') \<Longrightarrow> grew d d'
    \<Longrightarrow> Q d' i StepPersonalData (fl\<lparr>sc_ocr := True\<rparr>)"
  "Q d i StepPersonalData fl \<Longrightarrow> grew d d' \<Longrightarrow> has_personal i d' \<Longrightarrow> Q d' i StepOTPVerify (fl\<lparr>sc_personal := True\<rparr>)"
  "Q d i StepOTPVerify fl \<Longrightarrow> Q d i StepBiometric (fl\<lparr>sc_otp := True\<rparr>)"
  "Q d i StepBiometric fl \<Longrightarrow> br_session b = i \<Longrightarrow> insert_biometric b d = Inr (u, d') \<Longrightarrow> grew d d'
    \<Longrightarrow> Q d' i StepVideoCall (fl\<lparr>sc_biometric := True\<rparr>)"
  "Q d i StepCredentials fl \<Longrightarrow> cr_session c = i \<Longrightarrow> insert_credential c d = Inr (u, d') \<Longrightarrow> grew d d' \<Longrightarrow> K d
    \<Longrightarrow> Q d' i StepReview (fl\<lparr>sc_credentials := True\<rparr>)"
  "Q d i StepReview fl \<Longrightarrow> all_steps_completed fl \<Longrightarrow> grew d d' \<Longrightarrow> Q d' i StepCompleted (fl\<lparr>sc_submitted := True\<rparr>)"
  by (blast dest: stored_evidence intro: Q_ocr Q_personal Q_otp Q_face Q_submitted Q_grew Q_credentials)+

lemma only_video: "can_transition st StepCredentials \<Longrightarrow> valid_step st \<Longrightarrow> st = StepVideoCall"
  by (cases st) (simp_all add: can_transition_def valid_step_def step_order_def skippable_def upto.simps)

lemma move_vetted: "Q d i st fl \<Longrightarrow> can_transition st StepCredentials \<Longrightarrow> vetted i d \<Longrightarrow> Q d i StepCredentials (fl\<lparr>sc_video := True\<rparr>)"
  using only_video Q_valid Q_vetted by blast

end

context onboarding_rule
begin

lemma ok_ktp [vc]: "obeys (inv E) (\<lambda>_. True) (process_ktp R C X E i photo meta) (\<lambda>_ _. True)"
  unfolding process_ktp_def
  by (rule sp vc obeys_bind obeys_seq steady_rules | erule shed_ops
      | (clarsimp split: option.splits if_splits; erule moves; simp))+

subsection \<open>Personal data and the one-time code\<close>

lemma sp_otp [sp]:
  "obeys (inv E) p (otp_blocked_error R E i) (\<lambda>_ _. False)" "obeys (inv E) p (phone_quota_error R T E ph) (\<lambda>_ _. False)"
  "obeys (inv E) p (spend_phone_budget R T E ph) (\<lambda>_. p)"
  unfolding otp_blocked_error_def phone_quota_error_def spend_phone_budget_def
  by ((rule obeys_bind, (rule sp, erule shed_ops), rule fin, simp?)+) 

lemma sp_phone [sp]: "obeys (inv E) p (phone_for_session C E i) (\<lambda>_. p)"
  unfolding phone_for_session_def by (rule obeys_bind, rule sp) (rule vc_flow fin | simp)+

lemma sp_issue [sp]: "obeys (inv E) p (issue_code R T E i ph ch) (\<lambda>_. p)"
  unfolding issue_code_def
  by (rule vc_flow fin obeys_bind | (rule sp, erule shed_ops) | simp)+

lemma sp_check [sp]: "obeys (inv E) p (check_code R T E i ph code) (\<lambda>_. p)"
  unfolding check_code_def
  by (rule vc_flow vc_answers fin obeys_bind | (rule sp, erule shed_ops) | simp)+

lemma sp_match [sp]: "obeys (inv E) p (match_card C E q) (\<lambda>_. p)"
  unfolding match_card_def
  by (rule obeys_bind sp obeys_seq)+ (rule fin, simp)

lemma sp_store_personal [sp]:
  assumes "\<And>d. p d \<Longrightarrow> \<forall>x. pd_session (row x) = i"
  shows "obeys (inv E) p (store_personal E i row) (\<lambda>_ d'. \<exists>d. p d \<and> grew d d' \<and> has_personal i d')"
proof -
  have new: "has_personal i d'" if "insert_personal (row x) d = Inr (u, d') \<or> update_personal (row x) d = Inr (u, d')" "p e" for x u d d' e
    using that stored_evidence(2,3) [of "row x"] assms [of e] by auto
  show ?thesis unfolding store_personal_def
    by (rule obeys_bind, rule sp, rule vc_flow)
      ((rule obeys_seq obeys_bind sp steady_rules fin)+, use new in blast)+
qed

lemmas vc_otp [vc] = sp_otp [THEN obeys_any] sp_phone [THEN obeys_any] sp_issue [THEN obeys_any] sp_check [THEN obeys_any]

lemma ok_regenerate [vc]: "obeys (inv E) (\<lambda>_. True) (regenerate_otp R C T E i) (\<lambda>_ _. True)"
  unfolding regenerate_otp_def
  by (rule obeys_bind obeys_try_result sp vc)+

lemma sp_wrong_code [sp]: "obeys (inv E) p (wrong_code R C T E i) (\<lambda>_ _. False)"
proof -
  have quiet: "obeys (inv E) q (regenerate_otp R C T E i) (\<lambda>_ _. True)" for q
    by (rule obeys_pre [OF ok_regenerate]) simp
  show ?thesis unfolding wrong_code_def
    by (rule obeys_bind, rule sp, erule shed_ops)
      (rule vc_flow obeys_seq obeys_bind quiet fin | (rule sp, erule shed_ops) | (rule obeys_weaken, rule sp, simp))+
qed

lemmas vc_wrong_code [vc] = sp_wrong_code [THEN obeys_any]

lemma ok_save_personal: "obeys (inv E) (\<lambda>_. True) (save_personal_data R C T E q) (\<lambda>_ _. True)"
proof -
  have row: "pd_session (row x) = pq_session q" if "encrypted_row C t q = Some row" for row x t
    using that by (auto simp: encrypted_row_def split: option.splits)
  show ?thesis unfolding save_personal_data_def Let_def
    by (rule sp vc obeys_bind obeys_seq steady_rules | erule shed_ops | (clarsimp, erule row)
        | (clarsimp split: option.splits if_splits; erule moves; simp))+
qed

lemma ok_verify_otp: "obeys (inv E) (\<lambda>_. True) (verify_otp R C T E i dev code) (\<lambda>_ _. True)"
  unfolding verify_otp_def
  by (rule sp vc obeys_bind obeys_seq steady_rules | erule shed_ops
      | (clarsimp split: option.splits if_splits; erule moves; simp))+

lemma ok_resend: "obeys (inv E) (\<lambda>_. True) (resend_otp R C T E i dev ch) (\<lambda>_ _. True)"
  unfolding resend_otp_def
  by (rule sp vc obeys_bind obeys_seq steady_rules | erule shed_ops)+

subsection \<open>The face\<close>

lemma sp_attempt [sp]: "obeys (inv E) p (assert_attempt_allowed R P E i dev) (\<lambda>_. p)"
  unfolding assert_attempt_allowed_def
  by (rule obeys_bind, rule sp, erule shed_ops) (rule obeys_seq sp fin | simp)+

lemma ok_challenge: "obeys (inv E) (\<lambda>_. True) (issue_challenge R P X E i dev ki k) (\<lambda>_ _. True)"
  unfolding issue_challenge_def
  by (rule sp vc obeys_bind obeys_seq steady_rules | erule shed_ops)+

lemma ok_refuse [vc]: "obeys (inv E) p (refuse_face R P E q e) (\<lambda>_ _. True)"
proof -
  have up: "obeys (inv E) z (escalate_to_video_call R E i) (\<lambda>_ _. True)" for z i
    unfolding escalate_to_video_call_def
    by (rule obeys_bind, rule obeys_try) (rule sp obeys_bind vc | (clarsimp, erule Q_escalated))+
  show ?thesis unfolding refuse_face_def
    by (rule up sp vc obeys_bind obeys_seq | erule shed_ops)+
qed

lemma ok_face: "obeys (inv E) (\<lambda>_. True) (process_biometric R P X E q) (\<lambda>_ _. True)"
  unfolding process_biometric_def record_pass_def
  by (rule sp vc obeys_bind obeys_seq steady_rules | erule shed_ops
      | (clarsimp split: option.splits if_splits; erule moves; simp))+

subsection \<open>Credentials, the card, the session\<close>

lemma ok_credentials: "obeys (inv E) (\<lambda>_. True) (set_credentials R T E q) (\<lambda>_ _. True)"
  unfolding set_credentials_def
  by (rule sp vc obeys_bind obeys_seq steady_rules | erule shed_ops
      | (clarsimp split: option.splits if_splits; erule moves; simp))+

end

end
