(* ===== verification/Onboarding_Desks.thy ===== *)
theory Onboarding_Desks
  imports Onboarding_Handlers
begin

text \<open>The remaining handlers: the session itself and its card, the waiting queue, the decisions of the agents, the submission.\<close>

context onboarding_rule
begin

subsection \<open>The session and its card\<close>

lemma sp_store_session:
  "(\<And>d. p d \<Longrightarrow> Q d (os_id x) (os_step x) (os_flags x)) \<Longrightarrow> obeys (inv E) p (best_effort_kv (store_ob_session R (oe_now E) x)) (\<lambda>_. p)"
  by (rule obeysI) (auto simp: best_effort_kv_def intro!: inv_store_session)

lemma sp_card:
  assumes "\<And>d. p d \<Longrightarrow> Q d i (cu_step u) (cu_flags u)"
  shows "obeys (inv E) p (ob_write E' Qn (update_card t i u)) (\<lambda>_ d'. (\<exists>d. p d) \<and> Q d' i (cu_step u) (cu_flags u))"
proof (rule obeysI)
  fix w r w'
  assume w: "inv E w" "p (ob w)" and r: "ob_write E' Qn (update_card t i u) w = (r, w')"
  note q = assms [OF w(2)]
  have "inv E (w\<lparr>ob := d'\<rparr>) \<and> grew (ob w) d'" if "update_card t i u (ob w) = Inr (v, d')" for v d'
    by (rule inv_update_live [OF w(1) that [unfolded update_card_def]]) (simp_all add: q)
  then show "inv E w' \<and> (\<forall>x. r = Inr x \<longrightarrow> (\<exists>d. p d) \<and> Q (ob w') i (cu_step u) (cu_flags u))"
    using r w Q_grew [OF q] by (auto simp: ob_write_def split: if_splits sum.splits)
qed

lemma ok_card: "obeys (inv E) (\<lambda>_. True) (set_card R E D i q) (\<lambda>_ _. True)"
  unfolding set_card_def
  by (rule sp_card sp_store_session | rule sp vc obeys_bind obeys_seq | (clarsimp split del: if_split; erule Q_card)
      | (clarsimp split del: if_split; fail))+

lemma sp_new_session:
  assumes st: "os_step s = StepCardSelection \<or> os_step s = StepOCR" and fl: "os_flags s = first_flags b"
  shows "obeys (inv E) p (ob_write E' Qn (create_ob_session s)) (\<lambda>_ d'. Q d' (os_id s) (os_step s) (os_flags s))"
proof (rule obeysI)
  fix w r w'
  assume w: "inv E w" "p (ob w)" and r: "ob_write E' Qn (create_ob_session s) w = (r, w')"
  have "inv E (w\<lparr>ob := d'\<rparr>) \<and> Q d' (os_id s) (os_step s) (os_flags s)" if new: "create_ob_session s (ob w) = Inr (v, d')" for v d'
  proof -
    have d': "d' = (ob w)\<lparr>ob_sessions := ob_sessions (ob w) @ [s]\<rparr>" and fresh: "\<not> known_session (os_id s) (ob w)"
      using new by (auto simp: create_ob_session_def split: if_splits)
    have g: "grew (ob w) d'" unfolding d' by (simp add: grew_def evidence_defs)
    have k: "K (ob w)" "keyed d'" "stored_ok (ob w)" using w(1) unfolding sess_inv_def d' keyed_def by simp_all
    have q: "Q d' (os_id s) (os_step s) (os_flags s)" using Q_grew [OF Q_new [OF k(1) fresh st] g] fl by simp
    then have "stored_ok d'" using k(3) g Q_grew unfolding stored_ok_def d' by auto
    then show ?thesis using inv_tables [OF w(1) k(2) g] q by simp
  qed
  then show "inv E w' \<and> (\<forall>x. r = Inr x \<longrightarrow> Q (ob w') (os_id s) (os_step s) (os_flags s))"
    using r w by (auto simp: ob_write_def split: if_splits sum.splits)
qed

lemma ok_open: "obeys (inv E) (\<lambda>_. True) (open_session R E D q) (\<lambda>_ _. True)"
  unfolding open_session_def
  by (rule sp_new_session sp_store_session | rule sp vc obeys_bind obeys_seq | (simp add: new_session_def; fail) | assumption)+

lemma ok_view: "obeys (inv E) (\<lambda>_. True) (get_session R E i) (\<lambda>_ _. True)"
  unfolding get_session_def by (rule sp vc obeys_bind)+

lemma sp_release [sp]: "obeys (inv E) p (release_call Z E c) (\<lambda>_ _. True)"
  unfolding release_call_def by (rule obeys_bind, rule sp_try_write, rule steady_rules) (rule vc | erule shed_ops)+

lemmas vc_release [vc] = sp_release

lemma ok_cancel: "obeys (inv E) (\<lambda>_. True) (cancel_session R Z E i) (\<lambda>_ _. True)"
proof -
  have calls: "obeys (inv E) p (svc_try (cancel_for_session Z E i)) (\<lambda>_ _. True)" for p
    unfolding cancel_for_session_def by (rule obeys_try) (rule sp vc obeys_bind)+
  show ?thesis unfolding cancel_session_def
    by (rule calls sp vc obeys_bind obeys_seq | erule shed_ops)+
qed

lemma sp_device [sp]: "obeys (inv E) p (assert_device_owns R E i dev) (\<lambda>_. p)"
  unfolding assert_device_owns_def
proof (rule vc_flow(1))
  show "obeys (inv E) p (svc_return ()) (\<lambda>_. p)" by (rule fin)
  show "obeys (inv E) p (svc_bind (resolve_ob_session R E i) (\<lambda>s. assert_session_device s dev)) (\<lambda>_. p)"
    by (rule obeys_bind, rule sp_resolve, rule obeys_weaken, rule sp) simp
qed

subsection \<open>The waiting queue\<close>

lemma sp_join_reply [sp]: "obeys (inv E) p (join_reply_of E c n) (\<lambda>_ _. True)"
  unfolding join_reply_of_def by (rule obeys_bind, rule sp) (rule vc)

lemmas vc_join_reply [vc] = sp_join_reply

lemma ok_enqueue [vc]: "obeys (inv E) p (enqueue_call R Z L E i) (\<lambda>_ _. True)"
  unfolding enqueue_call_def
  by (rule sp vc obeys_bind obeys_seq steady_rules | erule shed_ops)+

lemma ok_rejoin [vc]: "obeys (inv E) p (rejoin_queue R Z E c) (\<lambda>_ _. True)"
  unfolding rejoin_queue_def
  by (rule obeys_bind, rule sp, erule shed_ops, rule obeys_bind [where q = "\<lambda>_ _. True"])
    (rule vc_join_reply vc | (rule obeys_bind, rule sp) | erule shed_ops)+

lemma ok_stale [vc]: "obeys (inv E) p (release_stale Z E c) (\<lambda>_ _. True)"
  unfolding release_stale_def
  by (rule sp vc obeys_bind obeys_seq steady_rules | erule shed_ops)+

lemma ok_join: "obeys (inv E) (\<lambda>_. True) (join_queue R Z L E i) (\<lambda>_ _. True)"
  unfolding join_queue_def
  by (rule ok_stale sp vc obeys_bind obeys_seq steady_rules | erule shed_ops)+

lemma ok_collect: "obeys (inv E) p (collect_calls Z E qs cs) (\<lambda>_ _. True)"
proof (induction qs arbitrary: p cs)
  case Nil
  then show ?case by simp (rule vc)
next
  case (Cons q qs)
  show ?case unfolding collect_calls.simps Let_def
    by (rule obeys_bind, rule sp) (rule Cons vc obeys_seq | (rule sp | rule obeys_bind, rule sp) | erule shed_ops | assumption)+
qed

lemma ok_list: "obeys (inv E) (\<lambda>_. True) (list_queued Z E) (\<lambda>_ _. True)"
  unfolding list_queued_def
  by (rule ok_collect sp vc obeys_bind | erule shed_ops)+

lemma ok_pick: "obeys (inv E) (\<lambda>_. True) (pick_up_call Z gate E q a) (\<lambda>_ _. True)"
  unfolding pick_up_call_def
  by (rule sp vc obeys_bind obeys_seq steady_rules | erule shed_ops)+

subsection \<open>Appointments\<close>

lemma ok_book: "obeys (inv E) (\<lambda>_. True) (schedule_call R E i t) (\<lambda>_ _. True)"
  unfolding schedule_call_def
  by (rule sp vc obeys_bind obeys_seq steady_rules | erule shed_ops)+

lemma ok_unbook: "obeys (inv E) (\<lambda>_. True) (cancel_call_schedule R E i) (\<lambda>_ _. True)"
proof -
  have read: "obeys (inv E) p (svc_bind (resolve_ob_session R E i) (\<lambda>s. svc_return ())) (\<lambda>_ _. True)" for p
    by (rule obeys_bind, rule sp) (rule vc)
  show ?thesis unfolding cancel_call_schedule_def
    by (rule read sp vc obeys_bind obeys_seq steady_rules)+
qed

end

end
