(* ===== verification/Onboarding_Decisions.thy ===== *)
theory Onboarding_Decisions
  imports Onboarding_Desks
begin

text \<open>The decisions of the agents, the submission, and the system as a whole: every request keeps a rule on sessions.\<close>

text \<open>A call that was decided with an approval, and a case, are evidence.\<close>

lemma approved_by_call:
  assumes "update_result t q r d = Inr (u, d')" "find_call q d = Some c" "rs_result r = ''APPROVED''" "rs_agent r \<noteq> ''''"
  shows "vetted (vc_session c) d'"
proof -
  have c: "c \<in> set (video_calls d)" "vc_queue c = q" using assms(2) by (auto simp: find_call_def find_Some_iff)
  then have "apply_result t r c \<in> set (video_calls d')" using assms(1)
    by (force simp: update_result_def set_update_where split: if_splits)
  moreover have "approved_call (vc_session c) (apply_result t r c)"
    using assms(3,4) by (simp add: approved_call_def apply_result_def coalesce_def)
  ultimately show ?thesis by (auto simp: vetted_def list_ex_iff)
qed

lemma approved_by_case:
  assumes "resolve_escalation t i r d = Inr (True, d')" "keyed d" "find_escalation i d = Some e" "ed_resolution r = ''APPROVED''"
    "\<not> equal_fold (es_raised_by e) (ed_agent r)"
  shows "vetted (es_session e) d'"
proof -
  have e: "e \<in> set (escalations d)" "es_id e = i" using assms(3) by (auto simp: find_escalation_def find_Some_iff)
  obtain x where x: "x \<in> set (escalations d)" "es_id x = i" "open_escalation x" "es_claimed_by x = '''' \<or> es_claimed_by x = ed_agent r"
    using assms(1) by (auto simp: resolve_escalation_def Let_def list_ex_iff)
  have "x = e" using assms(2) e x unfolding keyed_def distinct_map inj_on_def by blast
  let ?e = "e\<lparr>es_status := EscResolved, es_resolved_by := ed_agent r, es_resolved := Some t, es_resolution := ed_resolution r,
    es_resolution_reason := ed_reason r, es_notes := ed_notes r\<rparr>"
  have "?e \<in> set (escalations d')" using assms(1) e x \<open>x = e\<close>
    by (force simp: resolve_escalation_def Let_def set_update_where)
  moreover have "approved_case (es_session e) ?e" using assms(4,5) by (simp add: approved_case_def)
  ultimately show ?thesis by (auto simp: vetted_def list_ex_iff)
qed

lemma found_call: "find_call q d = Some c \<Longrightarrow> c \<in> set (video_calls d) \<and> vc_queue c = q"
  by (auto simp: find_call_def find_Some_iff)

lemma decision_agent [simp]: "ed_agent (decision_of agent q) = agent"
  by (simp add: decision_of_def)

lemma unique_call: "keyed d \<Longrightarrow> c \<in> set (video_calls d) \<Longrightarrow> x \<in> set (video_calls d) \<Longrightarrow> vc_queue x = vc_queue c \<Longrightarrow> x = c"
  unfolding keyed_def distinct_map inj_on_def by blast

context onboarding_rule
begin

subsection \<open>The agent's decision\<close>

lemma sp_update_result:
  assumes "\<And>d. p d \<Longrightarrow> \<exists>c. find_call q d = Some c \<and> vc_status c \<noteq> CallCompleted"
  shows "obeys (inv E) p (ob_write E' Qn (update_result t q r)) (\<lambda>_ d'. \<exists>d. p d \<and> grew d d' \<and> update_result t q r d = Inr ((), d'))"
proof (rule obeysI)
  fix w z w'
  assume w: "inv E w" "p (ob w)" and z: "ob_write E' Qn (update_result t q r) w = (z, w')"
  have kept: "inv E (w\<lparr>ob := d'\<rparr>) \<and> grew (ob w) d'" if upd: "update_result t q r (ob w) = Inr (v, d')" for v d'
  proof -
    obtain c where c: "c \<in> set (video_calls (ob w))" "vc_queue c = q" "vc_status c \<noteq> CallCompleted"
      using assms [OF w(2)] found_call by blast
    have d': "d' = (ob w)\<lparr>video_calls := update_where (\<lambda>c. vc_queue c = q) (apply_result t r) (video_calls (ob w))\<rparr>"
      using upd by (simp add: update_result_def split: if_splits)
    have k: "keyed (ob w)" "stored_ok (ob w)" using w(1) by (simp_all add: sess_inv_def)
    have open_one: "vc_status x \<noteq> CallCompleted" if "x \<in> set (video_calls (ob w))" "vc_queue x = q" for x
      using unique_call [OF k(1) c(1) that(1)] that(2) c(2,3) by simp
    have g: "grew (ob w) d'" unfolding d' by (rule grew_calls) (use open_one in \<open>auto simp: approved_call_def\<close>)
    have "keyed d'" unfolding d' by (rule keyed_calls [OF k(1)]) (simp add: apply_result_def)
    moreover have "stored_ok d'" using k(2) Q_grew [OF _ g] unfolding stored_ok_def d' by simp
    ultimately show ?thesis using inv_tables [OF w(1) _ g] g by blast
  qed
  then show "inv E w' \<and> (\<forall>x. z = Inr x \<longrightarrow> (\<exists>d. p d \<and> grew d (ob w') \<and> update_result t q r d = Inr ((), ob w')))"
    using z w by (auto simp: ob_write_def split: if_splits sum.splits)
qed

lemma sp_reported [sp]:
  "obeys (inv E) p (reported_call E q agent) (\<lambda>x d. p d \<and> find_call (rp_queue q) d = Some (fst x) \<and> vc_session (fst x) = rp_session q
     \<and> agent \<noteq> '''')"
proof -
  have agent: "agent \<noteq> ''''" if "check_report q agent = Inr x" for x using that by (auto simp: check_report_def split: if_splits)
  show ?thesis unfolding reported_call_def
    by (rule sp obeys_bind obeys_seq)+ (rule fin, use agent in auto)
qed

lemma ok_move [vc]:
  assumes "\<And>d. p d \<Longrightarrow> os_id s = i \<and> Q d i (os_step s) (os_flags s) \<and> vetted i d"
  shows "obeys (inv E) p (move_to_credentials R E i s) (\<lambda>_ _. True)"
  unfolding move_to_credentials_def
  by (rule vc obeys_seq | (drule assms, blast intro: move_vetted))+

lemma ok_after_result [vc]:
  assumes "\<And>d. p d \<Longrightarrow> rp_result q = ''APPROVED'' \<Longrightarrow> vetted (rp_session q) d"
  shows "obeys (inv E) p (after_result R Z E q agent eq) (\<lambda>_ _. True)"
proof -
  have case_row: "obeys (inv E) z (raise_escalation E q agent eq) (\<lambda>_ _. True)" for z
    unfolding raise_escalation_def Let_def by (rule sp vc obeys_seq steady_rules)+
  have next_step: "obeys (inv E) p (if rp_result q = ''APPROVED''
      then svc_bind (resolve_ob_session R E (rp_session q)) (move_to_credentials R E (rp_session q)) else svc_return StepVideoCall) (\<lambda>_ _. True)"
    by (rule vc_flow, rule obeys_bind, rule sp, rule ok_move) (use assms in blast, rule vc)
  show ?thesis unfolding after_result_def
    by (rule obeys_seq, rule sp, erule shed_ops, rule obeys_bind, rule next_step, rule obeys_bind [where q = "\<lambda>_ _. True"])
      (rule case_row vc)+
qed

lemma ok_report: "obeys (inv E) (\<lambda>_. True) (submit_call_result R Z E q a) (\<lambda>_ _. True)"
  unfolding submit_call_result_def
  apply (rule obeys_bind, rule sp, rule vc, rule vc)
   apply (rule sp vc obeys_bind)+
  apply (rule obeys_seq, rule sp_update_result)
   apply simp
  apply (rule vc, clarsimp)
  apply (frule (1) approved_by_call)
    apply simp
   apply simp
  apply simp
  done

subsection \<open>The case\<close>

lemma ok_respond [vc]:
  assumes "\<And>d. p d \<Longrightarrow> resolution = ''APPROVED'' \<Longrightarrow> vetted (es_session e) d"
  shows "obeys (inv E) p (respond_escalation R E e resolution) (\<lambda>_ _. True)"
proof -
  have move: "os_id s = es_session e \<and> Q d (es_session e) StepCredentials (os_flags s\<lparr>sc_video := True\<rparr>)"
    if "p d \<and> (\<forall>y. x = Inr (Some y) \<longrightarrow> os_id y = es_session e \<and> Q d (es_session e) (os_step y) (os_flags y))" "x = Inr a" "a = Some s"
      "\<not> (resolution \<noteq> ''APPROVED'' \<or> ob_expired (oe_now E) s \<or> \<not> can_transition (os_step s) StepCredentials)" for d x a s
    using that assms [of d] move_vetted [of d "es_session e" "os_step s" "os_flags s"] by auto
  show ?thesis unfolding respond_escalation_def
    by (rule obeys_bind, rule sp_found) (rule vc obeys_seq | erule (3) move)+
qed

lemma ok_stale_case [vc]: "obeys (inv E) p (stale_escalation E i) (\<lambda>_ _. True)"
  unfolding stale_escalation_def by (rule obeys_bind, rule sp) (rule vc)+

lemma sp_escalation_for [sp]:
  "obeys (inv E) p (escalation_for E i agent) (\<lambda>e d. p d \<and> find_escalation i d = Some e \<and> \<not> equal_fold (es_raised_by e) agent)"
  unfolding escalation_for_def by (rule sp obeys_bind obeys_seq)+ (rule fin, auto)

lemma ok_case: "obeys (inv E) (\<lambda>_. True) (update_escalation R E i0 q agent) (\<lambda>_ _. True)"
  unfolding update_escalation_def Let_def claim_case_def resolve_case_def
  apply (rule obeys_seq, rule sp, rule obeys_bind, rule sp, rule vc)
   apply (rule sp vc obeys_bind steady_rules | simp; fail)+
  apply (clarsimp, drule (2) approved_by_case)
    apply simp_all
  done

end

end
