(* ===== verification/Onboarding_System.thy ===== *)
theory Onboarding_System
  imports Onboarding_Decisions
begin

text \<open>The submission, and every request of account opening: the rule on sessions holds along every run.\<close>

context onboarding_rule
begin

lemma sp_ready [sp]:
  "obeys (inv E) p (ready_session R T E q) (\<lambda>s d. p d \<and> os_id s = sq_session q \<and> Q d (sq_session q) StepReview (os_flags s)
     \<and> all_steps_completed (os_flags s))"
proof -
  have all: "p d \<and> os_id s = sq_session q \<and> Q d (sq_session q) StepReview (os_flags s) \<and> all_steps_completed (os_flags s)"
    if "((((p d \<and> os_id s = sq_session q \<and> Q d (sq_session q) (os_step s) (os_flags s)) \<and> os_step s = StepReview) \<and> a)
      \<and> \<not> \<not> all_steps_completed (os_flags s)) \<and> b" for d s a b
    using that by auto
  show ?thesis unfolding ready_session_def
    by (rule sp obeys_bind obeys_seq)+ (rule fin, erule all)
qed

lemma sp_person [sp]: "obeys (inv E) p (ready_person C E i) (\<lambda>_. p)"
  unfolding ready_person_def by (rule sp obeys_bind)+ (rule fin, blast)

lemma sp_core [sp]:
  assumes "\<And>d. p d \<Longrightarrow> earned d i"
  shows "obeys (inv E) p (core_account T i pr nama nik) (\<lambda>_. p)"
  by (rule obeysI) (use assms in \<open>auto simp: core_account_def sess_inv_def opened_ok_def split: option.splits prod.splits\<close>)

lemma sp_provision [sp]:
  "obeys (inv E) p (provision_account E' hash pp) (\<lambda>_ d'. \<exists>d. p d \<and> grew d d')"
proof (rule obeysI)
  fix w r w'
  assume w: "inv E w" "p (ob w)" and r: "provision_account E' hash pp w = (r, w')"
  have *: "grew d (d\<lparr>contacts := c\<rparr>) \<and> (keyed d \<longrightarrow> keyed (d\<lparr>contacts := c\<rparr>)) \<and> ob_sessions (d\<lparr>contacts := c\<rparr>) = ob_sessions d" for d c
    by (simp add: grew_def evidence_defs keyed_def)
  have "keyed (ob w)" "stored_ok (ob w)" using w(1) by (simp_all add: sess_inv_def)
  then have new: "sess_inv (oe_now E) (w\<lparr>ob := (ob w)\<lparr>contacts := c\<rparr>\<rparr>)" for c
    using * [of "ob w" c] Q_grew [of "ob w"] by (intro inv_tables [OF w(1)]) (auto simp: stored_ok_def)
  have "inv E w' \<and> (\<exists>c. ob w' = (ob w)\<lparr>contacts := c\<rparr>) \<or> w' = w"
    using r new by (auto simp: provision_account_def provision_rows_def sess_inv_def split: if_splits)
  then show "inv E w' \<and> (\<forall>x. r = Inr x \<longrightarrow> (\<exists>d. p d \<and> grew d (ob w')))"
    using w * by (metis grew_refl)
qed

lemma ok_submit_body: "obeys (inv E) p (submit_body R C T E q) (\<lambda>_ _. True)"
  unfolding submit_body_def Let_def
  apply (rule sp vc obeys_bind obeys_seq)+
   apply (auto simp: earned_def)[1]
  apply (rule sp vc obeys_bind obeys_seq)+
   apply (clarsimp, erule (2) moves)
  apply (rule vc)
  done

lemma ok_submit: "obeys (inv E) (\<lambda>_. True) (submit R C T E q key) (\<lambda>_ _. True)"
proof -
  have replay: "obeys (inv E) p (replay_submit v) (\<lambda>_ _. True)" for p v
    unfolding replay_submit_def by (cases v) (simp_all, (rule vc)+)
  have claimed: "obeys (inv E) p (submit_claimed R C T E q key) (\<lambda>_ _. True)" for p
    unfolding submit_claimed_def
    by (rule obeys_bind, rule obeys_try, rule ok_submit_body) (rule sp vc obeys_seq | erule shed_ops)+
  show ?thesis unfolding submit_def
    by (rule ok_submit_body replay claimed sp vc obeys_bind | erule shed_ops)+
qed

subsection \<open>Requests and runs\<close>

lemma ok_list_cases: "obeys (inv E) (\<lambda>_. True) (list_escalations E f) (\<lambda>_ _. True)"
  unfolding list_escalations_def Let_def by (rule sp vc obeys_bind obeys_seq)+

lemmas handlers_ok = ok_ktp ok_save_personal ok_verify_otp ok_resend ok_challenge ok_face ok_credentials ok_card ok_open ok_view
  ok_cancel ok_join ok_list ok_pick ok_book ok_unbook ok_report ok_case ok_submit ok_list_cases

lemma ok_answer: "obeys (inv E) (\<lambda>_. True) m (\<lambda>_ _. True) \<Longrightarrow> obeys (inv E) p (answer f m) (\<lambda>_ _. True)"
  unfolding answer_def by (rule obeys_bind, erule obeys_pre, simp) (rule vc)

lemma ok_owned: "(\<And>p. obeys (inv E) p m (\<lambda>_ _. True)) \<Longrightarrow> obeys (inv E) p (device_owns_session R E who i m) (\<lambda>_ _. True)"
  unfolding device_owns_session_def by (rule obeys_seq, rule sp, rule obeys_seq, rule sp)

lemma ok_customer: "obeys (inv E) (\<lambda>_. True) (customer_request R Z X E who q) (\<lambda>_ _. True)"
  unfolding customer_request_def Let_def
  by (cases q; simp; (rule ok_owned ok_answer handlers_ok vc obeys_seq | rule sp)+)

lemma ok_agent: "obeys (inv E) (\<lambda>_. True) (agent_request R Z X E a q) (\<lambda>_ _. True)"
  unfolding agent_request_def
  by (cases q; simp; (rule ok_answer handlers_ok vc obeys_seq | rule sp)+)

lemma serve_keeps: "inv E w \<Longrightarrow> inv E (snd (ob_serve R Z X E who q w))"
  by (rule obeys_keeps [where q = "\<lambda>_ _. True"]) (simp_all add: ob_serve_def ok_customer ok_agent)

lemma run_keeps: "sess_inv t w \<Longrightarrow> in_time t es \<Longrightarrow> sess_inv (end_time t es) (snd (ob_run R Z es w))"
proof (induction es arbitrary: t w)
  case (Cons e es)
  let ?E = "ev_env e"
  obtain r w1 where s: "ob_serve R Z (ev_tools e) ?E (ev_caller e) (ev_request e) w = (r, w1)" by force
  have "inv ?E w" using Cons.prems inv_later by simp
  then have "inv ?E w1" using serve_keeps [of ?E w "ev_tools e" "ev_caller e" "ev_request e"] s by simp
  then show ?case using Cons.IH [of "oe_now ?E" w1] Cons.prems s by (auto split: prod.splits)
qed auto

end

end
