(* ===== verification/Onboarding_Guarantees.thy ===== *)
theory Onboarding_Guarantees
  imports Onboarding_System
begin

text \<open>
  Four rules on sessions: the flags that go with a step, the evidence behind the flags, and the two dead ends, of the customer whose
  face was not recognised and of the customer whose credentials were stored without the session moving on.
\<close>

subsection \<open>The flags of a step\<close>

text \<open>
  Up to the examination of the face a step determines the flags. The step of the video call is also entered by an escalation, which
  takes the flags as they are, so that after it only the steps from there on are known.
\<close>

fun flags_typed :: "step \<Rightarrow> steps_completed \<Rightarrow> bool" where
  "flags_typed StepCardSelection f \<longleftrightarrow> f = first_flags (sc_card f)"
| "flags_typed StepOCR f \<longleftrightarrow> f = first_flags (sc_card f)"
| "flags_typed StepPersonalData f \<longleftrightarrow> f = (first_flags (sc_card f))\<lparr>sc_ocr := True\<rparr>"
| "flags_typed StepOTPVerify f \<longleftrightarrow> f = (first_flags (sc_card f))\<lparr>sc_ocr := True, sc_personal := True\<rparr>"
| "flags_typed StepBiometric f \<longleftrightarrow> f = (first_flags (sc_card f))\<lparr>sc_ocr := True, sc_personal := True, sc_otp := True\<rparr>"
| "flags_typed StepVideoCall f \<longleftrightarrow> sc_tnc f"
| "flags_typed StepCredentials f \<longleftrightarrow> sc_tnc f \<and> sc_video f"
| "flags_typed StepReview f \<longleftrightarrow> sc_tnc f \<and> sc_video f \<and> sc_credentials f"
| "flags_typed StepCompleted f \<longleftrightarrow> all_steps_completed f \<and> sc_submitted f"
| "flags_typed _ f \<longleftrightarrow> False"

lemma flags_typed_valid: "flags_typed st f \<Longrightarrow> valid_step st"
  by (cases st) (simp_all add: valid_step_def)

interpretation typed: session_rule "\<lambda>_. True" "\<lambda>_ _. flags_typed"
proof
  show "flags_typed (if st = StepCardSelection then StepOCR else st) (fl\<lparr>sc_card := True\<rparr>)" if "flags_typed st fl" for st fl
    using that by (cases st; cases fl) (auto simp: first_flags_def all_steps_completed_def)
  show "flags_typed StepVideoCall (fl\<lparr>sc_biometric := True\<rparr>)" if "flags_typed StepBiometric fl" for fl
    using that by (cases fl) (simp add: first_flags_def)
  show "flags_typed StepVideoCall fl" if "flags_typed st fl" for st fl
    using that by (cases st; cases fl) (auto simp: first_flags_def all_steps_completed_def)
qed (auto simp: first_flags_def all_steps_completed_def flags_typed_valid)

subsection \<open>The evidence behind the flags\<close>

definition backed :: "ob_db \<Rightarrow> string \<Rightarrow> steps_completed \<Rightarrow> bool" where
  "backed d i f \<longleftrightarrow> (sc_ocr f \<longrightarrow> has_ocr i d) \<and> (sc_personal f \<longrightarrow> has_personal i d) \<and> (sc_biometric f \<longrightarrow> has_face i d)
     \<and> (sc_video f \<longrightarrow> vetted i d) \<and> (sc_credentials f \<longrightarrow> has_credential i d)"

interpretation backed: session_rule "\<lambda>_. True" "\<lambda>d i st f. valid_step st \<and> backed d i f"
  by unfold_locales (auto simp: backed_def grew_def first_flags_def valid_step_def)

text \<open>All that an account needs.\<close>

definition proven :: "ob_db \<Rightarrow> string \<Rightarrow> bool" where
  "proven d i \<longleftrightarrow> has_ocr i d \<and> has_personal i d \<and> has_face i d \<and> vetted i d \<and> has_credential i d"

lemma proven_grew: "proven d i \<Longrightarrow> grew d d' \<Longrightarrow> proven d' i"
  by (simp add: proven_def grew_def)

text \<open>Both rules together, beside the accounts \<open>old\<close> that were opened before.\<close>

definition sound_flags :: "ob_db \<Rightarrow> string \<Rightarrow> step \<Rightarrow> steps_completed \<Rightarrow> bool" where
  "sound_flags d i st f \<longleftrightarrow> flags_typed st f \<and> backed d i f"

lemma proven_all_grew: "\<forall>p \<in> old. proven d (fst p) \<Longrightarrow> grew d d' \<Longrightarrow> \<forall>p \<in> old. proven d' (fst p)"
  using proven_grew by blast

interpretation sound: session_rule "\<lambda>d. \<forall>p \<in> old. proven d (fst p)" sound_flags for old
  unfolding sound_flags_def
  by (rule session_rule.intro; (erule (1) proven_all_grew)?; (elim conjE)?; (rule conjI)?;
      (erule typed.Q_card typed.Q_escalated typed.Q_otp flags_typed_valid | (erule (1) typed.Q_ocr typed.Q_personal typed.Q_face
        typed.Q_vetted typed.Q_submitted) | (auto simp: backed_def grew_def first_flags_def; fail))?)

lemma earned_proven: "sound.earned d i \<Longrightarrow> proven d i"
  unfolding sound.earned_def by (auto simp: sound_flags_def backed_def proven_def all_steps_completed_def)

subsection \<open>Two dead ends\<close>

text \<open>Session \<open>sid\<close> is past the examination of the face, which did not recognise the customer.\<close>

definition faceless :: "string \<Rightarrow> ob_db \<Rightarrow> string \<Rightarrow> step \<Rightarrow> steps_completed \<Rightarrow> bool" where
  "faceless sid d i st f \<longleftrightarrow> valid_step st \<and>
     (i = sid \<longrightarrow> (st = StepVideoCall \<or> st = StepCredentials \<or> st = StepReview) \<and> \<not> sc_biometric f)"

interpretation faceless: session_rule "known_session sid" "faceless sid" for sid
  by unfold_locales (auto simp: faceless_def grew_def valid_step_def all_steps_completed_def)

lemma faceless_not_earned: "\<not> faceless.earned sid d sid"
  unfolding faceless.earned_def by (auto simp: faceless_def all_steps_completed_def)

text \<open>Session \<open>sid\<close> has its credentials, but stands before the summary.\<close>

definition stranded :: "string \<Rightarrow> ob_db \<Rightarrow> string \<Rightarrow> step \<Rightarrow> steps_completed \<Rightarrow> bool" where
  "stranded sid d i st f \<longleftrightarrow> valid_step st \<and> (i = sid \<longrightarrow> st \<noteq> StepReview \<and> st \<noteq> StepCompleted)"

interpretation stranded: session_rule "\<lambda>d. known_session sid d \<and> has_credential sid d" "stranded sid" for sid
  by unfold_locales (auto simp: stranded_def grew_def valid_step_def)

lemma stranded_not_earned: "\<not> stranded.earned sid d sid"
  unfolding stranded.earned_def by (auto simp: stranded_def)

subsection \<open>On Redis\<close>

interpretation store_typed: onboarding_rule "store_redis down" store_live "store_queue down" "\<lambda>_. True" "\<lambda>_ _. flags_typed" "{}" for down ..

interpretation store_backed: onboarding_rule "store_redis down" store_live "store_queue down" "\<lambda>_. True"
  "\<lambda>d i st f. valid_step st \<and> backed d i f" "{}" for down ..

interpretation store_sound: onboarding_rule "store_redis down" store_live "store_queue down" "\<lambda>d. \<forall>p \<in> old. proven d (fst p)" sound_flags old for down old ..

interpretation store_faceless: onboarding_rule "store_redis down" store_live "store_queue down" "known_session sid" "faceless sid" old for down sid old ..

interpretation store_stranded: onboarding_rule "store_redis down" store_live "store_queue down"
  "\<lambda>d. known_session sid d \<and> has_credential sid d" "stranded sid" old for down sid old ..

text \<open>The desk opens: no sessions, no calls, no cases, no accounts, nothing in the cache of sessions.\<close>

definition fresh_start :: "('s \<Rightarrow> time \<Rightarrow> string \<Rightarrow> rval option) \<Rightarrow> 's ob_world \<Rightarrow> bool" where
  "fresh_start live w \<longleftrightarrow> ob_sessions (ob w) = [] \<and> video_calls (ob w) = [] \<and> escalations (ob w) = [] \<and> core_calls w = []
     \<and> (\<forall>t i. live (kv w) t (ob_session_key i) = None)"

text \<open>What the cache holds of session \<open>sid\<close> from \<open>t\<close> on satisfies \<open>P\<close>.\<close>

definition cached_as :: "('s \<Rightarrow> time \<Rightarrow> string \<Rightarrow> rval option) \<Rightarrow> time \<Rightarrow> 's \<Rightarrow> string \<Rightarrow> (ob_session \<Rightarrow> bool) \<Rightarrow> bool" where
  "cached_as live t s sid P \<longleftrightarrow> (\<forall>t' j x. t \<le> t' \<longrightarrow> live s t' (ob_session_key sid) = Some (RJson j) \<longrightarrow> decode_ob_session j = Some x \<longrightarrow> P x)"

text \<open>
  A sound state: the flags of every session, in the tables and in the cache, are those of its step and have their evidence, and every
  account that was opened is proven.
\<close>

definition onboarding_sound :: "('s \<Rightarrow> time \<Rightarrow> string \<Rightarrow> rval option) \<Rightarrow> time \<Rightarrow> 's ob_world \<Rightarrow> bool" where
  "onboarding_sound live t w \<longleftrightarrow> keyed (ob w) \<and> (\<forall>s \<in> set (ob_sessions (ob w)). sound_flags (ob w) (os_id s) (os_step s) (os_flags s))
     \<and> (\<forall>i. cached_as live t (kv w) i (\<lambda>x. os_id x = i \<and> sound_flags (ob w) i (os_step x) (os_flags x)))
     \<and> (\<forall>p \<in> set (core_calls w). proven (ob w) (fst p))"

lemma fresh_start_sound: "fresh_start live w \<Longrightarrow> onboarding_sound live t w"
  by (simp add: fresh_start_def onboarding_sound_def keyed_def cached_as_def)

context redis_queue
begin

lemma sound_run:
  assumes "onboarding_sound live t w" "in_time t es"
  shows "onboarding_sound live (end_time t es) (snd (ob_run R Z es w))"
proof -
  let ?old = "set (core_calls w)" and ?w = "snd (ob_run R Z es w)"
  have r: "onboarding_rule R live Z (\<lambda>d. \<forall>p \<in> ?old. proven d (fst p)) sound_flags" by unfold_locales
  note defs = onboarding_rule.sess_inv_def [OF r] onboarding_rule.cache_ok_def [OF r] sound.stored_ok_def sound.opened_ok_def
  have "onboarding_rule.sess_inv live (\<lambda>d. \<forall>p \<in> ?old. proven d (fst p)) sound_flags ?old t w"
    using assms(1) unfolding defs onboarding_sound_def cached_as_def by blast
  note * = onboarding_rule.run_keeps [OF r this assms(2)]
  have "\<forall>p \<in> set (core_calls ?w). proven (ob ?w) (fst p)"
    using * earned_proven unfolding defs by blast
  then show ?thesis using * unfolding defs onboarding_sound_def cached_as_def by blast
qed

text \<open>From a sound state a rule that holds of one session, in the tables and in the cache, holds on.\<close>

lemma rule_goes_on:
  assumes rule: "session_rule K (Q sid)" and K: "K (ob w)" and sound: "onboarding_sound live t w" "in_time t es"
    and rows: "list_all (\<lambda>s. os_id s = sid \<longrightarrow> P (os_step s) (os_flags s)) (ob_sessions (ob w))"
    and cache: "cached_as live t (kv w) sid (\<lambda>x. P (os_step x) (os_flags x))"
    and Q: "\<And>d i st f. Q sid d i st f \<longleftrightarrow> valid_step st \<and> (i = sid \<longrightarrow> P st f)"
    and none: "\<And>d. \<not> session_rule.earned (Q sid) d sid"
  shows "{n. (sid, n) \<in> set (core_calls (snd (ob_run R Z es w)))} \<subseteq> {n. (sid, n) \<in> set (core_calls w)}"
proof -
  let ?old = "set (core_calls w)"
  have r: "onboarding_rule R live Z K (Q sid)" using redis_queue_axioms rule by (rule onboarding_rule.intro)
  have valid: "valid_step st" if "sound_flags d i st f" for d i st f using that sound.Q_valid by blast
  have "Q sid (ob w) (os_id s) (os_step s) (os_flags s)" if "s \<in> set (ob_sessions (ob w))" for s
    using that rows valid sound(1) unfolding Q list_all_iff onboarding_sound_def by blast
  moreover have "os_id x = i \<and> Q sid (ob w) i (os_step x) (os_flags x)"
    if "t \<le> t'" "live (kv w) t' (ob_session_key i) = Some (RJson j)" "decode_ob_session j = Some x" for i t' j x
    using that cache valid sound(1) unfolding Q onboarding_sound_def cached_as_def by blast
  moreover have "keyed (ob w)" using sound(1) by (simp add: onboarding_sound_def)
  ultimately have "onboarding_rule.sess_inv live K (Q sid) ?old t w"
    unfolding onboarding_rule.sess_inv_def [OF r] onboarding_rule.cache_ok_def [OF r] session_rule.stored_ok_def [OF rule]
      session_rule.opened_ok_def [OF rule] using K by blast
  then have "onboarding_rule.sess_inv live K (Q sid) ?old (end_time t es) (snd (ob_run R Z es w))"
    by (rule onboarding_rule.run_keeps [OF r _ sound(2)])
  then show ?thesis using none
    unfolding onboarding_rule.sess_inv_def [OF r] session_rule.opened_ok_def [OF rule] by fastforce
qed

end

end
