(* ===== verification/Onboarding_Samples.thy ===== *)
theory Onboarding_Samples
  imports Onboarding_Guarantees Auth_Samples
begin

text \<open>
  A customer who opens an account, for the witnesses: toy ciphers and hashes, services outside that always agree, and the reference
  server, which keeps no sessions in its cache.
\<close>

definition no_session_cache :: "time \<Rightarrow> string \<Rightarrow> bool" where
  "no_session_cache t k \<longleftrightarrow> take 19 k = ''onboarding:session:''"

definition ob_store :: "store data_api" where "ob_store = store_redis no_session_cache"

definition ob_queue :: "store queue_api" where "ob_queue = store_queue no_session_cache"

definition sample_ob_env :: "time \<Rightarrow> ob_env" where
  "sample_ob_env t = \<lparr>oe_now = t, oe_db_now = t, oe_short = Some ''s1'', oe_uuid = ''u1'', oe_uuid2 = ''n1'', oe_uuid3 = ''d9'',
     oe_jwt = Some ''jwt'', oe_fault = (\<lambda>_. False)\<rparr>"

definition sample_desk :: desk where
  "sample_desk = \<lparr>dk_enabled = False, dk_default = (\<lambda>p. Inl InternalError), dk_card = (\<lambda>p c. Inr c), dk_version = None,
     dk_tnc = (\<lambda>v. None), dk_deposit = (\<lambda>p. None), dk_legacy = ''''\<rparr>"

definition plain_cipher :: field_cipher where
  "plain_cipher = \<lparr>fc_enabled = False, fc_encrypt = (\<lambda>s. None), fc_decrypt = (\<lambda>s. None)\<rparr>"

definition sample_submit_tools :: submit_tools where
  "sample_submit_tools = \<lparr>su_core = (\<lambda>i p n k. Some (''700'', ''KCP'', ''0001'')), su_provisioner = True, su_hash = (\<lambda>s. CHR ''#'' # s),
     su_card_required = False\<rparr>"

text \<open>One failed examination is enough for an escalation here; a face is recognised when the signature is given as \<open>me\<close>.\<close>

definition sample_ob_tools :: "unit ob_tools" where
  "sample_ob_tools = \<lparr>ol_lib = sample_lib, ol_desk = sample_desk, ol_cipher = plain_cipher,
     ol_ocr = \<lparr>ot_read = (\<lambda>p m. Inr (''3171'', ''BUDI'')), ot_registry = None, ot_upload = True\<rparr>,
     ol_otp = \<lparr>tt_managed = True, tt_start = (\<lambda>p c. Started), tt_check = (\<lambda>p c. CodeApproved), tt_ttl = minutes 5, tt_code = None,
       tt_hash = (\<lambda>s. s), tt_send = (\<lambda>p c. True), tt_digest = (\<lambda>s. s)\<rparr>,
     ol_policy = \<lparr>lp_challenge_ttl = minutes 5, lp_max_failures = 1, lp_cooldown = minutes 1, lp_max_rounds = 1, lp_window = hours 1,
       lp_log_only = False\<rparr>,
     ol_challenge = \<lparr>lt_actions = Some [''BLINK''], lt_nonce = Some ''nonce'', lt_key_ok = (\<lambda>k. True)\<rparr>,
     ol_face = \<lparr>ft_signed = (\<lambda>k c q. fs_signature q = ''me''), ft_integrity = (\<lambda>k n. Some True),
       ft_verdict = (\<lambda>c q. Some (Some \<lparr>ve_passed = True, ve_face_match = True, ve_reason = '''', ve_unavailable = False\<rparr>)), ft_upload = True\<rparr>,
     ol_cred = \<lparr>ct_key = None, ct_decrypt = (\<lambda>s. None), ct_hash = (\<lambda>s. Some (CHR ''H'' # s))\<rparr>,
     ol_submit = sample_submit_tools, ol_gate = None\<rparr>"

definition sample_event :: "time \<Rightarrow> ob_request \<Rightarrow> unit ob_event" where
  "sample_event t q = \<lparr>ev_tools = sample_ob_tools, ev_env = sample_ob_env t,
     ev_caller = \<lparr>cl_device = ''phone'', cl_agent = \<lparr>ai_employee = ''E1'', ai_name = ''Eka'', ai_terminal = ''''\<rparr>, cl_idem = ''k1''\<rparr>,
     ev_request = q\<rparr>"

definition empty_ob_db :: ob_db where
  "empty_ob_db = \<lparr>ob_sessions = [], ocr_rows = [], personal_rows = [], biometric_rows = [], video_calls = [], escalations = [],
     ob_credentials = [], schedules = [], contacts = []\<rparr>"

definition sample_ob_world :: "store ob_world" where
  "sample_ob_world = \<lparr>kv = empty_store, pg = sample_db, sent = [], au = sample_auth_db, ob = empty_ob_db, core_calls = []\<rparr>"

definition sample_opening :: open_request where
  "sample_opening = \<lparr>oq_product = ''TABUNGANKU'', oq_device = ''phone'', oq_tnc = ''v1'', oq_card = '''', oq_card_version = '''', oq_app_version = ''''\<rparr>"

definition sample_person :: personal_input where
  "sample_person = \<lparr>pq_session = ''onb_s1'', pq_nik = ''3171'', pq_nama = ''Budi'', pq_birthplace = ''X'', pq_birthdate = ''1960-01-01'',
     pq_gender = ''LAKI_LAKI'', pq_address = \<lparr>ka_rtrw = '''', ka_postcode = '''', ka_kelurahan = '''', ka_kecamatan = '''', ka_city = '''',
       ka_province = ''''\<rparr>, pq_job = ''PNS'', pq_income = ''5_10_JUTA'', pq_funds = ''GAJI'', pq_phone = ''0812345678'', pq_email = ''b@x.id'',
     pq_channel = ''''\<rparr>"

definition sample_face :: "string \<Rightarrow> face_submission" where
  "sample_face sig = \<lparr>fs_session = ''onb_s1'', fs_challenge = ''chl_s1'', fs_nonce = ''nonce'', fs_device = ''phone'', fs_signature = sig,
     fs_neutral = '''', fs_frames = [], fs_token = ''tok''\<rparr>"

definition sample_report :: call_report where
  "sample_report = \<lparr>rp_queue = ''q_s1'', rp_session = ''onb_s1'', rp_result = ''APPROVED'', rp_rejection = '''', rp_esc_queue = '''',
     rp_notes = '''', rp_recording = '''', rp_ktp_shown = True, rp_identity = True, rp_duration = 60\<rparr>"

text \<open>Up to the examination of the face, and on to the account.\<close>

definition first_half :: "string \<Rightarrow> unit ob_event list" where
  "first_half sig = [sample_event 1000 (OpenSession sample_opening),
     sample_event 2000 (ScanCard ''onb_s1'' ''jpg'' \<lparr>cm_sharpness = None, cm_glare = None, cm_corners = None, cm_resolution = ''''\<rparr>),
     sample_event 3000 (GivePersonal sample_person), sample_event 4000 (GiveCode ''onb_s1'' ''123456''),
     sample_event 5000 (AskChallenge ''onb_s1'' ''k'' ''pk''), sample_event 6000 (ShowFace (sample_face sig))]"

definition second_half :: "unit ob_event list" where
  "second_half = [sample_event 7000 (JoinQueue ''onb_s1''), sample_event 8000 (PickUp ''q_s1''),
     sample_event 9000 (ReportCall sample_report),
     sample_event 10000 (ChooseCredentials \<lparr>cq_session = ''onb_s1'', cq_access = ''a7k2m9'', cq_pin = ''290518'', cq_key = ''k''\<rparr>),
     sample_event 11000 (SubmitOpening \<lparr>sq_session = ''onb_s1'', sq_agreed = True, sq_version = ''v1''\<rparr>)]"

text \<open>After a failed examination: the face is not recognised, and the session goes to the video call.\<close>

definition sample_flags :: "bool \<Rightarrow> bool \<Rightarrow> bool \<Rightarrow> steps_completed" where
  "sample_flags face video cred = \<lparr>sc_tnc = True, sc_ocr = True, sc_personal = True, sc_otp = True, sc_biometric = face,
     sc_video = video, sc_credentials = cred, sc_submitted = False, sc_card = False\<rparr>"

definition sample_ob_session :: "step \<Rightarrow> steps_completed \<Rightarrow> ob_session" where
  "sample_ob_session st f = \<lparr>os_row = ''u1'', os_id = ''onb_s1'', os_device = ''phone'', os_product = Tabunganku, os_step = st,
     os_tnc = ''v1'', os_flags = f, os_created = 1000, os_updated = 6000, os_expires = 86401000, os_deleted = None, os_card = '''',
     os_card_at = None, os_card_version = '''', os_catalog = '''', os_deposit_shown = 0\<rparr>"

definition escalated_db :: ob_db where
  "escalated_db = empty_ob_db\<lparr>ob_sessions := [sample_ob_session StepVideoCall (sample_flags False False False)],
     ocr_rows := [\<lparr>oc_id = ''ocr_s1'', oc_session = ''onb_s1'', oc_nik = ''3171'', oc_nama = ''BUDI'', oc_match = False, oc_created = 2000\<rparr>],
     personal_rows := [\<lparr>pd_id = ''pd_s1'', pd_session = ''onb_s1'', pd_nik = ''3171'', pd_nama = ''Budi'', pd_phone = ''0812345678'',
       pd_email = ''b@x.id'', pd_created = 3000, pd_updated = 3000\<rparr>]\<rparr>"

definition escalated_world :: "store ob_world" where
  "escalated_world = sample_ob_world\<lparr>ob := escalated_db\<rparr>"

text \<open>After the credentials were stored, while the update of the session failed.\<close>

definition sample_credential :: credential where
  "sample_credential = \<lparr>cr_id = ''cred_s1'', cr_session = ''onb_s1'', cr_access_hash = ''Ha7k2m9'', cr_pin_hash = ''H290518'',
     cr_key = ''k'', cr_created = 10000\<rparr>"

definition sample_call :: video_call where
  "sample_call = \<lparr>vc_queue = ''q_s1'', vc_session = ''onb_s1'', vc_number = ''A-001'', vc_status = CallCompleted, vc_agent = ''E1'',
     vc_agent_name = ''Eka'', vc_result = ''APPROVED'', vc_ktp_shown = True, vc_identity = True, vc_notes = '''', vc_duration = 60,
     vc_recording = '''', vc_joined = 7000, vc_started = Some 8000, vc_ended = Some 9000\<rparr>"

definition stranded_db :: ob_db where
  "stranded_db = escalated_db\<lparr>ob_sessions := [sample_ob_session StepCredentials (sample_flags True True False)],
     biometric_rows := [\<lparr>br_id = ''bio_s1'', br_session = ''onb_s1'', br_face_match = True, br_created = 6000\<rparr>],
     video_calls := [sample_call], ob_credentials := [sample_credential]\<rparr>"

definition stranded_world :: "store ob_world" where
  "stranded_world = sample_ob_world\<lparr>ob := stranded_db\<rparr>"

text \<open>The summary, all steps done.\<close>

definition review_db :: ob_db where
  "review_db = stranded_db\<lparr>ob_sessions := [sample_ob_session StepReview (sample_flags True True True)]\<rparr>"

definition review_world :: "store ob_world" where
  "review_world = sample_ob_world\<lparr>ob := review_db\<rparr>"

lemma nothing_cached [simp]: "cached_as store_live t empty_store i P"
  by (simp add: cached_as_def store_live_def mem_live_def empty_store_def)

lemmas sample_ob_defs = escalated_world_def escalated_db_def stranded_world_def stranded_db_def review_world_def review_db_def
  sample_ob_session_def sample_flags_def sample_credential_def sample_call_def empty_ob_db_def

lemma samples_sound:
  "onboarding_sound store_live t escalated_world" "onboarding_sound store_live t stranded_world" "onboarding_sound store_live t review_world"
  unfolding onboarding_sound_def
  by (simp_all add: sample_ob_defs sample_ob_world_def keyed_def sound_flags_def backed_def evidence_defs approved_call_def)

end
