(* ===== verification/Onboarding_Properties.thy ===== *)
theory Onboarding_Properties
  imports Onboarding_Samples
begin

text \<open>What account opening promises, and where it fails its customers.\<close>

subsection \<open>Along every run\<close>





text \<open>C13: A customer whose face was not recognised and who was sent to the video call instead can do what he likes: no account is ever
  opened for the session. The escalation leaves the flag of the face off, no later step sets it, and the submission asks for it.\<close>

theorem escalated_never_opens:
  assumes "redis_queue R live Z" "onboarding_sound live t w" "in_time t es" "known_session sid (ob w)"
    "list_all (\<lambda>s. os_id s = sid \<longrightarrow> (os_step s = StepVideoCall \<or> os_step s = StepCredentials \<or> os_step s = StepReview)
       \<and> \<not> sc_biometric (os_flags s)) (ob_sessions (ob w))"
    "cached_as live t (kv w) sid (\<lambda>x. (os_step x = StepVideoCall \<or> os_step x = StepCredentials \<or> os_step x = StepReview)
       \<and> \<not> sc_biometric (os_flags x))"
  shows "{n. (sid, n) \<in> set (core_calls (snd (ob_run R Z es w)))} \<subseteq> {n. (sid, n) \<in> set (core_calls w)}"
  by (rule redis_queue.rule_goes_on [where Q = faceless and P = "\<lambda>st f. (st = StepVideoCall \<or> st = StepCredentials \<or> st = StepReview)
      \<and> \<not> sc_biometric f", OF assms(1) faceless.session_rule_axioms assms(4,2,3,5,6) faceless_def faceless_not_earned])

theorem escalated_never_opens_witness:
  "{n. (''onb_s1'', n) \<in> set (core_calls (snd (ob_run ob_store ob_queue second_half escalated_world)))}
     \<subseteq> {n. (''onb_s1'', n) \<in> set (core_calls escalated_world)}"
proof (rule escalated_never_opens)
  show "redis_queue ob_store store_live ob_queue" unfolding ob_store_def ob_queue_def by (rule store_queue.redis_queue_axioms)
  show "onboarding_sound store_live 0 escalated_world" by (rule samples_sound)
  show "in_time 0 second_half" by (simp add: second_half_def sample_event_def sample_ob_env_def)
  show "cached_as store_live 0 (kv escalated_world) ''onb_s1'' P" for P by (simp add: escalated_world_def sample_ob_world_def)
qed (simp_all add: sample_ob_defs evidence_defs)



end
