(* ===== verification/Onboarding_Submissions.thy ===== *)
theory Onboarding_Submissions
  imports Onboarding_Samples
begin

text \<open>The last step of account opening: what a second submission does, what a failed one leaves behind, and what the customer gets.\<close>

subsection \<open>The submission\<close>

text \<open>What a submission does in Redis leaves the slot of its idempotency key alone.\<close>

definition slot_stays :: "('s \<Rightarrow> time \<Rightarrow> string \<Rightarrow> rval option) \<Rightarrow> time \<Rightarrow> string \<Rightarrow> 's \<Rightarrow> 's ob_world \<Rightarrow> bool" where
  "slot_stays live t k s w \<longleftrightarrow> (\<forall>t' \<ge> t. live (kv w) t' k = live s t' k)"

context redis_data
begin

lemma get_session_frame: "get_ob_session R t i s = (r, s') \<Longrightarrow> t \<le> t' \<Longrightarrow> live s' t' k = live s t' k"
  by (auto simp: get_ob_session_def dest: get_frame split: prod.splits reply.splits option.splits rval.splits)

lemma store_session_frame:
  assumes "store_ob_session R t x s = (r, s')" "t \<le> t'" "k \<noteq> ob_session_key (os_id x)"
  shows "live s' t' k = live s t' k"
  using assms set_frame [OF _ assms(3,2)] by (auto simp: store_ob_session_def split: if_splits)

lemma slot_kv:
  assumes "\<And>i. k \<noteq> ob_session_key i"
  shows "keeps (slot_stays live (oe_now E) k s0) (kv_maybe (get_ob_session R (oe_now E) i))"
    "keeps (slot_stays live (oe_now E) k s0) (best_effort_kv (store_ob_session R (oe_now E) x))"
proof -
  show "keeps (slot_stays live (oe_now E) k s0) (kv_maybe (get_ob_session R (oe_now E) i))"
    using get_session_frame [of "oe_now E" i] by (auto simp: keeps_def slot_stays_def kv_maybe_def split: prod.splits reply.splits)
  show "keeps (slot_stays live (oe_now E) k s0) (best_effort_kv (store_ob_session R (oe_now E) x))"
    using store_session_frame [OF prod.collapse [symmetric] _ assms] by (auto simp: keeps_def slot_stays_def best_effort_kv_def)
qed

lemma slot_write: "keeps (slot_stays live t k s0) (ob_write E Qn g)"
  by (auto simp: keeps_def slot_stays_def ob_write_def split: sum.splits prod.splits)

lemma slot_provision: "keeps (slot_stays live t k s0) (provision_account E h pp)" "keeps (slot_stays live t k s0) (core_account T i pr nama nik)"
  by (auto simp: keeps_def slot_stays_def provision_account_def provision_rows_def core_account_def split: option.splits prod.splits if_splits)

lemma slot_submit:
  assumes "\<And>i. k \<noteq> ob_session_key i"
  shows "keeps (slot_stays live (oe_now E) k s0) (submit_body R C T E q)"
  unfolding submit_body_def ready_session_def ready_person_def resolve_ob_session_def stored_session_def live_or_expired_def
    require_step_def advance_def Let_def
  by (rule keeps_intros slot_write slot_provision | rule slot_kv, rule assms)+

text \<open>After a success the slot holds the answer, or still the mark of the running request.\<close>

lemma submitted_slot:
  assumes "submit R C T E q key w = (Inr x, w1)" "key \<noteq> ''''" "live (kv w) (oe_now E) (ob_idem_key (sq_session q) key) = None"
    "oe_now E \<le> t"
    "live (kv w1) t (ob_idem_key (sq_session q) key) = Some v" "v \<noteq> RText ob_idem_running"
  shows "v = RJson (encode_submit_reply x)"
proof -
  let ?k = "ob_idem_key (sq_session q) key" and ?t = "oe_now E"
  have free: "?k \<noteq> ob_session_key i" for i by (simp add: ob_key_defs)
  obtain c s1 where c: "ob_idem_claim R ?t (sq_session q) key (kv w) = (Reply c, s1)"
    using assms(1,2) by (auto simp: submit_def svc_bind_def on_kv_def split: prod.splits reply.splits)
  have set: "api_setnx (strs R) ?t ?k (RText ob_idem_running) ob_idem_claim_ttl (kv w) = (Reply True, s1)" and fresh: "c = ClaimFresh"
    using c setnx_reply [of ?t ?k _ _ "kv w"] assms(3)
    by (fastforce simp: ob_idem_claim_def split: prod.splits reply.splits bool.splits option.splits if_splits)+
  let ?w = "w\<lparr>kv := s1\<rparr>"
  have "submit_claimed R C T E q key ?w = (Inr x, w1)"
    using assms(1,2) c fresh by (simp add: submit_def svc_bind_def on_kv_def)
  then obtain w2 where body: "submit_body R C T E q ?w = (Inr x, w2)"
    and w1: "w1 = w2\<lparr>kv := snd (ob_idem_persist R ?t (sq_session q) key (encode_submit_reply x) (kv w2))\<rparr>"
    by (auto simp: submit_claimed_def svc_bind_def svc_try_def svc_seq_def best_effort_kv_def svc_return_def svc_throw_def
        split: prod.splits sum.splits)
  have "slot_stays live ?t ?k s1 w2"
    by (rule keepsD [OF slot_submit [OF free] _ body]) (simp add: slot_stays_def)
  then have old: "live (kv w2) t ?k = shows_put (RText ob_idem_running) ?t ob_idem_claim_ttl t"
    using setnx_new [OF set assms(4)] assms(4) by (simp add: slot_stays_def)
  obtain r s3 where p: "api_set (strs R) ?t ?k (RJson (encode_submit_reply x)) ob_idem_ttl (kv w2) = (r, s3)" by force
  have "live s3 t ?k = live (kv w2) t ?k \<or> live s3 t ?k = shows_put (RJson (encode_submit_reply x)) ?t ob_idem_ttl t"
  proof (cases r)
    case (Reply u)
    then show ?thesis using set_reply [of ?t ?k _ _ "kv w2" u s3 t] p assms(4) by blast
  next
    case Fault
    then show ?thesis using set_fault [of ?t ?k _ _ "kv w2" s3] p assms(4) by blast
  qed
  then show ?thesis using assms(5,6) old w1 p by (auto simp: ob_idem_persist_def shows_put_def split: if_splits)
qed

end

text \<open>C12: A submission that succeeded is not repeated: as long as its answer lies under the idempotency key, a second submission of the
  session with that key is answered with the same account, or with an internal error when Redis fails, and nothing is opened or written,
  whatever it says and whatever its environment.\<close>

theorem submit_replays:
  assumes "redis_data R live" "key \<noteq> ''''" "live (kv w) (oe_now E) (ob_idem_key (sq_session q) key) = None"
    "submit R C T E q key w = (Inr x, w1)" "oe_now E \<le> oe_now E'"
    "live (kv w1) (oe_now E') (ob_idem_key (sq_session q) key) = Some v" "v \<noteq> RText ob_idem_running"
    "sq_session q' = sq_session q" "submit R C' T' E' q' key w1 = (r, w2)"
  shows "(r = Inr x \<or> r = Inl InternalError) \<and> ob w2 = ob w1 \<and> au w2 = au w1 \<and> pg w2 = pg w1 \<and> core_calls w2 = core_calls w1"
proof -
  let ?k = "ob_idem_key (sq_session q) key"
  have v: "v = RJson (encode_submit_reply x)" by (rule redis_data.submitted_slot [OF assms(1,4,2,3,5,6,7)])
  obtain c s1 where c: "ob_idem_claim R (oe_now E') (sq_session q') key (kv w1) = (c, s1)" by force
  have "c = Fault \<or> c = Reply (ClaimStored v)"
  proof -
    obtain b s0 where b: "api_setnx (strs R) (oe_now E') ?k (RText ob_idem_running) ob_idem_claim_ttl (kv w1) = (b, s0)" by force
    have no: "b = Fault \<or> b = Reply False"
    proof (cases b)
      case (Reply y)
      then have "y \<longleftrightarrow> live (kv w1) (oe_now E') ?k = None"
        using redis_contract.setnx_reply [OF redis_data.axioms(1) [OF assms(1)]] b by blast
      then show ?thesis using Reply assms(6) by simp
    qed simp
    have "live s0 (oe_now E') ?k = Some v" if "b = Reply False"
      using redis_contract.setnx_old [OF redis_data.axioms(1) [OF assms(1)]] b that assms(6) by auto
    then have got: "api_get (strs R) (oe_now E') ?k s0 = (Reply g, s2) \<Longrightarrow> b = Reply False \<Longrightarrow> g = Some v" for g s2
      using redis_contract.get_reply [OF redis_data.axioms(1) [OF assms(1)]] by metis
    show ?thesis using c b no got assms(7,8) by (auto simp: ob_idem_claim_def split: prod.splits reply.splits option.splits if_splits)
  qed
  then show ?thesis using assms(2,9) c v
    by (auto simp: submit_def svc_bind_def on_kv_def replay_submit_def svc_option_def svc_return_def svc_throw_def)
qed

definition sample_submission :: submit_request where
  "sample_submission = \<lparr>sq_session = ''onb_s1'', sq_agreed = True, sq_version = ''v1''\<rparr>"

definition submit_sample :: "time \<Rightarrow> store ob_world \<Rightarrow> (app_err + submit_reply) \<times> store ob_world" where
  "submit_sample t = submit ob_store plain_cipher sample_submit_tools (sample_ob_env t) sample_submission ''k1''"

lemma sample_submitted:
  "case submit_sample 11000 review_world of (r, w1) \<Rightarrow> (case r of Inr x \<Rightarrow> True | Inl e \<Rightarrow> False)
     \<and> (case store_live (kv w1) 12000 (ob_idem_key ''onb_s1'' ''k1'') of Some v \<Rightarrow> v \<noteq> RText ob_idem_running | None \<Rightarrow> False)"
  by code_simp

theorem submit_replays_witness:
  "core_calls (snd (submit_sample 12000 (snd (submit_sample 11000 review_world)))) = core_calls (snd (submit_sample 11000 review_world))"
proof -
  obtain x w1 v where w1: "submit_sample 11000 review_world = (Inr x, w1)" and v: "v \<noteq> RText ob_idem_running"
      "store_live (kv w1) 12000 (ob_idem_key ''onb_s1'' ''k1'') = Some v"
    using sample_submitted by (auto split: prod.splits sum.splits option.splits)
  obtain r w2 where w2: "submit_sample 12000 w1 = (r, w2)" by force
  have "redis_data ob_store store_live" unfolding ob_store_def by (rule store.redis_data_axioms)
  moreover have "store_live (kv review_world) 11000 (ob_idem_key ''onb_s1'' ''k1'') = None"
    by (simp add: review_world_def sample_ob_world_def empty_store_def store_live_def mem_live_def)
  ultimately have "core_calls w2 = core_calls w1"
    using submit_replays [of ob_store store_live "''k1''" review_world "sample_ob_env 11000" sample_submission plain_cipher
        sample_submit_tools x w1 "sample_ob_env 12000" v sample_submission plain_cipher sample_submit_tools r w2] w1 w2 v
    by (simp add: submit_sample_def sample_submission_def sample_ob_env_def)
  then show ?thesis using w1 w2 by simp
qed





text \<open>C27: The limits of a new customer are never those the program means to give: the trigger on new users inserts a row for each of its types
  first, and the inserts of the program then do nothing. A new customer may spend 10,000,000 a day on e-wallets where the program says
  20,000,000, and 10,000,000 on QRIS where it says 5,000,000.\<close>

theorem default_limits_never_apply:
  assumes "list_all (\<lambda>l. li_user l \<noteq> u) ls"
  shows "filter (\<lambda>l. li_user l = u) (provision_limits u ls) = seeded_limits u
    \<and> map_of default_limits ''EWALLET'' = Some 20000000 \<and> map_of default_limits ''QRIS'' = Some 5000000
    \<and> map (\<lambda>l. (li_type l, li_daily l)) (filter (\<lambda>l. li_type l = ''EWALLET'' \<or> li_type l = ''QRIS'') (seeded_limits u))
        = [(''EWALLET'', 10000000), (''QRIS'', 10000000)]"
proof -
  have none: "\<not> list_ex (\<lambda>x. li_user x = u \<and> P x) ls" "filter (\<lambda>l. li_user l = u) ls = []" for P
    using assms by (auto simp: list_ex_iff list_all_iff)
  have "provision_limits u ls = ls @ seeded_limits u"
    by (simp add: provision_limits_def seeded_limits_def default_limits_def insert_limit_def none)
  then show ?thesis using none by (simp add: default_limits_def seeded_limits_def)
qed

theorem default_limits_never_apply_witness:
  "filter (\<lambda>l. li_user l = ''u1'') (provision_limits ''u1'' []) = seeded_limits ''u1''"
  using default_limits_never_apply [of "''u1''" "[]"] by simp

subsection \<open>Codes that are easy to guess\<close>

text \<open>Three characters in a row, each one more than the one before, or each one less.\<close>

fun three_run :: "string \<Rightarrow> bool" where
  "three_run (a # b # c # s) \<longleftrightarrow> (let d = char_num b - char_num a in (d = 1 \<or> d = -1) \<and> char_num c - char_num b = d) \<or> three_run (b # c # s)"
| "three_run _ \<longleftrightarrow> False"

lemma three_run_index:
  "three_run s \<longleftrightarrow> (\<exists>k. k + 2 < List.length s \<and> (let d = char_num (s ! (k + 1)) - char_num (s ! k) in
     (d = 1 \<or> d = -1) \<and> char_num (s ! (k + 2)) - char_num (s ! (k + 1)) = d))" (is "_ \<longleftrightarrow> (\<exists>k. ?P s k)")
proof (induction s rule: three_run.induct)
  case (1 a b c s)
  have "(\<exists>k. ?P (a # b # c # s) k) \<longleftrightarrow> ?P (a # b # c # s) 0 \<or> (\<exists>k. ?P (a # b # c # s) (Suc k))"
    by (metis not0_implies_Suc)
  then show ?case using 1 by (simp add: Let_def)
qed (simp_all)

lemma sequential_from_run:
  "prev \<noteq> 1 \<Longrightarrow> prev \<noteq> -1 \<Longrightarrow> sequential_from p prev 1 s = three_run (p # s)"
  "prev = 1 \<or> prev = -1 \<Longrightarrow> sequential_from p prev 2 s = (three_run (p # s) \<or> s \<noteq> [] \<and> char_num (hd s) - char_num p = prev)"
proof (induction s arbitrary: p prev)
  case (Cons c s)
  { case 1
    then show ?case using Cons.IH(1) [of "char_num c - char_num p" c] Cons.IH(2) [of "char_num c - char_num p" c]
      by (cases s) (auto simp: Let_def sequential_run_def)
  next
    case 2
    then show ?case using Cons.IH(1) [of "char_num c - char_num p" c] Cons.IH(2) [of "char_num c - char_num p" c]
      by (cases s) (auto simp: Let_def sequential_run_def)
  }
qed simp_all

text \<open>C26: The search for sequential codes finds exactly the codes with three characters in a row that ascend or descend by one.\<close>

theorem is_sequential_spec:
  "is_sequential s \<longleftrightarrow> (\<exists>k. k + 2 < List.length s \<and> (let d = char_num (s ! (k + 1)) - char_num (s ! k) in
     (d = 1 \<or> d = -1) \<and> char_num (s ! (k + 2)) - char_num (s ! (k + 1)) = d))"
proof (cases s)
  case (Cons c cs)
  then show ?thesis using sequential_from_run(1) [of 0 c cs]
    by (auto simp: is_sequential_def sequential_run_def three_run_index)
qed (simp add: is_sequential_def sequential_run_def)

end
