(* ===== verification/Spec2Isabelle.thy ===== *)
theory Spec2Isabelle
  imports Data_Properties Auth_Properties PIN_Properties Ticket_Properties Office_Properties
    Onboarding_Properties Onboarding_Submissions
begin

text \<open>
  Verification of the BCA mobile API, a banking backend in Go on Postgres and Redis. Source paths are
  relative to \<open>src/internal\<close>.

  The program. A request reaches a handler, a handler calls a domain service (\<open>domain/*/service*.go\<close>), and a service uses Redis
  (\<open>repository/redis\<close>, \<open>pkg/idempotency\<close>) for what is short-lived (idempotency slots, inquiries, verification tokens, decoded
  QRIS codes, cached lists and receipts) and Postgres (\<open>repository/postgres\<close>) for the ledger. The three rails that move money
  (transfer, e-wallet top-up, QRIS payment) share one shape: claim the idempotency slot, consume the PIN token and the inquiry,
  check them against the request, post in one SERIALIZABLE transaction with up to three attempts, then persist the response;
  on an error give the slot, the token and the inquiry back. The authentication side issues sessions and the PIN tokens that the
  rails consume: it keeps users, devices, sessions and biometric keys in Postgres and rate limits, nonces, locks, challenges and
  session markers in Redis. Account opening is a session that customer and bank agents move through ten steps (terms, card, identity
  card, personal data, one-time code, face, video call, credentials, summary, done); the last one opens an account at the core
  banking system and creates the customer in the tables of the other two sides.

  The model. A world is the state of Redis, the tables and the notifications sent (\<open>Service\<close>). A handler is a function
  from the world to a sum of an application error and a response, together with the new world; a statement of a SQL transaction
  is a function on the tables with an error of the driver, a unique violation, no row, or an application error (\<open>Ledger\<close>).
  What the environment decides (clock, fresh ids, faults of single statements, the reply to COMMIT, cancellation) is a record of the
  handler's arguments, so every theorem holds for all of it. Redis is a record of operations on an abstract state, and
  the locale \<open>redis_contract\<close> states the documented behaviour of the commands; it is interpreted on a map with expiry times that may
  fail at any command. Functions of libraries (UUID and decimal parsing, SHA-256, time formats, base64) are the record \<open>lib\<close>.
  Amounts are rationals, as decimals of the library are; a column DECIMAL(18,2) rounds (\<open>num2\<close>). Times are milliseconds.

  Theories and what they model.
  \<open>Prelude\<close>: types, errors (\<open>pkg/apperr\<close>), rounding, list lemmas. \<open>Redis\<close>: the contract. \<open>Entities\<close>:
  \<open>domain/transaction/entity.go\<close>. \<open>Idempotency\<close>: \<open>pkg/idempotency\<close>. \<open>Transaction_Cache\<close>: \<open>transaction_cache.go\<close>. \<open>Ledger\<close>, \<open>Posting\<close>:
  tables and statements. \<open>Double_Entry\<close>: the abstract posting of signed legs, the ledger invariant. \<open>Lock_Order\<close>: lock order and the
  two sorting routines. \<open>Rail\<close>, \<open>Rail_Legs\<close>: the contract of a rail, from which its guarantees follow once. \<open>Transfer_Executor\<close>,
  \<open>Outbound\<close>, \<open>EWallet_Executor\<close>, \<open>QRIS_Executor\<close>: the executors, each an interpretation of \<open>rail\<close>. \<open>Service\<close>, \<open>Transfer_Service\<close>,
  \<open>EWallet_Service\<close>, \<open>QRIS_Service\<close>, \<open>EMVCo\<close>, \<open>Masking\<close>: the services. \<open>Transfer_Laws\<close>, \<open>Request_Keys\<close>, \<open>Transfer_Guarantees\<close>,
  \<open>QRIS_Guarantees\<close>: what a request guarantees. \<open>Keyset\<close>, \<open>Statements\<close>: pagination by cursors. \<open>Listings\<close>: cached lists and receipts.
  \<open>Redis_Data\<close>: the rest of the Redis contract (expiry, sets, sorted sets) and a reference server. \<open>Rate_Limit\<close>: \<open>ratelimit.go\<close>,
  \<open>auth_ratelimit.go\<close> and the sliding window they implement. \<open>Auth_Store\<close>: the authentication tables and queries. \<open>Session_Cache\<close>: session
  markers, revoked tokens, nonces, locks, challenges. \<open>Auth_Service\<close>: \<open>domain/auth\<close>, each handler as a whole. \<open>Auth_Frames\<close>,
  \<open>Auth_Guarantees\<close>, \<open>Auth_Trace\<close>, \<open>Auth_Tables\<close>: what every handler keeps, and any sequence of them.
  \<open>Staff_Requests\<close>: what the internal services share. \<open>Tickets\<close>: \<open>domain/ticket\<close> with its repository and handler; \<open>Ticket_Desk\<close>: the
  abstract life cycle of a ticket, which the service refines. \<open>Agent_Store\<close>: the tables of the service desk. \<open>Agent_Sessions\<close>,
  \<open>Terminals\<close>: \<open>domain/cs\<close>, logins, dual control, gates and activation, and the requests as one step function \<open>serve_cs\<close>.
  \<open>Office_Tables\<close>, \<open>Office_Frames\<close>: the invariant of those tables and what each request leaves alone.
  Account opening: \<open>Onboarding_Store\<close>, \<open>Onboarding_Tables\<close>: steps, rows and queries (\<open>onboarding_repo.go\<close>). \<open>Onboarding_Cache\<close>: its
  part of Redis, with the locale \<open>redis_queue\<close> for the sorted set of waiting calls. \<open>Onboarding_Sessions\<close>, \<open>Onboarding_Identity\<close>,
  \<open>Onboarding_Face\<close>, \<open>Video_Calls\<close>, \<open>Onboarding_Submit\<close>: the services of \<open>domain/onboarding\<close>. \<open>Onboarding_Requests\<close>: all requests as
  the step function \<open>ob_serve\<close> and runs of it. \<open>Onboarding_Logic\<close>: triples over handlers. \<open>Onboarding_Evidence\<close>: what the rows prove.
  \<open>Onboarding_Rules\<close>, \<open>Onboarding_Moves\<close>: the locales \<open>session_rule\<close>, a relation between the tables, the step and the flags of a
  session that every legal move keeps, and \<open>onboarding_rule\<close>, in which \<open>Onboarding_Handlers\<close>, \<open>Onboarding_Desks\<close>,
  \<open>Onboarding_Decisions\<close> and \<open>Onboarding_System\<close> prove once that every request keeps such a rule, in the table and in the cached
  copies. \<open>Onboarding_Guarantees\<close> interprets them five times; \<open>Onboarding_Samples\<close>: concrete sessions for the witnesses.
  \<open>Numbers\<close>: reference numbers and amounts in text. \<open>System\<close>: sequences of requests. \<open>Samples\<close>, \<open>Auth_Samples\<close>: a concrete bank for the witnesses.
  \<open>Auth_Properties\<close>, \<open>PIN_Properties\<close>, \<open>Posting_Properties\<close>, \<open>Request_Properties\<close>, \<open>Data_Properties\<close>, \<open>Ticket_Properties\<close>,
  \<open>Office_Properties\<close>, \<open>Onboarding_Properties\<close>, \<open>Onboarding_Submissions\<close> and this theory state the properties.

  Bounds and fuel. The retry loop is a function with a measure, its bound the three attempts of the code; the parser of TLV fields
  recurses on the rest of the input and is total, with a panic of the Go code as a result of its own; following cursors takes
  as much fuel as there are pages, and the theorems say how much is enough.

  What is outside. The text on the identity card with its parser, the registry of residents, messaging, the examination of the frames
  of a face, the catalogues of cards and products, the core banking system, ciphers and signatures are records of functions
  (\<open>ob_tools\<close>), chosen anew for every request, and the properties hold for all of them.

  Not modelled. Concurrency inside a transaction: SERIALIZABLE isolation is taken as what Postgres documents, a transaction acts
  on the tables at once or fails with 40001; requests of account opening run one after the other. Push delivery of notifications,
  messages of the signaling hub, logging, metrics, configuration and wiring. The audit log of the customer side, which nothing reads.
  The account and card services, registration, the catalogues and texts, the read-only views of the service desk: the manifest says
  why for each.
\<close>

subsection \<open>The system\<close>





end
